(* ===== verification/C_Prelude.thy ===== *)
theory C_Prelude
  imports Main "HOL-Library.Word" "HOL-Library.Sublist"
begin

text \<open>
  Shared vocabulary of the development: the C integer types and the parts of the C
  library that several components call (\<^verbatim>\<open>strstr\<close>, \<^verbatim>\<open>strtok_r\<close>, \<^verbatim>\<open>strchr\<close>,
  \<^verbatim>\<open>strtoul\<close>, \<^verbatim>\<open>atoi\<close>), each written for C strings without their terminating NUL,
  the little-endian image of a 32-bit word, and the generic lemmas on lists and
  strings the component theories share.
\<close>

named_theorems c_string \<open>equations and facts about the C string functions\<close>

type_synonym u8 = "8 word"
type_synonym u32 = "32 word"
type_synonym u64 = "64 word"

subsection \<open>Character classes\<close>

definition isspace :: "char \<Rightarrow> bool" where
  "isspace c = (let n = (of_char c :: nat) in n = 32 \<or> (9 \<le> n \<and> n \<le> 13))"

definition digit_val :: "char \<Rightarrow> nat option" where
  "digit_val c = (let n = (of_char c :: nat) in
     if 48 \<le> n \<and> n \<le> 57 then Some (n - 48)
     else if 97 \<le> n \<and> n \<le> 122 then Some (n - 87)
     else if 65 \<le> n \<and> n \<le> 90 then Some (n - 55)
     else None)"

definition is_digit :: "nat \<Rightarrow> char \<Rightarrow> bool" where
  "is_digit base c = (case digit_val c of None \<Rightarrow> False | Some d \<Rightarrow> d < base)"

subsection \<open>Searching and splitting C strings\<close>

text \<open>\<^verbatim>\<open>strstr\<close>: the suffix of the haystack that starts at the first match.\<close>

fun strstr :: "string \<Rightarrow> string \<Rightarrow> string option" where
  "strstr [] nd = (if nd = [] then Some [] else None)"
| "strstr (c # hs) nd = (if prefix nd (c # hs) then Some (c # hs) else strstr hs nd)"

text \<open>\<^verbatim>\<open>strchr\<close>: the index of the first occurrence of a character.\<close>

fun strchr :: "string \<Rightarrow> char \<Rightarrow> nat option" where
  "strchr [] x = None"
| "strchr (c # s) x = (if c = x then Some 0 else map_option Suc (strchr s x))"

text \<open>
  \<^verbatim>\<open>strtok_r\<close>: the next token of the string the save pointer points at, and the new
  save pointer. \<open>strtok_visible\<close> is what the buffer reads as afterwards: the call
  that returns a token overwrites the delimiter behind it with NUL.
\<close>

definition strtok_r :: "string \<Rightarrow> string \<Rightarrow> string option \<times> string" where
  "strtok_r delims s =
     (let t = dropWhile (\<lambda>c. c \<in> set delims) s in
      if t = [] then (None, [])
      else (Some (takeWhile (\<lambda>c. c \<notin> set delims) t),
            drop 1 (dropWhile (\<lambda>c. c \<notin> set delims) t)))"

definition strtok_visible :: "string \<Rightarrow> string \<Rightarrow> string" where
  "strtok_visible delims s =
     takeWhile (\<lambda>c. c \<in> set delims) s @
     takeWhile (\<lambda>c. c \<notin> set delims) (dropWhile (\<lambda>c. c \<in> set delims) s)"

subsection \<open>Numbers in strings\<close>

fun scan_digits :: "nat \<Rightarrow> nat \<Rightarrow> string \<Rightarrow> nat" where
  "scan_digits base acc [] = acc"
| "scan_digits base acc (c # s) =
     (case digit_val c of
        None \<Rightarrow> acc
      | Some d \<Rightarrow> if d < base then scan_digits base (acc * base + d) s else acc)"

definition scan_sign :: "string \<Rightarrow> bool \<times> string" where
  "scan_sign s = (case s of [] \<Rightarrow> (False, [])
     | c # t \<Rightarrow> if c = CHR ''-'' then (True, t)
                else if c = CHR ''+'' then (False, t) else (False, s))"

text \<open>The base-0 prefix rule: \<^verbatim>\<open>0x\<close> before a hexadecimal digit, \<^verbatim>\<open>0\<close>, or decimal.\<close>

definition scan_base :: "string \<Rightarrow> nat \<times> string" where
  "scan_base s =
     (case s of
        c0 # c1 # c2 # t \<Rightarrow>
          if c0 = CHR ''0'' \<and> (c1 = CHR ''x'' \<or> c1 = CHR ''X'') \<and> is_digit 16 c2
          then (16, c2 # t) else if c0 = CHR ''0'' then (8, s) else (10, s)
      | c0 # t \<Rightarrow> if c0 = CHR ''0'' then (8, s) else (10, s)
      | [] \<Rightarrow> (10, s))"

text \<open>
  \<^verbatim>\<open>strtoul (s, NULL, 0)\<close> for an \<^verbatim>\<open>unsigned long\<close> of \<open>w\<close> bits: the value saturates at
  \<^verbatim>\<open>ULONG_MAX\<close>, and a minus sign negates it modulo \<open>2 ^ w\<close>.
\<close>

definition strtoul0 :: "nat \<Rightarrow> string \<Rightarrow> nat" where
  "strtoul0 w s =
     (let (neg, t) = scan_sign (dropWhile isspace s);
          (base, u) = scan_base t;
          v = scan_digits base 0 u
      in if v \<ge> 2 ^ w then 2 ^ w - 1
         else if neg then (2 ^ w - v) mod 2 ^ w else v)"

text \<open>
  \<^verbatim>\<open>atoi\<close> as \<^verbatim>\<open>(int) strtol (s, NULL, 10)\<close> for a \<^verbatim>\<open>long\<close> of \<open>w\<close> bits: the value saturates
  in \<^verbatim>\<open>long\<close> and is then cut to a 32-bit \<^verbatim>\<open>int\<close>.
\<close>

definition to_int32 :: "int \<Rightarrow> int" where
  "to_int32 v = (v + 2 ^ 31) mod 2 ^ 32 - 2 ^ 31"

definition atoi :: "nat \<Rightarrow> string \<Rightarrow> int" where
  "atoi w s =
     (let (neg, t) = scan_sign (dropWhile isspace s);
          v = (if neg then - int (scan_digits 10 0 t) else int (scan_digits 10 0 t))
      in to_int32 (max (- (2 ^ (w - 1))) (min (2 ^ (w - 1) - 1) v)))"

text \<open>\<^verbatim>\<open>snprintf (s, n, "%d", v)\<close> for a buffer that holds the result.\<close>

fun dec_digits :: "nat \<Rightarrow> string" where
  "dec_digits n = (if n < 10 then [char_of (48 + n)] else dec_digits (n div 10) @ [char_of (48 + n mod 10)])"

declare dec_digits.simps [simp del]

definition fmt_d :: "int \<Rightarrow> string" where
  "fmt_d v = (if v < 0 then CHR ''-'' # dec_digits (nat (- v)) else dec_digits (nat v))"

subsection \<open>Little-endian words\<close>

definition le32 :: "u32 \<Rightarrow> u8 list" where
  "le32 w = [ucast w, ucast (drop_bit 8 w), ucast (drop_bit 16 w), ucast (drop_bit 24 w)]"

fun le32_of :: "u8 list \<Rightarrow> u32" where
  "le32_of (b0 # b1 # b2 # b3 # _) =
     ucast b0 + push_bit 8 (ucast b1) + push_bit 16 (ucast b2) + push_bit 24 (ucast b3)"
| "le32_of _ = 0"

subsection \<open>Buffers and outcomes\<close>

text \<open>The result of code that may also wait forever or access memory it must not.\<close>

datatype 'a outcome = Returns 'a | Blocked | Fault

definition bind_outcome :: "'a outcome \<Rightarrow> ('a \<Rightarrow> 'b outcome) \<Rightarrow> 'b outcome" where
  "bind_outcome x f = (case x of Returns a \<Rightarrow> f a | Blocked \<Rightarrow> Blocked | Fault \<Rightarrow> Fault)"

text \<open>Bytes at an offset of a buffer.\<close>

definition put_at :: "nat \<Rightarrow> u8 list \<Rightarrow> u8 list \<Rightarrow> u8 list" where
  "put_at off bs d = take off d @ bs @ drop (off + length bs) d"

definition bytes_at :: "nat \<Rightarrow> nat \<Rightarrow> u8 list \<Rightarrow> u8 list" where
  "bytes_at off n d = take n (drop off d)"

subsection \<open>Shared lemmas\<close>

lemma strstr_prefix_hit [c_string]:
  "prefix nd s \<Longrightarrow> strstr s nd = Some s"
  by (cases s) auto

lemma strstr_Some_suffix:
  "strstr s nd = Some t \<Longrightarrow> suffix t s \<and> prefix nd t"
  by (induction s nd rule: strstr.induct) (auto split: if_splits simp: suffix_Cons)

lemma strstr_None_iff:
  "strstr s nd = None \<longleftrightarrow> \<not> sublist nd s"
  by (induction s nd rule: strstr.induct) (auto simp: sublist_Cons_right)

lemma strtok_r_shorter:
  "strtok_r delims s = (Some tok, rest) \<Longrightarrow> length rest < length s"
proof -
  assume a: "strtok_r delims s = (Some tok, rest)"
  let ?t = "dropWhile (\<lambda>c. c \<in> set delims) s"
  from a have t: "?t \<noteq> []" and r: "rest = drop 1 (dropWhile (\<lambda>c. c \<notin> set delims) ?t)"
    by (auto simp: strtok_r_def Let_def split: if_splits)
  from t have h: "hd ?t \<notin> set delims" by (rule hd_dropWhile)
  have "length (dropWhile (\<lambda>c. c \<notin> set delims) ?t) < length ?t"
  proof (cases ?t)
    case (Cons a l)
    with h show ?thesis by (simp add: le_imp_less_Suc length_dropWhile_le)
  qed (use t in simp)
  moreover have "length ?t \<le> length s" by (rule length_dropWhile_le)
  ultimately show ?thesis using r by simp
qed

lemma strtok_r_None: "strtok_r delims s = (None, rest) \<Longrightarrow> rest = []"
  by (auto simp: strtok_r_def Let_def split: if_splits)

lemma strtok_r_token:
  assumes "tok \<noteq> []" "\<forall>c\<in>set tok. c \<notin> set delims" "d \<in> set delims"
  shows "strtok_r delims (tok @ d # rest) = (Some tok, rest)"
proof -
  from assms have "dropWhile (\<lambda>c. c \<in> set delims) (tok @ d # rest) = tok @ d # rest"
    by (cases tok) auto
  with assms show ?thesis
    by (simp add: strtok_r_def takeWhile_append2 dropWhile_append2)
qed

lemma strtok_r_last:
  assumes "tok \<noteq> []" "\<forall>c\<in>set tok. c \<notin> set delims"
  shows "strtok_r delims tok = (Some tok, [])"
proof -
  have skip: "dropWhile (\<lambda>c. c \<in> set delims) tok = tok" using assms by (cases tok) auto
  have all: "dropWhile (\<lambda>c. c \<notin> set delims) tok = []" using assms(2) by simp
  have tk: "takeWhile (\<lambda>c. c \<notin> set delims) tok = tok" using assms(2) by simp
  show ?thesis by (simp add: strtok_r_def Let_def skip all tk assms(1))
qed

lemma strtok_r_Nil [c_string]: "strtok_r delims [] = (None, [])"
  by (simp add: strtok_r_def)

lemma to_int32_id: "- (2 ^ 31) \<le> v \<Longrightarrow> v < 2 ^ 31 \<Longrightarrow> to_int32 v = v"
  by (simp add: to_int32_def)

lemma to_int32_range: "- (2 ^ 31) \<le> to_int32 v \<and> to_int32 v < 2 ^ 31"
proof -
  have "0 \<le> (v + 2 ^ 31) mod 2 ^ 32" and "(v + 2 ^ 31) mod 2 ^ 32 < (2 ^ 32 :: int)"
    by simp_all
  then show ?thesis by (simp add: to_int32_def)
qed

lemma length_le32 [simp]: "length (le32 w) = 4"
  by (simp add: le32_def)

lemma le32_roundtrip: "le32_of (le32 w @ rest) = w"
proof (rule bit_word_eqI)
  fix n assume n: "n < LENGTH(32)"
  let ?a = "ucast (ucast w :: u8) :: u32" and ?b = "push_bit 8 (ucast (ucast (drop_bit 8 w) :: u8)) :: u32"
    and ?c = "push_bit 16 (ucast (ucast (drop_bit 16 w) :: u8)) :: u32"
    and ?d = "push_bit 24 (ucast (ucast (drop_bit 24 w) :: u8)) :: u32"
  have ab: "?a + ?b = or ?a ?b"
    by (rule disjunctive_add) (auto simp: bit_simps)
  have abc: "or ?a ?b + ?c = or (or ?a ?b) ?c"
    by (rule disjunctive_add) (auto simp: bit_simps)
  have abcd: "or (or ?a ?b) ?c + ?d = or (or (or ?a ?b) ?c) ?d"
    by (rule disjunctive_add) (auto simp: bit_simps)
  have "le32_of (le32 w @ rest) = or (or (or ?a ?b) ?c) ?d"
    by (simp add: le32_def ab abc abcd)
  moreover have "bit (or (or (or ?a ?b) ?c) ?d) n = bit w n"
  proof -
    have "n < 8 \<or> (8 \<le> n \<and> n < 16) \<or> (16 \<le> n \<and> n < 24) \<or> (24 \<le> n \<and> n < 32)"
      using n by auto
    then show ?thesis by (elim disjE) (auto simp: bit_simps)
  qed
  ultimately show "bit (le32_of (le32 w @ rest)) n = bit w n" by simp
qed

lemma scan_digits_append:
  assumes "\<forall>c\<in>set ds. is_digit base c"
  shows "scan_digits base acc (ds @ s) = scan_digits base (scan_digits base acc ds) s"
  using assms by (induction ds arbitrary: acc) (auto simp: is_digit_def split: option.splits)

lemma digit_val_dec: "d < 10 \<Longrightarrow> digit_val (char_of (48 + d)) = Some d"
  by (auto simp: digit_val_def Let_def)

lemma dec_digits_digits: "c \<in> set (dec_digits n) \<Longrightarrow> is_digit 10 c"
proof (induction n rule: dec_digits.induct)
  case (1 n)
  then show ?case
    by (subst (asm) (2) dec_digits.simps) (auto split: if_splits simp: is_digit_def digit_val_dec)
qed

lemma dec_digits_ne [simp]: "dec_digits n \<noteq> []"
  by (subst dec_digits.simps) simp

lemma scan_dec_digits: "scan_digits 10 0 (dec_digits n) = n"
proof (induction n rule: dec_digits.induct)
  case (1 n)
  show ?case
  proof (cases "n < 10")
    case True
    then show ?thesis by (subst dec_digits.simps) (simp add: digit_val_dec)
  next
    case False
    with 1 have "scan_digits 10 0 (dec_digits (n div 10) @ [char_of (48 + n mod 10)]) = n"
      by (simp add: scan_digits_append dec_digits_digits digit_val_dec)
    with False show ?thesis by (subst dec_digits.simps) simp
  qed
qed

lemma digit_plain: "is_digit 10 c \<Longrightarrow> \<not> isspace c \<and> c \<noteq> CHR ''-'' \<and> c \<noteq> CHR ''+''"
  by (auto simp: is_digit_def digit_val_def isspace_def Let_def split: if_splits)

lemma fmt_d_ne [simp]: "fmt_d v \<noteq> []"
  by (simp add: fmt_d_def)

lemma length_dec_digits: "n < 10 ^ k \<Longrightarrow> 0 < k \<Longrightarrow> length (dec_digits n) \<le> k"
proof (induction n arbitrary: k rule: dec_digits.induct)
  case (1 n)
  show ?case
  proof (cases "n < 10")
    case True
    then show ?thesis using 1(3) by (subst dec_digits.simps) simp
  next
    case False
    then obtain j where j: "k = Suc j" "0 < j" using 1(2,3) by (cases k; cases "k = 1") auto
    then have "n div 10 < 10 ^ j" using 1(2) by (simp add: less_mult_imp_div_less mult.commute)
    with 1(1) [OF False] j False show ?thesis by (subst dec_digits.simps) simp
  qed
qed

lemma length_fmt_d:
  assumes "- (2 ^ 31) \<le> v" "v < 2 ^ 31"
  shows "length (fmt_d v) \<le> 11"
proof -
  have "nat v < 10 ^ 10" "nat (- v) < 10 ^ 10" using assms by (simp_all add: nat_less_iff)
  then have "length (dec_digits (nat v)) \<le> 10" "length (dec_digits (nat (- v))) \<le> 10"
    by (simp_all only: length_dec_digits zero_less_numeral)
  then show ?thesis by (simp add: fmt_d_def)
qed

lemma fmt_d_chars: "c \<in> set (fmt_d v) \<Longrightarrow> c = CHR ''-'' \<or> is_digit 10 c"
  by (auto simp: fmt_d_def dec_digits_digits split: if_splits)

text \<open>Printing and reading a 32-bit \<^verbatim>\<open>int\<close>, also when more text follows.\<close>

lemma atoi_fmt_d:
  assumes v: "- (2 ^ 31) \<le> v" "v < 2 ^ 31" and w: "32 \<le> w"
    and s: "s = [] \<or> \<not> is_digit 10 (hd s)"
  shows "atoi w (fmt_d v @ s) = v"
proof -
  have stop: "scan_digits 10 acc s = acc" for acc
    using s by (cases s) (auto simp: is_digit_def split: option.splits)
  have digs: "scan_digits 10 0 (dec_digits n @ s) = n" for n
    by (simp add: scan_digits_append dec_digits_digits scan_dec_digits stop)
  have sgn: "scan_sign (dropWhile isspace (dec_digits n @ s)) = (False, dec_digits n @ s)" for n
  proof -
    obtain c t where ct: "dec_digits n = c # t" by (cases "dec_digits n") auto
    then have "is_digit 10 c" using dec_digits_digits [of c n] by simp
    with ct digit_plain [of c] show ?thesis by (simp add: scan_sign_def)
  qed
  have bnd: "(2::int) ^ 31 \<le> 2 ^ (w - 1)" using w by (intro power_increasing) auto
  have sat: "max (- (2 ^ (w - 1))) (min (2 ^ (w - 1) - 1) v) = v" using v bnd by simp
  show ?thesis
  proof (cases "v < 0")
    case True
    then have "scan_sign (dropWhile isspace (fmt_d v @ s)) = (True, dec_digits (nat (- v)) @ s)"
      by (simp add: fmt_d_def scan_sign_def isspace_def)
    with True sat v show ?thesis by (simp add: atoi_def digs to_int32_id)
  next
    case False
    with sat v show ?thesis by (simp add: atoi_def fmt_d_def sgn digs to_int32_id)
  qed
qed

lemma bind_outcome_simps [simp]:
  "bind_outcome (Returns a) f = f a" "bind_outcome Blocked f = Blocked" "bind_outcome Fault f = Fault"
  by (simp_all add: bind_outcome_def)

lemma bind_outcome_Returns: "bind_outcome x f = Returns b \<longleftrightarrow> (\<exists>a. x = Returns a \<and> f a = Returns b)"
  by (cases x) auto

lemma length_put_at [simp]: "off + length bs \<le> length d \<Longrightarrow> length (put_at off bs d) = length d"
  by (simp add: put_at_def)

lemma bytes_at_put_same:
  "off + length bs \<le> length d \<Longrightarrow> n = length bs \<Longrightarrow> bytes_at off n (put_at off bs d) = bs"
  by (simp add: bytes_at_def put_at_def)

lemma nth_put_at:
  assumes "off + length bs \<le> length d" "i < length d"
  shows "put_at off bs d ! i = (if off \<le> i \<and> i < off + length bs then bs ! (i - off) else d ! i)"
  using assms by (auto simp: put_at_def nth_append min_def add.commute)

lemma bytes_at_put_other:
  assumes "off + length bs \<le> length d" "off' + n \<le> length d" "off' + n \<le> off \<or> off + length bs \<le> off'"
  shows "bytes_at off' n (put_at off bs d) = bytes_at off' n d"
  using assms by (intro nth_equalityI) (auto simp: bytes_at_def nth_put_at)

end
