(* ===== verification/Dtb_Chips.thy ===== *)
theory Dtb_Chips
  imports C_Prelude "HOL-Library.Product_Lexorder" "HOL-Library.Multiset"
begin

text \<open>
  \<^verbatim>\<open>src/common/dtbtool/dtbtool.c\<close>, the chip list: \<^verbatim>\<open>struct chipInfo_t\<close> on an explicit heap,
  the doubly linked \<^verbatim>\<open>chip_list\<close>, \<^verbatim>\<open>chip_add\<close> with its pointer updates in the order of the
  code, and \<^verbatim>\<open>chip_deleteall\<close>. The refinement lemmas relate the pointer structure to a
  list of addresses on which \<^verbatim>\<open>chip_add\<close> is a sorted insertion without duplicates.
\<close>

named_theorems dll \<open>facts about segments of the doubly linked chip list\<close>

subsection \<open>Data\<close>

type_synonym addr = nat

record chipInfo_t =
  chipset :: u32
  platform :: u32
  subtype :: u32
  revNum :: u32
  pmic_model :: "u32 \<times> u32 \<times> u32 \<times> u32"
  dtb_size :: u32
  dtb_file :: "string option"
  ci_prev :: "addr option"
  ci_next :: "addr option"
  master :: addr
  wroteDtb :: bool
  master_offset :: u32
  t_next :: "addr option"

type_synonym chip_heap = "addr \<Rightarrow> chipInfo_t option"

record chips =
  heap :: chip_heap
  chip_list :: "addr option"

definition RC_SUCCESS :: int where "RC_SUCCESS = 0"
definition RC_ERROR :: int where "RC_ERROR = -1"

text \<open>An assignment through a pointer.\<close>

definition upd :: "addr \<Rightarrow> (chipInfo_t \<Rightarrow> chipInfo_t) \<Rightarrow> chips \<Rightarrow> chips" where
  "upd a f s = s\<lparr>heap := (heap s)(a := map_option f (heap s a))\<rparr>"

subsection \<open>Order and identity of chips\<close>

definition chip_before :: "chipInfo_t \<Rightarrow> chipInfo_t \<Rightarrow> bool" where
  "chip_before c x \<longleftrightarrow>
     chipset c < chipset x \<or>
     (chipset c = chipset x \<and>
      (platform c < platform x \<or>
       (platform c = platform x \<and>
        (subtype c < subtype x \<or>
         (subtype c = subtype x \<and> revNum c < revNum x)))))"

definition chip_same :: "chipInfo_t \<Rightarrow> chipInfo_t \<Rightarrow> bool" where
  "chip_same c x \<longleftrightarrow>
     chipset c = chipset x \<and> platform c = platform x \<and> subtype c = subtype x \<and>
     revNum c = revNum x \<and> pmic_model c = pmic_model x"

subsection \<open>Insertion into the linked list\<close>

partial_function (option) chip_add_from :: "addr \<Rightarrow> addr \<Rightarrow> chips \<Rightarrow> (chips \<times> int) option" where
  "chip_add_from c x s =
     (case heap s c of None \<Rightarrow> None | Some cv \<Rightarrow>
      (case heap s x of None \<Rightarrow> None | Some xv \<Rightarrow>
        if chip_before cv xv then
          (case ci_prev xv of
             None \<Rightarrow>
               Some ((upd x (\<lambda>v. v\<lparr>ci_prev := Some c\<rparr>)
                      (upd c (\<lambda>v. v\<lparr>ci_next := Some x, ci_prev := None\<rparr>) s))
                     \<lparr>chip_list := Some c\<rparr>, RC_SUCCESS)
           | Some p \<Rightarrow>
               Some (upd x (\<lambda>v. v\<lparr>ci_prev := Some c\<rparr>)
                      (upd p (\<lambda>v. v\<lparr>ci_next := Some c\<rparr>)
                       (upd c (\<lambda>v. v\<lparr>ci_next := Some x, ci_prev := Some p\<rparr>) s)), RC_SUCCESS))
        else if chip_same cv xv then Some (s, RC_ERROR)
        else
          (case ci_next xv of
             None \<Rightarrow>
               Some (upd x (\<lambda>v. v\<lparr>ci_next := Some c\<rparr>)
                      (upd c (\<lambda>v. v\<lparr>ci_prev := Some x, ci_next := None\<rparr>) s), RC_SUCCESS)
           | Some y \<Rightarrow> chip_add_from c y s)))"

definition chip_add :: "addr \<Rightarrow> chips \<Rightarrow> (chips \<times> int) option" where
  "chip_add c s =
     (case chip_list s of
        None \<Rightarrow> (case heap s c of None \<Rightarrow> None | Some _ \<Rightarrow>
                 Some ((upd c (\<lambda>v. v\<lparr>ci_next := None, ci_prev := None\<rparr>) s)
                       \<lparr>chip_list := Some c\<rparr>, RC_SUCCESS))
      | Some x \<Rightarrow> chip_add_from c x s)"

text \<open>\<^verbatim>\<open>chip_deleteall\<close>: frees every node reached from the head (\<^verbatim>\<open>None\<close> in the heap).\<close>

partial_function (option) chip_deleteall_from :: "addr option \<Rightarrow> chip_heap \<Rightarrow> chip_heap option" where
  "chip_deleteall_from c h =
     (case c of None \<Rightarrow> Some h
      | Some t \<Rightarrow>
          (case h t of None \<Rightarrow> None
           | Some v \<Rightarrow> chip_deleteall_from (ci_next v) (h(t := None))))"

definition chip_deleteall :: "chips \<Rightarrow> chips option" where
  "chip_deleteall s = map_option (\<lambda>h. s\<lparr>heap := h\<rparr>) (chip_deleteall_from (chip_list s) (heap s))"

text \<open>\<^verbatim>\<open>for (chip = chip_list; chip; chip = chip->next)\<close>: the nodes the loop visits.\<close>

partial_function (option) chain :: "chip_heap \<Rightarrow> addr option \<Rightarrow> addr list option" where
  "chain h c =
     (case c of None \<Rightarrow> Some []
      | Some a \<Rightarrow>
          (case h a of None \<Rightarrow> None
           | Some v \<Rightarrow> Option.bind (chain h (ci_next v)) (\<lambda>as. Some (a # as))))"

subsection \<open>Abstraction of the pointer structure\<close>

text \<open>
  A segment starts at node \<open>q\<close> whose predecessor is \<open>p\<close>, visits the listed addresses
  and leaves with last node \<open>p'\<close> and following node \<open>q'\<close>.
\<close>

fun dseg :: "chip_heap \<Rightarrow> addr option \<Rightarrow> addr option \<Rightarrow> addr list \<Rightarrow> addr option \<Rightarrow> addr option \<Rightarrow> bool" where
  "dseg h p q [] p' q' = (p = p' \<and> q = q')"
| "dseg h p q (a # as) p' q' =
     (q = Some a \<and> (case h a of None \<Rightarrow> False
        | Some v \<Rightarrow> ci_prev v = p \<and> dseg h (Some a) (ci_next v) as p' q'))"

definition last_opt :: "'a list \<Rightarrow> 'a option" where
  "last_opt xs = (if xs = [] then None else Some (last xs))"

definition chips_rel :: "chips \<Rightarrow> addr list \<Rightarrow> bool" where
  "chips_rel s as \<longleftrightarrow> dseg (heap s) None (chip_list s) as (last_opt as) None \<and> distinct as"

text \<open>The abstract operation: insertion into the list of addresses.\<close>

fun chip_ins :: "(addr \<Rightarrow> chipInfo_t) \<Rightarrow> addr \<Rightarrow> addr list \<Rightarrow> addr list option" where
  "chip_ins f c [] = Some [c]"
| "chip_ins f c (x # xs) =
     (if chip_before (f c) (f x) then Some (c # x # xs)
      else if chip_same (f c) (f x) then None
      else map_option (Cons x) (chip_ins f c xs))"

text \<open>What an entry holds besides its place in the list.\<close>

definition unlinked :: "chipInfo_t \<Rightarrow> chipInfo_t" where
  "unlinked v = v\<lparr>ci_prev := None, ci_next := None\<rparr>"

abbreviation val :: "chips \<Rightarrow> addr \<Rightarrow> chipInfo_t" where
  "val s a \<equiv> the (heap s a)"

subsection \<open>Segment lemmas\<close>

lemma dseg_append [dll]:
  "dseg h p q (as @ bs) p' q' \<longleftrightarrow> (\<exists>m n. dseg h p q as m n \<and> dseg h m n bs p' q')"
  by (induction as arbitrary: p q) (auto split: option.splits)

lemma dseg_appendI:
  "dseg h p q as m n \<Longrightarrow> dseg h m n bs p' q' \<Longrightarrow> dseg h p q (as @ bs) p' q'"
  by (auto simp: dseg_append)

lemma dseg_frame [dll]:
  "(\<And>a. a \<in> set as \<Longrightarrow> h' a = h a) \<Longrightarrow> dseg h' p q as p' q' = dseg h p q as p' q'"
  by (induction as arbitrary: p q) (auto split: option.splits)

lemma dseg_exit: "dseg h p q as p' q' \<Longrightarrow> as \<noteq> [] \<Longrightarrow> p' = Some (last as)"
  by (induction as arbitrary: p q) (auto split: option.splits if_splits)

lemma dseg_alloc: "dseg h p q as p' q' \<Longrightarrow> a \<in> set as \<Longrightarrow> \<exists>v. h a = Some v"
  by (induction as arbitrary: p q) (auto split: option.splits)

lemma heap_upd: "heap (upd a f s) = (heap s)(a := map_option f (heap s a))"
  and chip_list_upd: "chip_list (upd a f s) = chip_list s"
  by (simp_all add: upd_def)

lemmas upd_simps [simp] = heap_upd chip_list_upd

lemma last_opt_simps [simp]:
  "last_opt [] = None" "last_opt (xs @ [x]) = Some x"
  "last_opt (xs @ y # ys) = last_opt (y # ys)" "last_opt (x # y # ys) = last_opt (y # ys)"
  "last_opt [x] = Some x"
  by (simp_all add: last_opt_def)

lemma dseg_last_opt: "dseg h None q as p' q' \<Longrightarrow> p' = last_opt as"
  by (cases "as = []") (auto simp: last_opt_def dest: dseg_exit)

text \<open>The three ways a node is linked in.\<close>

lemma link_front:
  assumes "dseg h None (Some x) (x # post) l None" "c \<notin> set (x # post)" "distinct (x # post)"
    and "h c = Some cv"
    and h': "h' = (h(c := Some (cv\<lparr>ci_next := Some x, ci_prev := None\<rparr>)))
               (x := map_option (\<lambda>v. v\<lparr>ci_prev := Some c\<rparr>) (h x))"
  shows "dseg h' None (Some c) (c # x # post) l None"
proof -
  from assms have cx: "c \<noteq> x" by auto
  from assms(1) obtain xv where xv: "h x = Some xv" "dseg h (Some x) (ci_next xv) post l None"
    by (auto split: option.splits)
  have "dseg h' (Some x) (ci_next xv) post l None"
    using xv(2) assms(2,3) by (subst dseg_frame [of _ _ h]) (auto simp: h')
  with xv cx show ?thesis by (simp add: h')
qed

lemma link_back:
  assumes "dseg h p (Some x) [x] l None" "c \<noteq> x" "h c = Some cv"
    and h': "h' = (h(c := Some (cv\<lparr>ci_prev := Some x, ci_next := None\<rparr>)))
               (x := map_option (\<lambda>v. v\<lparr>ci_next := Some c\<rparr>) (h x))"
  shows "dseg h' p (Some x) [x, c] (Some c) None"
  using assms by (auto split: option.splits)

lemma link_middle:
  assumes "dseg h None q (pre @ [m]) (Some m) (Some x)" "dseg h (Some m) (Some x) (x # post) l None"
    and "c \<notin> set (pre @ m # x # post)" "distinct (pre @ m # x # post)" "h c = Some cv"
    and h': "h' = (h(c := Some (cv\<lparr>ci_next := Some x, ci_prev := Some m\<rparr>),
               m := map_option (\<lambda>v. v\<lparr>ci_next := Some c\<rparr>) (h m),
               x := map_option (\<lambda>v. v\<lparr>ci_prev := Some c\<rparr>) (h x)))"
  shows "dseg h' None q (pre @ m # c # x # post) l None"
proof -
  from assms(1) obtain m1 mv where pre: "dseg h None q pre m1 (Some m)"
    and mv: "h m = Some mv" "ci_prev mv = m1"
    by (auto simp: dseg_append split: option.splits)
  from assms(2) obtain xv where xv: "h x = Some xv" "dseg h (Some x) (ci_next xv) post l None"
    by (auto split: option.splits)
  have 1: "dseg h' None q pre m1 (Some m)"
    using pre assms(3,4) by (subst dseg_frame [of _ _ h]) (auto simp: h')
  have 2: "dseg h' (Some x) (ci_next xv) post l None"
    using xv(2) assms(3,4) by (subst dseg_frame [of _ _ h]) (auto simp: h')
  have dist: "c \<noteq> m" "c \<noteq> x" "m \<noteq> x" using assms(3,4) by auto
  have "dseg h' m1 (Some m) (m # c # x # post) l None"
    using 2 mv xv dist by (simp add: h')
  with 1 show ?thesis by (auto simp: dseg_append)
qed

subsection \<open>Refinement of the loop\<close>

definition ins_post :: "chips \<Rightarrow> addr \<Rightarrow> addr list \<Rightarrow> addr list \<Rightarrow> chips \<Rightarrow> int \<Rightarrow> bool" where
  "ins_post s c pre as s' rc \<longleftrightarrow>
     (case chip_ins (val s) c as of
        None \<Rightarrow> rc = RC_ERROR \<and> s' = s
      | Some bs \<Rightarrow> rc = RC_SUCCESS \<and> chips_rel s' (pre @ bs) \<and>
          (\<forall>a. map_option unlinked (heap s' a) = map_option unlinked (heap s a)))"

lemma ins_post_step:
  assumes "\<not> chip_before (val s c) (val s x)" "\<not> chip_same (val s c) (val s x)"
  shows "ins_post s c (pre @ [x]) as s' rc \<Longrightarrow> ins_post s c pre (x # as) s' rc"
  using assms by (auto simp: ins_post_def split: option.splits)

lemma dseg_prev:
  assumes "dseg h None q (pre @ x # post) l None" "h x = Some xv"
  shows "ci_prev xv = last_opt pre"
  using assms by (auto simp: dseg_append dest: dseg_last_opt)

lemma dseg_next:
  assumes "dseg h p q (pre @ x # post) l None" "h x = Some xv"
  shows "ci_next xv = (case post of [] \<Rightarrow> None | y # _ \<Rightarrow> Some y)"
  using assms by (cases post) (auto simp: dseg_append split: option.splits)

lemma unlinked_links [simp]:
  "unlinked (v\<lparr>ci_prev := p\<rparr>) = unlinked v" "unlinked (v\<lparr>ci_next := q\<rparr>) = unlinked v"
  by (simp_all add: unlinked_def)

lemma chips_relI:
  assumes "dseg (heap s) None q as l None" "chip_list s = q" "distinct as"
  shows "chips_rel s as"
  using assms dseg_last_opt [OF assms(1)] by (simp add: chips_rel_def)

lemma chip_add_front:
  assumes "dseg (heap s) None (chip_list s) (x # post) l None" "distinct (x # post)"
    and "c \<notin> set (x # post)" "heap s c = Some cv" "heap s x = Some xv" "chip_before cv xv"
  shows "\<exists>s' rc. chip_add_from c x s = Some (s', rc) \<and> ins_post s c [] (x # post) s' rc"
proof -
  from assms(1,5) have nxt: "chip_list s = Some x" "ci_prev xv = None" by auto
  let ?s' = "(upd x (\<lambda>v. v\<lparr>ci_prev := Some c\<rparr>)
       (upd c (\<lambda>v. v\<lparr>ci_next := Some x, ci_prev := None\<rparr>) s))\<lparr>chip_list := Some c\<rparr>"
  have eq: "chip_add_from c x s = Some (?s', RC_SUCCESS)"
    using assms(4,5,6) nxt by (subst chip_add_from.simps) simp
  have "dseg (heap ?s') None (Some c) (c # x # post) l None"
    by (rule link_front [of "heap s" x post l c cv])
      (use assms nxt in \<open>auto simp: fun_upd_def\<close>)
  then have "chips_rel ?s' (c # x # post)"
    by (rule chips_relI) (use assms(2,3) in auto)
  moreover have "map_option unlinked (heap ?s' a) = map_option unlinked (heap s a)" for a
    using assms(4,5) by auto
  ultimately have "ins_post s c [] (x # post) ?s' RC_SUCCESS"
    using assms(4,5,6) by (simp add: ins_post_def)
  with eq show ?thesis by blast
qed

lemma chip_add_middle:
  assumes "dseg (heap s) None (chip_list s) ((pre @ [m]) @ x # post) l None"
    and "distinct (pre @ m # x # post)" "c \<notin> set (pre @ m # x # post)"
    and "heap s c = Some cv" "heap s x = Some xv" "chip_before cv xv"
  shows "\<exists>s' rc. chip_add_from c x s = Some (s', rc) \<and> ins_post s c (pre @ [m]) (x # post) s' rc"
proof -
  from assms(1,5) have prv: "ci_prev xv = Some m" using dseg_prev by fastforce
  from assms(1) obtain k n where seg0: "dseg (heap s) None (chip_list s) (pre @ [m]) k n"
    "dseg (heap s) k n (x # post) l None"
    unfolding dseg_append [of _ _ _ "pre @ [m]"] by blast
  have "k = Some m" using dseg_exit [OF seg0(1)] by simp
  with seg0 have seg: "dseg (heap s) None (chip_list s) (pre @ [m]) (Some m) n"
    "dseg (heap s) (Some m) n (x # post) l None" by auto
  then have n: "n = Some x" by simp
  let ?s' = "upd x (\<lambda>v. v\<lparr>ci_prev := Some c\<rparr>) (upd m (\<lambda>v. v\<lparr>ci_next := Some c\<rparr>)
       (upd c (\<lambda>v. v\<lparr>ci_next := Some x, ci_prev := Some m\<rparr>) s))"
  have eq: "chip_add_from c x s = Some (?s', RC_SUCCESS)"
    using assms(4,5,6) prv by (subst chip_add_from.simps) simp
  have "dseg (heap ?s') None (chip_list s) (pre @ m # c # x # post) l None"
    by (rule link_middle [of "heap s" _ pre m x post l c cv])
      (use seg n assms in \<open>auto simp: fun_upd_def\<close>)
  then have "chips_rel ?s' ((pre @ [m]) @ c # x # post)"
    by (intro chips_relI [where l = l]) (use assms(2,3) in auto)
  moreover have "map_option unlinked (heap ?s' a) = map_option unlinked (heap s a)" for a
    by (auto simp: option.map_comp comp_def)
  ultimately have "ins_post s c (pre @ [m]) (x # post) ?s' RC_SUCCESS"
    using assms(4,5,6) by (simp add: ins_post_def)
  with eq show ?thesis by blast
qed

lemma chip_add_back:
  assumes "dseg (heap s) None (chip_list s) (pre @ [x]) l None"
    and "distinct (pre @ [x])" "c \<notin> set (pre @ [x])"
    and "heap s c = Some cv" "heap s x = Some xv" "\<not> chip_before cv xv" "\<not> chip_same cv xv"
  shows "\<exists>s' rc. chip_add_from c x s = Some (s', rc) \<and> ins_post s c pre [x] s' rc"
proof -
  from assms(1,5) have nxt: "ci_next xv = None" using dseg_next by fastforce
  let ?s' = "upd x (\<lambda>v. v\<lparr>ci_next := Some c\<rparr>) (upd c (\<lambda>v. v\<lparr>ci_prev := Some x, ci_next := None\<rparr>) s)"
  have eq: "chip_add_from c x s = Some (?s', RC_SUCCESS)"
    using assms(4-7) nxt by (subst chip_add_from.simps) simp
  from assms(1) obtain p where seg: "dseg (heap s) None (chip_list s) pre p (Some x)"
    "dseg (heap s) p (Some x) [x] l None"
    by (auto simp: dseg_append)
  have "dseg (heap ?s') None (chip_list s) pre p (Some x)"
    using seg(1) assms(2,3) by (subst dseg_frame [of _ _ "heap s"]) auto
  moreover have "dseg (heap ?s') p (Some x) [x, c] (Some c) None"
    by (rule link_back [OF seg(2), of c cv]) (use assms in \<open>auto simp: fun_upd_def\<close>)
  ultimately have "dseg (heap ?s') None (chip_list s) (pre @ [x, c]) (Some c) None"
    by (rule dseg_appendI)
  then have "chips_rel ?s' (pre @ [x, c])"
    by (rule chips_relI) (use assms(2,3) in auto)
  moreover have "map_option unlinked (heap ?s' a) = map_option unlinked (heap s a)" for a
    by (auto simp: option.map_comp comp_def)
  ultimately have "ins_post s c pre [x] ?s' RC_SUCCESS"
    using assms(4-7) by (simp add: ins_post_def)
  with eq show ?thesis by blast
qed

lemma chip_add_before:
  assumes "dseg (heap s) None (chip_list s) (pre @ x # post) l None" "distinct (pre @ x # post)"
    and "c \<notin> set (pre @ x # post)" "heap s c = Some cv" "heap s x = Some xv" "chip_before cv xv"
  shows "\<exists>s' rc. chip_add_from c x s = Some (s', rc) \<and> ins_post s c pre (x # post) s' rc"
proof (cases pre rule: rev_cases)
  case Nil
  show ?thesis unfolding Nil
    by (rule chip_add_front [where l = l and xv = xv]) (use assms Nil in simp_all)
next
  case (snoc ys m)
  show ?thesis unfolding snoc
    by (rule chip_add_middle [where l = l and xv = xv]) (use assms snoc in simp_all)
qed

lemma chip_add_dup:
  assumes "heap s c = Some cv" "heap s x = Some xv" "\<not> chip_before cv xv" "chip_same cv xv"
  shows "\<exists>s' rc. chip_add_from c x s = Some (s', rc) \<and> ins_post s c pre (x # post) s' rc"
  using assms by (subst chip_add_from.simps) (simp add: ins_post_def)

lemma chip_add_from_refines:
  assumes "dseg (heap s) None (chip_list s) (pre @ x # post) l None" "distinct (pre @ x # post)"
    and "c \<notin> set (pre @ x # post)" "heap s c = Some cv"
  shows "\<exists>s' rc. chip_add_from c x s = Some (s', rc) \<and> ins_post s c pre (x # post) s' rc"
  using assms
proof (induction post arbitrary: pre x)
  case Nil
  then obtain xv where xv: "heap s x = Some xv" using dseg_alloc by fastforce
  show ?case
  proof (cases "chip_before cv xv \<or> chip_same cv xv")
    case True
    then show ?thesis using chip_add_before [OF Nil xv] chip_add_dup [OF Nil(4) xv] by blast
  next
    case False
    then show ?thesis using chip_add_back [OF Nil xv] by blast
  qed
next
  case (Cons y post)
  then obtain xv where xv: "heap s x = Some xv" using dseg_alloc by fastforce
  show ?case
  proof (cases "chip_before cv xv \<or> chip_same cv xv")
    case True
    then show ?thesis
      using chip_add_before [OF Cons.prems xv] chip_add_dup [OF Cons.prems(4) xv] by blast
  next
    case False
    have "ci_next xv = Some y" using dseg_next [OF Cons.prems(1) xv] by simp
    with False Cons.prems(4) xv have eq: "chip_add_from c x s = chip_add_from c y s"
      by (subst chip_add_from.simps) simp
    from Cons.prems Cons.IH [of "pre @ [x]" y] obtain s' rc where
      "chip_add_from c y s = Some (s', rc)" "ins_post s c (pre @ [x]) (y # post) s' rc" by auto
    then show ?thesis
      using False Cons.prems(4) xv by (auto simp: eq intro!: ins_post_step)
  qed
qed

lemma chip_add_refines:
  assumes "chips_rel s as" "c \<notin> set as" "heap s c = Some cv"
  shows "\<exists>s' rc. chip_add c s = Some (s', rc) \<and> ins_post s c [] as s' rc"
proof (cases as)
  case Nil
  with assms(1) have "chip_list s = None" by (simp add: chips_rel_def)
  with assms(3) Nil show ?thesis
    by (auto simp: chip_add_def ins_post_def chips_rel_def last_opt_def)
next
  case (Cons x post)
  with assms(1) have "chip_list s = Some x" by (simp add: chips_rel_def)
  with Cons assms show ?thesis
    using chip_add_from_refines [of s "[]" x post "last_opt as" c cv]
    by (simp add: chip_add_def chips_rel_def)
qed

lemma chain_seg:
  "dseg h p q as l None \<Longrightarrow> chain h q = Some as"
  by (induction as arbitrary: p q) (subst chain.simps, auto split: option.splits)+

lemma chain_chips_rel: "chips_rel s as \<Longrightarrow> chain (heap s) (chip_list s) = Some as"
  by (auto simp: chips_rel_def dest: chain_seg)

lemma chip_deleteall_seg:
  "dseg h p q as l None \<Longrightarrow> distinct as \<Longrightarrow>
   chip_deleteall_from q h = Some (\<lambda>a. if a \<in> set as then None else h a)"
proof (induction as arbitrary: h p q)
  case Nil
  then show ?case by (subst chip_deleteall_from.simps) simp
next
  case (Cons a as)
  from Cons.prems obtain v where v: "h a = Some v" "q = Some a" "dseg h (Some a) (ci_next v) as l None"
    by (auto split: option.splits)
  have d: "dseg (h(a := None)) (Some a) (ci_next v) as l None"
    using v(3) Cons.prems(2) by (subst dseg_frame [of _ _ h]) auto
  have "chip_deleteall_from (ci_next v) (h(a := None)) =
      Some (\<lambda>b. if b \<in> set as then None else (h(a := None)) b)"
    by (rule Cons.IH [OF d]) (use Cons.prems(2) in simp)
  also have "\<dots> = Some (\<lambda>b. if b \<in> set (a # as) then None else h b)"
    by (simp add: fun_eq_iff)
  finally show ?case using v by (subst chip_deleteall_from.simps) simp
qed

subsection \<open>The list is sorted and free of duplicates\<close>

definition chip_key :: "chipInfo_t \<Rightarrow> u32 \<times> u32 \<times> u32 \<times> u32" where
  "chip_key v = (chipset v, platform v, subtype v, revNum v)"

definition chip_id :: "chipInfo_t \<Rightarrow> (u32 \<times> u32 \<times> u32 \<times> u32) \<times> (u32 \<times> u32 \<times> u32 \<times> u32)" where
  "chip_id v = (chip_key v, pmic_model v)"

lemma chip_before_key: "chip_before c x \<longleftrightarrow> chip_key c < chip_key x"
  by (auto simp: chip_before_def chip_key_def less_prod_def less_le)

lemma chip_same_id: "chip_same c x \<longleftrightarrow> chip_id c = chip_id x"
  by (auto simp: chip_same_def chip_id_def chip_key_def)

lemma chip_ins_mset: "chip_ins f c as = Some bs \<Longrightarrow> mset bs = add_mset c (mset as)"
  by (induction as arbitrary: bs) (auto split: if_splits)

lemma chip_ins_sorted:
  "sorted (map (chip_key \<circ> f) as) \<Longrightarrow> chip_ins f c as = Some bs \<Longrightarrow> sorted (map (chip_key \<circ> f) bs)"
proof (induction as arbitrary: bs)
  case (Cons x xs)
  show ?case
  proof (cases "chip_before (f c) (f x)")
    case True
    then have lt: "chip_key (f c) \<le> chip_key (f x)" by (simp add: chip_before_key)
    with Cons.prems(1) have "\<forall>y\<in>set xs. chip_key (f c) \<le> chip_key (f y)"
      by (auto intro: order_trans)
    with True lt Cons.prems show ?thesis by auto
  next
    case False
    with Cons.prems obtain ys where ys: "chip_ins f c xs = Some ys" "bs = x # ys"
      by (auto split: if_splits)
    then have "set ys = insert c (set xs)"
      by (metis chip_ins_mset set_mset_mset set_mset_add_mset_insert)
    with False ys Cons show ?thesis by (auto simp: chip_before_key)
  qed
qed simp

lemma chip_ins_None:
  "sorted (map (chip_key \<circ> f) as) \<Longrightarrow>
   chip_ins f c as = None \<longleftrightarrow> (\<exists>x\<in>set as. chip_id (f x) = chip_id (f c))"
proof (induction as)
  case (Cons x xs)
  show ?case
  proof (cases "chip_before (f c) (f x)")
    case True
    then have "\<forall>y\<in>set (x # xs). chip_key (f c) < chip_key (f y)"
      using Cons.prems by (auto simp: chip_before_key)
    then have "\<forall>y\<in>set (x # xs). chip_id (f y) \<noteq> chip_id (f c)"
      by (auto simp: chip_id_def)
    with True show ?thesis by simp
  next
    case False
    then show ?thesis using Cons by (auto simp: chip_same_id)
  qed
qed simp

text \<open>The invariant of \<^verbatim>\<open>chip_list\<close>.\<close>

definition chips_inv :: "chips \<Rightarrow> addr list \<Rightarrow> bool" where
  "chips_inv s as \<longleftrightarrow>
     chips_rel s as \<and> sorted (map (chip_key \<circ> val s) as) \<and> distinct (map (chip_id \<circ> val s) as)"

lemma unlinked_proj [simp]:
  "chip_id (unlinked v) = chip_id v" "chip_key (unlinked v) = chip_key v"
  "master (unlinked v) = master v" "dtb_size (unlinked v) = dtb_size v"
  "dtb_file (unlinked v) = dtb_file v" "wroteDtb (unlinked v) = wroteDtb v"
  "master_offset (unlinked v) = master_offset v" "t_next (unlinked v) = t_next v"
  by (simp_all add: unlinked_def chip_id_def chip_key_def)

text \<open>A field that linking leaves alone reads the same in both heaps.\<close>

lemma unlinked_field:
  assumes "map_option unlinked (h' a) = map_option unlinked (h a)" "\<And>v. f (unlinked v) = f v"
  shows "map_option f (h' a) = map_option f (h a)"
proof -
  have "map_option f m = map_option f (map_option unlinked m)" for m
    by (simp add: option.map_comp comp_def assms(2))
  then show ?thesis using assms(1) by metis
qed

lemma unlinked_the:
  assumes "map_option unlinked (h' a) = map_option unlinked (h a)" "\<And>v. f (unlinked v) = f v"
  shows "f (the (h' a)) = f (the (h a))"
proof -
  have "map_option f (h' a) = map_option f (h a)" using assms by (rule unlinked_field)
  then show ?thesis by (cases "h' a"; cases "h a") auto
qed

lemma chips_inv_add:
  assumes "chips_inv s as" "c \<notin> set as" "heap s c = Some cv"
  shows "\<exists>s' rc. chip_add c s = Some (s', rc) \<and>
    (if \<exists>x\<in>set as. chip_id (val s x) = chip_id cv then rc = RC_ERROR \<and> s' = s
     else rc = RC_SUCCESS \<and> (\<forall>a. map_option unlinked (heap s' a) = map_option unlinked (heap s a)) \<and>
       (\<exists>bs. chips_inv s' bs \<and> mset bs = add_mset c (mset as)))"
proof -
  from assms have srt: "sorted (map (chip_key \<circ> val s) as)" and rel: "chips_rel s as"
    and un: "distinct (map (chip_id \<circ> val s) as)" by (auto simp: chips_inv_def)
  from chip_add_refines [OF rel assms(2,3)] obtain s' rc where
    s': "chip_add c s = Some (s', rc)" "ins_post s c [] as s' rc" by blast
  show ?thesis
  proof (cases "chip_ins (val s) c as")
    case None
    with s' chip_ins_None [OF srt, of c] assms(3) show ?thesis by (simp add: ins_post_def)
  next
    case (Some bs)
    with s'(2) have post: "rc = RC_SUCCESS" "chips_rel s' bs"
      and fr: "\<And>a. map_option unlinked (heap s' a) = map_option unlinked (heap s a)"
      by (auto simp: ins_post_def)
    have dup: "\<not> (\<exists>x\<in>set as. chip_id (val s x) = chip_id cv)"
      using chip_ins_None [OF srt, of c] Some assms(3) by simp
    have ms: "mset bs = add_mset c (mset as)" using Some by (rule chip_ins_mset)
    have key: "chip_key (val s' a) = chip_key (val s a)" and id: "chip_id (val s' a) = chip_id (val s a)" for a
      using fr [of a] by (auto intro!: unlinked_the)
    have "sorted (map (chip_key \<circ> val s) bs)" using srt Some by (rule chip_ins_sorted)
    moreover have "mset (map (chip_id \<circ> val s) bs) = mset (map (chip_id \<circ> val s) (c # as))"
      using ms by simp
    then have "distinct (map (chip_id \<circ> val s) bs)"
      using mset_eq_imp_distinct_iff un dup assms(3) by fastforce
    ultimately have "chips_inv s' bs"
      using post(2) by (simp add: chips_inv_def key id comp_def)
    with s'(1) post fr ms dup show ?thesis by auto
  qed
qed

end
