(* ===== verification/Dtb_Scan.thy ===== *)
theory Dtb_Scan
  imports Dtb_Chips
begin

text \<open>
  \<^verbatim>\<open>src/common/dtbtool/dtbtool.c\<close>, the scanner: \<^verbatim>\<open>GetVersionInfo\<close> and \<^verbatim>\<open>getChipInfo\<close> over the
  lines that \<^verbatim>\<open>dtc -I dtb -O dts\<close> prints for one file. The decompiler is a program the
  tool runs through \<^verbatim>\<open>popen\<close>: its output is an argument, \<open>None\<close> when \<^verbatim>\<open>popen\<close> fails.
  \<^verbatim>\<open>malloc\<close> is taken to succeed.
\<close>

named_theorems dtb_scan \<open>facts about scanning the decompiled device tree\<close>

definition QCDT_DT_TAG :: string where "QCDT_DT_TAG = ''qcom,msm-id = <''"
definition QCDT_BOARD_TAG :: string where "QCDT_BOARD_TAG = ''qcom,board-id = <''"
definition QCDT_PMIC_TAG :: string where "QCDT_PMIC_TAG = ''qcom,pmic-id = <''"

definition cell_delims :: string where "cell_delims = [CHR '' '', CHR 0x09]"

lemmas tag_defs = QCDT_DT_TAG_def QCDT_BOARD_TAG_def QCDT_PMIC_TAG_def

subsection \<open>One entry of a property, and all of them\<close>

text \<open>
  The \<^verbatim>\<open>for (i = 0; i < n; i++)\<close> loop around \<^verbatim>\<open>strtok_r\<close>: the numbers read, the flags
  \<^verbatim>\<open>entryValid\<close> and \<^verbatim>\<open>entryEnded\<close>, and the save pointer. A token that starts with \<^verbatim>\<open>>\<close>
  breaks out of the loop; a missing token does not.
\<close>

fun scan_entry :: "nat \<Rightarrow> string \<Rightarrow> u32 list \<times> bool \<times> bool \<times> string" where
  "scan_entry 0 s = ([], True, False, s)"
| "scan_entry (Suc n) s =
     (case strtok_r cell_delims s of
        (Some tok, rest) \<Rightarrow>
          if hd tok = CHR ''>'' then ([], False, True, rest)
          else (case scan_entry n rest of
                  (ds, valid, ended, r) \<Rightarrow> (of_nat (strtoul0 64 tok) # ds, valid, ended, r))
      | (None, rest) \<Rightarrow>
          (case scan_entry n rest of
             (ds, valid, ended, r) \<Rightarrow> (0 # ds, False, True, r)))"

lemma scan_entry_ended: "scan_entry n s = (ds, valid, ended, r) \<Longrightarrow> ended = (\<not> valid)"
  by (induction n s arbitrary: ds valid ended r rule: scan_entry.induct)
    (auto split: prod.splits option.splits if_splits)

lemma scan_entry_length: "scan_entry n s = (ds, True, ended, r) \<Longrightarrow> length ds = n"
  by (induction n s arbitrary: ds ended r rule: scan_entry.induct)
    (auto split: prod.splits option.splits if_splits)

lemma scan_entry_shrinks:
  "scan_entry n s = (ds, valid, ended, r) \<Longrightarrow> length r \<le> length s"
proof (induction n s arbitrary: ds valid ended r rule: scan_entry.induct)
  case (2 n s)
  obtain t rest where st: "strtok_r cell_delims s = (t, rest)" by (cases "strtok_r cell_delims s")
  have "length rest \<le> length s"
    using st by (cases t) (auto dest: strtok_r_shorter strtok_r_None intro: less_imp_le)
  then show ?case
    using 2 st by (auto split: prod.splits option.splits if_splits dest: order_trans)
qed simp

lemma scan_entry_consumes:
  assumes "scan_entry (Suc n) s = (ds, valid, False, r)"
  shows "length r < length s"
proof -
  from assms obtain tok rest ds' v' where "strtok_r cell_delims s = (Some tok, rest)"
    "scan_entry n rest = (ds', v', False, r)"
    by (auto split: prod.splits option.splits if_splits)
  then have "length rest < length s" "length r \<le> length rest"
    using strtok_r_shorter scan_entry_shrinks by blast+
  then show ?thesis by simp
qed

text \<open>The enclosing loop: entries are collected until one ends the property.\<close>

function scan_entries :: "nat \<Rightarrow> string \<Rightarrow> u32 list list" where
  "scan_entries 0 s = []"
| "scan_entries (Suc n) s =
     (case scan_entry (Suc n) s of
        (ds, valid, ended, r) \<Rightarrow>
          (if valid then [ds] else []) @ (if ended then [] else scan_entries (Suc n) r))"
  by pat_completeness auto
termination
  by (relation "measure (\<lambda>(n, s). length s)")
    (auto dest!: scan_entry_consumes [OF sym] simp del: scan_entry.simps)

declare scan_entries.simps(2) [simp del]

text \<open>The scratch list heads: \<^verbatim>\<open>t_next\<close> insertion behind the first element.\<close>

fun t_insert :: "'a list \<Rightarrow> 'a \<Rightarrow> 'a list" where
  "t_insert [] x = [x]"
| "t_insert (h # t) x = h # x # t"

definition t_chain :: "'a list \<Rightarrow> 'a list" where
  "t_chain xs = foldl t_insert [] xs"

subsection \<open>Lines\<close>

text \<open>
  One tag on a line: the entries behind it, and the line as the next \<^verbatim>\<open>strstr\<close> sees it,
  since \<^verbatim>\<open>strtok_r\<close> writes a NUL behind the first token.
\<close>

definition scan_tag :: "string \<Rightarrow> nat \<Rightarrow> string \<Rightarrow> u32 list list \<times> string" where
  "scan_tag tag n line =
     (case strstr line tag of
        None \<Rightarrow> ([], line)
      | Some hit \<Rightarrow>
          (let pos = drop (length tag) hit in
           (scan_entries n pos,
            take (length line - length pos) line @ strtok_visible cell_delims pos)))"

record dt_scan =
  chipId :: "(u32 \<times> u32) list"
  chipSt :: "(u32 \<times> u32) list"
  chipPt :: "(u32 \<times> u32 \<times> u32 \<times> u32) list"

definition cell2 :: "u32 list \<Rightarrow> u32 \<times> u32" where "cell2 ds = (ds ! 0, ds ! 1)"
definition cell4 :: "u32 list \<Rightarrow> u32 \<times> u32 \<times> u32 \<times> u32" where
  "cell4 ds = (ds ! 0, ds ! 1, ds ! 2, ds ! 3)"

definition scan_line :: "dt_scan \<Rightarrow> string \<Rightarrow> dt_scan" where
  "scan_line st line =
     (let (ids, l1) = scan_tag QCDT_DT_TAG 2 line;
          (sts, l2) = scan_tag QCDT_BOARD_TAG 2 l1;
          (pts, l3) = scan_tag QCDT_PMIC_TAG 4 l2
      in st\<lparr>chipId := foldl t_insert (chipId st) (map cell2 ids),
            chipSt := foldl t_insert (chipSt st) (map cell2 sts),
            chipPt := foldl t_insert (chipPt st) (map cell4 pts)\<rparr>)"

definition scan_lines :: "string list \<Rightarrow> dt_scan" where
  "scan_lines lines = foldl scan_line \<lparr>chipId = [], chipSt = [], chipPt = []\<rparr> lines"

subsection \<open>getChipInfo and GetVersionInfo\<close>

type_synonym chip_ident = "(u32 \<times> u32 \<times> u32 \<times> u32) \<times> (u32 \<times> u32 \<times> u32 \<times> u32)"

text \<open>Version 1: the first line with the tag decides, its entries are triples.\<close>

definition chip_v1 :: "u32 list \<Rightarrow> chip_ident" where
  "chip_v1 ds = ((ds ! 0, ds ! 1, 0, ds ! 2), (0, 0, 0, 0))"

fun getChipInfo_v1 :: "string list \<Rightarrow> int \<Rightarrow> chip_ident list \<times> int" where
  "getChipInfo_v1 [] num = ([], num)"
| "getChipInfo_v1 (line # lines) num =
     (case strstr line QCDT_DT_TAG of
        None \<Rightarrow> getChipInfo_v1 lines num
      | Some hit \<Rightarrow>
          (let es = scan_entries 3 (drop (length QCDT_DT_TAG) hit)
           in (t_chain (map chip_v1 es), int (length es))))"

text \<open>Versions 2 and 3: every combination of the collected identifiers.\<close>

definition chips_v2 :: "dt_scan \<Rightarrow> chip_ident list" where
  "chips_v2 st =
     concat (map (\<lambda>i. map (\<lambda>t. ((fst i, fst t, snd t, snd i), (0, 0, 0, 0))) (chipSt st)) (chipId st))"

definition chips_v3 :: "dt_scan \<Rightarrow> chip_ident list" where
  "chips_v3 st =
     concat (map (\<lambda>i. concat (map (\<lambda>t. map (\<lambda>p. ((fst i, fst t, snd t, snd i), p)) (chipPt st))
       (chipSt st))) (chipId st))"

definition getChipInfo_v23 :: "string list \<Rightarrow> int \<Rightarrow> nat \<Rightarrow> chip_ident list \<times> int" where
  "getChipInfo_v23 lines num v =
     (let st = scan_lines lines in
      if chipId st = [] then ([], num)
      else if chipSt st = [] then ([], num)
      else if chipPt st = [] \<and> v = 3 then ([], num)
      else (t_chain (if v = 3 then chips_v3 st else chips_v2 st), int (length (chipId st))))"

text \<open>The empty chain stands for the \<^verbatim>\<open>NULL\<close> result; \<open>num\<close> is what \<^verbatim>\<open>*num\<close> holds at the call.\<close>

definition getChipInfo :: "string list option \<Rightarrow> int \<Rightarrow> nat \<Rightarrow> chip_ident list \<times> int" where
  "getChipInfo output num msmversion =
     (case output of
        None \<Rightarrow> ([], num)
      | Some lines \<Rightarrow>
          if msmversion = 1 then getChipInfo_v1 lines num
          else if msmversion = 2 \<or> msmversion = 3 then getChipInfo_v23 lines num msmversion
          else ([], num))"

fun version_of :: "nat \<Rightarrow> string list \<Rightarrow> nat" where
  "version_of v [] = v"
| "version_of v (line # lines) =
     (let v' = (if strstr line QCDT_BOARD_TAG \<noteq> None then 2 else v) in
      if strstr line QCDT_PMIC_TAG \<noteq> None then 3 else version_of v' lines)"

definition GetVersionInfo :: "string list option \<Rightarrow> nat" where
  "GetVersionInfo output = (case output of None \<Rightarrow> 1 | Some lines \<Rightarrow> version_of 1 lines)"

subsection \<open>Facts about the scanner\<close>

lemma t_chain_Cons: "t_chain (x # xs) = x # rev xs"
proof -
  have "foldl t_insert (y # ys) xs = y # rev xs @ ys" for y and ys :: "'a list"
    by (induction xs arbitrary: ys) auto
  then show ?thesis by (simp add: t_chain_def)
qed

lemma t_chain_Nil [simp]: "t_chain [] = []"
  by (simp add: t_chain_def)

lemma mset_t_chain [simp]: "mset (t_chain xs) = mset xs"
  by (cases xs) (simp_all add: t_chain_Cons)

lemma t_chain_eq_Nil [simp]: "t_chain xs = [] \<longleftrightarrow> xs = []"
  by (cases xs) (simp_all add: t_chain_Cons)

lemma set_t_chain [simp]: "set (t_chain xs) = set xs"
  by (metis mset_t_chain set_mset_mset)

lemma length_t_chain [simp]: "length (t_chain xs) = length xs"
  by (metis mset_t_chain size_mset)

lemma scan_entries_unfold:
  assumes "scan_entry (Suc n) s = (ds, valid, ended, r)"
  shows "scan_entries (Suc n) s =
    (if valid then [ds] else []) @ (if ended then [] else scan_entries (Suc n) r)"
  using assms by (simp add: scan_entries.simps(2) del: scan_entry.simps)

lemma scan_entries_length: "es \<in> set (scan_entries n s) \<Longrightarrow> length es = n"
proof (induction n s rule: scan_entries.induct)
  case (2 n s)
  obtain ds valid ended r where sc: "scan_entry (Suc n) s = (ds, valid, ended, r)"
    by (metis prod_cases4)
  from 2 sc scan_entry_length [of "Suc n" s ds] show ?case
    by (auto simp: scan_entries_unfold [OF sc] simp del: scan_entry.simps split: if_splits)
qed simp

text \<open>Cells in the form the decompiler prints them.\<close>

definition hexdig :: "nat \<Rightarrow> char" where
  "hexdig d = (if d < 10 then char_of (48 + d) else char_of (87 + d))"

fun hex_digits :: "nat \<Rightarrow> string" where
  "hex_digits n = (if n < 16 then [hexdig n] else hex_digits (n div 16) @ [hexdig (n mod 16)])"

declare hex_digits.simps [simp del]

definition hex_cell :: "u32 \<Rightarrow> string" where
  "hex_cell w = ''0x'' @ hex_digits (unat w)"

fun print_cells :: "u32 list \<Rightarrow> string" where
  "print_cells [] = ''>;'' @ [CHR 0x0A]"
| "print_cells [w] = hex_cell w @ ''>;'' @ [CHR 0x0A]"
| "print_cells (w # ws) = hex_cell w @ '' '' @ print_cells ws"

lemma digit_val_hexdig: "d < 16 \<Longrightarrow> digit_val (hexdig d) = Some d"
  by (auto simp: digit_val_def hexdig_def Let_def)

lemma hexdig_plain: "d < 16 \<Longrightarrow> hexdig d \<notin> set cell_delims"
proof
  assume d: "d < 16" and "hexdig d \<in> set cell_delims"
  then have "digit_val (hexdig d) = None"
    by (auto simp: cell_delims_def digit_val_def)
  with digit_val_hexdig [OF d] show False by simp
qed

lemma hex_digits_plain: "c \<in> set (hex_digits n) \<Longrightarrow> c \<notin> set cell_delims"
proof (induction n rule: hex_digits.induct)
  case (1 n)
  then show ?case
    by (subst (asm) (2) hex_digits.simps) (auto split: if_splits simp: hexdig_plain)
qed

lemma hex_digits_hd: "\<exists>c t. hex_digits n = c # t \<and> is_digit 16 c"
proof (induction n rule: hex_digits.induct)
  case (1 n)
  then show ?case
    by (subst hex_digits.simps) (auto simp: is_digit_def digit_val_hexdig)
qed

lemma hex_digits_digits: "c \<in> set (hex_digits n) \<Longrightarrow> is_digit 16 c"
proof (induction n rule: hex_digits.induct)
  case (1 n)
  then show ?case
    by (subst (asm) (2) hex_digits.simps) (auto split: if_splits simp: is_digit_def digit_val_hexdig)
qed

lemma scan_hex_digits: "scan_digits 16 0 (hex_digits n) = n"
proof (induction n rule: hex_digits.induct)
  case (1 n)
  show ?case
  proof (cases "n < 16")
    case True
    then show ?thesis by (subst hex_digits.simps) (simp add: digit_val_hexdig)
  next
    case False
    with 1 have "scan_digits 16 0 (hex_digits (n div 16) @ [hexdig (n mod 16)]) = n"
      by (simp add: scan_digits_append hex_digits_digits digit_val_hexdig)
    with False show ?thesis by (subst hex_digits.simps) simp
  qed
qed

lemma strtoul0_hex_cell:
  assumes "s = [] \<or> \<not> is_digit 16 (hd s)"
  shows "of_nat (strtoul0 64 (hex_cell w @ s)) = w"
proof -
  obtain c t where ct: "hex_digits (unat w) = c # t" "is_digit 16 c" using hex_digits_hd by blast
  have stop: "scan_digits 16 acc s = acc" for acc
    using assms by (cases s) (auto simp: is_digit_def split: option.splits)
  have "scan_digits 16 0 (hex_digits (unat w) @ s) = unat w"
    by (simp add: scan_digits_append hex_digits_digits scan_hex_digits stop)
  moreover have "unat w < 2 ^ 64"
    by (rule less_trans [OF unsigned_less]) simp
  moreover have "scan_sign (dropWhile isspace (hex_cell w @ s)) = (False, hex_cell w @ s)"
    by (simp add: hex_cell_def isspace_def scan_sign_def)
  moreover have "scan_base (hex_cell w @ s) = (16, hex_digits (unat w) @ s)"
    using ct by (simp add: hex_cell_def scan_base_def)
  ultimately show ?thesis by (simp add: strtoul0_def)
qed

subsection \<open>Scanning what the decompiler prints\<close>

function chunks :: "nat \<Rightarrow> 'a list \<Rightarrow> 'a list list" where
  "chunks n xs = (if n = 0 \<or> xs = [] then [] else take n xs # chunks n (drop n xs))"
  by pat_completeness auto
termination by (relation "measure (\<lambda>(n, xs). length xs)") auto

declare chunks.simps [simp del]

definition cells_rest :: "u32 list \<Rightarrow> string" where
  "cells_rest ws = (if ws = [] then [] else print_cells ws)"

lemma hex_cell_plain: "c \<in> set (hex_cell w) \<Longrightarrow> c \<notin> set cell_delims"
  by (auto simp: hex_cell_def hex_digits_plain) (auto simp: cell_delims_def)

lemma hex_cell_hd: "hex_cell w \<noteq> []" "hd (hex_cell w @ s) = CHR ''0''"
  by (simp_all add: hex_cell_def)

lemma strtok_cells:
  "strtok_r cell_delims (cells_rest (w # ws)) =
     (Some (hex_cell w @ (if ws = [] then ''>;'' @ [CHR 0x0A] else [])), cells_rest ws)"
proof (cases ws)
  case Nil
  have "strtok_r cell_delims (hex_cell w @ ''>;'' @ [CHR 0x0A]) =
      (Some (hex_cell w @ ''>;'' @ [CHR 0x0A]), [])"
  proof (rule strtok_r_last)
    show "\<forall>c\<in>set (hex_cell w @ ''>;'' @ [CHR 0x0A]). c \<notin> set cell_delims"
      using hex_cell_plain by (auto simp: cell_delims_def)
  qed simp
  with Nil show ?thesis by (simp add: cells_rest_def)
next
  case (Cons v vs)
  have "strtok_r cell_delims (hex_cell w @ CHR '' '' # print_cells ws) = (Some (hex_cell w), print_cells ws)"
    by (rule strtok_r_token) (auto simp: hex_cell_hd hex_cell_plain, simp add: cell_delims_def)
  with Cons show ?thesis by (simp add: cells_rest_def)
qed

lemma scan_entry_cells:
  "n \<le> length ws \<Longrightarrow> scan_entry n (cells_rest ws) = (take n ws, True, False, cells_rest (drop n ws))"
proof (induction n arbitrary: ws)
  case (Suc n)
  then obtain w ws' where ws: "ws = w # ws'" "n \<le> length ws'" by (cases ws) auto
  have "of_nat (strtoul0 64 (hex_cell w @ (if ws' = [] then ''>;'' @ [CHR 0x0A] else []))) = w"
    by (rule strtoul0_hex_cell) (simp add: is_digit_def digit_val_def)
  with ws Suc.IH [OF ws(2)] show ?case
    by (simp add: strtok_cells hex_cell_hd)
qed simp

lemma scan_entries_Nil: "scan_entries n [] = []"
  by (cases n) (auto simp: scan_entries.simps(2) strtok_r_Nil split: prod.splits)

lemma scan_entries_cells:
  "0 < n \<Longrightarrow> n dvd length ws \<Longrightarrow> scan_entries n (cells_rest ws) = chunks n ws"
proof (induction n ws rule: chunks.induct)
  case (1 n ws)
  show ?case
  proof (cases "ws = []")
    case True
    then show ?thesis by (simp add: cells_rest_def scan_entries_Nil chunks.simps)
  next
    case False
    with 1 have le: "n \<le> length ws" by (auto dest: dvd_imp_le)
    obtain m where n: "n = Suc m" using 1(2) by (cases n) auto
    have sc: "scan_entry (Suc m) (cells_rest ws) = (take n ws, True, False, cells_rest (drop n ws))"
      using scan_entry_cells [OF le] n by simp
    have "n dvd length (drop n ws)" using 1(3) by simp
    with 1 False have "scan_entries n (cells_rest (drop n ws)) = chunks n (drop n ws)" by simp
    with sc n False show ?thesis
      by (simp add: scan_entries_unfold [OF sc] chunks.simps [of "Suc m" ws] del: scan_entry.simps)
  qed
qed

text \<open>A decompiled listing: lines without any of the tags, and lines with one property.\<close>

datatype dts_item = Other string | Msm "u32 list" | Board "u32 list" | Pmic "u32 list"

fun print_item :: "dts_item \<Rightarrow> string" where
  "print_item (Other l) = l"
| "print_item (Msm ws) = CHR 0x09 # QCDT_DT_TAG @ print_cells ws"
| "print_item (Board ws) = CHR 0x09 # QCDT_BOARD_TAG @ print_cells ws"
| "print_item (Pmic ws) = CHR 0x09 # QCDT_PMIC_TAG @ print_cells ws"

fun item_ok :: "nat \<Rightarrow> dts_item \<Rightarrow> bool" where
  "item_ok k (Other l) = (strstr l QCDT_DT_TAG = None \<and> strstr l QCDT_BOARD_TAG = None \<and>
     strstr l QCDT_PMIC_TAG = None)"
| "item_ok k (Msm ws) = (ws \<noteq> [] \<and> k dvd length ws)"
| "item_ok k (Board ws) = (ws \<noteq> [] \<and> 2 dvd length ws)"
| "item_ok k (Pmic ws) = (ws \<noteq> [] \<and> 4 dvd length ws)"

fun msm_cells :: "dts_item \<Rightarrow> u32 list list" where
  "msm_cells (Msm ws) = chunks 2 ws" | "msm_cells _ = []"
fun board_cells :: "dts_item \<Rightarrow> u32 list list" where
  "board_cells (Board ws) = chunks 2 ws" | "board_cells _ = []"
fun pmic_cells :: "dts_item \<Rightarrow> u32 list list" where
  "pmic_cells (Pmic ws) = chunks 4 ws" | "pmic_cells _ = []"

text \<open>A tag is found at its place, and not in a line that lacks one of its letters.\<close>

lemma strstr_lacks: "c \<in> set nd \<Longrightarrow> c \<notin> set s \<Longrightarrow> strstr s nd = None"
  unfolding strstr_None_iff using set_mono_sublist by blast

lemma strstr_at_tab:
  "tag \<noteq> [] \<Longrightarrow> hd tag \<noteq> CHR 0x09 \<Longrightarrow> strstr (CHR 0x09 # tag @ s) tag = Some (tag @ s)"
  by (cases tag) (auto simp: strstr_prefix_hit)

declare strstr.simps [simp del]

lemma scan_tag_miss: "strstr line tag = None \<Longrightarrow> scan_tag tag n line = ([], line)"
  by (simp add: scan_tag_def)

lemma strtok_visible_cells:
  "set (strtok_visible cell_delims (cells_rest ws)) \<subseteq> set (print_cells ws)"
  unfolding strtok_visible_def
  by (cases ws) (auto simp: cells_rest_def dest: set_takeWhileD set_dropWhileD)

lemma hex_zero: "is_digit 16 (CHR ''0'')"
  by (simp add: is_digit_def digit_val_def)

lemma print_cells_chars:
  "c \<in> set (print_cells ws) \<Longrightarrow> is_digit 16 c \<or> c \<in> set ('' x>;'' @ [CHR 0x0A])"
  by (induction ws rule: print_cells.induct)
    (auto simp: hex_cell_def hex_zero dest: hex_digits_digits)

lemma print_cells_lacks:
  "CHR ''r'' \<notin> set (print_cells ws)" "CHR ''p'' \<notin> set (print_cells ws)"
  "CHR ''s'' \<notin> set (print_cells ws)"
  using print_cells_chars [of _ ws] by (force simp: is_digit_def digit_val_def)+

lemma tag_line_lacks:
  assumes "ws \<noteq> []" "d \<in> {CHR ''r'', CHR ''p'', CHR ''s''}" "d \<notin> set tag"
  shows "d \<notin> set (CHR 0x09 # tag @ strtok_visible cell_delims (print_cells ws))"
    and "d \<notin> set (CHR 0x09 # tag @ print_cells ws)"
  using assms strtok_visible_cells [of ws] print_cells_lacks [of ws]
  by (auto simp: cells_rest_def)

lemma scan_tag_hit:
  assumes "ws \<noteq> []" "0 < n" "n dvd length ws" "tag \<noteq> []" "hd tag \<noteq> CHR 0x09"
  shows "scan_tag tag n (CHR 0x09 # tag @ print_cells ws) =
    (chunks n ws, CHR 0x09 # tag @ strtok_visible cell_delims (print_cells ws))"
  using assms scan_entries_cells [of n ws]
  by (simp add: scan_tag_def strstr_at_tab cells_rest_def)

lemma tag_letters:
  "CHR ''r'' \<in> set QCDT_BOARD_TAG" "CHR ''r'' \<notin> set QCDT_DT_TAG" "CHR ''r'' \<notin> set QCDT_PMIC_TAG"
  "CHR ''p'' \<in> set QCDT_PMIC_TAG" "CHR ''p'' \<notin> set QCDT_DT_TAG" "CHR ''p'' \<notin> set QCDT_BOARD_TAG"
  "CHR ''s'' \<in> set QCDT_DT_TAG" "CHR ''s'' \<notin> set QCDT_BOARD_TAG" "CHR ''s'' \<notin> set QCDT_PMIC_TAG"
  by (simp_all add: tag_defs)

lemma tag_miss:
  assumes "ws \<noteq> []"
  shows "strstr (CHR 0x09 # QCDT_DT_TAG @ strtok_visible cell_delims (print_cells ws)) QCDT_BOARD_TAG = None"
    "strstr (CHR 0x09 # QCDT_DT_TAG @ strtok_visible cell_delims (print_cells ws)) QCDT_PMIC_TAG = None"
    "strstr (CHR 0x09 # QCDT_BOARD_TAG @ print_cells ws) QCDT_DT_TAG = None"
    "strstr (CHR 0x09 # QCDT_BOARD_TAG @ strtok_visible cell_delims (print_cells ws)) QCDT_PMIC_TAG = None"
    "strstr (CHR 0x09 # QCDT_PMIC_TAG @ print_cells ws) QCDT_DT_TAG = None"
    "strstr (CHR 0x09 # QCDT_PMIC_TAG @ print_cells ws) QCDT_BOARD_TAG = None"
    "strstr (CHR 0x09 # QCDT_DT_TAG @ print_cells ws) QCDT_BOARD_TAG = None"
    "strstr (CHR 0x09 # QCDT_DT_TAG @ print_cells ws) QCDT_PMIC_TAG = None"
    "strstr (CHR 0x09 # QCDT_BOARD_TAG @ print_cells ws) QCDT_PMIC_TAG = None"
  by (rule strstr_lacks, rule tag_letters, rule tag_line_lacks [OF assms],
      simp, rule tag_letters)+

lemma tag_shape: "QCDT_DT_TAG \<noteq> []" "hd QCDT_DT_TAG \<noteq> CHR 0x09" "QCDT_BOARD_TAG \<noteq> []"
  "hd QCDT_BOARD_TAG \<noteq> CHR 0x09" "QCDT_PMIC_TAG \<noteq> []" "hd QCDT_PMIC_TAG \<noteq> CHR 0x09"
  by (simp_all add: tag_defs)

lemma scan_line_item:
  assumes "item_ok 2 it"
  shows "scan_line st (print_item it) =
    st\<lparr>chipId := foldl t_insert (chipId st) (map cell2 (msm_cells it)),
       chipSt := foldl t_insert (chipSt st) (map cell2 (board_cells it)),
       chipPt := foldl t_insert (chipPt st) (map cell4 (pmic_cells it))\<rparr>"
  using assms
  by (cases it) (simp_all add: scan_line_def scan_tag_miss scan_tag_hit tag_miss tag_shape)

lemma foldl_t_chain: "foldl t_insert (t_chain xs) ys = t_chain (xs @ ys)"
  by (simp add: t_chain_def)

lemma scan_lines_items:
  assumes "\<forall>it\<in>set items. item_ok 2 it"
  shows "scan_lines (map print_item items) =
    \<lparr>chipId = t_chain (map cell2 (concat (map msm_cells items))),
     chipSt = t_chain (map cell2 (concat (map board_cells items))),
     chipPt = t_chain (map cell4 (concat (map pmic_cells items)))\<rparr>"
proof -
  have "foldl scan_line \<lparr>chipId = t_chain xs, chipSt = t_chain ys, chipPt = t_chain zs\<rparr>
      (map print_item items) =
    \<lparr>chipId = t_chain (xs @ map cell2 (concat (map msm_cells items))),
     chipSt = t_chain (ys @ map cell2 (concat (map board_cells items))),
     chipPt = t_chain (zs @ map cell4 (concat (map pmic_cells items)))\<rparr>" for xs ys zs
    using assms
    by (induction items arbitrary: xs ys zs) (simp_all add: scan_line_item foldl_t_chain)
  from this [of "[]" "[]" "[]"] show ?thesis by (simp add: scan_lines_def)
qed

subsection \<open>From a listing to its chips\<close>

lemma strstr_item:
  assumes "item_ok k it"
  shows "strstr (print_item it) QCDT_BOARD_TAG \<noteq> None \<longleftrightarrow> (\<exists>ws. it = Board ws)"
    and "strstr (print_item it) QCDT_PMIC_TAG \<noteq> None \<longleftrightarrow> (\<exists>ws. it = Pmic ws)"
    and "strstr (print_item it) QCDT_DT_TAG \<noteq> None \<longleftrightarrow> (\<exists>ws. it = Msm ws)"
  using assms by (cases it; simp add: tag_miss strstr_at_tab tag_shape)+

lemma version_of_items:
  assumes "\<forall>it\<in>set items. item_ok k it"
  shows "version_of v (map print_item items) =
    (if \<exists>ws. Pmic ws \<in> set items then 3 else if \<exists>ws. Board ws \<in> set items then 2 else v)"
  using assms
proof (induction items arbitrary: v)
  case (Cons it items)
  then have ok: "item_ok k it" by simp
  show ?case
    using Cons.IH [of "if strstr (print_item it) QCDT_BOARD_TAG \<noteq> None then 2 else v"]
      Cons.prems strstr_item [OF ok]
    by (cases it) (auto simp: Let_def)
qed simp

lemma chunks_eq_Nil: "chunks n xs = [] \<longleftrightarrow> n = 0 \<or> xs = []"
  by (simp add: chunks.simps)

lemma cells_concat_Nil:
  assumes "\<forall>it\<in>set items. item_ok 2 it"
  shows "concat (map msm_cells items) = [] \<longleftrightarrow> \<not> (\<exists>ws. Msm ws \<in> set items)"
    "concat (map board_cells items) = [] \<longleftrightarrow> \<not> (\<exists>ws. Board ws \<in> set items)"
    "concat (map pmic_cells items) = [] \<longleftrightarrow> \<not> (\<exists>ws. Pmic ws \<in> set items)"
proof -
  have "msm_cells it = [] \<longleftrightarrow> \<not> (\<exists>ws. it = Msm ws)"
    "board_cells it = [] \<longleftrightarrow> \<not> (\<exists>ws. it = Board ws)"
    "pmic_cells it = [] \<longleftrightarrow> \<not> (\<exists>ws. it = Pmic ws)" if "it \<in> set items" for it
    using assms that by (cases it; force simp: chunks_eq_Nil)+
  then show "concat (map msm_cells items) = [] \<longleftrightarrow> \<not> (\<exists>ws. Msm ws \<in> set items)"
    "concat (map board_cells items) = [] \<longleftrightarrow> \<not> (\<exists>ws. Board ws \<in> set items)"
    "concat (map pmic_cells items) = [] \<longleftrightarrow> \<not> (\<exists>ws. Pmic ws \<in> set items)"
    by (simp_all only: concat_eq_Nil_conv set_map) blast+
qed

lemma set_chips_v2:
  "set (chips_v2 st) = {((c, p, t, r), (0, 0, 0, 0)) | c p t r. (c, r) \<in> set (chipId st) \<and> (p, t) \<in> set (chipSt st)}"
  by (force simp: chips_v2_def)

lemma set_chips_v3:
  "set (chips_v3 st) = {((c, p, t, r), q) | c p t r q.
     (c, r) \<in> set (chipId st) \<and> (p, t) \<in> set (chipSt st) \<and> q \<in> set (chipPt st)}"
  by (force simp: chips_v3_def)

lemma chips_v2_ne: "chipId st \<noteq> [] \<Longrightarrow> chipSt st \<noteq> [] \<Longrightarrow> chips_v2 st \<noteq> []"
  by (cases "chipId st"; cases "chipSt st") (auto simp: chips_v2_def)

definition item_ids :: "dts_item list \<Rightarrow> (u32 \<times> u32) set" where
  "item_ids items = cell2 ` set (concat (map msm_cells items))"
definition item_boards :: "dts_item list \<Rightarrow> (u32 \<times> u32) set" where
  "item_boards items = cell2 ` set (concat (map board_cells items))"
definition item_pmics :: "dts_item list \<Rightarrow> (u32 \<times> u32 \<times> u32 \<times> u32) set" where
  "item_pmics items = (if \<exists>ws. Pmic ws \<in> set items
     then cell4 ` set (concat (map pmic_cells items)) else {(0, 0, 0, 0)})"

text \<open>
  C19. A device tree listing that carries \<^verbatim>\<open>qcom,msm-id\<close> pairs, \<^verbatim>\<open>qcom,board-id\<close> pairs and,
  possibly, \<^verbatim>\<open>qcom,pmic-id\<close> quadruples in hexadecimal, in any order and on any number of
  lines, is recognised as version 3 when it has a PMIC property and as version 2
  otherwise, and \<^verbatim>\<open>getChipInfo\<close> returns exactly the chips of the cross product of the
  three sets of identifiers (all PMIC models zero for version 2).
\<close>

theorem getChipInfo_cross_product:
  assumes ok: "\<forall>it\<in>set items. item_ok 2 it"
    and msm: "Msm ws \<in> set items" and board: "Board ws' \<in> set items"
  shows "GetVersionInfo (Some (map print_item items)) = (if \<exists>w. Pmic w \<in> set items then 3 else 2)
    \<and> set (fst (getChipInfo (Some (map print_item items)) 1
             (GetVersionInfo (Some (map print_item items))))) =
       {((c, p, t, r), q) | c p t r q. (c, r) \<in> item_ids items \<and> (p, t) \<in> item_boards items
          \<and> q \<in> item_pmics items}"
proof -
  let ?st = "scan_lines (map print_item items)"
  note st = scan_lines_items [OF ok]
  have v: "GetVersionInfo (Some (map print_item items)) = (if \<exists>w. Pmic w \<in> set items then 3 else 2)"
    using version_of_items [OF ok] board by (auto simp: GetVersionInfo_def)
  have ne: "chipId ?st \<noteq> []" "chipSt ?st \<noteq> []"
    "chipPt ?st = [] \<longleftrightarrow> \<not> (\<exists>w. Pmic w \<in> set items)"
    using cells_concat_Nil [OF ok] msm board by (auto simp: st simp del: concat_eq_Nil_conv)
  have sets: "set (chipId ?st) = item_ids items" "set (chipSt ?st) = item_boards items"
    by (simp_all add: st item_ids_def item_boards_def)
  have q: "set (chipPt ?st) = item_pmics items" if "\<exists>w. Pmic w \<in> set items"
    using that by (simp add: st item_pmics_def)
  have "set (fst (getChipInfo (Some (map print_item items)) 1 3)) = set (chips_v3 ?st)"
    if "\<exists>w. Pmic w \<in> set items"
    using ne that by (simp add: getChipInfo_def getChipInfo_v23_def Let_def)
  moreover have "set (fst (getChipInfo (Some (map print_item items)) 1 2)) = set (chips_v2 ?st)"
    using ne by (simp add: getChipInfo_def getChipInfo_v23_def Let_def)
  ultimately show ?thesis
    using v q by (auto simp: set_chips_v2 set_chips_v3 sets item_pmics_def)
qed

theorem getChipInfo_cross_product_witness:
  "set (fst (getChipInfo (Some (map print_item [Msm [206, 0], Board [8, 1, 9, 1]])) 1
       (GetVersionInfo (Some (map print_item [Msm [206, 0], Board [8, 1, 9, 1]]))))) =
     {((206, 8, 1, 0), (0, 0, 0, 0)), ((206, 9, 1, 0), (0, 0, 0, 0))}"
proof -
  have "chunks 2 [206, 0 :: u32] = [[206, 0]]" "chunks 2 [8, 1, 9, 1 :: u32] = [[8, 1], [9, 1]]"
    by (simp_all add: chunks.simps)
  then have "item_ids [Msm [206, 0], Board [8, 1, 9, 1]] = {(206, 0)}"
    "item_boards [Msm [206, 0], Board [8, 1, 9, 1]] = {(8, 1), (9, 1)}"
    "item_pmics [Msm [206, 0], Board [8, 1, 9, 1]] = {(0, 0, 0, 0)}"
    by (simp_all add: item_ids_def item_boards_def item_pmics_def cell2_def)
  with getChipInfo_cross_product [of "[Msm [206, 0], Board [8, 1, 9, 1]]" "[206, 0]" "[8, 1, 9, 1]"]
  show ?thesis by auto
qed

end
