(* ===== verification/Dtb_Image.thy ===== *)
theory Dtb_Image
  imports Dtb_Scan
begin

text \<open>
  \<^verbatim>\<open>src/common/dtbtool/dtbtool.c\<close>, \<^verbatim>\<open>parse_commandline\<close> and \<^verbatim>\<open>main\<close>: the directory scan that fills
  \<^verbatim>\<open>chip_list\<close> and the generation of the master DTB image (header, index table, end
  marker, padding, blobs). The file system, the decompiler and \<^verbatim>\<open>getopt_long\<close> are outside
  the program: what they return is an argument (\<open>env\<close>, the option list). \<^verbatim>\<open>malloc\<close>
  succeeds; \<^verbatim>\<open>write\<close> on an open descriptor writes everything it is given, on a failed
  one it returns \<open>-1\<close>.
\<close>

named_theorems dtb_image \<open>facts about the generated image\<close>

definition PAGE_SIZE_DEF :: int where "PAGE_SIZE_DEF = 2048"
definition PAGE_SIZE_MAX :: int where "PAGE_SIZE_MAX = 1024 * 1024"
definition COPY_BLK :: nat where "COPY_BLK = 1024"
definition QCDT_MAGIC :: "u8 list" where "QCDT_MAGIC = [81, 67, 68, 84]"
definition QCDT_VERSION :: u32 where "QCDT_VERSION = 3"

subsection \<open>Command line\<close>

text \<open>What \<^verbatim>\<open>getopt_long\<close> returns, one element per call before \<open>-1\<close>.\<close>

datatype opt = NonOpt string | OptO string | OptP string | OptS string | OptV | OptH | OptUnknown

record cmdline =
  input_dir :: "string option"
  output_file :: "string option"
  dtc_path :: "string option"
  verbose :: bool
  page_size :: int

definition cmdline_init :: cmdline where
  "cmdline_init = \<lparr>input_dir = None, output_file = None, dtc_path = None, verbose = False,
     page_size = PAGE_SIZE_DEF\<rparr>"

fun parse_opts :: "opt list \<Rightarrow> cmdline \<Rightarrow> int \<times> cmdline" where
  "parse_opts [] st = (RC_SUCCESS, st)"
| "parse_opts (NonOpt a # os) st =
     parse_opts os (if input_dir st = None then st\<lparr>input_dir := Some a\<rparr> else st)"
| "parse_opts (OptO a # os) st = parse_opts os (st\<lparr>output_file := Some a\<rparr>)"
| "parse_opts (OptP a # os) st = parse_opts os (st\<lparr>dtc_path := Some a\<rparr>)"
| "parse_opts (OptS a # os) st =
     (let st' = st\<lparr>page_size := atoi 64 a\<rparr> in
      if page_size st' \<le> 0 \<or> page_size st' > PAGE_SIZE_MAX then (RC_ERROR, st')
      else parse_opts os st')"
| "parse_opts (OptV # os) st = parse_opts os (st\<lparr>verbose := True\<rparr>)"
| "parse_opts (OptH # os) st = (RC_ERROR, st)"
| "parse_opts (OptUnknown # os) st = (RC_ERROR, st)"

definition parse_commandline :: "opt list \<Rightarrow> int \<times> cmdline" where
  "parse_commandline os =
     (case parse_opts os cmdline_init of
        (rc, st) \<Rightarrow>
          if rc \<noteq> RC_SUCCESS then (rc, st)
          else if output_file st = None then (RC_ERROR, st)
          else (RC_SUCCESS,
                st\<lparr>input_dir := Some (case input_dir st of None \<Rightarrow> ''./'' | Some d \<Rightarrow> d),
                   dtc_path := Some (case dtc_path st of None \<Rightarrow> '''' | Some d \<Rightarrow> d)\<rparr>))"

subsection \<open>The environment of one run\<close>

record env =
  e_dir :: "string \<Rightarrow> (string \<times> bool) list option"
  e_dtc :: "string \<Rightarrow> string \<Rightarrow> string list option"
  e_stat :: "string \<Rightarrow> nat option"
  e_read :: "string \<Rightarrow> u8 list option"
  e_open :: bool
  e_old :: "u8 list option"

subsection \<open>Reading the directory\<close>

record scan_st =
  sc_chips :: chips
  sc_brk :: addr
  dtb_count :: nat
  sc_rc :: int

definition new_chip :: "chip_ident \<Rightarrow> addr \<Rightarrow> addr option \<Rightarrow> chipInfo_t" where
  "new_chip i m tn =
     (case i of ((cs, pl, st, rv), pm) \<Rightarrow>
       \<lparr>chipset = cs, platform = pl, subtype = st, revNum = rv, pmic_model = pm,
        dtb_size = 0, dtb_file = None, ci_prev = None, ci_next = None, master = m,
        wroteDtb = False, master_offset = 0, t_next = tn\<rparr>)"

text \<open>The chips \<^verbatim>\<open>getChipInfo\<close> allocates, linked by \<^verbatim>\<open>t_next\<close>, all with the first as \<^verbatim>\<open>master\<close>.\<close>

fun alloc_chain :: "addr \<Rightarrow> addr \<Rightarrow> chip_ident list \<Rightarrow> chip_heap \<Rightarrow> chip_heap" where
  "alloc_chain m b [] h = h"
| "alloc_chain m b (i # is) h =
     alloc_chain m (Suc b) is (h(b \<mapsto> new_chip i m (if is = [] then None else Some (Suc b))))"

partial_function (option) add_rest ::
    "addr option \<Rightarrow> chips \<Rightarrow> nat \<Rightarrow> int \<Rightarrow> (chips \<times> nat \<times> int) option" where
  "add_rest t s n rc =
     (case t of
        None \<Rightarrow> Some (s, n, rc)
      | Some a \<Rightarrow>
          (case chip_add a s of
             None \<Rightarrow> None
           | Some (s', rc') \<Rightarrow>
               (case heap s' a of
                  None \<Rightarrow> None
                | Some v \<Rightarrow>
                    add_rest (t_next v) s' (if rc' \<noteq> RC_SUCCESS then n else n + 1) rc')))"

definition pad_len :: "nat \<Rightarrow> nat \<Rightarrow> nat" where
  "pad_len page n = page - n mod page"

definition add_file :: "env \<Rightarrow> string \<Rightarrow> nat \<Rightarrow> string \<Rightarrow> scan_st \<Rightarrow> scan_st option" where
  "add_file e dtc page filename st =
     (let output = e_dtc e dtc filename;
          msmversion = GetVersionInfo output;
          (cs, num) = getChipInfo output 1 msmversion;
          b = sc_brk st;
          st1 = st\<lparr>sc_chips := (sc_chips st)\<lparr>heap := alloc_chain b b cs (heap (sc_chips st))\<rparr>,
                   sc_brk := b + length cs\<rparr>
      in if cs = [] then Some st1
         else case e_stat e filename of
           None \<Rightarrow> Some st1
         | Some sz \<Rightarrow>
             if sz = 0 then Some st1
             else case chip_add b (sc_chips st1) of
               None \<Rightarrow> None
             | Some (s2, rc) \<Rightarrow>
                 if rc \<noteq> RC_SUCCESS then Some (st1\<lparr>sc_chips := s2, sc_rc := rc\<rparr>)
                 else
                   (let s3 = upd b (\<lambda>v. v\<lparr>dtb_size := of_nat (sz + pad_len page sz),
                                         dtb_file := Some filename\<rparr>) s2
                    in case heap s3 b of
                         None \<Rightarrow> None
                       | Some v \<Rightarrow>
                           (case add_rest (t_next v) s3 (dtb_count st1 + 1) rc of
                              None \<Rightarrow> None
                            | Some (s4, n, rc') \<Rightarrow>
                                Some (st1\<lparr>sc_chips := s4, dtb_count := n, sc_rc := rc'\<rparr>))))"

definition is_dtb_name :: "string \<Rightarrow> bool" where
  "is_dtb_name nm \<longleftrightarrow> length nm > 4 \<and> drop (length nm - 4) nm = ''.dtb''"

fun scan_dir :: "env \<Rightarrow> string \<Rightarrow> string \<Rightarrow> nat \<Rightarrow> (string \<times> bool) list \<Rightarrow> scan_st \<Rightarrow> scan_st option" where
  "scan_dir e dtc dir page [] st = Some st"
| "scan_dir e dtc dir page ((nm, is_reg) # ds) st =
     (if is_reg \<and> is_dtb_name nm
      then (case add_file e dtc page (dir @ nm) st of
              None \<Rightarrow> None
            | Some st' \<Rightarrow> scan_dir e dtc dir page ds st')
      else scan_dir e dtc dir page ds st)"

definition scan_init :: scan_st where
  "scan_init = \<lparr>sc_chips = \<lparr>heap = (\<lambda>_. None), chip_list = None\<rparr>, sc_brk = 0, dtb_count = 0,
     sc_rc = RC_SUCCESS\<rparr>"

subsection \<open>Writing the image\<close>

record out_st =
  o_bytes :: "u8 list"
  wrote :: u64

definition wr :: "bool \<Rightarrow> u8 list \<Rightarrow> out_st \<Rightarrow> out_st" where
  "wr fd_ok bs st =
     (if fd_ok then st\<lparr>o_bytes := o_bytes st @ bs, wrote := wrote st + of_nat (length bs)\<rparr>
      else st\<lparr>wrote := wrote st - 1\<rparr>)"

definition wr_header :: "bool \<Rightarrow> nat \<Rightarrow> out_st \<Rightarrow> out_st" where
  "wr_header ok cnt =
     wr ok (le32 (of_nat cnt)) \<circ> wr ok (le32 QCDT_VERSION) \<circ> wr ok QCDT_MAGIC"

text \<open>The ten words of one index table entry, with the offset bookkeeping of the master.\<close>

definition index_entry :: "bool \<Rightarrow> addr \<Rightarrow> chip_heap \<times> u64 \<times> out_st \<Rightarrow> (chip_heap \<times> u64 \<times> out_st) option" where
  "index_entry ok a st =
     (case st of (h, expected, o1) \<Rightarrow>
      (case h a of None \<Rightarrow> None | Some v \<Rightarrow>
       (case h (master v) of None \<Rightarrow> None | Some mv \<Rightarrow>
         (case pmic_model v of (p0, p1, p2, p3) \<Rightarrow>
           let o2 = wr ok (le32 p3) (wr ok (le32 p2) (wr ok (le32 p1) (wr ok (le32 p0)
                     (wr ok (le32 (revNum v)) (wr ok (le32 (subtype v))
                       (wr ok (le32 (platform v)) (wr ok (le32 (chipset v)) o1)))))))
           in if master_offset mv \<noteq> 0
              then Some (h, expected, wr ok (le32 (dtb_size mv)) (wr ok (le32 (master_offset mv)) o2))
              else Some (h(master v \<mapsto> mv\<lparr>master_offset := ucast expected\<rparr>),
                         expected + ucast (dtb_size mv),
                         wr ok (le32 (dtb_size mv)) (wr ok (le32 (ucast expected)) o2))))))"

fun wr_index :: "bool \<Rightarrow> addr list \<Rightarrow> chip_heap \<times> u64 \<times> out_st \<Rightarrow> (chip_heap \<times> u64 \<times> out_st) option" where
  "wr_index ok [] st = Some st"
| "wr_index ok (a # as) st =
     (case index_entry ok a st of None \<Rightarrow> None | Some st' \<Rightarrow> wr_index ok as st')"

text \<open>The copy loop: one \<^verbatim>\<open>write\<close> per block of at most \<^verbatim>\<open>COPY_BLK\<close> bytes.\<close>

definition copy_file :: "bool \<Rightarrow> u8 list \<Rightarrow> out_st \<Rightarrow> out_st" where
  "copy_file ok content st = foldl (\<lambda>s blk. wr ok blk s) st (chunks COPY_BLK content)"

fun wr_dtbs :: "bool \<Rightarrow> env \<Rightarrow> nat \<Rightarrow> addr list \<Rightarrow> chip_heap \<Rightarrow> out_st \<Rightarrow> (chip_heap \<times> out_st \<times> int) option" where
  "wr_dtbs ok e page [] h st = Some (h, st, RC_SUCCESS)"
| "wr_dtbs ok e page (a # as) h st =
     (case h a of None \<Rightarrow> None | Some v \<Rightarrow>
      (case h (master v) of None \<Rightarrow> None | Some mv \<Rightarrow>
        if wroteDtb mv then wr_dtbs ok e page as h st
        else
          (let h' = h(master v \<mapsto> mv\<lparr>wroteDtb := True\<rparr>) in
           case Option.bind (dtb_file mv) (e_read e) of
             None \<Rightarrow> Some (h', st, RC_ERROR)
           | Some content \<Rightarrow>
               (let st' = copy_file ok content st;
                    padding = pad_len page (length content)
                in if of_nat (length content + padding) \<noteq> dtb_size mv
                   then Some (h', st', RC_ERROR)
                   else wr_dtbs ok e page as h' (wr ok (replicate padding 0) st')))))"

text \<open>Everything from \<^verbatim>\<open>open\<close> to the final size check: the return code and the file left behind.\<close>

definition gen_image :: "env \<Rightarrow> nat \<Rightarrow> chips \<Rightarrow> nat \<Rightarrow> (int \<times> u8 list option) option" where
  "gen_image e page s cnt =
     (let ok = e_open e;
          o1 = wr_header ok cnt \<lparr>o_bytes = [], wrote = 0\<rparr>;
          base = 12 + 40 * cnt + 4;
          padding = pad_len page base;
          expected = of_nat (base + padding)
      in case chain (heap s) (chip_list s) of
           None \<Rightarrow> None
         | Some as \<Rightarrow>
             (case wr_index ok as (heap s, expected, o1) of
                None \<Rightarrow> None
              | Some (h, expected', o2) \<Rightarrow>
                  (let o3 = wr ok (le32 0) o2;
                       o4 = (if padding > 0 then wr ok (replicate padding 0) o3 else o3)
                   in case wr_dtbs ok e page as h o4 of
                        None \<Rightarrow> None
                      | Some (h', o5, rc) \<Rightarrow>
                          (let rc' = (if expected' \<noteq> wrote o5 then RC_ERROR else rc) in
                           Some (rc', if rc' \<noteq> RC_SUCCESS then None
                                      else Some (o_bytes o5 @
                                        drop (length (o_bytes o5)) (case e_old e of None \<Rightarrow> [] | Some b \<Rightarrow> b)))))))"

definition main :: "env \<Rightarrow> opt list \<Rightarrow> (int \<times> u8 list option) option" where
  "main e os =
     (case parse_commandline os of
        (rc, cl) \<Rightarrow>
          if rc \<noteq> RC_SUCCESS then Some (RC_ERROR, e_old e)
          else
            (let dir = the (input_dir cl); dtc = the (dtc_path cl); page = nat (page_size cl) in
             case e_dir e dir of
               None \<Rightarrow> Some (RC_ERROR, e_old e)
             | Some ds \<Rightarrow>
                 (case scan_dir e dtc dir page ds scan_init of
                    None \<Rightarrow> None
                  | Some st \<Rightarrow>
                      if dtb_count st = 0 then Some (sc_rc st, e_old e)
                      else
                        (case gen_image e page (sc_chips st) (dtb_count st) of
                           None \<Rightarrow> None
                         | Some r \<Rightarrow> (case chip_deleteall (sc_chips st) of None \<Rightarrow> None | Some _ \<Rightarrow> Some r)))))"

subsection \<open>The chip list as a store of unique identities\<close>

text \<open>
  The contract of \<^verbatim>\<open>chip_add\<close> that its caller relies on: elements with a new identity are
  accepted, others are refused with a non-zero code, and nothing else changes. The
  counting loop over additional chips is verified against this contract alone.
\<close>

fun add_all :: "('a \<Rightarrow> 's \<Rightarrow> ('s \<times> int) option) \<Rightarrow> 'a list \<Rightarrow> 's \<Rightarrow> nat \<Rightarrow> int \<Rightarrow> ('s \<times> nat \<times> int) option" where
  "add_all add [] s n rc = Some (s, n, rc)"
| "add_all add (c # cs) s n rc =
     (case add c s of None \<Rightarrow> None
      | Some (s', rc') \<Rightarrow> add_all add cs s' (if rc' \<noteq> RC_SUCCESS then n else n + 1) rc')"

locale id_store =
  fixes inv :: "'s \<Rightarrow> 'a list \<Rightarrow> bool"
    and add :: "'a \<Rightarrow> 's \<Rightarrow> ('s \<times> int) option"
    and view :: "'s \<Rightarrow> 'a \<Rightarrow> 'v option"
    and ident :: "'v \<Rightarrow> 'i"
  assumes add_contract:
    "inv s as \<Longrightarrow> a \<notin> set as \<Longrightarrow> view s a = Some v \<Longrightarrow>
     \<exists>s' rc. add a s = Some (s', rc) \<and> view s' = view s \<and>
       (if \<exists>x\<in>set as. \<exists>w. view s x = Some w \<and> ident w = ident v then rc \<noteq> RC_SUCCESS \<and> inv s' as
        else rc = RC_SUCCESS \<and> (\<exists>bs. inv s' bs \<and> mset bs = add_mset a (mset as)))"
begin

definition idents :: "'s \<Rightarrow> 'a set \<Rightarrow> 'i set" where
  "idents s A = {ident w | x w. x \<in> A \<and> view s x = Some w}"

lemma idents_view: "view s' = view s \<Longrightarrow> idents s' A = idents s A"
  by (simp add: idents_def)

lemma idents_cong: "(\<And>a. a \<in> A \<Longrightarrow> view s' a = view s a) \<Longrightarrow> idents s' A = idents s A"
  unfolding idents_def by metis

lemma idents_Un: "idents s (A \<union> B) = idents s A \<union> idents s B"
  by (auto simp: idents_def)

lemma idents_insert: "view s c = Some v \<Longrightarrow> idents s (insert c A) = insert (ident v) (idents s A)"
  by (auto simp: idents_def)

lemma idents_mono: "A \<subseteq> B \<Longrightarrow> idents s A \<subseteq> idents s B"
  by (auto simp: idents_def)

lemma add_cases:
  assumes "inv s as" "a \<notin> set as" "view s a = Some v"
  obtains (refused) s' rc where "add a s = Some (s', rc)" "rc \<noteq> RC_SUCCESS" "view s' = view s"
      "inv s' as" "ident v \<in> idents s (set as)"
    | (accepted) s' bs where "add a s = Some (s', RC_SUCCESS)" "view s' = view s" "inv s' bs"
      "mset bs = add_mset a (mset as)" "ident v \<notin> idents s (set as)"
proof -
  from add_contract [OF assms] obtain s' rc where s': "add a s = Some (s', rc)" "view s' = view s"
    and alt: "if \<exists>x\<in>set as. \<exists>w. view s x = Some w \<and> ident w = ident v
        then rc \<noteq> RC_SUCCESS \<and> inv s' as
        else rc = RC_SUCCESS \<and> (\<exists>bs. inv s' bs \<and> mset bs = add_mset a (mset as))"
    by blast
  have eq: "(\<exists>x\<in>set as. \<exists>w. view s x = Some w \<and> ident w = ident v) \<longleftrightarrow> ident v \<in> idents s (set as)"
    unfolding idents_def by (simp, metis)
  show thesis
  proof (cases "ident v \<in> idents s (set as)")
    case True
    with alt eq s' that(1) show thesis by simp
  next
    case False
    with alt eq s' that(2) show thesis by auto
  qed
qed

lemma add_keeps:
  assumes "inv s as" "a \<notin> set as" "view s a = Some v"
  shows "\<exists>s' rc bs. add a s = Some (s', rc) \<and> view s' = view s \<and> inv s' bs \<and>
    set as \<subseteq> set bs \<and> set bs \<subseteq> insert a (set as)"
  using assms
proof (cases rule: add_cases)
  case (accepted s' bs)
  then show ?thesis using mset_eq_setD [of bs "a # as"] by auto
qed auto

lemma add_all_store:
  assumes "inv s as" "distinct cs" "set cs \<inter> set as = {}" "\<forall>c\<in>set cs. view s c \<noteq> None"
  shows "\<exists>s' n' rc' bs. add_all add cs s n rc = Some (s', n', rc') \<and> view s' = view s \<and> inv s' bs \<and>
    set as \<subseteq> set bs \<and> set bs \<subseteq> set as \<union> set cs \<and> n' + length as = n + length bs \<and>
    idents s (set bs) = idents s (set as \<union> set cs)"
  using assms
proof (induction cs arbitrary: s as n rc)
  case (Cons c cs)
  then obtain v where v: "view s c = Some v" by auto
  have c: "c \<notin> set as" using Cons.prems by auto
  from Cons.prems(1) c v show ?case
  proof (cases rule: add_cases)
    case (refused s1 rc1)
    note 1 = refused
    have "set cs \<inter> set as = {}" "\<forall>c\<in>set cs. view s1 c \<noteq> None" "distinct cs"
      using Cons.prems 1(3) by auto
    from Cons.IH [OF 1(4) this(3,1,2), of n rc1] obtain s' n' rc' bs where
      r: "add_all add cs s1 n rc1 = Some (s', n', rc')" "view s' = view s1" "inv s' bs"
        "set as \<subseteq> set bs" "set bs \<subseteq> set as \<union> set cs" "n' + length as = n + length bs"
        "idents s1 (set bs) = idents s1 (set as \<union> set cs)" by blast
    have "ident v \<in> idents s (set as \<union> set cs)"
      using 1(5) idents_mono [of "set as" "set as \<union> set cs" s] by blast
    then have "idents s (set as \<union> set (c # cs)) = idents s (set as \<union> set cs)"
      using v by (simp add: idents_insert insert_absorb)
    with r 1 show ?thesis by (auto simp: idents_view [OF 1(3)])
  next
    case (accepted s1 bs1)
    note 2 = accepted
    have bs1: "set bs1 = insert c (set as)" "length bs1 = Suc (length as)"
      using 2(4) mset_eq_setD [of bs1 "c # as"] mset_eq_length [of bs1 "c # as"] by auto
    have "set cs \<inter> set bs1 = {}" "\<forall>c\<in>set cs. view s1 c \<noteq> None" "distinct cs"
      using Cons.prems 2(2) bs1 by auto
    from Cons.IH [OF 2(3) this(3,1,2), of "n + 1" RC_SUCCESS] obtain s' n' rc' bs where
      "add_all add cs s1 (n + 1) RC_SUCCESS = Some (s', n', rc')" "view s' = view s1" "inv s' bs"
        "set bs1 \<subseteq> set bs" "set bs \<subseteq> set bs1 \<union> set cs" "n' + length bs1 = n + 1 + length bs"
        "idents s1 (set bs) = idents s1 (set bs1 \<union> set cs)" by blast
    then show ?thesis
      using 2(1,2) bs1 by (auto simp: idents_view [OF 2(2)] insert_commute)
  qed
qed (auto simp: idents_def)

end

definition chip_view :: "chips \<Rightarrow> addr \<Rightarrow> chipInfo_t option" where
  "chip_view s a = map_option unlinked (heap s a)"

interpretation chip_store: id_store chips_inv chip_add chip_view chip_id
proof
  fix s as a v
  assume inv: "chips_inv s as" and a: "a \<notin> set as" and v: "chip_view s a = Some v"
  from v obtain w where w: "heap s a = Some w" "v = unlinked w" by (auto simp: chip_view_def)
  have alloc: "\<exists>u. heap s x = Some u" if "x \<in> set as" for x
    using inv that by (auto simp: chips_inv_def chips_rel_def dest: dseg_alloc)
  have eq: "(\<exists>x\<in>set as. \<exists>u. chip_view s x = Some u \<and> chip_id u = chip_id v) \<longleftrightarrow>
      (\<exists>x\<in>set as. chip_id (val s x) = chip_id w)"
    using alloc w(2) by (force simp: chip_view_def)
  from chips_inv_add [OF inv a w(1)]
  show "\<exists>s' rc. chip_add a s = Some (s', rc) \<and> chip_view s' = chip_view s \<and>
      (if \<exists>x\<in>set as. \<exists>u. chip_view s x = Some u \<and> chip_id u = chip_id v
       then rc \<noteq> RC_SUCCESS \<and> chips_inv s' as
       else rc = RC_SUCCESS \<and> (\<exists>bs. chips_inv s' bs \<and> mset bs = add_mset a (mset as)))"
    unfolding eq using inv
    by (cases "\<exists>x\<in>set as. chip_id (val s x) = chip_id w")
      (auto simp: chip_view_def fun_eq_iff RC_SUCCESS_def RC_ERROR_def)
qed

end
