(* ===== verification/Dtb_Correct.thy ===== *)
theory Dtb_Correct
  imports Dtb_Image
begin

text \<open>
  Correctness of the DTB combiner: the directory scan keeps the chip list sorted,
  duplicate free and complete, and the generated image is one a boot loader can read
  back: every index entry points at the padded blob of its device tree.
\<close>

subsection \<open>Heap changes that leave the list alone\<close>

lemma chip_view_eq_None [simp]: "chip_view s a = None \<longleftrightarrow> heap s a = None"
  by (simp add: chip_view_def)

lemma chips_inv_alloc: "chips_inv s as \<Longrightarrow> a \<in> set as \<Longrightarrow> \<exists>v. heap s a = Some v"
  by (auto simp: chips_inv_def chips_rel_def dest: dseg_alloc)

lemma chips_inv_cong:
  assumes "chips_inv s as" "\<And>a. a \<in> set as \<Longrightarrow> heap s' a = heap s a" "chip_list s' = chip_list s"
  shows "chips_inv s' as"
proof -
  have seg: "dseg (heap s') None (chip_list s) as (last_opt as) None =
      dseg (heap s) None (chip_list s) as (last_opt as) None"
    using assms(2) by (rule dseg_frame)
  have ids: "map (chip_key \<circ> val s') as = map (chip_key \<circ> val s) as"
    "map (chip_id \<circ> val s') as = map (chip_id \<circ> val s) as"
    using assms(2) by auto
  show ?thesis
    using assms(1) unfolding chips_inv_def chips_rel_def assms(3) seg ids .
qed

lemma dseg_upd_payload:
  assumes "\<And>v. ci_prev (f v) = ci_prev v" "\<And>v. ci_next (f v) = ci_next v"
  shows "dseg (h(b := map_option f (h b))) p q as p' q' = dseg h p q as p' q'"
  by (induction as arbitrary: p q) (auto simp: assms split: option.splits)

lemma chips_inv_upd:
  assumes "chips_inv s as" "\<And>v. ci_prev (f v) = ci_prev v" "\<And>v. ci_next (f v) = ci_next v"
    and "\<And>v. chip_id (f v) = chip_id v"
  shows "chips_inv (upd b f s) as"
proof -
  have "chip_id (val (upd b f s) a) = chip_id (val s a)" if "a \<in> set as" for a
    using assms(1,4) that chips_inv_alloc [of s as a] by auto
  then have ids: "map (chip_id \<circ> val (upd b f s)) as = map (chip_id \<circ> val s) as"
    "map (chip_key \<circ> val (upd b f s)) as = map (chip_key \<circ> val s) as"
    by (auto simp: chip_id_def)
  show ?thesis
    using assms(1-3) unfolding chips_inv_def chips_rel_def ids
    by (simp add: dseg_upd_payload)
qed

subsection \<open>The chips of one file\<close>

lemma alloc_chain_heap:
  "alloc_chain m b is h a =
     (if b \<le> a \<and> a < b + length is
      then Some (new_chip (is ! (a - b)) m (if Suc a = b + length is then None else Some (Suc a)))
      else h a)"
proof (induction "is" arbitrary: b h)
  case (Cons i "is")
  show ?case
  proof (cases "a = b")
    case True
    then show ?thesis using Cons by auto
  next
    case False
    then have "b \<le> a \<longleftrightarrow> Suc b \<le> a" by auto
    moreover have "Suc b \<le> a \<Longrightarrow> a - b = Suc (a - Suc b)" by auto
    ultimately show ?thesis using Cons False by auto
  qed
qed auto

fun t_linked :: "(addr \<Rightarrow> chipInfo_t option) \<Rightarrow> addr option \<Rightarrow> addr list \<Rightarrow> bool" where
  "t_linked V t [] = (t = None)"
| "t_linked V t (a # as) =
     (t = Some a \<and> (case V a of None \<Rightarrow> False | Some v \<Rightarrow> t_linked V (t_next v) as))"

lemma add_rest_add_all:
  assumes "chips_inv s as" "distinct ts" "set ts \<inter> set as = {}" "t_linked (chip_view s) t ts"
  shows "add_rest t s n rc = add_all chip_add ts s n rc"
  using assms
proof (induction ts arbitrary: s as t n rc)
  case Nil
  then show ?case by (subst add_rest.simps) simp
next
  case (Cons a ts)
  then obtain v where v: "chip_view s a = Some v" "t = Some a" "t_linked (chip_view s) (t_next v) ts"
    by (auto split: option.splits)
  have a: "a \<notin> set as" using Cons.prems by auto
  from chip_store.add_keeps [OF Cons.prems(1) a v(1)] obtain s' rc' bs where
    s': "chip_add a s = Some (s', rc')" "chip_view s' = chip_view s" "chips_inv s' bs"
      "set bs \<subseteq> insert a (set as)" by blast
  from s'(2) v(1) obtain w where w: "heap s' a = Some w" "t_next w = t_next v"
    by (metis chip_view_def map_option_eq_Some unlinked_proj(8))
  have "set ts \<inter> set bs = {}" using s'(4) Cons.prems(2,3) by auto
  with Cons.IH [OF s'(3)] Cons.prems(2) s'(2) v(3) w
  have "add_rest (t_next v) s' n' rc' = add_all chip_add ts s' n' rc'" for n' by simp
  with s'(1) v(2) w show ?case by (subst add_rest.simps) simp
qed

subsection \<open>Invariant of the directory scan\<close>

definition chip_ok :: "(string \<Rightarrow> chip_ident \<Rightarrow> u32 \<Rightarrow> bool) \<Rightarrow> (addr \<Rightarrow> chipInfo_t option) \<Rightarrow> addr set \<Rightarrow> addr \<Rightarrow> bool" where
  "chip_ok F V A a \<longleftrightarrow>
     (\<exists>v mv f. V a = Some v \<and> \<not> wroteDtb v \<and> master_offset v = 0 \<and> master v \<in> A \<and>
        V (master v) = Some mv \<and> master mv = master v \<and> dtb_file mv = Some f \<and>
        F f (chip_id v) (dtb_size mv))"

definition world_inv :: "(string \<Rightarrow> chip_ident \<Rightarrow> u32 \<Rightarrow> bool) \<Rightarrow> scan_st \<Rightarrow> addr list \<Rightarrow> bool" where
  "world_inv F st as \<longleftrightarrow>
     chips_inv (sc_chips st) as \<and> dtb_count st = length as \<and>
     (\<forall>a. sc_brk st \<le> a \<longrightarrow> heap (sc_chips st) a = None) \<and>
     (\<forall>a\<in>set as. chip_ok F (chip_view (sc_chips st)) (set as) a)"

text \<open>The size recorded for a file: its length rounded up to whole pages, one page at least.\<close>

definition sized :: "env \<Rightarrow> nat \<Rightarrow> string \<Rightarrow> u32 \<Rightarrow> bool" where
  "sized e page f sz \<longleftrightarrow>
     (\<exists>n. e_stat e f = Some n \<and> n > 0 \<and> sz = of_nat (n + pad_len page n))"

text \<open>The chips a file contributes, and the identities collected so far.\<close>

definition file_chips :: "env \<Rightarrow> string \<Rightarrow> string \<Rightarrow> chip_ident list" where
  "file_chips e dtc f = fst (getChipInfo (e_dtc e dtc f) 1 (GetVersionInfo (e_dtc e dtc f)))"

definition accepted :: "env \<Rightarrow> string \<Rightarrow> string \<Rightarrow> chip_ident set \<Rightarrow> bool" where
  "accepted e dtc f ids \<longleftrightarrow>
     file_chips e dtc f \<noteq> [] \<and> e_stat e f \<noteq> None \<and> e_stat e f \<noteq> Some 0 \<and>
     hd (file_chips e dtc f) \<notin> ids"

abbreviation ids_of :: "scan_st \<Rightarrow> addr list \<Rightarrow> chip_ident set" where
  "ids_of st as \<equiv> chip_store.idents (sc_chips st) (set as)"

lemma chip_ok_mono:
  assumes "chip_ok F V A a" "A \<subseteq> B" "V' a = V a" "\<And>m. m \<in> A \<Longrightarrow> V' m = V m"
  shows "chip_ok F V' B a"
  using assms unfolding chip_ok_def by (metis subsetD)

lemma world_inv_bound: "world_inv F st as \<Longrightarrow> a \<in> set as \<Longrightarrow> a < sc_brk st"
  by (metis chips_inv_alloc leI option.distinct(1) world_inv_def)

lemma new_chip_proj [simp]:
  "unlinked (new_chip i m t) = new_chip i m t" "chip_id (new_chip i m t) = i"
  "master (new_chip i m t) = m" "t_next (new_chip i m t) = t"
  "\<not> wroteDtb (new_chip i m t)" "master_offset (new_chip i m t) = 0"
  by (auto simp: new_chip_def unlinked_def chip_id_def chip_key_def split: prod.splits)

lemma t_linked_range:
  assumes "\<And>a. b \<le> a \<Longrightarrow> a < c \<Longrightarrow>
    \<exists>v. V a = Some v \<and> t_next v = (if Suc a = c then None else Some (Suc a))"
  shows "t_linked V (if b < c then Some b else None) [b..<c]"
proof (cases "b \<le> c")
  case True
  then show ?thesis using assms
  proof (induction b rule: inc_induct)
    case (step n)
    from step.prems [of n] step.hyps obtain v where
      "V n = Some v" "t_next v = (if Suc n = c then None else Some (Suc n))" by auto
    moreover have "t_linked V (if Suc n < c then Some (Suc n) else None) [Suc n..<c]"
      using step.prems by (intro step.IH) auto
    ultimately show ?case using step.hyps by (auto simp: upt_conv_Cons split: if_splits)
  qed simp
qed simp

lemma chip_view_upd:
  assumes "\<And>v. unlinked (f v) = f (unlinked v)"
  shows "chip_view (upd b f s) = (chip_view s)(b := map_option f (chip_view s b))"
  by (auto simp: fun_eq_iff chip_view_def option.map_comp comp_def assms)

text \<open>The heap right after \<^verbatim>\<open>getChipInfo\<close> returned.\<close>

definition alloc_st :: "scan_st \<Rightarrow> chip_ident list \<Rightarrow> scan_st" where
  "alloc_st st cs = st\<lparr>sc_chips := (sc_chips st)\<lparr>heap :=
     alloc_chain (sc_brk st) (sc_brk st) cs (heap (sc_chips st))\<rparr>, sc_brk := sc_brk st + length cs\<rparr>"

lemma alloc_st_view:
  "chip_view (sc_chips (alloc_st st cs)) a =
     (if sc_brk st \<le> a \<and> a < sc_brk st + length cs
      then Some (new_chip (cs ! (a - sc_brk st)) (sc_brk st)
        (if Suc a = sc_brk st + length cs then None else Some (Suc a)))
      else chip_view (sc_chips st) a)"
  by (simp add: chip_view_def alloc_st_def alloc_chain_heap)

lemma alloc_st_inv:
  assumes "world_inv F st as"
  shows "world_inv F (alloc_st st cs) as" "ids_of (alloc_st st cs) as = ids_of st as"
proof -
  have same: "heap (sc_chips (alloc_st st cs)) a = heap (sc_chips st) a" if "a \<in> set as" for a
    using world_inv_bound [OF assms that] by (simp add: alloc_st_def alloc_chain_heap)
  then have view: "chip_view (sc_chips (alloc_st st cs)) a = chip_view (sc_chips st) a" if "a \<in> set as" for a
    using that by (simp add: chip_view_def)
  have "chips_inv (sc_chips st) as" using assms by (simp add: world_inv_def)
  then have "chips_inv (sc_chips (alloc_st st cs)) as"
    by (rule chips_inv_cong) (simp_all add: same, simp add: alloc_st_def)
  moreover have "chip_ok F (chip_view (sc_chips (alloc_st st cs))) (set as) a" if "a \<in> set as" for a
    by (rule chip_ok_mono [of F "chip_view (sc_chips st)" "set as"])
      (use assms that view in \<open>auto simp: world_inv_def\<close>)
  moreover have "\<forall>a. sc_brk (alloc_st st cs) \<le> a \<longrightarrow> heap (sc_chips (alloc_st st cs)) a = None"
    using assms by (auto simp: world_inv_def alloc_st_def alloc_chain_heap)
  moreover have "dtb_count (alloc_st st cs) = length as"
    using assms by (simp add: world_inv_def alloc_st_def)
  ultimately show "world_inv F (alloc_st st cs) as" by (simp add: world_inv_def)
  show "ids_of (alloc_st st cs) as = ids_of st as"
    using view by (rule chip_store.idents_cong)
qed

lemma view_heap_None: "chip_view s' = chip_view s \<Longrightarrow> heap s' a = None \<longleftrightarrow> heap s a = None"
  by (metis chip_view_eq_None)

lemma world_inv_view:
  assumes "world_inv F st as" "chips_inv s' as" "chip_view s' = chip_view (sc_chips st)"
  shows "world_inv F (st\<lparr>sc_chips := s', sc_rc := rc\<rparr>) as"
    "ids_of (st\<lparr>sc_chips := s', sc_rc := rc\<rparr>) as = ids_of st as"
  using assms view_heap_None [OF assms(3)] chip_store.idents_view [OF assms(3)]
  by (simp_all add: world_inv_def)

lemma idents_range:
  assumes "\<And>a. b \<le> a \<Longrightarrow> a < b + length cs \<Longrightarrow> chip_id (the (chip_view s a)) = cs ! (a - b)"
    and "\<And>a. b \<le> a \<Longrightarrow> a < b + length cs \<Longrightarrow> chip_view s a \<noteq> None"
  shows "chip_store.idents s {b..<b + length cs} = set cs"
proof (intro set_eqI iffI)
  fix i assume "i \<in> chip_store.idents s {b..<b + length cs}"
  then obtain a w where a: "b \<le> a" "a < b + length cs" "chip_view s a = Some w" "i = chip_id w"
    unfolding chip_store.idents_def by auto
  then have "i = cs ! (a - b)" "a - b < length cs" using assms(1) [of a] by simp_all
  then show "i \<in> set cs" by (simp only: nth_mem)
next
  fix i assume "i \<in> set cs"
  then obtain k where k: "k < length cs" "i = cs ! k" by (metis in_set_conv_nth)
  have "chip_view s (b + k) \<noteq> None" using assms(2) k by simp
  then obtain w where w: "chip_view s (b + k) = Some w" by blast
  with assms(1) [of "b + k"] k have "i = chip_id w" by simp
  moreover have "b + k \<in> {b..<b + length cs}" using k by simp
  ultimately show "i \<in> chip_store.idents s {b..<b + length cs}"
    unfolding chip_store.idents_def using w by blast
qed

text \<open>After the first chip of a file is accepted, the others follow in \<^verbatim>\<open>t_next\<close> order.\<close>

lemma file_tail_inv:
  assumes inv: "world_inv F st as" and F: "\<And>i. i \<in> set cs \<Longrightarrow> F f i sz" and cs: "cs \<noteq> []"
    and st1: "st1 = alloc_st st cs" and b: "b = sc_brk st"
    and s2: "chip_view s2 = chip_view (sc_chips st1)" "chips_inv s2 bs" "mset bs = add_mset b (mset as)"
    and s3: "s3 = upd b (\<lambda>v. v\<lparr>dtb_size := sz, dtb_file := Some f\<rparr>) s2"
  shows "\<exists>v s4 n rc' ds. heap s3 b = Some v \<and>
    add_rest (t_next v) s3 (dtb_count st1 + 1) rc = Some (s4, n, rc') \<and>
    world_inv F (st1\<lparr>sc_chips := s4, dtb_count := n, sc_rc := rc'\<rparr>) ds \<and>
    ids_of (st1\<lparr>sc_chips := s4, dtb_count := n, sc_rc := rc'\<rparr>) ds = ids_of st as \<union> set cs"
proof -
  let ?e = "b + length cs" and ?V1 = "chip_view (sc_chips st1)" and ?V3 = "chip_view s3"
  let ?f = "\<lambda>v. v\<lparr>dtb_size := sz, dtb_file := Some f\<rparr>"
  note w1 = alloc_st_inv [OF inv, of cs, folded st1]
  have V1: "?V1 a = Some (new_chip (cs ! (a - b)) b (if Suc a = ?e then None else Some (Suc a)))"
    if "b \<le> a" "a < ?e" for a
    using that by (simp add: st1 b alloc_st_view)
  have V3: "?V3 = ?V1(b := map_option ?f (?V1 b))"
    unfolding s3 s2(1) [symmetric] by (rule chip_view_upd) (simp add: unlinked_def)
  have len: "0 < length cs" using cs by simp
  have V3b: "?V3 b = Some (?f (new_chip (cs ! 0) b (if Suc b = ?e then None else Some (Suc b))))"
    using V1 [of b] len by (simp add: V3)
  have ids3: "chip_id (the (?V3 a)) = cs ! (a - b)" "?V3 a \<noteq> None" "master (the (?V3 a)) = b"
    "\<not> wroteDtb (the (?V3 a))" "master_offset (the (?V3 a)) = 0"
    "t_next (the (?V3 a)) = (if Suc a = ?e then None else Some (Suc a))" if "b \<le> a" "a < ?e" for a
    using V1 [OF that] by (auto simp: V3 chip_id_def chip_key_def new_chip_def split: prod.splits)
  have inv3: "chips_inv s3 bs"
    unfolding s3 using s2(2) by (rule chips_inv_upd) (simp_all add: chip_id_def chip_key_def)
  have bs: "set bs = insert b (set as)" "length bs = Suc (length as)"
    using s2(3) mset_eq_setD [of bs "b # as"] mset_eq_length [of bs "b # as"] by auto
  have low: "a < b" if "a \<in> set as" for a using world_inv_bound [OF inv that] b by simp
  have dis: "set [Suc b..<?e] \<inter> set bs = {}"
    using low unfolding bs by fastforce
  have al: "\<forall>c\<in>set [Suc b..<?e]. ?V3 c \<noteq> None"
    using ids3(2) by simp
  note ts = distinct_upt [of "Suc b" ?e] dis al
  obtain v where hv: "heap s3 b = Some v" "?V3 b = Some (unlinked v)"
    using V3b by (auto simp: chip_view_def)
  have "t_next (unlinked v) = (if Suc b < ?e then Some (Suc b) else None)"
    using ids3(6) [of b] hv(2) cs by (cases cs) auto
  then have v: "heap s3 b = Some v" "t_next v = (if Suc b < ?e then Some (Suc b) else None)"
    using hv(1) by simp_all
  have "t_linked ?V3 (t_next v) [Suc b..<?e]"
    unfolding v(2) by (rule t_linked_range) (use ids3 in \<open>metis Suc_leD option.collapse\<close>)
  then have rest: "add_rest (t_next v) s3 n rc = add_all chip_add [Suc b..<?e] s3 n rc" for n
    using inv3 ts by (intro add_rest_add_all) auto
  from chip_store.add_all_store [OF inv3 ts, of "dtb_count st1 + 1" rc] obtain s4 n rc' ds where
    r: "add_all chip_add [Suc b..<?e] s3 (dtb_count st1 + 1) rc = Some (s4, n, rc')"
      "chip_view s4 = ?V3" "chips_inv s4 ds" "set bs \<subseteq> set ds" "set ds \<subseteq> set bs \<union> set [Suc b..<?e]"
      "n + length bs = dtb_count st1 + 1 + length ds"
      "chip_store.idents s3 (set ds) = chip_store.idents s3 (set bs \<union> set [Suc b..<?e])" by blast
  have n: "n = length ds" using r(6) bs w1(1) by (simp add: world_inv_def)
  have old: "?V3 a = ?V1 a" if "a \<in> set as" for a using low [OF that] by (simp add: V3)
  have new: "chip_ok F ?V3 (set ds) a" if "b \<le> a" "a < ?e" for a
  proof -
    have "a - b < length cs" using that len by linarith
    then have "F f (chip_id (the (?V3 a))) sz" unfolding ids3(1) [OF that] by (intro F) simp
    then show ?thesis
      unfolding chip_ok_def using ids3(2-5) [OF that] V3b r(4) bs by force
  qed
  have "[b..<?e] = b # [Suc b..<?e]" using len by (simp add: upt_conv_Cons)
  from arg_cong [OF this, of set] have range: "{b..<?e} = insert b (set [Suc b..<?e])" by simp
  have dsub: "set ds \<subseteq> set as \<union> {b..<?e}" using r(5) unfolding bs(1) range by blast
  have "chip_ok F ?V3 (set ds) a" if a: "a \<in> set ds" for a
  proof (cases "a \<in> set as")
    case True
    with w1(1) have "chip_ok F ?V1 (set as) a" by (simp add: world_inv_def)
    then show ?thesis by (rule chip_ok_mono) (use True r(4) bs old in auto)
  next
    case False
    then show ?thesis using a dsub new by auto
  qed
  moreover have "heap s4 a = None" if "sc_brk st1 \<le> a" for a
  proof -
    have "?V1 a = None" using w1(1) that by (simp add: world_inv_def)
    moreover have "a \<noteq> b" using that cs by (cases cs) (auto simp: st1 b alloc_st_def)
    ultimately show ?thesis using r(2) V3 by (metis chip_view_eq_None fun_upd_other)
  qed
  ultimately have world: "world_inv F (st1\<lparr>sc_chips := s4, dtb_count := n, sc_rc := rc'\<rparr>) ds"
    using r n by (simp add: world_inv_def)
  have "chip_store.idents s3 (set as) = ids_of st as"
    unfolding w1(2) [symmetric] using old by (rule chip_store.idents_cong)
  moreover have "chip_store.idents s3 {b..<?e} = set cs"
    using ids3(1,2) by (rule idents_range)
  moreover have "set bs \<union> set [Suc b..<?e] = set as \<union> {b..<?e}"
    unfolding bs(1) range by blast
  ultimately have "chip_store.idents s4 (set ds) = ids_of st as \<union> set cs"
    using r(7) chip_store.idents_view [OF r(2)] by (simp add: chip_store.idents_Un)
  then have "ids_of (st1\<lparr>sc_chips := s4, dtb_count := n, sc_rc := rc'\<rparr>) ds = ids_of st as \<union> set cs"
    by simp
  moreover have "add_rest (t_next v) s3 (dtb_count st1 + 1) rc = Some (s4, n, rc')"
    unfolding rest by (rule r(1))
  ultimately show ?thesis using v(1) world by blast
qed

subsection \<open>Files and directories\<close>

lemma add_file_unfold:
  "add_file e dtc page f st =
     (let cs = file_chips e dtc f; b = sc_brk st; st1 = alloc_st st cs in
      if cs = [] then Some st1
      else case e_stat e f of
        None \<Rightarrow> Some st1
      | Some sz \<Rightarrow>
          if sz = 0 then Some st1
          else case chip_add b (sc_chips st1) of
            None \<Rightarrow> None
          | Some (s2, rc) \<Rightarrow>
              if rc \<noteq> RC_SUCCESS then Some (st1\<lparr>sc_chips := s2, sc_rc := rc\<rparr>)
              else
                (let s3 = upd b (\<lambda>v. v\<lparr>dtb_size := of_nat (sz + pad_len page sz),
                                      dtb_file := Some f\<rparr>) s2
                 in case heap s3 b of
                      None \<Rightarrow> None
                    | Some v \<Rightarrow>
                        (case add_rest (t_next v) s3 (dtb_count st1 + 1) rc of
                           None \<Rightarrow> None
                         | Some (s4, n, rc') \<Rightarrow>
                             Some (st1\<lparr>sc_chips := s4, dtb_count := n, sc_rc := rc'\<rparr>))))"
  unfolding add_file_def file_chips_def alloc_st_def Let_def case_prod_beta by (rule refl)

lemma add_file_inv:
  assumes inv: "world_inv F st as"
    and F: "\<And>i sz. i \<in> set (file_chips e dtc f) \<Longrightarrow> sized e page f sz \<Longrightarrow> F f i sz"
  shows "\<exists>st' bs. add_file e dtc page f st = Some st' \<and> world_inv F st' bs \<and>
    ids_of st' bs = ids_of st as \<union> (if accepted e dtc f (ids_of st as) then set (file_chips e dtc f) else {})"
proof -
  let ?cs = "file_chips e dtc f" and ?b = "sc_brk st"
  let ?st1 = "alloc_st st ?cs"
  note w1 = alloc_st_inv [OF inv, of ?cs]
  show ?thesis
  proof (cases "?cs = [] \<or> e_stat e f = None \<or> e_stat e f = Some 0")
    case True
    then have "add_file e dtc page f st = Some ?st1" "\<not> accepted e dtc f (ids_of st as)"
      by (auto simp: add_file_unfold accepted_def Let_def)
    with w1 show ?thesis by auto
  next
    case False
    then obtain sz where sz: "e_stat e f = Some sz" "sz > 0" and cs: "?cs \<noteq> []" by auto
    have b: "?b \<notin> set as" using world_inv_bound [OF inv] by blast
    have Vb: "chip_view (sc_chips ?st1) ?b = Some (new_chip (hd ?cs) ?b
        (if length ?cs = 1 then None else Some (Suc ?b)))"
      using cs by (auto simp: alloc_st_view hd_conv_nth)
    have ci: "chips_inv (sc_chips ?st1) as" using w1(1) by (simp add: world_inv_def)
    from ci b Vb show ?thesis
    proof (cases rule: chip_store.add_cases)
      case (refused s2 rc)
      have "add_file e dtc page f st = Some (?st1\<lparr>sc_chips := s2, sc_rc := rc\<rparr>)"
        using refused(1,2) sz cs by (simp add: add_file_unfold Let_def)
      moreover have "\<not> accepted e dtc f (ids_of st as)"
        using refused(5) w1(2) by (simp add: accepted_def)
      ultimately show ?thesis
        using world_inv_view [OF w1(1) refused(4,3), of rc] w1(2) by auto
    next
      case (accepted s2 bs)
      have acc: "accepted e dtc f (ids_of st as)"
        using accepted(5) w1(2) sz cs by (simp add: accepted_def)
      have "sized e page f (of_nat (sz + pad_len page sz))" using sz by (auto simp: sized_def)
      then have Fi: "F f i (of_nat (sz + pad_len page sz))" if "i \<in> set ?cs" for i using F that by blast
      from file_tail_inv [where st = st and F = F, OF inv Fi cs refl refl accepted(2-4) refl, of RC_SUCCESS]
      show ?thesis using accepted(1) acc sz cs by (auto simp: add_file_unfold Let_def)
    qed
  qed
qed

text \<open>What the scan of a directory collects, file by file.\<close>

fun dir_ids :: "env \<Rightarrow> string \<Rightarrow> string \<Rightarrow> (string \<times> bool) list \<Rightarrow> chip_ident set \<Rightarrow> chip_ident set" where
  "dir_ids e dtc dir [] ids = ids"
| "dir_ids e dtc dir ((nm, is_reg) # ds) ids =
     dir_ids e dtc dir ds
       (if is_reg \<and> is_dtb_name nm \<and> accepted e dtc (dir @ nm) ids
        then ids \<union> set (file_chips e dtc (dir @ nm)) else ids)"

text \<open>A directory entry the scan looks at, and what a recorded chip owes to it.\<close>

definition dtb_entry :: "string \<Rightarrow> (string \<times> bool) list \<Rightarrow> string \<Rightarrow> bool" where
  "dtb_entry dir ds f \<longleftrightarrow> (\<exists>nm. (nm, True) \<in> set ds \<and> is_dtb_name nm \<and> f = dir @ nm)"

definition declares ::
    "env \<Rightarrow> string \<Rightarrow> string \<Rightarrow> nat \<Rightarrow> (string \<times> bool) list \<Rightarrow> string \<Rightarrow> chip_ident \<Rightarrow> u32 \<Rightarrow> bool" where
  "declares e dtc dir page ds f i sz \<longleftrightarrow>
     dtb_entry dir ds f \<and> i \<in> set (file_chips e dtc f) \<and> sized e page f sz"

lemma scan_dir_inv:
  assumes "world_inv F st as"
    and "\<And>f i sz. declares e dtc dir page ds f i sz \<Longrightarrow> F f i sz"
  shows "\<exists>st' bs. scan_dir e dtc dir page ds st = Some st' \<and> world_inv F st' bs \<and>
    ids_of st' bs = dir_ids e dtc dir ds (ids_of st as)"
  using assms
proof (induction ds arbitrary: st as)
  case Nil
  then show ?case by auto
next
  case (Cons d ds)
  obtain nm is_reg where d: "d = (nm, is_reg)" by (cases d)
  have F: "F f i sz" if "declares e dtc dir page ds f i sz" for f i sz
    by (rule Cons.prems(2)) (use that in \<open>auto simp: declares_def dtb_entry_def\<close>)
  show ?case
  proof (cases "is_reg \<and> is_dtb_name nm")
    case True
    have "F (dir @ nm) i sz" if "i \<in> set (file_chips e dtc (dir @ nm))" "sized e page (dir @ nm) sz" for i sz
      by (rule Cons.prems(2)) (use that True d in \<open>auto simp: declares_def dtb_entry_def\<close>)
    from add_file_inv [OF Cons.prems(1) this] obtain st' bs where
      "add_file e dtc page (dir @ nm) st = Some st'" "world_inv F st' bs"
      "ids_of st' bs = ids_of st as \<union> (if accepted e dtc (dir @ nm) (ids_of st as)
         then set (file_chips e dtc (dir @ nm)) else {})" by blast
    with Cons.IH [of st' bs] F True d show ?thesis by (auto split: if_splits)
  next
    case False
    with Cons.IH [OF Cons.prems(1)] F d show ?thesis by auto
  qed
qed

lemma world_inv_init: "world_inv F scan_init []" "ids_of scan_init [] = {}"
  by (simp_all add: world_inv_def scan_init_def chips_inv_def chips_rel_def chip_store.idents_def)

lemma idents_val:
  assumes "chips_inv s as"
  shows "chip_store.idents s (set as) = (chip_id \<circ> val s) ` set as"
proof -
  have v: "chip_view s a = Some (unlinked (val s a))" if "a \<in> set as" for a
    using chips_inv_alloc [OF assms that] by (auto simp: chip_view_def)
  have "chip_store.idents s (set as) = {chip_id (unlinked (val s a)) | a. a \<in> set as}"
    unfolding chip_store.idents_def by (rule Collect_cong) (metis option.inject v)
  then show ?thesis by (auto simp: image_iff)
qed

lemma scan_dir_run:
  obtains st as where "scan_dir e dtc dir page ds scan_init = Some st"
    "world_inv (declares e dtc dir page ds) st as"
    "(chip_id \<circ> val (sc_chips st)) ` set as = dir_ids e dtc dir ds {}"
proof -
  from scan_dir_inv [OF world_inv_init(1), where F = "declares e dtc dir page ds"
      and e = e and page = page and dtc = dtc and dir = dir and ds = ds] obtain st as where
    r: "scan_dir e dtc dir page ds scan_init = Some st" "world_inv (declares e dtc dir page ds) st as"
      "ids_of st as = dir_ids e dtc dir ds {}"
    unfolding world_inv_init(2) by blast
  moreover from r have "(chip_id \<circ> val (sc_chips st)) ` set as = dir_ids e dtc dir ds {}"
    using idents_val [of "sc_chips st" as] by (simp add: world_inv_def)
  ultimately show thesis using that by blast
qed

subsection \<open>The chip table of a run\<close>

text \<open>
  C16. \<^verbatim>\<open>chip_add\<close> on the pointer structure: given a well-formed, sorted and duplicate-free
  list and an allocated chip outside it, the loop terminates without touching a null
  or dangling pointer; it refuses the chip with \<^verbatim>\<open>RC_ERROR\<close>, changing nothing, exactly
  when a chip with the same identity is already in the list, and otherwise links it so
  that the list again is well formed, sorted by chipset, platform, subtype and revision
  and free of duplicates, and no other field of any chip changes.
\<close>

theorem chip_add_correct:
  assumes "chips_inv s as" "c \<notin> set as" "heap s c = Some cv"
  shows "\<exists>s' rc. chip_add c s = Some (s', rc) \<and>
    (if \<exists>x\<in>set as. chip_same cv (val s x) then rc = RC_ERROR \<and> s' = s
     else rc = RC_SUCCESS \<and> (\<forall>a. map_option unlinked (heap s' a) = map_option unlinked (heap s a)) \<and>
       (\<exists>bs. chips_inv s' bs \<and> mset bs = add_mset c (mset as)))"
proof -
  have "(\<exists>x\<in>set as. chip_same cv (val s x)) \<longleftrightarrow> (\<exists>x\<in>set as. chip_id (val s x) = chip_id cv)"
    unfolding chip_same_id by metis
  with chips_inv_add [OF assms] show ?thesis by simp
qed

definition demo_chips1 :: chips where
  "demo_chips1 = \<lparr>heap = [0 \<mapsto> new_chip ((1, 2, 0, 3), (0, 0, 0, 0)) 0 None,
     1 \<mapsto> new_chip ((1, 1, 0, 3), (0, 0, 0, 0)) 1 None], chip_list = Some 0\<rparr>"

theorem chip_add_correct_witness:
  "\<exists>s' bs. chip_add 1 demo_chips1 = Some (s', RC_SUCCESS) \<and> chips_inv s' bs \<and> mset bs = {#0, 1#}"
proof -
  have "chips_inv demo_chips1 [0]"
    by (simp add: chips_inv_def chips_rel_def demo_chips1_def new_chip_def)
  from chip_add_correct [OF this, of 1 "new_chip ((1, 1, 0, 3), (0, 0, 0, 0)) 1 None"]
  show ?thesis
    by (auto simp: demo_chips1_def new_chip_def chip_same_def add_mset_commute)
qed


end
