(* ===== verification/Dtb_Layout.thy ===== *)
theory Dtb_Layout
  imports Dtb_Correct
begin

text \<open>
  The bytes of the master DTB image: what \<^verbatim>\<open>main\<close> writes for a given chip list, and that a
  reader of the index table finds, for every chip, the padded contents of its device
  tree at the recorded, page-aligned offset.
\<close>

subsection \<open>Masters in the order of their first use\<close>

fun firsts :: "'a set \<Rightarrow> 'a list \<Rightarrow> 'a list" where
  "firsts seen [] = []"
| "firsts seen (x # xs) =
     (if x \<in> seen then firsts seen xs else x # firsts (insert x seen) xs)"

lemma set_firsts: "set (firsts seen xs) = set xs - seen"
  by (induction xs arbitrary: seen) auto

lemma distinct_firsts: "distinct (firsts seen xs)"
  by (induction xs arbitrary: seen) (auto simp: set_firsts)

definition offs :: "nat \<Rightarrow> ('a \<Rightarrow> nat) \<Rightarrow> 'a list \<Rightarrow> 'a \<Rightarrow> nat" where
  "offs base siz ms m = base + sum_list (map siz (takeWhile (\<lambda>x. x \<noteq> m) ms))"

lemma offs_at: "m \<notin> set pre \<Longrightarrow> offs base siz (pre @ m # post) m = base + sum_list (map siz pre)"
  by (induction pre arbitrary: base) (auto simp: offs_def)

lemma concat_at:
  assumes "m \<in> set ms" "\<And>x. x \<in> set ms \<Longrightarrow> length (blob x) = siz x"
  shows "take (siz m) (drop (sum_list (map siz (takeWhile (\<lambda>x. x \<noteq> m) ms))) (concat (map blob ms) @ rest))
    = blob m"
  using assms
proof (induction ms)
  case (Cons y ys)
  then show ?case by (cases "y = m") auto
qed simp

subsection \<open>The index table\<close>

abbreviation mst :: "chip_heap \<Rightarrow> addr \<Rightarrow> addr" where
  "mst h a \<equiv> master (the (h a))"

definition entry_words :: "chip_heap \<Rightarrow> (addr \<Rightarrow> nat) \<Rightarrow> addr \<Rightarrow> u32 list" where
  "entry_words h off a =
     (let v = the (h a); (p0, p1, p2, p3) = pmic_model v in
      [chipset v, platform v, subtype v, revNum v, p0, p1, p2, p3,
       of_nat (off (master v)), dtb_size (the (h (master v)))])"

definition le_words :: "u32 list \<Rightarrow> u8 list" where
  "le_words ws = concat (map le32 ws)"

definition put :: "u8 list \<Rightarrow> out_st \<Rightarrow> out_st" where
  "put bs st = st\<lparr>o_bytes := o_bytes st @ bs, wrote := wrote st + of_nat (length bs)\<rparr>"

lemma wr_True: "wr True = put"
  by (simp add: fun_eq_iff wr_def put_def)

lemma put_put [simp]: "put bs' (put bs st) = put (bs @ bs') st"
  by (simp add: put_def algebra_simps)

lemma put_Nil [simp]: "put [] st = st"
  by (simp add: put_def)

lemma length_le_words [simp]: "length (le_words ws) = 4 * length ws"
  by (simp add: le_words_def length_concat comp_def sum_list_triv)

lemma length_entry_words [simp]: "length (entry_words h off a) = 10"
  by (simp add: entry_words_def Let_def split: prod.splits)

text \<open>Two heaps that differ in the recorded offsets only.\<close>

definition but_offset :: "chipInfo_t \<Rightarrow> chipInfo_t" where
  "but_offset v = v\<lparr>master_offset := 0\<rparr>"

definition same_but_offset :: "chip_heap \<Rightarrow> chip_heap \<Rightarrow> bool" where
  "same_but_offset h h0 \<longleftrightarrow> (\<forall>a. map_option but_offset (h a) = map_option but_offset (h0 a))"

lemma but_offset_proj [simp]:
  "chipset (but_offset v) = chipset v" "platform (but_offset v) = platform v"
  "subtype (but_offset v) = subtype v" "revNum (but_offset v) = revNum v"
  "pmic_model (but_offset v) = pmic_model v" "dtb_size (but_offset v) = dtb_size v"
  "dtb_file (but_offset v) = dtb_file v" "master (but_offset v) = master v"
  "wroteDtb (but_offset v) = wroteDtb v" "but_offset (v\<lparr>master_offset := x\<rparr>) = but_offset v"
  by (simp_all add: but_offset_def)

lemma same_but_offset_at:
  assumes "same_but_offset h h0" "h0 a = Some v0"
  obtains v where "h a = Some v" "but_offset v = but_offset v0"
  using assms by (auto simp: same_but_offset_def dest!: spec [of _ a])

lemma same_but_offset_upd:
  "same_but_offset h h0 \<Longrightarrow> h m = Some mv \<Longrightarrow> same_but_offset (h(m \<mapsto> mv\<lparr>master_offset := x\<rparr>)) h0"
  by (simp add: same_but_offset_def) (metis option.simps(9))

lemma index_entry_put:
  assumes "same_but_offset h h0" "h0 a = Some v0" "h0 (master v0) = Some mv0"
    and "h (master v0) = Some mv" "off (master v0) = x"
    and "master_offset mv = (if known then of_nat x else 0)" "known \<or> E = x" "(of_nat x :: u32) \<noteq> 0"
  shows "index_entry True a (h, of_nat E, st) =
    (if known then Some (h, of_nat E, put (le_words (entry_words h0 off a)) st)
     else Some (h(master v0 \<mapsto> mv\<lparr>master_offset := of_nat x\<rparr>), of_nat (E + unat (dtb_size mv0)),
                put (le_words (entry_words h0 off a)) st))"
proof -
  obtain v where v: "h a = Some v" "but_offset v = but_offset v0"
    using assms(1,2) by (rule same_but_offset_at)
  have mv: "but_offset mv = but_offset mv0"
    using assms(1,3,4) by (auto elim!: same_but_offset_at)
  have f: "chipset v = chipset v0" "platform v = platform v0" "subtype v = subtype v0"
    "revNum v = revNum v0" "pmic_model v = pmic_model v0" "master v = master v0"
    "dtb_size mv = dtb_size mv0"
    using v(2) mv by (metis but_offset_proj)+
  have u: "ucast (of_nat n :: u64) = (of_nat n :: u32)" for n
    by (simp add: unsigned_of_nat word_of_nat_eq_iff)
  show ?thesis
    using assms(2-8) v(1)
    by (cases known; cases "pmic_model v0")
      (simp_all add: index_entry_def f u wr_True entry_words_def le_words_def)
qed

definition siz :: "chip_heap \<Rightarrow> addr \<Rightarrow> nat" where
  "siz h m = unat (dtb_size (the (h m)))"

definition masters :: "chip_heap \<Rightarrow> addr list \<Rightarrow> addr list" where
  "masters h as = firsts {} (map (mst h) as)"

lemma wr_index_put:
  assumes "same_but_offset h h0" "\<forall>a\<in>set as. \<exists>v mv. h0 a = Some v \<and> h0 (master v) = Some mv"
    and "\<forall>m\<in>mst h0 ` set as. \<exists>mv. h m = Some mv \<and>
           master_offset mv = (if m \<in> set sl then of_nat (offs base (siz h0) all m) else 0)"
    and "all = sl @ firsts (set sl) (map (mst h0) as)"
    and "\<forall>m\<in>set all. (of_nat (offs base (siz h0) all m) :: u32) \<noteq> 0"
  shows "\<exists>h'. wr_index True as (h, of_nat (base + sum_list (map (siz h0) sl)), st) =
      Some (h', of_nat (base + sum_list (map (siz h0) all)),
            put (concat (map (le_words \<circ> entry_words h0 (offs base (siz h0) all)) as)) st) \<and>
    same_but_offset h' h0"
  using assms
proof (induction as arbitrary: h sl st)
  case Nil
  then show ?case by auto
next
  case (Cons a as)
  let ?off = "offs base (siz h0) all" and ?m = "mst h0 a"
  let ?known = "?m \<in> set sl" and ?E = "base + sum_list (map (siz h0) sl)"
  from Cons.prems(2) obtain v0 mv0 where v0: "h0 a = Some v0" "h0 (master v0) = Some mv0" by auto
  from Cons.prems(3) v0 obtain mv where mv: "h (master v0) = Some mv"
    "master_offset mv = (if ?known then of_nat (?off ?m) else 0)" by auto
  have m: "?m = master v0" using v0 by simp
  have mall: "?m \<in> set all" using Cons.prems(4) by (auto simp: set_firsts)
  then have nz: "(of_nat (?off ?m) :: u32) \<noteq> 0" using Cons.prems(5) by blast
  have E: "?known \<or> ?E = ?off ?m"
    using Cons.prems(4) offs_at [of ?m sl base "siz h0"] by auto
  note step = index_entry_put [where known = ?known and x = "?off ?m" and E = ?E and off = ?off and st = st,
      OF Cons.prems(1) v0 mv(1) _ mv(2) E nz]
  show ?case
  proof (cases ?known)
    case True
    have "\<exists>h'. wr_index True as (h, of_nat ?E, put (le_words (entry_words h0 ?off a)) st) =
        Some (h', of_nat (base + sum_list (map (siz h0) all)),
          put (concat (map (le_words \<circ> entry_words h0 ?off) as)) (put (le_words (entry_words h0 ?off a)) st)) \<and>
        same_but_offset h' h0"
      by (rule Cons.IH) (use Cons.prems True in auto)
    with step True m show ?thesis by (auto simp: comp_def)
  next
    case False
    let ?h = "h(master v0 \<mapsto> mv\<lparr>master_offset := of_nat (?off ?m)\<rparr>)"
    have "\<exists>h'. wr_index True as (?h, of_nat (base + sum_list (map (siz h0) (sl @ [?m]))),
          put (le_words (entry_words h0 ?off a)) st) =
        Some (h', of_nat (base + sum_list (map (siz h0) all)),
          put (concat (map (le_words \<circ> entry_words h0 ?off) as)) (put (le_words (entry_words h0 ?off a)) st)) \<and>
        same_but_offset h' h0"
    proof (rule Cons.IH)
      show "same_but_offset ?h h0" using Cons.prems(1) mv(1) by (rule same_but_offset_upd)
      show "\<forall>m\<in>mst h0 ` set as. \<exists>mv. ?h m = Some mv \<and>
          master_offset mv = (if m \<in> set (sl @ [?m]) then of_nat (?off m) else 0)"
        using Cons.prems(3) m by auto
      show "all = (sl @ [?m]) @ firsts (set (sl @ [?m])) (map (mst h0) as)"
        using Cons.prems(4) False by simp
    qed (use Cons.prems in auto)
    moreover have "?E + unat (dtb_size mv0) = base + sum_list (map (siz h0) (sl @ [?m]))"
      using v0 by (simp add: siz_def)
    ultimately show ?thesis using step False m by (auto simp: comp_def add.assoc)
  qed
qed

subsection \<open>The blobs\<close>

definition blob :: "env \<Rightarrow> nat \<Rightarrow> chip_heap \<Rightarrow> addr \<Rightarrow> u8 list" where
  "blob e page h m =
     (let c = the (Option.bind (dtb_file (the (h m))) (e_read e)) in
      c @ replicate (pad_len page (length c)) 0)"

text \<open>The file behind a master is still the one that was measured.\<close>

definition readable :: "env \<Rightarrow> nat \<Rightarrow> chipInfo_t \<Rightarrow> bool" where
  "readable e page mv \<longleftrightarrow>
     (\<exists>c. Option.bind (dtb_file mv) (e_read e) = Some c \<and>
          dtb_size mv = of_nat (length c + pad_len page (length c)))"

lemma concat_chunks: "0 < n \<Longrightarrow> concat (chunks n xs) = xs"
proof (induction n xs rule: chunks.induct)
  case (1 n xs)
  then show ?case by (subst chunks.simps) auto
qed

lemma copy_file_put: "copy_file True c st = put c st"
proof -
  have "foldl (\<lambda>s blk. put blk s) st bs = put (concat bs) st" for bs st
    by (induction bs arbitrary: st) auto
  then show ?thesis by (simp add: copy_file_def wr_True concat_chunks COPY_BLK_def)
qed

lemma wr_dtbs_put:
  assumes "same_but_offset (\<lambda>a. map_option (wroteDtb_update (\<lambda>_. False)) (h a))
             (\<lambda>a. map_option (wroteDtb_update (\<lambda>_. False)) (h0 a))"
    and "\<forall>a\<in>set as. \<exists>v mv. h0 a = Some v \<and> h0 (master v) = Some mv \<and> readable e page mv"
    and "\<forall>m\<in>mst h0 ` set as. \<exists>mv. h m = Some mv \<and> wroteDtb mv = (m \<in> S)"
  shows "\<exists>h'. wr_dtbs True e page as h st =
    Some (h', put (concat (map (blob e page h0) (firsts S (map (mst h0) as)))) st, RC_SUCCESS)"
  using assms
proof (induction as arbitrary: h S st)
  case Nil
  then show ?case by simp
next
  case (Cons a as)
  let ?clr = "wroteDtb_update (\<lambda>_. False)"
  from Cons.prems(2) obtain v0 mv0 c where v0: "h0 a = Some v0" "h0 (master v0) = Some mv0"
    and c: "Option.bind (dtb_file mv0) (e_read e) = Some c"
      "dtb_size mv0 = of_nat (length c + pad_len page (length c))"
    by (auto simp: readable_def)
  have eq: "map_option (but_offset \<circ> ?clr) (h x) = map_option (but_offset \<circ> ?clr) (h0 x)" for x
    using Cons.prems(1) by (simp add: same_but_offset_def option.map_comp)
  from eq [of a] v0(1) obtain v where v: "h a = Some v" "master v = master v0"
    by (auto simp: but_offset_def dest: arg_cong [of _ _ master])
  from Cons.prems(3) v0 obtain mv where mv: "h (master v0) = Some mv" "wroteDtb mv = (master v0 \<in> S)"
    by auto
  from eq [of "master v0"] mv(1) v0(2) have "but_offset (?clr mv) = but_offset (?clr mv0)" by simp
  then have f: "dtb_file mv = dtb_file mv0" "dtb_size mv = dtb_size mv0"
    by (auto simp: but_offset_def dest: arg_cong [of _ _ dtb_file] arg_cong [of _ _ dtb_size])
  show ?case
  proof (cases "master v0 \<in> S")
    case True
    have "\<exists>h'. wr_dtbs True e page as h st =
        Some (h', put (concat (map (blob e page h0) (firsts S (map (mst h0) as)))) st, RC_SUCCESS)"
      by (rule Cons.IH) (use Cons.prems in auto)
    with True v mv v0 show ?thesis by simp
  next
    case False
    let ?h = "h(master v0 \<mapsto> mv\<lparr>wroteDtb := True\<rparr>)"
    let ?st = "put (c @ replicate (pad_len page (length c)) 0) st"
    have "\<exists>h'. wr_dtbs True e page as ?h ?st = Some (h',
        put (concat (map (blob e page h0) (firsts (insert (master v0) S) (map (mst h0) as)))) ?st, RC_SUCCESS)"
    proof (rule Cons.IH)
      show "same_but_offset (\<lambda>a. map_option ?clr (?h a)) (\<lambda>a. map_option ?clr (h0 a))"
        using eq eq [of "master v0"] mv(1) by (simp add: same_but_offset_def option.map_comp comp_def)
      show "\<forall>m\<in>mst h0 ` set as. \<exists>mv. ?h m = Some mv \<and> wroteDtb mv = (m \<in> insert (master v0) S)"
        using Cons.prems(3) by auto
    qed (use Cons.prems in auto)
    moreover have "blob e page h0 (master v0) = c @ replicate (pad_len page (length c)) 0"
      using v0 c by (simp add: blob_def)
    ultimately show ?thesis
      using False v mv v0 f c by (auto simp: Let_def wr_True copy_file_put)
  qed
qed

subsection \<open>The whole image\<close>

definition table_base :: "nat \<Rightarrow> nat \<Rightarrow> nat" where
  "table_base page n = 12 + 40 * n + 4 + pad_len page (12 + 40 * n + 4)"

definition image_off :: "nat \<Rightarrow> chip_heap \<Rightarrow> addr list \<Rightarrow> addr \<Rightarrow> nat" where
  "image_off page h as = offs (table_base page (length as)) (siz h) (masters h as)"

definition image_bytes :: "env \<Rightarrow> nat \<Rightarrow> chip_heap \<Rightarrow> addr list \<Rightarrow> u8 list" where
  "image_bytes e page h as =
     (QCDT_MAGIC @ le32 QCDT_VERSION @ le32 (of_nat (length as))) @
     concat (map (le_words \<circ> entry_words h (image_off page h as)) as) @
     le32 0 @ replicate (pad_len page (12 + 40 * length as + 4)) 0 @
     concat (map (blob e page h) (masters h as))"

lemma pad_len_pos: "0 < page \<Longrightarrow> 0 < pad_len page n"
  by (simp add: pad_len_def)

lemma pad_len_dvd: "0 < page \<Longrightarrow> page dvd n + pad_len page n"
proof -
  assume "0 < page"
  then have "n mod page < page" by simp
  then have "n + pad_len page n = n div page * page + page"
    using div_mult_mod_eq [of n page] unfolding pad_len_def by linarith
  then show ?thesis by simp
qed

lemma drop_concat_const:
  assumes "\<And>x. x \<in> set xs \<Longrightarrow> length (f x) = k" "i < length xs"
  shows "drop (k * i) (concat (map f xs) @ r) = f (xs ! i) @ concat (map f (drop (Suc i) xs)) @ r"
  using assms
proof (induction xs arbitrary: i)
  case (Cons x xs)
  then show ?case by (cases i) auto
qed simp

lemma length_concat_const:
  "(\<And>x. x \<in> set xs \<Longrightarrow> length (f x) = k) \<Longrightarrow> length (concat (map f xs)) = k * length xs"
  by (induction xs) auto

text \<open>What the scan leaves behind, as the image generator needs it.\<close>

definition image_ready :: "env \<Rightarrow> nat \<Rightarrow> chips \<Rightarrow> addr list \<Rightarrow> bool" where
  "image_ready e page s as \<longleftrightarrow>
     chips_inv s as \<and>
     (\<forall>a\<in>set as. \<exists>v mv. heap s a = Some v \<and> \<not> wroteDtb v \<and> master_offset v = 0 \<and> master v \<in> set as \<and>
        heap s (master v) = Some mv \<and> readable e page mv \<and> siz (heap s) (master v) = length (blob e page (heap s) (master v)))"

lemma image_ready_masters:
  assumes "image_ready e page s as" "m \<in> mst (heap s) ` set as"
  shows "m \<in> set as" "\<exists>mv. heap s m = Some mv \<and> \<not> wroteDtb mv \<and> master_offset mv = 0"
    "siz (heap s) m = length (blob e page (heap s) m)"
proof -
  from assms show m: "m \<in> set as" and "siz (heap s) m = length (blob e page (heap s) m)"
    by (auto simp: image_ready_def)
  with assms(1) show "\<exists>mv. heap s m = Some mv \<and> \<not> wroteDtb mv \<and> master_offset mv = 0"
    by (auto simp: image_ready_def)
qed

lemma set_masters: "set (masters h as) = mst h ` set as"
  by (auto simp: masters_def set_firsts)

lemma length_image:
  assumes "image_ready e page s as"
  shows "length (image_bytes e page (heap s) as) =
    table_base page (length as) + sum_list (map (siz (heap s)) (masters (heap s) as))"
proof -
  have tab: "length (concat (map (le_words \<circ> entry_words (heap s) off) as)) = 40 * length as" for off
    by (rule length_concat_const) simp
  have "map (length \<circ> blob e page (heap s)) (masters (heap s) as) = map (siz (heap s)) (masters (heap s) as)"
    using image_ready_masters(3) [OF assms] by (auto simp: set_masters)
  then have "length (concat (map (blob e page (heap s)) (masters (heap s) as))) =
      sum_list (map (siz (heap s)) (masters (heap s) as))"
    by (simp only: length_concat map_map)
  then show ?thesis
    by (simp add: image_bytes_def table_base_def QCDT_MAGIC_def tab)
qed

lemma same_but_offset_clear:
  "same_but_offset h h0 \<Longrightarrow>
   same_but_offset (\<lambda>a. map_option (wroteDtb_update (\<lambda>_. False)) (h a))
     (\<lambda>a. map_option (wroteDtb_update (\<lambda>_. False)) (h0 a))"
proof -
  assume a: "same_but_offset h h0"
  have eq: "map_option but_offset (map_option (wroteDtb_update (\<lambda>_. False)) x) =
      map_option (wroteDtb_update (\<lambda>_. False)) (map_option but_offset x)" for x
    by (cases x) (simp_all add: but_offset_def)
  show ?thesis using a by (simp add: same_but_offset_def eq)
qed

lemma offset_nonzero:
  assumes "image_ready e page s as" "length (image_bytes e page (heap s) as) < 2 ^ 32"
  shows "offs (table_base page (length as)) (siz (heap s)) (masters (heap s) as) m < 2 ^ 32"
    "(of_nat (offs (table_base page (length as)) (siz (heap s)) (masters (heap s) as) m) :: u32) \<noteq> 0"
proof -
  let ?o = "offs (table_base page (length as)) (siz (heap s)) (masters (heap s) as) m"
  have "sum_list (map (siz (heap s)) (takeWhile (\<lambda>x. x \<noteq> m) (masters (heap s) as)))
      \<le> sum_list (map (siz (heap s)) (masters (heap s) as))"
    by (metis le_add1 map_append sum_list_append takeWhile_dropWhile_id)
  then show lt: "?o < 2 ^ 32"
    using assms(2) by (simp add: offs_def length_image [OF assms(1)])
  have "0 < ?o" by (simp add: offs_def table_base_def)
  with lt show "(of_nat ?o :: u32) \<noteq> 0"
    by (auto simp: word_of_nat_eq_0_iff dest: dvd_imp_le)
qed

lemma index_bytes:
  assumes rdy: "image_ready e page s as" and small: "length (image_bytes e page (heap s) as) < 2 ^ 32"
  shows "\<exists>h1. wr_index True as (heap s, of_nat (table_base page (length as)), st) =
      Some (h1, of_nat (length (image_bytes e page (heap s) as)),
            put (concat (map (le_words \<circ> entry_words (heap s) (image_off page (heap s) as)) as)) st) \<and>
    same_but_offset h1 (heap s)"
proof -
  let ?h = "heap s" and ?base = "table_base page (length as)" and ?ms = "masters (heap s) as"
  have 1: "same_but_offset ?h ?h" by (simp add: same_but_offset_def)
  have 2: "\<forall>a\<in>set as. \<exists>v mv. ?h a = Some v \<and> ?h (master v) = Some mv"
    using rdy unfolding image_ready_def by metis
  have 3: "\<forall>m\<in>mst ?h ` set as. \<exists>mv. ?h m = Some mv \<and>
      master_offset mv = (if m \<in> set [] then of_nat (offs ?base (siz ?h) ?ms m) else 0)"
    using image_ready_masters(2) [OF rdy] by fastforce
  have 4: "?ms = [] @ firsts (set []) (map (mst ?h) as)" by (simp add: masters_def)
  have 5: "\<forall>m\<in>set ?ms. (of_nat (offs ?base (siz ?h) ?ms m) :: u32) \<noteq> 0"
    using offset_nonzero(2) [OF rdy small] by blast
  from wr_index_put [OF 1 2 3 4 5, of st] show ?thesis
    by (simp add: image_off_def length_image [OF rdy])
qed

lemma blob_bytes:
  assumes rdy: "image_ready e page s as" and h1: "same_but_offset h1 (heap s)"
  shows "\<exists>h2. wr_dtbs True e page as h1 st =
    Some (h2, put (concat (map (blob e page (heap s)) (masters (heap s) as))) st, RC_SUCCESS)"
proof -
  have flags: "\<forall>m\<in>mst (heap s) ` set as. \<exists>mv. h1 m = Some mv \<and> wroteDtb mv = (m \<in> {})"
  proof
    fix m assume "m \<in> mst (heap s) ` set as"
    from image_ready_masters(2) [OF rdy this] obtain mv0 where
      mv0: "heap s m = Some mv0" "\<not> wroteDtb mv0" by blast
    obtain mv where "h1 m = Some mv" "but_offset mv = but_offset mv0"
      using h1 mv0(1) by (rule same_but_offset_at)
    then show "\<exists>mv. h1 m = Some mv \<and> wroteDtb mv = (m \<in> {})"
      using mv0(2) by (metis but_offset_proj(9) empty_iff)
  qed
  have mem: "\<forall>a\<in>set as. \<exists>v mv. heap s a = Some v \<and> heap s (master v) = Some mv \<and> readable e page mv"
    using rdy unfolding image_ready_def by metis
  from wr_dtbs_put [OF same_but_offset_clear [OF h1] mem flags] show ?thesis
    by (simp add: masters_def)
qed

lemma gen_image_bytes:
  assumes rdy: "image_ready e page s as" and op: "e_open e" and pg: "0 < page"
    and small: "length (image_bytes e page (heap s) as) < 2 ^ 32"
  shows "gen_image e page s (length as) = Some (RC_SUCCESS, Some (image_bytes e page (heap s) as @
      drop (length (image_bytes e page (heap s) as)) (case e_old e of None \<Rightarrow> [] | Some b \<Rightarrow> b)))"
proof -
  let ?n = "length as" and ?o0 = "\<lparr>o_bytes = [], wrote = 0\<rparr>" and ?img = "image_bytes e page (heap s) as"
  let ?hdr = "QCDT_MAGIC @ le32 QCDT_VERSION @ le32 (of_nat ?n)"
  let ?pad = "pad_len page (12 + 40 * ?n + 4)"
  have ch: "chain (heap s) (chip_list s) = Some as"
    using rdy by (auto simp: image_ready_def chips_inv_def intro: chain_chips_rel)
  have hdr: "wr_header True ?n ?o0 = put ?hdr ?o0" by (simp add: wr_header_def wr_True)
  obtain h1 where idx: "wr_index True as (heap s, of_nat (table_base page ?n), put ?hdr ?o0) =
      Some (h1, of_nat (length ?img),
        put (concat (map (le_words \<circ> entry_words (heap s) (image_off page (heap s) as)) as)) (put ?hdr ?o0))"
    and h1: "same_but_offset h1 (heap s)"
    using index_bytes [OF rdy small, of "put ?hdr ?o0"] by blast
  let ?st = "put (replicate ?pad 0) (put (le32 0)
        (put (concat (map (le_words \<circ> entry_words (heap s) (image_off page (heap s) as)) as)) (put ?hdr ?o0)))"
  obtain h2 where dtb: "wr_dtbs True e page as h1 ?st = Some (h2, put ?img ?o0, RC_SUCCESS)"
    using blob_bytes [OF rdy h1, of ?st] by (auto simp: image_bytes_def)
  have pad: "0 < ?pad" using pg by (rule pad_len_pos)
  have base: "12 + 40 * ?n + 4 + ?pad = table_base page ?n" by (simp add: table_base_def)
  have fin: "wrote (put ?img ?o0) = of_nat (length ?img)" "o_bytes (put ?img ?o0) = ?img"
    by (simp_all add: put_def)
  have opT: "e_open e = True" using op by simp
  show ?thesis
    unfolding gen_image_def Let_def opT hdr base wr_True ch option.case idx prod.case if_P [OF pad] dtb fin
    by simp
qed

subsection \<open>Reading the image back\<close>

definition rd_word :: "u8 list \<Rightarrow> nat \<Rightarrow> u32" where
  "rd_word img k = le32_of (drop k img)"

text \<open>Entry \<open>i\<close> of the index table as the boot loader reads it.\<close>

definition rd_entry :: "u8 list \<Rightarrow> nat \<Rightarrow> u32 list" where
  "rd_entry img i = map (\<lambda>j. rd_word img (12 + 40 * i + 4 * j)) [0..<10]"

lemma le_words_at:
  assumes "j < length ws"
  shows "le32_of (drop (4 * j) (le_words ws @ r)) = ws ! j"
proof -
  have "drop (4 * j) (concat (map le32 ws) @ r) = le32 (ws ! j) @ concat (map le32 (drop (Suc j) ws)) @ r"
    by (rule drop_concat_const) (simp_all add: assms)
  then show ?thesis by (simp add: le_words_def le32_roundtrip)
qed

lemma rd_entry_table:
  assumes "length hdr = 12" "i < length as" "\<And>a. length (ws a) = 10"
  shows "rd_entry (hdr @ concat (map (le_words \<circ> ws) as) @ r) i = ws (as ! i)"
proof (rule nth_equalityI)
  fix j assume j: "j < length (rd_entry (hdr @ concat (map (le_words \<circ> ws) as) @ r) i)"
  then have j10: "j < 10" by (simp add: rd_entry_def)
  have "drop (40 * i) (concat (map (le_words \<circ> ws) as) @ r) =
      (le_words \<circ> ws) (as ! i) @ concat (map (le_words \<circ> ws) (drop (Suc i) as)) @ r"
    by (rule drop_concat_const) (simp_all add: assms)
  moreover have "drop (12 + 40 * i + 4 * j) (hdr @ t) = drop (4 * j) (drop (40 * i) t)" for t :: "u8 list"
    using assms(1) by (simp add: add.commute)
  ultimately have "drop (12 + 40 * i + 4 * j) (hdr @ concat (map (le_words \<circ> ws) as) @ r) =
      drop (4 * j) (le_words (ws (as ! i)) @ concat (map (le_words \<circ> ws) (drop (Suc i) as)) @ r)"
    by (simp only: comp_apply)
  then show "rd_entry (hdr @ concat (map (le_words \<circ> ws) as) @ r) i ! j = ws (as ! i) ! j"
    using j10 le_words_at [of j "ws (as ! i)"] assms(3) by (simp add: rd_entry_def rd_word_def)
qed (simp add: rd_entry_def assms(3))

lemma siz_aligned:
  assumes "image_ready e page s as" "0 < page" "m \<in> set (masters (heap s) as)"
  shows "page dvd siz (heap s) m"
  using image_ready_masters(3) [OF assms(1)] assms(2,3)
  by (simp add: set_masters blob_def Let_def pad_len_dvd)

lemma offset_aligned:
  assumes "image_ready e page s as" "0 < page"
  shows "page dvd image_off page (heap s) as m"
proof -
  have "page dvd sum_list (map (siz (heap s)) xs)" if "set xs \<subseteq> set (masters (heap s) as)" for xs
    using that siz_aligned [OF assms] by (induction xs) auto
  moreover have "set (takeWhile (\<lambda>x. x \<noteq> m) (masters (heap s) as)) \<subseteq> set (masters (heap s) as)"
    by (auto dest: set_takeWhileD)
  moreover have "page dvd table_base page (length as)"
    unfolding table_base_def using assms(2) by (rule pad_len_dvd)
  ultimately show ?thesis by (simp add: image_off_def offs_def)
qed

lemma image_front:
  obtains front where "length front = table_base page (length as)"
    "image_bytes e page h as = front @ concat (map (blob e page h) (masters h as))"
proof
  let ?front = "(QCDT_MAGIC @ le32 QCDT_VERSION @ le32 (of_nat (length as))) @
     concat (map (le_words \<circ> entry_words h (image_off page h as)) as) @
     le32 0 @ replicate (pad_len page (12 + 40 * length as + 4)) 0"
  have "length (concat (map (le_words \<circ> entry_words h (image_off page h as)) as)) = 40 * length as"
    by (rule length_concat_const) simp
  then show "length ?front = table_base page (length as)"
    by (simp add: table_base_def QCDT_MAGIC_def)
  show "image_bytes e page h as = ?front @ concat (map (blob e page h) (masters h as))"
    by (simp add: image_bytes_def)
qed

lemma image_slice:
  assumes rdy: "image_ready e page s as" and a: "a \<in> set as"
  shows "take (siz (heap s) (mst (heap s) a))
      (drop (image_off page (heap s) as (mst (heap s) a)) (image_bytes e page (heap s) as @ r)) =
    blob e page (heap s) (mst (heap s) a)"
proof -
  let ?ms = "masters (heap s) as" and ?m = "mst (heap s) a"
  obtain front where front: "length front = table_base page (length as)"
    and img: "image_bytes e page (heap s) as = front @ concat (map (blob e page (heap s)) ?ms)"
    by (rule image_front)
  have "take (siz (heap s) ?m) (drop (sum_list (map (siz (heap s)) (takeWhile (\<lambda>x. x \<noteq> ?m) ?ms)))
      (concat (map (blob e page (heap s)) ?ms) @ r)) = blob e page (heap s) ?m"
    by (rule concat_at) (use image_ready_masters(3) [OF rdy] a in \<open>auto simp: set_masters\<close>)
  moreover have "drop (length front + n) (front @ t) = drop n t" for n and t :: "u8 list" by simp
  ultimately show ?thesis
    by (simp only: img image_off_def offs_def front [symmetric] append_assoc)
qed

subsection \<open>A whole run\<close>

definition entry_ident :: "u32 list \<Rightarrow> chip_ident" where
  "entry_ident ws = ((ws ! 0, ws ! 1, ws ! 2, ws ! 3), (ws ! 4, ws ! 5, ws ! 6, ws ! 7))"

text \<open>Nobody changes the device trees between \<^verbatim>\<open>stat\<close> and \<^verbatim>\<open>read\<close>.\<close>

definition stable_files :: "env \<Rightarrow> nat \<Rightarrow> nat \<Rightarrow> bool" where
  "stable_files e page M \<longleftrightarrow>
     (\<forall>f n. e_stat e f = Some n \<longrightarrow> (\<exists>c. e_read e f = Some c \<and> length c = n \<and> n + page \<le> M))"

lemma pad_len_le: "pad_len page n \<le> page"
  by (simp add: pad_len_def)

lemma chip_ok_heap:
  assumes "chip_ok F (chip_view s) A a"
  obtains v mv f where "heap s a = Some v" "\<not> wroteDtb v" "master_offset v = 0" "master v \<in> A"
    "heap s (master v) = Some mv" "dtb_file mv = Some f" "F f (chip_id v) (dtb_size mv)"
  using assms by (auto simp: chip_ok_def chip_view_def)

text \<open>The file behind a chip, as the image generator finds it.\<close>

lemma world_file:
  assumes w: "world_inv (declares e dtc dir page ds) st as" and fs: "stable_files e page M"
    and M: "M < 2 ^ 32" and a: "a \<in> set as"
  obtains v mv f c where "heap (sc_chips st) a = Some v" "\<not> wroteDtb v" "master_offset v = 0"
    "master v \<in> set as" "heap (sc_chips st) (master v) = Some mv" "dtb_file mv = Some f"
    "declares e dtc dir page ds f (chip_id v) (dtb_size mv)" "e_read e f = Some c"
    "dtb_size mv = of_nat (length c + pad_len page (length c))"
    "unat (dtb_size mv) = length c + pad_len page (length c)"
    "length c + pad_len page (length c) \<le> M"
proof -
  from w a have "chip_ok (declares e dtc dir page ds) (chip_view (sc_chips st)) (set as) a"
    by (simp add: world_inv_def)
  then obtain v mv f where v: "heap (sc_chips st) a = Some v" "\<not> wroteDtb v" "master_offset v = 0"
    "master v \<in> set as" "heap (sc_chips st) (master v) = Some mv" "dtb_file mv = Some f"
    "declares e dtc dir page ds f (chip_id v) (dtb_size mv)" by (rule chip_ok_heap)
  from v(7) obtain n where n: "e_stat e f = Some n" "dtb_size mv = of_nat (n + pad_len page n)"
    by (auto simp: declares_def sized_def)
  with fs obtain c where c: "e_read e f = Some c" "length c = n" "n + page \<le> M"
    unfolding stable_files_def by blast
  have le: "n + pad_len page n \<le> M" using c(3) pad_len_le [of page n] by linarith
  then have "unat (of_nat (n + pad_len page n) :: u32) = n + pad_len page n"
    using M unfolding unsigned_of_nat of_nat_id by (intro take_bit_nat_eq_self) simp
  then have "unat (dtb_size mv) = n + pad_len page n" by (simp only: n(2))
  with v n c le that show thesis by blast
qed

lemma world_ready:
  assumes w: "world_inv (declares e dtc dir page ds) st as" and fs: "stable_files e page M"
    and M: "M < 2 ^ 32"
  shows "image_ready e page (sc_chips st) as"
proof -
  have "\<exists>v mv. heap (sc_chips st) a = Some v \<and> \<not> wroteDtb v \<and> master_offset v = 0 \<and>
      master v \<in> set as \<and> heap (sc_chips st) (master v) = Some mv \<and> readable e page mv \<and>
      siz (heap (sc_chips st)) (master v) = length (blob e page (heap (sc_chips st)) (master v))"
    if "a \<in> set as" for a
    using w fs M that
    by (rule world_file) (auto simp: readable_def siz_def blob_def)
  with w show ?thesis by (simp add: image_ready_def world_inv_def)
qed

lemma length_firsts: "length (firsts S xs) \<le> length xs"
  by (induction xs arbitrary: S) (auto intro: le_SucI)

lemma world_small:
  assumes w: "world_inv (declares e dtc dir page ds) st as" and fs: "stable_files e page M"
    and b: "16 + 40 * length as + page + length as * M < 2 ^ 32"
    and M: "M < 2 ^ 32"
  shows "length (image_bytes e page (heap (sc_chips st)) as) < 2 ^ 32"
proof -
  let ?h = "heap (sc_chips st)" and ?ms = "masters (heap (sc_chips st)) as"
  have "siz ?h m \<le> M" if "m \<in> set ?ms" for m
  proof -
    from that obtain a where a: "a \<in> set as" "m = mst ?h a" by (auto simp: set_masters)
    from w fs M a(1) show ?thesis by (rule world_file) (use a in \<open>simp add: siz_def\<close>)
  qed
  then have "sum_list (map (siz ?h) ?ms) \<le> length ?ms * M"
    using sum_list_mono [of ?ms "siz ?h" "\<lambda>_. M"] by (simp add: sum_list_triv)
  also have "\<dots> \<le> length as * M"
    using length_firsts [of "{}" "map (mst ?h) as"] by (simp add: masters_def)
  finally have s: "sum_list (map (siz ?h) ?ms) \<le> length as * M" .
  have "table_base page (length as) \<le> 16 + 40 * length as + page"
    using pad_len_le [of page "12 + 40 * length as + 4"] unfolding table_base_def by linarith
  with s b length_image [OF world_ready [OF w fs M]] show ?thesis by linarith
qed

lemma parse_opts_page:
  "parse_opts os st = (RC_SUCCESS, st') \<Longrightarrow> 0 < page_size st \<and> page_size st \<le> PAGE_SIZE_MAX \<Longrightarrow>
   0 < page_size st' \<and> page_size st' \<le> PAGE_SIZE_MAX"
  by (induction os st rule: parse_opts.induct) (auto simp: Let_def RC_SUCCESS_def RC_ERROR_def split: if_splits)

lemma parse_commandline_page:
  "parse_commandline os = (RC_SUCCESS, cl) \<Longrightarrow> 0 < page_size cl \<and> page_size cl \<le> PAGE_SIZE_MAX"
  using parse_opts_page [of os cmdline_init]
  by (auto simp: parse_commandline_def cmdline_init_def PAGE_SIZE_DEF_def PAGE_SIZE_MAX_def
      RC_SUCCESS_def RC_ERROR_def split: if_splits prod.splits)

lemma world_card:
  assumes "chips_inv s as" "(chip_id \<circ> val s) ` set as = ids"
  shows "card ids = length as"
  using assms distinct_card [of "map (chip_id \<circ> val s) as"] by (simp add: chips_inv_def)

lemma nth_entry_words:
  "h a = Some v \<Longrightarrow> entry_ident (entry_words h off a) = chip_id v"
  "h a = Some v \<Longrightarrow> entry_words h off a ! 8 = of_nat (off (master v))"
  "h a = Some v \<Longrightarrow> entry_words h off a ! 9 = dtb_size (the (h (master v)))"
  by (cases "pmic_model v",
      simp add: entry_words_def entry_ident_def chip_id_def chip_key_def eval_nat_numeral)+

text \<open>What one entry of the index table promises its reader.\<close>

definition entry_ok ::
    "env \<Rightarrow> string \<Rightarrow> string \<Rightarrow> nat \<Rightarrow> (string \<times> bool) list \<Rightarrow> u8 list \<Rightarrow> u32 list \<Rightarrow> bool" where
  "entry_ok e dtc dir page ds img w \<longleftrightarrow>
     (\<exists>f c. dtb_entry dir ds f \<and> entry_ident w \<in> set (file_chips e dtc f) \<and> e_read e f = Some c \<and>
        page dvd unat (w ! 8) \<and> page dvd unat (w ! 9) \<and>
        take (unat (w ! 9)) (drop (unat (w ! 8)) img) = c @ replicate (unat (w ! 9) - length c) 0 \<and>
        length c < unat (w ! 9))"

lemma rd_entry_image:
  assumes "i < length as"
  shows "rd_entry (image_bytes e page h as @ r) i = entry_words h (image_off page h as) (as ! i)"
  unfolding image_bytes_def append_assoc [of _ _ r] append_assoc [of "concat (map (le_words \<circ> _) as)"]
  by (rule rd_entry_table) (simp_all add: assms QCDT_MAGIC_def)

lemma entry_ok_image:
  assumes w: "world_inv (declares e dtc dir page ds) st as" and fs: "stable_files e page M"
    and M: "M < 2 ^ 32" and a: "a \<in> set as" and pg: "0 < page"
    and small: "length (image_bytes e page (heap (sc_chips st)) as) < 2 ^ 32"
  shows "entry_ok e dtc dir page ds (image_bytes e page (heap (sc_chips st)) as @ r)
    (entry_words (heap (sc_chips st)) (image_off page (heap (sc_chips st)) as) a)"
proof -
  let ?h = "heap (sc_chips st)"
  note rdy = world_ready [OF w fs M]
  from w fs M a obtain v mv f c where v: "?h a = Some v" "?h (master v) = Some mv" "dtb_file mv = Some f"
    and d: "declares e dtc dir page ds f (chip_id v) (dtb_size mv)" and c: "e_read e f = Some c"
    and sz: "unat (dtb_size mv) = length c + pad_len page (length c)" by (rule world_file)
  let ?o = "image_off page ?h as (master v)"
  have lt: "?o < 2 ^ 32" using offset_nonzero(1) [OF rdy small] by (simp add: image_off_def)
  then have off: "unat (of_nat ?o :: u32) = ?o" by (simp add: unsigned_of_nat take_bit_nat_eq_self)
  have "blob e page ?h (master v) = c @ replicate (pad_len page (length c)) 0"
    using v c by (simp add: blob_def)
  with image_slice [OF rdy a, of r] v sz have
    "take (length c + pad_len page (length c)) (drop ?o (image_bytes e page ?h as @ r)) =
      c @ replicate (pad_len page (length c)) 0" by (simp add: siz_def)
  then show ?thesis
    unfolding entry_ok_def nth_entry_words [of ?h a, OF v(1)] off
    using d c v(2) sz pad_len_dvd [OF pg] pad_len_pos [OF pg] offset_aligned [OF rdy pg]
    by (auto simp: declares_def)
qed

lemma chip_deleteall_inv: "chips_inv s as \<Longrightarrow> \<exists>s'. chip_deleteall s = Some s'"
proof -
  assume "chips_inv s as"
  then have "dseg (heap s) None (chip_list s) as (last_opt as) None" "distinct as"
    by (auto simp: chips_inv_def chips_rel_def distinct_map)
  from chip_deleteall_seg [OF this] show ?thesis by (simp add: chip_deleteall_def)
qed


text \<open>A directory with one device tree of one byte, for the next theorem.\<close>

definition demo_env :: env where
  "demo_env = \<lparr>e_dir = (\<lambda>_. Some [(''a.dtb'', True), (''b.txt'', True)]),
     e_dtc = (\<lambda>_ _. Some (map print_item [Msm [1, 3], Board [2, 0]])),
     e_stat = (\<lambda>_. Some 1), e_read = (\<lambda>_. Some [7]), e_open = True, e_old = None\<rparr>"

lemma demo_chips: "file_chips demo_env [] ''./a.dtb'' = [((1, 2, 0, 3), (0, 0, 0, 0))]"
proof -
  let ?is = "[Msm [1, 3], Board [2, 0]]"
  have ok: "\<forall>it\<in>set ?is. item_ok 2 it" by simp
  have "scan_lines (map print_item ?is) = \<lparr>chipId = [(1, 3)], chipSt = [(2, 0)], chipPt = []\<rparr>"
    unfolding scan_lines_items [OF ok] by (simp add: t_chain_def cell2_def chunks.simps)
  moreover have "version_of 1 (map print_item ?is) = 2" unfolding version_of_items [OF ok] by simp
  ultimately show ?thesis
    unfolding file_chips_def demo_env_def
    by (simp add: GetVersionInfo_def getChipInfo_def getChipInfo_v23_def chips_v2_def t_chain_def
        del: list.map) simp
qed


end
