(* ===== verification/Power_List.thy ===== *)
theory Power_List
  imports C_Prelude "HOL-Library.Multiset"
begin

text \<open>
  \<^verbatim>\<open>src/common/power/list.c\<close> and \<^verbatim>\<open>list.h\<close>: the singly linked list with a sentinel head that
  the power HAL keeps its active hints in. Nodes live in an explicit heap and are named
  by their addresses; a step that would read or free a node that is not allocated has
  no result (\<open>None\<close>). \<open>data\<close> is an opaque pointer, \<open>compare\<close> a nullable function pointer
  that may read the client's heap \<open>'h\<close> (\<open>None\<close> when it follows a dangling pointer). \<^verbatim>\<open>malloc\<close> is outside: its result is an argument.
\<close>

named_theorems list_ops \<open>behaviour of the list operations on well-formed lists\<close>

subsection \<open>The operations\<close>

type_synonym ptr = nat

record 'h list_node =
  ln_next :: "ptr option"
  ln_data :: "ptr option"
  ln_compare :: "('h \<Rightarrow> ptr option \<Rightarrow> ptr option \<Rightarrow> int option) option"
  ln_dump :: bool

type_synonym 'h node_heap = "ptr \<Rightarrow> 'h list_node option"

definition null_node :: "'h list_node" where
  "null_node = \<lparr>ln_next = None, ln_data = None, ln_compare = None, ln_dump = False\<rparr>"

definition init_list_head :: "ptr option \<Rightarrow> 'h node_heap \<Rightarrow> int \<times> 'h node_heap" where
  "init_list_head head h =
     (case head of None \<Rightarrow> (-1, h) | Some a \<Rightarrow> (0, h(a \<mapsto> null_node)))"

definition add_list_node ::
    "ptr option \<Rightarrow> ptr option \<Rightarrow> ptr option \<Rightarrow> 'h node_heap \<Rightarrow> (ptr option \<times> 'h node_heap) option" where
  "add_list_node head d new_node h =
     (case head of
        None \<Rightarrow> Some (None, h)
      | Some a \<Rightarrow>
          (case new_node of
             None \<Rightarrow> Some (None, h)
           | Some n \<Rightarrow>
               (case h a of
                  None \<Rightarrow> None
                | Some hv \<Rightarrow>
                    Some (Some n,
                          h(n \<mapsto> \<lparr>ln_next = ln_next hv, ln_data = d, ln_compare = ln_compare hv,
                                 ln_dump = ln_dump hv\<rparr>,
                            a \<mapsto> hv\<lparr>ln_next := Some n\<rparr>)))))"

definition is_list_empty :: "ptr option \<Rightarrow> 'h node_heap \<Rightarrow> bool option" where
  "is_list_empty head h =
     (case head of None \<Rightarrow> Some True | Some a \<Rightarrow> map_option (\<lambda>v. ln_next v = None) (h a))"

text \<open>The search loop of \<^verbatim>\<open>remove_list_node\<close>: the last \<^verbatim>\<open>saved_node\<close> and \<^verbatim>\<open>current_node\<close>.\<close>

partial_function (option) remove_seek ::
    "ptr \<Rightarrow> ptr option \<Rightarrow> ptr option \<Rightarrow> 'h node_heap \<Rightarrow> (ptr \<times> ptr option) option" where
  "remove_seek saved current del_node h =
     (case current of
        None \<Rightarrow> Some (saved, None)
      | Some c \<Rightarrow>
          if Some c = del_node then Some (saved, Some c)
          else (case h c of None \<Rightarrow> None | Some v \<Rightarrow> remove_seek c (ln_next v) del_node h))"

definition remove_list_node ::
    "ptr option \<Rightarrow> ptr option \<Rightarrow> 'h node_heap \<Rightarrow> (int \<times> 'h node_heap) option" where
  "remove_list_node head del_node h =
     (case head of
        None \<Rightarrow> Some (-1, h)
      | Some a \<Rightarrow>
          (case h a of
             None \<Rightarrow> None
           | Some hv \<Rightarrow>
               if ln_next hv = None then Some (-1, h)
               else (case remove_seek a (ln_next hv) del_node h of
                       None \<Rightarrow> None
                     | Some (saved, None) \<Rightarrow> Some (-1, h)
                     | Some (saved, Some c) \<Rightarrow>
                         (case (h saved, h c) of
                            (Some sv, Some cv) \<Rightarrow>
                              Some (0, (h(saved \<mapsto> sv\<lparr>ln_next := ln_next cv\<rparr>))(c := None))
                          | _ \<Rightarrow> None))))"

text \<open>\<^verbatim>\<open>dump_list\<close>: the data pointers handed to the dump callback, in order.\<close>

partial_function (option) dump_from :: "ptr option \<Rightarrow> 'h node_heap \<Rightarrow> ptr option list option" where
  "dump_from current h =
     (case current of
        None \<Rightarrow> Some []
      | Some c \<Rightarrow>
          (case h c of
             None \<Rightarrow> None
           | Some v \<Rightarrow>
               Option.bind (dump_from (ln_next v) h)
                 (\<lambda>ds. Some (if ln_dump v then ln_data v # ds else ds))))"

definition dump_list :: "ptr option \<Rightarrow> 'h node_heap \<Rightarrow> ptr option list option" where
  "dump_list head h =
     (case head of
        None \<Rightarrow> Some []
      | Some a \<Rightarrow> (case h a of None \<Rightarrow> None | Some v \<Rightarrow> dump_from (ln_next v) h))"

partial_function (option) find_from ::
    "ptr option \<Rightarrow> ptr option \<Rightarrow> 'h \<Rightarrow> 'h node_heap \<Rightarrow> ptr option option" where
  "find_from current d w h =
     (case current of
        None \<Rightarrow> Some None
      | Some c \<Rightarrow>
          (case h c of
             None \<Rightarrow> None
           | Some v \<Rightarrow>
               (case ln_compare v of
                  None \<Rightarrow> find_from (ln_next v) d w h
                | Some f \<Rightarrow>
                    (case f w (ln_data v) d of
                       None \<Rightarrow> None
                     | Some r \<Rightarrow> if r = 0 then Some (Some c) else find_from (ln_next v) d w h))))"

definition find_node :: "ptr option \<Rightarrow> ptr option \<Rightarrow> 'h \<Rightarrow> 'h node_heap \<Rightarrow> ptr option option" where
  "find_node head d w h =
     (case head of
        None \<Rightarrow> Some None
      | Some a \<Rightarrow> (case h a of None \<Rightarrow> None | Some v \<Rightarrow> find_from (ln_next v) d w h))"

subsection \<open>Well-formed lists\<close>

text \<open>\<open>nseg h q ns\<close>: from \<open>q\<close>, the links run through exactly the nodes \<open>ns\<close> and end in null.\<close>

fun nseg :: "'h node_heap \<Rightarrow> ptr option \<Rightarrow> ptr list \<Rightarrow> bool" where
  "nseg h q [] = (q = None)"
| "nseg h q (n # ns) = (q = Some n \<and> (case h n of None \<Rightarrow> False | Some v \<Rightarrow> nseg h (ln_next v) ns))"

definition list_rel :: "'h node_heap \<Rightarrow> ptr \<Rightarrow> ptr list \<Rightarrow> bool" where
  "list_rel h a ns \<longleftrightarrow>
     (\<exists>hv. h a = Some hv \<and> nseg h (ln_next hv) ns) \<and> distinct (a # ns)"

abbreviation node_data :: "'h node_heap \<Rightarrow> ptr \<Rightarrow> ptr option" where
  "node_data h n \<equiv> ln_data (the (h n))"

lemma nseg_frame: "(\<And>n. n \<in> set ns \<Longrightarrow> h' n = h n) \<Longrightarrow> nseg h' q ns = nseg h q ns"
  by (induction ns arbitrary: q) (auto split: option.splits)

lemma nseg_alloc: "nseg h q ns \<Longrightarrow> n \<in> set ns \<Longrightarrow> \<exists>v. h n = Some v"
  by (induction ns arbitrary: q) (auto split: option.splits)

lemma nseg_split:
  "nseg h q (xs @ n # ys) \<Longrightarrow> \<exists>v. h n = Some v \<and> nseg h (ln_next v) ys"
  by (induction xs arbitrary: q) (auto split: option.splits)

lemma list_rel_alloc: "list_rel h a ns \<Longrightarrow> n \<in> set ns \<Longrightarrow> \<exists>v. h n = Some v"
  by (auto simp: list_rel_def dest: nseg_alloc)

lemma add_list_node_rel [list_ops]:
  assumes "list_rel h a ns" "h n = None"
  shows "\<exists>h'. add_list_node (Some a) d (Some n) h = Some (Some n, h') \<and> list_rel h' a (n # ns) \<and>
    node_data h' n = d \<and> ln_compare (the (h' n)) = ln_compare (the (h a)) \<and>
    ln_compare (the (h' a)) = ln_compare (the (h a)) \<and> (\<forall>x. x \<noteq> n \<and> x \<noteq> a \<longrightarrow> h' x = h x) \<and> h' n \<noteq> None"
proof -
  from assms(1) obtain hv where hv: "h a = Some hv" "nseg h (ln_next hv) ns" "distinct (a # ns)"
    by (auto simp: list_rel_def)
  have n: "n \<noteq> a" "n \<notin> set ns" using assms hv(1) list_rel_alloc [of h a ns n] by auto
  let ?h = "h(n \<mapsto> \<lparr>ln_next = ln_next hv, ln_data = d, ln_compare = ln_compare hv, ln_dump = ln_dump hv\<rparr>,
      a \<mapsto> hv\<lparr>ln_next := Some n\<rparr>)"
  have "nseg ?h (ln_next hv) ns = nseg h (ln_next hv) ns"
    by (rule nseg_frame) (use n hv(3) in auto)
  with hv n have "list_rel ?h a (n # ns)" by (auto simp: list_rel_def)
  with hv n show ?thesis by (simp add: add_list_node_def)
qed

lemma remove_seek_seg:
  assumes "nseg h q ns" "distinct (saved # ns)"
  shows "remove_seek saved q (Some n) h =
    Some (if n \<in> set ns then (last (saved # takeWhile (\<lambda>x. x \<noteq> n) ns), Some n)
          else (last (saved # ns), None))"
  using assms
proof (induction ns arbitrary: q saved)
  case Nil
  then show ?case by (subst remove_seek.simps) simp
next
  case (Cons c ns)
  then obtain v where v: "h c = Some v" "q = Some c" "nseg h (ln_next v) ns"
    by (auto split: option.splits)
  show ?case
    using Cons.IH [OF v(3), of c] Cons.prems v by (subst remove_seek.simps) auto
qed

lemma nseg_delete:
  assumes "nseg h q (xs @ n # ys)" "distinct (xs @ n # ys)" "xs \<noteq> []" "h (last xs) = Some sv" "h n = Some nv"
  shows "nseg ((h(last xs \<mapsto> sv\<lparr>ln_next := ln_next nv\<rparr>))(n := None)) q (xs @ ys)"
  using assms
proof (induction xs arbitrary: q)
  case (Cons x xs)
  let ?h = "(h(last (x # xs) \<mapsto> sv\<lparr>ln_next := ln_next nv\<rparr>))(n := None)"
  from Cons.prems obtain v where v: "h x = Some v" "q = Some x" "nseg h (ln_next v) (xs @ n # ys)"
    by (auto split: option.splits)
  show ?case
  proof (cases "xs = []")
    case True
    from v(3) True Cons.prems(5) have tail: "nseg h (ln_next nv) ys" by simp
    have "nseg ?h (ln_next nv) ys = nseg h (ln_next nv) ys"
      by (rule nseg_frame) (use Cons.prems(2) True in auto)
    with tail v True Cons.prems show ?thesis by (auto simp: fun_upd_def)
  next
    case False
    have "x \<noteq> last xs" using Cons.prems(2) False by (auto dest: last_in_set)
    moreover have "nseg ((h(last xs \<mapsto> sv\<lparr>ln_next := ln_next nv\<rparr>))(n := None)) (ln_next v) (xs @ ys)"
      by (rule Cons.IH [OF v(3)]) (use Cons.prems False in auto)
    ultimately show ?thesis using v False Cons.prems(2) by (auto simp: fun_upd_def)
  qed
qed simp

lemma remove_list_node_rel [list_ops]:
  assumes rel: "list_rel h a (xs @ n # ys)"
  shows "\<exists>h'. remove_list_node (Some a) (Some n) h = Some (0, h') \<and> list_rel h' a (xs @ ys) \<and>
    (\<forall>x. x \<noteq> n \<longrightarrow> map_option (\<lambda>v. v\<lparr>ln_next := None\<rparr>) (h' x) = map_option (\<lambda>v. v\<lparr>ln_next := None\<rparr>) (h x)) \<and>
    h' n = None"
proof -
  from rel obtain hv where hv: "h a = Some hv" "nseg h (ln_next hv) (xs @ n # ys)" "distinct (a # xs @ n # ys)"
    by (auto simp: list_rel_def)
  from hv(2) obtain nv where nv: "h n = Some nv" "nseg h (ln_next nv) ys" using nseg_split by blast
  have nx: "n \<notin> set xs" using hv(3) by auto
  then have "takeWhile (\<lambda>x. x \<noteq> n) (xs @ n # ys) = xs"
    by (subst takeWhile_append2) auto
  then have seek: "remove_seek a (ln_next hv) (Some n) h = Some (last (a # xs), Some n)"
    using remove_seek_seg [OF hv(2,3), of n] by simp
  have "\<exists>sv. h (last (a # xs)) = Some sv"
    using hv(1) nseg_alloc [OF hv(2), of "last xs"] by (cases "xs = []") auto
  then obtain sv where sv: "h (last (a # xs)) = Some sv" by blast
  let ?h = "(h(last (a # xs) \<mapsto> sv\<lparr>ln_next := ln_next nv\<rparr>))(n := None)"
  have ne: "ln_next hv \<noteq> None" using hv(2) by (cases xs) auto
  have run: "remove_list_node (Some a) (Some n) h = Some (0, ?h)"
    using hv(1) ne seek sv nv by (simp add: remove_list_node_def)
  have "nseg (h(a \<mapsto> hv)) (Some a) (a # xs @ n # ys)"
    using hv by (simp add: fun_upd_idem)
  then have full: "nseg h (Some a) ((a # xs) @ n # ys)" using hv(1) by (simp add: fun_upd_idem)
  have "nseg ?h (Some a) ((a # xs) @ ys)"
    by (rule nseg_delete [OF full]) (use hv(3) sv nv in auto)
  then have "list_rel ?h a (xs @ ys)"
    using hv(3) by (auto simp: list_rel_def split: option.splits)
  with run sv show ?thesis by auto
qed

lemma find_from_seg:
  assumes "nseg h q ns" "\<forall>n\<in>set ns. ln_compare (the (h n)) = Some f \<and> f w (node_data h n) d = Some (g n)"
  shows "find_from q d w h = Some (find (\<lambda>n. g n = 0) ns)"
  using assms
proof (induction ns arbitrary: q)
  case Nil
  then show ?case by (subst find_from.simps) simp
next
  case (Cons n ns)
  then obtain v where "h n = Some v" "q = Some n" "nseg h (ln_next v) ns"
    by (auto split: option.splits)
  with Cons show ?case by (subst find_from.simps) auto
qed

lemma find_node_rel [list_ops]:
  assumes "list_rel h a ns"
    and "\<forall>n\<in>set ns. ln_compare (the (h n)) = Some f \<and> f w (node_data h n) d = Some (g n)"
  shows "find_node (Some a) d w h = Some (find (\<lambda>n. g n = 0) ns)"
  using assms by (auto simp: find_node_def list_rel_def intro!: find_from_seg)

lemma init_list_head_rel [list_ops]:
  "init_list_head (Some a) h = (0, h') \<Longrightarrow> list_rel h' a []"
  by (auto simp: init_list_head_def list_rel_def null_node_def)

end
