(* ===== verification/Power_Hints.thy ===== *)
theory Power_Hints
  imports Power_List
begin

text \<open>
  \<^verbatim>\<open>src/common/power/hint-data.c\<close> and the hint part of \<^verbatim>\<open>src/common/power/utils.c\<close>: loading the
  perf-lock library and keeping track of the locks the HAL holds. The library is outside:
  its two entry points are nullable functions whose results may depend on every earlier
  call. \<^verbatim>\<open>malloc\<close> may fail at any call. \<^verbatim>\<open>unsigned long\<close> has 32 bits (the target is 32-bit ARM).
\<close>

named_theorems hint_ops \<open>behaviour of the hint actions\<close>

subsection \<open>hint-data\<close>

definition DEFAULT_VIDEO_ENCODE_HINT_ID :: int where "DEFAULT_VIDEO_ENCODE_HINT_ID = 0x0A00"
definition DEFAULT_VIDEO_DECODE_HINT_ID :: int where "DEFAULT_VIDEO_DECODE_HINT_ID = 0x0B00"
definition DISPLAY_STATE_HINT_ID :: int where "DISPLAY_STATE_HINT_ID = 0x0C00"
definition DISPLAY_STATE_HINT_ID_2 :: int where "DISPLAY_STATE_HINT_ID_2 = 0x0D00"

record hint_data =
  hint_id :: u32
  perflock_handle :: u32

type_synonym hint_heap = "ptr \<Rightarrow> hint_data option"

definition hint_compare :: "hint_heap \<Rightarrow> ptr option \<Rightarrow> ptr option \<Rightarrow> int option" where
  "hint_compare w first_hint other_hint =
     (if first_hint = other_hint then Some 0
      else case (first_hint, other_hint) of
        (Some a, Some b) \<Rightarrow>
          (case (w a, w b) of
             (Some x, Some y) \<Rightarrow> Some (if hint_id x = hint_id y then 0 else 1)
           | _ \<Rightarrow> None)
      | _ \<Rightarrow> Some 1)"

subsection \<open>The perf-lock library\<close>

datatype lib_call = Acq u32 int "int list" | Rel u32

type_synonym lib_trace = "(lib_call \<times> int) list"

record perf_lib =
  lib_acq :: "(lib_trace \<Rightarrow> u32 \<Rightarrow> int \<Rightarrow> int list \<Rightarrow> int) option"
  lib_rel :: "(lib_trace \<Rightarrow> u32 \<Rightarrow> int) option"

record hint_env =
  qcopt_handle :: bool
  perf_lock_acq :: "(lib_trace \<Rightarrow> u32 \<Rightarrow> int \<Rightarrow> int list \<Rightarrow> int) option"
  perf_lock_rel :: "(lib_trace \<Rightarrow> u32 \<Rightarrow> int) option"
  malloc_ok :: "nat \<Rightarrow> bool"

definition get_qcopt_handle :: "string \<Rightarrow> (string \<Rightarrow> perf_lib option) \<Rightarrow> perf_lib option" where
  "get_qcopt_handle prop dlopen = (if prop \<noteq> [] then dlopen prop else None)"

definition initialize :: "string \<Rightarrow> (string \<Rightarrow> perf_lib option) \<Rightarrow> (nat \<Rightarrow> bool) \<Rightarrow> hint_env" where
  "initialize prop dlopen mem =
     (case get_qcopt_handle prop dlopen of
        None \<Rightarrow> \<lparr>qcopt_handle = False, perf_lock_acq = None, perf_lock_rel = None, malloc_ok = mem\<rparr>
      | Some l \<Rightarrow> \<lparr>qcopt_handle = True, perf_lock_acq = lib_acq l, perf_lock_rel = lib_rel l,
                  malloc_ok = mem\<rparr>)"

subsection \<open>State and actions\<close>

record hint_st =
  nodes :: "hint_heap node_heap"
  hints :: hint_heap
  brk :: nat
  calls :: lib_trace
  lock_handle :: int

text \<open>The static list head has address 0; the temporary of \<^verbatim>\<open>undo_hint_action\<close> has address 1.\<close>

definition active_hint_list_head :: ptr where "active_hint_list_head = 0"
definition temp_hint_addr :: ptr where "temp_hint_addr = 1"

definition hint_init :: hint_st where
  "hint_init = \<lparr>nodes = [active_hint_list_head \<mapsto> null_node], hints = Map.empty, brk = 2, calls = [],
     lock_handle = 0\<rparr>"

definition malloc :: "hint_env \<Rightarrow> hint_st \<Rightarrow> ptr option \<times> hint_st" where
  "malloc e s = (if malloc_ok e (brk s) then Some (brk s) else None, s\<lparr>brk := brk s + 1\<rparr>)"

definition call_rel :: "hint_env \<Rightarrow> u32 \<Rightarrow> hint_st \<Rightarrow> hint_st" where
  "call_rel e x s =
     (case perf_lock_rel e of
        None \<Rightarrow> s
      | Some rel \<Rightarrow> s\<lparr>calls := calls s @ [(Rel x, rel (calls s) x)]\<rparr>)"

definition interaction :: "bool \<Rightarrow> hint_env \<Rightarrow> int \<Rightarrow> int list \<Rightarrow> hint_st \<Rightarrow> hint_st" where
  "interaction boost e duration opt_list s =
     (if \<not> boost then s
      else if duration < 0 \<or> length opt_list < 1 \<or> hd opt_list = 0 then s
      else if qcopt_handle e then
        (case perf_lock_acq e of
           None \<Rightarrow> s
         | Some acq \<Rightarrow>
             (let h = word_of_int (lock_handle s); r = acq (calls s) h duration opt_list in
              s\<lparr>calls := calls s @ [(Acq h duration opt_list, r)], lock_handle := r\<rparr>))
      else s)"

text \<open>The static head gets its callbacks when the first hint is recorded.\<close>

definition set_callbacks :: "hint_st \<Rightarrow> hint_st option" where
  "set_callbacks s =
     (case nodes s active_hint_list_head of
        None \<Rightarrow> None
      | Some hv \<Rightarrow>
          Some (if ln_compare hv = None
                then s\<lparr>nodes := (nodes s)(active_hint_list_head \<mapsto>
                         hv\<lparr>ln_compare := Some hint_compare, ln_dump := True\<rparr>)\<rparr>
                else s))"

definition record_hint :: "hint_env \<Rightarrow> int \<Rightarrow> int \<Rightarrow> ptr \<Rightarrow> hint_st \<Rightarrow> hint_st option" where
  "record_hint e hid lh p s =
     (case set_callbacks s of
        None \<Rightarrow> None
      | Some s1 \<Rightarrow>
          (let s2 = s1\<lparr>hints := (hints s1)(p \<mapsto> \<lparr>hint_id = word_of_int hid,
                                                perflock_handle = word_of_int lh\<rparr>)\<rparr>;
               (nn, s3) = malloc e s2
           in case add_list_node (Some active_hint_list_head) (Some p) nn (nodes s3) of
                None \<Rightarrow> None
              | Some (None, h) \<Rightarrow>
                  Some (call_rel e (word_of_int lh) (s3\<lparr>nodes := h, hints := (hints s3)(p := None)\<rparr>))
              | Some (Some n, h) \<Rightarrow> Some (s3\<lparr>nodes := h\<rparr>)))"

definition perform_hint_action :: "hint_env \<Rightarrow> int \<Rightarrow> int list \<Rightarrow> hint_st \<Rightarrow> hint_st option" where
  "perform_hint_action e hid resource_values s =
     (if \<not> qcopt_handle e then Some s
      else case perf_lock_acq e of
        None \<Rightarrow> Some s
      | Some acq \<Rightarrow>
          (let lh = acq (calls s) 0 0 resource_values;
               s1 = s\<lparr>calls := calls s @ [(Acq 0 0 resource_values, lh)]\<rparr>
           in if lh = -1 then Some s1
              else case malloc e s1 of
                (None, s2) \<Rightarrow> Some (call_rel e (word_of_int lh) s2)
              | (Some p, s2) \<Rightarrow> record_hint e hid lh p s2))"

text \<open>The two guards of \<^verbatim>\<open>undo_hint_action\<close> on \<open>found_node->data\<close> see the same pointer.\<close>

definition drop_hint :: "hint_env \<Rightarrow> ptr \<Rightarrow> hint_st \<Rightarrow> hint_st option" where
  "drop_hint e n s =
     (case nodes s n of
        None \<Rightarrow> None
      | Some v \<Rightarrow>
          (case ln_data v of
             None \<Rightarrow> map_option (\<lambda>(rc, h). s\<lparr>nodes := h\<rparr>)
                       (remove_list_node (Some active_hint_list_head) (Some n) (nodes s))
           | Some p \<Rightarrow>
               (case hints s p of
                  None \<Rightarrow> None
                | Some d \<Rightarrow>
                    (let s1 = call_rel e (perflock_handle d) s;
                         s2 = s1\<lparr>hints := (hints s1)(p := None)\<rparr>
                     in map_option (\<lambda>(rc, h). s2\<lparr>nodes := h\<rparr>)
                          (remove_list_node (Some active_hint_list_head) (Some n) (nodes s2))))))"

definition undo_hint_action :: "hint_env \<Rightarrow> int \<Rightarrow> hint_st \<Rightarrow> hint_st option" where
  "undo_hint_action e hid s =
     (if \<not> qcopt_handle e then Some s
      else if perf_lock_rel e = None then Some s
      else case find_node (Some active_hint_list_head) (Some temp_hint_addr)
                  ((hints s)(temp_hint_addr \<mapsto> \<lparr>hint_id = word_of_int hid, perflock_handle = 0\<rparr>))
                  (nodes s) of
             None \<Rightarrow> None
           | Some None \<Rightarrow> Some s
           | Some (Some n) \<Rightarrow> drop_hint e n s)"

definition undo_initial_hint_action :: "hint_env \<Rightarrow> hint_st \<Rightarrow> hint_st" where
  "undo_initial_hint_action e s = (if qcopt_handle e then call_rel e 1 s else s)"

subsection \<open>The hint list as a stack of locks per hint\<close>

text \<open>
  \<open>hint_inv s xs\<close>: the list holds exactly the (hint, lock handle) pairs \<open>xs\<close>, newest
  first, and nothing else is allocated.
\<close>

definition hint_rel :: "hint_st \<Rightarrow> ptr list \<Rightarrow> ptr list \<Rightarrow> (u32 \<times> u32) list \<Rightarrow> bool" where
  "hint_rel s ns ps xs \<longleftrightarrow>
     list_rel (nodes s) active_hint_list_head ns \<and>
     (\<forall>n\<in>set ns. ln_compare (the (nodes s n)) = Some hint_compare) \<and>
     ln_compare (the (nodes s active_hint_list_head)) \<in> {None, Some hint_compare} \<and>
     map (node_data (nodes s)) ns = map Some ps \<and> distinct ps \<and>
     map (map_option (\<lambda>d. (hint_id d, perflock_handle d)) \<circ> hints s) ps = map Some xs \<and>
     dom (nodes s) = insert active_hint_list_head (set ns) \<and> dom (hints s) = set ps \<and>
     2 \<le> brk s \<and> (\<forall>n\<in>set ns. n < brk s) \<and> (\<forall>p\<in>set ps. 2 \<le> p \<and> p < brk s)"

definition hint_inv :: "hint_st \<Rightarrow> (u32 \<times> u32) list \<Rightarrow> bool" where
  "hint_inv s xs \<longleftrightarrow> (\<exists>ns ps. hint_rel s ns ps xs)"

fun drop_first :: "'k \<Rightarrow> ('k \<times> 'v) list \<Rightarrow> ('k \<times> 'v) list" where
  "drop_first k [] = []"
| "drop_first k (x # xs) = (if fst x = k then xs else x # drop_first k xs)"

lemma hint_inv_init: "hint_inv hint_init []"
  unfolding hint_inv_def hint_rel_def
  by (intro exI [of _ "[]"])
    (auto simp: hint_init_def list_rel_def null_node_def active_hint_list_head_def)

lemma hint_rel_cong:
  "hint_rel s ns ps xs \<Longrightarrow> hint_rel (s\<lparr>calls := c\<rparr>) ns ps xs"
  "hint_rel s ns ps xs \<Longrightarrow> hint_rel (s\<lparr>lock_handle := l\<rparr>) ns ps xs"
  "hint_rel s ns ps xs \<Longrightarrow> hint_rel (s\<lparr>brk := brk s + 1\<rparr>) ns ps xs"
  by (auto simp: hint_rel_def less_Suc_eq)

lemma call_rel_proj [simp]:
  "nodes (call_rel e x s) = nodes s" "hints (call_rel e x s) = hints s" "brk (call_rel e x s) = brk s"
  "lock_handle (call_rel e x s) = lock_handle s"
  by (auto simp: call_rel_def split: option.splits)

lemma hint_rel_call_rel: "hint_rel (call_rel e x s) ns ps xs = hint_rel s ns ps xs"
  by (simp add: hint_rel_def)

lemma hint_rel_head: "hint_rel s ns ps xs \<Longrightarrow> \<exists>hv. nodes s active_hint_list_head = Some hv"
  by (auto simp: hint_rel_def list_rel_def)

lemma set_callbacks_rel:
  assumes "hint_rel s ns ps xs"
  shows "\<exists>s'. set_callbacks s = Some s' \<and> hint_rel s' ns ps xs \<and>
    ln_compare (the (nodes s' active_hint_list_head)) = Some hint_compare \<and>
    hints s' = hints s \<and> brk s' = brk s \<and> calls s' = calls s"
proof -
  from assms obtain hv where hv: "nodes s active_hint_list_head = Some hv"
    "nseg (nodes s) (ln_next hv) ns" "active_hint_list_head \<notin> set ns"
    by (auto simp: hint_rel_def list_rel_def)
  have frame: "nseg ((nodes s)(active_hint_list_head \<mapsto> v)) q ns = nseg (nodes s) q ns" for v q
    by (rule nseg_frame) (use hv(3) in auto)
  have data: "map (node_data ((nodes s)(active_hint_list_head \<mapsto> v))) ns = map (node_data (nodes s)) ns" for v
    using hv(3) by auto
  show ?thesis
  proof (cases "ln_compare hv = None")
    case True
    let ?s = "s\<lparr>nodes := (nodes s)(active_hint_list_head \<mapsto>
        hv\<lparr>ln_compare := Some hint_compare, ln_dump := True\<rparr>)\<rparr>"
    have "hint_rel ?s ns ps xs"
      using assms hv frame data unfolding hint_rel_def by (auto simp: list_rel_def)
    with True hv(1) show ?thesis by (simp add: set_callbacks_def)
  next
    case False
    with assms hv(1) show ?thesis by (auto simp: set_callbacks_def hint_rel_def)
  qed
qed

lemma hint_rel_fresh: "hint_rel s ns ps xs \<Longrightarrow> brk s \<le> n \<Longrightarrow> nodes s n = None"
proof (rule ccontr)
  assume a: "hint_rel s ns ps xs" "brk s \<le> n" "nodes s n \<noteq> None"
  then have "n = active_hint_list_head \<or> n \<in> set ns" by (auto simp: hint_rel_def)
  with a show False by (auto simp: hint_rel_def active_hint_list_head_def)
qed

lemma record_hint_rel:
  assumes rel: "hint_rel s ns ps xs" and p: "2 \<le> p" "p < brk s" "p \<notin> set ps"
  shows "\<exists>s'. record_hint e hid lh p s = Some s' \<and>
    (if malloc_ok e (brk s)
     then hint_inv s' ((word_of_int hid, word_of_int lh) # xs) \<and> calls s' = calls s
     else hint_inv s' xs \<and> calls s' = calls (call_rel e (word_of_int lh) s))"
proof -
  from set_callbacks_rel [OF rel] obtain s1 where s1: "set_callbacks s = Some s1" "hint_rel s1 ns ps xs"
    "ln_compare (the (nodes s1 active_hint_list_head)) = Some hint_compare"
    "hints s1 = hints s" "brk s1 = brk s" "calls s1 = calls s" by blast
  let ?d = "\<lparr>hint_id = word_of_int hid, perflock_handle = word_of_int lh\<rparr>"
  have hp: "hints s p = None" using p(3) rel by (auto simp: hint_rel_def)
  show ?thesis
  proof (cases "malloc_ok e (brk s)")
    case False
    let ?s = "s1\<lparr>brk := Suc (brk s1)\<rparr>"
    have inv: "hint_inv (call_rel e (word_of_int lh) ?s) xs"
      using hint_rel_cong(3) [OF s1(2)] hint_rel_call_rel unfolding hint_inv_def by fastforce
    have "s1\<lparr>brk := Suc (brk s), hints := (hints s)(p := None)\<rparr> = ?s"
      using hp s1(4,5) by (cases s1) (auto simp: fun_upd_idem)
    then have "record_hint e hid lh p s = Some (call_rel e (word_of_int lh) ?s)"
      using False s1 by (simp add: record_hint_def malloc_def add_list_node_def)
    moreover have "calls (call_rel e (word_of_int lh) ?s) = calls (call_rel e (word_of_int lh) s)"
      using s1(6) by (simp add: call_rel_def split: option.splits)
    ultimately show ?thesis using False inv by simp
  next
    case True
    let ?n = "brk s"
    have fresh: "nodes s1 ?n = None" using hint_rel_fresh [OF s1(2)] s1(5) by simp
    have lr: "list_rel (nodes s1) active_hint_list_head ns" using s1(2) by (simp add: hint_rel_def)
    from add_list_node_rel [OF lr fresh, of "Some p"] obtain h where
      h: "add_list_node (Some active_hint_list_head) (Some p) (Some ?n) (nodes s1) = Some (Some ?n, h)"
      "list_rel h active_hint_list_head (?n # ns)" "node_data h ?n = Some p"
      "ln_compare (the (h ?n)) = Some hint_compare"
      "ln_compare (the (h active_hint_list_head)) = Some hint_compare"
      "\<forall>x. x \<noteq> ?n \<and> x \<noteq> active_hint_list_head \<longrightarrow> h x = nodes s1 x" "h ?n \<noteq> None"
      using s1(3) by auto
    let ?s = "s1\<lparr>hints := (hints s)(p \<mapsto> ?d), brk := Suc ?n, nodes := h\<rparr>"
    have ns: "?n \<notin> set ns" "active_hint_list_head \<notin> set ns" using h(2) by (auto simp: list_rel_def)
    have same: "h x = nodes s1 x" if "x \<in> set ns" for x using h(6) ns that by metis
    have "dom h = insert ?n (dom (nodes s1))"
    proof -
      have hd: "h active_hint_list_head \<noteq> None" "nodes s1 active_hint_list_head \<noteq> None"
        using h(2) hint_rel_head [OF s1(2)] by (auto simp: list_rel_def)
      have "h x \<noteq> None \<longleftrightarrow> x = ?n \<or> nodes s1 x \<noteq> None" for x
      proof (cases "x = active_hint_list_head \<or> x = ?n")
        case True
        then show ?thesis using hd h(7) by blast
      next
        case False
        then have "h x = nodes s1 x" using h(6) by blast
        with False show ?thesis by simp
      qed
      then show ?thesis unfolding dom_def by blast
    qed
    moreover have "map (node_data h) (?n # ns) = map Some (p # ps)"
      using s1(2) h(3) same by (simp add: hint_rel_def cong: map_cong)
    moreover have "map (map_option (\<lambda>d. (hint_id d, perflock_handle d)) \<circ> (hints s)(p \<mapsto> ?d)) (p # ps) =
        map Some ((word_of_int hid, word_of_int lh) # xs)"
    proof -
      have "map (map_option (\<lambda>d. (hint_id d, perflock_handle d)) \<circ> (hints s)(p \<mapsto> ?d)) ps =
          map (map_option (\<lambda>d. (hint_id d, perflock_handle d)) \<circ> hints s) ps"
        using p(3) by auto
      also have "\<dots> = map Some xs" using rel unfolding hint_rel_def by blast
      finally show ?thesis unfolding list.map by simp
    qed
    ultimately have "hint_rel ?s (?n # ns) (p # ps) ((word_of_int hid, word_of_int lh) # xs)"
      using s1 h p same unfolding hint_rel_def by (auto simp: less_Suc_eq)
    then have "hint_inv ?s ((word_of_int hid, word_of_int lh) # xs)" unfolding hint_inv_def by blast
    with True s1 h show ?thesis by (simp add: record_hint_def malloc_def)
  qed
qed

lemma perform_hint_rel [hint_ops]:
  assumes "hint_inv s xs"
  shows "\<exists>s'. perform_hint_action e hid vs s = Some s' \<and>
    (case perf_lock_acq e of
       None \<Rightarrow> s' = s
     | Some acq \<Rightarrow>
         (let lh = acq (calls s) 0 0 vs; c = (Acq 0 0 vs, lh) in
          if \<not> qcopt_handle e then s' = s
          else if lh = -1 then hint_inv s' xs \<and> calls s' = calls s @ [c]
          else if malloc_ok e (brk s) \<and> malloc_ok e (Suc (brk s))
          then hint_inv s' ((word_of_int hid, word_of_int lh) # xs) \<and> calls s' = calls s @ [c]
          else hint_inv s' xs \<and>
            calls s' = calls (call_rel e (word_of_int lh) (s\<lparr>calls := calls s @ [c]\<rparr>))))"
proof (cases "\<exists>acq. perf_lock_acq e = Some acq \<and> qcopt_handle e")
  case False
  then show ?thesis by (auto simp: perform_hint_action_def Let_def split: option.splits)
next
  case True
  then obtain acq where acq: "perf_lock_acq e = Some acq" "qcopt_handle e" by blast
  from assms obtain ns ps where rel: "hint_rel s ns ps xs" by (auto simp: hint_inv_def)
  let ?lh = "acq (calls s) 0 0 vs"
  let ?s1 = "s\<lparr>calls := calls s @ [(Acq 0 0 vs, ?lh)]\<rparr>"
  let ?s2 = "?s1\<lparr>brk := Suc (brk s)\<rparr>"
  have rel1: "hint_rel ?s1 ns ps xs" using rel by (rule hint_rel_cong)
  have rel2: "hint_rel ?s2 ns ps xs" using hint_rel_cong(3) [OF rel1] by simp
  have p: "2 \<le> brk s" "brk s < brk ?s2" "brk s \<notin> set ps" using rel by (auto simp: hint_rel_def)
  have calls_eq: "calls (call_rel e (word_of_int ?lh) ?s2) = calls (call_rel e (word_of_int ?lh) ?s1)"
    by (simp add: call_rel_def split: option.splits)
  have inv: "hint_inv ?s1 xs" "hint_inv (call_rel e (word_of_int ?lh) ?s2) xs"
    using rel1 rel2 hint_rel_call_rel unfolding hint_inv_def by blast+
  note rec = record_hint_rel [OF rel2 p, of e hid ?lh]
  consider "?lh = -1" | "?lh \<noteq> -1" "\<not> malloc_ok e (brk s)" | "?lh \<noteq> -1" "malloc_ok e (brk s)" by blast
  then show ?thesis
  proof cases
    case 1
    then show ?thesis using acq inv(1) by (simp add: perform_hint_action_def)
  next
    case 2
    then show ?thesis using acq inv(2) calls_eq by (simp add: perform_hint_action_def malloc_def Let_def)
  next
    case 3
    from rec obtain s' where s': "record_hint e hid ?lh (brk s) ?s2 = Some s'"
      "if malloc_ok e (Suc (brk s))
       then hint_inv s' ((word_of_int hid, word_of_int ?lh) # xs) \<and> calls s' = calls ?s1
       else hint_inv s' xs \<and> calls s' = calls (call_rel e (word_of_int ?lh) ?s1)"
      unfolding calls_eq by auto
    have "perform_hint_action e hid vs s = Some s'"
      using 3 acq s'(1) by (simp add: perform_hint_action_def malloc_def)
    then show ?thesis using 3 acq s'(2) by (auto simp: Let_def)
  qed
qed

lemma drop_first_absent: "\<forall>x\<in>set xs. fst x \<noteq> k \<Longrightarrow> drop_first k xs = xs"
  by (induction xs) auto

lemma drop_first_split: "\<forall>x\<in>set xs. fst x \<noteq> k \<Longrightarrow> drop_first k (xs @ (k, v) # ys) = xs @ ys"
  by (induction xs) auto

lemma hint_rel_node:
  assumes "hint_rel s ns ps xs" "i < length ns"
  shows "\<exists>v d. nodes s (ns ! i) = Some v \<and> ln_data v = Some (ps ! i) \<and> hints s (ps ! i) = Some d \<and>
    xs ! i = (hint_id d, perflock_handle d) \<and> length ps = length ns \<and> length xs = length ns \<and>
    ps ! i \<noteq> temp_hint_addr"
proof -
  from assms(1) have len: "length ps = length ns" "length xs = length ns"
    unfolding hint_rel_def by (auto dest!: map_eq_imp_length_eq)
  from assms list_rel_alloc [of "nodes s" active_hint_list_head ns "ns ! i"] obtain v where
    v: "nodes s (ns ! i) = Some v" by (auto simp: hint_rel_def)
  have "map (node_data (nodes s)) ns ! i = map Some ps ! i"
    "map (map_option (\<lambda>d. (hint_id d, perflock_handle d)) \<circ> hints s) ps ! i = map Some xs ! i"
    using assms(1) by (auto simp: hint_rel_def)
  then have "ln_data v = Some (ps ! i)"
    "map_option (\<lambda>d. (hint_id d, perflock_handle d)) (hints s (ps ! i)) = Some (xs ! i)"
    using v assms(2) len by simp_all
  moreover have "2 \<le> ps ! i" using assms len by (simp add: hint_rel_def)
  then have "ps ! i \<noteq> temp_hint_addr" by (simp add: temp_hint_addr_def)
  ultimately show ?thesis using v len by auto
qed

lemma hint_compare_temp:
  assumes "p \<noteq> temp_hint_addr" "w p = Some d"
  shows "hint_compare (w(temp_hint_addr \<mapsto> t)) (Some p) (Some temp_hint_addr) =
    Some (if hint_id d = hint_id t then 0 else 1)"
  using assms by (simp add: hint_compare_def)

lemma find_hint:
  assumes "hint_rel s ns ps xs"
  shows "find_node (Some active_hint_list_head) (Some temp_hint_addr)
      ((hints s)(temp_hint_addr \<mapsto> \<lparr>hint_id = k, perflock_handle = 0\<rparr>)) (nodes s) =
    Some (map_option (\<lambda>i. ns ! i) (find (\<lambda>i. fst (xs ! i) = k) [0..<length ns]))"
proof -
  let ?w = "(hints s)(temp_hint_addr \<mapsto> \<lparr>hint_id = k, perflock_handle = 0\<rparr>)"
  let ?g = "\<lambda>n. if hint_id (the (hints s (the (node_data (nodes s) n)))) = k then 0 else 1 :: int"
  have cmp: "ln_compare (the (nodes s n)) = Some hint_compare \<and>
      hint_compare ?w (node_data (nodes s) n) (Some temp_hint_addr) = Some (?g n)" if "n \<in> set ns" for n
  proof -
    from that obtain i where i: "i < length ns" "n = ns ! i" by (metis in_set_conv_nth)
    from hint_rel_node [OF assms i(1)] that i(2) assms show ?thesis
      by (auto simp: hint_compare_temp hint_rel_def)
  qed
  have "find_node (Some active_hint_list_head) (Some temp_hint_addr) ?w (nodes s) =
      Some (find (\<lambda>n. ?g n = 0) ns)"
    by (rule find_node_rel) (use assms cmp in \<open>auto simp: hint_rel_def\<close>)
  also have "find (\<lambda>n. ?g n = 0) ns = find (\<lambda>n. ?g n = 0) (map ((!) ns) [0..<length ns])"
    by (simp only: map_nth)
  also have "\<dots> = map_option ((!) ns) (find (\<lambda>i. ?g (ns ! i) = 0) [0..<length ns])"
  proof -
    have "find P (map f zs) = map_option f (find (P \<circ> f) zs)" for P and f :: "nat \<Rightarrow> nat" and zs
      by (induction zs) auto
    then show ?thesis by (simp add: comp_def)
  qed
  also have "find (\<lambda>i. ?g (ns ! i) = 0) [0..<length ns] = find (\<lambda>i. fst (xs ! i) = k) [0..<length ns]"
  proof (rule find_cong [OF refl])
    fix i assume "i \<in> set [0..<length ns]"
    with hint_rel_node [OF assms, of i] show "(?g (ns ! i) = 0) = (fst (xs ! i) = k)" by auto
  qed
  finally show ?thesis .
qed

lemma find_upt_first:
  assumes "\<forall>x\<in>set xs. fst x \<noteq> k"
  shows "find (\<lambda>i. fst ((xs @ (k, v) # ys) ! i) = k) [0..<length (xs @ (k, v) # ys)] = Some (length xs)"
  unfolding find_Some_iff using assms
  by (intro exI [of _ "length xs"]) (auto simp: nth_append)

text \<open>Removing position \<open>i\<close> of a list.\<close>

definition without :: "nat \<Rightarrow> 'a list \<Rightarrow> 'a list" where
  "without i xs = take i xs @ drop (Suc i) xs"

lemma map_without: "map f (without i xs) = without i (map f xs)"
  by (simp add: without_def take_map drop_map)

lemma set_without: "distinct xs \<Longrightarrow> i < length xs \<Longrightarrow> set (without i xs) = set xs - {xs ! i}"
proof -
  assume a: "distinct xs" "i < length xs"
  have xs: "xs = take i xs @ xs ! i # drop (Suc i) xs" by (rule id_take_nth_drop [OF a(2)])
  have "distinct (take i xs @ xs ! i # drop (Suc i) xs)" using a(1) xs by simp
  moreover have "set xs = set (take i xs @ xs ! i # drop (Suc i) xs)" using xs by simp
  ultimately show ?thesis by (auto simp: without_def)
qed

lemma distinct_without: "distinct xs \<Longrightarrow> distinct (without i xs)"
  by (auto simp: without_def set_take_disj_set_drop_if_distinct)

lemma without_map_cong:
  "distinct xs \<Longrightarrow> i < length xs \<Longrightarrow> (\<And>x. x \<in> set xs \<Longrightarrow> x \<noteq> xs ! i \<Longrightarrow> f x = g x) \<Longrightarrow>
   map f (without i xs) = map g (without i xs)"
  by (simp add: set_without)

lemma drop_hint_rel:
  assumes rel: "hint_rel s ns ps xs" and i: "i < length ns"
  shows "\<exists>s'. drop_hint e (ns ! i) s = Some s' \<and> hint_inv s' (without i xs) \<and>
    calls s' = calls (call_rel e (snd (xs ! i)) s)"
proof -
  let ?n = "ns ! i" and ?p = "ps ! i" and ?a = active_hint_list_head
  from hint_rel_node [OF rel i] obtain v d where v: "nodes s ?n = Some v" "ln_data v = Some ?p"
    "hints s ?p = Some d" "xs ! i = (hint_id d, perflock_handle d)"
    and len: "length ps = length ns" "length xs = length ns" by blast
  from rel have lr: "list_rel (nodes s) ?a (take i ns @ ?n # drop (Suc i) ns)"
    using id_take_nth_drop [OF i] by (simp add: hint_rel_def)
  from remove_list_node_rel [OF lr] obtain h where h: "remove_list_node (Some ?a) (Some ?n) (nodes s) = Some (0, h)"
    "list_rel h ?a (without i ns)" "h ?n = None"
    and eq: "\<And>x. x \<noteq> ?n \<Longrightarrow> map_option (\<lambda>v. v\<lparr>ln_next := None\<rparr>) (h x) =
      map_option (\<lambda>v. v\<lparr>ln_next := None\<rparr>) (nodes s x)" by (auto simp: without_def)
  let ?s = "(call_rel e (perflock_handle d) s)\<lparr>hints := (hints s)(?p := None), nodes := h\<rparr>"
  have ds: "distinct ns" "?a \<notin> set ns" "distinct ps" using rel by (auto simp: hint_rel_def list_rel_def)
  have alloc: "nodes s x \<noteq> None" if "x \<in> set ns \<or> x = ?a" for x
    using rel that by (auto simp: hint_rel_def)
  have same: "node_data h x = node_data (nodes s) x" "ln_compare (the (h x)) = ln_compare (the (nodes s x))"
    if "x \<noteq> ?n" "nodes s x \<noteq> None" for x
  proof -
    from eq [OF that(1)] that(2) obtain y z where "h x = Some y" "nodes s x = Some z"
      "y\<lparr>ln_next := None\<rparr> = z\<lparr>ln_next := None\<rparr>" by (cases "h x") auto
    then show "node_data h x = node_data (nodes s) x" "ln_compare (the (h x)) = ln_compare (the (nodes s x))"
      by (cases y; cases z; simp)+
  qed
  have hn: "?a \<noteq> ?n" using ds(2) i by (metis nth_mem)
  have dom: "dom h = dom (nodes s) - {?n}"
  proof -
    have "h x \<noteq> None \<longleftrightarrow> nodes s x \<noteq> None \<and> x \<noteq> ?n" for x
      using eq [of x] h(3) by (cases "x = ?n"; cases "h x"; cases "nodes s x") auto
    then show ?thesis unfolding dom_def by blast
  qed
  have data: "map (node_data h) (without i ns) = map Some (without i ps)"
  proof -
    have "map (node_data h) (without i ns) = map (node_data (nodes s)) (without i ns)"
      by (rule without_map_cong) (use ds(1) i same(1) alloc in auto)
    also have "\<dots> = map Some (without i ps)" using rel by (simp add: map_without hint_rel_def)
    finally show ?thesis .
  qed
  have vals: "map (map_option (\<lambda>d. (hint_id d, perflock_handle d)) \<circ> (hints s)(?p := None)) (without i ps) =
      map Some (without i xs)"
  proof -
    have "map (map_option (\<lambda>d. (hint_id d, perflock_handle d)) \<circ> (hints s)(?p := None)) (without i ps) =
        map (map_option (\<lambda>d. (hint_id d, perflock_handle d)) \<circ> hints s) (without i ps)"
      by (rule without_map_cong) (use ds(3) i len in auto)
    also have "\<dots> = without i (map Some xs)" unfolding map_without using rel by (simp add: hint_rel_def)
    finally show ?thesis by (simp only: map_without)
  qed
  have "hint_rel ?s (without i ns) (without i ps) (without i xs)"
    unfolding hint_rel_def
    using rel h(2) data vals dom ds i len same(2) alloc hn
    by (auto simp: hint_rel_def set_without distinct_without)
  then have "hint_inv ?s (without i xs)" unfolding hint_inv_def by blast
  moreover have "drop_hint e ?n s = Some ?s" using v h(1) by (simp add: drop_hint_def)
  ultimately show ?thesis using v(4) by simp
qed

lemma undo_hint_rel [hint_ops]:
  assumes inv: "hint_inv s xs" and lib: "qcopt_handle e" "perf_lock_rel e \<noteq> None"
  shows "\<exists>s'. undo_hint_action e hid s = Some s' \<and> hint_inv s' (drop_first (word_of_int hid) xs) \<and>
    calls s' = (case map_of xs (word_of_int hid) of
       None \<Rightarrow> calls s | Some lh \<Rightarrow> calls (call_rel e lh s))"
proof -
  let ?k = "word_of_int hid :: u32"
  from inv obtain ns ps where rel: "hint_rel s ns ps xs" by (auto simp: hint_inv_def)
  have len: "length ns = length xs" using rel unfolding hint_rel_def by (auto dest!: map_eq_imp_length_eq)
  show ?thesis
  proof (cases "\<exists>x\<in>set xs. fst x = ?k")
    case False
    then have "find (\<lambda>i. fst (xs ! i) = ?k) [0..<length ns] = None" by (auto simp: find_None_iff len)
    moreover have "map_of xs ?k = None" using False by (auto simp: map_of_eq_None_iff)
    moreover have "drop_first ?k xs = xs" using False by (intro drop_first_absent) auto
    ultimately show ?thesis using lib inv find_hint [OF rel, of ?k] by (simp add: undo_hint_action_def)
  next
    case True
    then obtain xs1 lh xs2 where xs: "xs = xs1 @ (?k, lh) # xs2" "\<forall>x\<in>set xs1. fst x \<noteq> ?k"
      using split_list_first_prop [of xs "\<lambda>x. fst x = ?k"] by (metis prod.collapse)
    have f: "find (\<lambda>i. fst (xs ! i) = ?k) [0..<length ns] = Some (length xs1)"
      using find_upt_first [OF xs(2)] xs(1) len by simp
    have i: "length xs1 < length ns" using xs(1) len by simp
    from drop_hint_rel [OF rel i, of e] obtain s' where s': "drop_hint e (ns ! length xs1) s = Some s'"
      "hint_inv s' (without (length xs1) xs)" "calls s' = calls (call_rel e (snd (xs ! length xs1)) s)" by blast
    have "map_of xs1 ?k = None" using xs(2) by (auto simp: map_of_eq_None_iff)
    then have "without (length xs1) xs = drop_first ?k xs" "map_of xs ?k = Some lh" "snd (xs ! length xs1) = lh"
      using xs by (auto simp: without_def drop_first_split map_add_def)
    with s' lib f find_hint [OF rel, of ?k] show ?thesis by (auto simp: undo_hint_action_def)
  qed
qed

subsection \<open>The contract the HAL relies on\<close>

text \<open>
  What a client sees of the two actions: a multiset of locks, tagged by hint. A hint that
  is taken adds at most one lock under its identifier, an undone hint removes the newest
  one, and the difference between acquired and released locks is exactly what is held.
\<close>

definition acquired :: "lib_trace \<Rightarrow> u32 multiset" where
  "acquired tr = mset [word_of_int r. (Acq h d vs, r) \<leftarrow> tr, d = 0 \<and> r \<noteq> -1]"

definition released :: "lib_trace \<Rightarrow> u32 multiset" where
  "released tr = mset [x. (Rel x, r) \<leftarrow> tr]"

locale lock_table =
  fixes inv :: "'s \<Rightarrow> (u32 \<times> u32) list \<Rightarrow> bool"
    and trace :: "'s \<Rightarrow> lib_trace"
    and perform :: "int \<Rightarrow> int list \<Rightarrow> 's \<Rightarrow> 's option"
    and undo :: "int \<Rightarrow> 's \<Rightarrow> 's option"
  assumes perform_law:
    "inv s xs \<Longrightarrow> \<exists>s' ys. perform hid vs s = Some s' \<and> inv s' (ys @ xs) \<and>
       (ys = [] \<or> (\<exists>lh. ys = [(word_of_int hid, lh)])) \<and>
       acquired (trace s') + released (trace s) + mset (map snd xs) =
       acquired (trace s) + released (trace s') + mset (map snd (ys @ xs))"
    and undo_law:
    "inv s xs \<Longrightarrow> \<exists>s'. undo hid s = Some s' \<and> inv s' (drop_first (word_of_int hid) xs) \<and>
       acquired (trace s') = acquired (trace s) \<and>
       released (trace s') = released (trace s) +
         (case map_of xs (word_of_int hid) of None \<Rightarrow> {#} | Some lh \<Rightarrow> {#lh#})"
begin

definition balanced :: "'s \<Rightarrow> (u32 \<times> u32) list \<Rightarrow> bool" where
  "balanced s xs \<longleftrightarrow> acquired (trace s) = released (trace s) + mset (map snd xs)"

definition held :: "int \<Rightarrow> (u32 \<times> u32) list \<Rightarrow> nat" where
  "held hid xs = length (filter (\<lambda>x. fst x = word_of_int hid) xs)"

lemma mset_drop_first:
  "mset (map snd xs) = mset (map snd (drop_first k xs)) +
     (case map_of xs k of None \<Rightarrow> {#} | Some v \<Rightarrow> {#v#})"
  by (induction xs) (auto split: option.splits)

lemma held_drop_first:
  "held hid (drop_first (word_of_int hid) xs) = held hid xs - 1"
  "(word_of_int hid :: u32) \<noteq> word_of_int hid' \<Longrightarrow> held hid (drop_first (word_of_int hid') xs) = held hid xs"
  by (induction xs) (auto simp: held_def)

lemma perform_step:
  assumes "inv s xs"
  obtains s' ys where "perform hid vs s = Some s'" "inv s' ys"
    "balanced s xs \<longrightarrow> balanced s' ys"
    "held hid ys \<le> Suc (held hid xs)"
    "\<forall>hid'. (word_of_int hid' :: u32) \<noteq> word_of_int hid \<longrightarrow> held hid' ys = held hid' xs"
proof -
  from perform_law [OF assms, of hid vs] obtain s' ys where r: "perform hid vs s = Some s'" "inv s' (ys @ xs)"
    "ys = [] \<or> (\<exists>lh. ys = [(word_of_int hid, lh)])"
    "acquired (trace s') + released (trace s) + mset (map snd xs) =
       acquired (trace s) + released (trace s') + mset (map snd (ys @ xs))" by blast
  have "balanced s' (ys @ xs)" if "balanced s xs"
  proof -
    from that r(4) have "acquired (trace s') + (released (trace s) + mset (map snd xs)) =
        (released (trace s') + mset (map snd (ys @ xs))) + (released (trace s) + mset (map snd xs))"
      unfolding balanced_def by (simp add: ac_simps)
    then show ?thesis unfolding balanced_def by (rule add_right_imp_eq)
  qed
  moreover have "held hid (ys @ xs) \<le> Suc (held hid xs)" using r(3) by (auto simp: held_def)
  moreover have "held hid' (ys @ xs) = held hid' xs" if "(word_of_int hid' :: u32) \<noteq> word_of_int hid" for hid'
    using r(3) that by (auto simp: held_def)
  ultimately show thesis using r(1,2) that by blast
qed

lemma undo_step:
  assumes "inv s xs"
  obtains s' ys where "undo hid s = Some s'" "inv s' ys" "balanced s xs \<longrightarrow> balanced s' ys"
    "held hid ys = held hid xs - 1"
    "\<forall>hid'. (word_of_int hid' :: u32) \<noteq> word_of_int hid \<longrightarrow> held hid' ys = held hid' xs"
proof -
  let ?ys = "drop_first (word_of_int hid) xs"
  from undo_law [OF assms, of hid] obtain s' where r: "undo hid s = Some s'" "inv s' ?ys"
    "acquired (trace s') = acquired (trace s)"
    "released (trace s') = released (trace s) +
       (case map_of xs (word_of_int hid) of None \<Rightarrow> {#} | Some lh \<Rightarrow> {#lh#})" by blast
  have "balanced s' ?ys" if "balanced s xs"
    using that mset_drop_first [of xs "word_of_int hid"] unfolding balanced_def r(3,4)
    by (simp add: ac_simps)
  moreover have "held hid' ?ys = held hid' xs" if "(word_of_int hid' :: u32) \<noteq> word_of_int hid" for hid'
    using that by (rule held_drop_first)
  ultimately show thesis using r(1,2) held_drop_first(1) that by blast
qed

end

definition lib_ok :: "hint_env \<Rightarrow> bool" where
  "lib_ok e \<longleftrightarrow> qcopt_handle e \<and> perf_lock_rel e \<noteq> None"

lemma trace_append [simp]:
  "acquired (tr @ tr') = acquired tr + acquired tr'" "released (tr @ tr') = released tr + released tr'"
  by (simp_all add: acquired_def released_def)

lemma trace_single [simp]:
  "acquired [(Acq h d vs, r)] = (if d = 0 \<and> r \<noteq> -1 then {#word_of_int r#} else {#})"
  "acquired [(Rel x, r)] = {#}" "released [(Acq h d vs, r)] = {#}" "released [(Rel x, r)] = {#x#}"
  "acquired [] = {#}" "released [] = {#}"
  by (simp_all add: acquired_def released_def)

lemma call_rel_trace:
  "lib_ok e \<Longrightarrow> acquired (calls (call_rel e x s)) = acquired (calls s)"
  "lib_ok e \<Longrightarrow> released (calls (call_rel e x s)) = add_mset x (released (calls s))"
  by (auto simp: call_rel_def lib_ok_def)

interpretation hal_locks: lock_table "\<lambda>s xs. lib_ok e \<and> hint_inv s xs" calls
  "perform_hint_action e" "undo_hint_action e" for e
proof
  fix s xs hid vs
  assume a: "lib_ok e \<and> hint_inv s xs"
  then have inv: "hint_inv s xs" and lib: "lib_ok e" by blast+
  have "\<exists>s' ys. perform_hint_action e hid vs s = Some s' \<and> hint_inv s' (ys @ xs) \<and>
      (ys = [] \<or> (\<exists>lh. ys = [(word_of_int hid, lh)])) \<and>
      acquired (calls s') + released (calls s) + mset (map snd xs) =
      acquired (calls s) + released (calls s') + mset (map snd (ys @ xs))"
  proof (cases "perf_lock_acq e")
    case None
    with perform_hint_rel [OF inv, of e hid vs] inv show ?thesis by (intro exI [of _ s] exI [of _ "[]"]) auto
  next
    case (Some acq)
    let ?lh = "acq (calls s) 0 0 vs"
    from perform_hint_rel [OF inv, of e hid vs] Some lib obtain s' where s': "perform_hint_action e hid vs s = Some s'"
      "if ?lh = -1 then hint_inv s' xs \<and> calls s' = calls s @ [(Acq 0 0 vs, ?lh)]
       else if malloc_ok e (brk s) \<and> malloc_ok e (Suc (brk s))
       then hint_inv s' ((word_of_int hid, word_of_int ?lh) # xs) \<and> calls s' = calls s @ [(Acq 0 0 vs, ?lh)]
       else hint_inv s' xs \<and>
         calls s' = calls (call_rel e (word_of_int ?lh) (s\<lparr>calls := calls s @ [(Acq 0 0 vs, ?lh)]\<rparr>))"
      by (auto simp: Let_def lib_ok_def)
    show ?thesis
    proof (cases "?lh \<noteq> -1 \<and> malloc_ok e (brk s) \<and> malloc_ok e (Suc (brk s))")
      case True
      with s' show ?thesis
        by (intro exI [of _ s'] exI [of _ "[(word_of_int hid, word_of_int ?lh)]"]) auto
    next
      case False
      with s' lib show ?thesis
        by (intro exI [of _ s'] exI [of _ "[]"]) (auto simp: call_rel_trace split: if_splits)
    qed
  qed
  with lib show "\<exists>s' ys. perform_hint_action e hid vs s = Some s' \<and> (lib_ok e \<and> hint_inv s' (ys @ xs)) \<and>
      (ys = [] \<or> (\<exists>lh. ys = [(word_of_int hid, lh)])) \<and>
      acquired (calls s') + released (calls s) + mset (map snd xs) =
      acquired (calls s) + released (calls s') + mset (map snd (ys @ xs))" by blast
next
  fix s xs hid
  assume a: "lib_ok e \<and> hint_inv s xs"
  with undo_hint_rel [of s xs e hid] show "\<exists>s'. undo_hint_action e hid s = Some s' \<and>
      (lib_ok e \<and> hint_inv s' (drop_first (word_of_int hid) xs)) \<and>
      acquired (calls s') = acquired (calls s) \<and>
      released (calls s') = released (calls s) +
        (case map_of xs (word_of_int hid) of None \<Rightarrow> {#} | Some lh \<Rightarrow> {#lh#})"
    by (auto simp: lib_ok_def call_rel_trace split: option.splits)
qed

subsection \<open>Sequences of actions\<close>

datatype hint_op = Perform int "int list" | Undo int | Boost int "int list"

fun run_op :: "hint_env \<Rightarrow> hint_op \<Rightarrow> hint_st \<Rightarrow> hint_st option" where
  "run_op e (Perform hid vs) s = perform_hint_action e hid vs s"
| "run_op e (Undo hid) s = undo_hint_action e hid s"
| "run_op e (Boost d vs) s = Some (interaction True e d vs s)"

fun run_ops :: "hint_env \<Rightarrow> hint_op list \<Rightarrow> hint_st \<Rightarrow> hint_st option" where
  "run_ops e [] s = Some s"
| "run_ops e (p # ps) s = (case run_op e p s of None \<Rightarrow> None | Some s' \<Rightarrow> run_ops e ps s')"

lemma hint_inv_interaction: "hint_inv s xs \<Longrightarrow> hint_inv (interaction b e d vs s) xs"
  unfolding interaction_def hint_inv_def Let_def hint_rel_def by (auto split: option.splits)

lemma interaction_trace:
  "d \<noteq> 0 \<Longrightarrow> acquired (calls (interaction b e d vs s)) = acquired (calls s)"
  "released (calls (interaction b e d vs s)) = released (calls s)"
  by (auto simp: interaction_def Let_def split: option.splits)

lemma run_ops_balanced:
  assumes "lib_ok e" "hint_inv s xs" "hal_locks.balanced s xs" "\<forall>d vs. Boost d vs \<in> set ps \<longrightarrow> d \<noteq> 0"
  shows "\<exists>s' ys. run_ops e ps s = Some s' \<and> hint_inv s' ys \<and> hal_locks.balanced s' ys"
  using assms
proof (induction ps arbitrary: s xs)
  case Nil
  then show ?case by auto
next
  case (Cons p ps)
  have inv: "lib_ok e \<and> hint_inv s xs" using Cons.prems by blast
  have "\<exists>s1 ys. run_op e p s = Some s1 \<and> hint_inv s1 ys \<and> hal_locks.balanced s1 ys"
  proof (cases p)
    case (Perform hid vs)
    from inv obtain s1 ys where "perform_hint_action e hid vs s = Some s1" "lib_ok e \<and> hint_inv s1 ys"
      "hal_locks.balanced s xs \<longrightarrow> hal_locks.balanced s1 ys" by (rule hal_locks.perform_step [where hid = hid and vs = vs]) blast
    with Perform Cons.prems show ?thesis by auto
  next
    case (Undo hid)
    from inv obtain s1 ys where "undo_hint_action e hid s = Some s1" "lib_ok e \<and> hint_inv s1 ys"
      "hal_locks.balanced s xs \<longrightarrow> hal_locks.balanced s1 ys" by (rule hal_locks.undo_step [where hid = hid]) blast
    with Undo Cons.prems show ?thesis by auto
  next
    case (Boost d vs)
    with Cons.prems show ?thesis
      by (auto simp: hal_locks.balanced_def interaction_trace intro: hint_inv_interaction)
  qed
  then obtain s1 ys where "run_op e p s = Some s1" "hint_inv s1 ys" "hal_locks.balanced s1 ys" by blast
  with Cons.IH [of s1 ys] Cons.prems show ?case by auto
qed

text \<open>
  C17. No sequence of hint actions and timed boosts touches a dangling pointer or leaks a
  lock or a heap cell: whatever the perf-lock library answers and whichever allocations
  fail, the locks ever acquired for an indefinite time are exactly those released plus
  those recorded in the hint list, provided the library has a release function.
\<close>

theorem hint_actions_balanced:
  assumes "qcopt_handle e" "perf_lock_rel e \<noteq> None" "\<forall>d vs. Boost d vs \<in> set ps \<longrightarrow> d \<noteq> 0"
  shows "\<exists>s xs. run_ops e ps hint_init = Some s \<and> hint_inv s xs \<and>
    acquired (calls s) = released (calls s) + mset (map snd xs)"
proof -
  have "lib_ok e" using assms by (simp add: lib_ok_def)
  moreover have "hal_locks.balanced hint_init []"
    by (simp add: hal_locks.balanced_def hint_init_def)
  ultimately show ?thesis
    using run_ops_balanced [OF _ hint_inv_init, of e ps] assms(3) by (auto simp: hal_locks.balanced_def)
qed

definition demo_lib :: hint_env where
  "demo_lib = \<lparr>qcopt_handle = True, perf_lock_acq = Some (\<lambda>tr h d vs. int (length tr) + 7),
     perf_lock_rel = Some (\<lambda>tr h. 0), malloc_ok = (\<lambda>n. n \<noteq> 5)\<rparr>"

theorem hint_actions_balanced_witness:
  "\<exists>s xs. run_ops demo_lib [Perform 1 [2], Boost 3000 [1], Perform 2 [3], Undo 1] hint_init = Some s \<and>
     hint_inv s xs \<and> acquired (calls s) = released (calls s) + mset (map snd xs)"
  by (rule hint_actions_balanced) (auto simp: demo_lib_def)

text \<open>
  Undoing a hint right after it was taken releases exactly the lock that was acquired
  for it, also when older locks are held under the same hint, and restores the list.
\<close>

theorem perform_undo_roundtrip:
  assumes "hint_inv s xs" "qcopt_handle e" "perf_lock_acq e = Some acq" "perf_lock_rel e = Some rel"
    and "acq (calls s) 0 0 vs = lh" "lh \<noteq> -1" "malloc_ok e (brk s)" "malloc_ok e (Suc (brk s))"
  shows "\<exists>s1 s2 r. perform_hint_action e hid vs s = Some s1 \<and>
    hint_inv s1 ((word_of_int hid, word_of_int lh) # xs) \<and>
    undo_hint_action e hid s1 = Some s2 \<and> hint_inv s2 xs \<and>
    calls s2 = calls s @ [(Acq 0 0 vs, lh), (Rel (word_of_int lh), r)]"
proof -
  from perform_hint_rel [OF assms(1), of e hid vs] assms obtain s1 where s1:
    "perform_hint_action e hid vs s = Some s1" "hint_inv s1 ((word_of_int hid, word_of_int lh) # xs)"
    "calls s1 = calls s @ [(Acq 0 0 vs, lh)]" by auto
  from undo_hint_rel [OF s1(2), of e hid] assms(2,4) s1(3) obtain s2 where
    "undo_hint_action e hid s1 = Some s2" "hint_inv s2 xs"
    "calls s2 = calls s @ [(Acq 0 0 vs, lh), (Rel (word_of_int lh), rel (calls s1) (word_of_int lh))]"
    by (auto simp: call_rel_def)
  with s1 show ?thesis by blast
qed

theorem perform_undo_roundtrip_witness:
  "\<exists>s1 s2 r. perform_hint_action demo_lib 3072 [255] hint_init = Some s1 \<and>
     hint_inv s1 [(3072, 7)] \<and> undo_hint_action demo_lib 3072 s1 = Some s2 \<and> hint_inv s2 [] \<and>
     calls s2 = [(Acq 0 0 [255], 7), (Rel 7, r)]"
  using perform_undo_roundtrip [OF hint_inv_init, where e = demo_lib and vs = "[255]" and lh = 7 and hid = 3072]
  by (simp add: demo_lib_def hint_init_def)

end
