(* ===== verification/Power_Meta.thy ===== *)
theory Power_Meta
  imports C_Prelude
begin

text \<open>
  \<^verbatim>\<open>src/common/power/metadata-parser.c\<close>: the attribute strings \<open>k=v;k=v\<close> that come with the
  video hints. \<^verbatim>\<open>long\<close> has 32 bits. The save pointer of \<^verbatim>\<open>strtok_r\<close> is the rest of the string.
\<close>

named_theorems meta_parse \<open>facts about the metadata parser\<close>

definition METADATA_PARSING_ERR :: int where "METADATA_PARSING_ERR = -1"
definition METADATA_PARSING_CONTINUE :: int where "METADATA_PARSING_CONTINUE = 0"
definition METADATA_PARSING_DONE :: int where "METADATA_PARSING_DONE = 1"

lemmas meta_status = METADATA_PARSING_ERR_def METADATA_PARSING_CONTINUE_def METADATA_PARSING_DONE_def

record video_metadata_t =
  vm_hint_id :: int
  vm_state :: int

text \<open>Status, new save pointer, and the two buffers when they were written.\<close>

definition parse_metadata :: "string \<Rightarrow> nat \<Rightarrow> nat \<Rightarrow> int \<times> string \<times> string \<times> string" where
  "parse_metadata metadata attribute_size value_size =
     (case strtok_r '';'' metadata of
        (None, saveptr) \<Rightarrow> (METADATA_PARSING_DONE, saveptr, [], [])
      | (Some attribute_string, saveptr) \<Rightarrow>
          (case strchr attribute_string (CHR ''='') of
             None \<Rightarrow> (METADATA_PARSING_CONTINUE, saveptr, [], [])
           | Some k \<Rightarrow>
               (let attribute = take (min k (attribute_size - 1)) attribute_string;
                    n = min (length attribute_string - length attribute - 1) (value_size - 1);
                    vl = take n (drop (k + 1) attribute_string)
                in (METADATA_PARSING_CONTINUE, saveptr, attribute, vl))))"

lemma parse_metadata_shorter:
  "parse_metadata s m n = (METADATA_PARSING_CONTINUE, r, a, v) \<Longrightarrow> length r < length s"
  by (auto simp: parse_metadata_def meta_status Let_def dest: strtok_r_shorter split: prod.splits option.splits)

definition take_attr :: "string \<Rightarrow> string \<Rightarrow> video_metadata_t \<Rightarrow> video_metadata_t" where
  "take_attr attribute vl m =
     (let m1 = (if attribute = ''hint_id'' \<and> length vl > 0 then m\<lparr>vm_hint_id := atoi 32 vl\<rparr> else m)
      in if attribute = ''state'' \<and> length vl > 0 then m1\<lparr>vm_state := atoi 32 vl\<rparr> else m1)"

function parse_video_encode_metadata :: "string \<Rightarrow> video_metadata_t \<Rightarrow> int \<times> video_metadata_t" where
  "parse_video_encode_metadata temp_metadata m =
     (case parse_metadata temp_metadata 1024 1024 of
        (parsing_status, saveptr, attribute, vl) \<Rightarrow>
          if parsing_status = METADATA_PARSING_CONTINUE
          then parse_video_encode_metadata saveptr (take_attr attribute vl m)
          else if parsing_status = METADATA_PARSING_ERR then (-1, m)
          else (0, m))"
  by pat_completeness auto
termination
  by (relation "measure (\<lambda>(s, m). length s)") (auto dest!: parse_metadata_shorter [OF sym])

function parse_video_decode_metadata :: "string \<Rightarrow> video_metadata_t \<Rightarrow> int \<times> video_metadata_t" where
  "parse_video_decode_metadata temp_metadata m =
     (case parse_metadata temp_metadata 1024 1024 of
        (parsing_status, saveptr, attribute, vl) \<Rightarrow>
          if parsing_status = METADATA_PARSING_CONTINUE
          then parse_video_decode_metadata saveptr (take_attr attribute vl m)
          else if parsing_status = METADATA_PARSING_ERR then (-1, m)
          else (0, m))"
  by pat_completeness auto
termination
  by (relation "measure (\<lambda>(s, m). length s)") (auto dest!: parse_metadata_shorter [OF sym])

declare parse_video_encode_metadata.simps [simp del] parse_video_decode_metadata.simps [simp del]

subsection \<open>Well-formed metadata\<close>

definition attr_ok :: "string \<times> string \<Rightarrow> bool" where
  "attr_ok kv \<longleftrightarrow> (case kv of (k, v) \<Rightarrow>
     CHR '';'' \<notin> set k \<and> CHR ''='' \<notin> set k \<and> CHR '';'' \<notin> set v \<and> length k < 1024 \<and> length v < 1024)"

fun print_meta :: "(string \<times> string) list \<Rightarrow> string" where
  "print_meta [] = []"
| "print_meta ((k, v) # kvs) = k @ ''='' @ v @ '';'' @ print_meta kvs"

lemma strchr_append: "x \<notin> set s \<Longrightarrow> strchr (s @ x # t) x = Some (length s)"
  by (induction s) auto

lemma parse_metadata_print [meta_parse]:
  assumes "attr_ok (k, v)"
  shows "parse_metadata (k @ ''='' @ v @ '';'' @ s) 1024 1024 = (METADATA_PARSING_CONTINUE, s, k, v)"
proof -
  have "strtok_r '';'' ((k @ CHR ''='' # v) @ CHR '';'' # s) = (Some (k @ CHR ''='' # v), s)"
    by (rule strtok_r_token) (use assms in \<open>auto simp: attr_ok_def\<close>)
  moreover have "strchr (k @ CHR ''='' # v) (CHR ''='') = Some (length k)"
    by (rule strchr_append) (use assms in \<open>simp add: attr_ok_def\<close>)
  ultimately show ?thesis
    using assms by (simp add: parse_metadata_def attr_ok_def)
qed

lemma parse_print_encode:
  assumes "\<forall>kv\<in>set kvs. attr_ok kv"
  shows "parse_video_encode_metadata (print_meta kvs) m = (0, fold (\<lambda>(k, v). take_attr k v) kvs m)"
  using assms
proof (induction kvs arbitrary: m)
  case Nil
  show ?case
    by (subst parse_video_encode_metadata.simps)
      (simp add: parse_metadata_def strtok_r_Nil meta_status)
next
  case (Cons kv kvs)
  obtain k v where "kv = (k, v)" by (cases kv)
  with Cons show ?case
    by (subst parse_video_encode_metadata.simps) (simp add: parse_metadata_print [simplified] meta_parse)
qed

text \<open>The decode parser is the same function.\<close>

lemma parse_decode_encode: "parse_video_decode_metadata s m = parse_video_encode_metadata s m"
proof (induction s m rule: parse_video_encode_metadata.induct)
  case (1 s m)
  then show ?case
    by (subst parse_video_decode_metadata.simps, subst parse_video_encode_metadata.simps)
      (auto split: prod.splits)
qed

lemma attr_ok_int:
  assumes "- (2 ^ 31) \<le> v" "v < 2 ^ 31"
  shows "attr_ok (''hint_id'', fmt_d v)" "attr_ok (''state'', fmt_d v)"
proof -
  have "CHR '';'' \<notin> set (fmt_d v)"
    using fmt_d_chars [of "CHR '';''" v] by (auto simp: is_digit_def digit_val_def)
  with length_fmt_d [OF assms] show "attr_ok (''hint_id'', fmt_d v)" "attr_ok (''state'', fmt_d v)"
    by (simp_all add: attr_ok_def)
qed

lemma fold_other_attrs:
  "\<forall>kv\<in>set kvs. fst kv \<notin> {''hint_id'', ''state''} \<Longrightarrow> fold (\<lambda>(k, v). take_attr k v) kvs m = m"
  by (induction kvs arbitrary: m) (auto simp: take_attr_def)

text \<open>
  Metadata of any number of \<open>key=value;\<close> attributes is understood completely: whatever
  other attributes surround them, the last non-empty \<open>hint_id\<close> and \<open>state\<close> values decide,
  a decimal number that fits an \<^verbatim>\<open>int\<close> is read back exactly, a missing attribute leaves
  its default, and the parser reports success. Encode and decode hints agree.
\<close>

theorem parse_video_metadata_print:
  assumes "\<forall>kv\<in>set (pre @ mid @ post). attr_ok kv \<and> fst kv \<notin> {''hint_id'', ''state''}"
    and "- (2 ^ 31) \<le> h" "h < 2 ^ 31" "- (2 ^ 31) \<le> st" "st < 2 ^ 31"
  shows "parse_video_encode_metadata
      (print_meta (pre @ (''hint_id'', fmt_d h) # mid @ (''state'', fmt_d st) # post)) m =
      (0, \<lparr>vm_hint_id = h, vm_state = st\<rparr>) \<and>
    parse_video_decode_metadata
      (print_meta (pre @ (''hint_id'', fmt_d h) # mid @ (''state'', fmt_d st) # post)) m =
      (0, \<lparr>vm_hint_id = h, vm_state = st\<rparr>) \<and>
    parse_video_decode_metadata (print_meta pre) m = (0, m)"
proof -
  let ?kvs = "pre @ (''hint_id'', fmt_d h) # mid @ (''state'', fmt_d st) # post"
  have ok: "\<forall>kv\<in>set ?kvs. attr_ok kv" using assms attr_ok_int by auto
  have "atoi 32 (fmt_d h) = h" "atoi 32 (fmt_d st) = st"
    using assms atoi_fmt_d [of _ 32 "[]"] by auto
  then have "fold (\<lambda>(k, v). take_attr k v) ?kvs m = \<lparr>vm_hint_id = h, vm_state = st\<rparr>"
    using assms(1) by (simp add: fold_other_attrs) (simp add: take_attr_def)
  moreover have "fold (\<lambda>(k, v). take_attr k v) pre m = m"
    using assms(1) by (intro fold_other_attrs) auto
  ultimately show ?thesis
    using parse_print_encode [OF ok] parse_print_encode [of pre m] assms(1)
    by (simp add: parse_decode_encode)
qed

theorem parse_video_metadata_print_witness:
  "parse_video_encode_metadata
     (print_meta ([(''codec'', ''avc'')] @ (''hint_id'', fmt_d 2560) # [] @ (''state'', fmt_d 1) # []))
     \<lparr>vm_hint_id = 7, vm_state = -1\<rparr> = (0, \<lparr>vm_hint_id = 2560, vm_state = 1\<rparr>)"
  using parse_video_metadata_print [of "[(''codec'', ''avc'')]" "[]" "[]" 2560 1]
  by (simp add: attr_ok_def)

end
