(* ===== verification/Power_Hal.thy ===== *)
theory Power_Hal
  imports Power_Hints Power_Meta
begin

text \<open>
  The power HAL: the sysfs helpers of \<^verbatim>\<open>src/common/power/utils.c\<close>, \<^verbatim>\<open>power.c\<close> and the
  board files \<^verbatim>\<open>power-8909.c\<close>, \<^verbatim>\<open>power-8916.c\<close>, \<^verbatim>\<open>power-8952.c\<close>, \<^verbatim>\<open>power-8974.c\<close>,
  \<^verbatim>\<open>power-8084.c\<close>, \<^verbatim>\<open>power-8226.c\<close>, \<^verbatim>\<open>power-8610.c\<close>, of which the build links at most one.
  Sysfs is outside: what a node reads and whether it accepts a write is an argument of each
  entry point. Log messages are left out.
\<close>

subsection \<open>Constants of performance.h and power-common.h\<close>

definition DISPLAY_OFF :: int where "DISPLAY_OFF = 0x00FF"
definition CPUS_ONLINE_MIN_2 :: int where "CPUS_ONLINE_MIN_2 = 0x702"
definition MS_500 :: int where "MS_500 = 0xBCD"
definition IO_BUSY_OFF :: int where "IO_BUSY_OFF = 0xC00"
definition SAMPLING_DOWN_FACTOR_1 :: int where "SAMPLING_DOWN_FACTOR_1 = 0xD01"
definition TR_MS_50 :: int where "TR_MS_50 = 0xEFA"
definition TR_MS_30 :: int where "TR_MS_30 = 0xEFC"
definition TR_MS_CPU0_50 :: int where "TR_MS_CPU0_50 = 0x30FA"
definition TR_MS_CPU4_50 :: int where "TR_MS_CPU4_50 = 0x3BFA"
definition HS_FREQ_1026 :: int where "HS_FREQ_1026 = 0xF0A"
definition HS_FREQ_800 :: int where "HS_FREQ_800 = 0xF08"
definition HISPEED_LOAD_90 :: int where "HISPEED_LOAD_90 = 0x105A"
definition SYNC_FREQ_600 :: int where "SYNC_FREQ_600 = 0x1106"
definition OPTIMAL_FREQ_600 :: int where "OPTIMAL_FREQ_600 = 0x1206"
definition THREAD_MIGRATION_SYNC_OFF :: int where "THREAD_MIGRATION_SYNC_OFF = 0x1400"
definition INTERACTIVE_IO_BUSY_OFF :: int where "INTERACTIVE_IO_BUSY_OFF = 0x1B00"

definition NODE_MAX :: nat where "NODE_MAX = 64"
definition HINT_HANDLED :: int where "HINT_HANDLED = 0"
definition HINT_NONE :: int where "HINT_NONE = -1"

definition ONDEMAND_GOVERNOR :: string where "ONDEMAND_GOVERNOR = ''ondemand''"
definition INTERACTIVE_GOVERNOR :: string where "INTERACTIVE_GOVERNOR = ''interactive''"
definition MSMDCVS_GOVERNOR :: string where "MSMDCVS_GOVERNOR = ''msm-dcvs''"

definition SCALING_GOVERNOR_PATH :: string where
  "SCALING_GOVERNOR_PATH = ''/sys/devices/system/cpu/cpu0/cpufreq/scaling_governor''"
definition DCVS_CPU0_SLACK_MAX_NODE :: string where
  "DCVS_CPU0_SLACK_MAX_NODE = ''/sys/module/msm_dcvs/cores/cpu0/slack_time_max_us''"
definition DCVS_CPU0_SLACK_MIN_NODE :: string where
  "DCVS_CPU0_SLACK_MIN_NODE = ''/sys/module/msm_dcvs/cores/cpu0/slack_time_min_us''"
definition MPDECISION_SLACK_MAX_NODE :: string where
  "MPDECISION_SLACK_MAX_NODE = ''/sys/module/msm_mpdecision/slack_time_max_us''"
definition MPDECISION_SLACK_MIN_NODE :: string where
  "MPDECISION_SLACK_MIN_NODE = ''/sys/module/msm_mpdecision/slack_time_min_us''"
definition SOC_ID_PATH :: string where "SOC_ID_PATH = ''/sys/devices/soc0/soc_id''"

definition scaling_gov_path :: "string list" where
  "scaling_gov_path =
     [''sys/devices/system/cpu/cpu0/cpufreq/scaling_governor'',
      ''sys/devices/system/cpu/cpu1/cpufreq/scaling_governor'',
      ''sys/devices/system/cpu/cpu2/cpufreq/scaling_governor'',
      ''sys/devices/system/cpu/cpu3/cpufreq/scaling_governor'']"

definition scaling_min_freq :: "string list" where
  "scaling_min_freq =
     [''sys/devices/system/cpu/cpu0/cpufreq/scaling_min_freq'',
      ''sys/devices/system/cpu/cpu1/cpufreq/scaling_min_freq'',
      ''sys/devices/system/cpu/cpu2/cpufreq/scaling_min_freq'',
      ''sys/devices/system/cpu/cpu3/cpufreq/scaling_min_freq'']"

definition MIN_FREQ_CPU0_DISP_OFF :: int where "MIN_FREQ_CPU0_DISP_OFF = 400000"
definition MIN_FREQ_CPU0_DISP_ON :: int where "MIN_FREQ_CPU0_DISP_ON = 960000"

subsection \<open>State\<close>

record sysfs =
  fs_read :: "string \<Rightarrow> string option"
  fs_write :: "string \<Rightarrow> bool"

text \<open>
  The static variables of \<^verbatim>\<open>power.c\<close>; those of the linked board file carry the prefix \<open>b_\<close>.
  \<open>slack_node_rw_failed\<close> is \<open>None\<close> when it was set from the uninitialised \<^verbatim>\<open>rc\<close>.
\<close>

record hal_st =
  hs :: hint_st
  saved_dcvs_cpu0_slack_max :: int
  saved_dcvs_cpu0_slack_min :: int
  saved_mpdecision_slack_max :: int
  saved_mpdecision_slack_min :: int
  saved_interactive_mode :: int
  slack_node_rw_failed :: "int option"
  display_hint_sent :: bool
  display_boost :: bool
  b_saved_interactive_mode :: int
  b_display_hint_sent :: bool
  b_display_hint2_sent :: bool
  b_first_display_off_hint :: bool
  fs_writes :: "(string \<times> string) list"

definition hal_init :: hal_st where
  "hal_init = \<lparr>hs = hint_init, saved_dcvs_cpu0_slack_max = -1, saved_dcvs_cpu0_slack_min = -1,
     saved_mpdecision_slack_max = -1, saved_mpdecision_slack_min = -1, saved_interactive_mode = -1,
     slack_node_rw_failed = Some 0, display_hint_sent = False, display_boost = False,
     b_saved_interactive_mode = -1, b_display_hint_sent = False, b_display_hint2_sent = False,
     b_first_display_off_hint = False, fs_writes = []\<rparr>"

subsection \<open>Sysfs helpers of utils.c\<close>

definition sysfs_read :: "sysfs \<Rightarrow> string \<Rightarrow> nat \<Rightarrow> int \<times> string" where
  "sysfs_read fs path num_bytes =
     (case fs_read fs path of None \<Rightarrow> (-1, []) | Some c \<Rightarrow> (0, take (num_bytes - 1) c))"

definition sysfs_write :: "sysfs \<Rightarrow> string \<Rightarrow> string \<Rightarrow> hal_st \<Rightarrow> int \<times> hal_st" where
  "sysfs_write fs path str s =
     (if fs_write fs path then (0, s\<lparr>fs_writes := fs_writes s @ [(path, str)]\<rparr>) else (-1, s))"

definition strip_newline :: "string \<Rightarrow> string" where
  "strip_newline s = rev (dropWhile (\<lambda>c. c = CHR 0x0A \<or> c = CHR 0x0D) (rev s))"

definition get_scaling_governor :: "sysfs \<Rightarrow> nat \<Rightarrow> int \<times> string" where
  "get_scaling_governor fs sz =
     (case sysfs_read fs SCALING_GOVERNOR_PATH sz of
        (r, g) \<Rightarrow> if r = -1 then (-1, g) else (0, strip_newline g))"

definition get_scaling_governor_check_cores :: "sysfs \<Rightarrow> nat \<Rightarrow> nat \<Rightarrow> int \<times> string" where
  "get_scaling_governor_check_cores fs sz core_num =
     (case sysfs_read fs (scaling_gov_path ! core_num) sz of
        (r, g) \<Rightarrow> if r = -1 then (-1, g) else (0, strip_newline g))"

text \<open>The four nested calls for \<^verbatim>\<open>CPU0\<close> to \<^verbatim>\<open>CPU3\<close> in the board files.\<close>

definition governor_of_cores :: "sysfs \<Rightarrow> string option" where
  "governor_of_cores fs =
     (case get_scaling_governor_check_cores fs 80 0 of (r0, g0) \<Rightarrow>
      if r0 \<noteq> -1 then Some g0 else
      case get_scaling_governor_check_cores fs 80 1 of (r1, g1) \<Rightarrow>
      if r1 \<noteq> -1 then Some g1 else
      case get_scaling_governor_check_cores fs 80 2 of (r2, g2) \<Rightarrow>
      if r2 \<noteq> -1 then Some g2 else
      case get_scaling_governor_check_cores fs 80 3 of (r3, g3) \<Rightarrow>
      if r3 \<noteq> -1 then Some g3 else None)"

subsection \<open>Video hints and power_init of power.c\<close>

definition soc_id_of :: "sysfs \<Rightarrow> int option" where
  "soc_id_of fs = map_option (\<lambda>c. atoi 32 (take 9 c)) (fs_read fs SOC_ID_PATH)"

definition power_init :: "sysfs \<Rightarrow> hal_st \<Rightarrow> hal_st" where
  "power_init fs s =
     (case soc_id_of fs of
        None \<Rightarrow> s
      | Some soc_id \<Rightarrow>
          if soc_id = 194 \<or> (soc_id \<ge> 208 \<and> soc_id \<le> 218) \<or> soc_id = 178
          then s\<lparr>display_boost := True\<rparr> else s)"

definition perform_hint :: "hint_env \<Rightarrow> int \<Rightarrow> int list \<Rightarrow> hal_st \<Rightarrow> hal_st option" where
  "perform_hint e hid vs s = map_option (\<lambda>h. s\<lparr>hs := h\<rparr>) (perform_hint_action e hid vs (hs s))"

definition undo_hint :: "hint_env \<Rightarrow> int \<Rightarrow> hal_st \<Rightarrow> hal_st option" where
  "undo_hint e hid s = map_option (\<lambda>h. s\<lparr>hs := h\<rparr>) (undo_hint_action e hid (hs s))"

definition process_video_decode_hint :: "hint_env \<Rightarrow> sysfs \<Rightarrow> string option \<Rightarrow> hal_st \<Rightarrow> hal_st option" where
  "process_video_decode_hint e fs metadata s =
     (case get_scaling_governor fs 80 of (r, governor) \<Rightarrow>
      if r = -1 then Some s
      else case metadata of
        None \<Rightarrow> Some s
      | Some m \<Rightarrow>
          (case parse_video_decode_metadata m \<lparr>vm_hint_id = DEFAULT_VIDEO_DECODE_HINT_ID, vm_state = -1\<rparr> of
             (rc, md) \<Rightarrow>
               if rc = -1 then Some s
               else if vm_state md = 1 then
                 (if governor = ONDEMAND_GOVERNOR
                  then perform_hint e (vm_hint_id md) [THREAD_MIGRATION_SYNC_OFF] s
                  else if governor = INTERACTIVE_GOVERNOR
                  then perform_hint e (vm_hint_id md)
                         [TR_MS_30, HISPEED_LOAD_90, HS_FREQ_1026, THREAD_MIGRATION_SYNC_OFF] s
                  else Some s)
               else if vm_state md = 0 then
                 (if governor = ONDEMAND_GOVERNOR then Some s
                  else if governor = INTERACTIVE_GOVERNOR then undo_hint e (vm_hint_id md) s
                  else Some s)
               else Some s))"

definition process_video_encode_hint :: "hint_env \<Rightarrow> sysfs \<Rightarrow> string option \<Rightarrow> hal_st \<Rightarrow> hal_st option" where
  "process_video_encode_hint e fs metadata s =
     (case get_scaling_governor fs 80 of (r, governor) \<Rightarrow>
      if r = -1 then Some s
      else case metadata of
        None \<Rightarrow> Some s
      | Some m \<Rightarrow>
          (case parse_video_encode_metadata m \<lparr>vm_hint_id = DEFAULT_VIDEO_ENCODE_HINT_ID, vm_state = -1\<rparr> of
             (rc, md) \<Rightarrow>
               if rc = -1 then Some s
               else if vm_state md = 1 then
                 (if governor = ONDEMAND_GOVERNOR
                  then perform_hint e (vm_hint_id md)
                         [IO_BUSY_OFF, SAMPLING_DOWN_FACTOR_1, THREAD_MIGRATION_SYNC_OFF] s
                  else if governor = INTERACTIVE_GOVERNOR
                  then perform_hint e (vm_hint_id md)
                         [TR_MS_30, HISPEED_LOAD_90, HS_FREQ_1026, THREAD_MIGRATION_SYNC_OFF,
                          INTERACTIVE_IO_BUSY_OFF] s
                  else Some s)
               else if vm_state md = 0 then
                 (if governor = ONDEMAND_GOVERNOR then undo_hint e (vm_hint_id md) s
                  else if governor = INTERACTIVE_GOVERNOR then undo_hint e (vm_hint_id md) s
                  else Some s)
               else Some s))"

subsection \<open>set_interactive of power.c\<close>

text \<open>The slack nodes of the \<^verbatim>\<open>msm-dcvs\<close> governor; the second component is the local \<^verbatim>\<open>rc\<close>.\<close>

definition save_slack ::
    "sysfs \<Rightarrow> string \<Rightarrow> (int \<Rightarrow> hal_st \<Rightarrow> hal_st) \<Rightarrow> hal_st \<times> int option \<Rightarrow> hal_st \<times> int option" where
  "save_slack fs path store st =
     (case sysfs_read fs path (NODE_MAX - 1) of
        (r, tmp_str) \<Rightarrow> if r \<noteq> 0 then (fst st, Some 1) else (store (atoi 32 tmp_str) (fst st), snd st))"

definition write_slack ::
    "sysfs \<Rightarrow> string \<Rightarrow> int \<Rightarrow> int \<Rightarrow> hal_st \<times> int option \<Rightarrow> hal_st \<times> int option" where
  "write_slack fs path saved v st =
     (if saved \<noteq> -1
      then (case sysfs_write fs path (fmt_d v) (fst st) of
              (r, s') \<Rightarrow> (s', if r \<noteq> 0 then Some 1 else snd st))
      else st)"

definition slack_display_off :: "sysfs \<Rightarrow> hal_st \<times> int option \<Rightarrow> hal_st \<times> int option" where
  "slack_display_off fs st0 =
     (let st1 = save_slack fs DCVS_CPU0_SLACK_MAX_NODE (\<lambda>v s. s\<lparr>saved_dcvs_cpu0_slack_max := v\<rparr>) st0;
          st2 = save_slack fs DCVS_CPU0_SLACK_MIN_NODE (\<lambda>v s. s\<lparr>saved_dcvs_cpu0_slack_min := v\<rparr>) st1;
          st3 = save_slack fs MPDECISION_SLACK_MAX_NODE (\<lambda>v s. s\<lparr>saved_mpdecision_slack_max := v\<rparr>) st2;
          st4 = save_slack fs MPDECISION_SLACK_MIN_NODE (\<lambda>v s. s\<lparr>saved_mpdecision_slack_min := v\<rparr>) st3;
          w = fst st4;
          st5 = write_slack fs DCVS_CPU0_SLACK_MAX_NODE (saved_dcvs_cpu0_slack_max w)
                  (to_int32 (10 * saved_dcvs_cpu0_slack_max w)) st4;
          st6 = write_slack fs DCVS_CPU0_SLACK_MIN_NODE (saved_dcvs_cpu0_slack_min w)
                  (to_int32 (10 * saved_dcvs_cpu0_slack_min w)) st5;
          st7 = write_slack fs MPDECISION_SLACK_MAX_NODE (saved_mpdecision_slack_max w)
                  (to_int32 (10 * saved_mpdecision_slack_max w)) st6
      in write_slack fs MPDECISION_SLACK_MIN_NODE (saved_mpdecision_slack_min w)
           (to_int32 (10 * saved_mpdecision_slack_min w)) st7)"

definition slack_display_on :: "sysfs \<Rightarrow> hal_st \<times> int option \<Rightarrow> hal_st \<times> int option" where
  "slack_display_on fs st0 =
     (let w = fst st0;
          st1 = write_slack fs DCVS_CPU0_SLACK_MAX_NODE (saved_dcvs_cpu0_slack_max w)
                  (saved_dcvs_cpu0_slack_max w) st0;
          st2 = write_slack fs DCVS_CPU0_SLACK_MIN_NODE (saved_dcvs_cpu0_slack_min w)
                  (saved_dcvs_cpu0_slack_min w) st1;
          st3 = write_slack fs MPDECISION_SLACK_MAX_NODE (saved_mpdecision_slack_max w)
                  (saved_mpdecision_slack_max w) st2
      in write_slack fs MPDECISION_SLACK_MIN_NODE (saved_mpdecision_slack_min w)
           (saved_mpdecision_slack_min w) st3)"

definition set_interactive_off :: "hint_env \<Rightarrow> sysfs \<Rightarrow> string \<Rightarrow> hal_st \<Rightarrow> hal_st option" where
  "set_interactive_off e fs governor s =
     (if governor = ONDEMAND_GOVERNOR then
        (if \<not> display_hint_sent s
         then map_option (\<lambda>s'. s'\<lparr>display_hint_sent := True\<rparr>)
                (perform_hint e DISPLAY_STATE_HINT_ID [DISPLAY_OFF, MS_500, THREAD_MIGRATION_SYNC_OFF] s)
         else Some s)
      else if governor = INTERACTIVE_GOVERNOR then
        (if \<not> display_hint_sent s
         then map_option (\<lambda>s'. s'\<lparr>display_hint_sent := True\<rparr>)
                (perform_hint e DISPLAY_STATE_HINT_ID [TR_MS_50, THREAD_MIGRATION_SYNC_OFF] s)
         else Some s)
      else if governor = MSMDCVS_GOVERNOR then
        (case (if saved_interactive_mode s = 1 then slack_display_off fs (s, None) else (s, None)) of
           (s', rc) \<Rightarrow> Some (s'\<lparr>slack_node_rw_failed := rc\<rparr>))
      else Some s)"

definition set_interactive_on :: "hint_env \<Rightarrow> sysfs \<Rightarrow> string \<Rightarrow> hal_st \<Rightarrow> hal_st option" where
  "set_interactive_on e fs governor s =
     (if governor = ONDEMAND_GOVERNOR then
        map_option (\<lambda>s'. s'\<lparr>display_hint_sent := False\<rparr>) (undo_hint e DISPLAY_STATE_HINT_ID s)
      else if governor = INTERACTIVE_GOVERNOR then
        map_option (\<lambda>s'. s'\<lparr>display_hint_sent := False\<rparr>) (undo_hint e DISPLAY_STATE_HINT_ID s)
      else if governor = MSMDCVS_GOVERNOR then
        (case (if saved_interactive_mode s = -1 \<or> saved_interactive_mode s = 0
               then slack_display_on fs (s, None) else (s, None)) of
           (s', rc) \<Rightarrow> Some (s'\<lparr>slack_node_rw_failed := rc\<rparr>))
      else Some s)"

subsection \<open>Board files\<close>

datatype board = Generic | Msm8974 | Msm8226 | Msm8610 | Apq8084 | Msm8909 | Msm8916 | Msm8952

datatype power_hint_t =
  POWER_HINT_VSYNC | POWER_HINT_INTERACTION | POWER_HINT_VIDEO_ENCODE | POWER_HINT_VIDEO_DECODE
| POWER_HINT_OTHER

definition interact :: "bool \<Rightarrow> hint_env \<Rightarrow> int list \<Rightarrow> hal_st \<Rightarrow> hal_st" where
  "interact boost e resources s = s\<lparr>hs := interaction boost e 3000 resources (hs s)\<rparr>"

definition process_video_encode_hint_8909 :: "hint_env \<Rightarrow> sysfs \<Rightarrow> string option \<Rightarrow> hal_st \<Rightarrow> hal_st option" where
  "process_video_encode_hint_8909 e fs metadata s =
     (case get_scaling_governor fs 80 of (r, governor) \<Rightarrow>
      if r = -1 then Some s
      else case metadata of
        None \<Rightarrow> Some s
      | Some m \<Rightarrow>
          (case parse_video_encode_metadata m \<lparr>vm_hint_id = DEFAULT_VIDEO_ENCODE_HINT_ID, vm_state = -1\<rparr> of
             (rc, md) \<Rightarrow>
               if rc = -1 then Some s
               else if vm_state md = 1 then
                 (if governor = INTERACTIVE_GOVERNOR
                  then perform_hint e (vm_hint_id md) [HS_FREQ_800, THREAD_MIGRATION_SYNC_OFF] s
                  else Some s)
               else if vm_state md = 0 then
                 (if governor = INTERACTIVE_GOVERNOR then undo_hint e (vm_hint_id md) s else Some s)
               else Some s))"

definition power_hint_override_8909 ::
    "hint_env \<Rightarrow> sysfs \<Rightarrow> power_hint_t \<Rightarrow> string option \<Rightarrow> hal_st \<Rightarrow> (int \<times> hal_st) option" where
  "power_hint_override_8909 e fs hint data s =
     (case hint of
        POWER_HINT_VIDEO_ENCODE \<Rightarrow>
          map_option (\<lambda>s'. (HINT_HANDLED, s')) (process_video_encode_hint_8909 e fs data s)
      | _ \<Rightarrow> Some (HINT_NONE, s))"

definition power_hint_override_8226 :: "bool \<Rightarrow> hint_env \<Rightarrow> power_hint_t \<Rightarrow> hal_st \<Rightarrow> int \<times> hal_st" where
  "power_hint_override_8226 boost e hint s =
     (case hint of
        POWER_HINT_INTERACTION \<Rightarrow> (HINT_HANDLED, interact boost e [0x702, 0x20B, 0x30B] s)
      | _ \<Rightarrow> (HINT_NONE, s))"

definition power_hint_override_8610 :: "bool \<Rightarrow> hint_env \<Rightarrow> power_hint_t \<Rightarrow> hal_st \<Rightarrow> int \<times> hal_st" where
  "power_hint_override_8610 boost e hint s =
     (case hint of
        POWER_HINT_INTERACTION \<Rightarrow> (HINT_HANDLED, interact boost e [0x702, 0x20B, 0x30B] s)
      | _ \<Rightarrow> (HINT_NONE, s))"

definition power_hint_override_8916 :: "bool \<Rightarrow> hint_env \<Rightarrow> power_hint_t \<Rightarrow> hal_st \<Rightarrow> int \<times> hal_st" where
  "power_hint_override_8916 boost e hint s =
     (case hint of
        POWER_HINT_VSYNC \<Rightarrow> (HINT_NONE, s)
      | POWER_HINT_INTERACTION \<Rightarrow> (HINT_HANDLED, interact boost e [0x702, 0x20F, 0x30F] s)
      | POWER_HINT_VIDEO_ENCODE \<Rightarrow> (HINT_HANDLED, s)
      | POWER_HINT_VIDEO_DECODE \<Rightarrow> (HINT_HANDLED, s)
      | POWER_HINT_OTHER \<Rightarrow> (HINT_HANDLED, s))"

definition power_hint_override_8952 :: "bool \<Rightarrow> hint_env \<Rightarrow> power_hint_t \<Rightarrow> hal_st \<Rightarrow> int \<times> hal_st" where
  "power_hint_override_8952 boost e hint s =
     (case hint of
        POWER_HINT_VSYNC \<Rightarrow> (HINT_NONE, s)
      | POWER_HINT_INTERACTION \<Rightarrow> (HINT_HANDLED, interact boost e [0x702, 0x20F, 0x30F] s)
      | POWER_HINT_VIDEO_ENCODE \<Rightarrow> (HINT_HANDLED, s)
      | POWER_HINT_VIDEO_DECODE \<Rightarrow> (HINT_HANDLED, s)
      | POWER_HINT_OTHER \<Rightarrow> (HINT_HANDLED, s))"

definition is_target_8916 :: "sysfs \<Rightarrow> int" where
  "is_target_8916 fs =
     (case soc_id_of fs of
        None \<Rightarrow> 0
      | Some soc_id \<Rightarrow> if soc_id = 206 \<or> (soc_id \<ge> 247 \<and> soc_id \<le> 250) then 8916 else 0)"

text \<open>The nested writes to the first \<^verbatim>\<open>scaling_min_freq\<close> node that accepts one.\<close>

definition write_min_freq :: "sysfs \<Rightarrow> int \<Rightarrow> hal_st \<Rightarrow> hal_st" where
  "write_min_freq fs v s =
     (case sysfs_write fs (scaling_min_freq ! 0) (fmt_d v) s of (r0, s0) \<Rightarrow>
      if r0 = 0 then s0 else
      case sysfs_write fs (scaling_min_freq ! 1) (fmt_d v) s0 of (r1, s1) \<Rightarrow>
      if r1 = 0 then s1 else
      case sysfs_write fs (scaling_min_freq ! 2) (fmt_d v) s1 of (r2, s2) \<Rightarrow>
      if r2 = 0 then s2 else
      case sysfs_write fs (scaling_min_freq ! 3) (fmt_d v) s2 of (r3, s3) \<Rightarrow> s3)"

text \<open>Sending and withdrawing the display-off hint under the flag of the board file.\<close>

definition board_display_off :: "hint_env \<Rightarrow> int list \<Rightarrow> hal_st \<Rightarrow> hal_st option" where
  "board_display_off e resource_values s =
     (if \<not> b_display_hint_sent s
      then map_option (\<lambda>s'. s'\<lparr>b_display_hint_sent := True\<rparr>)
             (perform_hint e DISPLAY_STATE_HINT_ID resource_values s)
      else Some s)"

definition board_display_on :: "hint_env \<Rightarrow> hal_st \<Rightarrow> hal_st option" where
  "board_display_on e s =
     map_option (\<lambda>s'. s'\<lparr>b_display_hint_sent := False\<rparr>) (undo_hint e DISPLAY_STATE_HINT_ID s)"

definition set_interactive_override_8916 :: "hint_env \<Rightarrow> sysfs \<Rightarrow> bool \<Rightarrow> hal_st \<Rightarrow> (int \<times> hal_st) option" where
  "set_interactive_override_8916 e fs on s =
     (case governor_of_cores fs of
        None \<Rightarrow> Some (HINT_HANDLED, s)
      | Some governor \<Rightarrow>
          map_option (\<lambda>s'. (HINT_HANDLED, s'\<lparr>b_saved_interactive_mode := of_bool on\<rparr>))
            (if \<not> on then
               (if is_target_8916 fs = 8916 then
                  (if governor = INTERACTIVE_GOVERNOR
                   then board_display_off e [TR_MS_50, THREAD_MIGRATION_SYNC_OFF] s else Some s)
                else
                  (if governor = INTERACTIVE_GOVERNOR
                   then board_display_off e [TR_MS_CPU0_50, TR_MS_CPU4_50, THREAD_MIGRATION_SYNC_OFF]
                          (write_min_freq fs MIN_FREQ_CPU0_DISP_OFF s)
                   else Some s))
             else
               (if is_target_8916 fs = 8916 then
                  (if governor = INTERACTIVE_GOVERNOR then board_display_on e s else Some s)
                else
                  (if governor = INTERACTIVE_GOVERNOR
                   then board_display_on e (write_min_freq fs MIN_FREQ_CPU0_DISP_ON s) else Some s))))"

definition set_interactive_override_8952 :: "hint_env \<Rightarrow> sysfs \<Rightarrow> bool \<Rightarrow> hal_st \<Rightarrow> (int \<times> hal_st) option" where
  "set_interactive_override_8952 e fs on s =
     (case governor_of_cores fs of
        None \<Rightarrow> Some (HINT_HANDLED, s)
      | Some governor \<Rightarrow>
          map_option (\<lambda>s'. (HINT_HANDLED, s'\<lparr>b_saved_interactive_mode := of_bool on\<rparr>))
            (if \<not> on then
               (if governor = INTERACTIVE_GOVERNOR
                then board_display_off e [TR_MS_CPU0_50, TR_MS_CPU4_50, THREAD_MIGRATION_SYNC_OFF] s
                else Some s)
             else (if governor = INTERACTIVE_GOVERNOR then board_display_on e s else Some s)))"

text \<open>The lock that keeps two cores online while the display is on.\<close>

definition boost_display_off :: "hint_env \<Rightarrow> hal_st \<Rightarrow> hal_st option" where
  "boost_display_off e s =
     (if display_boost s then
        (let s1 = (if \<not> b_first_display_off_hint s
                   then s\<lparr>hs := undo_initial_hint_action e (hs s), b_first_display_off_hint := True\<rparr>
                   else s)
         in if \<not> b_display_hint2_sent s1
            then map_option (\<lambda>s'. s'\<lparr>b_display_hint2_sent := True\<rparr>) (undo_hint e DISPLAY_STATE_HINT_ID_2 s1)
            else Some s1)
      else Some s)"

definition boost_display_on :: "hint_env \<Rightarrow> hal_st \<Rightarrow> hal_st option" where
  "boost_display_on e s =
     (if display_boost s \<and> b_display_hint2_sent s
      then map_option (\<lambda>s'. s'\<lparr>b_display_hint2_sent := False\<rparr>)
             (perform_hint e DISPLAY_STATE_HINT_ID_2 [CPUS_ONLINE_MIN_2] s)
      else Some s)"

definition set_interactive_override_8974 :: "hint_env \<Rightarrow> sysfs \<Rightarrow> bool \<Rightarrow> hal_st \<Rightarrow> (int \<times> hal_st) option" where
  "set_interactive_override_8974 e fs on s =
     (case get_scaling_governor fs 80 of (r, governor) \<Rightarrow>
      if r = -1 then Some (HINT_NONE, s)
      else if \<not> on then
        Option.bind (boost_display_off e s) (\<lambda>s1.
          if governor = ONDEMAND_GOVERNOR
          then map_option (\<lambda>s'. (HINT_HANDLED, s'))
                 (board_display_off e [MS_500, SYNC_FREQ_600, OPTIMAL_FREQ_600, THREAD_MIGRATION_SYNC_OFF] s1)
          else Some (HINT_NONE, s1))
      else
        Option.bind (boost_display_on e s) (\<lambda>s1.
          if governor = ONDEMAND_GOVERNOR
          then map_option (\<lambda>s'. (HINT_HANDLED, s')) (board_display_on e s1)
          else Some (HINT_NONE, s1)))"

definition set_interactive_override_8084 :: "hint_env \<Rightarrow> sysfs \<Rightarrow> bool \<Rightarrow> hal_st \<Rightarrow> (int \<times> hal_st) option" where
  "set_interactive_override_8084 e fs on s =
     (case get_scaling_governor fs 80 of (r, governor) \<Rightarrow>
      if r = -1 then Some (HINT_NONE, s)
      else if \<not> on then
        Option.bind (boost_display_off e s) (\<lambda>s1.
          if governor = ONDEMAND_GOVERNOR
          then map_option (\<lambda>s'. (HINT_HANDLED, s'))
                 (board_display_off e [MS_500, SYNC_FREQ_600, OPTIMAL_FREQ_600, THREAD_MIGRATION_SYNC_OFF] s1)
          else Some (HINT_NONE, s1))
      else
        Option.bind (boost_display_on e s) (\<lambda>s1.
          if governor = ONDEMAND_GOVERNOR
          then map_option (\<lambda>s'. (HINT_HANDLED, s')) (board_display_on e s1)
          else Some (HINT_NONE, s1)))"

subsection \<open>The entry points\<close>

definition power_hint_override ::
    "board \<Rightarrow> bool \<Rightarrow> hint_env \<Rightarrow> sysfs \<Rightarrow> power_hint_t \<Rightarrow> string option \<Rightarrow> hal_st \<Rightarrow> (int \<times> hal_st) option" where
  "power_hint_override b boost e fs hint data s =
     (case b of
        Msm8909 \<Rightarrow> power_hint_override_8909 e fs hint data s
      | Msm8226 \<Rightarrow> Some (power_hint_override_8226 boost e hint s)
      | Msm8610 \<Rightarrow> Some (power_hint_override_8610 boost e hint s)
      | Msm8916 \<Rightarrow> Some (power_hint_override_8916 boost e hint s)
      | Msm8952 \<Rightarrow> Some (power_hint_override_8952 boost e hint s)
      | _ \<Rightarrow> Some (HINT_NONE, s))"

definition set_interactive_override ::
    "board \<Rightarrow> hint_env \<Rightarrow> sysfs \<Rightarrow> bool \<Rightarrow> hal_st \<Rightarrow> (int \<times> hal_st) option" where
  "set_interactive_override b e fs on s =
     (case b of
        Msm8974 \<Rightarrow> set_interactive_override_8974 e fs on s
      | Apq8084 \<Rightarrow> set_interactive_override_8084 e fs on s
      | Msm8916 \<Rightarrow> set_interactive_override_8916 e fs on s
      | Msm8952 \<Rightarrow> set_interactive_override_8952 e fs on s
      | _ \<Rightarrow> Some (HINT_NONE, s))"

definition power_hint ::
    "board \<Rightarrow> bool \<Rightarrow> hint_env \<Rightarrow> sysfs \<Rightarrow> power_hint_t \<Rightarrow> string option \<Rightarrow> hal_st \<Rightarrow> hal_st option" where
  "power_hint b boost e fs hint data s =
     Option.bind (power_hint_override b boost e fs hint data s) (\<lambda>(r, s1).
       if r = HINT_HANDLED then Some s1
       else case hint of
         POWER_HINT_VSYNC \<Rightarrow> Some s1
       | POWER_HINT_INTERACTION \<Rightarrow> Some (interact boost e [0x702, 0x20F, 0x30F] s1)
       | POWER_HINT_VIDEO_ENCODE \<Rightarrow> process_video_encode_hint e fs data s1
       | POWER_HINT_VIDEO_DECODE \<Rightarrow> process_video_decode_hint e fs data s1
       | POWER_HINT_OTHER \<Rightarrow> Some s1)"

definition set_interactive :: "board \<Rightarrow> hint_env \<Rightarrow> sysfs \<Rightarrow> bool \<Rightarrow> hal_st \<Rightarrow> hal_st option" where
  "set_interactive b e fs on s =
     Option.bind (set_interactive_override b e fs on s) (\<lambda>(r, s1).
       if r = HINT_HANDLED then Some s1
       else case get_scaling_governor fs 80 of (g, governor) \<Rightarrow>
         if g = -1 then Some s1
         else map_option (\<lambda>s2. s2\<lparr>saved_interactive_mode := of_bool on\<rparr>)
                (if \<not> on then set_interactive_off e fs governor s1
                 else set_interactive_on e fs governor s1))"

end
