(* ===== verification/Power_Correct.thy ===== *)
theory Power_Correct
  imports Power_Hal
begin

text \<open>
  Correctness of the power HAL over all sequences of framework calls, for every board
  file: no call faults, and the display locks never pile up. The proofs use the hint
  actions only through the contract \<open>lock_table\<close>.
\<close>

named_theorems hal_steps \<open>every handler keeps the display-lock invariant\<close>

subsection \<open>Upper bounds on the display locks\<close>

definition locks :: "hint_env \<Rightarrow> nat \<Rightarrow> nat \<Rightarrow> hint_st \<Rightarrow> bool" where
  "locks e c d h \<longleftrightarrow>
     (\<exists>xs. (lib_ok e \<and> hint_inv h xs) \<and> hal_locks.held DISPLAY_STATE_HINT_ID xs \<le> c \<and>
           hal_locks.held DISPLAY_STATE_HINT_ID_2 xs \<le> d)"

definition plain_id :: "int \<Rightarrow> bool" where
  "plain_id hid \<longleftrightarrow> (word_of_int hid :: u32) \<noteq> word_of_int DISPLAY_STATE_HINT_ID \<and>
     (word_of_int hid :: u32) \<noteq> word_of_int DISPLAY_STATE_HINT_ID_2"

lemma display_ids: "(word_of_int DISPLAY_STATE_HINT_ID :: u32) \<noteq> word_of_int DISPLAY_STATE_HINT_ID_2"
  by (simp add: DISPLAY_STATE_HINT_ID_def DISPLAY_STATE_HINT_ID_2_def)

lemma perform_locks:
  assumes "locks e c d (hs s)"
  shows "plain_id hid \<Longrightarrow> \<exists>h. perform_hint e hid vs s = Some (s\<lparr>hs := h\<rparr>) \<and> locks e c d h"
    and "\<exists>h. perform_hint e DISPLAY_STATE_HINT_ID vs s = Some (s\<lparr>hs := h\<rparr>) \<and> locks e (Suc c) d h"
    and "\<exists>h. perform_hint e DISPLAY_STATE_HINT_ID_2 vs s = Some (s\<lparr>hs := h\<rparr>) \<and> locks e c (Suc d) h"
proof -
  from assms obtain xs where xs: "lib_ok e \<and> hint_inv (hs s) xs"
    "hal_locks.held DISPLAY_STATE_HINT_ID xs \<le> c" "hal_locks.held DISPLAY_STATE_HINT_ID_2 xs \<le> d"
    by (auto simp: locks_def)
  have step: "\<exists>h ys. perform_hint e i vs s = Some (s\<lparr>hs := h\<rparr>) \<and> (lib_ok e \<and> hint_inv h ys) \<and>
      hal_locks.held i ys \<le> Suc (hal_locks.held i xs) \<and>
      (\<forall>j. (word_of_int j :: u32) \<noteq> word_of_int i \<longrightarrow> hal_locks.held j ys = hal_locks.held j xs)" for i
    by (rule hal_locks.perform_step [OF xs(1), of i vs]) (auto simp: perform_hint_def)
  show "\<exists>h. perform_hint e hid vs s = Some (s\<lparr>hs := h\<rparr>) \<and> locks e c d h" if "plain_id hid"
    using step [of hid] that xs unfolding locks_def plain_id_def by metis
  show "\<exists>h. perform_hint e DISPLAY_STATE_HINT_ID vs s = Some (s\<lparr>hs := h\<rparr>) \<and> locks e (Suc c) d h"
    using step [of DISPLAY_STATE_HINT_ID] xs display_ids unfolding locks_def
    by (metis Suc_le_mono le_trans)
  show "\<exists>h. perform_hint e DISPLAY_STATE_HINT_ID_2 vs s = Some (s\<lparr>hs := h\<rparr>) \<and> locks e c (Suc d) h"
    using step [of DISPLAY_STATE_HINT_ID_2] xs display_ids unfolding locks_def
    by (metis Suc_le_mono le_trans)
qed

lemma undo_locks:
  assumes "locks e c d (hs s)"
  shows "plain_id hid \<Longrightarrow> \<exists>h. undo_hint e hid s = Some (s\<lparr>hs := h\<rparr>) \<and> locks e c d h"
    and "\<exists>h. undo_hint e DISPLAY_STATE_HINT_ID s = Some (s\<lparr>hs := h\<rparr>) \<and> locks e (c - 1) d h"
    and "\<exists>h. undo_hint e DISPLAY_STATE_HINT_ID_2 s = Some (s\<lparr>hs := h\<rparr>) \<and> locks e c (d - 1) h"
proof -
  from assms obtain xs where xs: "lib_ok e \<and> hint_inv (hs s) xs"
    "hal_locks.held DISPLAY_STATE_HINT_ID xs \<le> c" "hal_locks.held DISPLAY_STATE_HINT_ID_2 xs \<le> d"
    by (auto simp: locks_def)
  have step: "\<exists>h ys. undo_hint e i s = Some (s\<lparr>hs := h\<rparr>) \<and> (lib_ok e \<and> hint_inv h ys) \<and>
      hal_locks.held i ys = hal_locks.held i xs - 1 \<and>
      (\<forall>j. (word_of_int j :: u32) \<noteq> word_of_int i \<longrightarrow> hal_locks.held j ys = hal_locks.held j xs)" for i
    by (rule hal_locks.undo_step [OF xs(1), of i]) (auto simp: undo_hint_def)
  show "\<exists>h. undo_hint e hid s = Some (s\<lparr>hs := h\<rparr>) \<and> locks e c d h" if "plain_id hid"
    using step [of hid] that xs unfolding locks_def plain_id_def by metis
  show "\<exists>h. undo_hint e DISPLAY_STATE_HINT_ID s = Some (s\<lparr>hs := h\<rparr>) \<and> locks e (c - 1) d h"
    using step [of DISPLAY_STATE_HINT_ID] xs display_ids unfolding locks_def
    by (metis diff_le_mono)
  show "\<exists>h. undo_hint e DISPLAY_STATE_HINT_ID_2 s = Some (s\<lparr>hs := h\<rparr>) \<and> locks e c (d - 1) h"
    using step [of DISPLAY_STATE_HINT_ID_2] xs display_ids unfolding locks_def
    by (metis diff_le_mono)
qed

lemma locks_frame:
  "locks e c d h \<Longrightarrow> locks e c d (interaction b e' n vs h)"
  "locks e c d h \<Longrightarrow> locks e c d (undo_initial_hint_action e' h)"
proof -
  assume "locks e c d h"
  then show "locks e c d (interaction b e' n vs h)"
    unfolding locks_def by (blast intro: hint_inv_interaction)
  show "locks e c d (undo_initial_hint_action e' h)" if "locks e c d h"
    using that unfolding locks_def hint_inv_def undo_initial_hint_action_def
    by (simp add: hint_rel_call_rel)
qed

subsection \<open>The invariant and the handlers\<close>

definition hal_inv :: "hint_env \<Rightarrow> hal_st \<Rightarrow> bool" where
  "hal_inv e s \<longleftrightarrow>
     locks e (of_bool (display_hint_sent s) + of_bool (b_display_hint_sent s))
       (of_bool (\<not> b_display_hint2_sent s)) (hs s)"

lemma hal_inv_init: "lib_ok e \<Longrightarrow> hal_inv e hal_init"
  unfolding hal_inv_def locks_def
  by (intro exI [of _ "[]"]) (simp add: hal_init_def hint_inv_init hal_locks.held_def)

text \<open>Metadata that does not claim one of the HAL's own display hints.\<close>

definition meta_ok :: "string option \<Rightarrow> bool" where
  "meta_ok data \<longleftrightarrow>
     (case data of
        None \<Rightarrow> True
      | Some m \<Rightarrow>
          plain_id (vm_hint_id (snd (parse_video_encode_metadata m
            \<lparr>vm_hint_id = DEFAULT_VIDEO_ENCODE_HINT_ID, vm_state = -1\<rparr>))) \<and>
          plain_id (vm_hint_id (snd (parse_video_decode_metadata m
            \<lparr>vm_hint_id = DEFAULT_VIDEO_DECODE_HINT_ID, vm_state = -1\<rparr>))))"

lemma hal_inv_hs:
  "hal_inv e (s\<lparr>hs := h\<rparr>) \<longleftrightarrow>
     locks e (of_bool (display_hint_sent s) + of_bool (b_display_hint_sent s))
       (of_bool (\<not> b_display_hint2_sent s)) h"
  by (simp add: hal_inv_def)

lemma plain_steps:
  assumes "hal_inv e s" "plain_id hid"
  shows "\<exists>s'. perform_hint e hid vs s = Some s' \<and> hal_inv e s'"
    "\<exists>s'. undo_hint e hid s = Some s' \<and> hal_inv e s'"
proof -
  from assms have l: "locks e (of_bool (display_hint_sent s) + of_bool (b_display_hint_sent s))
      (of_bool (\<not> b_display_hint2_sent s)) (hs s)" by (simp add: hal_inv_def)
  from perform_locks(1) [OF l assms(2), of vs] show "\<exists>s'. perform_hint e hid vs s = Some s' \<and> hal_inv e s'"
    by (auto simp: hal_inv_hs)
  from undo_locks(1) [OF l assms(2)] show "\<exists>s'. undo_hint e hid s = Some s' \<and> hal_inv e s'"
    by (auto simp: hal_inv_hs)
qed

lemma video_steps [hal_steps]:
  assumes "hal_inv e s" "meta_ok data"
  shows "\<exists>s'. process_video_encode_hint e fs data s = Some s' \<and> hal_inv e s'"
    "\<exists>s'. process_video_decode_hint e fs data s = Some s' \<and> hal_inv e s'"
    "\<exists>s'. process_video_encode_hint_8909 e fs data s = Some s' \<and> hal_inv e s'"
  using assms plain_steps [OF assms(1)]
  by (auto simp: process_video_encode_hint_def process_video_decode_hint_def
      process_video_encode_hint_8909_def meta_ok_def split: prod.splits option.splits)

lemma interact_step [hal_steps]: "hal_inv e s \<Longrightarrow> hal_inv e (interact b e' vs s)"
  by (simp add: hal_inv_def interact_def locks_frame)

lemma power_hint_step [hal_steps]:
  assumes "hal_inv e s" "meta_ok data"
  shows "\<exists>s'. power_hint b boost e fs hint data s = Some s' \<and> hal_inv e s'"
proof -
  have ov: "\<exists>r s1. power_hint_override b boost e fs hint data s = Some (r, s1) \<and> hal_inv e s1"
    using assms video_steps(3) [OF assms, of fs] interact_step [OF assms(1)]
    by (cases b; cases hint)
      (auto simp: power_hint_override_def power_hint_override_8909_def power_hint_override_8226_def
        power_hint_override_8610_def power_hint_override_8916_def power_hint_override_8952_def)
  then obtain r s1 where r: "power_hint_override b boost e fs hint data s = Some (r, s1)" "hal_inv e s1" by blast
  show ?thesis
    using r video_steps(1,2) [OF r(2) assms(2), of fs] interact_step [OF r(2)]
    by (cases hint) (auto simp: power_hint_def)
qed

lemma slack_frame:
  "hs (fst (write_slack fs p sv v st)) = hs (fst st)"
  "display_hint_sent (fst (write_slack fs p sv v st)) = display_hint_sent (fst st)"
  "b_display_hint_sent (fst (write_slack fs p sv v st)) = b_display_hint_sent (fst st)"
  "b_display_hint2_sent (fst (write_slack fs p sv v st)) = b_display_hint2_sent (fst st)"
  by (auto simp: write_slack_def sysfs_write_def split: prod.splits)

lemma save_slack_inv:
  assumes "\<And>v s. hal_inv e (store v s) = hal_inv e s"
  shows "hal_inv e (fst (save_slack fs p store st)) = hal_inv e (fst st)"
  by (auto simp: save_slack_def assms split: prod.splits)

lemma slack_inv:
  "hal_inv e (fst (slack_display_on fs st)) = hal_inv e (fst st)"
  "hal_inv e (fst (slack_display_off fs st)) = hal_inv e (fst st)"
proof -
  have w: "hal_inv e (fst (write_slack fs p sv v st)) = hal_inv e (fst st)" for p sv v st
    by (simp add: hal_inv_def slack_frame)
  show "hal_inv e (fst (slack_display_on fs st)) = hal_inv e (fst st)"
    by (simp add: slack_display_on_def Let_def w)
  show "hal_inv e (fst (slack_display_off fs st)) = hal_inv e (fst st)"
    unfolding slack_display_off_def Let_def w
    by (subst save_slack_inv, simp add: hal_inv_def)+ (rule refl)
qed

lemma set_interactive_off_step:
  assumes "hal_inv e s"
  shows "\<exists>s'. set_interactive_off e fs g s = Some s' \<and> hal_inv e s'"
proof -
  have disp: "\<exists>s'. map_option (\<lambda>s'. s'\<lparr>display_hint_sent := True\<rparr>)
      (perform_hint e DISPLAY_STATE_HINT_ID vs s) = Some s' \<and> hal_inv e s'"
    if "\<not> display_hint_sent s" for vs
    using perform_locks(2) [OF assms [unfolded hal_inv_def], of vs] that by (auto simp: hal_inv_def)
  have slack: "hal_inv e (s'\<lparr>slack_node_rw_failed := rc\<rparr>)"
    if "(if saved_interactive_mode s = 1 then slack_display_off fs (s, None) else (s, None)) = (s', rc)" for s' rc
    using slack_inv(2) [of e fs "(s, None)"] assms that by (auto simp: hal_inv_def split: if_splits)
  show ?thesis
    using disp slack assms by (auto simp: set_interactive_off_def split: prod.splits)
qed

lemma locks_mono: "locks e c' d h \<Longrightarrow> c' \<le> c \<Longrightarrow> locks e c d h"
  unfolding locks_def by (meson le_trans)

lemma undo_display_step:
  assumes "hal_inv e s"
  shows "\<exists>h. undo_hint e DISPLAY_STATE_HINT_ID s = Some (s\<lparr>hs := h\<rparr>) \<and>
    hal_inv e (s\<lparr>hs := h, display_hint_sent := False\<rparr>) \<and> hal_inv e (s\<lparr>hs := h, b_display_hint_sent := False\<rparr>)"
proof -
  from undo_locks(2) [OF assms [unfolded hal_inv_def]] obtain h where
    h: "undo_hint e DISPLAY_STATE_HINT_ID s = Some (s\<lparr>hs := h\<rparr>)"
      "locks e (of_bool (display_hint_sent s) + of_bool (b_display_hint_sent s) - 1)
         (of_bool (\<not> b_display_hint2_sent s)) h" by blast
  have "locks e (of_bool (b_display_hint_sent s)) (of_bool (\<not> b_display_hint2_sent s)) h"
    "locks e (of_bool (display_hint_sent s)) (of_bool (\<not> b_display_hint2_sent s)) h"
    by (rule locks_mono [OF h(2)], simp)+
  with h(1) show ?thesis by (intro exI [of _ h]) (simp add: hal_inv_def)
qed

lemma set_interactive_on_step:
  assumes "hal_inv e s"
  shows "\<exists>s'. set_interactive_on e fs g s = Some s' \<and> hal_inv e s'"
proof -
  have disp: "\<exists>s'. map_option (\<lambda>s'. s'\<lparr>display_hint_sent := False\<rparr>)
      (undo_hint e DISPLAY_STATE_HINT_ID s) = Some s' \<and> hal_inv e s'"
    using undo_display_step [OF assms] by auto
  have slack: "hal_inv e (s'\<lparr>slack_node_rw_failed := rc\<rparr>)"
    if "(if saved_interactive_mode s = -1 \<or> saved_interactive_mode s = 0
         then slack_display_on fs (s, None) else (s, None)) = (s', rc)" for s' rc
    using slack_inv(1) [of e fs "(s, None)"] assms that by (auto simp: hal_inv_def split: if_splits)
  show ?thesis
    using disp slack assms by (auto simp: set_interactive_on_def split: prod.splits)
qed

lemma board_display_step:
  assumes "hal_inv e s"
  shows "\<exists>s'. board_display_off e vs s = Some s' \<and> hal_inv e s'"
    "\<exists>s'. board_display_on e s = Some s' \<and> hal_inv e s'"
proof -
  show "\<exists>s'. board_display_off e vs s = Some s' \<and> hal_inv e s'"
    using assms perform_locks(2) [OF assms [unfolded hal_inv_def], of vs]
    by (auto simp: board_display_off_def hal_inv_def)
  show "\<exists>s'. board_display_on e s = Some s' \<and> hal_inv e s'"
    using undo_display_step [OF assms] by (auto simp: board_display_on_def)
qed

lemma boost_display_step:
  assumes "hal_inv e s"
  shows "\<exists>s'. boost_display_off e s = Some s' \<and> hal_inv e s'"
    "\<exists>s'. boost_display_on e s = Some s' \<and> hal_inv e s'"
proof -
  let ?c = "of_bool (display_hint_sent s) + of_bool (b_display_hint_sent s)"
  have undo: "\<exists>s'. map_option (\<lambda>s'. s'\<lparr>b_display_hint2_sent := True\<rparr>) (undo_hint e DISPLAY_STATE_HINT_ID_2 t) =
      Some s' \<and> hal_inv e s'" if "hal_inv e t" "\<not> b_display_hint2_sent t" for t
    using undo_locks(3) [OF that(1) [unfolded hal_inv_def]] that(2) by (auto simp: hal_inv_def)
  have "hal_inv e (s\<lparr>hs := undo_initial_hint_action e (hs s), b_first_display_off_hint := True\<rparr>)"
    using assms by (simp add: hal_inv_def locks_frame)
  with undo assms show "\<exists>s'. boost_display_off e s = Some s' \<and> hal_inv e s'"
    by (auto simp: boost_display_off_def Let_def)
  show "\<exists>s'. boost_display_on e s = Some s' \<and> hal_inv e s'"
    using assms perform_locks(3) [OF assms [unfolded hal_inv_def], of "[CPUS_ONLINE_MIN_2]"]
    by (auto simp: boost_display_on_def hal_inv_def)
qed

lemma write_min_freq_inv: "hal_inv e (write_min_freq fs v s) = hal_inv e s"
  by (auto simp: write_min_freq_def sysfs_write_def hal_inv_def)

lemma set_interactive_override_step:
  assumes "hal_inv e s"
  shows "\<exists>r s1. set_interactive_override b e fs on s = Some (r, s1) \<and> hal_inv e s1"
proof -
  have upd: "hal_inv e (t\<lparr>b_saved_interactive_mode := i\<rparr>) = hal_inv e t" for t i by (simp add: hal_inv_def)
  have handled: "\<exists>r s1. map_option (\<lambda>s'. (HINT_HANDLED, s'\<lparr>b_saved_interactive_mode := i\<rparr>)) f = Some (r, s1) \<and>
      hal_inv e s1" if "\<exists>s'. f = Some s' \<and> hal_inv e s'" for f i
    using that by (auto simp: upd)
  have o16: "\<exists>r s1. set_interactive_override_8916 e fs on s = Some (r, s1) \<and> hal_inv e s1"
    unfolding set_interactive_override_8916_def
    using assms board_display_step [OF assms]
      board_display_step [of e "write_min_freq fs v s" for v, unfolded write_min_freq_inv, OF assms]
    by (cases "governor_of_cores fs") (simp_all only: option.case, blast, intro handled, simp)
  have o52: "\<exists>r s1. set_interactive_override_8952 e fs on s = Some (r, s1) \<and> hal_inv e s1"
    unfolding set_interactive_override_8952_def
    using assms board_display_step [OF assms]
    by (cases "governor_of_cores fs") (simp_all only: option.case, blast, intro handled, simp)
  from boost_display_step [OF assms] obtain s0 s1 where
    s0: "boost_display_off e s = Some s0" "hal_inv e s0" and s1: "boost_display_on e s = Some s1" "hal_inv e s1"
    by blast
  have o74: "\<exists>r s1. set_interactive_override_8974 e fs on s = Some (r, s1) \<and> hal_inv e s1"
    using assms s0 s1 board_display_step(1) [OF s0(2)] board_display_step(2) [OF s1(2)]
    by (auto simp: set_interactive_override_8974_def split: prod.splits)
  have "set_interactive_override_8084 e fs on s = set_interactive_override_8974 e fs on s"
    by (simp add: set_interactive_override_8084_def set_interactive_override_8974_def)
  with o16 o52 o74 assms show ?thesis by (cases b) (simp_all add: set_interactive_override_def)
qed

lemma set_interactive_step [hal_steps]:
  assumes "hal_inv e s"
  shows "\<exists>s'. set_interactive b e fs on s = Some s' \<and> hal_inv e s'"
proof -
  from set_interactive_override_step [OF assms] obtain r s1 where
    r: "set_interactive_override b e fs on s = Some (r, s1)" "hal_inv e s1" by blast
  have upd: "hal_inv e (t\<lparr>saved_interactive_mode := i\<rparr>) = hal_inv e t" for t i by (simp add: hal_inv_def)
  show ?thesis
    using r set_interactive_off_step [OF r(2)] set_interactive_on_step [OF r(2)]
    by (fastforce simp: set_interactive_def upd split: prod.splits)
qed

subsection \<open>The HAL as a state machine\<close>

datatype hal_event = PowerInit | PowerHint power_hint_t "string option" | SetInteractive bool

fun hal_handle :: "board \<Rightarrow> bool \<Rightarrow> hint_env \<Rightarrow> sysfs \<Rightarrow> hal_event \<Rightarrow> hal_st \<Rightarrow> hal_st option" where
  "hal_handle b boost e fs PowerInit s = Some (power_init fs s)"
| "hal_handle b boost e fs (PowerHint hint data) s = power_hint b boost e fs hint data s"
| "hal_handle b boost e fs (SetInteractive on) s = set_interactive b e fs on s"

fun event_ok :: "hal_event \<Rightarrow> bool" where
  "event_ok (PowerHint hint data) = meta_ok data"
| "event_ok _ = True"

inductive hal_reach :: "board \<Rightarrow> bool \<Rightarrow> hint_env \<Rightarrow> hal_st \<Rightarrow> bool" for b boost e where
  hal_start: "hal_reach b boost e hal_init"
| hal_event: "hal_reach b boost e s \<Longrightarrow> event_ok ev \<Longrightarrow> hal_handle b boost e fs ev s = Some s' \<Longrightarrow>
    hal_reach b boost e s'"

inductive_cases hal_reachE: "hal_reach b boost e s"

lemma hal_handle_step:
  assumes "hal_inv e s" "event_ok ev"
  shows "\<exists>s'. hal_handle b boost e fs ev s = Some s' \<and> hal_inv e s'"
proof (cases ev)
  case PowerInit
  then show ?thesis using assms(1) by (auto simp: power_init_def hal_inv_def split: option.splits)
next
  case (PowerHint hint data)
  then show ?thesis using power_hint_step [OF assms(1)] assms(2) by simp
next
  case (SetInteractive on)
  then show ?thesis using set_interactive_step [OF assms(1)] by simp
qed

lemma hal_reach_inv: "hal_reach b boost e s \<Longrightarrow> lib_ok e \<Longrightarrow> hal_inv e s"
proof (induction rule: hal_reach.induct)
  case hal_start
  then show ?case by (simp add: hal_inv_init)
next
  case (hal_event s ev fs s')
  then show ?case using hal_handle_step [of e s ev b boost fs] by auto
qed


definition demo_fs :: sysfs where
  "demo_fs = \<lparr>fs_read = (\<lambda>p. if p = SOC_ID_PATH then Some ''194'' else Some (''ondemand'' @ [CHR 0x0A])),
     fs_write = (\<lambda>p. True)\<rparr>"


text \<open>What the slack nodes hold before the display goes off.\<close>

definition slack_nodes :: "string list" where
  "slack_nodes = [DCVS_CPU0_SLACK_MAX_NODE, DCVS_CPU0_SLACK_MIN_NODE, MPDECISION_SLACK_MAX_NODE,
     MPDECISION_SLACK_MIN_NODE]"

lemma read_slack:
  assumes "fs_read fs p = Some (fmt_d v @ [CHR 0x0A])" "- (2 ^ 31) \<le> v" "v < 2 ^ 31"
  shows "save_slack fs p store st = (store v (fst st), snd st)"
proof -
  have "length (fmt_d v @ [CHR 0x0A]) \<le> 62" using length_fmt_d [OF assms(2,3)] by simp
  then have "take (NODE_MAX - 1 - 1) (fmt_d v @ [CHR 0x0A]) = fmt_d v @ [CHR 0x0A]"
    by (simp add: NODE_MAX_def)
  moreover have "atoi 32 (fmt_d v @ [CHR 0x0A]) = v"
    using assms by (intro atoi_fmt_d) (auto simp: is_digit_def digit_val_def)
  ultimately show ?thesis
    using assms(1) by (simp only: save_slack_def sysfs_read_def option.case prod.case) simp
qed

text \<open>
  Under the \<^verbatim>\<open>msm-dcvs\<close> governor, switching the display off scales the four slack times
  by ten and switching it on again writes back exactly the values that were read,
  provided they are not \<open>-1\<close>, their tenfold fits an \<^verbatim>\<open>int\<close>, and the nodes can be written.
\<close>

theorem slack_off_on_restores:
  assumes gov: "get_scaling_governor fs 80 = (0, MSMDCVS_GOVERNOR)" and mode: "saved_interactive_mode s = 1"
    and wr: "\<forall>p\<in>set slack_nodes. fs_write fs p"
    and rd: "fs_read fs DCVS_CPU0_SLACK_MAX_NODE = Some (fmt_d a @ [CHR 0x0A])"
      "fs_read fs DCVS_CPU0_SLACK_MIN_NODE = Some (fmt_d b @ [CHR 0x0A])"
      "fs_read fs MPDECISION_SLACK_MAX_NODE = Some (fmt_d c @ [CHR 0x0A])"
      "fs_read fs MPDECISION_SLACK_MIN_NODE = Some (fmt_d d @ [CHR 0x0A])"
    and rng: "\<forall>v\<in>{a, b, c, d}. v \<noteq> -1 \<and> - (2 ^ 31) \<le> 10 * v \<and> 10 * v < 2 ^ 31"
  shows "\<exists>s1 s2. set_interactive Generic e fs False s = Some s1 \<and> set_interactive Generic e fs True s1 = Some s2 \<and>
    fs_writes s1 = fs_writes s @ zip slack_nodes (map (\<lambda>v. fmt_d (10 * v)) [a, b, c, d]) \<and>
    fs_writes s2 = fs_writes s1 @ zip slack_nodes (map fmt_d [a, b, c, d])"
proof -
  have v: "- (2 ^ 31) \<le> v" "v < 2 ^ 31" "v \<noteq> -1" "to_int32 (10 * v) = 10 * v" if "v \<in> {a, b, c, d}" for v
    using rng that by (auto intro!: to_int32_id)
  have w: "write_slack fs p sv x st = ((fst st)\<lparr>fs_writes := fs_writes (fst st) @ [(p, fmt_d x)]\<rparr>, snd st)"
    if "p \<in> set slack_nodes" "sv \<noteq> -1" for p sv x st
    using that wr by (simp add: write_slack_def sysfs_write_def)
  have g: "MSMDCVS_GOVERNOR \<noteq> ONDEMAND_GOVERNOR" "MSMDCVS_GOVERNOR \<noteq> INTERACTIVE_GOVERNOR"
    by (simp_all add: MSMDCVS_GOVERNOR_def ONDEMAND_GOVERNOR_def INTERACTIVE_GOVERNOR_def)
  note rds = read_slack [OF rd(1) v(1,2)] read_slack [OF rd(2) v(1,2)] read_slack [OF rd(3) v(1,2)]
    read_slack [OF rd(4) v(1,2)]
  let ?s1 = "s\<lparr>saved_dcvs_cpu0_slack_max := a, saved_dcvs_cpu0_slack_min := b,
    saved_mpdecision_slack_max := c, saved_mpdecision_slack_min := d,
    fs_writes := fs_writes s @ zip slack_nodes (map (\<lambda>v. fmt_d (10 * v)) [a, b, c, d])\<rparr>"
  have off: "slack_display_off fs (s, None) = (?s1, None)"
    using v by (simp add: slack_display_off_def rds w slack_nodes_def)
  have on: "slack_display_on fs (?s1\<lparr>slack_node_rw_failed := None, saved_interactive_mode := 0\<rparr>, None) =
      (?s1\<lparr>slack_node_rw_failed := None, saved_interactive_mode := 0,
        fs_writes := fs_writes ?s1 @ zip slack_nodes (map fmt_d [a, b, c, d])\<rparr>, None)"
    using v by (simp add: slack_display_on_def w slack_nodes_def)
  have "set_interactive Generic e fs False s =
      Some (?s1\<lparr>slack_node_rw_failed := None, saved_interactive_mode := 0\<rparr>)"
    using gov mode off g by (simp add: set_interactive_def set_interactive_override_def HINT_NONE_def
        HINT_HANDLED_def set_interactive_off_def)
  moreover have "set_interactive Generic e fs True (?s1\<lparr>slack_node_rw_failed := None, saved_interactive_mode := 0\<rparr>) =
      Some (?s1\<lparr>slack_node_rw_failed := None, saved_interactive_mode := 1,
        fs_writes := fs_writes ?s1 @ zip slack_nodes (map fmt_d [a, b, c, d])\<rparr>)"
    using gov on g by (simp add: set_interactive_def set_interactive_override_def HINT_NONE_def
        HINT_HANDLED_def set_interactive_on_def)
  ultimately show ?thesis by simp
qed

definition demo_dcvs :: sysfs where
  "demo_dcvs = \<lparr>fs_read = (\<lambda>p. if p = SCALING_GOVERNOR_PATH then Some (''msm-dcvs'' @ [CHR 0x0A])
       else Some (fmt_d 40000 @ [CHR 0x0A])), fs_write = (\<lambda>p. True)\<rparr>"

theorem slack_off_on_restores_witness:
  "\<exists>s1 s2. set_interactive Generic demo_lib demo_dcvs False (hal_init\<lparr>saved_interactive_mode := 1\<rparr>) = Some s1 \<and>
     set_interactive Generic demo_lib demo_dcvs True s1 = Some s2 \<and>
     fs_writes s1 = zip slack_nodes (map (\<lambda>v. fmt_d (10 * v)) [40000, 40000, 40000, 40000]) \<and>
     fs_writes s2 = fs_writes s1 @ zip slack_nodes (map fmt_d [40000, 40000, 40000, 40000])"
proof -
  have "get_scaling_governor demo_dcvs 80 = (0, MSMDCVS_GOVERNOR)"
    by (simp add: get_scaling_governor_def sysfs_read_def demo_dcvs_def strip_newline_def MSMDCVS_GOVERNOR_def)
  moreover have "fs_read demo_dcvs p = Some (fmt_d 40000 @ [CHR 0x0A])" if "p \<in> set slack_nodes" for p
    using that by (auto simp: demo_dcvs_def slack_nodes_def SCALING_GOVERNOR_PATH_def
        DCVS_CPU0_SLACK_MAX_NODE_def DCVS_CPU0_SLACK_MIN_NODE_def MPDECISION_SLACK_MAX_NODE_def
        MPDECISION_SLACK_MIN_NODE_def)
  ultimately show ?thesis
    using slack_off_on_restores [of demo_dcvs "hal_init\<lparr>saved_interactive_mode := 1\<rparr>" 40000 40000 40000 40000 demo_lib]
    by (simp add: slack_nodes_def) (simp add: demo_dcvs_def hal_init_def)
qed

end
