(* ===== verification/Loc_Tables.thy ===== *)
theory Loc_Tables
  imports C_Prelude
begin

text \<open>
  The message tables of \<^verbatim>\<open>src/opensource/location/loc_api/loc_api_v02/loc_api_v02_client.c\<close>: the
  event table, the response table and the switch of \<^verbatim>\<open>validateRequest\<close>, with the message
  identifiers and event masks of \<^verbatim>\<open>location_service_v02.h\<close>. The size of a message structure
  depends on the ABI; a table entry names the C type and the size is the value of an
  uninterpreted function \<open>sizeof\<close> on it.
\<close>

subsection \<open>Message identifiers\<close>

definition QMI_LOC_EVENT_POSITION_REPORT_IND_V02 :: u32 where "QMI_LOC_EVENT_POSITION_REPORT_IND_V02 = 0x0024"
definition QMI_LOC_EVENT_GNSS_SV_INFO_IND_V02 :: u32 where "QMI_LOC_EVENT_GNSS_SV_INFO_IND_V02 = 0x0025"
definition QMI_LOC_EVENT_NMEA_IND_V02 :: u32 where "QMI_LOC_EVENT_NMEA_IND_V02 = 0x0026"
definition QMI_LOC_EVENT_NI_NOTIFY_VERIFY_REQ_IND_V02 :: u32 where "QMI_LOC_EVENT_NI_NOTIFY_VERIFY_REQ_IND_V02 = 0x0027"
definition QMI_LOC_EVENT_INJECT_TIME_REQ_IND_V02 :: u32 where "QMI_LOC_EVENT_INJECT_TIME_REQ_IND_V02 = 0x0028"
definition QMI_LOC_EVENT_INJECT_PREDICTED_ORBITS_REQ_IND_V02 :: u32 where "QMI_LOC_EVENT_INJECT_PREDICTED_ORBITS_REQ_IND_V02 = 0x0029"
definition QMI_LOC_EVENT_INJECT_POSITION_REQ_IND_V02 :: u32 where "QMI_LOC_EVENT_INJECT_POSITION_REQ_IND_V02 = 0x002A"
definition QMI_LOC_EVENT_ENGINE_STATE_IND_V02 :: u32 where "QMI_LOC_EVENT_ENGINE_STATE_IND_V02 = 0x002B"
definition QMI_LOC_EVENT_FIX_SESSION_STATE_IND_V02 :: u32 where "QMI_LOC_EVENT_FIX_SESSION_STATE_IND_V02 = 0x002C"
definition QMI_LOC_EVENT_WIFI_REQ_IND_V02 :: u32 where "QMI_LOC_EVENT_WIFI_REQ_IND_V02 = 0x002D"
definition QMI_LOC_EVENT_SENSOR_STREAMING_READY_STATUS_IND_V02 :: u32 where "QMI_LOC_EVENT_SENSOR_STREAMING_READY_STATUS_IND_V02 = 0x002E"
definition QMI_LOC_EVENT_TIME_SYNC_REQ_IND_V02 :: u32 where "QMI_LOC_EVENT_TIME_SYNC_REQ_IND_V02 = 0x002F"
definition QMI_LOC_EVENT_SET_SPI_STREAMING_REPORT_IND_V02 :: u32 where "QMI_LOC_EVENT_SET_SPI_STREAMING_REPORT_IND_V02 = 0x0030"
definition QMI_LOC_EVENT_LOCATION_SERVER_CONNECTION_REQ_IND_V02 :: u32 where "QMI_LOC_EVENT_LOCATION_SERVER_CONNECTION_REQ_IND_V02 = 0x0031"
definition QMI_LOC_EVENT_NI_GEOFENCE_NOTIFICATION_IND_V02 :: u32 where "QMI_LOC_EVENT_NI_GEOFENCE_NOTIFICATION_IND_V02 = 0x0060"
definition QMI_LOC_EVENT_GEOFENCE_GEN_ALERT_IND_V02 :: u32 where "QMI_LOC_EVENT_GEOFENCE_GEN_ALERT_IND_V02 = 0x0061"
definition QMI_LOC_EVENT_GEOFENCE_BREACH_NOTIFICATION_IND_V02 :: u32 where "QMI_LOC_EVENT_GEOFENCE_BREACH_NOTIFICATION_IND_V02 = 0x0062"
definition QMI_LOC_EVENT_GEOFENCE_BATCHED_BREACH_NOTIFICATION_IND_V02 :: u32 where "QMI_LOC_EVENT_GEOFENCE_BATCHED_BREACH_NOTIFICATION_IND_V02 = 0x0080"
definition QMI_LOC_EVENT_PEDOMETER_CONTROL_IND_V02 :: u32 where "QMI_LOC_EVENT_PEDOMETER_CONTROL_IND_V02 = 0x006D"
definition QMI_LOC_EVENT_MOTION_DATA_CONTROL_IND_V02 :: u32 where "QMI_LOC_EVENT_MOTION_DATA_CONTROL_IND_V02 = 0x006E"
definition QMI_LOC_EVENT_INJECT_WIFI_AP_DATA_REQ_IND_V02 :: u32 where "QMI_LOC_EVENT_INJECT_WIFI_AP_DATA_REQ_IND_V02 = 0x007C"
definition QMI_LOC_EVENT_LIVE_BATCHED_POSITION_REPORT_IND_V02 :: u32 where "QMI_LOC_EVENT_LIVE_BATCHED_POSITION_REPORT_IND_V02 = 0x0078"
definition QMI_LOC_EVENT_BATCH_FULL_NOTIFICATION_IND_V02 :: u32 where "QMI_LOC_EVENT_BATCH_FULL_NOTIFICATION_IND_V02 = 0x0077"
definition QMI_LOC_EVENT_VEHICLE_DATA_READY_STATUS_IND_V02 :: u32 where "QMI_LOC_EVENT_VEHICLE_DATA_READY_STATUS_IND_V02 = 0x0081"
definition QMI_LOC_EVENT_GEOFENCE_PROXIMITY_NOTIFICATION_IND_V02 :: u32 where "QMI_LOC_EVENT_GEOFENCE_PROXIMITY_NOTIFICATION_IND_V02 = 0x008C"
definition QMI_LOC_EVENT_GDT_UPLOAD_BEGIN_STATUS_REQ_IND_V02 :: u32 where "QMI_LOC_EVENT_GDT_UPLOAD_BEGIN_STATUS_REQ_IND_V02 = 0x0090"
definition QMI_LOC_EVENT_GDT_UPLOAD_END_REQ_IND_V02 :: u32 where "QMI_LOC_EVENT_GDT_UPLOAD_END_REQ_IND_V02 = 0x0091"
definition QMI_LOC_EVENT_GNSS_MEASUREMENT_REPORT_IND_V02 :: u32 where "QMI_LOC_EVENT_GNSS_MEASUREMENT_REPORT_IND_V02 = 0x0086"
definition QMI_LOC_EVENT_DBT_POSITION_REPORT_IND_V02 :: u32 where "QMI_LOC_EVENT_DBT_POSITION_REPORT_IND_V02 = 0x0093"
definition QMI_LOC_EVENT_GEOFENCE_BATCHED_DWELL_NOTIFICATION_IND_V02 :: u32 where "QMI_LOC_EVENT_GEOFENCE_BATCHED_DWELL_NOTIFICATION_IND_V02 = 0x0097"
definition QMI_LOC_EVENT_GET_TIME_ZONE_INFO_IND_V02 :: u32 where "QMI_LOC_EVENT_GET_TIME_ZONE_INFO_IND_V02 = 0x0098"
definition QMI_LOC_EVENT_BATCHING_STATUS_IND_V02 :: u32 where "QMI_LOC_EVENT_BATCHING_STATUS_IND_V02 = 0x009C"
definition QMI_LOC_EVENT_GDT_DOWNLOAD_BEGIN_REQ_IND_V02 :: u32 where "QMI_LOC_EVENT_GDT_DOWNLOAD_BEGIN_REQ_IND_V02 = 0x00A3"
definition QMI_LOC_EVENT_GDT_RECEIVE_DONE_IND_V02 :: u32 where "QMI_LOC_EVENT_GDT_RECEIVE_DONE_IND_V02 = 0x00A4"
definition QMI_LOC_EVENT_GDT_DOWNLOAD_END_REQ_IND_V02 :: u32 where "QMI_LOC_EVENT_GDT_DOWNLOAD_END_REQ_IND_V02 = 0x00A5"
definition QMI_LOC_GET_SERVICE_REVISION_IND_V02 :: u32 where "QMI_LOC_GET_SERVICE_REVISION_IND_V02 = 0x0032"
definition QMI_LOC_GET_FIX_CRITERIA_IND_V02 :: u32 where "QMI_LOC_GET_FIX_CRITERIA_IND_V02 = 0x0033"
definition QMI_LOC_NI_USER_RESPONSE_IND_V02 :: u32 where "QMI_LOC_NI_USER_RESPONSE_IND_V02 = 0x0034"
definition QMI_LOC_INJECT_PREDICTED_ORBITS_DATA_IND_V02 :: u32 where "QMI_LOC_INJECT_PREDICTED_ORBITS_DATA_IND_V02 = 0x0035"
definition QMI_LOC_GET_PREDICTED_ORBITS_DATA_SOURCE_IND_V02 :: u32 where "QMI_LOC_GET_PREDICTED_ORBITS_DATA_SOURCE_IND_V02 = 0x0036"
definition QMI_LOC_GET_PREDICTED_ORBITS_DATA_VALIDITY_IND_V02 :: u32 where "QMI_LOC_GET_PREDICTED_ORBITS_DATA_VALIDITY_IND_V02 = 0x0037"
definition QMI_LOC_INJECT_UTC_TIME_IND_V02 :: u32 where "QMI_LOC_INJECT_UTC_TIME_IND_V02 = 0x0038"
definition QMI_LOC_INJECT_POSITION_IND_V02 :: u32 where "QMI_LOC_INJECT_POSITION_IND_V02 = 0x0039"
definition QMI_LOC_SET_ENGINE_LOCK_IND_V02 :: u32 where "QMI_LOC_SET_ENGINE_LOCK_IND_V02 = 0x003A"
definition QMI_LOC_GET_ENGINE_LOCK_IND_V02 :: u32 where "QMI_LOC_GET_ENGINE_LOCK_IND_V02 = 0x003B"
definition QMI_LOC_SET_SBAS_CONFIG_IND_V02 :: u32 where "QMI_LOC_SET_SBAS_CONFIG_IND_V02 = 0x003C"
definition QMI_LOC_GET_SBAS_CONFIG_IND_V02 :: u32 where "QMI_LOC_GET_SBAS_CONFIG_IND_V02 = 0x003D"
definition QMI_LOC_SET_NMEA_TYPES_IND_V02 :: u32 where "QMI_LOC_SET_NMEA_TYPES_IND_V02 = 0x003E"
definition QMI_LOC_GET_NMEA_TYPES_IND_V02 :: u32 where "QMI_LOC_GET_NMEA_TYPES_IND_V02 = 0x003F"
definition QMI_LOC_SET_LOW_POWER_MODE_IND_V02 :: u32 where "QMI_LOC_SET_LOW_POWER_MODE_IND_V02 = 0x0040"
definition QMI_LOC_GET_LOW_POWER_MODE_IND_V02 :: u32 where "QMI_LOC_GET_LOW_POWER_MODE_IND_V02 = 0x0041"
definition QMI_LOC_SET_SERVER_IND_V02 :: u32 where "QMI_LOC_SET_SERVER_IND_V02 = 0x0042"
definition QMI_LOC_GET_SERVER_IND_V02 :: u32 where "QMI_LOC_GET_SERVER_IND_V02 = 0x0043"
definition QMI_LOC_DELETE_ASSIST_DATA_IND_V02 :: u32 where "QMI_LOC_DELETE_ASSIST_DATA_IND_V02 = 0x0044"
definition QMI_LOC_INJECT_APCACHE_DATA_IND_V02 :: u32 where "QMI_LOC_INJECT_APCACHE_DATA_IND_V02 = 0x009A"
definition QMI_LOC_INJECT_APDONOTCACHE_DATA_IND_V02 :: u32 where "QMI_LOC_INJECT_APDONOTCACHE_DATA_IND_V02 = 0x009B"
definition QMI_LOC_SET_XTRA_T_SESSION_CONTROL_IND_V02 :: u32 where "QMI_LOC_SET_XTRA_T_SESSION_CONTROL_IND_V02 = 0x0045"
definition QMI_LOC_GET_XTRA_T_SESSION_CONTROL_IND_V02 :: u32 where "QMI_LOC_GET_XTRA_T_SESSION_CONTROL_IND_V02 = 0x0046"
definition QMI_LOC_INJECT_WIFI_POSITION_IND_V02 :: u32 where "QMI_LOC_INJECT_WIFI_POSITION_IND_V02 = 0x0047"
definition QMI_LOC_NOTIFY_WIFI_STATUS_IND_V02 :: u32 where "QMI_LOC_NOTIFY_WIFI_STATUS_IND_V02 = 0x0048"
definition QMI_LOC_GET_REGISTERED_EVENTS_IND_V02 :: u32 where "QMI_LOC_GET_REGISTERED_EVENTS_IND_V02 = 0x0049"
definition QMI_LOC_SET_OPERATION_MODE_IND_V02 :: u32 where "QMI_LOC_SET_OPERATION_MODE_IND_V02 = 0x004A"
definition QMI_LOC_GET_OPERATION_MODE_IND_V02 :: u32 where "QMI_LOC_GET_OPERATION_MODE_IND_V02 = 0x004B"
definition QMI_LOC_SET_SPI_STATUS_IND_V02 :: u32 where "QMI_LOC_SET_SPI_STATUS_IND_V02 = 0x004C"
definition QMI_LOC_INJECT_SENSOR_DATA_IND_V02 :: u32 where "QMI_LOC_INJECT_SENSOR_DATA_IND_V02 = 0x004D"
definition QMI_LOC_INJECT_TIME_SYNC_DATA_IND_V02 :: u32 where "QMI_LOC_INJECT_TIME_SYNC_DATA_IND_V02 = 0x004E"
definition QMI_LOC_SET_CRADLE_MOUNT_CONFIG_IND_V02 :: u32 where "QMI_LOC_SET_CRADLE_MOUNT_CONFIG_IND_V02 = 0x004F"
definition QMI_LOC_GET_CRADLE_MOUNT_CONFIG_IND_V02 :: u32 where "QMI_LOC_GET_CRADLE_MOUNT_CONFIG_IND_V02 = 0x0050"
definition QMI_LOC_SET_EXTERNAL_POWER_CONFIG_IND_V02 :: u32 where "QMI_LOC_SET_EXTERNAL_POWER_CONFIG_IND_V02 = 0x0051"
definition QMI_LOC_GET_EXTERNAL_POWER_CONFIG_IND_V02 :: u32 where "QMI_LOC_GET_EXTERNAL_POWER_CONFIG_IND_V02 = 0x0052"
definition QMI_LOC_INFORM_LOCATION_SERVER_CONN_STATUS_IND_V02 :: u32 where "QMI_LOC_INFORM_LOCATION_SERVER_CONN_STATUS_IND_V02 = 0x0053"
definition QMI_LOC_SET_PROTOCOL_CONFIG_PARAMETERS_IND_V02 :: u32 where "QMI_LOC_SET_PROTOCOL_CONFIG_PARAMETERS_IND_V02 = 0x0054"
definition QMI_LOC_GET_PROTOCOL_CONFIG_PARAMETERS_IND_V02 :: u32 where "QMI_LOC_GET_PROTOCOL_CONFIG_PARAMETERS_IND_V02 = 0x0055"
definition QMI_LOC_SET_SENSOR_CONTROL_CONFIG_IND_V02 :: u32 where "QMI_LOC_SET_SENSOR_CONTROL_CONFIG_IND_V02 = 0x0056"
definition QMI_LOC_GET_SENSOR_CONTROL_CONFIG_IND_V02 :: u32 where "QMI_LOC_GET_SENSOR_CONTROL_CONFIG_IND_V02 = 0x0057"
definition QMI_LOC_SET_SENSOR_PROPERTIES_IND_V02 :: u32 where "QMI_LOC_SET_SENSOR_PROPERTIES_IND_V02 = 0x0058"
definition QMI_LOC_GET_SENSOR_PROPERTIES_IND_V02 :: u32 where "QMI_LOC_GET_SENSOR_PROPERTIES_IND_V02 = 0x0059"
definition QMI_LOC_SET_SENSOR_PERFORMANCE_CONTROL_CONFIGURATION_IND_V02 :: u32 where "QMI_LOC_SET_SENSOR_PERFORMANCE_CONTROL_CONFIGURATION_IND_V02 = 0x005A"
definition QMI_LOC_GET_SENSOR_PERFORMANCE_CONTROL_CONFIGURATION_IND_V02 :: u32 where "QMI_LOC_GET_SENSOR_PERFORMANCE_CONTROL_CONFIGURATION_IND_V02 = 0x005B"
definition QMI_LOC_INJECT_SUPL_CERTIFICATE_IND_V02 :: u32 where "QMI_LOC_INJECT_SUPL_CERTIFICATE_IND_V02 = 0x005C"
definition QMI_LOC_DELETE_SUPL_CERTIFICATE_IND_V02 :: u32 where "QMI_LOC_DELETE_SUPL_CERTIFICATE_IND_V02 = 0x005D"
definition QMI_LOC_SET_POSITION_ENGINE_CONFIG_PARAMETERS_IND_V02 :: u32 where "QMI_LOC_SET_POSITION_ENGINE_CONFIG_PARAMETERS_IND_V02 = 0x005E"
definition QMI_LOC_GET_POSITION_ENGINE_CONFIG_PARAMETERS_IND_V02 :: u32 where "QMI_LOC_GET_POSITION_ENGINE_CONFIG_PARAMETERS_IND_V02 = 0x005F"
definition QMI_LOC_ADD_CIRCULAR_GEOFENCE_IND_V02 :: u32 where "QMI_LOC_ADD_CIRCULAR_GEOFENCE_IND_V02 = 0x0063"
definition QMI_LOC_DELETE_GEOFENCE_IND_V02 :: u32 where "QMI_LOC_DELETE_GEOFENCE_IND_V02 = 0x0064"
definition QMI_LOC_QUERY_GEOFENCE_IND_V02 :: u32 where "QMI_LOC_QUERY_GEOFENCE_IND_V02 = 0x0065"
definition QMI_LOC_EDIT_GEOFENCE_IND_V02 :: u32 where "QMI_LOC_EDIT_GEOFENCE_IND_V02 = 0x0066"
definition QMI_LOC_GET_BEST_AVAILABLE_POSITION_IND_V02 :: u32 where "QMI_LOC_GET_BEST_AVAILABLE_POSITION_IND_V02 = 0x0067"
definition QMI_LOC_SECURE_GET_AVAILABLE_POSITION_IND_V02 :: u32 where "QMI_LOC_SECURE_GET_AVAILABLE_POSITION_IND_V02 = 0x0096"
definition QMI_LOC_INJECT_MOTION_DATA_IND_V02 :: u32 where "QMI_LOC_INJECT_MOTION_DATA_IND_V02 = 0x0068"
definition QMI_LOC_GET_NI_GEOFENCE_ID_LIST_IND_V02 :: u32 where "QMI_LOC_GET_NI_GEOFENCE_ID_LIST_IND_V02 = 0x0069"
definition QMI_LOC_INJECT_GSM_CELL_INFO_IND_V02 :: u32 where "QMI_LOC_INJECT_GSM_CELL_INFO_IND_V02 = 0x006A"
definition QMI_LOC_INJECT_NETWORK_INITIATED_MESSAGE_IND_V02 :: u32 where "QMI_LOC_INJECT_NETWORK_INITIATED_MESSAGE_IND_V02 = 0x006B"
definition QMI_LOC_WWAN_OUT_OF_SERVICE_NOTIFICATION_IND_V02 :: u32 where "QMI_LOC_WWAN_OUT_OF_SERVICE_NOTIFICATION_IND_V02 = 0x006C"
definition QMI_LOC_PEDOMETER_REPORT_IND_V02 :: u32 where "QMI_LOC_PEDOMETER_REPORT_IND_V02 = 0x006F"
definition QMI_LOC_INJECT_WCDMA_CELL_INFO_IND_V02 :: u32 where "QMI_LOC_INJECT_WCDMA_CELL_INFO_IND_V02 = 0x0070"
definition QMI_LOC_INJECT_TDSCDMA_CELL_INFO_IND_V02 :: u32 where "QMI_LOC_INJECT_TDSCDMA_CELL_INFO_IND_V02 = 0x0071"
definition QMI_LOC_INJECT_SUBSCRIBER_ID_IND_V02 :: u32 where "QMI_LOC_INJECT_SUBSCRIBER_ID_IND_V02 = 0x0072"
definition QMI_LOC_INJECT_WIFI_AP_DATA_IND_V02 :: u32 where "QMI_LOC_INJECT_WIFI_AP_DATA_IND_V02 = 0x007D"
definition QMI_LOC_START_BATCHING_IND_V02 :: u32 where "QMI_LOC_START_BATCHING_IND_V02 = 0x0076"
definition QMI_LOC_STOP_BATCHING_IND_V02 :: u32 where "QMI_LOC_STOP_BATCHING_IND_V02 = 0x007A"
definition QMI_LOC_GET_BATCH_SIZE_IND_V02 :: u32 where "QMI_LOC_GET_BATCH_SIZE_IND_V02 = 0x0075"
definition QMI_LOC_READ_FROM_BATCH_IND_V02 :: u32 where "QMI_LOC_READ_FROM_BATCH_IND_V02 = 0x0079"
definition QMI_LOC_RELEASE_BATCH_IND_V02 :: u32 where "QMI_LOC_RELEASE_BATCH_IND_V02 = 0x007B"
definition QMI_LOC_SET_XTRA_VERSION_CHECK_IND_V02 :: u32 where "QMI_LOC_SET_XTRA_VERSION_CHECK_IND_V02 = 0x0085"
definition QMI_LOC_INJECT_VEHICLE_SENSOR_DATA_IND_V02 :: u32 where "QMI_LOC_INJECT_VEHICLE_SENSOR_DATA_IND_V02 = 0x0082"
definition QMI_LOC_NOTIFY_WIFI_ATTACHMENT_STATUS_IND_V02 :: u32 where "QMI_LOC_NOTIFY_WIFI_ATTACHMENT_STATUS_IND_V02 = 0x007E"
definition QMI_LOC_NOTIFY_WIFI_ENABLED_STATUS_IND_V02 :: u32 where "QMI_LOC_NOTIFY_WIFI_ENABLED_STATUS_IND_V02 = 0x007F"
definition QMI_LOC_SET_PREMIUM_SERVICES_CONFIG_IND_V02 :: u32 where "QMI_LOC_SET_PREMIUM_SERVICES_CONFIG_IND_V02 = 0x0084"
definition QMI_LOC_GET_AVAILABLE_WWAN_POSITION_IND_V02 :: u32 where "QMI_LOC_GET_AVAILABLE_WWAN_POSITION_IND_V02 = 0x0083"
definition QMI_LOC_INJECT_GTP_CLIENT_DOWNLOADED_DATA_IND_V02 :: u32 where "QMI_LOC_INJECT_GTP_CLIENT_DOWNLOADED_DATA_IND_V02 = 0x008D"
definition QMI_LOC_GDT_UPLOAD_BEGIN_STATUS_IND_V02 :: u32 where "QMI_LOC_GDT_UPLOAD_BEGIN_STATUS_IND_V02 = 0x008E"
definition QMI_LOC_GDT_UPLOAD_END_IND_V02 :: u32 where "QMI_LOC_GDT_UPLOAD_END_IND_V02 = 0x008F"
definition QMI_LOC_SET_GNSS_CONSTELL_REPORT_CONFIG_IND_V02 :: u32 where "QMI_LOC_SET_GNSS_CONSTELL_REPORT_CONFIG_IND_V02 = 0x0088"
definition QMI_LOC_START_DBT_IND_V02 :: u32 where "QMI_LOC_START_DBT_IND_V02 = 0x0092"
definition QMI_LOC_STOP_DBT_IND_V02 :: u32 where "QMI_LOC_STOP_DBT_IND_V02 = 0x0095"
definition QMI_LOC_INJECT_TIME_ZONE_INFO_IND_V02 :: u32 where "QMI_LOC_INJECT_TIME_ZONE_INFO_IND_V02 = 0x0099"
definition QMI_LOC_QUERY_AON_CONFIG_IND_V02 :: u32 where "QMI_LOC_QUERY_AON_CONFIG_IND_V02 = 0x009D"
definition QMI_LOC_GTP_AP_STATUS_IND_V02 :: u32 where "QMI_LOC_GTP_AP_STATUS_IND_V02 = 0x009E"
definition QMI_LOC_GDT_DOWNLOAD_BEGIN_STATUS_IND_V02 :: u32 where "QMI_LOC_GDT_DOWNLOAD_BEGIN_STATUS_IND_V02 = 0x009F"
definition QMI_LOC_GDT_DOWNLOAD_READY_STATUS_IND_V02 :: u32 where "QMI_LOC_GDT_DOWNLOAD_READY_STATUS_IND_V02 = 0x00A0"
definition QMI_LOC_GDT_RECEIVE_DONE_STATUS_IND_V02 :: u32 where "QMI_LOC_GDT_RECEIVE_DONE_STATUS_IND_V02 = 0x00A1"
definition QMI_LOC_GDT_DOWNLOAD_END_STATUS_IND_V02 :: u32 where "QMI_LOC_GDT_DOWNLOAD_END_STATUS_IND_V02 = 0x00A2"
definition QMI_LOC_INJECT_XTRA_DATA_IND_V02 :: u32 where "QMI_LOC_INJECT_XTRA_DATA_IND_V02 = 0x00A7"
definition QMI_LOC_INJECT_XTRA_PCID_IND_V02 :: u32 where "QMI_LOC_INJECT_XTRA_PCID_IND_V02 = 0x00A8"
definition QMI_LOC_INFORM_CLIENT_REVISION_REQ_V02 :: u32 where "QMI_LOC_INFORM_CLIENT_REVISION_REQ_V02 = 0x0020"
definition QMI_LOC_REG_EVENTS_REQ_V02 :: u32 where "QMI_LOC_REG_EVENTS_REQ_V02 = 0x0021"
definition QMI_LOC_START_REQ_V02 :: u32 where "QMI_LOC_START_REQ_V02 = 0x0022"
definition QMI_LOC_STOP_REQ_V02 :: u32 where "QMI_LOC_STOP_REQ_V02 = 0x0023"
definition QMI_LOC_NI_USER_RESPONSE_REQ_V02 :: u32 where "QMI_LOC_NI_USER_RESPONSE_REQ_V02 = 0x0034"
definition QMI_LOC_INJECT_PREDICTED_ORBITS_DATA_REQ_V02 :: u32 where "QMI_LOC_INJECT_PREDICTED_ORBITS_DATA_REQ_V02 = 0x0035"
definition QMI_LOC_INJECT_UTC_TIME_REQ_V02 :: u32 where "QMI_LOC_INJECT_UTC_TIME_REQ_V02 = 0x0038"
definition QMI_LOC_INJECT_POSITION_REQ_V02 :: u32 where "QMI_LOC_INJECT_POSITION_REQ_V02 = 0x0039"
definition QMI_LOC_SET_ENGINE_LOCK_REQ_V02 :: u32 where "QMI_LOC_SET_ENGINE_LOCK_REQ_V02 = 0x003A"
definition QMI_LOC_SET_SBAS_CONFIG_REQ_V02 :: u32 where "QMI_LOC_SET_SBAS_CONFIG_REQ_V02 = 0x003C"
definition QMI_LOC_SET_NMEA_TYPES_REQ_V02 :: u32 where "QMI_LOC_SET_NMEA_TYPES_REQ_V02 = 0x003E"
definition QMI_LOC_SET_LOW_POWER_MODE_REQ_V02 :: u32 where "QMI_LOC_SET_LOW_POWER_MODE_REQ_V02 = 0x0040"
definition QMI_LOC_SET_SERVER_REQ_V02 :: u32 where "QMI_LOC_SET_SERVER_REQ_V02 = 0x0042"
definition QMI_LOC_DELETE_ASSIST_DATA_REQ_V02 :: u32 where "QMI_LOC_DELETE_ASSIST_DATA_REQ_V02 = 0x0044"
definition QMI_LOC_INJECT_APCACHE_DATA_REQ_V02 :: u32 where "QMI_LOC_INJECT_APCACHE_DATA_REQ_V02 = 0x009A"
definition QMI_LOC_INJECT_APDONOTCACHE_DATA_REQ_V02 :: u32 where "QMI_LOC_INJECT_APDONOTCACHE_DATA_REQ_V02 = 0x009B"
definition QMI_LOC_SET_XTRA_T_SESSION_CONTROL_REQ_V02 :: u32 where "QMI_LOC_SET_XTRA_T_SESSION_CONTROL_REQ_V02 = 0x0045"
definition QMI_LOC_INJECT_WIFI_POSITION_REQ_V02 :: u32 where "QMI_LOC_INJECT_WIFI_POSITION_REQ_V02 = 0x0047"
definition QMI_LOC_NOTIFY_WIFI_STATUS_REQ_V02 :: u32 where "QMI_LOC_NOTIFY_WIFI_STATUS_REQ_V02 = 0x0048"
definition QMI_LOC_SET_OPERATION_MODE_REQ_V02 :: u32 where "QMI_LOC_SET_OPERATION_MODE_REQ_V02 = 0x004A"
definition QMI_LOC_SET_SPI_STATUS_REQ_V02 :: u32 where "QMI_LOC_SET_SPI_STATUS_REQ_V02 = 0x004C"
definition QMI_LOC_INJECT_SENSOR_DATA_REQ_V02 :: u32 where "QMI_LOC_INJECT_SENSOR_DATA_REQ_V02 = 0x004D"
definition QMI_LOC_INJECT_TIME_SYNC_DATA_REQ_V02 :: u32 where "QMI_LOC_INJECT_TIME_SYNC_DATA_REQ_V02 = 0x004E"
definition QMI_LOC_SET_CRADLE_MOUNT_CONFIG_REQ_V02 :: u32 where "QMI_LOC_SET_CRADLE_MOUNT_CONFIG_REQ_V02 = 0x004F"
definition QMI_LOC_SET_EXTERNAL_POWER_CONFIG_REQ_V02 :: u32 where "QMI_LOC_SET_EXTERNAL_POWER_CONFIG_REQ_V02 = 0x0051"
definition QMI_LOC_INFORM_LOCATION_SERVER_CONN_STATUS_REQ_V02 :: u32 where "QMI_LOC_INFORM_LOCATION_SERVER_CONN_STATUS_REQ_V02 = 0x0053"
definition QMI_LOC_SET_PROTOCOL_CONFIG_PARAMETERS_REQ_V02 :: u32 where "QMI_LOC_SET_PROTOCOL_CONFIG_PARAMETERS_REQ_V02 = 0x0054"
definition QMI_LOC_GET_PROTOCOL_CONFIG_PARAMETERS_REQ_V02 :: u32 where "QMI_LOC_GET_PROTOCOL_CONFIG_PARAMETERS_REQ_V02 = 0x0055"
definition QMI_LOC_SET_SENSOR_CONTROL_CONFIG_REQ_V02 :: u32 where "QMI_LOC_SET_SENSOR_CONTROL_CONFIG_REQ_V02 = 0x0056"
definition QMI_LOC_GET_SENSOR_PROPERTIES_REQ_V02 :: u32 where "QMI_LOC_GET_SENSOR_PROPERTIES_REQ_V02 = 0x0059"
definition QMI_LOC_SET_SENSOR_PROPERTIES_REQ_V02 :: u32 where "QMI_LOC_SET_SENSOR_PROPERTIES_REQ_V02 = 0x0058"
definition QMI_LOC_SET_SENSOR_PERFORMANCE_CONTROL_CONFIGURATION_REQ_V02 :: u32 where "QMI_LOC_SET_SENSOR_PERFORMANCE_CONTROL_CONFIGURATION_REQ_V02 = 0x005A"
definition QMI_LOC_INJECT_SUPL_CERTIFICATE_REQ_V02 :: u32 where "QMI_LOC_INJECT_SUPL_CERTIFICATE_REQ_V02 = 0x005C"
definition QMI_LOC_DELETE_SUPL_CERTIFICATE_REQ_V02 :: u32 where "QMI_LOC_DELETE_SUPL_CERTIFICATE_REQ_V02 = 0x005D"
definition QMI_LOC_SET_POSITION_ENGINE_CONFIG_PARAMETERS_REQ_V02 :: u32 where "QMI_LOC_SET_POSITION_ENGINE_CONFIG_PARAMETERS_REQ_V02 = 0x005E"
definition QMI_LOC_GET_POSITION_ENGINE_CONFIG_PARAMETERS_REQ_V02 :: u32 where "QMI_LOC_GET_POSITION_ENGINE_CONFIG_PARAMETERS_REQ_V02 = 0x005F"
definition QMI_LOC_ADD_CIRCULAR_GEOFENCE_REQ_V02 :: u32 where "QMI_LOC_ADD_CIRCULAR_GEOFENCE_REQ_V02 = 0x0063"
definition QMI_LOC_DELETE_GEOFENCE_REQ_V02 :: u32 where "QMI_LOC_DELETE_GEOFENCE_REQ_V02 = 0x0064"
definition QMI_LOC_QUERY_GEOFENCE_REQ_V02 :: u32 where "QMI_LOC_QUERY_GEOFENCE_REQ_V02 = 0x0065"
definition QMI_LOC_EDIT_GEOFENCE_REQ_V02 :: u32 where "QMI_LOC_EDIT_GEOFENCE_REQ_V02 = 0x0066"
definition QMI_LOC_GET_BEST_AVAILABLE_POSITION_REQ_V02 :: u32 where "QMI_LOC_GET_BEST_AVAILABLE_POSITION_REQ_V02 = 0x0067"
definition QMI_LOC_SECURE_GET_AVAILABLE_POSITION_REQ_V02 :: u32 where "QMI_LOC_SECURE_GET_AVAILABLE_POSITION_REQ_V02 = 0x0096"
definition QMI_LOC_INJECT_MOTION_DATA_REQ_V02 :: u32 where "QMI_LOC_INJECT_MOTION_DATA_REQ_V02 = 0x0068"
definition QMI_LOC_GET_NI_GEOFENCE_ID_LIST_REQ_V02 :: u32 where "QMI_LOC_GET_NI_GEOFENCE_ID_LIST_REQ_V02 = 0x0069"
definition QMI_LOC_INJECT_GSM_CELL_INFO_REQ_V02 :: u32 where "QMI_LOC_INJECT_GSM_CELL_INFO_REQ_V02 = 0x006A"
definition QMI_LOC_INJECT_NETWORK_INITIATED_MESSAGE_REQ_V02 :: u32 where "QMI_LOC_INJECT_NETWORK_INITIATED_MESSAGE_REQ_V02 = 0x006B"
definition QMI_LOC_PEDOMETER_REPORT_REQ_V02 :: u32 where "QMI_LOC_PEDOMETER_REPORT_REQ_V02 = 0x006F"
definition QMI_LOC_INJECT_WCDMA_CELL_INFO_REQ_V02 :: u32 where "QMI_LOC_INJECT_WCDMA_CELL_INFO_REQ_V02 = 0x0070"
definition QMI_LOC_INJECT_TDSCDMA_CELL_INFO_REQ_V02 :: u32 where "QMI_LOC_INJECT_TDSCDMA_CELL_INFO_REQ_V02 = 0x0071"
definition QMI_LOC_INJECT_WIFI_AP_DATA_REQ_V02 :: u32 where "QMI_LOC_INJECT_WIFI_AP_DATA_REQ_V02 = 0x007D"
definition QMI_LOC_GET_BATCH_SIZE_REQ_V02 :: u32 where "QMI_LOC_GET_BATCH_SIZE_REQ_V02 = 0x0075"
definition QMI_LOC_START_BATCHING_REQ_V02 :: u32 where "QMI_LOC_START_BATCHING_REQ_V02 = 0x0076"
definition QMI_LOC_READ_FROM_BATCH_REQ_V02 :: u32 where "QMI_LOC_READ_FROM_BATCH_REQ_V02 = 0x0079"
definition QMI_LOC_STOP_BATCHING_REQ_V02 :: u32 where "QMI_LOC_STOP_BATCHING_REQ_V02 = 0x007A"
definition QMI_LOC_RELEASE_BATCH_REQ_V02 :: u32 where "QMI_LOC_RELEASE_BATCH_REQ_V02 = 0x007B"
definition QMI_LOC_SET_XTRA_VERSION_CHECK_REQ_V02 :: u32 where "QMI_LOC_SET_XTRA_VERSION_CHECK_REQ_V02 = 0x0085"
definition QMI_LOC_INJECT_VEHICLE_SENSOR_DATA_REQ_V02 :: u32 where "QMI_LOC_INJECT_VEHICLE_SENSOR_DATA_REQ_V02 = 0x0082"
definition QMI_LOC_NOTIFY_WIFI_ATTACHMENT_STATUS_REQ_V02 :: u32 where "QMI_LOC_NOTIFY_WIFI_ATTACHMENT_STATUS_REQ_V02 = 0x007E"
definition QMI_LOC_NOTIFY_WIFI_ENABLED_STATUS_REQ_V02 :: u32 where "QMI_LOC_NOTIFY_WIFI_ENABLED_STATUS_REQ_V02 = 0x007F"
definition QMI_LOC_SET_PREMIUM_SERVICES_CONFIG_REQ_V02 :: u32 where "QMI_LOC_SET_PREMIUM_SERVICES_CONFIG_REQ_V02 = 0x0084"
definition QMI_LOC_GET_AVAILABLE_WWAN_POSITION_REQ_V02 :: u32 where "QMI_LOC_GET_AVAILABLE_WWAN_POSITION_REQ_V02 = 0x0083"
definition QMI_LOC_INJECT_GTP_CLIENT_DOWNLOADED_DATA_REQ_V02 :: u32 where "QMI_LOC_INJECT_GTP_CLIENT_DOWNLOADED_DATA_REQ_V02 = 0x008D"
definition QMI_LOC_GDT_UPLOAD_BEGIN_STATUS_REQ_V02 :: u32 where "QMI_LOC_GDT_UPLOAD_BEGIN_STATUS_REQ_V02 = 0x008E"
definition QMI_LOC_GDT_UPLOAD_END_REQ_V02 :: u32 where "QMI_LOC_GDT_UPLOAD_END_REQ_V02 = 0x008F"
definition QMI_LOC_SET_GNSS_CONSTELL_REPORT_CONFIG_V02 :: u32 where "QMI_LOC_SET_GNSS_CONSTELL_REPORT_CONFIG_V02 = 0x0088"
definition QMI_LOC_START_DBT_REQ_V02 :: u32 where "QMI_LOC_START_DBT_REQ_V02 = 0x0092"
definition QMI_LOC_STOP_DBT_REQ_V02 :: u32 where "QMI_LOC_STOP_DBT_REQ_V02 = 0x0095"
definition QMI_LOC_INJECT_TIME_ZONE_INFO_REQ_V02 :: u32 where "QMI_LOC_INJECT_TIME_ZONE_INFO_REQ_V02 = 0x0099"
definition QMI_LOC_QUERY_AON_CONFIG_REQ_V02 :: u32 where "QMI_LOC_QUERY_AON_CONFIG_REQ_V02 = 0x009D"
definition QMI_LOC_GTP_AP_STATUS_REQ_V02 :: u32 where "QMI_LOC_GTP_AP_STATUS_REQ_V02 = 0x009E"
definition QMI_LOC_GDT_DOWNLOAD_BEGIN_STATUS_REQ_V02 :: u32 where "QMI_LOC_GDT_DOWNLOAD_BEGIN_STATUS_REQ_V02 = 0x009F"
definition QMI_LOC_GDT_DOWNLOAD_READY_STATUS_REQ_V02 :: u32 where "QMI_LOC_GDT_DOWNLOAD_READY_STATUS_REQ_V02 = 0x00A0"
definition QMI_LOC_GDT_RECEIVE_DONE_STATUS_REQ_V02 :: u32 where "QMI_LOC_GDT_RECEIVE_DONE_STATUS_REQ_V02 = 0x00A1"
definition QMI_LOC_GDT_DOWNLOAD_END_STATUS_REQ_V02 :: u32 where "QMI_LOC_GDT_DOWNLOAD_END_STATUS_REQ_V02 = 0x00A2"
definition QMI_LOC_INJECT_XTRA_DATA_REQ_V02 :: u32 where "QMI_LOC_INJECT_XTRA_DATA_REQ_V02 = 0x00A7"
definition QMI_LOC_INJECT_XTRA_PCID_REQ_V02 :: u32 where "QMI_LOC_INJECT_XTRA_PCID_REQ_V02 = 0x00A8"
definition QMI_LOC_GET_SERVICE_REVISION_REQ_V02 :: u32 where "QMI_LOC_GET_SERVICE_REVISION_REQ_V02 = 0x0032"
definition QMI_LOC_GET_FIX_CRITERIA_REQ_V02 :: u32 where "QMI_LOC_GET_FIX_CRITERIA_REQ_V02 = 0x0033"
definition QMI_LOC_GET_PREDICTED_ORBITS_DATA_SOURCE_REQ_V02 :: u32 where "QMI_LOC_GET_PREDICTED_ORBITS_DATA_SOURCE_REQ_V02 = 0x0036"
definition QMI_LOC_GET_PREDICTED_ORBITS_DATA_VALIDITY_REQ_V02 :: u32 where "QMI_LOC_GET_PREDICTED_ORBITS_DATA_VALIDITY_REQ_V02 = 0x0037"
definition QMI_LOC_GET_ENGINE_LOCK_REQ_V02 :: u32 where "QMI_LOC_GET_ENGINE_LOCK_REQ_V02 = 0x003B"
definition QMI_LOC_GET_SBAS_CONFIG_REQ_V02 :: u32 where "QMI_LOC_GET_SBAS_CONFIG_REQ_V02 = 0x003D"
definition QMI_LOC_GET_NMEA_TYPES_REQ_V02 :: u32 where "QMI_LOC_GET_NMEA_TYPES_REQ_V02 = 0x003F"
definition QMI_LOC_GET_LOW_POWER_MODE_REQ_V02 :: u32 where "QMI_LOC_GET_LOW_POWER_MODE_REQ_V02 = 0x0041"
definition QMI_LOC_GET_SERVER_REQ_V02 :: u32 where "QMI_LOC_GET_SERVER_REQ_V02 = 0x0043"
definition QMI_LOC_GET_XTRA_T_SESSION_CONTROL_REQ_V02 :: u32 where "QMI_LOC_GET_XTRA_T_SESSION_CONTROL_REQ_V02 = 0x0046"
definition QMI_LOC_GET_REGISTERED_EVENTS_REQ_V02 :: u32 where "QMI_LOC_GET_REGISTERED_EVENTS_REQ_V02 = 0x0049"
definition QMI_LOC_GET_OPERATION_MODE_REQ_V02 :: u32 where "QMI_LOC_GET_OPERATION_MODE_REQ_V02 = 0x004B"
definition QMI_LOC_GET_CRADLE_MOUNT_CONFIG_REQ_V02 :: u32 where "QMI_LOC_GET_CRADLE_MOUNT_CONFIG_REQ_V02 = 0x0050"
definition QMI_LOC_GET_EXTERNAL_POWER_CONFIG_REQ_V02 :: u32 where "QMI_LOC_GET_EXTERNAL_POWER_CONFIG_REQ_V02 = 0x0052"
definition QMI_LOC_GET_SENSOR_CONTROL_CONFIG_REQ_V02 :: u32 where "QMI_LOC_GET_SENSOR_CONTROL_CONFIG_REQ_V02 = 0x0057"
definition QMI_LOC_GET_SENSOR_PERFORMANCE_CONTROL_CONFIGURATION_REQ_V02 :: u32 where "QMI_LOC_GET_SENSOR_PERFORMANCE_CONTROL_CONFIGURATION_REQ_V02 = 0x005B"
definition QMI_LOC_WWAN_OUT_OF_SERVICE_NOTIFICATION_REQ_V02 :: u32 where "QMI_LOC_WWAN_OUT_OF_SERVICE_NOTIFICATION_REQ_V02 = 0x006C"
definition QMI_LOC_GET_SUPPORTED_MSGS_REQ_V02 :: u32 where "QMI_LOC_GET_SUPPORTED_MSGS_REQ_V02 = 0x001E"
definition QMI_LOC_GET_SUPPORTED_FIELDS_REQ_V02 :: u32 where "QMI_LOC_GET_SUPPORTED_FIELDS_REQ_V02 = 0x001F"

subsection \<open>Event masks\<close>

definition QMI_LOC_EVENT_MASK_POSITION_REPORT_V02 :: u64 where "QMI_LOC_EVENT_MASK_POSITION_REPORT_V02 = 0x1"
definition QMI_LOC_EVENT_MASK_GNSS_SV_INFO_V02 :: u64 where "QMI_LOC_EVENT_MASK_GNSS_SV_INFO_V02 = 0x2"
definition QMI_LOC_EVENT_MASK_NMEA_V02 :: u64 where "QMI_LOC_EVENT_MASK_NMEA_V02 = 0x4"
definition QMI_LOC_EVENT_MASK_NI_NOTIFY_VERIFY_REQ_V02 :: u64 where "QMI_LOC_EVENT_MASK_NI_NOTIFY_VERIFY_REQ_V02 = 0x8"
definition QMI_LOC_EVENT_MASK_INJECT_TIME_REQ_V02 :: u64 where "QMI_LOC_EVENT_MASK_INJECT_TIME_REQ_V02 = 0x10"
definition QMI_LOC_EVENT_MASK_INJECT_PREDICTED_ORBITS_REQ_V02 :: u64 where "QMI_LOC_EVENT_MASK_INJECT_PREDICTED_ORBITS_REQ_V02 = 0x20"
definition QMI_LOC_EVENT_MASK_INJECT_POSITION_REQ_V02 :: u64 where "QMI_LOC_EVENT_MASK_INJECT_POSITION_REQ_V02 = 0x40"
definition QMI_LOC_EVENT_MASK_ENGINE_STATE_V02 :: u64 where "QMI_LOC_EVENT_MASK_ENGINE_STATE_V02 = 0x80"
definition QMI_LOC_EVENT_MASK_FIX_SESSION_STATE_V02 :: u64 where "QMI_LOC_EVENT_MASK_FIX_SESSION_STATE_V02 = 0x100"
definition QMI_LOC_EVENT_MASK_WIFI_REQ_V02 :: u64 where "QMI_LOC_EVENT_MASK_WIFI_REQ_V02 = 0x200"
definition QMI_LOC_EVENT_MASK_SENSOR_STREAMING_READY_STATUS_V02 :: u64 where "QMI_LOC_EVENT_MASK_SENSOR_STREAMING_READY_STATUS_V02 = 0x400"
definition QMI_LOC_EVENT_MASK_TIME_SYNC_REQ_V02 :: u64 where "QMI_LOC_EVENT_MASK_TIME_SYNC_REQ_V02 = 0x800"
definition QMI_LOC_EVENT_MASK_SET_SPI_STREAMING_REPORT_V02 :: u64 where "QMI_LOC_EVENT_MASK_SET_SPI_STREAMING_REPORT_V02 = 0x1000"
definition QMI_LOC_EVENT_MASK_LOCATION_SERVER_CONNECTION_REQ_V02 :: u64 where "QMI_LOC_EVENT_MASK_LOCATION_SERVER_CONNECTION_REQ_V02 = 0x2000"
definition QMI_LOC_EVENT_MASK_NI_GEOFENCE_NOTIFICATION_V02 :: u64 where "QMI_LOC_EVENT_MASK_NI_GEOFENCE_NOTIFICATION_V02 = 0x4000"
definition QMI_LOC_EVENT_MASK_GEOFENCE_GEN_ALERT_V02 :: u64 where "QMI_LOC_EVENT_MASK_GEOFENCE_GEN_ALERT_V02 = 0x8000"
definition QMI_LOC_EVENT_MASK_GEOFENCE_BREACH_NOTIFICATION_V02 :: u64 where "QMI_LOC_EVENT_MASK_GEOFENCE_BREACH_NOTIFICATION_V02 = 0x10000"
definition QMI_LOC_EVENT_MASK_GEOFENCE_BATCH_BREACH_NOTIFICATION_V02 :: u64 where "QMI_LOC_EVENT_MASK_GEOFENCE_BATCH_BREACH_NOTIFICATION_V02 = 0x400000"
definition QMI_LOC_EVENT_MASK_PEDOMETER_CONTROL_V02 :: u64 where "QMI_LOC_EVENT_MASK_PEDOMETER_CONTROL_V02 = 0x20000"
definition QMI_LOC_EVENT_MASK_MOTION_DATA_CONTROL_V02 :: u64 where "QMI_LOC_EVENT_MASK_MOTION_DATA_CONTROL_V02 = 0x40000"
definition QMI_LOC_EVENT_MASK_INJECT_WIFI_AP_DATA_REQ_V02 :: u64 where "QMI_LOC_EVENT_MASK_INJECT_WIFI_AP_DATA_REQ_V02 = 0x200000"
definition QMI_LOC_EVENT_MASK_LIVE_BATCHED_POSITION_REPORT_V02 :: u64 where "QMI_LOC_EVENT_MASK_LIVE_BATCHED_POSITION_REPORT_V02 = 0x100000"
definition QMI_LOC_EVENT_MASK_BATCH_FULL_NOTIFICATION_V02 :: u64 where "QMI_LOC_EVENT_MASK_BATCH_FULL_NOTIFICATION_V02 = 0x80000"
definition QMI_LOC_EVENT_MASK_VEHICLE_DATA_READY_STATUS_V02 :: u64 where "QMI_LOC_EVENT_MASK_VEHICLE_DATA_READY_STATUS_V02 = 0x800000"
definition QMI_LOC_EVENT_MASK_GEOFENCE_PROXIMITY_NOTIFICATION_V02 :: u64 where "QMI_LOC_EVENT_MASK_GEOFENCE_PROXIMITY_NOTIFICATION_V02 = 0x4000000"
definition QMI_LOC_EVENT_MASK_GDT_UPLOAD_BEGIN_REQ_V02 :: u64 where "QMI_LOC_EVENT_MASK_GDT_UPLOAD_BEGIN_REQ_V02 = 0x8000000"
definition QMI_LOC_EVENT_MASK_GDT_UPLOAD_END_REQ_V02 :: u64 where "QMI_LOC_EVENT_MASK_GDT_UPLOAD_END_REQ_V02 = 0x10000000"
definition QMI_LOC_EVENT_MASK_GNSS_MEASUREMENT_REPORT_V02 :: u64 where "QMI_LOC_EVENT_MASK_GNSS_MEASUREMENT_REPORT_V02 = 0x1000000"
definition QMI_LOC_EVENT_MASK_GEOFENCE_BATCH_DWELL_NOTIFICATION_V02 :: u64 where "QMI_LOC_EVENT_MASK_GEOFENCE_BATCH_DWELL_NOTIFICATION_V02 = 0x20000000"
definition QMI_LOC_EVENT_MASK_GET_TIME_ZONE_REQ_V02 :: u64 where "QMI_LOC_EVENT_MASK_GET_TIME_ZONE_REQ_V02 = 0x40000000"
definition QMI_LOC_EVENT_MASK_BATCHING_STATUS_V02 :: u64 where "QMI_LOC_EVENT_MASK_BATCHING_STATUS_V02 = 0x80000000"

lemmas qmi_ids =
  QMI_LOC_EVENT_POSITION_REPORT_IND_V02_def
  QMI_LOC_EVENT_GNSS_SV_INFO_IND_V02_def
  QMI_LOC_EVENT_NMEA_IND_V02_def
  QMI_LOC_EVENT_NI_NOTIFY_VERIFY_REQ_IND_V02_def
  QMI_LOC_EVENT_INJECT_TIME_REQ_IND_V02_def
  QMI_LOC_EVENT_INJECT_PREDICTED_ORBITS_REQ_IND_V02_def
  QMI_LOC_EVENT_INJECT_POSITION_REQ_IND_V02_def
  QMI_LOC_EVENT_ENGINE_STATE_IND_V02_def
  QMI_LOC_EVENT_FIX_SESSION_STATE_IND_V02_def
  QMI_LOC_EVENT_WIFI_REQ_IND_V02_def
  QMI_LOC_EVENT_SENSOR_STREAMING_READY_STATUS_IND_V02_def
  QMI_LOC_EVENT_TIME_SYNC_REQ_IND_V02_def
  QMI_LOC_EVENT_SET_SPI_STREAMING_REPORT_IND_V02_def
  QMI_LOC_EVENT_LOCATION_SERVER_CONNECTION_REQ_IND_V02_def
  QMI_LOC_EVENT_NI_GEOFENCE_NOTIFICATION_IND_V02_def
  QMI_LOC_EVENT_GEOFENCE_GEN_ALERT_IND_V02_def
  QMI_LOC_EVENT_GEOFENCE_BREACH_NOTIFICATION_IND_V02_def
  QMI_LOC_EVENT_GEOFENCE_BATCHED_BREACH_NOTIFICATION_IND_V02_def
  QMI_LOC_EVENT_PEDOMETER_CONTROL_IND_V02_def
  QMI_LOC_EVENT_MOTION_DATA_CONTROL_IND_V02_def
  QMI_LOC_EVENT_INJECT_WIFI_AP_DATA_REQ_IND_V02_def
  QMI_LOC_EVENT_LIVE_BATCHED_POSITION_REPORT_IND_V02_def
  QMI_LOC_EVENT_BATCH_FULL_NOTIFICATION_IND_V02_def
  QMI_LOC_EVENT_VEHICLE_DATA_READY_STATUS_IND_V02_def
  QMI_LOC_EVENT_GEOFENCE_PROXIMITY_NOTIFICATION_IND_V02_def
  QMI_LOC_EVENT_GDT_UPLOAD_BEGIN_STATUS_REQ_IND_V02_def
  QMI_LOC_EVENT_GDT_UPLOAD_END_REQ_IND_V02_def
  QMI_LOC_EVENT_GNSS_MEASUREMENT_REPORT_IND_V02_def
  QMI_LOC_EVENT_DBT_POSITION_REPORT_IND_V02_def
  QMI_LOC_EVENT_GEOFENCE_BATCHED_DWELL_NOTIFICATION_IND_V02_def
  QMI_LOC_EVENT_GET_TIME_ZONE_INFO_IND_V02_def
  QMI_LOC_EVENT_BATCHING_STATUS_IND_V02_def
  QMI_LOC_EVENT_GDT_DOWNLOAD_BEGIN_REQ_IND_V02_def
  QMI_LOC_EVENT_GDT_RECEIVE_DONE_IND_V02_def
  QMI_LOC_EVENT_GDT_DOWNLOAD_END_REQ_IND_V02_def
  QMI_LOC_GET_SERVICE_REVISION_IND_V02_def
  QMI_LOC_GET_FIX_CRITERIA_IND_V02_def
  QMI_LOC_NI_USER_RESPONSE_IND_V02_def
  QMI_LOC_INJECT_PREDICTED_ORBITS_DATA_IND_V02_def
  QMI_LOC_GET_PREDICTED_ORBITS_DATA_SOURCE_IND_V02_def
  QMI_LOC_GET_PREDICTED_ORBITS_DATA_VALIDITY_IND_V02_def
  QMI_LOC_INJECT_UTC_TIME_IND_V02_def
  QMI_LOC_INJECT_POSITION_IND_V02_def
  QMI_LOC_SET_ENGINE_LOCK_IND_V02_def
  QMI_LOC_GET_ENGINE_LOCK_IND_V02_def
  QMI_LOC_SET_SBAS_CONFIG_IND_V02_def
  QMI_LOC_GET_SBAS_CONFIG_IND_V02_def
  QMI_LOC_SET_NMEA_TYPES_IND_V02_def
  QMI_LOC_GET_NMEA_TYPES_IND_V02_def
  QMI_LOC_SET_LOW_POWER_MODE_IND_V02_def
  QMI_LOC_GET_LOW_POWER_MODE_IND_V02_def
  QMI_LOC_SET_SERVER_IND_V02_def
  QMI_LOC_GET_SERVER_IND_V02_def
  QMI_LOC_DELETE_ASSIST_DATA_IND_V02_def
  QMI_LOC_INJECT_APCACHE_DATA_IND_V02_def
  QMI_LOC_INJECT_APDONOTCACHE_DATA_IND_V02_def
  QMI_LOC_SET_XTRA_T_SESSION_CONTROL_IND_V02_def
  QMI_LOC_GET_XTRA_T_SESSION_CONTROL_IND_V02_def
  QMI_LOC_INJECT_WIFI_POSITION_IND_V02_def
  QMI_LOC_NOTIFY_WIFI_STATUS_IND_V02_def
  QMI_LOC_GET_REGISTERED_EVENTS_IND_V02_def
  QMI_LOC_SET_OPERATION_MODE_IND_V02_def
  QMI_LOC_GET_OPERATION_MODE_IND_V02_def
  QMI_LOC_SET_SPI_STATUS_IND_V02_def
  QMI_LOC_INJECT_SENSOR_DATA_IND_V02_def
  QMI_LOC_INJECT_TIME_SYNC_DATA_IND_V02_def
  QMI_LOC_SET_CRADLE_MOUNT_CONFIG_IND_V02_def
  QMI_LOC_GET_CRADLE_MOUNT_CONFIG_IND_V02_def
  QMI_LOC_SET_EXTERNAL_POWER_CONFIG_IND_V02_def
  QMI_LOC_GET_EXTERNAL_POWER_CONFIG_IND_V02_def
  QMI_LOC_INFORM_LOCATION_SERVER_CONN_STATUS_IND_V02_def
  QMI_LOC_SET_PROTOCOL_CONFIG_PARAMETERS_IND_V02_def
  QMI_LOC_GET_PROTOCOL_CONFIG_PARAMETERS_IND_V02_def
  QMI_LOC_SET_SENSOR_CONTROL_CONFIG_IND_V02_def
  QMI_LOC_GET_SENSOR_CONTROL_CONFIG_IND_V02_def
  QMI_LOC_SET_SENSOR_PROPERTIES_IND_V02_def
  QMI_LOC_GET_SENSOR_PROPERTIES_IND_V02_def
  QMI_LOC_SET_SENSOR_PERFORMANCE_CONTROL_CONFIGURATION_IND_V02_def
  QMI_LOC_GET_SENSOR_PERFORMANCE_CONTROL_CONFIGURATION_IND_V02_def
  QMI_LOC_INJECT_SUPL_CERTIFICATE_IND_V02_def
  QMI_LOC_DELETE_SUPL_CERTIFICATE_IND_V02_def
  QMI_LOC_SET_POSITION_ENGINE_CONFIG_PARAMETERS_IND_V02_def
  QMI_LOC_GET_POSITION_ENGINE_CONFIG_PARAMETERS_IND_V02_def
  QMI_LOC_ADD_CIRCULAR_GEOFENCE_IND_V02_def
  QMI_LOC_DELETE_GEOFENCE_IND_V02_def
  QMI_LOC_QUERY_GEOFENCE_IND_V02_def
  QMI_LOC_EDIT_GEOFENCE_IND_V02_def
  QMI_LOC_GET_BEST_AVAILABLE_POSITION_IND_V02_def
  QMI_LOC_SECURE_GET_AVAILABLE_POSITION_IND_V02_def
  QMI_LOC_INJECT_MOTION_DATA_IND_V02_def
  QMI_LOC_GET_NI_GEOFENCE_ID_LIST_IND_V02_def
  QMI_LOC_INJECT_GSM_CELL_INFO_IND_V02_def
  QMI_LOC_INJECT_NETWORK_INITIATED_MESSAGE_IND_V02_def
  QMI_LOC_WWAN_OUT_OF_SERVICE_NOTIFICATION_IND_V02_def
  QMI_LOC_PEDOMETER_REPORT_IND_V02_def
  QMI_LOC_INJECT_WCDMA_CELL_INFO_IND_V02_def
  QMI_LOC_INJECT_TDSCDMA_CELL_INFO_IND_V02_def
  QMI_LOC_INJECT_SUBSCRIBER_ID_IND_V02_def
  QMI_LOC_INJECT_WIFI_AP_DATA_IND_V02_def
  QMI_LOC_START_BATCHING_IND_V02_def
  QMI_LOC_STOP_BATCHING_IND_V02_def
  QMI_LOC_GET_BATCH_SIZE_IND_V02_def
  QMI_LOC_READ_FROM_BATCH_IND_V02_def
  QMI_LOC_RELEASE_BATCH_IND_V02_def
  QMI_LOC_SET_XTRA_VERSION_CHECK_IND_V02_def
  QMI_LOC_INJECT_VEHICLE_SENSOR_DATA_IND_V02_def
  QMI_LOC_NOTIFY_WIFI_ATTACHMENT_STATUS_IND_V02_def
  QMI_LOC_NOTIFY_WIFI_ENABLED_STATUS_IND_V02_def
  QMI_LOC_SET_PREMIUM_SERVICES_CONFIG_IND_V02_def
  QMI_LOC_GET_AVAILABLE_WWAN_POSITION_IND_V02_def
  QMI_LOC_INJECT_GTP_CLIENT_DOWNLOADED_DATA_IND_V02_def
  QMI_LOC_GDT_UPLOAD_BEGIN_STATUS_IND_V02_def
  QMI_LOC_GDT_UPLOAD_END_IND_V02_def
  QMI_LOC_SET_GNSS_CONSTELL_REPORT_CONFIG_IND_V02_def
  QMI_LOC_START_DBT_IND_V02_def
  QMI_LOC_STOP_DBT_IND_V02_def
  QMI_LOC_INJECT_TIME_ZONE_INFO_IND_V02_def
  QMI_LOC_QUERY_AON_CONFIG_IND_V02_def
  QMI_LOC_GTP_AP_STATUS_IND_V02_def
  QMI_LOC_GDT_DOWNLOAD_BEGIN_STATUS_IND_V02_def
  QMI_LOC_GDT_DOWNLOAD_READY_STATUS_IND_V02_def
  QMI_LOC_GDT_RECEIVE_DONE_STATUS_IND_V02_def
  QMI_LOC_GDT_DOWNLOAD_END_STATUS_IND_V02_def
  QMI_LOC_INJECT_XTRA_DATA_IND_V02_def
  QMI_LOC_INJECT_XTRA_PCID_IND_V02_def
  QMI_LOC_INFORM_CLIENT_REVISION_REQ_V02_def
  QMI_LOC_REG_EVENTS_REQ_V02_def
  QMI_LOC_START_REQ_V02_def
  QMI_LOC_STOP_REQ_V02_def
  QMI_LOC_NI_USER_RESPONSE_REQ_V02_def
  QMI_LOC_INJECT_PREDICTED_ORBITS_DATA_REQ_V02_def
  QMI_LOC_INJECT_UTC_TIME_REQ_V02_def
  QMI_LOC_INJECT_POSITION_REQ_V02_def
  QMI_LOC_SET_ENGINE_LOCK_REQ_V02_def
  QMI_LOC_SET_SBAS_CONFIG_REQ_V02_def
  QMI_LOC_SET_NMEA_TYPES_REQ_V02_def
  QMI_LOC_SET_LOW_POWER_MODE_REQ_V02_def
  QMI_LOC_SET_SERVER_REQ_V02_def
  QMI_LOC_DELETE_ASSIST_DATA_REQ_V02_def
  QMI_LOC_INJECT_APCACHE_DATA_REQ_V02_def
  QMI_LOC_INJECT_APDONOTCACHE_DATA_REQ_V02_def
  QMI_LOC_SET_XTRA_T_SESSION_CONTROL_REQ_V02_def
  QMI_LOC_INJECT_WIFI_POSITION_REQ_V02_def
  QMI_LOC_NOTIFY_WIFI_STATUS_REQ_V02_def
  QMI_LOC_SET_OPERATION_MODE_REQ_V02_def
  QMI_LOC_SET_SPI_STATUS_REQ_V02_def
  QMI_LOC_INJECT_SENSOR_DATA_REQ_V02_def
  QMI_LOC_INJECT_TIME_SYNC_DATA_REQ_V02_def
  QMI_LOC_SET_CRADLE_MOUNT_CONFIG_REQ_V02_def
  QMI_LOC_SET_EXTERNAL_POWER_CONFIG_REQ_V02_def
  QMI_LOC_INFORM_LOCATION_SERVER_CONN_STATUS_REQ_V02_def
  QMI_LOC_SET_PROTOCOL_CONFIG_PARAMETERS_REQ_V02_def
  QMI_LOC_GET_PROTOCOL_CONFIG_PARAMETERS_REQ_V02_def
  QMI_LOC_SET_SENSOR_CONTROL_CONFIG_REQ_V02_def
  QMI_LOC_GET_SENSOR_PROPERTIES_REQ_V02_def
  QMI_LOC_SET_SENSOR_PROPERTIES_REQ_V02_def
  QMI_LOC_SET_SENSOR_PERFORMANCE_CONTROL_CONFIGURATION_REQ_V02_def
  QMI_LOC_INJECT_SUPL_CERTIFICATE_REQ_V02_def
  QMI_LOC_DELETE_SUPL_CERTIFICATE_REQ_V02_def
  QMI_LOC_SET_POSITION_ENGINE_CONFIG_PARAMETERS_REQ_V02_def
  QMI_LOC_GET_POSITION_ENGINE_CONFIG_PARAMETERS_REQ_V02_def
  QMI_LOC_ADD_CIRCULAR_GEOFENCE_REQ_V02_def
  QMI_LOC_DELETE_GEOFENCE_REQ_V02_def
  QMI_LOC_QUERY_GEOFENCE_REQ_V02_def
  QMI_LOC_EDIT_GEOFENCE_REQ_V02_def
  QMI_LOC_GET_BEST_AVAILABLE_POSITION_REQ_V02_def
  QMI_LOC_SECURE_GET_AVAILABLE_POSITION_REQ_V02_def
  QMI_LOC_INJECT_MOTION_DATA_REQ_V02_def
  QMI_LOC_GET_NI_GEOFENCE_ID_LIST_REQ_V02_def
  QMI_LOC_INJECT_GSM_CELL_INFO_REQ_V02_def
  QMI_LOC_INJECT_NETWORK_INITIATED_MESSAGE_REQ_V02_def
  QMI_LOC_PEDOMETER_REPORT_REQ_V02_def
  QMI_LOC_INJECT_WCDMA_CELL_INFO_REQ_V02_def
  QMI_LOC_INJECT_TDSCDMA_CELL_INFO_REQ_V02_def
  QMI_LOC_INJECT_WIFI_AP_DATA_REQ_V02_def
  QMI_LOC_GET_BATCH_SIZE_REQ_V02_def
  QMI_LOC_START_BATCHING_REQ_V02_def
  QMI_LOC_READ_FROM_BATCH_REQ_V02_def
  QMI_LOC_STOP_BATCHING_REQ_V02_def
  QMI_LOC_RELEASE_BATCH_REQ_V02_def
  QMI_LOC_SET_XTRA_VERSION_CHECK_REQ_V02_def
  QMI_LOC_INJECT_VEHICLE_SENSOR_DATA_REQ_V02_def
  QMI_LOC_NOTIFY_WIFI_ATTACHMENT_STATUS_REQ_V02_def
  QMI_LOC_NOTIFY_WIFI_ENABLED_STATUS_REQ_V02_def
  QMI_LOC_SET_PREMIUM_SERVICES_CONFIG_REQ_V02_def
  QMI_LOC_GET_AVAILABLE_WWAN_POSITION_REQ_V02_def
  QMI_LOC_INJECT_GTP_CLIENT_DOWNLOADED_DATA_REQ_V02_def
  QMI_LOC_GDT_UPLOAD_BEGIN_STATUS_REQ_V02_def
  QMI_LOC_GDT_UPLOAD_END_REQ_V02_def
  QMI_LOC_SET_GNSS_CONSTELL_REPORT_CONFIG_V02_def
  QMI_LOC_START_DBT_REQ_V02_def
  QMI_LOC_STOP_DBT_REQ_V02_def
  QMI_LOC_INJECT_TIME_ZONE_INFO_REQ_V02_def
  QMI_LOC_QUERY_AON_CONFIG_REQ_V02_def
  QMI_LOC_GTP_AP_STATUS_REQ_V02_def
  QMI_LOC_GDT_DOWNLOAD_BEGIN_STATUS_REQ_V02_def
  QMI_LOC_GDT_DOWNLOAD_READY_STATUS_REQ_V02_def
  QMI_LOC_GDT_RECEIVE_DONE_STATUS_REQ_V02_def
  QMI_LOC_GDT_DOWNLOAD_END_STATUS_REQ_V02_def
  QMI_LOC_INJECT_XTRA_DATA_REQ_V02_def
  QMI_LOC_INJECT_XTRA_PCID_REQ_V02_def
  QMI_LOC_GET_SERVICE_REVISION_REQ_V02_def
  QMI_LOC_GET_FIX_CRITERIA_REQ_V02_def
  QMI_LOC_GET_PREDICTED_ORBITS_DATA_SOURCE_REQ_V02_def
  QMI_LOC_GET_PREDICTED_ORBITS_DATA_VALIDITY_REQ_V02_def
  QMI_LOC_GET_ENGINE_LOCK_REQ_V02_def
  QMI_LOC_GET_SBAS_CONFIG_REQ_V02_def
  QMI_LOC_GET_NMEA_TYPES_REQ_V02_def
  QMI_LOC_GET_LOW_POWER_MODE_REQ_V02_def
  QMI_LOC_GET_SERVER_REQ_V02_def
  QMI_LOC_GET_XTRA_T_SESSION_CONTROL_REQ_V02_def
  QMI_LOC_GET_REGISTERED_EVENTS_REQ_V02_def
  QMI_LOC_GET_OPERATION_MODE_REQ_V02_def
  QMI_LOC_GET_CRADLE_MOUNT_CONFIG_REQ_V02_def
  QMI_LOC_GET_EXTERNAL_POWER_CONFIG_REQ_V02_def
  QMI_LOC_GET_SENSOR_CONTROL_CONFIG_REQ_V02_def
  QMI_LOC_GET_SENSOR_PERFORMANCE_CONTROL_CONFIGURATION_REQ_V02_def
  QMI_LOC_WWAN_OUT_OF_SERVICE_NOTIFICATION_REQ_V02_def
  QMI_LOC_GET_SUPPORTED_MSGS_REQ_V02_def
  QMI_LOC_GET_SUPPORTED_FIELDS_REQ_V02_def

lemmas qmi_masks =
  QMI_LOC_EVENT_MASK_POSITION_REPORT_V02_def
  QMI_LOC_EVENT_MASK_GNSS_SV_INFO_V02_def
  QMI_LOC_EVENT_MASK_NMEA_V02_def
  QMI_LOC_EVENT_MASK_NI_NOTIFY_VERIFY_REQ_V02_def
  QMI_LOC_EVENT_MASK_INJECT_TIME_REQ_V02_def
  QMI_LOC_EVENT_MASK_INJECT_PREDICTED_ORBITS_REQ_V02_def
  QMI_LOC_EVENT_MASK_INJECT_POSITION_REQ_V02_def
  QMI_LOC_EVENT_MASK_ENGINE_STATE_V02_def
  QMI_LOC_EVENT_MASK_FIX_SESSION_STATE_V02_def
  QMI_LOC_EVENT_MASK_WIFI_REQ_V02_def
  QMI_LOC_EVENT_MASK_SENSOR_STREAMING_READY_STATUS_V02_def
  QMI_LOC_EVENT_MASK_TIME_SYNC_REQ_V02_def
  QMI_LOC_EVENT_MASK_SET_SPI_STREAMING_REPORT_V02_def
  QMI_LOC_EVENT_MASK_LOCATION_SERVER_CONNECTION_REQ_V02_def
  QMI_LOC_EVENT_MASK_NI_GEOFENCE_NOTIFICATION_V02_def
  QMI_LOC_EVENT_MASK_GEOFENCE_GEN_ALERT_V02_def
  QMI_LOC_EVENT_MASK_GEOFENCE_BREACH_NOTIFICATION_V02_def
  QMI_LOC_EVENT_MASK_GEOFENCE_BATCH_BREACH_NOTIFICATION_V02_def
  QMI_LOC_EVENT_MASK_PEDOMETER_CONTROL_V02_def
  QMI_LOC_EVENT_MASK_MOTION_DATA_CONTROL_V02_def
  QMI_LOC_EVENT_MASK_INJECT_WIFI_AP_DATA_REQ_V02_def
  QMI_LOC_EVENT_MASK_LIVE_BATCHED_POSITION_REPORT_V02_def
  QMI_LOC_EVENT_MASK_BATCH_FULL_NOTIFICATION_V02_def
  QMI_LOC_EVENT_MASK_VEHICLE_DATA_READY_STATUS_V02_def
  QMI_LOC_EVENT_MASK_GEOFENCE_PROXIMITY_NOTIFICATION_V02_def
  QMI_LOC_EVENT_MASK_GDT_UPLOAD_BEGIN_REQ_V02_def
  QMI_LOC_EVENT_MASK_GDT_UPLOAD_END_REQ_V02_def
  QMI_LOC_EVENT_MASK_GNSS_MEASUREMENT_REPORT_V02_def
  QMI_LOC_EVENT_MASK_GEOFENCE_BATCH_DWELL_NOTIFICATION_V02_def
  QMI_LOC_EVENT_MASK_GET_TIME_ZONE_REQ_V02_def
  QMI_LOC_EVENT_MASK_BATCHING_STATUS_V02_def

subsection \<open>The event table\<close>

record event_entry =
  eventId :: u32
  eventSize :: string
  eventMask :: u64

definition locClientEventIndTable_1 :: "event_entry list" where
  "locClientEventIndTable_1 = [
     \<lparr>eventId = QMI_LOC_EVENT_POSITION_REPORT_IND_V02,
      eventSize = ''qmiLocEventPositionReportIndMsgT_v02'', eventMask = QMI_LOC_EVENT_MASK_POSITION_REPORT_V02\<rparr>,
     \<lparr>eventId = QMI_LOC_EVENT_GNSS_SV_INFO_IND_V02,
      eventSize = ''qmiLocEventGnssSvInfoIndMsgT_v02'', eventMask = QMI_LOC_EVENT_MASK_GNSS_SV_INFO_V02\<rparr>,
     \<lparr>eventId = QMI_LOC_EVENT_NMEA_IND_V02,
      eventSize = ''qmiLocEventNmeaIndMsgT_v02'', eventMask = QMI_LOC_EVENT_MASK_NMEA_V02\<rparr>,
     \<lparr>eventId = QMI_LOC_EVENT_NI_NOTIFY_VERIFY_REQ_IND_V02,
      eventSize = ''qmiLocEventNiNotifyVerifyReqIndMsgT_v02'', eventMask = QMI_LOC_EVENT_MASK_NI_NOTIFY_VERIFY_REQ_V02\<rparr>,
     \<lparr>eventId = QMI_LOC_EVENT_INJECT_TIME_REQ_IND_V02,
      eventSize = ''qmiLocEventInjectTimeReqIndMsgT_v02'', eventMask = QMI_LOC_EVENT_MASK_INJECT_TIME_REQ_V02\<rparr>,
     \<lparr>eventId = QMI_LOC_EVENT_INJECT_PREDICTED_ORBITS_REQ_IND_V02,
      eventSize = ''qmiLocEventInjectPredictedOrbitsReqIndMsgT_v02'', eventMask = QMI_LOC_EVENT_MASK_INJECT_PREDICTED_ORBITS_REQ_V02\<rparr>,
     \<lparr>eventId = QMI_LOC_EVENT_INJECT_POSITION_REQ_IND_V02,
      eventSize = ''qmiLocEventInjectPositionReqIndMsgT_v02'', eventMask = QMI_LOC_EVENT_MASK_INJECT_POSITION_REQ_V02\<rparr>,
     \<lparr>eventId = QMI_LOC_EVENT_ENGINE_STATE_IND_V02,
      eventSize = ''qmiLocEventEngineStateIndMsgT_v02'', eventMask = QMI_LOC_EVENT_MASK_ENGINE_STATE_V02\<rparr>,
     \<lparr>eventId = QMI_LOC_EVENT_FIX_SESSION_STATE_IND_V02,
      eventSize = ''qmiLocEventFixSessionStateIndMsgT_v02'', eventMask = QMI_LOC_EVENT_MASK_FIX_SESSION_STATE_V02\<rparr>,
     \<lparr>eventId = QMI_LOC_EVENT_WIFI_REQ_IND_V02,
      eventSize = ''qmiLocEventWifiReqIndMsgT_v02'', eventMask = QMI_LOC_EVENT_MASK_WIFI_REQ_V02\<rparr>,
     \<lparr>eventId = QMI_LOC_EVENT_SENSOR_STREAMING_READY_STATUS_IND_V02,
      eventSize = ''qmiLocEventSensorStreamingReadyStatusIndMsgT_v02'', eventMask = QMI_LOC_EVENT_MASK_SENSOR_STREAMING_READY_STATUS_V02\<rparr>,
     \<lparr>eventId = QMI_LOC_EVENT_TIME_SYNC_REQ_IND_V02,
      eventSize = ''qmiLocEventTimeSyncReqIndMsgT_v02'', eventMask = QMI_LOC_EVENT_MASK_TIME_SYNC_REQ_V02\<rparr>,
     \<lparr>eventId = QMI_LOC_EVENT_SET_SPI_STREAMING_REPORT_IND_V02,
      eventSize = ''qmiLocEventSetSpiStreamingReportIndMsgT_v02'', eventMask = QMI_LOC_EVENT_MASK_SET_SPI_STREAMING_REPORT_V02\<rparr>,
     \<lparr>eventId = QMI_LOC_EVENT_LOCATION_SERVER_CONNECTION_REQ_IND_V02,
      eventSize = ''qmiLocEventLocationServerConnectionReqIndMsgT_v02'', eventMask = QMI_LOC_EVENT_MASK_LOCATION_SERVER_CONNECTION_REQ_V02\<rparr>,
     \<lparr>eventId = QMI_LOC_EVENT_NI_GEOFENCE_NOTIFICATION_IND_V02,
      eventSize = ''qmiLocEventNiGeofenceNotificationIndMsgT_v02'', eventMask = QMI_LOC_EVENT_MASK_NI_GEOFENCE_NOTIFICATION_V02\<rparr>,
     \<lparr>eventId = QMI_LOC_EVENT_GEOFENCE_GEN_ALERT_IND_V02,
      eventSize = ''qmiLocEventGeofenceGenAlertIndMsgT_v02'', eventMask = QMI_LOC_EVENT_MASK_GEOFENCE_GEN_ALERT_V02\<rparr>,
     \<lparr>eventId = QMI_LOC_EVENT_GEOFENCE_BREACH_NOTIFICATION_IND_V02,
      eventSize = ''qmiLocEventGeofenceBreachIndMsgT_v02'', eventMask = QMI_LOC_EVENT_MASK_GEOFENCE_BREACH_NOTIFICATION_V02\<rparr>,
     \<lparr>eventId = QMI_LOC_EVENT_GEOFENCE_BATCHED_BREACH_NOTIFICATION_IND_V02,
      eventSize = ''qmiLocEventGeofenceBatchedBreachIndMsgT_v02'', eventMask = QMI_LOC_EVENT_MASK_GEOFENCE_BATCH_BREACH_NOTIFICATION_V02\<rparr>,
     \<lparr>eventId = QMI_LOC_EVENT_PEDOMETER_CONTROL_IND_V02,
      eventSize = ''qmiLocEventPedometerControlIndMsgT_v02'', eventMask = QMI_LOC_EVENT_MASK_PEDOMETER_CONTROL_V02\<rparr>,
     \<lparr>eventId = QMI_LOC_EVENT_MOTION_DATA_CONTROL_IND_V02,
      eventSize = ''qmiLocEventMotionDataControlIndMsgT_v02'', eventMask = QMI_LOC_EVENT_MASK_MOTION_DATA_CONTROL_V02\<rparr>,
     \<lparr>eventId = QMI_LOC_EVENT_INJECT_WIFI_AP_DATA_REQ_IND_V02,
      eventSize = ''qmiLocEventInjectWifiApDataReqIndMsgT_v02'', eventMask = QMI_LOC_EVENT_MASK_INJECT_WIFI_AP_DATA_REQ_V02\<rparr>,
     \<lparr>eventId = QMI_LOC_EVENT_LIVE_BATCHED_POSITION_REPORT_IND_V02,
      eventSize = ''qmiLocEventLiveBatchedPositionReportIndMsgT_v02'', eventMask = QMI_LOC_EVENT_MASK_LIVE_BATCHED_POSITION_REPORT_V02\<rparr>,
     \<lparr>eventId = QMI_LOC_EVENT_BATCH_FULL_NOTIFICATION_IND_V02,
      eventSize = ''qmiLocEventBatchFullIndMsgT_v02'', eventMask = QMI_LOC_EVENT_MASK_BATCH_FULL_NOTIFICATION_V02\<rparr>,
     \<lparr>eventId = QMI_LOC_EVENT_VEHICLE_DATA_READY_STATUS_IND_V02,
      eventSize = ''qmiLocEventVehicleDataReadyIndMsgT_v02'', eventMask = QMI_LOC_EVENT_MASK_VEHICLE_DATA_READY_STATUS_V02\<rparr>,
     \<lparr>eventId = QMI_LOC_EVENT_GEOFENCE_PROXIMITY_NOTIFICATION_IND_V02,
      eventSize = ''qmiLocEventGeofenceProximityIndMsgT_v02'', eventMask = QMI_LOC_EVENT_MASK_GEOFENCE_PROXIMITY_NOTIFICATION_V02\<rparr>,
     \<lparr>eventId = QMI_LOC_EVENT_GDT_UPLOAD_BEGIN_STATUS_REQ_IND_V02,
      eventSize = ''qmiLocEventGdtUploadBeginStatusReqIndMsgT_v02'', eventMask = QMI_LOC_EVENT_MASK_GDT_UPLOAD_BEGIN_REQ_V02\<rparr>,
     \<lparr>eventId = QMI_LOC_EVENT_GDT_UPLOAD_END_REQ_IND_V02,
      eventSize = ''qmiLocEventGdtUploadEndReqIndMsgT_v02'', eventMask = QMI_LOC_EVENT_MASK_GDT_UPLOAD_END_REQ_V02\<rparr>,
     \<lparr>eventId = QMI_LOC_EVENT_GNSS_MEASUREMENT_REPORT_IND_V02,
      eventSize = ''qmiLocEventGnssSvMeasInfoIndMsgT_v02'', eventMask = QMI_LOC_EVENT_MASK_GNSS_MEASUREMENT_REPORT_V02\<rparr>,
     \<lparr>eventId = QMI_LOC_EVENT_DBT_POSITION_REPORT_IND_V02,
      eventSize = ''qmiLocEventDbtPositionReportIndMsgT_v02'', eventMask = 0\<rparr>]"

definition locClientEventIndTable_2 :: "event_entry list" where
  "locClientEventIndTable_2 = [
     \<lparr>eventId = QMI_LOC_EVENT_GEOFENCE_BATCHED_DWELL_NOTIFICATION_IND_V02,
      eventSize = ''qmiLocEventGeofenceBatchedDwellIndMsgT_v02'', eventMask = QMI_LOC_EVENT_MASK_GEOFENCE_BATCH_DWELL_NOTIFICATION_V02\<rparr>,
     \<lparr>eventId = QMI_LOC_EVENT_GET_TIME_ZONE_INFO_IND_V02,
      eventSize = ''qmiLocEventGetTimeZoneReqIndMsgT_v02'', eventMask = QMI_LOC_EVENT_MASK_GET_TIME_ZONE_REQ_V02\<rparr>,
     \<lparr>eventId = QMI_LOC_EVENT_BATCHING_STATUS_IND_V02,
      eventSize = ''qmiLocEventBatchingStatusIndMsgT_v02'', eventMask = QMI_LOC_EVENT_MASK_BATCHING_STATUS_V02\<rparr>,
     \<lparr>eventId = QMI_LOC_EVENT_GDT_DOWNLOAD_BEGIN_REQ_IND_V02,
      eventSize = ''qmiLocEventGdtDownloadBeginReqIndMsgT_v02'', eventMask = 0\<rparr>,
     \<lparr>eventId = QMI_LOC_EVENT_GDT_RECEIVE_DONE_IND_V02,
      eventSize = ''qmiLocEventGdtReceiveDoneIndMsgT_v02'', eventMask = 0\<rparr>,
     \<lparr>eventId = QMI_LOC_EVENT_GDT_DOWNLOAD_END_REQ_IND_V02,
      eventSize = ''qmiLocEventGdtDownloadEndReqIndMsgT_v02'', eventMask = 0\<rparr>]"

definition locClientEventIndTable :: "event_entry list" where
  "locClientEventIndTable = locClientEventIndTable_1 @ locClientEventIndTable_2"

subsection \<open>The response table\<close>

record resp_entry =
  respIndId :: u32
  respIndSize :: string

definition locClientRespIndTable_1 :: "resp_entry list" where
  "locClientRespIndTable_1 = [
     \<lparr>respIndId = QMI_LOC_GET_SERVICE_REVISION_IND_V02,
      respIndSize = ''qmiLocGetServiceRevisionIndMsgT_v02''\<rparr>,
     \<lparr>respIndId = QMI_LOC_GET_FIX_CRITERIA_IND_V02,
      respIndSize = ''qmiLocGetFixCriteriaIndMsgT_v02''\<rparr>,
     \<lparr>respIndId = QMI_LOC_NI_USER_RESPONSE_IND_V02,
      respIndSize = ''qmiLocNiUserRespIndMsgT_v02''\<rparr>,
     \<lparr>respIndId = QMI_LOC_INJECT_PREDICTED_ORBITS_DATA_IND_V02,
      respIndSize = ''qmiLocInjectPredictedOrbitsDataIndMsgT_v02''\<rparr>,
     \<lparr>respIndId = QMI_LOC_GET_PREDICTED_ORBITS_DATA_SOURCE_IND_V02,
      respIndSize = ''qmiLocGetPredictedOrbitsDataSourceIndMsgT_v02''\<rparr>,
     \<lparr>respIndId = QMI_LOC_GET_PREDICTED_ORBITS_DATA_VALIDITY_IND_V02,
      respIndSize = ''qmiLocGetPredictedOrbitsDataValidityIndMsgT_v02''\<rparr>,
     \<lparr>respIndId = QMI_LOC_INJECT_UTC_TIME_IND_V02,
      respIndSize = ''qmiLocInjectUtcTimeIndMsgT_v02''\<rparr>,
     \<lparr>respIndId = QMI_LOC_INJECT_POSITION_IND_V02,
      respIndSize = ''qmiLocInjectPositionIndMsgT_v02''\<rparr>,
     \<lparr>respIndId = QMI_LOC_SET_ENGINE_LOCK_IND_V02,
      respIndSize = ''qmiLocSetEngineLockIndMsgT_v02''\<rparr>,
     \<lparr>respIndId = QMI_LOC_GET_ENGINE_LOCK_IND_V02,
      respIndSize = ''qmiLocGetEngineLockIndMsgT_v02''\<rparr>,
     \<lparr>respIndId = QMI_LOC_SET_SBAS_CONFIG_IND_V02,
      respIndSize = ''qmiLocSetSbasConfigIndMsgT_v02''\<rparr>,
     \<lparr>respIndId = QMI_LOC_GET_SBAS_CONFIG_IND_V02,
      respIndSize = ''qmiLocGetSbasConfigIndMsgT_v02''\<rparr>,
     \<lparr>respIndId = QMI_LOC_SET_NMEA_TYPES_IND_V02,
      respIndSize = ''qmiLocSetNmeaTypesIndMsgT_v02''\<rparr>,
     \<lparr>respIndId = QMI_LOC_GET_NMEA_TYPES_IND_V02,
      respIndSize = ''qmiLocGetNmeaTypesIndMsgT_v02''\<rparr>,
     \<lparr>respIndId = QMI_LOC_SET_LOW_POWER_MODE_IND_V02,
      respIndSize = ''qmiLocSetLowPowerModeIndMsgT_v02''\<rparr>,
     \<lparr>respIndId = QMI_LOC_GET_LOW_POWER_MODE_IND_V02,
      respIndSize = ''qmiLocGetLowPowerModeIndMsgT_v02''\<rparr>,
     \<lparr>respIndId = QMI_LOC_SET_SERVER_IND_V02,
      respIndSize = ''qmiLocSetServerIndMsgT_v02''\<rparr>,
     \<lparr>respIndId = QMI_LOC_GET_SERVER_IND_V02,
      respIndSize = ''qmiLocGetServerIndMsgT_v02''\<rparr>,
     \<lparr>respIndId = QMI_LOC_DELETE_ASSIST_DATA_IND_V02,
      respIndSize = ''qmiLocDeleteAssistDataIndMsgT_v02''\<rparr>,
     \<lparr>respIndId = QMI_LOC_INJECT_APCACHE_DATA_IND_V02,
      respIndSize = ''qmiLocInjectApCacheDataIndMsgT_v02''\<rparr>,
     \<lparr>respIndId = QMI_LOC_INJECT_APDONOTCACHE_DATA_IND_V02,
      respIndSize = ''qmiLocInjectApDoNotCacheDataIndMsgT_v02''\<rparr>,
     \<lparr>respIndId = QMI_LOC_SET_XTRA_T_SESSION_CONTROL_IND_V02,
      respIndSize = ''qmiLocSetXtraTSessionControlIndMsgT_v02''\<rparr>,
     \<lparr>respIndId = QMI_LOC_GET_XTRA_T_SESSION_CONTROL_IND_V02,
      respIndSize = ''qmiLocGetXtraTSessionControlIndMsgT_v02''\<rparr>,
     \<lparr>respIndId = QMI_LOC_INJECT_WIFI_POSITION_IND_V02,
      respIndSize = ''qmiLocInjectWifiPositionIndMsgT_v02''\<rparr>,
     \<lparr>respIndId = QMI_LOC_NOTIFY_WIFI_STATUS_IND_V02,
      respIndSize = ''qmiLocNotifyWifiStatusIndMsgT_v02''\<rparr>,
     \<lparr>respIndId = QMI_LOC_GET_REGISTERED_EVENTS_IND_V02,
      respIndSize = ''qmiLocGetRegisteredEventsIndMsgT_v02''\<rparr>,
     \<lparr>respIndId = QMI_LOC_SET_OPERATION_MODE_IND_V02,
      respIndSize = ''qmiLocSetOperationModeIndMsgT_v02''\<rparr>,
     \<lparr>respIndId = QMI_LOC_GET_OPERATION_MODE_IND_V02,
      respIndSize = ''qmiLocGetOperationModeIndMsgT_v02''\<rparr>,
     \<lparr>respIndId = QMI_LOC_SET_SPI_STATUS_IND_V02,
      respIndSize = ''qmiLocSetSpiStatusIndMsgT_v02''\<rparr>,
     \<lparr>respIndId = QMI_LOC_INJECT_SENSOR_DATA_IND_V02,
      respIndSize = ''qmiLocInjectSensorDataIndMsgT_v02''\<rparr>,
     \<lparr>respIndId = QMI_LOC_INJECT_TIME_SYNC_DATA_IND_V02,
      respIndSize = ''qmiLocInjectTimeSyncDataIndMsgT_v02''\<rparr>,
     \<lparr>respIndId = QMI_LOC_SET_CRADLE_MOUNT_CONFIG_IND_V02,
      respIndSize = ''qmiLocSetCradleMountConfigIndMsgT_v02''\<rparr>,
     \<lparr>respIndId = QMI_LOC_GET_CRADLE_MOUNT_CONFIG_IND_V02,
      respIndSize = ''qmiLocGetCradleMountConfigIndMsgT_v02''\<rparr>,
     \<lparr>respIndId = QMI_LOC_SET_EXTERNAL_POWER_CONFIG_IND_V02,
      respIndSize = ''qmiLocSetExternalPowerConfigIndMsgT_v02''\<rparr>,
     \<lparr>respIndId = QMI_LOC_GET_EXTERNAL_POWER_CONFIG_IND_V02,
      respIndSize = ''qmiLocGetExternalPowerConfigIndMsgT_v02''\<rparr>,
     \<lparr>respIndId = QMI_LOC_INFORM_LOCATION_SERVER_CONN_STATUS_IND_V02,
      respIndSize = ''qmiLocInformLocationServerConnStatusIndMsgT_v02''\<rparr>]"

definition locClientRespIndTable_2 :: "resp_entry list" where
  "locClientRespIndTable_2 = [
     \<lparr>respIndId = QMI_LOC_SET_PROTOCOL_CONFIG_PARAMETERS_IND_V02,
      respIndSize = ''qmiLocSetProtocolConfigParametersIndMsgT_v02''\<rparr>,
     \<lparr>respIndId = QMI_LOC_GET_PROTOCOL_CONFIG_PARAMETERS_IND_V02,
      respIndSize = ''qmiLocGetProtocolConfigParametersIndMsgT_v02''\<rparr>,
     \<lparr>respIndId = QMI_LOC_SET_SENSOR_CONTROL_CONFIG_IND_V02,
      respIndSize = ''qmiLocSetSensorControlConfigIndMsgT_v02''\<rparr>,
     \<lparr>respIndId = QMI_LOC_GET_SENSOR_CONTROL_CONFIG_IND_V02,
      respIndSize = ''qmiLocGetSensorControlConfigIndMsgT_v02''\<rparr>,
     \<lparr>respIndId = QMI_LOC_SET_SENSOR_PROPERTIES_IND_V02,
      respIndSize = ''qmiLocSetSensorPropertiesIndMsgT_v02''\<rparr>,
     \<lparr>respIndId = QMI_LOC_GET_SENSOR_PROPERTIES_IND_V02,
      respIndSize = ''qmiLocGetSensorPropertiesIndMsgT_v02''\<rparr>,
     \<lparr>respIndId = QMI_LOC_SET_SENSOR_PERFORMANCE_CONTROL_CONFIGURATION_IND_V02,
      respIndSize = ''qmiLocSetSensorPerformanceControlConfigIndMsgT_v02''\<rparr>,
     \<lparr>respIndId = QMI_LOC_GET_SENSOR_PERFORMANCE_CONTROL_CONFIGURATION_IND_V02,
      respIndSize = ''qmiLocGetSensorPerformanceControlConfigIndMsgT_v02''\<rparr>,
     \<lparr>respIndId = QMI_LOC_INJECT_SUPL_CERTIFICATE_IND_V02,
      respIndSize = ''qmiLocInjectSuplCertificateIndMsgT_v02''\<rparr>,
     \<lparr>respIndId = QMI_LOC_DELETE_SUPL_CERTIFICATE_IND_V02,
      respIndSize = ''qmiLocDeleteSuplCertificateIndMsgT_v02''\<rparr>,
     \<lparr>respIndId = QMI_LOC_SET_POSITION_ENGINE_CONFIG_PARAMETERS_IND_V02,
      respIndSize = ''qmiLocSetPositionEngineConfigParametersIndMsgT_v02''\<rparr>,
     \<lparr>respIndId = QMI_LOC_GET_POSITION_ENGINE_CONFIG_PARAMETERS_IND_V02,
      respIndSize = ''qmiLocGetPositionEngineConfigParametersIndMsgT_v02''\<rparr>,
     \<lparr>respIndId = QMI_LOC_ADD_CIRCULAR_GEOFENCE_IND_V02,
      respIndSize = ''qmiLocAddCircularGeofenceIndMsgT_v02''\<rparr>,
     \<lparr>respIndId = QMI_LOC_DELETE_GEOFENCE_IND_V02,
      respIndSize = ''qmiLocDeleteGeofenceIndMsgT_v02''\<rparr>,
     \<lparr>respIndId = QMI_LOC_QUERY_GEOFENCE_IND_V02,
      respIndSize = ''qmiLocQueryGeofenceIndMsgT_v02''\<rparr>,
     \<lparr>respIndId = QMI_LOC_EDIT_GEOFENCE_IND_V02,
      respIndSize = ''qmiLocEditGeofenceIndMsgT_v02''\<rparr>,
     \<lparr>respIndId = QMI_LOC_GET_BEST_AVAILABLE_POSITION_IND_V02,
      respIndSize = ''qmiLocGetBestAvailablePositionIndMsgT_v02''\<rparr>,
     \<lparr>respIndId = QMI_LOC_SECURE_GET_AVAILABLE_POSITION_IND_V02,
      respIndSize = ''qmiLocSecureGetAvailablePositionIndMsgT_v02''\<rparr>,
     \<lparr>respIndId = QMI_LOC_INJECT_MOTION_DATA_IND_V02,
      respIndSize = ''qmiLocInjectMotionDataIndMsgT_v02''\<rparr>,
     \<lparr>respIndId = QMI_LOC_GET_NI_GEOFENCE_ID_LIST_IND_V02,
      respIndSize = ''qmiLocGetNiGeofenceIdListIndMsgT_v02''\<rparr>,
     \<lparr>respIndId = QMI_LOC_INJECT_GSM_CELL_INFO_IND_V02,
      respIndSize = ''qmiLocInjectGSMCellInfoIndMsgT_v02''\<rparr>,
     \<lparr>respIndId = QMI_LOC_INJECT_NETWORK_INITIATED_MESSAGE_IND_V02,
      respIndSize = ''qmiLocInjectNetworkInitiatedMessageIndMsgT_v02''\<rparr>,
     \<lparr>respIndId = QMI_LOC_WWAN_OUT_OF_SERVICE_NOTIFICATION_IND_V02,
      respIndSize = ''qmiLocWWANOutOfServiceNotificationIndMsgT_v02''\<rparr>,
     \<lparr>respIndId = QMI_LOC_PEDOMETER_REPORT_IND_V02,
      respIndSize = ''qmiLocPedometerReportIndMsgT_v02''\<rparr>,
     \<lparr>respIndId = QMI_LOC_INJECT_WCDMA_CELL_INFO_IND_V02,
      respIndSize = ''qmiLocInjectWCDMACellInfoIndMsgT_v02''\<rparr>,
     \<lparr>respIndId = QMI_LOC_INJECT_TDSCDMA_CELL_INFO_IND_V02,
      respIndSize = ''qmiLocInjectTDSCDMACellInfoIndMsgT_v02''\<rparr>,
     \<lparr>respIndId = QMI_LOC_INJECT_SUBSCRIBER_ID_IND_V02,
      respIndSize = ''qmiLocInjectSubscriberIDIndMsgT_v02''\<rparr>,
     \<lparr>respIndId = QMI_LOC_INJECT_WIFI_AP_DATA_IND_V02,
      respIndSize = ''qmiLocInjectWifiApDataIndMsgT_v02''\<rparr>,
     \<lparr>respIndId = QMI_LOC_START_BATCHING_IND_V02,
      respIndSize = ''qmiLocStartBatchingIndMsgT_v02''\<rparr>,
     \<lparr>respIndId = QMI_LOC_STOP_BATCHING_IND_V02,
      respIndSize = ''qmiLocStopBatchingIndMsgT_v02''\<rparr>,
     \<lparr>respIndId = QMI_LOC_GET_BATCH_SIZE_IND_V02,
      respIndSize = ''qmiLocGetBatchSizeIndMsgT_v02''\<rparr>,
     \<lparr>respIndId = QMI_LOC_EVENT_LIVE_BATCHED_POSITION_REPORT_IND_V02,
      respIndSize = ''qmiLocEventPositionReportIndMsgT_v02''\<rparr>,
     \<lparr>respIndId = QMI_LOC_EVENT_BATCH_FULL_NOTIFICATION_IND_V02,
      respIndSize = ''qmiLocEventBatchFullIndMsgT_v02''\<rparr>,
     \<lparr>respIndId = QMI_LOC_READ_FROM_BATCH_IND_V02,
      respIndSize = ''qmiLocReadFromBatchIndMsgT_v02''\<rparr>,
     \<lparr>respIndId = QMI_LOC_RELEASE_BATCH_IND_V02,
      respIndSize = ''qmiLocReleaseBatchIndMsgT_v02''\<rparr>,
     \<lparr>respIndId = QMI_LOC_SET_XTRA_VERSION_CHECK_IND_V02,
      respIndSize = ''qmiLocSetXtraVersionCheckIndMsgT_v02''\<rparr>,
     \<lparr>respIndId = QMI_LOC_INJECT_VEHICLE_SENSOR_DATA_IND_V02,
      respIndSize = ''qmiLocInjectVehicleSensorDataIndMsgT_v02''\<rparr>,
     \<lparr>respIndId = QMI_LOC_NOTIFY_WIFI_ATTACHMENT_STATUS_IND_V02,
      respIndSize = ''qmiLocNotifyWifiAttachmentStatusIndMsgT_v02''\<rparr>,
     \<lparr>respIndId = QMI_LOC_NOTIFY_WIFI_ENABLED_STATUS_IND_V02,
      respIndSize = ''qmiLocNotifyWifiEnabledStatusIndMsgT_v02''\<rparr>,
     \<lparr>respIndId = QMI_LOC_SET_PREMIUM_SERVICES_CONFIG_IND_V02,
      respIndSize = ''qmiLocSetPremiumServicesCfgReqMsgT_v02''\<rparr>]"

definition locClientRespIndTable_3 :: "resp_entry list" where
  "locClientRespIndTable_3 = [
     \<lparr>respIndId = QMI_LOC_GET_AVAILABLE_WWAN_POSITION_IND_V02,
      respIndSize = ''qmiLocGetAvailWwanPositionIndMsgT_v02''\<rparr>,
     \<lparr>respIndId = QMI_LOC_INJECT_GTP_CLIENT_DOWNLOADED_DATA_IND_V02,
      respIndSize = ''qmiLocInjectGtpClientDownloadedDataIndMsgT_v02''\<rparr>,
     \<lparr>respIndId = QMI_LOC_GDT_UPLOAD_BEGIN_STATUS_IND_V02,
      respIndSize = ''qmiLocGdtUploadBeginStatusIndMsgT_v02''\<rparr>,
     \<lparr>respIndId = QMI_LOC_GDT_UPLOAD_END_IND_V02,
      respIndSize = ''qmiLocGdtUploadEndIndMsgT_v02''\<rparr>,
     \<lparr>respIndId = QMI_LOC_SET_GNSS_CONSTELL_REPORT_CONFIG_IND_V02,
      respIndSize = ''qmiLocSetGNSSConstRepConfigIndMsgT_v02''\<rparr>,
     \<lparr>respIndId = QMI_LOC_START_DBT_IND_V02,
      respIndSize = ''qmiLocStartDbtIndMsgT_v02''\<rparr>,
     \<lparr>respIndId = QMI_LOC_STOP_DBT_IND_V02,
      respIndSize = ''qmiLocStopDbtIndMsgT_v02''\<rparr>,
     \<lparr>respIndId = QMI_LOC_INJECT_TIME_ZONE_INFO_IND_V02,
      respIndSize = ''qmiLocInjectTimeZoneInfoIndMsgT_v02''\<rparr>,
     \<lparr>respIndId = QMI_LOC_QUERY_AON_CONFIG_IND_V02,
      respIndSize = ''qmiLocQueryAonConfigIndMsgT_v02''\<rparr>,
     \<lparr>respIndId = QMI_LOC_GTP_AP_STATUS_IND_V02,
      respIndSize = ''qmiLocGtpApStatusIndMsgT_v02''\<rparr>,
     \<lparr>respIndId = QMI_LOC_GDT_DOWNLOAD_BEGIN_STATUS_IND_V02,
      respIndSize = ''qmiLocGdtDownloadBeginStatusIndMsgT_v02''\<rparr>,
     \<lparr>respIndId = QMI_LOC_GDT_DOWNLOAD_READY_STATUS_IND_V02,
      respIndSize = ''qmiLocGdtDownloadReadyStatusIndMsgT_v02''\<rparr>,
     \<lparr>respIndId = QMI_LOC_GDT_RECEIVE_DONE_STATUS_IND_V02,
      respIndSize = ''qmiLocGdtReceiveDoneStatusIndMsgT_v02''\<rparr>,
     \<lparr>respIndId = QMI_LOC_GDT_DOWNLOAD_END_STATUS_IND_V02,
      respIndSize = ''qmiLocGdtDownloadEndStatusIndMsgT_v02''\<rparr>,
     \<lparr>respIndId = QMI_LOC_INJECT_XTRA_DATA_IND_V02,
      respIndSize = ''qmiLocInjectXtraDataIndMsgT_v02''\<rparr>,
     \<lparr>respIndId = QMI_LOC_INJECT_XTRA_PCID_IND_V02,
      respIndSize = ''qmiLocInjectXtraPcidIndMsgT_v02''\<rparr>]"

definition locClientRespIndTable :: "resp_entry list" where
  "locClientRespIndTable = locClientRespIndTable_1 @ locClientRespIndTable_2 @ locClientRespIndTable_3"

subsection \<open>The cases of validateRequest\<close>

text \<open>The C type of the payload, \<open>None\<close> for the requests with \<^verbatim>\<open>noPayloadFlag\<close>.\<close>

definition req_cases_1 :: "(u32 \<times> string option) list" where
  "req_cases_1 = [
     (QMI_LOC_INFORM_CLIENT_REVISION_REQ_V02,
      Some ''qmiLocInformClientRevisionReqMsgT_v02''),
     (QMI_LOC_REG_EVENTS_REQ_V02,
      Some ''qmiLocRegEventsReqMsgT_v02''),
     (QMI_LOC_START_REQ_V02,
      Some ''qmiLocStartReqMsgT_v02''),
     (QMI_LOC_STOP_REQ_V02,
      Some ''qmiLocStopReqMsgT_v02''),
     (QMI_LOC_NI_USER_RESPONSE_REQ_V02,
      Some ''qmiLocNiUserRespReqMsgT_v02''),
     (QMI_LOC_INJECT_PREDICTED_ORBITS_DATA_REQ_V02,
      Some ''qmiLocInjectPredictedOrbitsDataReqMsgT_v02''),
     (QMI_LOC_INJECT_UTC_TIME_REQ_V02,
      Some ''qmiLocInjectUtcTimeReqMsgT_v02''),
     (QMI_LOC_INJECT_POSITION_REQ_V02,
      Some ''qmiLocInjectPositionReqMsgT_v02''),
     (QMI_LOC_SET_ENGINE_LOCK_REQ_V02,
      Some ''qmiLocSetEngineLockReqMsgT_v02''),
     (QMI_LOC_SET_SBAS_CONFIG_REQ_V02,
      Some ''qmiLocSetSbasConfigReqMsgT_v02''),
     (QMI_LOC_SET_NMEA_TYPES_REQ_V02,
      Some ''qmiLocSetNmeaTypesReqMsgT_v02''),
     (QMI_LOC_SET_LOW_POWER_MODE_REQ_V02,
      Some ''qmiLocSetLowPowerModeReqMsgT_v02''),
     (QMI_LOC_SET_SERVER_REQ_V02,
      Some ''qmiLocSetServerReqMsgT_v02''),
     (QMI_LOC_DELETE_ASSIST_DATA_REQ_V02,
      Some ''qmiLocDeleteAssistDataReqMsgT_v02''),
     (QMI_LOC_INJECT_APCACHE_DATA_REQ_V02,
      Some ''qmiLocInjectApCacheDataReqMsgT_v02''),
     (QMI_LOC_INJECT_APDONOTCACHE_DATA_REQ_V02,
      Some ''qmiLocInjectApDoNotCacheDataReqMsgT_v02''),
     (QMI_LOC_SET_XTRA_T_SESSION_CONTROL_REQ_V02,
      Some ''qmiLocSetXtraTSessionControlReqMsgT_v02''),
     (QMI_LOC_INJECT_WIFI_POSITION_REQ_V02,
      Some ''qmiLocInjectWifiPositionReqMsgT_v02''),
     (QMI_LOC_NOTIFY_WIFI_STATUS_REQ_V02,
      Some ''qmiLocNotifyWifiStatusReqMsgT_v02''),
     (QMI_LOC_SET_OPERATION_MODE_REQ_V02,
      Some ''qmiLocSetOperationModeReqMsgT_v02''),
     (QMI_LOC_SET_SPI_STATUS_REQ_V02,
      Some ''qmiLocSetSpiStatusReqMsgT_v02''),
     (QMI_LOC_INJECT_SENSOR_DATA_REQ_V02,
      Some ''qmiLocInjectSensorDataReqMsgT_v02''),
     (QMI_LOC_INJECT_TIME_SYNC_DATA_REQ_V02,
      Some ''qmiLocInjectTimeSyncDataReqMsgT_v02''),
     (QMI_LOC_SET_CRADLE_MOUNT_CONFIG_REQ_V02,
      Some ''qmiLocSetCradleMountConfigReqMsgT_v02'')]"

definition req_cases_2 :: "(u32 \<times> string option) list" where
  "req_cases_2 = [
     (QMI_LOC_SET_EXTERNAL_POWER_CONFIG_REQ_V02,
      Some ''qmiLocSetExternalPowerConfigReqMsgT_v02''),
     (QMI_LOC_INFORM_LOCATION_SERVER_CONN_STATUS_REQ_V02,
      Some ''qmiLocInformLocationServerConnStatusReqMsgT_v02''),
     (QMI_LOC_SET_PROTOCOL_CONFIG_PARAMETERS_REQ_V02,
      Some ''qmiLocSetProtocolConfigParametersReqMsgT_v02''),
     (QMI_LOC_GET_PROTOCOL_CONFIG_PARAMETERS_REQ_V02,
      Some ''qmiLocGetProtocolConfigParametersReqMsgT_v02''),
     (QMI_LOC_SET_SENSOR_CONTROL_CONFIG_REQ_V02,
      Some ''qmiLocSetSensorControlConfigReqMsgT_v02''),
     (QMI_LOC_GET_SENSOR_PROPERTIES_REQ_V02,
      Some ''qmiLocGetSensorPropertiesReqMsgT_v02''),
     (QMI_LOC_SET_SENSOR_PROPERTIES_REQ_V02,
      Some ''qmiLocSetSensorPropertiesReqMsgT_v02''),
     (QMI_LOC_SET_SENSOR_PERFORMANCE_CONTROL_CONFIGURATION_REQ_V02,
      Some ''qmiLocSetSensorPerformanceControlConfigReqMsgT_v02''),
     (QMI_LOC_INJECT_SUPL_CERTIFICATE_REQ_V02,
      Some ''qmiLocInjectSuplCertificateReqMsgT_v02''),
     (QMI_LOC_DELETE_SUPL_CERTIFICATE_REQ_V02,
      Some ''qmiLocDeleteSuplCertificateReqMsgT_v02''),
     (QMI_LOC_SET_POSITION_ENGINE_CONFIG_PARAMETERS_REQ_V02,
      Some ''qmiLocSetPositionEngineConfigParametersReqMsgT_v02''),
     (QMI_LOC_GET_POSITION_ENGINE_CONFIG_PARAMETERS_REQ_V02,
      Some ''qmiLocGetPositionEngineConfigParametersReqMsgT_v02''),
     (QMI_LOC_ADD_CIRCULAR_GEOFENCE_REQ_V02,
      Some ''qmiLocAddCircularGeofenceReqMsgT_v02''),
     (QMI_LOC_DELETE_GEOFENCE_REQ_V02,
      Some ''qmiLocDeleteGeofenceReqMsgT_v02''),
     (QMI_LOC_QUERY_GEOFENCE_REQ_V02,
      Some ''qmiLocQueryGeofenceReqMsgT_v02''),
     (QMI_LOC_EDIT_GEOFENCE_REQ_V02,
      Some ''qmiLocEditGeofenceReqMsgT_v02''),
     (QMI_LOC_GET_BEST_AVAILABLE_POSITION_REQ_V02,
      Some ''qmiLocGetBestAvailablePositionReqMsgT_v02''),
     (QMI_LOC_SECURE_GET_AVAILABLE_POSITION_REQ_V02,
      Some ''qmiLocSecureGetAvailablePositionReqMsgT_v02''),
     (QMI_LOC_INJECT_MOTION_DATA_REQ_V02,
      Some ''qmiLocInjectMotionDataReqMsgT_v02''),
     (QMI_LOC_GET_NI_GEOFENCE_ID_LIST_REQ_V02,
      Some ''qmiLocGetNiGeofenceIdListReqMsgT_v02''),
     (QMI_LOC_INJECT_GSM_CELL_INFO_REQ_V02,
      Some ''qmiLocInjectGSMCellInfoReqMsgT_v02''),
     (QMI_LOC_INJECT_NETWORK_INITIATED_MESSAGE_REQ_V02,
      Some ''qmiLocInjectNetworkInitiatedMessageReqMsgT_v02''),
     (QMI_LOC_PEDOMETER_REPORT_REQ_V02,
      Some ''qmiLocPedometerReportReqMsgT_v02''),
     (QMI_LOC_INJECT_WCDMA_CELL_INFO_REQ_V02,
      Some ''qmiLocInjectWCDMACellInfoReqMsgT_v02'')]"

definition req_cases_3 :: "(u32 \<times> string option) list" where
  "req_cases_3 = [
     (QMI_LOC_INJECT_TDSCDMA_CELL_INFO_REQ_V02,
      Some ''qmiLocInjectTDSCDMACellInfoReqMsgT_v02''),
     (QMI_LOC_INJECT_SUBSCRIBER_ID_IND_V02,
      Some ''qmiLocInjectSubscriberIDReqMsgT_v02''),
     (QMI_LOC_INJECT_WIFI_AP_DATA_REQ_V02,
      Some ''qmiLocInjectWifiApDataReqMsgT_v02''),
     (QMI_LOC_GET_BATCH_SIZE_REQ_V02,
      Some ''qmiLocGetBatchSizeReqMsgT_v02''),
     (QMI_LOC_START_BATCHING_REQ_V02,
      Some ''qmiLocStartBatchingReqMsgT_v02''),
     (QMI_LOC_READ_FROM_BATCH_REQ_V02,
      Some ''qmiLocReadFromBatchReqMsgT_v02''),
     (QMI_LOC_STOP_BATCHING_REQ_V02,
      Some ''qmiLocStopBatchingReqMsgT_v02''),
     (QMI_LOC_RELEASE_BATCH_REQ_V02,
      Some ''qmiLocReleaseBatchReqMsgT_v02''),
     (QMI_LOC_SET_XTRA_VERSION_CHECK_REQ_V02,
      Some ''qmiLocSetXtraVersionCheckReqMsgT_v02''),
     (QMI_LOC_INJECT_VEHICLE_SENSOR_DATA_REQ_V02,
      Some ''qmiLocInjectVehicleSensorDataReqMsgT_v02''),
     (QMI_LOC_NOTIFY_WIFI_ATTACHMENT_STATUS_REQ_V02,
      Some ''qmiLocNotifyWifiAttachmentStatusReqMsgT_v02''),
     (QMI_LOC_NOTIFY_WIFI_ENABLED_STATUS_REQ_V02,
      Some ''qmiLocNotifyWifiEnabledStatusReqMsgT_v02''),
     (QMI_LOC_SET_PREMIUM_SERVICES_CONFIG_REQ_V02,
      Some ''qmiLocSetPremiumServicesCfgReqMsgT_v02''),
     (QMI_LOC_GET_AVAILABLE_WWAN_POSITION_REQ_V02,
      Some ''qmiLocGetAvailWwanPositionReqMsgT_v02''),
     (QMI_LOC_INJECT_GTP_CLIENT_DOWNLOADED_DATA_REQ_V02,
      Some ''qmiLocInjectGtpClientDownloadedDataReqMsgT_v02''),
     (QMI_LOC_GDT_UPLOAD_BEGIN_STATUS_REQ_V02,
      Some ''qmiLocGdtUploadBeginStatusReqMsgT_v02''),
     (QMI_LOC_GDT_UPLOAD_END_REQ_V02,
      Some ''qmiLocGdtUploadEndReqMsgT_v02''),
     (QMI_LOC_SET_GNSS_CONSTELL_REPORT_CONFIG_V02,
      Some ''qmiLocSetGNSSConstRepConfigReqMsgT_v02''),
     (QMI_LOC_START_DBT_REQ_V02,
      Some ''qmiLocStartDbtReqMsgT_v02''),
     (QMI_LOC_STOP_DBT_REQ_V02,
      Some ''qmiLocStopDbtReqMsgT_v02''),
     (QMI_LOC_INJECT_TIME_ZONE_INFO_REQ_V02,
      Some ''qmiLocInjectTimeZoneInfoReqMsgT_v02''),
     (QMI_LOC_QUERY_AON_CONFIG_REQ_V02,
      Some ''qmiLocQueryAonConfigReqMsgT_v02''),
     (QMI_LOC_GTP_AP_STATUS_REQ_V02,
      Some ''qmiLocGtpApStatusReqMsgT_v02'')]"

definition req_cases_4 :: "(u32 \<times> string option) list" where
  "req_cases_4 = [
     (QMI_LOC_GDT_DOWNLOAD_BEGIN_STATUS_REQ_V02,
      Some ''qmiLocGdtDownloadBeginStatusReqMsgT_v02''),
     (QMI_LOC_GDT_DOWNLOAD_READY_STATUS_REQ_V02,
      Some ''qmiLocGdtDownloadReadyStatusReqMsgT_v02''),
     (QMI_LOC_GDT_RECEIVE_DONE_STATUS_REQ_V02,
      Some ''qmiLocGdtReceiveDoneStatusReqMsgT_v02''),
     (QMI_LOC_GDT_DOWNLOAD_END_STATUS_REQ_V02,
      Some ''qmiLocGdtDownloadEndStatusReqMsgT_v02''),
     (QMI_LOC_INJECT_XTRA_DATA_REQ_V02,
      Some ''qmiLocInjectXtraDataReqMsgT_v02''),
     (QMI_LOC_INJECT_XTRA_PCID_REQ_V02,
      Some ''qmiLocInjectXtraPcidReqMsgT_v02''),
     (QMI_LOC_GET_SERVICE_REVISION_REQ_V02,
      None),
     (QMI_LOC_GET_FIX_CRITERIA_REQ_V02,
      None),
     (QMI_LOC_GET_PREDICTED_ORBITS_DATA_SOURCE_REQ_V02,
      None),
     (QMI_LOC_GET_PREDICTED_ORBITS_DATA_VALIDITY_REQ_V02,
      None),
     (QMI_LOC_GET_ENGINE_LOCK_REQ_V02,
      None),
     (QMI_LOC_GET_SBAS_CONFIG_REQ_V02,
      None),
     (QMI_LOC_GET_NMEA_TYPES_REQ_V02,
      None),
     (QMI_LOC_GET_LOW_POWER_MODE_REQ_V02,
      None),
     (QMI_LOC_GET_SERVER_REQ_V02,
      None),
     (QMI_LOC_GET_XTRA_T_SESSION_CONTROL_REQ_V02,
      None),
     (QMI_LOC_GET_REGISTERED_EVENTS_REQ_V02,
      None),
     (QMI_LOC_GET_OPERATION_MODE_REQ_V02,
      None),
     (QMI_LOC_GET_CRADLE_MOUNT_CONFIG_REQ_V02,
      None),
     (QMI_LOC_GET_EXTERNAL_POWER_CONFIG_REQ_V02,
      None),
     (QMI_LOC_GET_SENSOR_CONTROL_CONFIG_REQ_V02,
      None),
     (QMI_LOC_GET_SENSOR_PERFORMANCE_CONTROL_CONFIGURATION_REQ_V02,
      None),
     (QMI_LOC_WWAN_OUT_OF_SERVICE_NOTIFICATION_REQ_V02,
      None),
     (QMI_LOC_GET_SUPPORTED_MSGS_REQ_V02,
      None),
     (QMI_LOC_GET_SUPPORTED_FIELDS_REQ_V02,
      None)]"

definition req_cases :: "(u32 \<times> string option) list" where
  "req_cases = req_cases_1 @ req_cases_2 @ req_cases_3 @ req_cases_4"

end
