(* ===== verification/Loc_Sync.thy ===== *)
theory Loc_Sync
  imports C_Prelude
begin

text \<open>
  \<^verbatim>\<open>src/opensource/location/loc_api/loc_api_v02/loc_api_sync_req.c\<close>: synchronous requests of
  the location client, eight slots in which threads wait for an indication. Client handles
  and payload buffers are named by numbers; \<open>None\<close> is the invalid handle and the null
  pointer. Every critical section is one operation; \<open>cond_signalled\<close> is the state of the
  slot's condition variable. Sending the request is the client's business
  (\<^verbatim>\<open>locClientSendReq\<close>): its result is an argument here.
\<close>

named_theorems sync_ops \<open>effect of the slot operations\<close>

subsection \<open>Data\<close>

definition LOC_SYNC_REQ_BUFFER_SIZE :: nat where "LOC_SYNC_REQ_BUFFER_SIZE = 8"
definition ENOMEM :: int where "ENOMEM = 12"
definition EBUSY :: int where "EBUSY = 16"
definition EINVAL :: int where "EINVAL = 22"
definition ETIMEDOUT :: int where "ETIMEDOUT = 110"

lemmas errno_defs = ENOMEM_def EBUSY_def EINVAL_def ETIMEDOUT_def

datatype locClientStatusEnumType =
  eLOC_CLIENT_SUCCESS | eLOC_CLIENT_FAILURE_GENERAL | eLOC_CLIENT_FAILURE_UNSUPPORTED
| eLOC_CLIENT_FAILURE_INVALID_PARAMETER | eLOC_CLIENT_FAILURE_ENGINE_BUSY
| eLOC_CLIENT_FAILURE_PHONE_OFFLINE | eLOC_CLIENT_FAILURE_TIMEOUT
| eLOC_CLIENT_FAILURE_SERVICE_NOT_PRESENT | eLOC_CLIENT_FAILURE_SERVICE_VERSION_UNSUPPORTED
| eLOC_CLIENT_FAILURE_CLIENT_VERSION_UNSUPPORTED | eLOC_CLIENT_FAILURE_INVALID_HANDLE
| eLOC_CLIENT_FAILURE_INTERNAL | eLOC_CLIENT_FAILURE_NOT_INITIALIZED
| eLOC_CLIENT_FAILURE_NOT_ENOUGH_MEMORY

record sync_slot =
  client_handle :: "nat option"
  ind_is_selected :: bool
  ind_is_waiting :: bool
  ind_has_arrived :: bool
  req_id :: u32
  recv_ind_payload_ptr :: "nat option"
  recv_ind_id :: u32
  cond_signalled :: bool

record sync_array =
  sync_initialized :: bool
  arr_in_use :: bool
  slot_in_use :: "bool list"
  slots :: "sync_slot list"
  bufs :: "nat \<Rightarrow> u8 list"

definition free_slot :: sync_slot where
  "free_slot = \<lparr>client_handle = None, ind_is_selected = False, ind_is_waiting = False,
     ind_has_arrived = False, req_id = 0, recv_ind_payload_ptr = None, recv_ind_id = 0,
     cond_signalled = False\<rparr>"

subsection \<open>Operations\<close>

definition loc_sync_req_init :: "sync_array \<Rightarrow> sync_array" where
  "loc_sync_req_init a =
     (if sync_initialized a then a
      else a\<lparr>arr_in_use := False,
             slot_in_use := replicate LOC_SYNC_REQ_BUFFER_SIZE False,
             slots := replicate LOC_SYNC_REQ_BUFFER_SIZE free_slot,
             sync_initialized := True\<rparr>)"

record indication =
  ind_client :: "nat option"
  ind_id :: u32
  ind_payload :: "u8 list option"

definition slot_matches :: "indication \<Rightarrow> bool \<Rightarrow> sync_slot \<Rightarrow> bool" where
  "slot_matches ind used slot \<longleftrightarrow>
     used \<and> client_handle slot = ind_client ind \<and> ind_id ind = recv_ind_id slot \<and> \<not> ind_has_arrived slot"

definition takes_payload :: "indication \<Rightarrow> sync_slot \<Rightarrow> bool" where
  "takes_payload ind slot \<longleftrightarrow>
     recv_ind_payload_ptr slot \<noteq> None \<and> ind_payload ind \<noteq> None \<and> length (the (ind_payload ind)) > 0"

text \<open>\<^verbatim>\<open>memcpy\<close> into the caller's buffer.\<close>

definition copy_payload :: "u8 list \<Rightarrow> nat \<Rightarrow> (nat \<Rightarrow> u8 list) \<Rightarrow> (nat \<Rightarrow> u8 list)" where
  "copy_payload pl p b = b(p := pl @ drop (length pl) (b p))"

definition wake_slot :: "indication \<Rightarrow> sync_slot \<Rightarrow> sync_slot" where
  "wake_slot ind slot =
     (if ind_is_waiting slot then slot\<lparr>recv_ind_id := ind_id ind, cond_signalled := True\<rparr>
      else slot\<lparr>ind_has_arrived := True\<rparr>)"

text \<open>One round of the loop; the flags are \<^verbatim>\<open>in_use\<close> and \<^verbatim>\<open>consumed\<close>.\<close>

definition ind_round :: "indication \<Rightarrow> nat \<Rightarrow> sync_array \<times> bool \<times> bool \<Rightarrow> sync_array \<times> bool \<times> bool" where
  "ind_round ind i st =
     (case st of (a, used, consumed) \<Rightarrow>
        if consumed then st
        else
          (let slot = slots a ! i; used' = (used \<or> slot_in_use a ! i) in
           if slot_matches ind (slot_in_use a ! i) slot then
             (let take_it = takes_payload ind slot;
                  b = (if take_it
                       then copy_payload (the (ind_payload ind)) (the (recv_ind_payload_ptr slot)) (bufs a)
                       else bufs a)
              in (a\<lparr>bufs := b, slots := (slots a)[i := wake_slot ind slot]\<rparr>, used', take_it))
           else (a, used', False)))"

definition loc_sync_process_ind :: "indication \<Rightarrow> sync_array \<Rightarrow> sync_array" where
  "loc_sync_process_ind ind a =
     (if \<not> arr_in_use a then a
      else case fold (ind_round ind) [0..<LOC_SYNC_REQ_BUFFER_SIZE] (a, False, False) of
        (a', used, consumed) \<Rightarrow> if \<not> used then a'\<lparr>arr_in_use := False\<rparr> else a')"

definition loc_alloc_slot :: "sync_array \<Rightarrow> int \<times> sync_array" where
  "loc_alloc_slot a =
     (case find (\<lambda>i. \<not> slot_in_use a ! i) [0..<LOC_SYNC_REQ_BUFFER_SIZE] of
        None \<Rightarrow> (-1, a)
      | Some i \<Rightarrow> (int i, a\<lparr>slot_in_use := (slot_in_use a)[i := True], arr_in_use := True\<rparr>))"

definition loc_free_slot :: "nat \<Rightarrow> sync_array \<Rightarrow> sync_array" where
  "loc_free_slot select_id a =
     (let used = (slot_in_use a)[select_id := False];
          a' = a\<lparr>slot_in_use := used, slots := (slots a)[select_id := free_slot]\<rparr>
      in if (\<forall>u\<in>set used. \<not> u) then a'\<lparr>arr_in_use := False\<rparr> else a')"

definition fill_slot :: "nat option \<Rightarrow> u32 \<Rightarrow> u32 \<Rightarrow> nat option \<Rightarrow> nat \<Rightarrow> sync_array \<Rightarrow> sync_array" where
  "fill_slot client ind rid ptr i a =
     a\<lparr>slots := (slots a)[i := (slots a ! i)\<lparr>client_handle := client, ind_is_selected := True,
         ind_is_waiting := False, ind_has_arrived := False, recv_ind_id := ind, req_id := rid,
         recv_ind_payload_ptr := ptr\<rparr>]\<rparr>"

definition loc_sync_select_ind ::
    "nat option \<Rightarrow> u32 \<Rightarrow> u32 \<Rightarrow> nat option \<Rightarrow> sync_array \<Rightarrow> int \<times> sync_array" where
  "loc_sync_select_ind client ind rid ptr a =
     (case loc_alloc_slot a of (select_id, a1) \<Rightarrow>
      if select_id < 0 then (- ENOMEM, a1)
      else (select_id, fill_slot client ind rid ptr (nat select_id) a1))"

text \<open>
  \<^verbatim>\<open>loc_sync_wait_for_ind\<close> up to the timed wait and after it. The first half either
  decides the return value (\<open>Some\<close>) or blocks (\<open>None\<close>); the slot is freed at the end in
  both cases, except for an invalid identifier.
\<close>

definition valid_select :: "int \<Rightarrow> sync_array \<Rightarrow> bool" where
  "valid_select select_id a \<longleftrightarrow>
     \<not> (select_id < 0 \<or> select_id \<ge> int LOC_SYNC_REQ_BUFFER_SIZE \<or> \<not> slot_in_use a ! nat select_id)"

definition wait_begin :: "nat \<Rightarrow> sync_array \<Rightarrow> int option \<times> sync_array" where
  "wait_begin i a =
     (if ind_has_arrived (slots a ! i) then (Some 0, a)
      else if ind_is_waiting (slots a ! i) then (Some (- EBUSY), a)
      else (None, a\<lparr>slots := (slots a)[i := (slots a ! i)\<lparr>ind_is_waiting := True, cond_signalled := False\<rparr>]\<rparr>))"

definition wait_end :: "bool \<Rightarrow> nat \<Rightarrow> sync_array \<Rightarrow> int \<times> sync_array" where
  "wait_end timed_out i a =
     (if timed_out then - ETIMEDOUT else 0,
      a\<lparr>slots := (slots a)[i := (slots a ! i)\<lparr>ind_is_waiting := False, cond_signalled := False\<rparr>]\<rparr>)"

definition status_of_wait :: "int \<Rightarrow> locClientStatusEnumType" where
  "status_of_wait rc =
     (if rc < 0 then (if rc = - ETIMEDOUT then eLOC_CLIENT_FAILURE_TIMEOUT else eLOC_CLIENT_FAILURE_INTERNAL)
      else eLOC_CLIENT_SUCCESS)"

text \<open>
  One request of one thread, when the other threads only deliver indications: \<open>early\<close>
  while the request is being sent, \<open>late\<close> while the thread waits.
\<close>

definition loc_sync_send_req ::
    "locClientStatusEnumType \<Rightarrow> indication list \<Rightarrow> indication list \<Rightarrow> bool \<Rightarrow>
     nat option \<Rightarrow> u32 \<Rightarrow> u32 \<Rightarrow> nat option \<Rightarrow> sync_array \<Rightarrow> locClientStatusEnumType \<times> sync_array" where
  "loc_sync_send_req send early late timed_out client rid ind ptr a =
     (case loc_sync_select_ind client ind rid ptr a of (select_id, a1) \<Rightarrow>
      if select_id \<ge> 0 then
        (let a2 = fold loc_sync_process_ind early a1; i = nat select_id in
         if send \<noteq> eLOC_CLIENT_SUCCESS then (send, loc_free_slot i a2)
         else if \<not> valid_select select_id a2 then (status_of_wait (- EINVAL), a2)
         else case wait_begin i a2 of
           (Some rc, a3) \<Rightarrow> (status_of_wait rc, loc_free_slot i a3)
         | (None, a3) \<Rightarrow>
             (case wait_end timed_out i (fold loc_sync_process_ind late a3) of
                (rc, a4) \<Rightarrow> (status_of_wait rc, loc_free_slot i a4)))
      else (eLOC_CLIENT_SUCCESS, a1))"

subsection \<open>Well-formed arrays\<close>

definition wf_array :: "sync_array \<Rightarrow> bool" where
  "wf_array a \<longleftrightarrow>
     length (slot_in_use a) = LOC_SYNC_REQ_BUFFER_SIZE \<and> length (slots a) = LOC_SYNC_REQ_BUFFER_SIZE \<and>
     arr_in_use a = (\<exists>i<LOC_SYNC_REQ_BUFFER_SIZE. slot_in_use a ! i) \<and>
     (\<forall>i<LOC_SYNC_REQ_BUFFER_SIZE. \<not> slot_in_use a ! i \<longrightarrow> slots a ! i = free_slot)"

lemma wf_init: "\<not> sync_initialized a \<Longrightarrow> wf_array (loc_sync_req_init a)"
  by (auto simp: loc_sync_req_init_def wf_array_def LOC_SYNC_REQ_BUFFER_SIZE_def)

text \<open>What one indication does to all slots: it reaches the matching ones up to the first that takes the payload.\<close>

definition ind_reaches :: "indication \<Rightarrow> sync_array \<Rightarrow> nat \<Rightarrow> bool" where
  "ind_reaches ind a i \<longleftrightarrow>
     slot_matches ind (slot_in_use a ! i) (slots a ! i) \<and>
     (\<forall>j<i. \<not> (slot_matches ind (slot_in_use a ! j) (slots a ! j) \<and> takes_payload ind (slots a ! j)))"

definition ind_taken :: "indication \<Rightarrow> sync_array \<Rightarrow> nat \<Rightarrow> bool" where
  "ind_taken ind a i \<longleftrightarrow> ind_reaches ind a i \<and> takes_payload ind (slots a ! i)"

lemma ind_taken_unique: "ind_taken ind a i \<Longrightarrow> ind_taken ind a j \<Longrightarrow> i = j"
  unfolding ind_taken_def ind_reaches_def by (meson linorder_neqE_nat)

lemma no_taken:
  "(\<forall>j<n. \<not> ind_taken ind a j) \<longleftrightarrow>
   (\<forall>j<n. \<not> (slot_matches ind (slot_in_use a ! j) (slots a ! j) \<and> takes_payload ind (slots a ! j)))"
  (is "?l \<longleftrightarrow> (\<forall>j<n. \<not> ?m j)")
proof
  assume l: ?l
  show "\<forall>j<n. \<not> ?m j"
  proof (intro allI impI)
    fix j assume "j < n"
    then show "\<not> ?m j"
    proof (induction j rule: less_induct)
      case (less j)
      then have "\<forall>k<j. \<not> ?m k" by auto
      with l less.prems show ?case by (auto simp: ind_taken_def ind_reaches_def)
    qed
  qed
next
  assume "\<forall>j<n. \<not> ?m j"
  then show ?l by (auto simp: ind_taken_def ind_reaches_def)
qed

lemma reaches_after_taken: "ind_taken ind a j \<Longrightarrow> j < i \<Longrightarrow> \<not> ind_reaches ind a i"
  by (auto simp: ind_taken_def ind_reaches_def)

definition slots_after :: "indication \<Rightarrow> sync_array \<Rightarrow> nat \<Rightarrow> sync_slot list" where
  "slots_after ind a n =
     map (\<lambda>i. if i < n \<and> ind_reaches ind a i then wake_slot ind (slots a ! i) else slots a ! i)
       [0..<length (slots a)]"

definition bufs_after :: "indication \<Rightarrow> sync_array \<Rightarrow> nat \<Rightarrow> nat \<Rightarrow> u8 list" where
  "bufs_after ind a n =
     (case find (ind_taken ind a) [0..<n] of
        None \<Rightarrow> bufs a
      | Some i \<Rightarrow> copy_payload (the (ind_payload ind)) (the (recv_ind_payload_ptr (slots a ! i))) (bufs a))"

lemma slots_after_Suc:
  "n < length (slots a) \<Longrightarrow> slots_after ind a (Suc n) =
     (if ind_reaches ind a n then (slots_after ind a n)[n := wake_slot ind (slots a ! n)] else slots_after ind a n)"
  by (rule nth_equalityI) (auto simp: slots_after_def nth_list_update less_Suc_eq)

lemma slots_after_nth [simp]: "n < length (slots a) \<Longrightarrow> slots_after ind a n ! n = slots a ! n"
  by (simp add: slots_after_def)

lemma bufs_after_Suc:
  "bufs_after ind a (Suc n) =
     (if \<exists>i<n. ind_taken ind a i then bufs_after ind a n
      else if ind_taken ind a n
      then copy_payload (the (ind_payload ind)) (the (recv_ind_payload_ptr (slots a ! n))) (bufs a)
      else bufs a)"
proof -
  have app: "find P (xs @ [y]) = (case find P xs of None \<Rightarrow> if P y then Some y else None | Some x \<Rightarrow> Some x)"
    for P and xs :: "nat list" and y
    by (induction xs) auto
  show ?thesis
  proof (cases "find (ind_taken ind a) [0..<n]")
    case None
    then have "\<not> (\<exists>i<n. ind_taken ind a i)" by (auto simp: find_None_iff)
    with None show ?thesis by (auto simp: bufs_after_def app)
  next
    case (Some i)
    then have "\<exists>i<n. ind_taken ind a i" by (auto simp: find_Some_iff)
    with Some show ?thesis by (simp add: bufs_after_def app)
  qed
qed

lemma bufs_after_none: "\<forall>i<n. \<not> ind_taken ind a i \<Longrightarrow> bufs_after ind a n = bufs a"
proof -
  assume "\<forall>i<n. \<not> ind_taken ind a i"
  then have "find (ind_taken ind a) [0..<n] = None" by (auto simp: find_None_iff)
  then show ?thesis by (simp add: bufs_after_def)
qed

lemma ind_rounds:
  assumes "n \<le> length (slots a)"
  shows "fold (ind_round ind) [0..<n] (a, False, False) =
    (a\<lparr>bufs := bufs_after ind a n, slots := slots_after ind a n\<rparr>,
     \<exists>i<n. slot_in_use a ! i \<and> (\<forall>j<i. \<not> ind_taken ind a j), \<exists>i<n. ind_taken ind a i)"
  using assms
proof (induction n)
  case 0
  then show ?case by (simp add: slots_after_def bufs_after_def map_nth)
next
  case (Suc n)
  then have n: "n < length (slots a)" and IH: "fold (ind_round ind) [0..<n] (a, False, False) =
    (a\<lparr>bufs := bufs_after ind a n, slots := slots_after ind a n\<rparr>,
     \<exists>i<n. slot_in_use a ! i \<and> (\<forall>j<i. \<not> ind_taken ind a j), \<exists>i<n. ind_taken ind a i)" by auto
  have step: "fold (ind_round ind) [0..<Suc n] (a, False, False) =
      ind_round ind n (fold (ind_round ind) [0..<n] (a, False, False))" by simp
  show ?case
  proof (cases "\<exists>i<n. ind_taken ind a i")
    case True
    then have nr: "\<not> ind_reaches ind a n" using reaches_after_taken by blast
    have "(\<exists>i<Suc n. slot_in_use a ! i \<and> (\<forall>j<i. \<not> ind_taken ind a j)) =
        (\<exists>i<n. slot_in_use a ! i \<and> (\<forall>j<i. \<not> ind_taken ind a j))"
      "(\<exists>i<Suc n. ind_taken ind a i) = True"
      using True less_Suc_eq by auto
    with True nr n show ?thesis
      unfolding step IH by (simp add: ind_round_def slots_after_Suc bufs_after_Suc)
  next
    case False
    then have nm: "\<forall>j<n. \<not> ind_taken ind a j" by blast
    have reach: "ind_reaches ind a n = slot_matches ind (slot_in_use a ! n) (slots a ! n)"
      using nm unfolding no_taken by (auto simp: ind_reaches_def)
    have "(\<exists>i<Suc n. slot_in_use a ! i \<and> (\<forall>j<i. \<not> ind_taken ind a j)) =
        ((\<exists>i<n. slot_in_use a ! i \<and> (\<forall>j<i. \<not> ind_taken ind a j)) \<or> slot_in_use a ! n)"
      "(\<exists>i<Suc n. ind_taken ind a i) = ind_taken ind a n"
      using nm less_Suc_eq by auto
    moreover have "ind_taken ind a n \<longleftrightarrow> slot_matches ind (slot_in_use a ! n) (slots a ! n) \<and>
        takes_payload ind (slots a ! n)" using reach by (simp add: ind_taken_def)
    moreover have "(\<exists>i<n. ind_taken ind a i) = False" using False by simp
    ultimately show ?thesis
      using n reach bufs_after_none [OF nm] unfolding step IH
      by (simp only: ind_round_def slots_after_Suc bufs_after_Suc) (simp add: Let_def)
  qed
qed

subsection \<open>Every operation keeps the array well formed\<close>

lemma taken_in_use: "ind_taken ind a i \<Longrightarrow> slot_in_use a ! i"
  by (simp add: ind_taken_def ind_reaches_def slot_matches_def)

lemma process_ind_eq [sync_ops]:
  assumes "wf_array a"
  shows "loc_sync_process_ind ind a =
    a\<lparr>bufs := bufs_after ind a LOC_SYNC_REQ_BUFFER_SIZE, slots := slots_after ind a LOC_SYNC_REQ_BUFFER_SIZE\<rparr>"
proof -
  let ?n = LOC_SYNC_REQ_BUFFER_SIZE
  have len: "?n = length (slots a)" "?n = length (slot_in_use a)" using assms by (simp_all add: wf_array_def)
  note rounds = ind_rounds [of ?n a ind, folded len(1), OF order_refl]
  show ?thesis
  proof (cases "arr_in_use a")
    case True
    then obtain k where k: "k < ?n" "slot_in_use a ! k" using assms by (auto simp: wf_array_def)
    let ?i = "LEAST i. slot_in_use a ! i"
    have "?i \<le> k" "slot_in_use a ! ?i" using k(2) by (auto intro: Least_le LeastI)
    moreover have "\<forall>j<?i. \<not> ind_taken ind a j" using taken_in_use not_less_Least by blast
    ultimately have "\<exists>i<?n. slot_in_use a ! i \<and> (\<forall>j<i. \<not> ind_taken ind a j)" using k(1) by (meson le_less_trans)
    with True show ?thesis by (simp add: loc_sync_process_ind_def rounds)
  next
    case False
    then have unused: "\<not> slot_in_use a ! i" if "i < ?n" for i
      using assms that False by (auto simp: wf_array_def)
    then have "\<not> ind_taken ind a i" "\<not> ind_reaches ind a i" if "i < ?n" for i
      using that by (auto simp: ind_taken_def ind_reaches_def slot_matches_def)
    then have "bufs_after ind a ?n = bufs a" "slots_after ind a ?n = slots a"
      using len(1) by (auto simp: bufs_after_none slots_after_def intro: nth_equalityI)
    with False show ?thesis by (simp add: loc_sync_process_ind_def)
  qed
qed

lemma slots_after_all:
  "i < length (slots a) \<Longrightarrow> slots_after ind a (length (slots a)) ! i =
     (if ind_reaches ind a i then wake_slot ind (slots a ! i) else slots a ! i)"
  by (simp add: slots_after_def)

lemma wf_process_ind: "wf_array a \<Longrightarrow> wf_array (loc_sync_process_ind ind a)"
  unfolding process_ind_eq
  by (auto simp: wf_array_def slots_after_def ind_reaches_def slot_matches_def process_ind_eq)

lemma alloc_slot_cases [sync_ops]:
  assumes "wf_array a"
  obtains (full) "loc_alloc_slot a = (-1, a)" "\<forall>i<LOC_SYNC_REQ_BUFFER_SIZE. slot_in_use a ! i"
    | (ok) i where "i < LOC_SYNC_REQ_BUFFER_SIZE" "\<not> slot_in_use a ! i" "slots a ! i = free_slot"
      "loc_alloc_slot a = (int i, a\<lparr>slot_in_use := (slot_in_use a)[i := True], arr_in_use := True\<rparr>)"
proof (cases "find (\<lambda>i. \<not> slot_in_use a ! i) [0..<LOC_SYNC_REQ_BUFFER_SIZE]")
  case None
  then have "\<forall>i<LOC_SYNC_REQ_BUFFER_SIZE. slot_in_use a ! i" by (auto simp: find_None_iff)
  with None full show thesis by (simp add: loc_alloc_slot_def)
next
  case (Some i)
  then have "i < LOC_SYNC_REQ_BUFFER_SIZE" "\<not> slot_in_use a ! i" by (auto simp: find_Some_iff)
  with Some ok [of i] assms show thesis by (simp add: loc_alloc_slot_def wf_array_def)
qed

lemma wf_alloc:
  "wf_array a \<Longrightarrow> i < LOC_SYNC_REQ_BUFFER_SIZE \<Longrightarrow>
   wf_array (a\<lparr>slot_in_use := (slot_in_use a)[i := True], arr_in_use := True\<rparr>)"
  by (auto simp: wf_array_def nth_list_update)

lemma free_slot_eq:
  assumes "wf_array a" "i < LOC_SYNC_REQ_BUFFER_SIZE"
  shows "wf_array (loc_free_slot i a)"
    "slot_in_use (loc_free_slot i a) = (slot_in_use a)[i := False]"
    "slots (loc_free_slot i a) = (slots a)[i := free_slot]" "bufs (loc_free_slot i a) = bufs a"
proof -
  show "slot_in_use (loc_free_slot i a) = (slot_in_use a)[i := False]"
    "slots (loc_free_slot i a) = (slots a)[i := free_slot]" "bufs (loc_free_slot i a) = bufs a"
    by (simp_all add: loc_free_slot_def Let_def)
  have "(\<forall>u\<in>set ((slot_in_use a)[i := False]). \<not> u) \<longleftrightarrow>
      (\<forall>j<LOC_SYNC_REQ_BUFFER_SIZE. \<not> (slot_in_use a)[i := False] ! j)"
    using assms by (auto simp: wf_array_def all_set_conv_all_nth)
  moreover have "arr_in_use a" if "j < LOC_SYNC_REQ_BUFFER_SIZE" "(slot_in_use a)[i := False] ! j" for j
    using that assms by (cases "j = i") (auto simp: wf_array_def)
  ultimately have "arr_in_use (loc_free_slot i a) \<longleftrightarrow>
      (\<exists>j<LOC_SYNC_REQ_BUFFER_SIZE. (slot_in_use a)[i := False] ! j)"
    by (auto simp: loc_free_slot_def Let_def)
  moreover have "\<forall>j<LOC_SYNC_REQ_BUFFER_SIZE. \<not> (slot_in_use a)[i := False] ! j \<longrightarrow> (slots a)[i := free_slot] ! j = free_slot"
    using assms by (auto simp: wf_array_def nth_list_update)
  ultimately show "wf_array (loc_free_slot i a)"
    using assms unfolding wf_array_def by (simp add: loc_free_slot_def Let_def)
qed

lemma wf_slot_update:
  assumes "wf_array a" "slot_in_use a ! i"
  shows "wf_array (a\<lparr>slots := (slots a)[i := v]\<rparr>)"
proof -
  have "(slots a)[i := v] ! j = slots a ! j" if "\<not> slot_in_use a ! j" for j
    using assms(2) that by (cases "j = i") auto
  with assms(1) show ?thesis by (simp add: wf_array_def)
qed

subsection \<open>Concurrent requests\<close>

text \<open>
  Each thread issues one request; a step is one critical section of one thread or one
  indication. Since an indication visits the slots one after the other and every other
  step touches a single slot, taking the whole loop as one step loses no behaviour.
  \<open>got\<close> records, for the specification only, whose slot an indication has reached.
\<close>

record request =
  rq_client :: "nat option"
  rq_ind :: u32
  rq_req :: u32
  rq_buf :: bool

datatype sync_phase =
  Idle | Refused | Allocated nat | Selected nat | Sent nat | Waiting nat | Ending nat int
| SendFailed nat locClientStatusEnumType | Done locClientStatusEnumType

record sync_sys =
  arr :: sync_array
  phase :: "nat \<Rightarrow> sync_phase"
  got :: "nat \<Rightarrow> bool"

fun slot_of :: "sync_phase \<Rightarrow> nat option" where
  "slot_of (Allocated i) = Some i"
| "slot_of (Selected i) = Some i"
| "slot_of (Sent i) = Some i"
| "slot_of (Waiting i) = Some i"
| "slot_of (Ending i rc) = Some i"
| "slot_of (SendFailed i st) = Some i"
| "slot_of _ = None"

fun listening :: "sync_phase \<Rightarrow> nat option" where
  "listening (Allocated i) = None"
| "listening ph = slot_of ph"

definition ptr_of :: "request \<Rightarrow> nat \<Rightarrow> nat option" where
  "ptr_of r t = (if rq_buf r then Some t else None)"

inductive sync_step :: "(nat \<Rightarrow> request) \<Rightarrow> bool \<Rightarrow> sync_sys \<Rightarrow> sync_sys \<Rightarrow> bool" for rq spurious where
  alloc: "phase s t = Idle \<Longrightarrow> loc_alloc_slot (arr s) = (i, a) \<Longrightarrow>
    sync_step rq spurious s (s\<lparr>arr := a, phase := (phase s)(t := if i < 0 then Refused else Allocated (nat i))\<rparr>)"
| select: "phase s t = Allocated i \<Longrightarrow>
    sync_step rq spurious s
      (s\<lparr>arr := fill_slot (rq_client (rq t)) (rq_ind (rq t)) (rq_req (rq t)) (ptr_of (rq t) t) i (arr s),
         phase := (phase s)(t := Selected i), got := (got s)(t := False)\<rparr>)"
| send_ok: "phase s t = Selected i \<Longrightarrow> sync_step rq spurious s (s\<lparr>phase := (phase s)(t := Sent i)\<rparr>)"
| send_fail: "phase s t = Selected i \<Longrightarrow> st \<noteq> eLOC_CLIENT_SUCCESS \<Longrightarrow>
    sync_step rq spurious s (s\<lparr>phase := (phase s)(t := SendFailed i st)\<rparr>)"
| fail_free: "phase s t = SendFailed i st \<Longrightarrow>
    sync_step rq spurious s (s\<lparr>arr := loc_free_slot i (arr s), phase := (phase s)(t := Done st)\<rparr>)"
| wait_invalid: "phase s t = Sent i \<Longrightarrow> \<not> valid_select (int i) (arr s) \<Longrightarrow>
    sync_step rq spurious s (s\<lparr>phase := (phase s)(t := Done (status_of_wait (- EINVAL)))\<rparr>)"
| wait: "phase s t = Sent i \<Longrightarrow> valid_select (int i) (arr s) \<Longrightarrow> wait_begin i (arr s) = (r, a) \<Longrightarrow>
    sync_step rq spurious s (s\<lparr>arr := a,
      phase := (phase s)(t := case r of None \<Rightarrow> Waiting i | Some rc \<Rightarrow> Ending i rc)\<rparr>)"
| wake: "phase s t = Waiting i \<Longrightarrow> timed_out \<or> spurious \<or> cond_signalled (slots (arr s) ! i) \<Longrightarrow>
    wait_end timed_out i (arr s) = (rc, a) \<Longrightarrow>
    sync_step rq spurious s (s\<lparr>arr := a, phase := (phase s)(t := Ending i rc)\<rparr>)"
| finish: "phase s t = Ending i rc \<Longrightarrow>
    sync_step rq spurious s (s\<lparr>arr := loc_free_slot i (arr s), phase := (phase s)(t := Done (status_of_wait rc))\<rparr>)"
| indicate: "sync_step rq spurious s (s\<lparr>arr := loc_sync_process_ind ind (arr s),
    got := (\<lambda>t. got s t \<or> (\<exists>i. listening (phase s t) = Some i \<and> ind_reaches ind (arr s) i))\<rparr>)"

inductive_cases sync_stepE: "sync_step rq spurious s s'"

inductive sync_reach :: "(nat \<Rightarrow> request) \<Rightarrow> bool \<Rightarrow> sync_sys \<Rightarrow> bool" for rq spurious where
  sync_start: "\<not> sync_initialized a \<Longrightarrow>
    sync_reach rq spurious \<lparr>arr = loc_sync_req_init a, phase = (\<lambda>_. Idle), got = (\<lambda>_. False)\<rparr>"
| sync_next: "sync_reach rq spurious s \<Longrightarrow> sync_step rq spurious s s' \<Longrightarrow> sync_reach rq spurious s'"

subsection \<open>The invariant\<close>

definition holds_req :: "request \<Rightarrow> nat \<Rightarrow> sync_slot \<Rightarrow> bool" where
  "holds_req r t slot \<longleftrightarrow> client_handle slot = rq_client r \<and> recv_ind_id slot = rq_ind r \<and>
     recv_ind_payload_ptr slot = ptr_of r t \<and> ind_is_selected slot"

fun phase_ok :: "bool \<Rightarrow> request \<Rightarrow> nat \<Rightarrow> (nat \<Rightarrow> sync_slot) \<Rightarrow> bool \<Rightarrow> sync_phase \<Rightarrow> bool" where
  "phase_ok sp r t f g (Allocated i) = (\<not> ind_is_waiting (f i))"
| "phase_ok sp r t f g (Selected i) =
     (holds_req r t (f i) \<and> \<not> ind_is_waiting (f i) \<and> (ind_has_arrived (f i) \<longrightarrow> g))"
| "phase_ok sp r t f g (Sent i) =
     (holds_req r t (f i) \<and> \<not> ind_is_waiting (f i) \<and> (ind_has_arrived (f i) \<longrightarrow> g))"
| "phase_ok sp r t f g (SendFailed i st) = (\<not> ind_is_waiting (f i) \<and> st \<noteq> eLOC_CLIENT_SUCCESS)"
| "phase_ok sp r t f g (Waiting i) =
     (holds_req r t (f i) \<and> ind_is_waiting (f i) \<and> \<not> ind_has_arrived (f i) \<and>
      (cond_signalled (f i) \<longrightarrow> g))"
| "phase_ok sp r t f g (Ending i rc) =
     (\<not> ind_is_waiting (f i) \<and> (rc = 0 \<or> rc = - ETIMEDOUT) \<and> (rc = 0 \<longrightarrow> g \<or> sp))"
| "phase_ok sp r t f g (Done st) = (st = eLOC_CLIENT_SUCCESS \<longrightarrow> g \<or> sp)"
| "phase_ok sp r t f g _ = True"

definition sys_inv :: "(nat \<Rightarrow> request) \<Rightarrow> bool \<Rightarrow> sync_sys \<Rightarrow> bool" where
  "sys_inv rq sp s \<longleftrightarrow>
     wf_array (arr s) \<and>
     (\<forall>t i. slot_of (phase s t) = Some i \<longrightarrow> i < LOC_SYNC_REQ_BUFFER_SIZE \<and> slot_in_use (arr s) ! i) \<and>
     (\<forall>i<LOC_SYNC_REQ_BUFFER_SIZE. slot_in_use (arr s) ! i \<longrightarrow> (\<exists>t. slot_of (phase s t) = Some i)) \<and>
     (\<forall>t t' i. slot_of (phase s t) = Some i \<and> slot_of (phase s t') = Some i \<longrightarrow> t = t') \<and>
     (\<forall>t. phase_ok sp (rq t) t (\<lambda>i. slots (arr s) ! i) (got s t) (phase s t))"

lemma phase_ok_frame:
  assumes "phase_ok sp r t f g ph" "\<And>i. slot_of ph = Some i \<Longrightarrow> f' i = f i" "g \<longrightarrow> g'"
  shows "phase_ok sp r t f' g' ph"
  using assms by (cases ph) auto

lemma sys_inv_used: "sys_inv rq sp s \<Longrightarrow> j < LOC_SYNC_REQ_BUFFER_SIZE \<Longrightarrow> slot_in_use (arr s) ! j \<Longrightarrow>
    \<exists>t. slot_of (phase s t) = Some j"
  by (simp add: sys_inv_def)

lemma sys_inv_uniq: "sys_inv rq sp s \<Longrightarrow> slot_of (phase s t) = Some i \<Longrightarrow> slot_of (phase s t') = Some i \<Longrightarrow> t = t'"
  by (simp add: sys_inv_def)

lemma sys_inv_owner:
  assumes "sys_inv rq sp s" "slot_of (phase s t) = Some i"
  shows "i < LOC_SYNC_REQ_BUFFER_SIZE" "slot_in_use (arr s) ! i" "wf_array (arr s)" "i < length (slots (arr s))"
    "phase_ok sp (rq t) t (\<lambda>j. slots (arr s) ! j) (got s t) (phase s t)"
  using assms unfolding sys_inv_def wf_array_def by auto

lemma sys_inv_same_slot:
  assumes inv: "sys_inv rq sp s" and "slot_of ph = slot_of (phase s t)"
    and ok: "phase_ok sp (rq t) t (\<lambda>j. slots (arr s) ! j) (got s t) ph"
  shows "sys_inv rq sp (s\<lparr>phase := (phase s)(t := ph)\<rparr>)"
proof -
  have "slot_of (((phase s)(t := ph)) u) = slot_of (phase s u)" for u using assms(2) by simp
  moreover have "phase_ok sp (rq u) u (\<lambda>j. slots (arr s) ! j) (got s u) (((phase s)(t := ph)) u)" for u
    using ok inv by (simp add: sys_inv_def)
  ultimately show ?thesis using inv unfolding sys_inv_def by simp
qed

text \<open>A step of one thread that touches only its own slot.\<close>

lemma sys_inv_thread:
  assumes inv: "sys_inv rq sp s" and i: "i < LOC_SYNC_REQ_BUFFER_SIZE"
    and own: "slot_of (phase s t) = Some i \<or> slot_of (phase s t) = None \<and> \<not> slot_in_use (arr s) ! i"
    and ph: "slot_of ph = Some i \<or> slot_of ph = None"
    and wf: "wf_array a" and used: "slot_in_use a ! i \<longleftrightarrow> slot_of ph = Some i"
    and frame: "\<And>j. j \<noteq> i \<Longrightarrow> slots a ! j = slots (arr s) ! j \<and> slot_in_use a ! j = slot_in_use (arr s) ! j"
    and ok: "phase_ok sp (rq t) t (\<lambda>j. slots a ! j) (g t) ph" and g: "\<And>u. u \<noteq> t \<Longrightarrow> g u = got s u"
  shows "sys_inv rq sp (s\<lparr>arr := a, phase := (phase s)(t := ph), got := g\<rparr>)"
proof -
  have uniq: "u = t" if "slot_of (phase s u) = Some i" for u
    using own that sys_inv_uniq [OF inv] sys_inv_owner(2) [OF inv that] by blast
  have others: "phase_ok sp (rq u) u (\<lambda>j. slots a ! j) (g u) (phase s u)" if "u \<noteq> t" for u
  proof (rule phase_ok_frame)
    show "phase_ok sp (rq u) u (\<lambda>j. slots (arr s) ! j) (got s u) (phase s u)" using inv by (simp add: sys_inv_def)
    show "slots a ! j = slots (arr s) ! j" if "slot_of (phase s u) = Some j" for j
      using uniq frame that \<open>u \<noteq> t\<close> by metis
    show "got s u \<longrightarrow> g u" using g that by simp
  qed
  have "\<exists>u. slot_of (((phase s)(t := ph)) u) = Some j" if j: "j < LOC_SYNC_REQ_BUFFER_SIZE" "slot_in_use a ! j" for j
  proof (cases "j = i")
    case True
    then show ?thesis using used j by (intro exI [of _ t]) simp
  next
    case False
    then obtain u where u: "slot_of (phase s u) = Some j" using frame [of j] j sys_inv_used [OF inv j(1)] by blast
    then have "u \<noteq> t" using own False by auto
    with u show ?thesis by (intro exI [of _ u]) simp
  qed
  moreover have "j < LOC_SYNC_REQ_BUFFER_SIZE \<and> slot_in_use a ! j"
    if "slot_of (((phase s)(t := ph)) u) = Some j" for u j
  proof (cases "u = t")
    case True
    then show ?thesis using that ph used i by auto
  next
    case False
    then have "slot_of (phase s u) = Some j" using that by simp
    then have "j < LOC_SYNC_REQ_BUFFER_SIZE" "slot_in_use (arr s) ! j" "j \<noteq> i"
      using sys_inv_owner(1,2) [OF inv, of u j] uniq [of u] False by auto
    then show ?thesis using frame by simp
  qed
  moreover have "u = u'" if "slot_of (((phase s)(t := ph)) u) = Some j" "slot_of (((phase s)(t := ph)) u') = Some j"
    for u u' j
  proof (cases "j = i")
    case True
    have "v = t" if "slot_of (((phase s)(t := ph)) v) = Some i" for v
      using that uniq by (cases "v = t") auto
    then show ?thesis using that True by blast
  next
    case False
    have "slot_of (phase s v) = Some j" if "slot_of (((phase s)(t := ph)) v) = Some j" for v
      using that ph False by (cases "v = t") auto
    then show ?thesis using that sys_inv_uniq [OF inv] by blast
  qed
  moreover have "phase_ok sp (rq u) u (\<lambda>j. slots a ! j) (g u) (((phase s)(t := ph)) u)" for u
    using others ok by (cases "u = t") auto
  moreover have "arr (s\<lparr>arr := a, phase := (phase s)(t := ph), got := g\<rparr>) = a"
    "phase (s\<lparr>arr := a, phase := (phase s)(t := ph), got := g\<rparr>) = (phase s)(t := ph)"
    "got (s\<lparr>arr := a, phase := (phase s)(t := ph), got := g\<rparr>) = g" by simp_all
  ultimately show ?thesis
    unfolding sys_inv_def using wf by (simp only:) blast
qed

lemma indicate_phase_ok:
  assumes "phase_ok sp r t (\<lambda>j. slots a ! j) g ph" "\<And>i. slot_of ph = Some i \<Longrightarrow> i < length (slots a)"
  shows "phase_ok sp r t (\<lambda>j. slots_after ind a (length (slots a)) ! j)
    (g \<or> (\<exists>i. listening ph = Some i \<and> ind_reaches ind a i)) ph"
  using assms
  by (cases ph) (auto simp: slots_after_all wake_slot_def holds_req_def ind_reaches_def slot_matches_def)

lemma sys_inv_indicate:
  assumes "sys_inv rq sp s"
  shows "sys_inv rq sp (s\<lparr>arr := loc_sync_process_ind ind (arr s),
    got := (\<lambda>t. got s t \<or> (\<exists>i. listening (phase s t) = Some i \<and> ind_reaches ind (arr s) i))\<rparr>)"
proof -
  have wf: "wf_array (arr s)" using assms by (simp add: sys_inv_def)
  then have len: "length (slots (arr s)) = LOC_SYNC_REQ_BUFFER_SIZE" by (simp add: wf_array_def)
  have "phase_ok sp (rq t) t (\<lambda>j. slots_after ind (arr s) LOC_SYNC_REQ_BUFFER_SIZE ! j)
      (got s t \<or> (\<exists>i. listening (phase s t) = Some i \<and> ind_reaches ind (arr s) i)) (phase s t)" for t
    unfolding len [symmetric]
    by (rule indicate_phase_ok) (use assms sys_inv_owner(4) [OF assms] in \<open>auto simp: sys_inv_def\<close>)
  moreover have "wf_array (loc_sync_process_ind ind (arr s))" using wf by (rule wf_process_ind)
  moreover have "slots (loc_sync_process_ind ind (arr s)) = slots_after ind (arr s) LOC_SYNC_REQ_BUFFER_SIZE"
    "slot_in_use (loc_sync_process_ind ind (arr s)) = slot_in_use (arr s)"
    using process_ind_eq [OF wf] by simp_all
  ultimately show ?thesis using assms unfolding sys_inv_def by simp
qed

lemma sys_inv_step:
  assumes inv: "sys_inv rq sp s" and step: "sync_step rq sp s s'"
  shows "sys_inv rq sp s'"
  using step
proof cases
  case (alloc t i a)
  have wf: "wf_array (arr s)" using inv by (simp add: sys_inv_def)
  from wf show ?thesis
  proof (cases rule: alloc_slot_cases)
    case full
    have "sys_inv rq sp (s\<lparr>phase := (phase s)(t := Refused)\<rparr>)"
      by (rule sys_inv_same_slot [OF inv]) (use alloc(2) in auto)
    moreover have "s' = s\<lparr>phase := (phase s)(t := Refused)\<rparr>" using alloc full by (cases s) auto
    ultimately show ?thesis by simp
  next
    case (ok k)
    have "sys_inv rq sp (s\<lparr>arr := (arr s)\<lparr>slot_in_use := (slot_in_use (arr s))[k := True], arr_in_use := True\<rparr>,
        phase := (phase s)(t := Allocated k), got := got s\<rparr>)"
      by (rule sys_inv_thread [OF inv ok(1)])
        (use ok alloc(2) wf wf_alloc [OF wf ok(1)] in \<open>auto simp: free_slot_def wf_array_def\<close>)
    moreover have "nat i = k" "0 \<le> i" using alloc(3) ok(4) by auto
    ultimately show ?thesis using alloc ok by simp
  qed
next
  case (select t i)
  note own = sys_inv_owner [OF inv, of t i]
  have "sys_inv rq sp (s\<lparr>arr := fill_slot (rq_client (rq t)) (rq_ind (rq t)) (rq_req (rq t)) (ptr_of (rq t) t) i (arr s),
      phase := (phase s)(t := Selected i), got := (got s)(t := False)\<rparr>)"
    by (rule sys_inv_thread [OF inv own(1)])
      (use own select in \<open>auto simp: fill_slot_def wf_slot_update holds_req_def\<close>)
  with select show ?thesis by simp
next
  case (send_ok t i)
  note own = sys_inv_owner [OF inv, of t i]
  have "sys_inv rq sp (s\<lparr>phase := (phase s)(t := Sent i)\<rparr>)"
    by (rule sys_inv_same_slot [OF inv]) (use own send_ok in auto)
  with send_ok show ?thesis by simp
next
  case (send_fail t i st)
  note own = sys_inv_owner [OF inv, of t i]
  have "sys_inv rq sp (s\<lparr>phase := (phase s)(t := SendFailed i st)\<rparr>)"
    by (rule sys_inv_same_slot [OF inv]) (use own send_fail in auto)
  with send_fail show ?thesis by simp
next
  case (fail_free t i st)
  note own = sys_inv_owner [OF inv, of t i]
  have "sys_inv rq sp (s\<lparr>arr := loc_free_slot i (arr s), phase := (phase s)(t := Done st), got := got s\<rparr>)"
    by (rule sys_inv_thread [OF inv own(1)])
      (use own fail_free free_slot_eq [of "arr s" i] in \<open>auto simp: wf_array_def\<close>)
  with fail_free show ?thesis by simp
next
  case (wait_invalid t i)
  note own = sys_inv_owner [OF inv, of t i]
  have "valid_select (int i) (arr s)" using own wait_invalid by (simp add: valid_select_def)
  with wait_invalid show ?thesis by simp
next
  case (wait t i r a)
  note own = sys_inv_owner [OF inv, of t i]
  have "sys_inv rq sp (s\<lparr>arr := a, phase := (phase s)(t := case r of None \<Rightarrow> Waiting i | Some rc \<Rightarrow> Ending i rc),
      got := got s\<rparr>)"
    by (rule sys_inv_thread [OF inv own(1)])
      (use own wait in \<open>auto simp: wait_begin_def wf_slot_update holds_req_def split: if_splits option.splits\<close>)
  with wait show ?thesis by simp
next
  case (wake t i timed_out rc a)
  note own = sys_inv_owner [OF inv, of t i]
  have "sys_inv rq sp (s\<lparr>arr := a, phase := (phase s)(t := Ending i rc), got := got s\<rparr>)"
    by (rule sys_inv_thread [OF inv own(1)])
      (use own wake in \<open>auto simp: wait_end_def wf_slot_update holds_req_def errno_defs split: if_splits\<close>)
  with wake show ?thesis by simp
next
  case (finish t i rc)
  note own = sys_inv_owner [OF inv, of t i]
  have "sys_inv rq sp (s\<lparr>arr := loc_free_slot i (arr s), phase := (phase s)(t := Done (status_of_wait rc)), got := got s\<rparr>)"
    by (rule sys_inv_thread [OF inv own(1)])
      (use own finish free_slot_eq [of "arr s" i] in \<open>auto simp: wf_array_def status_of_wait_def errno_defs split: if_splits\<close>)
  with finish show ?thesis by simp
next
  case (indicate ind)
  with sys_inv_indicate [OF inv] show ?thesis by simp
qed

lemma sync_reach_inv: "sync_reach rq sp s \<Longrightarrow> sys_inv rq sp s"
proof (induction rule: sync_reach.induct)
  case (sync_start a)
  then have "wf_array (loc_sync_req_init a)" by (rule wf_init)
  with sync_start show ?case
    by (auto simp: sys_inv_def loc_sync_req_init_def LOC_SYNC_REQ_BUFFER_SIZE_def)
next
  case (sync_next s s')
  then show ?case by (blast intro: sys_inv_step)
qed

text \<open>
  C7. However the requests of any number of threads and the indications interleave, also with
  spurious wake-ups: no two threads ever share a slot, a slot is marked used exactly while
  a thread owns it, the shared \<^verbatim>\<open>in_use\<close> flag is exact, free slots are completely reset, and
  waiting never fails with \<^verbatim>\<open>-EBUSY\<close> or \<^verbatim>\<open>-EINVAL\<close>; so no slot is leaked once all threads are done.
\<close>

theorem sync_slots_exclusive:
  assumes "sync_reach rq spurious s"
  shows "wf_array (arr s) \<and>
    (\<forall>t t' i. slot_of (phase s t) = Some i \<longrightarrow> slot_of (phase s t') = Some i \<longrightarrow> t = t') \<and>
    (\<forall>i<LOC_SYNC_REQ_BUFFER_SIZE. slot_in_use (arr s) ! i \<longleftrightarrow> (\<exists>t. slot_of (phase s t) = Some i)) \<and>
    (\<forall>t i rc. phase s t = Ending i rc \<longrightarrow> rc = 0 \<or> rc = - ETIMEDOUT) \<and>
    ((\<forall>t. slot_of (phase s t) = None) \<longrightarrow> \<not> arr_in_use (arr s))"
proof -
  have inv: "sys_inv rq spurious s" using assms by (rule sync_reach_inv)
  then have wf: "wf_array (arr s)" by (simp add: sys_inv_def)
  have used: "slot_in_use (arr s) ! i \<longleftrightarrow> (\<exists>t. slot_of (phase s t) = Some i)" if "i < LOC_SYNC_REQ_BUFFER_SIZE" for i
    using sys_inv_used [OF inv that] sys_inv_owner(2) [OF inv] by blast
  have "rc = 0 \<or> rc = - ETIMEDOUT" if "phase s t = Ending i rc" for t i rc
    using sys_inv_owner(5) [OF inv, of t i] that by simp
  moreover have "\<not> arr_in_use (arr s)" if "\<forall>t. slot_of (phase s t) = None"
    using wf used that by (auto simp: wf_array_def)
  ultimately show ?thesis using wf used sys_inv_uniq [OF inv] by blast
qed

definition sync_zero :: sync_array where
  "sync_zero = \<lparr>sync_initialized = False, arr_in_use = False, slot_in_use = [], slots = [], bufs = (\<lambda>_. [])\<rparr>"

definition demo_req :: "nat \<Rightarrow> request" where
  "demo_req t = \<lparr>rq_client = Some 1, rq_ind = 0x21, rq_req = 0x21, rq_buf = True\<rparr>"

lemma demo_reach:
  "\<exists>s. sync_reach demo_req sp s \<and> phase s 0 = Allocated 0 \<and> phase s 1 = Idle \<and> \<not> got s 0"
proof -
  let ?s0 = "\<lparr>arr = loc_sync_req_init sync_zero, phase = (\<lambda>_. Idle), got = (\<lambda>_. False)\<rparr> :: sync_sys"
  have r0: "sync_reach demo_req sp ?s0" by (rule sync_start) (simp add: sync_zero_def)
  obtain a where a: "loc_alloc_slot (arr ?s0) = (0, a)"
    by (simp add: loc_alloc_slot_def loc_sync_req_init_def sync_zero_def LOC_SYNC_REQ_BUFFER_SIZE_def upt_rec)
  have "sync_reach demo_req sp (?s0\<lparr>arr := a, phase := (phase ?s0)(0 := Allocated 0)\<rparr>)"
    using sync_next [OF r0 sync_step.alloc [OF _ a, of 0]] by simp
  then show ?thesis by fastforce
qed

theorem sync_slots_exclusive_witness:
  "\<exists>s::sync_sys. phase s 0 = Allocated 0 \<and> phase s 1 = Idle \<and> wf_array (arr s) \<and> slot_in_use (arr s) ! 0"
proof -
  obtain s where s: "sync_reach demo_req True s" "phase s 0 = Allocated 0" "phase s 1 = Idle"
    using demo_reach by blast
  have "slot_of (phase s 0) = Some 0" "0 < LOC_SYNC_REQ_BUFFER_SIZE"
    using s(2) by (simp_all add: LOC_SYNC_REQ_BUFFER_SIZE_def)
  with sync_slots_exclusive [OF s(1)] have "wf_array (arr s)" "slot_in_use (arr s) ! 0" by blast+
  with s show ?thesis by blast
qed


text \<open>A run of one request: the indication arrives before the thread waits.\<close>

definition demo_ind :: indication where
  "demo_ind = \<lparr>ind_client = Some 1, ind_id = 0x21, ind_payload = Some [1, 2]\<rparr>"

definition demo_arr1 :: sync_array where
  "demo_arr1 = snd (loc_alloc_slot (loc_sync_req_init sync_zero))"
definition demo_arr2 :: sync_array where
  "demo_arr2 = fill_slot (Some 1) 0x21 0x21 (Some 0) 0 demo_arr1"
definition demo_arr3 :: sync_array where
  "demo_arr3 = loc_sync_process_ind demo_ind demo_arr2"

lemma demo_run:
  "\<exists>s. sync_reach demo_req sp s \<and> phase s 0 = Done eLOC_CLIENT_SUCCESS"
proof -
  let ?S = "\<lambda>a ph g. \<lparr>arr = a, phase = (\<lambda>_. Idle)(0 := ph), got = g\<rparr> :: sync_sys"
  have r0: "sync_reach demo_req sp (?S (loc_sync_req_init sync_zero) Idle (\<lambda>_. False))"
    using sync_start [of sync_zero demo_req sp] by (simp add: sync_zero_def fun_upd_idem)
  have "loc_alloc_slot (loc_sync_req_init sync_zero) = (0, demo_arr1)"
    by (simp add: demo_arr1_def loc_alloc_slot_def loc_sync_req_init_def sync_zero_def
        LOC_SYNC_REQ_BUFFER_SIZE_def upt_rec)
  then have r1: "sync_reach demo_req sp (?S demo_arr1 (Allocated 0) (\<lambda>_. False))"
    using sync_next [OF r0 sync_step.alloc [of _ 0]] by simp
  have r2: "sync_reach demo_req sp (?S demo_arr2 (Selected 0) ((\<lambda>_. False)(0 := False)))"
    using sync_next [OF r1 sync_step.select [of _ 0 0]] by (simp add: demo_arr2_def demo_req_def ptr_of_def)
  have r3: "sync_reach demo_req sp (?S demo_arr2 (Sent 0) ((\<lambda>_. False)(0 := False)))"
    using sync_next [OF r2 sync_step.send_ok [of _ 0 0]] by simp
  from sync_next [OF r3 sync_step.indicate [of _ _ _ demo_ind]] obtain g where
    r4: "sync_reach demo_req sp (?S demo_arr3 (Sent 0) g)" by (simp add: demo_arr3_def)
  have "ind_has_arrived (slots demo_arr3 ! 0)" "slot_in_use demo_arr3 ! 0" by code_simp+
  then have "wait_begin 0 demo_arr3 = (Some 0, demo_arr3)" "valid_select (int 0) demo_arr3"
    by (simp_all add: wait_begin_def valid_select_def LOC_SYNC_REQ_BUFFER_SIZE_def)
  then have r5: "sync_reach demo_req sp (?S demo_arr3 (Ending 0 0) g)"
    using sync_next [OF r4 sync_step.wait [of _ 0 0]] by simp
  show ?thesis
    using sync_next [OF r5 sync_step.finish [of _ 0 0 0]] by (auto simp: status_of_wait_def)
qed


subsection \<open>One request\<close>

text \<open>
  One indication, in a well-formed array: the slots it reaches are the used slots with
  its handle and identifier that have not been answered, in order up to the first one that
  takes the payload; exactly these are woken or marked, all others keep their state, and
  only the buffer of the slot that takes the payload is written.
\<close>

theorem process_ind_effect:
  assumes "wf_array a"
  shows "wf_array (loc_sync_process_ind ind a) \<and>
    slot_in_use (loc_sync_process_ind ind a) = slot_in_use a \<and>
    (\<forall>i<LOC_SYNC_REQ_BUFFER_SIZE. slots (loc_sync_process_ind ind a) ! i =
       (if ind_reaches ind a i then wake_slot ind (slots a ! i) else slots a ! i)) \<and>
    (\<forall>p. bufs (loc_sync_process_ind ind a) p \<noteq> bufs a p \<longrightarrow>
       (\<exists>i<LOC_SYNC_REQ_BUFFER_SIZE. ind_taken ind a i \<and> recv_ind_payload_ptr (slots a ! i) = Some p \<and>
          bufs (loc_sync_process_ind ind a) p =
            the (ind_payload ind) @ drop (length (the (ind_payload ind))) (bufs a p)))"
proof -
  let ?n = LOC_SYNC_REQ_BUFFER_SIZE
  have len: "length (slots a) = ?n" using assms by (simp add: wf_array_def)
  have b: "\<exists>i<?n. ind_taken ind a i \<and> recv_ind_payload_ptr (slots a ! i) = Some p \<and>
      bufs_after ind a ?n p = the (ind_payload ind) @ drop (length (the (ind_payload ind))) (bufs a p)"
    if p: "bufs_after ind a ?n p \<noteq> bufs a p" for p
  proof (cases "find (ind_taken ind a) [0..<?n]")
    case None
    then show ?thesis using p by (simp add: bufs_after_def)
  next
    case (Some i)
    then have i: "i < ?n" "ind_taken ind a i" by (auto simp: find_Some_iff)
    then obtain q where "recv_ind_payload_ptr (slots a ! i) = Some q"
      by (auto simp: ind_taken_def takes_payload_def)
    with Some i p show ?thesis
      by (intro exI [of _ i]) (auto simp: bufs_after_def copy_payload_def split: if_splits)
  qed
  show ?thesis
    using wf_process_ind [OF assms, of ind] b slots_after_all [of _ a ind]
    unfolding process_ind_eq [OF assms] len by simp
qed

theorem process_ind_effect_witness:
  "wf_array (loc_sync_process_ind \<lparr>ind_client = Some 1, ind_id = 0x21, ind_payload = Some [1]\<rparr>
     (loc_sync_req_init sync_zero))"
proof -
  have "wf_array (loc_sync_req_init sync_zero)" by (rule wf_init) (simp add: sync_zero_def)
  from process_ind_effect [OF this] show ?thesis by blast
qed

lemma no_other_match:
  assumes "\<forall>j<LOC_SYNC_REQ_BUFFER_SIZE. slot_in_use a ! j \<longrightarrow>
      \<not> (client_handle (slots a ! j) = ind_client ind \<and> recv_ind_id (slots a ! j) = ind_id ind)"
  shows "j < LOC_SYNC_REQ_BUFFER_SIZE \<Longrightarrow> \<not> slot_matches ind (slot_in_use a ! j) (slots a ! j)"
  using assms by (auto simp: slot_matches_def)

text \<open>
  The common case of a synchronous request: with a free slot and no other pending request
  for the same handle and identifier, an indication that arrives after the slot was selected
  and before the thread waits completes the call at once.
\<close>

lemma send_req_answered:
  assumes wf: "wf_array a" and free: "\<exists>i<LOC_SYNC_REQ_BUFFER_SIZE. \<not> slot_in_use a ! i"
    and alone: "\<forall>j<LOC_SYNC_REQ_BUFFER_SIZE. slot_in_use a ! j \<longrightarrow>
      \<not> (client_handle (slots a ! j) = c \<and> recv_ind_id (slots a ! j) = n)"
    and pl: "pl \<noteq> []"
  shows "\<exists>a'. loc_sync_send_req eLOC_CLIENT_SUCCESS [\<lparr>ind_client = c, ind_id = n, ind_payload = Some pl\<rparr>]
      late timed_out c rid n (Some p) a = (eLOC_CLIENT_SUCCESS, a') \<and>
    bufs a' = (bufs a)(p := pl @ drop (length pl) (bufs a p)) \<and>
    slots a' = slots a \<and> slot_in_use a' = slot_in_use a \<and> wf_array a'"
proof -
  let ?ind = "\<lparr>ind_client = c, ind_id = n, ind_payload = Some pl\<rparr>" and ?N = LOC_SYNC_REQ_BUFFER_SIZE
  from wf free obtain i where i: "i < ?N" "\<not> slot_in_use a ! i" "slots a ! i = free_slot"
    "loc_alloc_slot a = (int i, a\<lparr>slot_in_use := (slot_in_use a)[i := True], arr_in_use := True\<rparr>)"
    by (cases rule: alloc_slot_cases) auto
  let ?a0 = "a\<lparr>slot_in_use := (slot_in_use a)[i := True], arr_in_use := True\<rparr>"
  let ?a1 = "fill_slot c n rid (Some p) i ?a0"
  have len: "length (slots a) = ?N" "length (slot_in_use a) = ?N" using wf by (auto simp: wf_array_def)
  have wf0: "wf_array ?a0" using wf i(1) by (rule wf_alloc)
  then have wf1: "wf_array ?a1" unfolding fill_slot_def using i(1) len by (intro wf_slot_update) auto
  have used1: "slot_in_use ?a1 = (slot_in_use a)[i := True]" "bufs ?a1 = bufs a"
    "slots ?a1 = (slots a)[i := slots ?a1 ! i]"
    using i(1) len by (simp_all add: fill_slot_def)
  have si: "holds_slot" if "holds_slot = (client_handle (slots ?a1 ! i) = c \<and> recv_ind_id (slots ?a1 ! i) = n \<and>
      \<not> ind_has_arrived (slots ?a1 ! i) \<and> \<not> ind_is_waiting (slots ?a1 ! i) \<and>
      recv_ind_payload_ptr (slots ?a1 ! i) = Some p)" for holds_slot
    using that i(1) len by (simp add: fill_slot_def)
  have mi: "slot_matches ?ind (slot_in_use ?a1 ! i) (slots ?a1 ! i)" "takes_payload ?ind (slots ?a1 ! i)"
    using si i(1) len pl by (auto simp: slot_matches_def takes_payload_def used1(1))
  have mj: "\<not> slot_matches ?ind (slot_in_use ?a1 ! j) (slots ?a1 ! j)" if "j < ?N" "j \<noteq> i" for j
    using no_other_match [of a ?ind j] alone that used1(1,3) by (metis indication.select_convs(1,2) nth_list_update_neq)
  have taken: "ind_taken ?ind ?a1 j \<longleftrightarrow> j = i" "ind_reaches ?ind ?a1 j \<longleftrightarrow> j = i" if "j < ?N" for j
    using mi mj that i(1) by (auto simp: ind_taken_def ind_reaches_def)
  have "find (ind_taken ?ind ?a1) [0..<?N] = Some i"
    unfolding find_Some_iff using taken i(1) by (intro exI [of _ i]) auto
  then have bufs2: "bufs_after ?ind ?a1 ?N = (bufs a)(p := pl @ drop (length pl) (bufs a p))"
    using si by (simp add: bufs_after_def copy_payload_def used1(2))
  have len1: "length (slots ?a1) = ?N" using wf1 by (simp add: wf_array_def)
  let ?a2 = "loc_sync_process_ind ?ind ?a1"
  have wf2: "wf_array ?a2" using wf1 by (rule wf_process_ind)
  have a2: "bufs ?a2 = (bufs a)(p := pl @ drop (length pl) (bufs a p))" "slot_in_use ?a2 = (slot_in_use a)[i := True]"
    "\<And>j. j < ?N \<Longrightarrow> slots ?a2 ! j = (if j = i then wake_slot ?ind (slots ?a1 ! i) else slots a ! j)"
    using process_ind_eq [OF wf1, of ?ind] bufs2 used1 taken(2) slots_after_all [of _ ?a1 ?ind, unfolded len1]
    by (auto simp: nth_list_update_neq) (metis nth_list_update_neq)
  have arrived: "ind_has_arrived (slots ?a2 ! i)" using a2(3) [OF i(1)] si by (simp add: wake_slot_def)
  let ?a3 = "loc_free_slot i ?a2"
  note fr = free_slot_eq [OF wf2 i(1)]
  have "slots ?a3 = slots a"
    using fr(3) a2(3) i len1 len wf2 by (intro nth_equalityI) (auto simp: wf_array_def nth_list_update)
  moreover have "slot_in_use ?a3 = slot_in_use a"
    using fr(2) a2(2) i by (simp add: list_update_same_conv len)
  moreover have "loc_sync_send_req eLOC_CLIENT_SUCCESS [?ind] late timed_out c rid n (Some p) a =
      (eLOC_CLIENT_SUCCESS, ?a3)"
    using i(1) arrived a2(2) len
    by (simp add: loc_sync_send_req_def loc_sync_select_ind_def i(4) valid_select_def wait_begin_def status_of_wait_def)
  ultimately show ?thesis using fr(1,4) a2(1) by auto
qed

text \<open>
  When all slots are taken, the request is not sent and nothing changes, but the caller
  is told success.
\<close>

theorem send_req_full:
  assumes "\<forall>i<LOC_SYNC_REQ_BUFFER_SIZE. slot_in_use a ! i"
  shows "loc_sync_send_req send early late timed_out c rid n p a = (eLOC_CLIENT_SUCCESS, a)"
proof -
  have "find (\<lambda>i. \<not> slot_in_use a ! i) [0..<LOC_SYNC_REQ_BUFFER_SIZE] = None"
    using assms by (auto simp: find_None_iff)
  then show ?thesis
    by (simp add: loc_sync_send_req_def loc_sync_select_ind_def loc_alloc_slot_def errno_defs)
qed

theorem send_req_full_witness:
  "loc_sync_send_req eLOC_CLIENT_FAILURE_GENERAL [] [] True (Some 1) 0x21 0x21 None
     (sync_zero\<lparr>slot_in_use := replicate 8 True\<rparr>) =
   (eLOC_CLIENT_SUCCESS, sync_zero\<lparr>slot_in_use := replicate 8 True\<rparr>)"
  by (rule send_req_full) (simp add: LOC_SYNC_REQ_BUFFER_SIZE_def)

end
