(* ===== verification/Loc_Client.thy ===== *)
theory Loc_Client
  imports Loc_Tables Loc_Sync
begin

text \<open>
  \<^verbatim>\<open>src/opensource/location/loc_api/loc_api_v02/loc_api_v02_client.c\<close>: the client side of the
  location service. The QMI framework is outside: its return codes and responses are
  arguments. Callback data live in an explicit heap, a handle is the address of such a
  record or \<open>None\<close> (\<^verbatim>\<open>LOC_CLIENT_INVALID_HANDLE_VALUE\<close>); reading a freed record is \<open>Fault\<close>,
  and \<open>Blocked\<close> means that the service lookup has not succeeded yet. Log calls are left out.
\<close>

subsection \<open>Looking up indications\<close>

datatype locClientIndEnumT = eventIndType | respIndType

fun find_event :: "u32 \<Rightarrow> event_entry list \<Rightarrow> string option" where
  "find_event i [] = None"
| "find_event i (x # xs) = (if i = eventId x then Some (eventSize x) else find_event i xs)"

fun find_resp :: "u32 \<Rightarrow> resp_entry list \<Rightarrow> string option" where
  "find_resp i [] = None"
| "find_resp i (x # xs) = (if i = respIndId x then Some (respIndSize x) else find_resp i xs)"

text \<open>The size goes through an output pointer, which is null when \<open>out\<close> is false.\<close>

definition locClientGetSizeByEventIndId :: "(string \<Rightarrow> nat) \<Rightarrow> u32 \<Rightarrow> bool \<Rightarrow> nat option" where
  "locClientGetSizeByEventIndId sizeof i out =
     (if \<not> out then None else map_option sizeof (find_event i locClientEventIndTable))"

definition locClientGetSizeByRespIndId :: "(string \<Rightarrow> nat) \<Rightarrow> u32 \<Rightarrow> bool \<Rightarrow> nat option" where
  "locClientGetSizeByRespIndId sizeof i out =
     (if \<not> out then None else map_option sizeof (find_resp i locClientRespIndTable))"

definition locClientGetSizeAndTypeByIndId ::
    "(string \<Rightarrow> nat) \<Rightarrow> u32 \<Rightarrow> (nat \<times> locClientIndEnumT) option" where
  "locClientGetSizeAndTypeByIndId sizeof i =
     (case locClientGetSizeByEventIndId sizeof i True of
        Some n \<Rightarrow> Some (n, eventIndType)
      | None \<Rightarrow>
          (case locClientGetSizeByRespIndId sizeof i True of
             Some n \<Rightarrow> Some (n, respIndType)
           | None \<Rightarrow> None))"

subsection \<open>Supported messages\<close>

record supported_msgs =
  supported_msgs_valid :: bool
  supported_msgs_len :: u32
  supported_msgs_arr :: "u8 list"

text \<open>
  \<^verbatim>\<open>1 << idx\<close> for an \<^verbatim>\<open>int\<close>, converted to \<^verbatim>\<open>uint64_t\<close> by \<^verbatim>\<open>|=\<close>: the shift by 31 gives a
  negative \<^verbatim>\<open>int\<close> that is sign extended; a shift by 32 or more is undefined (\<open>None\<close>).
\<close>

definition int_shift :: "nat \<Rightarrow> u64 option" where
  "int_shift idx = (if idx < 32 then Some (scast (push_bit idx (1 :: 32 word))) else None)"

definition msg_bit :: "supported_msgs \<Rightarrow> u32 \<Rightarrow> bool" where
  "msg_bit r reqId =
     (let len = unat (drop_bit 3 reqId) in
      len < unat (supported_msgs_len r) \<and>
      bit (supported_msgs_arr r ! len) (unat (take_bit 3 reqId)))"

fun check_loop :: "supported_msgs \<Rightarrow> u32 list \<Rightarrow> nat \<Rightarrow> u64 \<Rightarrow> u64 option" where
  "check_loop r [] idx result = Some result"
| "check_loop r (reqId # ids) idx result =
     (if msg_bit r reqId
      then (case int_shift idx of None \<Rightarrow> None | Some b \<Rightarrow> check_loop r ids (Suc idx) (or result b))
      else check_loop r ids (Suc idx) result)"

definition checkQmiMsgsSupported :: "u32 list \<Rightarrow> supported_msgs \<Rightarrow> u64 option" where
  "checkQmiMsgsSupported reqIdArray r =
     (if supported_msgs_valid r
      then
        (let loopSize = min (min (length reqIdArray) (unat (supported_msgs_len r))) 64
         in check_loop r (take loopSize reqIdArray) 0 0)
      else Some 0)"

subsection \<open>QMI results\<close>

datatype qmi_rc = QMI_NO_ERR | QMI_SERVICE_ERR | QMI_OTHER_RC

datatype qmi_error =
  QMI_ERR_MALFORMED_MSG_V01 | QMI_ERR_INVALID_ARG_V01 | QMI_ERR_DEVICE_IN_USE_V01
| QMI_ERR_NOT_SUPPORTED_V01 | QMI_ERR_OTHER

record qmi_resp =
  result_success :: bool
  resp_error :: qmi_error

definition convertQmiResponseToLocStatus :: "qmi_resp \<Rightarrow> locClientStatusEnumType" where
  "convertQmiResponseToLocStatus r =
     (if result_success r then eLOC_CLIENT_SUCCESS
      else case resp_error r of
        QMI_ERR_MALFORMED_MSG_V01 \<Rightarrow> eLOC_CLIENT_FAILURE_INVALID_PARAMETER
      | QMI_ERR_INVALID_ARG_V01 \<Rightarrow> eLOC_CLIENT_FAILURE_INVALID_PARAMETER
      | QMI_ERR_DEVICE_IN_USE_V01 \<Rightarrow> eLOC_CLIENT_FAILURE_ENGINE_BUSY
      | QMI_ERR_NOT_SUPPORTED_V01 \<Rightarrow> eLOC_CLIENT_FAILURE_UNSUPPORTED
      | QMI_ERR_OTHER \<Rightarrow> eLOC_CLIENT_FAILURE_INTERNAL)"

datatype locClientErrorEnumType = eLOC_CLIENT_ERROR_SERVICE_UNAVAILABLE

definition convertQmiErrorToLocError :: "qmi_rc \<Rightarrow> locClientErrorEnumType" where
  "convertQmiErrorToLocError e =
     (case e of
        QMI_SERVICE_ERR \<Rightarrow> eLOC_CLIENT_ERROR_SERVICE_UNAVAILABLE
      | _ \<Rightarrow> eLOC_CLIENT_ERROR_SERVICE_UNAVAILABLE)"

subsection \<open>Client state\<close>

text \<open>Callbacks and cookies are opaque; \<open>None\<close> is the null function pointer.\<close>

record cb_data =
  pClientCookie :: nat
  userHandle :: "nat option"
  eventCallback :: "nat option"
  respCallback :: "nat option"
  errorCallback :: "nat option"
  eventRegMask :: u64
  pMe :: "nat option"

definition cb_zero :: cb_data where
  "cb_zero = \<lparr>pClientCookie = 0, userHandle = None, eventCallback = None, respCallback = None,
     errorCallback = None, eventRegMask = 0, pMe = None\<rparr>"

text \<open>
  The client's memory and what the QMI framework was handed: the messages sent (client,
  identifier, payload pointer, length), the handles released and the live clients with the
  callback data registered for them. A payload pointer is \<open>None\<close> when null, otherwise it
  is represented by the \<^verbatim>\<open>eventRegMask\<close> found behind it.
\<close>

type_synonym req_payload = "u64 option"

record client =
  cbs :: "nat \<Rightarrow> cb_data option"
  cl_next :: nat
  isCheckedAlready :: bool
  supportedMsgChecked :: u64
  sent :: "(nat option \<times> u32 \<times> req_payload \<times> nat) list"
  released :: "nat list"
  live :: "(nat option \<times> nat) list"

definition client_init :: client where
  "client_init = \<lparr>cbs = Map.empty, cl_next = 1, isCheckedAlready = False, supportedMsgChecked = 0,
     sent = [], released = [], live = []\<rparr>"

text \<open>The handle check shared by the entry points: the record, or an invalid handle, or a fault.\<close>

definition check_handle :: "nat option \<Rightarrow> client \<Rightarrow> cb_data option outcome" where
  "check_handle handle s =
     (case handle of
        None \<Rightarrow> Returns None
      | Some p \<Rightarrow>
          (case cbs s p of
             None \<Rightarrow> Fault
           | Some d \<Rightarrow> Returns (if userHandle d = None \<or> pMe d \<noteq> Some p then None else Some d)))"

subsection \<open>Callbacks from the framework\<close>

text \<open>
  Calls into the client: function, handle, and the arguments. An indication carries the
  decoded payload, \<open>None\<close> when the buffer stayed as \<^verbatim>\<open>malloc\<close> returned it.
\<close>

datatype upcall =
  ErrorCall nat nat locClientErrorEnumType nat
| EventCall nat nat u32 "u8 list option" nat
| RespCall nat nat u32 "u8 list option" nat nat

definition locClientErrorCb :: "qmi_rc \<Rightarrow> nat option \<Rightarrow> client \<Rightarrow> upcall list outcome" where
  "locClientErrorCb err err_cb_data s =
     (case err_cb_data of
        None \<Rightarrow> Returns []
      | Some p \<Rightarrow>
          (case cbs s p of
             None \<Rightarrow> Fault
           | Some d \<Rightarrow>
               (case errorCallback d of
                  None \<Rightarrow> Returns []
                | Some f \<Rightarrow>
                    Returns (if pMe d = Some p
                             then [ErrorCall f p (convertQmiErrorToLocError err) (pClientCookie d)]
                             else []))))"

text \<open>\<open>decode\<close> is \<^verbatim>\<open>qmi_client_message_decode\<close>: identifier, buffer and size to payload or error.\<close>

definition locClientIndCb ::
    "(string \<Rightarrow> nat) \<Rightarrow> bool \<Rightarrow> (u32 \<Rightarrow> u8 list \<Rightarrow> nat \<Rightarrow> u8 list option) \<Rightarrow> nat option \<Rightarrow> u32 \<Rightarrow> u8 list \<Rightarrow>
     nat option \<Rightarrow> client \<Rightarrow> upcall list outcome" where
  "locClientIndCb sizeof malloc_ok decode user_handle msg_id ind_buf ind_cb_data s =
     (case ind_cb_data of
        None \<Rightarrow> Returns []
      | Some p \<Rightarrow>
          (case cbs s p of
             None \<Rightarrow> Fault
           | Some d \<Rightarrow>
               if pMe d \<noteq> Some p then Returns []
               else if userHandle d \<noteq> user_handle then Returns []
               else case locClientGetSizeAndTypeByIndId sizeof msg_id of
                 None \<Rightarrow> Returns []
               | Some (indSize, indType) \<Rightarrow>
                   if \<not> malloc_ok then Returns []
                   else
                     (let payload = (if length ind_buf > 0 then decode msg_id ind_buf indSize else None);
                          rc = (if length ind_buf > 0 \<and> payload = None then QMI_OTHER_RC else QMI_NO_ERR) in
                      if rc = QMI_NO_ERR then
                        (case indType of
                           eventIndType \<Rightarrow>
                             (case eventCallback d of
                                None \<Rightarrow> Returns []
                              | Some f \<Rightarrow> Returns [EventCall f p msg_id payload (pClientCookie d)])
                         | respIndType \<Rightarrow>
                             (case respCallback d of
                                None \<Rightarrow> Returns []
                              | Some f \<Rightarrow> Returns [RespCall f p msg_id payload indSize (pClientCookie d)]))
                      else Returns [])))"

subsection \<open>Requests\<close>

definition validateRequest :: "(string \<Rightarrow> nat) \<Rightarrow> u32 \<Rightarrow> req_payload \<Rightarrow> (req_payload \<times> nat) option" where
  "validateRequest sizeof reqId reqPayload =
     (case map_of req_cases reqId of
        None \<Rightarrow> None
      | Some None \<Rightarrow> Some (None, 0)
      | Some (Some ty) \<Rightarrow> Some (reqPayload, sizeof ty))"

definition locClientSendReq ::
    "(string \<Rightarrow> nat) \<Rightarrow> qmi_rc \<Rightarrow> qmi_resp \<Rightarrow> nat option \<Rightarrow> u32 \<Rightarrow> req_payload \<Rightarrow> client \<Rightarrow>
     (locClientStatusEnumType \<times> client) outcome" where
  "locClientSendReq sizeof rc resp handle reqId reqPayload s =
     (case check_handle handle s of
        Fault \<Rightarrow> Fault
      | Blocked \<Rightarrow> Blocked
      | Returns None \<Rightarrow> Returns (eLOC_CLIENT_FAILURE_INVALID_HANDLE, s)
      | Returns (Some d) \<Rightarrow>
          (case validateRequest sizeof reqId reqPayload of
             None \<Rightarrow> Returns (eLOC_CLIENT_FAILURE_INVALID_PARAMETER, s)
           | Some (pReqData, reqLen) \<Rightarrow>
               (let s1 = s\<lparr>sent := sent s @ [(userHandle d, reqId, pReqData, reqLen)]\<rparr> in
                if rc = QMI_SERVICE_ERR then Returns (eLOC_CLIENT_FAILURE_PHONE_OFFLINE, s1)
                else if rc \<noteq> QMI_NO_ERR then Returns (eLOC_CLIENT_FAILURE_INTERNAL, s1)
                else
                  (let status = convertQmiResponseToLocStatus resp in
                   Returns (status,
                     if status = eLOC_CLIENT_SUCCESS \<and> reqId = QMI_LOC_REG_EVENTS_REQ_V02
                     then (case reqPayload of
                             Some m \<Rightarrow> s1\<lparr>cbs := (cbs s1)(the handle \<mapsto> d\<lparr>eventRegMask := m\<rparr>)\<rparr>
                           | None \<Rightarrow> s1)
                     else s1)))))"

definition locClientRegisterEventMask ::
    "(string \<Rightarrow> nat) \<Rightarrow> qmi_rc \<Rightarrow> qmi_resp \<Rightarrow> nat option \<Rightarrow> u64 \<Rightarrow> client \<Rightarrow> (bool \<times> client) outcome" where
  "locClientRegisterEventMask sizeof rc resp handle regMask s =
     (case locClientSendReq sizeof rc resp handle QMI_LOC_REG_EVENTS_REQ_V02 (Some regMask) s of
        Returns (status, s') \<Rightarrow> Returns (status = eLOC_CLIENT_SUCCESS, s')
      | Blocked \<Rightarrow> Blocked
      | Fault \<Rightarrow> Fault)"

subsection \<open>Opening and closing\<close>

text \<open>
  What the framework answers during one attempt to open. A lookup list holds the results of
  the lookups made so far; \<open>init_clnt\<close> is the handle \<^verbatim>\<open>qmi_client_init\<close> stores, given the
  clients that exist.
\<close>

record open_env =
  calloc_ok :: bool
  svc_object :: bool
  notifier_rc :: qmi_rc
  notifier_h :: "nat option"
  lookup_instance :: "int \<Rightarrow> qmi_rc list"
  lookup_any :: "qmi_rc list"
  init_rc :: qmi_rc
  init_clnt :: "(nat option \<times> nat) list \<Rightarrow> nat option"
  errcb_rc :: qmi_rc
  reg_rc :: qmi_rc
  reg_resp :: qmi_resp
  release_rc :: qmi_rc

text \<open>The loop around the lookup: \<open>False\<close> when it is still waiting for the service.\<close>

fun await_service :: "qmi_rc list \<Rightarrow> bool" where
  "await_service [] = False"
| "await_service (rc # rcs) = (if rc = QMI_NO_ERR then True else await_service rcs)"

definition release_notifier :: "open_env \<Rightarrow> client \<Rightarrow> client" where
  "release_notifier e s =
     (case notifier_h e of None \<Rightarrow> s | Some n \<Rightarrow> s\<lparr>released := released s @ [n]\<rparr>)"

definition locClientQmiCtrlPointInit ::
    "open_env \<Rightarrow> nat \<Rightarrow> int \<Rightarrow> client \<Rightarrow> (locClientStatusEnumType \<times> client) outcome" where
  "locClientQmiCtrlPointInit e p instanceId s =
     (if \<not> svc_object e then Returns (eLOC_CLIENT_FAILURE_INTERNAL, s)
      else if notifier_rc e \<noteq> QMI_NO_ERR then Returns (eLOC_CLIENT_FAILURE_INTERNAL, release_notifier e s)
      else if \<not> await_service (if instanceId \<ge> 0 then lookup_instance e instanceId else lookup_any e)
      then Blocked
      else if init_rc e \<noteq> QMI_NO_ERR then Returns (eLOC_CLIENT_FAILURE_INTERNAL, release_notifier e s)
      else
        (let clnt = init_clnt e (live s); s1 = s\<lparr>live := live s @ [(clnt, p)]\<rparr> in
         if errcb_rc e \<noteq> QMI_NO_ERR then Returns (eLOC_CLIENT_FAILURE_INTERNAL, release_notifier e s1)
         else case cbs s1 p of
           None \<Rightarrow> Fault
         | Some d \<Rightarrow> Returns (eLOC_CLIENT_SUCCESS,
             release_notifier e (s1\<lparr>cbs := (cbs s1)(p \<mapsto> d\<lparr>userHandle := clnt\<rparr>)\<rparr>))))"

text \<open>\<open>None\<close> for a null pointer to the handle; otherwise the handle and what becomes of it.\<close>

definition locClientClose ::
    "qmi_rc \<Rightarrow> nat option option \<Rightarrow> client \<Rightarrow> (locClientStatusEnumType \<times> nat option option \<times> client) outcome" where
  "locClientClose rel pHandle s =
     (case pHandle of
        None \<Rightarrow> Returns (eLOC_CLIENT_FAILURE_INVALID_PARAMETER, None, s)
      | Some handle \<Rightarrow>
          (case check_handle handle s of
             Fault \<Rightarrow> Fault
           | Blocked \<Rightarrow> Blocked
           | Returns None \<Rightarrow> Returns (eLOC_CLIENT_FAILURE_INVALID_HANDLE, pHandle, s)
           | Returns (Some d) \<Rightarrow>
               if rel \<noteq> QMI_NO_ERR then Returns (eLOC_CLIENT_FAILURE_INTERNAL, pHandle, s)
               else Returns (eLOC_CLIENT_SUCCESS, Some None,
                      s\<lparr>cbs := (cbs s)(the handle := None),
                        released := released s @ [the (userHandle d)],
                        live := filter (\<lambda>(c, p). c \<noteq> userHandle d) (live s)\<rparr>)))"

record callbacks =
  cbs_size_ok :: bool
  eventIndCb :: "nat option"
  respIndCb :: "nat option"
  errorCb :: "nat option"

text \<open>The part behind the control point: the self pointer, the registration and the callbacks.\<close>

definition open_connected ::
    "(string \<Rightarrow> nat) \<Rightarrow> open_env \<Rightarrow> u64 \<Rightarrow> callbacks \<Rightarrow> nat \<Rightarrow> nat \<Rightarrow> client \<Rightarrow>
     (locClientStatusEnumType \<times> nat option \<times> client) outcome" where
  "open_connected sizeof e regMask cb cookie p s =
     (case cbs s p of
        None \<Rightarrow> Fault
      | Some d0 \<Rightarrow>
          (case locClientRegisterEventMask sizeof (reg_rc e) (reg_resp e) (Some p) regMask
                  (s\<lparr>cbs := (cbs s)(p \<mapsto> d0\<lparr>pMe := Some p\<rparr>)\<rparr>) of
             Fault \<Rightarrow> Fault
           | Blocked \<Rightarrow> Blocked
           | Returns (ok, s2) \<Rightarrow>
               if \<not> ok then
                 (case locClientClose (release_rc e) (Some (Some p)) s2 of
                    Fault \<Rightarrow> Fault
                  | Blocked \<Rightarrow> Blocked
                  | Returns (st, h, s3) \<Rightarrow> Returns (eLOC_CLIENT_FAILURE_INTERNAL, None, s3))
               else
                 (case cbs s2 p of
                    None \<Rightarrow> Fault
                  | Some d \<Rightarrow>
                      Returns (eLOC_CLIENT_SUCCESS, Some p,
                        s2\<lparr>cbs := (cbs s2)(p \<mapsto> d\<lparr>eventCallback := eventIndCb cb,
                             respCallback := respIndCb cb, errorCallback := errorCb cb,
                             eventRegMask := regMask, pClientCookie := cookie\<rparr>)\<rparr>))))"

definition locClientOpenInstance ::
    "(string \<Rightarrow> nat) \<Rightarrow> open_env \<Rightarrow> u64 \<Rightarrow> int \<Rightarrow> callbacks option \<Rightarrow> nat option option \<Rightarrow> nat \<Rightarrow> client \<Rightarrow>
     (locClientStatusEnumType \<times> nat option option \<times> client) outcome" where
  "locClientOpenInstance sizeof e regMask instanceId pCallbacks pHandle cookie s =
     (case (pCallbacks, pHandle) of
        (Some cb, Some h) \<Rightarrow>
          if respIndCb cb = None \<or> \<not> cbs_size_ok cb
          then Returns (eLOC_CLIENT_FAILURE_INVALID_PARAMETER, pHandle, s)
          else if \<not> calloc_ok e then Returns (eLOC_CLIENT_FAILURE_INTERNAL, Some None, s)
          else
            (let p = cl_next s; s1 = s\<lparr>cl_next := p + 1, cbs := (cbs s)(p \<mapsto> cb_zero)\<rparr> in
             case locClientQmiCtrlPointInit e p instanceId s1 of
               Fault \<Rightarrow> Fault
             | Blocked \<Rightarrow> Blocked
             | Returns (status, s2) \<Rightarrow>
                 if status \<noteq> eLOC_CLIENT_SUCCESS
                 then Returns (status, Some None, s2\<lparr>cbs := (cbs s2)(p := None)\<rparr>)
                 else
                   (case open_connected sizeof e regMask cb cookie p s2 of
                      Fault \<Rightarrow> Fault
                    | Blocked \<Rightarrow> Blocked
                    | Returns (st, h', s3) \<Rightarrow> Returns (st, Some h', s3)))
      | _ \<Rightarrow> Returns (eLOC_CLIENT_FAILURE_INVALID_PARAMETER, pHandle, s))"

definition eLOC_CLIENT_INSTANCE_ID_ANY :: int where "eLOC_CLIENT_INSTANCE_ID_ANY = -1"
definition eLOC_CLIENT_INSTANCE_ID_QCA1530 :: int where "eLOC_CLIENT_INSTANCE_ID_QCA1530 = 1"
definition eLOC_CLIENT_INSTANCE_ID_GSS :: int where
  "eLOC_CLIENT_INSTANCE_ID_GSS = eLOC_CLIENT_INSTANCE_ID_ANY"
definition eLOC_CLIENT_INSTANCE_ID_MSM :: int where
  "eLOC_CLIENT_INSTANCE_ID_MSM = eLOC_CLIENT_INSTANCE_ID_ANY"
definition eLOC_CLIENT_INSTANCE_ID_MDM :: int where
  "eLOC_CLIENT_INSTANCE_ID_MDM = eLOC_CLIENT_INSTANCE_ID_ANY"
definition eLOC_CLIENT_INSTANCE_ID_GSS_AUTO :: int where "eLOC_CLIENT_INSTANCE_ID_GSS_AUTO = 0"

datatype gnss_type = GNSS_GSS | GNSS_QCA1530 | GNSS_MSM | GNSS_MDM | GNSS_AUTO | GNSS_OTHER

text \<open>The build for Android; otherwise every client asks for any instance.\<close>

definition instance_of_target :: "gnss_type \<Rightarrow> int" where
  "instance_of_target g =
     (case g of
        GNSS_GSS \<Rightarrow> eLOC_CLIENT_INSTANCE_ID_GSS
      | GNSS_QCA1530 \<Rightarrow> eLOC_CLIENT_INSTANCE_ID_QCA1530
      | GNSS_MSM \<Rightarrow> eLOC_CLIENT_INSTANCE_ID_MSM
      | GNSS_MDM \<Rightarrow> eLOC_CLIENT_INSTANCE_ID_MDM
      | GNSS_AUTO \<Rightarrow> eLOC_CLIENT_INSTANCE_ID_GSS_AUTO
      | GNSS_OTHER \<Rightarrow> eLOC_CLIENT_INSTANCE_ID_ANY)"

definition LOC_CLIENT_MAX_OPEN_RETRIES :: nat where "LOC_CLIENT_MAX_OPEN_RETRIES = 20"
definition LOC_CLIENT_TIME_BETWEEN_OPEN_RETRIES :: nat where "LOC_CLIENT_TIME_BETWEEN_OPEN_RETRIES = 1"

text \<open>The retry loop; \<open>es n\<close> is the environment of attempt \<open>n\<close>, \<open>slept\<close> the seconds slept.\<close>

function open_retry ::
    "(string \<Rightarrow> nat) \<Rightarrow> (nat \<Rightarrow> open_env) \<Rightarrow> u64 \<Rightarrow> int \<Rightarrow> callbacks option \<Rightarrow> nat option option \<Rightarrow> nat \<Rightarrow> nat \<Rightarrow>
     nat \<Rightarrow> client \<Rightarrow> (locClientStatusEnumType \<times> nat option option \<times> nat \<times> client) outcome" where
  "open_retry sizeof es regMask inst pCallbacks pHandle cookie tries slept s =
     (case locClientOpenInstance sizeof (es tries) regMask inst pCallbacks pHandle cookie s of
        Fault \<Rightarrow> Fault
      | Blocked \<Rightarrow> Blocked
      | Returns (status, h, s') \<Rightarrow>
          if status \<noteq> eLOC_CLIENT_SUCCESS \<and> tries \<le> LOC_CLIENT_MAX_OPEN_RETRIES
          then open_retry sizeof es regMask inst pCallbacks h cookie (tries + 1)
                 (slept + LOC_CLIENT_TIME_BETWEEN_OPEN_RETRIES) s'
          else Returns (status, h, slept, s'))"
  by pat_completeness auto
termination
  by (relation "measure (\<lambda>(sz, es, m, i, c, h, k, tries, sl, s). LOC_CLIENT_MAX_OPEN_RETRIES + 1 - tries)") auto

declare open_retry.simps [simp del]

definition locClientOpen ::
    "(string \<Rightarrow> nat) \<Rightarrow> (nat \<Rightarrow> open_env) \<Rightarrow> gnss_type \<Rightarrow> u64 \<Rightarrow> callbacks option \<Rightarrow> nat option option \<Rightarrow> nat \<Rightarrow>
     client \<Rightarrow> (locClientStatusEnumType \<times> nat option option \<times> nat \<times> client) outcome" where
  "locClientOpen sizeof es target regMask pCallbacks pHandle cookie s =
     open_retry sizeof es regMask (instance_of_target target) pCallbacks pHandle cookie 1 0 s"

subsection \<open>Checking what the modem supports\<close>

definition locClientSupportMsgCheck ::
    "qmi_rc \<Rightarrow> qmi_resp \<Rightarrow> supported_msgs \<Rightarrow> nat option \<Rightarrow> u32 list option \<Rightarrow> bool \<Rightarrow> client \<Rightarrow>
     (locClientStatusEnumType \<times> u64 option \<times> client) outcome" where
  "locClientSupportMsgCheck rc resp msgs handle msgArray out s =
     (if msgArray = None \<or> \<not> out then Returns (eLOC_CLIENT_FAILURE_INVALID_PARAMETER, None, s)
      else if isCheckedAlready s
      then Returns (eLOC_CLIENT_SUCCESS, Some (supportedMsgChecked s), s)
      else case check_handle handle s of
        Fault \<Rightarrow> Fault
      | Blocked \<Rightarrow> Blocked
      | Returns None \<Rightarrow> Returns (eLOC_CLIENT_FAILURE_GENERAL, None, s)
      | Returns (Some d) \<Rightarrow>
          (let s1 = s\<lparr>sent := sent s @ [(userHandle d, QMI_LOC_GET_SUPPORTED_MSGS_REQ_V02, None, 0)]\<rparr> in
           if rc \<noteq> QMI_NO_ERR then Returns (eLOC_CLIENT_FAILURE_GENERAL, None, s1)
           else if convertQmiResponseToLocStatus resp = eLOC_CLIENT_SUCCESS
           then (case checkQmiMsgsSupported (the msgArray) msgs of
                   None \<Rightarrow> Fault
                 | Some v \<Rightarrow>
                     Returns (eLOC_CLIENT_SUCCESS, Some v,
                       s1\<lparr>supportedMsgChecked := v, isCheckedAlready := True\<rparr>))
           else Returns (eLOC_CLIENT_FAILURE_GENERAL, None, s1)))"

end
