(* ===== verification/Loc_Lookup.thy ===== *)
theory Loc_Lookup
  imports Loc_Client
begin

text \<open>
  The tables of the location client: identifiers are unique, the lookup finds exactly the
  entries, and the three tables fit together, so that the answer to a request reaches the
  response callback.
\<close>

named_theorems ind_lookup \<open>how an identifier is classified\<close>

subsection \<open>Tables searched by identifier\<close>

locale id_table =
  fixes key :: "'e \<Rightarrow> u32" and sz :: "'e \<Rightarrow> string" and tab :: "'e list"
    and find_in :: "u32 \<Rightarrow> 'e list \<Rightarrow> string option"
  assumes find_Nil: "find_in i [] = None"
    and find_Cons: "find_in i (x # xs) = (if i = key x then Some (sz x) else find_in i xs)"
    and distinct_keys: "distinct (map key tab)"
begin

lemma find_map_of: "find_in i xs = map_of (map (\<lambda>x. (key x, sz x)) xs) i"
  by (induction xs) (auto simp: find_Nil find_Cons)

lemma find_entry: "x \<in> set tab \<Longrightarrow> find_in (key x) tab = Some (sz x)"
  unfolding find_map_of using distinct_keys by (intro map_of_is_SomeI) (auto simp: comp_def)

lemma find_None_iff: "find_in i tab = None \<longleftrightarrow> i \<notin> key ` set tab"
  unfolding find_map_of map_of_eq_None_iff by force

lemma find_Some_iff: "find_in i tab = Some t \<longleftrightarrow> (\<exists>x\<in>set tab. key x = i \<and> sz x = t)"
proof
  assume "find_in i tab = Some t"
  then have "(i, t) \<in> set (map (\<lambda>x. (key x, sz x)) tab)"
    unfolding find_map_of by (rule map_of_SomeD)
  then show "\<exists>x\<in>set tab. key x = i \<and> sz x = t" by auto
qed (auto simp: find_entry)

end

lemma event_ids_distinct: "distinct (map eventId locClientEventIndTable)"
  by code_simp

lemma resp_ids_distinct: "distinct (map respIndId locClientRespIndTable)"
  by code_simp

lemma req_ids_distinct: "distinct (map fst req_cases)"
  by code_simp

interpretation ev: id_table eventId eventSize locClientEventIndTable find_event
  by unfold_locales (simp_all add: event_ids_distinct)

interpretation rs: id_table respIndId respIndSize locClientRespIndTable find_resp
  by unfold_locales (simp_all add: resp_ids_distinct)

subsection \<open>Classification of indications\<close>

definition event_ids :: "u32 set" where "event_ids = eventId ` set locClientEventIndTable"
definition resp_ids :: "u32 set" where "resp_ids = respIndId ` set locClientRespIndTable"

lemma classify_event [ind_lookup]:
  assumes "x \<in> set locClientEventIndTable"
  shows "locClientGetSizeAndTypeByIndId sizeof (eventId x) = Some (sizeof (eventSize x), eventIndType)"
  using assms by (simp add: locClientGetSizeAndTypeByIndId_def locClientGetSizeByEventIndId_def ev.find_entry)

lemma classify_resp [ind_lookup]:
  assumes "x \<in> set locClientRespIndTable" "respIndId x \<notin> event_ids"
  shows "locClientGetSizeAndTypeByIndId sizeof (respIndId x) = Some (sizeof (respIndSize x), respIndType)"
proof -
  have "find_event (respIndId x) locClientEventIndTable = None"
    using assms(2) by (simp add: ev.find_None_iff event_ids_def)
  then show ?thesis
    using assms(1)
    by (simp add: locClientGetSizeAndTypeByIndId_def locClientGetSizeByEventIndId_def
        locClientGetSizeByRespIndId_def rs.find_entry)
qed

lemma classify_none [ind_lookup]:
  "locClientGetSizeAndTypeByIndId sizeof i = None \<longleftrightarrow> i \<notin> event_ids \<and> i \<notin> resp_ids"
  unfolding event_ids_def resp_ids_def ev.find_None_iff [symmetric] rs.find_None_iff [symmetric]
  by (auto simp: locClientGetSizeAndTypeByIndId_def locClientGetSizeByEventIndId_def
      locClientGetSizeByRespIndId_def split: option.splits)

subsection \<open>How the tables fit together\<close>

definition unanswered :: "u32 list" where
  "unanswered = [QMI_LOC_INFORM_CLIENT_REVISION_REQ_V02, QMI_LOC_REG_EVENTS_REQ_V02,
     QMI_LOC_START_REQ_V02, QMI_LOC_STOP_REQ_V02,
     QMI_LOC_GET_SUPPORTED_MSGS_REQ_V02, QMI_LOC_GET_SUPPORTED_FIELDS_REQ_V02]"

lemma req_tables_checked:
  "filter (\<lambda>i. i \<notin> set (map respIndId locClientRespIndTable)) (map fst req_cases) = unanswered"
  by code_simp

lemma req_events_checked:
  "filter (\<lambda>i. i \<in> set (map eventId locClientEventIndTable)) (map fst req_cases) = []"
  by code_simp

lemma overlap_checked:
  "filter (\<lambda>i. i \<in> set (map respIndId locClientRespIndTable)) (map eventId locClientEventIndTable) =
     [QMI_LOC_EVENT_LIVE_BATCHED_POSITION_REPORT_IND_V02, QMI_LOC_EVENT_BATCH_FULL_NOTIFICATION_IND_V02]"
  by code_simp

lemma set_filter_eqD: "filter P xs = ys \<Longrightarrow> x \<in> set xs \<Longrightarrow> P x \<Longrightarrow> x \<in> set ys"
  by auto

lemma req_answered:
  assumes "i \<in> set (map fst req_cases)" "i \<notin> set unanswered"
  shows "i \<in> resp_ids"
  using assms set_filter_eqD [OF req_tables_checked, of i]
  by (auto simp: resp_ids_def)

lemma req_not_event: "i \<in> set (map fst req_cases) \<Longrightarrow> i \<notin> event_ids"
  using set_filter_eqD [OF req_events_checked, of i] by (auto simp: event_ids_def)

lemma validateRequest_Some:
  "validateRequest sizeof i pl \<noteq> None \<longleftrightarrow> i \<in> set (map fst req_cases)"
proof -
  have "validateRequest sizeof i pl = None \<longleftrightarrow> map_of req_cases i = None"
    by (simp add: validateRequest_def split: option.splits)
  then show ?thesis by (simp add: map_of_eq_None_iff)
qed

subsection \<open>Dispatch of indications\<close>

lemma ind_cb_classified:
  assumes "cbs s p = Some d" "pMe d = Some p" "locClientGetSizeAndTypeByIndId sizeof i = Some (n, ty)"
  shows "locClientIndCb sizeof True dec (userHandle d) i buf (Some p) s = Returns
    (if buf \<noteq> [] \<and> dec i buf n = None then []
     else let payload = (if buf = [] then None else dec i buf n) in
       case ty of
         eventIndType \<Rightarrow> (case eventCallback d of None \<Rightarrow> []
           | Some f \<Rightarrow> [EventCall f p i payload (pClientCookie d)])
       | respIndType \<Rightarrow> (case respCallback d of None \<Rightarrow> []
           | Some f \<Rightarrow> [RespCall f p i payload n (pClientCookie d)]))"
  using assms by (auto simp: locClientIndCb_def Let_def split: option.splits locClientIndEnumT.splits)

lemma ind_cb_unknown:
  assumes "cbs s p = Some d" "locClientGetSizeAndTypeByIndId sizeof i = None"
  shows "locClientIndCb sizeof mal dec h i buf (Some p) s = Returns []"
  using assms by (simp add: locClientIndCb_def)

text \<open>
  C30. An indication that can be decoded goes to exactly one callback of the client it is
  addressed to: every identifier of the event table to the event callback, also the two that
  the response table lists as well; every other identifier of the response table to the
  response callback, with the size the table gives; an identifier of neither table to none.
\<close>

theorem ind_dispatch:
  assumes "cbs s p = Some d" "pMe d = Some p" "eventCallback d = Some f" "respCallback d = Some g"
    and "\<And>i n. dec i buf n = Some (pl i)" "buf \<noteq> []"
  shows "(\<forall>x\<in>set locClientEventIndTable.
      locClientIndCb sizeof True dec (userHandle d) (eventId x) buf (Some p) s =
        Returns [EventCall f p (eventId x) (Some (pl (eventId x))) (pClientCookie d)]) \<and>
    (\<forall>x\<in>set locClientRespIndTable. respIndId x \<notin> eventId ` set locClientEventIndTable \<longrightarrow>
      locClientIndCb sizeof True dec (userHandle d) (respIndId x) buf (Some p) s =
        Returns [RespCall g p (respIndId x) (Some (pl (respIndId x))) (sizeof (respIndSize x)) (pClientCookie d)]) \<and>
    (\<forall>i. i \<notin> eventId ` set locClientEventIndTable \<longrightarrow> i \<notin> respIndId ` set locClientRespIndTable \<longrightarrow>
      locClientIndCb sizeof True dec (userHandle d) i buf (Some p) s = Returns [])"
proof (intro conjI ballI allI impI)
  fix x assume "x \<in> set locClientEventIndTable"
  from ind_cb_classified [OF assms(1,2) classify_event [OF this]] assms(3,5,6)
  show "locClientIndCb sizeof True dec (userHandle d) (eventId x) buf (Some p) s =
      Returns [EventCall f p (eventId x) (Some (pl (eventId x))) (pClientCookie d)]"
    by simp
next
  fix x assume "x \<in> set locClientRespIndTable" "respIndId x \<notin> eventId ` set locClientEventIndTable"
  from ind_cb_classified [OF assms(1,2) classify_resp [OF this(1) this(2) [folded event_ids_def]]] assms(4-6)
  show "locClientIndCb sizeof True dec (userHandle d) (respIndId x) buf (Some p) s =
      Returns [RespCall g p (respIndId x) (Some (pl (respIndId x))) (sizeof (respIndSize x)) (pClientCookie d)]"
    by simp
next
  fix i assume "i \<notin> eventId ` set locClientEventIndTable" "i \<notin> respIndId ` set locClientRespIndTable"
  then have "locClientGetSizeAndTypeByIndId sizeof i = None"
    by (simp add: classify_none event_ids_def resp_ids_def)
  with assms(1) show "locClientIndCb sizeof True dec (userHandle d) i buf (Some p) s = Returns []"
    by (rule ind_cb_unknown)
qed

theorem ind_dispatch_witness:
  "locClientIndCb length True (\<lambda>i b n. Some b) (Some 3) QMI_LOC_EVENT_BATCH_FULL_NOTIFICATION_IND_V02 [1] (Some 7)
     (client_init\<lparr>cbs := [7 \<mapsto> \<lparr>pClientCookie = 0, userHandle = Some 3, eventCallback = Some 11,
        respCallback = Some 12, errorCallback = None, eventRegMask = 0, pMe = Some 7\<rparr>]\<rparr>) =
   Returns [EventCall 11 7 QMI_LOC_EVENT_BATCH_FULL_NOTIFICATION_IND_V02 (Some [1]) 0]"
proof -
  let ?d = "\<lparr>pClientCookie = 0, userHandle = Some 3, eventCallback = Some 11,
        respCallback = Some 12, errorCallback = None, eventRegMask = 0, pMe = Some 7\<rparr>"
  have "QMI_LOC_EVENT_BATCH_FULL_NOTIFICATION_IND_V02 \<in> set (map eventId locClientEventIndTable)"
    using overlap_checked by (metis (no_types, lifting) filter_is_subset list.set_intros subsetD)
  then obtain x where x: "x \<in> set locClientEventIndTable"
    and i: "QMI_LOC_EVENT_BATCH_FULL_NOTIFICATION_IND_V02 = eventId x"
    by auto
  have "locClientIndCb length True (\<lambda>i b n. Some b) (userHandle ?d) (eventId x) [1] (Some 7)
      (client_init\<lparr>cbs := [7 \<mapsto> ?d]\<rparr>) = Returns [EventCall 11 7 (eventId x) (Some [1]) (pClientCookie ?d)]"
    using ind_dispatch [of "client_init\<lparr>cbs := [7 \<mapsto> ?d]\<rparr>" 7 ?d 11 12 "\<lambda>i b n. Some b" "[1]" "\<lambda>i. [1]" length] x
    by simp
  then show ?thesis unfolding i by simp
qed

lemma masks_checked:
  "list_all (\<lambda>x. list_all (\<lambda>y. and (eventMask x) (eventMask y) = 0 \<or> eventId x = eventId y)
     locClientEventIndTable) locClientEventIndTable"
  by code_simp

text \<open>
  The masks of the event table can be combined: no two events share a bit of the
  registration mask.
\<close>

theorem event_masks_disjoint:
  assumes "x \<in> set locClientEventIndTable" "y \<in> set locClientEventIndTable"
    and "and (eventMask x) (eventMask y) \<noteq> 0"
  shows "x = y"
proof -
  from masks_checked assms have "eventId x = eventId y" by (auto simp: list_all_iff)
  with event_ids_distinct assms show ?thesis by (auto simp: distinct_map inj_on_def)
qed

theorem event_masks_disjoint_witness:
  "and (eventMask (hd locClientEventIndTable)) 1 \<noteq> 0 \<and>
   filter (\<lambda>y. and (eventMask (hd locClientEventIndTable)) (eventMask y) \<noteq> 0) locClientEventIndTable =
     filter (\<lambda>y. y = hd locClientEventIndTable) locClientEventIndTable"
proof
  show m: "and (eventMask (hd locClientEventIndTable)) 1 \<noteq> 0" by code_simp
  have h: "hd locClientEventIndTable \<in> set locClientEventIndTable"
    by (simp add: locClientEventIndTable_def locClientEventIndTable_1_def)
  have "eventMask (hd locClientEventIndTable) \<noteq> 0" using m by auto
  then show "filter (\<lambda>y. and (eventMask (hd locClientEventIndTable)) (eventMask y) \<noteq> 0) locClientEventIndTable =
     filter (\<lambda>y. y = hd locClientEventIndTable) locClientEventIndTable"
    using event_masks_disjoint [OF h] by (intro filter_cong) auto
qed

end
