(* ===== verification/Loc_Session.thy ===== *)
theory Loc_Session
  imports Loc_Client
begin

text \<open>
  The life of a location client: opening, requests, indications and closing, as a
  transition system over the client's memory and the framework's list of live clients.
\<close>

named_theorems client_ops \<open>closed forms of the operations on a valid handle\<close>

subsection \<open>Operations on a valid handle\<close>

lemma status_success [simp]: "convertQmiResponseToLocStatus r = eLOC_CLIENT_SUCCESS \<longleftrightarrow> result_success r"
  by (simp add: convertQmiResponseToLocStatus_def split: qmi_error.splits)

lemma release_notifier_sel [simp]:
  "cbs (release_notifier e s) = cbs s" "live (release_notifier e s) = live s"
  "cl_next (release_notifier e s) = cl_next s" "sent (release_notifier e s) = sent s"
  "isCheckedAlready (release_notifier e s) = isCheckedAlready s"
  "supportedMsgChecked (release_notifier e s) = supportedMsgChecked s"
  by (simp_all add: release_notifier_def split: option.splits)

definition REG_SIZE :: string where "REG_SIZE = ''qmiLocRegEventsReqMsgT_v02''"

lemma validate_reg [simp]:
  "validateRequest sizeof QMI_LOC_REG_EVENTS_REQ_V02 pl = Some (pl, sizeof REG_SIZE)"
  by (simp add: validateRequest_def req_cases_def req_cases_1_def REG_SIZE_def
      QMI_LOC_INFORM_CLIENT_REVISION_REQ_V02_def QMI_LOC_REG_EVENTS_REQ_V02_def)

definition handle_data :: "client \<Rightarrow> nat \<Rightarrow> cb_data \<Rightarrow> bool" where
  "handle_data s p d \<longleftrightarrow> cbs s p = Some d \<and> pMe d = Some p \<and> userHandle d \<noteq> None"

lemma check_handle_valid [client_ops]: "handle_data s p d \<Longrightarrow> check_handle (Some p) s = Returns (Some d)"
  by (simp add: handle_data_def check_handle_def)

lemma check_handle_None [simp]: "check_handle None s = Returns None"
  by (simp add: check_handle_def)

lemma register_valid [client_ops]:
  assumes "handle_data s p d"
  shows "locClientRegisterEventMask sizeof rc resp (Some p) m s =
    (let s1 = s\<lparr>sent := sent s @ [(userHandle d, QMI_LOC_REG_EVENTS_REQ_V02, Some m, sizeof REG_SIZE)]\<rparr> in
     if rc = QMI_NO_ERR \<and> result_success resp
     then Returns (True, s1\<lparr>cbs := (cbs s)(p \<mapsto> d\<lparr>eventRegMask := m\<rparr>)\<rparr>)
     else Returns (False, s1))"
  using assms
  by (auto simp: locClientRegisterEventMask_def locClientSendReq_def check_handle_valid Let_def)

lemma close_valid [client_ops]:
  assumes "handle_data s p d"
  shows "locClientClose rel (Some (Some p)) s =
    (if rel \<noteq> QMI_NO_ERR then Returns (eLOC_CLIENT_FAILURE_INTERNAL, Some (Some p), s)
     else Returns (eLOC_CLIENT_SUCCESS, Some None,
       s\<lparr>cbs := (cbs s)(p := None), released := released s @ [the (userHandle d)],
         live := filter (\<lambda>(c, q). c \<noteq> userHandle d) (live s)\<rparr>))"
  using assms by (simp add: locClientClose_def check_handle_valid)

definition opened :: "callbacks \<Rightarrow> u64 \<Rightarrow> nat \<Rightarrow> nat \<Rightarrow> nat \<Rightarrow> cb_data" where
  "opened cb m cookie c p =
     \<lparr>pClientCookie = cookie, userHandle = Some c, eventCallback = eventIndCb cb, respCallback = respIndCb cb,
      errorCallback = errorCb cb, eventRegMask = m, pMe = Some p\<rparr>"

definition reg_msg :: "(string \<Rightarrow> nat) \<Rightarrow> nat \<Rightarrow> u64 \<Rightarrow> nat option \<times> u32 \<times> req_payload \<times> nat" where
  "reg_msg sizeof c m = (Some c, QMI_LOC_REG_EVENTS_REQ_V02, Some m, sizeof REG_SIZE)"

lemma open_connected_valid [client_ops]:
  assumes "cbs s p = Some (cb_zero\<lparr>userHandle := Some c\<rparr>)"
  shows "open_connected sizeof e m cb cookie p s =
    (let s1 = s\<lparr>sent := sent s @ [reg_msg sizeof c m]\<rparr> in
     if reg_rc e = QMI_NO_ERR \<and> result_success (reg_resp e)
     then Returns (eLOC_CLIENT_SUCCESS, Some p, s1\<lparr>cbs := (cbs s)(p \<mapsto> opened cb m cookie c p)\<rparr>)
     else Returns (eLOC_CLIENT_FAILURE_INTERNAL, None,
       if release_rc e = QMI_NO_ERR
       then s1\<lparr>cbs := (cbs s)(p := None), released := released s @ [c],
              live := filter (\<lambda>(c', q). c' \<noteq> Some c) (live s)\<rparr>
       else s1\<lparr>cbs := (cbs s)(p \<mapsto> cb_zero\<lparr>userHandle := Some c, pMe := Some p\<rparr>)\<rparr>))"
proof -
  let ?d = "cb_zero\<lparr>userHandle := Some c, pMe := Some p\<rparr>"
  let ?s = "s\<lparr>cbs := (cbs s)(p \<mapsto> ?d)\<rparr>"
  let ?s2 = "?s\<lparr>sent := sent s @ [reg_msg sizeof c m]\<rparr>"
  have h: "handle_data ?s p ?d" "handle_data ?s2 p ?d" by (simp_all add: handle_data_def)
  have op: "?d\<lparr>eventRegMask := m, eventCallback := eventIndCb cb, respCallback := respIndCb cb,
      errorCallback := errorCb cb, eventRegMask := m, pClientCookie := cookie\<rparr> = opened cb m cookie c p"
    by (simp add: opened_def cb_zero_def)
  have c: "userHandle ?d = Some c" by simp
  show ?thesis
  proof (cases "reg_rc e = QMI_NO_ERR \<and> result_success (reg_resp e)")
    case True
    with op show ?thesis
      by (simp add: open_connected_def assms register_valid [OF h(1)] reg_msg_def Let_def)
  next
    case False
    then have "locClientRegisterEventMask sizeof (reg_rc e) (reg_resp e) (Some p) m ?s = Returns (False, ?s2)"
      unfolding register_valid [OF h(1)] by (auto simp: Let_def reg_msg_def)
    with False show ?thesis
      by (auto simp: open_connected_def assms close_valid [OF h(2)] Let_def)
  qed
qed

subsection \<open>Opening\<close>

text \<open>
  What is relied on of the QMI framework: \<^verbatim>\<open>qmi_client_init\<close> stores a handle that is not null
  and that no live client has.
\<close>

definition fresh_handles :: "open_env \<Rightarrow> bool" where
  "fresh_handles e \<longleftrightarrow> (\<forall>l. \<exists>c. init_clnt e l = Some c \<and> Some c \<notin> fst ` set l)"

definition params_ok :: "callbacks option \<Rightarrow> nat option option \<Rightarrow> bool" where
  "params_ok pc ph \<longleftrightarrow> (case pc of None \<Rightarrow> False | Some cb \<Rightarrow> respIndCb cb \<noteq> None \<and> cbs_size_ok cb) \<and> ph \<noteq> None"

definition reachable_service :: "open_env \<Rightarrow> int \<Rightarrow> bool" where
  "reachable_service e inst \<longleftrightarrow> calloc_ok e \<and> svc_object e \<and> notifier_rc e = QMI_NO_ERR \<and>
     await_service (if inst \<ge> 0 then lookup_instance e inst else lookup_any e) \<and>
     init_rc e = QMI_NO_ERR \<and> errcb_rc e = QMI_NO_ERR"

definition registers :: "open_env \<Rightarrow> bool" where
  "registers e \<longleftrightarrow> reg_rc e = QMI_NO_ERR \<and> result_success (reg_resp e)"

lemma filter_fresh: "Some c \<notin> fst ` set l \<Longrightarrow> filter (\<lambda>(c', q). c' \<noteq> Some c) l = l"
  by (rule filter_True) force

lemma ctrl_point_ok [client_ops]:
  assumes "reachable_service e inst" "init_clnt e (live s) = Some c" "cbs s p = Some cb_zero"
  shows "locClientQmiCtrlPointInit e p inst s = Returns (eLOC_CLIENT_SUCCESS,
    release_notifier e (s\<lparr>live := live s @ [(Some c, p)], cbs := (cbs s)(p \<mapsto> cb_zero\<lparr>userHandle := Some c\<rparr>)\<rparr>))"
  using assms by (simp add: reachable_service_def locClientQmiCtrlPointInit_def Let_def)

text \<open>A failing control point leaves the memory alone; with a working error callback also the live clients.\<close>

lemma ctrl_point_fails:
  assumes "calloc_ok e" "\<not> reachable_service e inst" "errcb_rc e = QMI_NO_ERR"
    and "locClientQmiCtrlPointInit e p inst s = Returns (st, s')"
  shows "st = eLOC_CLIENT_FAILURE_INTERNAL \<and> cbs s' = cbs s \<and> live s' = live s \<and> cl_next s' = cl_next s"
  using assms by (auto simp: reachable_service_def locClientQmiCtrlPointInit_def Let_def split: if_splits)

lemma open_success:
  assumes "params_ok (Some cb) (Some h)" "reachable_service e inst" "registers e" "init_clnt e (live s) = Some c"
  shows "\<exists>s'. locClientOpenInstance sizeof e m inst (Some cb) (Some h) cookie s =
      Returns (eLOC_CLIENT_SUCCESS, Some (Some (cl_next s)), s') \<and>
    cbs s' = (cbs s)(cl_next s \<mapsto> opened cb m cookie c (cl_next s)) \<and> cl_next s' = cl_next s + 1 \<and>
    live s' = live s @ [(Some c, cl_next s)] \<and> sent s' = sent s @ [reg_msg sizeof c m]"
proof -
  let ?p = "cl_next s"
  let ?s1 = "s\<lparr>cl_next := ?p + 1, cbs := (cbs s)(?p \<mapsto> cb_zero)\<rparr>"
  let ?s2 = "release_notifier e (?s1\<lparr>live := live s @ [(Some c, ?p)],
    cbs := (cbs ?s1)(?p \<mapsto> cb_zero\<lparr>userHandle := Some c\<rparr>)\<rparr>)"
  have "locClientQmiCtrlPointInit e ?p inst ?s1 = Returns (eLOC_CLIENT_SUCCESS, ?s2)"
    using ctrl_point_ok [OF assms(2), of ?s1 c ?p] assms(4) by simp
  moreover have "open_connected sizeof e m cb cookie ?p ?s2 = Returns (eLOC_CLIENT_SUCCESS, Some ?p,
      ?s2\<lparr>sent := sent ?s2 @ [reg_msg sizeof c m], cbs := (cbs ?s2)(?p \<mapsto> opened cb m cookie c ?p)\<rparr>)"
    using open_connected_valid [of ?s2 ?p c] assms(3) by (simp add: registers_def Let_def)
  ultimately show ?thesis
    using assms(1,2)
    by (simp add: locClientOpenInstance_def params_ok_def Let_def reachable_service_def)
qed

lemma open_fails:
  assumes "params_ok (Some cb) (Some h)" "reachable_service e inst" "\<not> registers e" "init_clnt e (live s) = Some c"
  shows "\<exists>s'. locClientOpenInstance sizeof e m inst (Some cb) (Some h) cookie s =
      Returns (eLOC_CLIENT_FAILURE_INTERNAL, Some None, s') \<and> cl_next s' = cl_next s + 1 \<and>
    (if release_rc e = QMI_NO_ERR
     then cbs s' = (cbs s)(cl_next s := None) \<and> live s' = filter (\<lambda>(c', q). c' \<noteq> Some c) (live s)
     else cbs s' = (cbs s)(cl_next s \<mapsto> cb_zero\<lparr>userHandle := Some c, pMe := Some (cl_next s)\<rparr>) \<and>
       live s' = live s @ [(Some c, cl_next s)])"
proof -
  let ?p = "cl_next s"
  let ?s1 = "s\<lparr>cl_next := ?p + 1, cbs := (cbs s)(?p \<mapsto> cb_zero)\<rparr>"
  let ?s2 = "release_notifier e (?s1\<lparr>live := live s @ [(Some c, ?p)],
    cbs := (cbs ?s1)(?p \<mapsto> cb_zero\<lparr>userHandle := Some c\<rparr>)\<rparr>)"
  have "locClientQmiCtrlPointInit e ?p inst ?s1 = Returns (eLOC_CLIENT_SUCCESS, ?s2)"
    using ctrl_point_ok [OF assms(2), of ?s1 c ?p] assms(4) by simp
  moreover have "\<not> (reg_rc e = QMI_NO_ERR \<and> result_success (reg_resp e))"
    using assms(3) by (simp add: registers_def)
  ultimately show ?thesis
    using assms(1,2) open_connected_valid [of ?s2 ?p c sizeof e m cb cookie]
    by (auto simp: locClientOpenInstance_def params_ok_def Let_def reachable_service_def)
qed

subsection \<open>The invariant\<close>

text \<open>
  Every record is the consistent data of a handle and belongs to a live client; every live
  client has its record; no two live clients have the same framework handle.
\<close>

definition client_ok :: "client \<Rightarrow> bool" where
  "client_ok s \<longleftrightarrow>
     (\<forall>p d. cbs s p = Some d \<longrightarrow> p < cl_next s \<and> handle_data s p d \<and> (userHandle d, p) \<in> set (live s)) \<and>
     (\<forall>c p. (c, p) \<in> set (live s) \<longrightarrow> (\<exists>d. cbs s p = Some d \<and> userHandle d = c)) \<and>
     distinct (map fst (live s))"

lemma client_ok_init: "client_ok client_init"
  by (simp add: client_ok_def client_init_def)

lemma client_ok_record:
  "client_ok s \<Longrightarrow> cbs s p = Some d \<Longrightarrow>
     p < cl_next s \<and> pMe d = Some p \<and> (\<exists>c. userHandle d = Some c) \<and> (userHandle d, p) \<in> set (live s)"
  by (auto simp: client_ok_def handle_data_def)

lemma client_ok_handle: "client_ok s \<Longrightarrow> cbs s p = Some d \<Longrightarrow> handle_data s p d"
  by (auto simp: client_ok_def)

lemma client_ok_live: "client_ok s \<Longrightarrow> (c, p) \<in> set (live s) \<Longrightarrow> \<exists>d. cbs s p = Some d \<and> userHandle d = c"
  by (auto simp: client_ok_def)

lemma client_ok_distinct: "client_ok s \<Longrightarrow> distinct (map fst (live s))"
  by (simp add: client_ok_def)

lemma client_okI:
  assumes "\<And>p d. cbs s p = Some d \<Longrightarrow>
      p < cl_next s \<and> pMe d = Some p \<and> userHandle d \<noteq> None \<and> (userHandle d, p) \<in> set (live s)"
    and "\<And>c p. (c, p) \<in> set (live s) \<Longrightarrow> \<exists>d. cbs s p = Some d \<and> userHandle d = c"
    and "distinct (map fst (live s))"
  shows "client_ok s"
  using assms unfolding client_ok_def handle_data_def by blast

lemma client_ok_fresh: "client_ok s \<Longrightarrow> cl_next s \<le> p \<Longrightarrow> cbs s p = None"
  using client_ok_record [of s p] by (cases "cbs s p") fastforce+

lemma client_ok_cong:
  "client_ok s \<Longrightarrow> cbs s' = cbs s \<Longrightarrow> live s' = live s \<Longrightarrow> cl_next s \<le> cl_next s' \<Longrightarrow> client_ok s'"
  unfolding client_ok_def handle_data_def by (metis order_less_le_trans)

lemma client_ok_add:
  assumes ok: "client_ok s" and new: "Some c \<notin> fst ` set (live s)" "userHandle d = Some c" "pMe d = Some (cl_next s)"
    and s': "cbs s' = (cbs s)(cl_next s \<mapsto> d)" "live s' = live s @ [(Some c, cl_next s)]" "cl_next s' = cl_next s + 1"
  shows "client_ok s'"
proof (rule client_okI)
  fix p d' assume d': "cbs s' p = Some d'"
  show "p < cl_next s' \<and> pMe d' = Some p \<and> userHandle d' \<noteq> None \<and> (userHandle d', p) \<in> set (live s')"
  proof (cases "p = cl_next s")
    case False
    with d' s'(1) have "cbs s p = Some d'" by simp
    from client_ok_record [OF ok this] s' show ?thesis by auto
  qed (use d' new s' in auto)
next
  fix c' p assume "(c', p) \<in> set (live s')"
  then consider "(c', p) \<in> set (live s)" | "c' = Some c" "p = cl_next s" using s'(2) by auto
  then show "\<exists>d'. cbs s' p = Some d' \<and> userHandle d' = c'"
  proof cases
    case 1
    from client_ok_live [OF ok 1] obtain d' where "cbs s p = Some d'" "userHandle d' = c'" by blast
    moreover from this have "p \<noteq> cl_next s" using client_ok_fresh [OF ok, of "cl_next s"] by auto
    ultimately show ?thesis using s'(1) by simp
  qed (use new s' in auto)
qed (use client_ok_distinct [OF ok] new(1) s'(2) in auto)

lemma client_ok_update:
  assumes ok: "client_ok s" and d: "cbs s p = Some d" "userHandle d' = userHandle d" "pMe d' = pMe d"
    and s': "cbs s' = (cbs s)(p \<mapsto> d')" "live s' = live s" "cl_next s' = cl_next s"
  shows "client_ok s'"
proof (rule client_okI)
  fix q d'' assume "cbs s' q = Some d''"
  then show "q < cl_next s' \<and> pMe d'' = Some q \<and> userHandle d'' \<noteq> None \<and> (userHandle d'', q) \<in> set (live s')"
    using client_ok_record [OF ok] d s' by (cases "q = p") auto
next
  fix c q assume "(c, q) \<in> set (live s')"
  then show "\<exists>d. cbs s' q = Some d \<and> userHandle d = c"
    using client_ok_live [OF ok, of c q] d s' by (cases "q = p") auto
qed (use client_ok_distinct [OF ok] s' in simp)

lemma client_ok_remove:
  assumes ok: "client_ok s" and d: "cbs s p = Some d"
    and s': "cbs s' = (cbs s)(p := None)" "cl_next s' = cl_next s"
      "live s' = filter (\<lambda>(c, q). c \<noteq> userHandle d) (live s)"
  shows "client_ok s'"
proof (rule client_okI)
  have inj: "q = p" if "(userHandle d, q) \<in> set (live s)" for q
    using that client_ok_record [OF ok d] eq_key_imp_eq_value [OF client_ok_distinct [OF ok]] by blast
  show "q < cl_next s' \<and> pMe d' = Some q \<and> userHandle d' \<noteq> None \<and> (userHandle d', q) \<in> set (live s')"
    if "cbs s' q = Some d'" for q d'
  proof -
    from that s'(1) have q: "q \<noteq> p" "cbs s q = Some d'" by (auto split: if_splits)
    with client_ok_record [OF ok q(2)] inj s' show ?thesis by auto
  qed
  show "\<exists>d'. cbs s' q = Some d' \<and> userHandle d' = c" if "(c, q) \<in> set (live s')" for c q
  proof -
    from that s'(3) have c: "(c, q) \<in> set (live s)" "c \<noteq> userHandle d" by auto
    with client_ok_live [OF ok c(1)] d s'(1) show ?thesis by auto
  qed
  show "distinct (map fst (live s'))"
    using client_ok_distinct [OF ok] s'(3) by (simp add: distinct_map_filter)
qed

subsection \<open>Every operation keeps the invariant\<close>

lemma send_keeps:
  assumes "client_ok s" "locClientSendReq sizeof rc resp h i pl s = Returns (st, s')"
  shows "client_ok s'"
proof (cases "\<exists>p d. h = Some p \<and> handle_data s p d")
  case False
  then have "s' = s"
    using assms(2)
    by (auto simp: locClientSendReq_def check_handle_def handle_data_def split: option.splits if_splits)
  with assms(1) show ?thesis by simp
next
  case True
  then obtain p d where p: "h = Some p" "handle_data s p d" by blast
  then have d: "cbs s p = Some d" by (simp add: handle_data_def)
  from assms(2) p consider "cbs s' = cbs s" "live s' = live s" "cl_next s' = cl_next s"
    | m where "cbs s' = (cbs s)(p \<mapsto> d\<lparr>eventRegMask := m\<rparr>)" "live s' = live s" "cl_next s' = cl_next s"
    by (auto simp: locClientSendReq_def check_handle_valid Let_def split: option.splits if_splits)
  then show ?thesis
  proof cases
    case 1
    with assms(1) show ?thesis by (intro client_ok_cong [of s s']) simp_all
  next
    case (2 m)
    with assms(1) d show ?thesis by (intro client_ok_update [of s p d "d\<lparr>eventRegMask := m\<rparr>" s']) simp_all
  qed
qed

lemma close_keeps:
  assumes "client_ok s" "locClientClose rel ph s = Returns (st, ph', s')"
  shows "client_ok s'"
proof (cases "\<exists>p d. ph = Some (Some p) \<and> handle_data s p d")
  case False
  then have "s' = s"
    using assms(2)
    by (auto simp: locClientClose_def check_handle_def handle_data_def split: option.splits if_splits)
  with assms(1) show ?thesis by simp
next
  case True
  then obtain p d where p: "ph = Some (Some p)" "handle_data s p d" by blast
  then have d: "cbs s p = Some d" by (simp add: handle_data_def)
  show ?thesis
    using assms(2) client_ok_remove [OF assms(1) d, of s'] assms(1)
    by (auto simp: p(1) close_valid [OF p(2)] split: if_splits)
qed

lemma check_keeps:
  assumes "client_ok s" "locClientSupportMsgCheck rc resp msgs h ids out s = Returns (st, v, s')"
  shows "client_ok s'"
proof (rule client_ok_cong [OF assms(1)])
  show "cbs s' = cbs s" "live s' = live s" "cl_next s \<le> cl_next s'"
    using assms(2)
    by (auto simp: locClientSupportMsgCheck_def Let_def split: outcome.splits option.splits if_splits)
qed

lemma open_cases:
  assumes "client_ok s" "fresh_handles e" "errcb_rc e = QMI_NO_ERR"
    and run: "locClientOpenInstance sizeof e m inst pc ph cookie s = Returns (st, ph', s')"
  obtains (failed) "st \<noteq> eLOC_CLIENT_SUCCESS" "cbs s' = cbs s" "live s' = live s" "cl_next s \<le> cl_next s'"
  | (connected) c cb where "st = eLOC_CLIENT_SUCCESS" "ph' = Some (Some (cl_next s))" "pc = Some cb"
      "Some c \<notin> fst ` set (live s)" "cbs s' = (cbs s)(cl_next s \<mapsto> opened cb m cookie c (cl_next s))"
      "live s' = live s @ [(Some c, cl_next s)]" "cl_next s' = cl_next s + 1"
  | (leaked) c where "st = eLOC_CLIENT_FAILURE_INTERNAL" "ph' = Some None" "Some c \<notin> fst ` set (live s)"
      "cbs s' = (cbs s)(cl_next s \<mapsto> cb_zero\<lparr>userHandle := Some c, pMe := Some (cl_next s)\<rparr>)"
      "live s' = live s @ [(Some c, cl_next s)]" "cl_next s' = cl_next s + 1"
proof -
  let ?p = "cl_next s"
  let ?s1 = "s\<lparr>cl_next := ?p + 1, cbs := (cbs s)(?p \<mapsto> cb_zero)\<rparr>"
  have free: "(cbs s)(?p := None) = cbs s" using client_ok_fresh [OF assms(1), of ?p] by (simp add: fun_upd_idem_iff)
  obtain c where c: "init_clnt e (live s) = Some c" "Some c \<notin> fst ` set (live s)"
    using assms(2) unfolding fresh_handles_def by blast
  show thesis
  proof (cases "params_ok pc ph \<and> calloc_ok e")
    case False
    then show thesis
      using failed run by (auto simp: locClientOpenInstance_def params_ok_def split: option.splits if_splits)
  next
    case True
    then obtain cb h where ps: "pc = Some cb" "ph = Some h" "params_ok (Some cb) (Some h)" "calloc_ok e"
      by (auto simp: params_ok_def split: option.splits)
    show thesis
    proof (cases "reachable_service e inst")
      case False
      from run ps obtain st1 s2 where s2: "locClientQmiCtrlPointInit e ?p inst ?s1 = Returns (st1, s2)"
        by (cases "locClientQmiCtrlPointInit e ?p inst ?s1") (auto simp: locClientOpenInstance_def params_ok_def Let_def)
      from ctrl_point_fails [OF ps(4) False assms(3) s2] run ps s2 free show thesis
        by (intro failed) (auto simp: locClientOpenInstance_def params_ok_def Let_def)
    next
      case reach: True
      show thesis
      proof (cases "registers e")
        case True
        from open_success [OF ps(3) reach True c(1), of sizeof m cookie] run ps(1,2) c(2) show thesis
          by (intro connected [of cb c]) auto
      next
        case False
        from open_fails [OF ps(3) reach False c(1), of sizeof m cookie] run ps(1,2) c free show thesis
          by (cases "release_rc e = QMI_NO_ERR") (auto intro: failed leaked simp: filter_fresh)
      qed
    qed
  qed
qed

lemma open_keeps:
  assumes "client_ok s" "fresh_handles e" "errcb_rc e = QMI_NO_ERR"
    and "locClientOpenInstance sizeof e m inst pc ph cookie s = Returns (st, ph', s')"
  shows "client_ok s'"
  using assms
proof (cases rule: open_cases)
  case failed
  then show ?thesis by (intro client_ok_cong [OF assms(1)])
next
  case (connected c cb)
  then show ?thesis
    by (intro client_ok_add [OF assms(1), of c "opened cb m cookie c (cl_next s)"]) (simp_all add: opened_def)
next
  case (leaked c)
  then show ?thesis
    by (intro client_ok_add [OF assms(1), of c "cb_zero\<lparr>userHandle := Some c, pMe := Some (cl_next s)\<rparr>"]) simp_all
qed

subsection \<open>Reachable clients\<close>

inductive client_reach :: "(string \<Rightarrow> nat) \<Rightarrow> client \<Rightarrow> bool" for sizeof where
  start: "client_reach sizeof client_init"
| opened_one: "client_reach sizeof s \<Longrightarrow> fresh_handles e \<Longrightarrow> errcb_rc e = QMI_NO_ERR \<Longrightarrow>
    locClientOpenInstance sizeof e m inst pc ph cookie s = Returns (st, ph', s') \<Longrightarrow> client_reach sizeof s'"
| sent_one: "client_reach sizeof s \<Longrightarrow> locClientSendReq sizeof rc resp h i pl s = Returns (st, s') \<Longrightarrow>
    client_reach sizeof s'"
| checked_msgs: "client_reach sizeof s \<Longrightarrow>
    locClientSupportMsgCheck rc resp msgs h ids out s = Returns (st, v, s') \<Longrightarrow> client_reach sizeof s'"
| closed_one: "client_reach sizeof s \<Longrightarrow> locClientClose rel ph s = Returns (st, ph', s') \<Longrightarrow> client_reach sizeof s'"

lemma client_reach_ok: "client_reach sizeof s \<Longrightarrow> client_ok s"
  by (induction rule: client_reach.induct)
    (auto intro: client_ok_init open_keeps send_keeps check_keeps close_keeps)

lemma open_retry_reach:
  assumes "client_reach sizeof s" "\<And>n. fresh_handles (es n) \<and> errcb_rc (es n) = QMI_NO_ERR"
    and "open_retry sizeof es m inst pc ph cookie tries slept s = Returns (st, ph', slept', s')"
  shows "client_reach sizeof s'"
  using assms
proof (induction sizeof es m inst pc ph cookie tries slept s rule: open_retry.induct)
  case (1 sizeof es m inst pc ph cookie tries slept s)
  from 1(4) obtain st1 h1 s1 where
    one: "locClientOpenInstance sizeof (es tries) m inst pc ph cookie s = Returns (st1, h1, s1)"
    by (subst (asm) open_retry.simps) (auto split: outcome.splits)
  have r1: "client_reach sizeof s1" using 1(2,3) one by (blast intro: opened_one)
  show ?case
  proof (cases "st1 \<noteq> eLOC_CLIENT_SUCCESS \<and> tries \<le> LOC_CLIENT_MAX_OPEN_RETRIES")
    case True
    then show ?thesis
      using 1(1) [OF one refl refl True r1 1(3)] 1(4) one by (subst (asm) (2) open_retry.simps) auto
  next
    case False
    with 1(4) one r1 show ?thesis by (subst (asm) open_retry.simps) auto
  qed
qed

lemma ind_live:
  assumes "client_ok s" "(c, p) \<in> set (live s)"
  shows "\<exists>calls. locClientIndCb sizeof mal dec c i buf (Some p) s = Returns calls"
    and "\<exists>calls. locClientErrorCb err (Some p) s = Returns calls"
proof -
  from client_ok_live [OF assms] obtain d where d: "cbs s p = Some d" by blast
  then show "\<exists>calls. locClientIndCb sizeof mal dec c i buf (Some p) s = Returns calls"
    by (auto simp: locClientIndCb_def Let_def split: option.splits locClientIndEnumT.splits)
  from d show "\<exists>calls. locClientErrorCb err (Some p) s = Returns calls"
    by (auto simp: locClientErrorCb_def split: option.splits)
qed

subsection \<open>Handles as a resource\<close>

text \<open>
  Acquiring and releasing handles, as a caller sees it: what is acquired was not valid and
  becomes valid, what is released was valid and is not any more, nothing else changes.
\<close>

locale handle_api =
  fixes valid :: "'s \<Rightarrow> 'h set" and good :: "'s \<Rightarrow> bool"
    and acquires :: "'s \<Rightarrow> 'h \<Rightarrow> 's \<Rightarrow> bool" and releases :: "'s \<Rightarrow> 'h \<Rightarrow> 's \<Rightarrow> bool"
  assumes acquire: "good s \<Longrightarrow> acquires s h s' \<Longrightarrow> h \<notin> valid s \<and> valid s' = insert h (valid s) \<and> good s'"
    and release: "good s \<Longrightarrow> releases s h s' \<Longrightarrow> h \<in> valid s \<and> valid s' = valid s - {h} \<and> good s'"
begin

lemma acquire_release: "good s \<Longrightarrow> acquires s h s1 \<Longrightarrow> releases s1 h s2 \<Longrightarrow> valid s2 = valid s"
  using acquire [of s h s1] release [of s1 h s2] by auto

lemma no_double_release: "good s \<Longrightarrow> releases s h s1 \<Longrightarrow> \<not> releases s1 h s2"
  using release [of s h s1] release [of s1 h s2] by auto

lemma no_double_acquire: "good s \<Longrightarrow> acquires s h s1 \<Longrightarrow> \<not> acquires s1 h s2"
  using acquire [of s h s1] acquire [of s1 h s2] by auto

lemma release_independent:
  "good s \<Longrightarrow> h \<in> valid s \<Longrightarrow> acquires s h' s1 \<Longrightarrow> releases s1 h' s2 \<Longrightarrow> h \<in> valid s2"
  using acquire_release by blast

end

definition opens :: "(string \<Rightarrow> nat) \<Rightarrow> client \<Rightarrow> nat \<Rightarrow> client \<Rightarrow> bool" where
  "opens sizeof s p s' \<longleftrightarrow> (\<exists>e m inst pc ph cookie. fresh_handles e \<and> errcb_rc e = QMI_NO_ERR \<and>
     locClientOpenInstance sizeof e m inst pc ph cookie s = Returns (eLOC_CLIENT_SUCCESS, Some (Some p), s'))"

definition closes :: "client \<Rightarrow> nat \<Rightarrow> client \<Rightarrow> bool" where
  "closes s p s' \<longleftrightarrow> (\<exists>rel. locClientClose rel (Some (Some p)) s = Returns (eLOC_CLIENT_SUCCESS, Some None, s'))"

lemma opens_cases:
  assumes "client_ok s" "opens sizeof s p s'"
  obtains d where "p = cl_next s" "cbs s p = None" "cbs s' = (cbs s)(p \<mapsto> d)" "client_ok s'"
proof -
  from assms(2) obtain e m inst pc ph cookie where e: "fresh_handles e" "errcb_rc e = QMI_NO_ERR"
    and run: "locClientOpenInstance sizeof e m inst pc ph cookie s = Returns (eLOC_CLIENT_SUCCESS, Some (Some p), s')"
    unfolding opens_def by blast
  have ok': "client_ok s'" using assms(1) e run by (rule open_keeps)
  from assms(1) e run show thesis
    by (cases rule: open_cases) (use that ok' client_ok_fresh [OF assms(1)] in auto)
qed

lemma closes_cases:
  assumes "client_ok s" "closes s p s'"
  obtains d where "cbs s p = Some d" "cbs s' = (cbs s)(p := None)" "client_ok s'"
proof -
  from assms(2) obtain rel
    where run: "locClientClose rel (Some (Some p)) s = Returns (eLOC_CLIENT_SUCCESS, Some None, s')"
    unfolding closes_def by blast
  then obtain d where d: "cbs s p = Some d"
    by (cases "cbs s p") (auto simp: locClientClose_def check_handle_def)
  have "cbs s' = (cbs s)(p := None)"
    using run close_valid [OF client_ok_handle [OF assms(1) d]] by (auto split: if_splits)
  from d this close_keeps [OF assms(1) run] show thesis by (rule that)
qed

interpretation session: handle_api "\<lambda>s. dom (cbs s)" client_ok "opens sizeof" closes
proof unfold_locales
  fix s h s' assume "client_ok s" "opens sizeof s h s'"
  then show "h \<notin> dom (cbs s) \<and> dom (cbs s') = insert h (dom (cbs s)) \<and> client_ok s'"
    by (cases rule: opens_cases) auto
next
  fix s h s' assume "client_ok s" "closes s h s'"
  then show "h \<in> dom (cbs s) \<and> dom (cbs s') = dom (cbs s) - {h} \<and> client_ok s'"
    by (cases rule: closes_cases) auto
qed


definition sizeof0 :: "string \<Rightarrow> nat" where "sizeof0 ty = 8 * length ty"

definition good_env :: open_env where
  "good_env = \<lparr>calloc_ok = True, svc_object = True, notifier_rc = QMI_NO_ERR, notifier_h = Some 5,
     lookup_instance = (\<lambda>i. [QMI_OTHER_RC, QMI_NO_ERR]), lookup_any = [QMI_OTHER_RC, QMI_NO_ERR],
     init_rc = QMI_NO_ERR, init_clnt = (\<lambda>l. Some (Suc (sum_list (map (\<lambda>(c, p). the c) l)))),
     errcb_rc = QMI_NO_ERR, reg_rc = QMI_NO_ERR,
     reg_resp = \<lparr>result_success = True, resp_error = QMI_ERR_OTHER\<rparr>, release_rc = QMI_NO_ERR\<rparr>"

definition some_cb :: callbacks where
  "some_cb = \<lparr>cbs_size_ok = True, eventIndCb = Some 11, respIndCb = Some 12, errorCb = None\<rparr>"

lemma good_env_fresh: "fresh_handles good_env"
proof -
  have "the c \<le> sum_list (map (\<lambda>(c, p). the c) l)" if "(c, p) \<in> set l" for c p and l :: "(nat option \<times> nat) list"
    using that member_le_sum_list [of "the c" "map (\<lambda>(c, p). the c) l"] by force
  then have "Some (Suc (sum_list (map (\<lambda>(c, p). the c) l))) \<notin> fst ` set l" for l :: "(nat option \<times> nat) list"
    by fastforce
  then show ?thesis by (simp add: fresh_handles_def good_env_def)
qed

lemma good_env_ok:
  "params_ok (Some some_cb) (Some None)" "reachable_service good_env (-1)" "registers good_env"
  "errcb_rc good_env = QMI_NO_ERR"
  by (simp_all add: params_ok_def reachable_service_def registers_def good_env_def some_cb_def)

lemma good_env_init: "init_clnt good_env (live client_init) = Some 1"
  by (simp add: good_env_def client_init_def)

lemmas first_open = open_success [OF good_env_ok(1-3) good_env_init]


text \<open>
  When the error callback cannot be registered, opening frees the callback data but
  leaves the client initialised: the framework keeps a client whose next indication, of
  whatever kind, reads freed memory.
\<close>

theorem open_leaves_dangling_client:
  assumes "params_ok (Some cb) (Some h)" "calloc_ok e" "svc_object e" "notifier_rc e = QMI_NO_ERR"
    and "await_service (if inst \<ge> 0 then lookup_instance e inst else lookup_any e)"
    and "init_rc e = QMI_NO_ERR" "errcb_rc e \<noteq> QMI_NO_ERR"
  shows "\<exists>s'. locClientOpenInstance sizeof e m inst (Some cb) (Some h) cookie s =
      Returns (eLOC_CLIENT_FAILURE_INTERNAL, Some None, s') \<and>
    (init_clnt e (live s), cl_next s) \<in> set (live s') \<and>
    locClientIndCb sizeof mal dec (init_clnt e (live s)) i buf (Some (cl_next s)) s' = Fault"
  using assms
  by (auto simp: locClientOpenInstance_def params_ok_def locClientQmiCtrlPointInit_def locClientIndCb_def Let_def)

theorem open_leaves_dangling_client_witness:
  "\<exists>s'. locClientOpenInstance sizeof0 (good_env\<lparr>errcb_rc := QMI_OTHER_RC\<rparr>) 1 (-1) (Some some_cb) (Some None) 0
       client_init = Returns (eLOC_CLIENT_FAILURE_INTERNAL, Some None, s') \<and>
     locClientIndCb sizeof0 True (\<lambda>i b n. Some b) (Some 1) 0x24 [1] (Some 1) s' = Fault"
  using open_leaves_dangling_client
    [of some_cb None "good_env\<lparr>errcb_rc := QMI_OTHER_RC\<rparr>" "-1" sizeof0 1 0 client_init True "\<lambda>i b n. Some b" "0x24" "[1]"]
  by (auto simp: params_ok_def good_env_def some_cb_def client_init_def)

text \<open>
  C35. Opening with correct parameters, a service that is there and a registration that is
  accepted succeeds: the handle is new, its record holds the caller's callbacks, cookie and
  mask, all other records stay, and exactly the registration message is sent.
\<close>

theorem open_correct:
  assumes "client_ok s" "params_ok (Some cb) (Some h)" "reachable_service e inst" "registers e" "fresh_handles e"
  shows "\<exists>p c s'. locClientOpenInstance sizeof e m inst (Some cb) (Some h) cookie s =
      Returns (eLOC_CLIENT_SUCCESS, Some (Some p), s') \<and> cbs s p = None \<and>
    cbs s' = (cbs s)(p \<mapsto> \<lparr>pClientCookie = cookie, userHandle = Some c, eventCallback = eventIndCb cb,
      respCallback = respIndCb cb, errorCallback = errorCb cb, eventRegMask = m, pMe = Some p\<rparr>) \<and>
    sent s' = sent s @ [(Some c, QMI_LOC_REG_EVENTS_REQ_V02, Some m, sizeof ''qmiLocRegEventsReqMsgT_v02'')]"
proof -
  obtain c where "init_clnt e (live s) = Some c" using assms(5) unfolding fresh_handles_def by blast
  from open_success [OF assms(2,3,4) this] client_ok_fresh [OF assms(1)] show ?thesis
    unfolding opened_def reg_msg_def REG_SIZE_def by blast
qed

theorem open_correct_witness:
  "\<exists>p c s'. locClientOpenInstance sizeof0 good_env 3 (-1) (Some some_cb) (Some None) 9 client_init =
      Returns (eLOC_CLIENT_SUCCESS, Some (Some p), s') \<and>
    sent s' = [(Some c, QMI_LOC_REG_EVENTS_REQ_V02, Some 3, sizeof0 ''qmiLocRegEventsReqMsgT_v02'')]"
proof -
  have "sent client_init = []" by (simp add: client_init_def)
  with open_correct [OF client_ok_init good_env_ok(1-3) good_env_fresh, of sizeof0 3 9] show ?thesis by fastforce
qed

text \<open>
  C36. Closing a valid handle: a failing release changes nothing and keeps the handle;
  otherwise the record is freed, the caller's handle becomes invalid, every other record
  stays, no live client refers to the freed record any more, and a request with the
  caller's handle is refused as invalid.
\<close>

theorem close_correct:
  assumes "client_ok s" "cbs s p = Some d"
  shows "(rel \<noteq> QMI_NO_ERR \<longrightarrow>
      locClientClose rel (Some (Some p)) s = Returns (eLOC_CLIENT_FAILURE_INTERNAL, Some (Some p), s)) \<and>
    (rel = QMI_NO_ERR \<longrightarrow> (\<exists>s'.
      locClientClose rel (Some (Some p)) s = Returns (eLOC_CLIENT_SUCCESS, Some None, s') \<and>
      cbs s' = (cbs s)(p := None) \<and> released s' = released s @ [the (userHandle d)] \<and>
      live s' = filter (\<lambda>(c, q). q \<noteq> p) (live s) \<and>
      locClientSendReq sizeof rc resp None i pl s' = Returns (eLOC_CLIENT_FAILURE_INVALID_HANDLE, s')))"
proof -
  have "(c \<noteq> userHandle d) = (q \<noteq> p)" if "(c, q) \<in> set (live s)" for c q
  proof -
    have "c = userHandle d \<Longrightarrow> q = p"
      using that client_ok_record [OF assms] eq_key_imp_eq_value [OF client_ok_distinct [OF assms(1)]] by blast
    moreover have "q = p \<Longrightarrow> c = userHandle d"
      using client_ok_live [OF assms(1) that] assms(2) by auto
    ultimately show ?thesis by blast
  qed
  then have "filter (\<lambda>(c, q). c \<noteq> userHandle d) (live s) = filter (\<lambda>(c, q). q \<noteq> p) (live s)"
    by (intro filter_cong) auto
  with close_valid [OF client_ok_handle [OF assms]] show ?thesis by (simp add: locClientSendReq_def)
qed

theorem close_correct_witness:
  "\<exists>s s'. locClientClose QMI_NO_ERR (Some (Some 1)) s = Returns (eLOC_CLIENT_SUCCESS, Some None, s') \<and>
     cbs s' = (cbs s)(1 := None) \<and> live s' = []"
proof -
  obtain s where s: "locClientOpenInstance sizeof0 good_env 1 (-1) (Some some_cb) (Some None) 0 client_init =
      Returns (eLOC_CLIENT_SUCCESS, Some (Some (cl_next client_init)), s)"
    "cbs s = (cbs client_init)(cl_next client_init \<mapsto> opened some_cb 1 0 1 (cl_next client_init))"
    "live s = live client_init @ [(Some 1, cl_next client_init)]"
    using first_open [of sizeof0 1 0] by blast
  have ok: "client_ok s" using client_ok_init good_env_fresh good_env_ok(4) s(1) by (rule open_keeps)
  have d: "cbs s 1 = Some (opened some_cb 1 0 1 1)" using s(2) by (simp add: client_init_def)
  from close_correct [OF ok d, of QMI_NO_ERR] obtain s'
    where "locClientClose QMI_NO_ERR (Some (Some 1)) s = Returns (eLOC_CLIENT_SUCCESS, Some None, s')"
      "cbs s' = (cbs s)(1 := None)" "live s' = filter (\<lambda>(c, q). q \<noteq> 1) (live s)"
    by blast
  moreover have "filter (\<lambda>(c, q). q \<noteq> 1) (live s) = []" using s(3) by (simp add: client_init_def)
  ultimately show ?thesis by auto
qed

text \<open>
  A handle that was opened and closed again leaves the set of valid handles as it was,
  and a handle cannot be closed successfully twice.
\<close>

theorem open_close_handles:
  assumes "client_reach sizeof s" "opens sizeof s p s1" "closes s1 p s2"
  shows "dom (cbs s2) = dom (cbs s) \<and> \<not> closes s2 p s3"
proof
  have ok: "client_ok s" using assms(1) by (rule client_reach_ok)
  show "dom (cbs s2) = dom (cbs s)" using ok assms(2,3) by (rule session.acquire_release)
  have "client_ok s1" using session.acquire [OF ok assms(2)] by simp
  then show "\<not> closes s2 p s3" using assms(3) by (rule session.no_double_release)
qed

theorem open_close_handles_witness:
  "\<exists>s1 s2. opens sizeof0 client_init 1 s1 \<and> closes s1 1 s2 \<and> dom (cbs s2) = {} \<and> \<not> closes s2 1 s2"
proof -
  obtain s1 where s1: "locClientOpenInstance sizeof0 good_env 1 (-1) (Some some_cb) (Some None) 0 client_init =
      Returns (eLOC_CLIENT_SUCCESS, Some (Some (cl_next client_init)), s1)"
    "cbs s1 = (cbs client_init)(cl_next client_init \<mapsto> opened some_cb 1 0 1 (cl_next client_init))"
    using first_open [of sizeof0 1 0] by blast
  have next1: "cl_next client_init = 1" by (simp add: client_init_def)
  have o1: "opens sizeof0 client_init 1 s1"
    using s1(1) [unfolded next1] good_env_fresh good_env_ok(4) unfolding opens_def by blast
  have "handle_data s1 1 (opened some_cb 1 0 1 1)"
    using s1(2) by (simp add: handle_data_def opened_def client_init_def)
  then obtain s2 where c1: "closes s1 1 s2" unfolding closes_def using close_valid [of s1 1 _ QMI_NO_ERR] by fastforce
  have "dom (cbs client_init) = {}" by (simp add: client_init_def)
  with o1 c1 open_close_handles [OF start o1 c1] show ?thesis by blast
qed

text \<open>
  A request with a valid handle always returns. It succeeds exactly if the identifier is
  a known request, the message was delivered and the service reports success; exactly one
  message goes out for a known request and none otherwise; and only an accepted event
  registration changes the record, by storing the mask that was registered.
\<close>

theorem send_correct:
  assumes "handle_data s p d"
  shows "\<exists>st s'. locClientSendReq sizeof rc resp (Some p) i pl s = Returns (st, s') \<and>
    (st = eLOC_CLIENT_SUCCESS \<longleftrightarrow> validateRequest sizeof i pl \<noteq> None \<and> rc = QMI_NO_ERR \<and> result_success resp) \<and>
    sent s' = sent s @ (case validateRequest sizeof i pl of None \<Rightarrow> []
      | Some (data, len) \<Rightarrow> [(userHandle d, i, data, len)]) \<and>
    cbs s' = (if st = eLOC_CLIENT_SUCCESS \<and> i = QMI_LOC_REG_EVENTS_REQ_V02 \<and> pl \<noteq> None
              then (cbs s)(p \<mapsto> d\<lparr>eventRegMask := the pl\<rparr>) else cbs s) \<and>
    live s' = live s"
proof (cases "validateRequest sizeof i pl")
  case None
  with assms show ?thesis by (simp add: locClientSendReq_def check_handle_valid)
next
  case (Some msg)
  obtain data len where "msg = (data, len)" by (cases msg)
  with Some assms show ?thesis
    by (cases rc; cases pl) (simp_all add: locClientSendReq_def check_handle_valid Let_def)
qed

theorem send_correct_witness:
  "\<exists>s'. locClientSendReq sizeof0 QMI_NO_ERR \<lparr>result_success = True, resp_error = QMI_ERR_OTHER\<rparr> (Some 7)
       QMI_LOC_REG_EVENTS_REQ_V02 (Some 6) (client_init\<lparr>cbs := [7 \<mapsto> cb_zero\<lparr>userHandle := Some 3, pMe := Some 7\<rparr>]\<rparr>) =
     Returns (eLOC_CLIENT_SUCCESS, s') \<and> eventRegMask (the (cbs s' 7)) = 6"
proof -
  have "handle_data (client_init\<lparr>cbs := [7 \<mapsto> cb_zero\<lparr>userHandle := Some 3, pMe := Some 7\<rparr>]\<rparr>) 7
      (cb_zero\<lparr>userHandle := Some 3, pMe := Some 7\<rparr>)"
    by (simp add: handle_data_def)
  from send_correct [OF this, of sizeof0 QMI_NO_ERR "\<lparr>result_success = True, resp_error = QMI_ERR_OTHER\<rparr>"
      QMI_LOC_REG_EVENTS_REQ_V02 "Some 6"]
  show ?thesis by auto
qed

subsection \<open>Retries\<close>

lemma open_retry_result:
  assumes "open_retry sizeof es m inst pc ph cookie tries slept s = Returns (st, ph', slept', s')" "tries \<le> 21"
  shows "\<exists>n\<ge>tries. n \<le> 21 \<and> slept' = slept + (n - tries) \<and> (st = eLOC_CLIENT_SUCCESS \<or> n = 21) \<and>
    (\<exists>ph1 s1. locClientOpenInstance sizeof (es n) m inst pc ph1 cookie s1 = Returns (st, ph', s'))"
  using assms
proof (induction sizeof es m inst pc ph cookie tries slept s rule: open_retry.induct)
  case (1 sizeof es m inst pc ph cookie tries slept s)
  from 1(2) obtain st1 h1 s1 where
    one: "locClientOpenInstance sizeof (es tries) m inst pc ph cookie s = Returns (st1, h1, s1)"
    by (subst (asm) open_retry.simps) (auto split: outcome.splits)
  show ?case
  proof (cases "st1 \<noteq> eLOC_CLIENT_SUCCESS \<and> tries \<le> LOC_CLIENT_MAX_OPEN_RETRIES")
    case True
    from 1(2) one True have
      "open_retry sizeof es m inst pc h1 cookie (tries + 1) (slept + LOC_CLIENT_TIME_BETWEEN_OPEN_RETRIES) s1 =
        Returns (st, ph', slept', s')"
      by (subst (asm) open_retry.simps) simp
    moreover have "tries + 1 \<le> 21" using True by (simp add: LOC_CLIENT_MAX_OPEN_RETRIES_def)
    ultimately obtain n where n: "n \<ge> tries + 1" "n \<le> 21"
      "slept' = slept + LOC_CLIENT_TIME_BETWEEN_OPEN_RETRIES + (n - (tries + 1))" "st = eLOC_CLIENT_SUCCESS \<or> n = 21"
      "\<exists>ph1 s1. locClientOpenInstance sizeof (es n) m inst pc ph1 cookie s1 = Returns (st, ph', s')"
      using 1(1) [OF one refl refl True] by blast
    then show ?thesis
      by (intro exI [of _ n]) (simp add: LOC_CLIENT_TIME_BETWEEN_OPEN_RETRIES_def)
  next
    case False
    with 1(2) one have "st = st1 \<and> ph' = h1 \<and> slept' = slept \<and> s' = s1"
      by (subst (asm) open_retry.simps) auto
    with False 1(3) one show ?thesis
      by (intro exI [of _ tries]) (auto simp: LOC_CLIENT_MAX_OPEN_RETRIES_def)
  qed
qed



text \<open>
  Invalid parameters are retried as well: the call only returns after twenty seconds,
  with the state unchanged.
\<close>

theorem open_retries_invalid_parameters:
  assumes "\<not> params_ok pc ph"
  shows "locClientOpen sizeof es target m pc ph cookie s =
    Returns (eLOC_CLIENT_FAILURE_INVALID_PARAMETER, ph, 20, s)"
proof -
  have bad: "locClientOpenInstance sizeof e m inst pc ph cookie s =
      Returns (eLOC_CLIENT_FAILURE_INVALID_PARAMETER, ph, s)" for e inst
    using assms by (auto simp: locClientOpenInstance_def params_ok_def split: option.splits)
  have "open_retry sizeof es m inst pc ph cookie (21 - k) (20 - k) s =
      Returns (eLOC_CLIENT_FAILURE_INVALID_PARAMETER, ph, 20, s)" if "k \<le> 20" for k inst
    using that
  proof (induction k)
    case 0
    then show ?case by (simp add: open_retry.simps bad LOC_CLIENT_MAX_OPEN_RETRIES_def)
  next
    case (Suc k)
    then have "Suc (21 - Suc k) = 21 - k" "Suc (20 - Suc k) = 20 - k" by simp_all
    with Suc show ?case
      by (subst open_retry.simps)
        (simp add: bad LOC_CLIENT_MAX_OPEN_RETRIES_def LOC_CLIENT_TIME_BETWEEN_OPEN_RETRIES_def)
  qed
  from this [of 20] show ?thesis by (simp add: locClientOpen_def)
qed

theorem open_retries_invalid_parameters_witness:
  "locClientOpen sizeof0 (\<lambda>n. good_env) GNSS_AUTO 1 None (Some None) 0 client_init =
     Returns (eLOC_CLIENT_FAILURE_INVALID_PARAMETER, Some None, 20, client_init)"
  by (rule open_retries_invalid_parameters) (simp add: params_ok_def)

end
