(* ===== verification/Loc_Request.thy ===== *)
theory Loc_Request
  imports Loc_Lookup Loc_Session
begin

text \<open>
  Synchronous requests through the client: \<^verbatim>\<open>loc_sync_send_req\<close> calls \<^verbatim>\<open>locClientSendReq\<close>, the
  framework answers through \<^verbatim>\<open>locClientIndCb\<close>, and the response callback that
  \<^verbatim>\<open>LocApiV02.cpp\<close> registers hands the answer to \<^verbatim>\<open>loc_sync_process_ind\<close>.
\<close>

text \<open>\<^verbatim>\<open>globalRespCb\<close>; \<open>junk\<close> is the content of a buffer nothing was decoded into.\<close>

definition globalRespCb :: "u8 list \<Rightarrow> upcall \<Rightarrow> indication option" where
  "globalRespCb junk call =
     (case call of
        RespCall f p respId payload len cookie \<Rightarrow>
          if cookie = 0 then None
          else Some \<lparr>ind_client = Some p, ind_id = respId,
                 ind_payload = Some (case payload of None \<Rightarrow> junk | Some b \<Rightarrow> b)\<rparr>
      | _ \<Rightarrow> None)"

text \<open>The request is only sent once a slot was selected.\<close>

definition request_via_client ::
    "(string \<Rightarrow> nat) \<Rightarrow> qmi_rc \<Rightarrow> qmi_resp \<Rightarrow> indication list \<Rightarrow> indication list \<Rightarrow> bool \<Rightarrow>
     nat option \<Rightarrow> u32 \<Rightarrow> req_payload \<Rightarrow> u32 \<Rightarrow> nat option \<Rightarrow> sync_array \<Rightarrow> client \<Rightarrow>
     (locClientStatusEnumType \<times> sync_array \<times> client) outcome" where
  "request_via_client sizeof rc resp early late timed_out h rid pl ind ptr a s =
     (if fst (loc_sync_select_ind h ind rid ptr a) < 0
      then (case loc_sync_send_req eLOC_CLIENT_SUCCESS early late timed_out h rid ind ptr a of
              (st, a') \<Rightarrow> Returns (st, a', s))
      else case locClientSendReq sizeof rc resp h rid pl s of
        Fault \<Rightarrow> Fault
      | Blocked \<Rightarrow> Blocked
      | Returns (send, s') \<Rightarrow>
          (case loc_sync_send_req send early late timed_out h rid ind ptr a of
             (st, a') \<Rightarrow> Returns (st, a', s')))"

lemma select_free:
  assumes "wf_array a" "\<exists>i<LOC_SYNC_REQ_BUFFER_SIZE. \<not> slot_in_use a ! i"
  shows "fst (loc_sync_select_ind h ind rid ptr a) \<ge> 0"
  using assms by (cases rule: alloc_slot_cases) (auto simp: loc_sync_select_ind_def)

text \<open>The answer to a known request is classified as a response.\<close>

lemma answer_entry:
  assumes "validateRequest sizeof i pl \<noteq> None" "i \<notin> set unanswered"
  obtains x where "x \<in> set locClientRespIndTable" "respIndId x = i"
    "locClientGetSizeAndTypeByIndId sizeof i = Some (sizeof (respIndSize x), respIndType)"
proof -
  from assms(1) have known: "i \<in> set (map fst req_cases)" by (simp only: validateRequest_Some)
  from req_answered [OF known assms(2)] obtain x where x: "x \<in> set locClientRespIndTable" "respIndId x = i"
    by (auto simp: resp_ids_def)
  from classify_resp [OF x(1)] req_not_event [OF known] x show thesis by (auto intro: that)
qed



end
