(* ===== verification/Loc_Supported.thy ===== *)
theory Loc_Supported
  imports Loc_Client
begin

text \<open>
  Which messages the modem supports: the bit vector \<^verbatim>\<open>checkQmiMsgsSupported\<close> computes, where it
  is exact, and where the \<^verbatim>\<open>int\<close> shift and the loop bound make it differ from the messages
  asked for; and the cache of \<^verbatim>\<open>locClientSupportMsgCheck\<close>.
\<close>

lemma int_shift_small:
  assumes "idx < 31"
  shows "\<exists>b. int_shift idx = Some b \<and> (\<forall>i<64. bit b i \<longleftrightarrow> i = idx)"
proof -
  have "bit (scast (push_bit idx (1 :: 32 word)) :: u64) i \<longleftrightarrow> i = idx" if "i < 64" for i
    using assms that by (auto simp: bit_simps bit_signed_iff min_def)
  then show ?thesis using assms by (simp add: int_shift_def)
qed

lemma int_shift_31: "\<exists>b. int_shift 31 = Some b \<and> (\<forall>i<64. bit b i \<longleftrightarrow> i \<ge> 31)"
proof -
  have m: "(2147483647 :: u64) = mask 31" by (simp add: mask_eq_exp_minus_1)
  have "bit (scast (push_bit 31 (1 :: 32 word)) :: u64) i \<longleftrightarrow> i \<ge> 31" if "i < 64" for i
    using that by (auto simp: bit_simps m)
  then show ?thesis by (simp add: int_shift_def)
qed

lemma int_shift_undefined: "idx \<ge> 32 \<Longrightarrow> int_shift idx = None"
  by (simp add: int_shift_def)

lemma check_loop_append:
  "check_loop r (xs @ ys) idx acc =
     (case check_loop r xs idx acc of None \<Rightarrow> None | Some v \<Rightarrow> check_loop r ys (idx + length xs) v)"
  by (induction xs arbitrary: idx acc) (auto split: option.splits)

lemma check_loop_bits:
  assumes "idx + length ids \<le> 31"
  shows "\<exists>v. check_loop r ids idx acc = Some v \<and>
    (\<forall>i<64. bit v i \<longleftrightarrow> bit acc i \<or> (idx \<le> i \<and> i < idx + length ids \<and> msg_bit r (ids ! (i - idx))))"
  using assms
proof (induction ids arbitrary: idx acc)
  case Nil
  then show ?case by auto
next
  case (Cons x xs)
  from Cons.prems obtain b where b: "int_shift idx = Some b" "\<forall>i<64. bit b i \<longleftrightarrow> i = idx"
    using int_shift_small [of idx] by auto
  let ?acc = "if msg_bit r x then or acc b else acc"
  from Cons.prems have "Suc idx + length xs \<le> 31" by simp
  from Cons.IH [OF this, of ?acc] obtain v where v: "check_loop r xs (Suc idx) ?acc = Some v"
    "\<forall>i<64. bit v i \<longleftrightarrow> bit ?acc i \<or> (Suc idx \<le> i \<and> i < Suc idx + length xs \<and> msg_bit r (xs ! (i - Suc idx)))"
    by blast
  have "check_loop r (x # xs) idx acc = Some v" using v(1) b(1) by (cases "msg_bit r x") simp_all
  moreover have "bit v i \<longleftrightarrow>
      bit acc i \<or> (idx \<le> i \<and> i < idx + length (x # xs) \<and> msg_bit r ((x # xs) ! (i - idx)))" if "i < 64" for i
  proof (cases "i = idx")
    case True
    then show ?thesis using v(2) b(2) that by (auto simp: bit_or_iff)
  next
    case False
    then show ?thesis using v(2) b(2) that by (auto simp: bit_or_iff nth_Cons' Suc_le_eq)
  qed
  ultimately show ?case by blast
qed

text \<open>
  For at most 31 messages the result is defined, and its bit \<open>i\<close> is set exactly if the
  \<open>i\<close>-th message lies within the bound of the loop, the smaller of the number of messages
  and of the number of bytes received, and its bit is set in the list of the modem.
\<close>

theorem supported_bits:
  assumes "length ids \<le> 31" "supported_msgs_valid r"
  shows "\<exists>v. checkQmiMsgsSupported ids r = Some v \<and>
    (\<forall>i<64. bit v i \<longleftrightarrow> i < length ids \<and> i < unat (supported_msgs_len r) \<and>
       unat (drop_bit 3 (ids ! i)) < unat (supported_msgs_len r) \<and>
       bit (supported_msgs_arr r ! unat (drop_bit 3 (ids ! i))) (unat (take_bit 3 (ids ! i))))"
proof -
  let ?n = "min (min (length ids) (unat (supported_msgs_len r))) 64"
  have "0 + length (take ?n ids) \<le> 31" using assms(1) by simp
  from check_loop_bits [OF this, of r 0] show ?thesis
    using assms by (auto simp: checkQmiMsgsSupported_def msg_bit_def Let_def)
qed

theorem supported_bits_witness:
  "\<exists>v. checkQmiMsgsSupported [0, 2, 31] \<lparr>supported_msgs_valid = True, supported_msgs_len = 4,
       supported_msgs_arr = [3, 0, 0, 0xC0]\<rparr> = Some v \<and> bit v 0 \<and> \<not> bit v 1 \<and> bit v 2"
  using supported_bits [of "[0, 2, 31]" "\<lparr>supported_msgs_valid = True, supported_msgs_len = 4,
       supported_msgs_arr = [3, 0, 0, 0xC0]\<rparr>"]
  by (auto simp: bit_simps nth_Cons')

text \<open>
  The loop bound compares a number of messages with a number of bytes: with one byte
  received, in which all of the messages 0 to 7 are marked, only the first message asked
  for is reported.
\<close>

theorem supported_bits_truncated:
  "checkQmiMsgsSupported [0, 1, 2, 3] \<lparr>supported_msgs_valid = True, supported_msgs_len = 1,
     supported_msgs_arr = [0xFF]\<rparr> = Some 1"
  by code_simp

text \<open>
  C38. A 32nd message that is supported sets every bit from 31 to 63, because the shifted
  \<^verbatim>\<open>int\<close> is sign extended: the messages after it all seem supported. With a 33rd supported
  message the shift is undefined.
\<close>

theorem supported_bits_overflow:
  assumes "supported_msgs_valid r" "unat (supported_msgs_len r) \<ge> 33" "length ids \<ge> 32"
    and "msg_bit r (ids ! 31)"
  shows "(length ids = 32 \<longrightarrow> (\<exists>v. checkQmiMsgsSupported ids r = Some v \<and> (\<forall>i\<in>{31..<64}. bit v i))) \<and>
    (length ids = 33 \<longrightarrow> msg_bit r (ids ! 32) \<longrightarrow> checkQmiMsgsSupported ids r = None)"
proof
  have "0 + length (take 31 ids) \<le> 31" by simp
  from check_loop_bits [OF this] obtain v where v: "check_loop r (take 31 ids) 0 0 = Some v" by blast
  obtain b where b: "int_shift 31 = Some b" "\<forall>i<64. bit b i \<longleftrightarrow> i \<ge> 31" using int_shift_31 by blast
  have ids: "ids = take 31 ids @ ids ! 31 # drop 32 ids"
    using assms(3) id_take_nth_drop [of 31 ids] by simp
  have loop: "check_loop r ids 0 0 = check_loop r (drop 32 ids) 32 (or v b)"
    using assms(3,4) v b(1) by (subst ids) (simp add: check_loop_append min_def)
  have whole: "checkQmiMsgsSupported ids r = check_loop r ids 0 0" if "length ids \<le> 33"
    using that assms(1,2) by (simp add: checkQmiMsgsSupported_def)
  show "length ids = 32 \<longrightarrow> (\<exists>v. checkQmiMsgsSupported ids r = Some v \<and> (\<forall>i\<in>{31..<64}. bit v i))"
    using loop whole b(2) by (auto simp: bit_or_iff)
  show "length ids = 33 \<longrightarrow> msg_bit r (ids ! 32) \<longrightarrow> checkQmiMsgsSupported ids r = None"
  proof (intro impI)
    assume "length ids = 33" "msg_bit r (ids ! 32)"
    then have "drop 32 ids = [ids ! 32]" using Cons_nth_drop_Suc [of 32 ids] by simp
    with \<open>length ids = 33\<close> \<open>msg_bit r (ids ! 32)\<close> show "checkQmiMsgsSupported ids r = None"
      by (simp add: whole loop int_shift_undefined)
  qed
qed

definition all_msgs :: supported_msgs where
  "all_msgs = \<lparr>supported_msgs_valid = True, supported_msgs_len = 64, supported_msgs_arr = replicate 64 0xFF\<rparr>"

theorem supported_bits_overflow_witness:
  "(\<exists>v. checkQmiMsgsSupported (replicate 32 1) all_msgs = Some v \<and> bit v 63) \<and>
   checkQmiMsgsSupported (replicate 33 1) all_msgs = None"
proof
  have all: "supported_msgs_valid all_msgs" "unat (supported_msgs_len all_msgs) \<ge> 33" "msg_bit all_msgs 1"
    by code_simp+
  show "\<exists>v. checkQmiMsgsSupported (replicate 32 1) all_msgs = Some v \<and> bit v 63"
    using supported_bits_overflow [of all_msgs "replicate 32 1"] all by auto
  show "checkQmiMsgsSupported (replicate 33 1) all_msgs = None"
    using supported_bits_overflow [of all_msgs "replicate 33 1"] all by auto
qed

text \<open>
  The answer is cached for the whole process: once a check has succeeded, every later
  one returns the same bits without asking the modem, for whatever messages and handle.
\<close>

theorem support_check_cached:
  assumes "locClientSupportMsgCheck rc resp msgs h (Some ids) True s = Returns (eLOC_CLIENT_SUCCESS, Some v, s')"
  shows "locClientSupportMsgCheck rc2 resp2 msgs2 h2 (Some ids2) True s' =
    Returns (eLOC_CLIENT_SUCCESS, Some v, s')"
proof -
  have "isCheckedAlready s' \<and> supportedMsgChecked s' = v"
    using assms
    by (auto simp: locClientSupportMsgCheck_def Let_def split: if_splits outcome.splits option.splits)
  then show ?thesis by (simp add: locClientSupportMsgCheck_def)
qed

definition one_client :: client where
  "one_client = client_init\<lparr>cbs := [7 \<mapsto> cb_zero\<lparr>userHandle := Some 3, pMe := Some 7\<rparr>]\<rparr>"

theorem support_check_cached_witness:
  "\<exists>s'. locClientSupportMsgCheck QMI_NO_ERR \<lparr>result_success = True, resp_error = QMI_ERR_OTHER\<rparr> all_msgs
       (Some 7) (Some [0]) True one_client = Returns (eLOC_CLIENT_SUCCESS, Some 1, s') \<and>
     locClientSupportMsgCheck QMI_OTHER_RC \<lparr>result_success = False, resp_error = QMI_ERR_OTHER\<rparr> all_msgs
       None (Some [600]) True s' = Returns (eLOC_CLIENT_SUCCESS, Some 1, s')"
proof -
  have one: "checkQmiMsgsSupported [0] all_msgs = Some 1" by code_simp
  obtain s' where s': "locClientSupportMsgCheck QMI_NO_ERR \<lparr>result_success = True, resp_error = QMI_ERR_OTHER\<rparr>
      all_msgs (Some 7) (Some [0]) True one_client = Returns (eLOC_CLIENT_SUCCESS, Some 1, s')"
    by (simp add: locClientSupportMsgCheck_def check_handle_def one_client_def client_init_def cb_zero_def
        convertQmiResponseToLocStatus_def one)
  from s' support_check_cached [OF s'] show ?thesis by blast
qed

end
