(* ===== verification/Ds_Client.thy ===== *)
theory Ds_Client
  imports C_Prelude
begin

text \<open>
  \<^verbatim>\<open>src/opensource/location/loc_api/ds_api/ds_client.c\<close>: the client of the wireless data
  service through which the location adapter brings up an emergency data call. The QMI
  client library, the data service behind it, the DSI network control library and the
  allocator are an environment \<open>wds_env\<close> over a state of type \<open>'k\<close>; codes of theirs that the
  source only compares with the code of success are booleans here (true is success), and
  identifiers that the source only names are constructors. The world of the client records
  the sessions on the heap, the number of its other live blocks, the QMI handles it holds,
  the callbacks registered with DSI, what was delivered to the caller, and whether a session
  was touched that is not on the heap.
\<close>

named_theorems ds_frame \<open>what the steps of the client keep of the world\<close>

subsection \<open>Status codes and messages\<close>

datatype ds_client_status_enum_type =
    E_DS_CLIENT_SUCCESS
  | E_DS_CLIENT_FAILURE_GENERAL
  | E_DS_CLIENT_FAILURE_UNSUPPORTED
  | E_DS_CLIENT_FAILURE_INVALID_PARAMETER
  | E_DS_CLIENT_FAILURE_ENGINE_BUSY
  | E_DS_CLIENT_FAILURE_PHONE_OFFLINE
  | E_DS_CLIENT_FAILURE_TIMEOUT
  | E_DS_CLIENT_FAILURE_SERVICE_NOT_PRESENT
  | E_DS_CLIENT_FAILURE_SERVICE_VERSION_UNSUPPORTED
  | E_DS_CLIENT_FAILURE_CLIENT_VERSION_UNSUPPORTED
  | E_DS_CLIENT_FAILURE_INVALID_HANDLE
  | E_DS_CLIENT_FAILURE_INTERNAL
  | E_DS_CLIENT_FAILURE_NOT_INITIALIZED
  | E_DS_CLIENT_FAILURE_NOT_ENOUGH_MEMORY
  | E_DS_CLIENT_SERVICE_ALREADY_STARTED
  | E_DS_CLIENT_DATA_CALL_CONNECTED
  | E_DS_CLIENT_DATA_CALL_DISCONNECTED
  | E_DS_CLIENT_RETRY_LATER

type_synonym ds_status = ds_client_status_enum_type

definition DS_CLIENT_SERVICE_TIMEOUT :: nat where "DS_CLIENT_SERVICE_TIMEOUT = 4000"
definition DS_CLIENT_SERVICE_TIMEOUT_TOTAL :: nat where "DS_CLIENT_SERVICE_TIMEOUT_TOTAL = 40000"
definition DS_CLIENT_SYNC_MSG_TIMEOUT :: nat where "DS_CLIENT_SYNC_MSG_TIMEOUT = 5000"

datatype wds_req_id =
    QMI_WDS_GET_PROFILE_LIST_REQ_V01
  | QMI_WDS_GET_PROFILE_SETTINGS_REQ_V01
  | wds_other_req nat

datatype wds_pdp_type =
    WDS_PDP_TYPE_PDP_IPV4_V01
  | WDS_PDP_TYPE_PDP_IPV6_V01
  | WDS_PDP_TYPE_PDP_IPV4V6_V01
  | wds_other_pdp int

datatype dsi_ip_version = DSI_IP_VERSION_4 | DSI_IP_VERSION_6 | DSI_IP_VERSION_4_6 | dsi_other_ip int

datatype dsi_net_evt =
    DSI_EVT_INVALID
  | DSI_EVT_NET_IS_CONN
  | DSI_EVT_NET_NO_NET
  | DSI_EVT_PHYSLINK_DOWN_STATE
  | DSI_EVT_PHYSLINK_UP_STATE
  | DSI_EVT_NET_RECONFIGURED
  | DSI_EVT_WDS_CONNECTED
  | DSI_EVT_MAX

datatype dsi_call_param =
    DSI_CALL_INFO_UMTS_PROFILE_IDX int
  | DSI_CALL_INFO_IP_VERSION dsi_ip_version

datatype wds_profile_type = WDS_PROFILE_TYPE_3GPP_V01 | wds_other_profile_type nat

record wds_profile_identifier =
  profile_type :: wds_profile_type
  profile_index :: int

record wds_list_req =
  profile_type_valid :: bool
  req_profile_type :: wds_profile_type

text \<open>The entries of the list are the first \<^verbatim>\<open>profile_list_len\<close> of its array.\<close>

record wds_list_resp =
  list_ok :: bool
  profile_list :: "wds_profile_identifier list"

record wds_settings_resp =
  settings_ok :: bool
  profile_name :: string
  support_emergency_calls_valid :: bool
  support_emergency_calls :: bool
  pdp_type_valid :: bool
  pdp_type :: wds_pdp_type

text \<open>The cleared buffers: no entries and no flags, the code of no error, and a PDP type that no flag makes valid.\<close>

definition zero_list :: wds_list_resp where
  "zero_list = \<lparr>list_ok = True, profile_list = []\<rparr>"

definition zero_settings :: wds_settings_resp where
  "zero_settings = \<lparr>settings_ok = True, profile_name = [], support_emergency_calls_valid = False,
     support_emergency_calls = False, pdp_type_valid = False, pdp_type = WDS_PDP_TYPE_PDP_IPV4_V01\<rparr>"

text \<open>The two unions: a request together with the buffer its answer is written to.\<close>

datatype wds_msg =
    GetProfileList wds_list_req wds_list_resp
  | GetProfileSettings wds_profile_identifier wds_settings_resp

fun msg_ok :: "wds_msg \<Rightarrow> bool" where
  "msg_ok (GetProfileList q r) = list_ok r"
| "msg_ok (GetProfileSettings q r) = settings_ok r"

subsection \<open>Sessions, services and the world\<close>

record ds_client_session_data =
  dsi_net_handle :: "nat option"
  event_cb :: nat
  caller_cookie :: nat

record 'k wds_env =
  mem :: "'k \<Rightarrow> bool \<times> 'k"
  service_object :: "'k \<Rightarrow> bool \<times> 'k"
  service_count :: "nat \<Rightarrow> 'k \<Rightarrow> (bool \<times> nat) \<times> 'k"
  service_fill :: "nat \<Rightarrow> 'k \<Rightarrow> (bool \<times> nat) \<times> 'k"
  notifier_init :: "'k \<Rightarrow> (bool \<times> nat) \<times> 'k"
  signal_clear :: "'k \<Rightarrow> 'k"
  signal_wait :: "nat \<Rightarrow> 'k \<Rightarrow> bool \<times> 'k"
  qmi_init :: "nat \<Rightarrow> 'k \<Rightarrow> (bool \<times> nat) \<times> 'k"
  qmi_release :: "nat \<Rightarrow> 'k \<Rightarrow> bool \<times> 'k"
  send_list :: "nat \<Rightarrow> wds_list_req \<Rightarrow> wds_list_resp \<Rightarrow> nat \<Rightarrow> 'k \<Rightarrow> (bool \<times> wds_list_resp) \<times> 'k"
  send_settings :: "nat \<Rightarrow> wds_profile_identifier \<Rightarrow> wds_settings_resp \<Rightarrow> nat \<Rightarrow> 'k \<Rightarrow> (bool \<times> wds_settings_resp) \<times> 'k"
  dsi_start :: "'k \<Rightarrow> bool \<times> 'k"
  dsi_get_hndl :: "'k \<Rightarrow> nat option \<times> 'k"
  dsi_rel_hndl :: "nat option \<Rightarrow> 'k \<Rightarrow> 'k"
  dsi_set_param :: "nat option \<Rightarrow> dsi_call_param \<Rightarrow> 'k \<Rightarrow> 'k"
  dsi_start_call :: "nat option \<Rightarrow> 'k \<Rightarrow> bool \<times> 'k"
  dsi_stop_call :: "nat option \<Rightarrow> 'k \<Rightarrow> bool \<times> 'k"

record 'k ds_world =
  svc :: 'k
  sessions :: "nat \<rightharpoonup> ds_client_session_data"
  next_session :: nat
  blocks :: nat
  qmi_live :: "nat list"
  dsi_reg :: "(nat \<times> nat) list"
  delivered :: "(nat \<times> ds_status \<times> nat) list"
  bad_access :: bool

definition ask :: "('k \<Rightarrow> 'a \<times> 'k) \<Rightarrow> 'k ds_world \<Rightarrow> 'a \<times> 'k ds_world" where
  "ask f w = (let (r, k) = f (svc w) in (r, w\<lparr>svc := k\<rparr>))"

definition calloc_block :: "'k wds_env \<Rightarrow> 'k ds_world \<Rightarrow> bool \<times> 'k ds_world" where
  "calloc_block e w = (let (ok, w) = ask (mem e) w in (ok, if ok then w\<lparr>blocks := Suc (blocks w)\<rparr> else w))"

definition free_blocks :: "nat \<Rightarrow> 'k ds_world \<Rightarrow> 'k ds_world" where
  "free_blocks n w = w\<lparr>blocks := blocks w - n\<rparr>"

subsection \<open>Events of the network\<close>

definition deliver :: "ds_status \<Rightarrow> ds_client_session_data \<Rightarrow> 'k ds_world \<Rightarrow> 'k ds_world" where
  "deliver st d w = w\<lparr>delivered := delivered w @ [(event_cb d, st, caller_cookie d)]\<rparr>"

definition net_ev_cb :: "nat \<Rightarrow> dsi_net_evt \<Rightarrow> 'k ds_world \<Rightarrow> 'k ds_world" where
  "net_ev_cb user_data evt w =
     (if evt = DSI_EVT_INVALID \<or> evt = DSI_EVT_MAX then w
      else if evt = DSI_EVT_NET_IS_CONN \<or> evt = DSI_EVT_WDS_CONNECTED then
        (case sessions w user_data of
           None \<Rightarrow> w\<lparr>bad_access := True\<rparr>
         | Some d \<Rightarrow> deliver E_DS_CLIENT_DATA_CALL_CONNECTED d w)
      else if evt = DSI_EVT_NET_NO_NET then
        (case sessions w user_data of
           None \<Rightarrow> w\<lparr>bad_access := True\<rparr>
         | Some d \<Rightarrow> deliver E_DS_CLIENT_DATA_CALL_DISCONNECTED d w)
      else w)"

subsection \<open>Connecting to the data service\<close>

text \<open>
  The loop that waits for the service: the result of the last query, the number of services
  and whether the last wait timed out. The counter grows by 4000 up to 40000, so the loop
  runs at most ten times.
\<close>

definition wait_round :: "'k wds_env \<Rightarrow> nat \<Rightarrow> bool \<Rightarrow> 'k ds_world \<Rightarrow> (bool \<times> nat \<times> bool) \<times> 'k ds_world" where
  "wait_round e num no_signal w =
     (let w = w\<lparr>svc := signal_clear e (svc w)\<rparr>;
          ((ok, num), w) = ask (service_count e num) w
      in if ok then ((True, num, no_signal), w)
         else let (timed_out, w) = ask (signal_wait e DS_CLIENT_SERVICE_TIMEOUT) w
              in if timed_out then ((False, num, True), w)
                 else let ((ok, num), w) = ask (service_count e num) w in ((ok, num, False), w))"

function wait_service :: "'k wds_env \<Rightarrow> nat \<Rightarrow> nat \<Rightarrow> bool \<Rightarrow> 'k ds_world \<Rightarrow> (bool \<times> nat \<times> bool) \<times> 'k ds_world" where
  "wait_service e timeout num no_signal w =
     (let ((ok, num, no_signal), w) = wait_round e num no_signal w;
          timeout = timeout + DS_CLIENT_SERVICE_TIMEOUT
      in if timeout < DS_CLIENT_SERVICE_TIMEOUT_TOTAL \<and> no_signal \<and> \<not> ok
         then wait_service e timeout num no_signal w
         else ((ok, num, no_signal), w))"
  by auto
termination
  by (relation "measure (\<lambda>(e, t, n, s, w). DS_CLIENT_SERVICE_TIMEOUT_TOTAL - t)")
    (auto simp: DS_CLIENT_SERVICE_TIMEOUT_def DS_CLIENT_SERVICE_TIMEOUT_TOTAL_def)

declare wait_service.simps [simp del]

text \<open>The first query, the notifier when it fails, and the loop.\<close>

definition find_service :: "'k wds_env \<Rightarrow> 'k ds_world \<Rightarrow> (ds_status + nat option \<times> bool \<times> nat \<times> bool) \<times> 'k ds_world" where
  "find_service e w =
     (let ((ok, num), w) = ask (service_count e 0) w
      in if ok then (Inr (None, True, num, False), w)
         else let ((ok, notifier), w) = ask (notifier_init e) w
              in if \<not> ok then (Inl E_DS_CLIENT_FAILURE_INTERNAL, w)
                 else let w = w\<lparr>qmi_live := notifier # qmi_live w\<rparr>;
                          (r, w) = wait_service e 0 num False w
                      in (Inr (Some notifier, r), w))"

definition drop_notifier :: "'k wds_env \<Rightarrow> nat option \<Rightarrow> 'k ds_world \<Rightarrow> 'k ds_world" where
  "drop_notifier e notifier w =
     (case notifier of
        None \<Rightarrow> w
      | Some h \<Rightarrow> let (ok, w) = ask (qmi_release e h) w in w\<lparr>qmi_live := remove1 h (qmi_live w)\<rparr>)"

text \<open>From the service information to the client handle; the block is freed on every path.\<close>

definition connect_service :: "'k wds_env \<Rightarrow> nat option \<Rightarrow> nat \<Rightarrow> 'k ds_world \<Rightarrow> (ds_status + nat) \<times> 'k ds_world" where
  "connect_service e notifier num w =
     (let (ok, w) = calloc_block e w
      in if \<not> ok then (Inl E_DS_CLIENT_FAILURE_INTERNAL, w)
         else let ((ok, info), w) = ask (service_fill e num) w
              in if \<not> ok then (Inl E_DS_CLIENT_FAILURE_INTERNAL, free_blocks 1 w)
                 else let ((ok, client), w) = ask (qmi_init e info) w
                      in if \<not> ok then (Inl E_DS_CLIENT_FAILURE_INTERNAL, free_blocks 1 w)
                         else let w = w\<lparr>qmi_live := client # qmi_live w\<rparr>;
                                  w = drop_notifier e notifier w
                              in (Inr client, free_blocks 1 w))"

definition ds_client_qmi_ctrl_point_init :: "'k wds_env \<Rightarrow> 'k ds_world \<Rightarrow> (ds_status + nat) \<times> 'k ds_world" where
  "ds_client_qmi_ctrl_point_init e w =
     (let (ok, w) = ask (service_object e) w
      in if \<not> ok then (Inl E_DS_CLIENT_FAILURE_INTERNAL, w)
         else case find_service e w of
                (Inl st, w) \<Rightarrow> (Inl st, w)
              | (Inr (notifier, ok, num, no_signal), w) \<Rightarrow>
                  if num = 0 \<or> \<not> ok
                  then (Inl (if no_signal then E_DS_CLIENT_FAILURE_TIMEOUT else E_DS_CLIENT_FAILURE_INTERNAL), w)
                  else connect_service e notifier num w)"

subsection \<open>Requests\<close>

definition ds_client_convert_qmi_response :: "wds_req_id \<Rightarrow> wds_msg \<Rightarrow> ds_status" where
  "ds_client_convert_qmi_response req_id m =
     (case req_id of
        wds_other_req n \<Rightarrow> E_DS_CLIENT_FAILURE_GENERAL
      | _ \<Rightarrow> if msg_ok m then E_DS_CLIENT_SUCCESS else E_DS_CLIENT_FAILURE_GENERAL)"

fun qmi_send_msg_sync :: "'k wds_env \<Rightarrow> nat \<Rightarrow> wds_msg \<Rightarrow> nat \<Rightarrow> 'k ds_world \<Rightarrow> (bool \<times> wds_msg) \<times> 'k ds_world" where
  "qmi_send_msg_sync e h (GetProfileList q r) t w =
     (let ((ok, r), w) = ask (send_list e h q r t) w in ((ok, GetProfileList q r), w))"
| "qmi_send_msg_sync e h (GetProfileSettings q r) t w =
     (let ((ok, r), w) = ask (send_settings e h q r t) w in ((ok, GetProfileSettings q r), w))"

definition ds_client_send_qmi_sync_req ::
  "'k wds_env \<Rightarrow> nat \<Rightarrow> wds_req_id \<Rightarrow> wds_msg \<Rightarrow> 'k ds_world \<Rightarrow> (ds_status \<times> wds_msg) \<times> 'k ds_world" where
  "ds_client_send_qmi_sync_req e h req_id m w =
     (case req_id of
        wds_other_req n \<Rightarrow> ((E_DS_CLIENT_FAILURE_INVALID_PARAMETER, m), w)
      | _ \<Rightarrow> let ((ok, m), w) = qmi_send_msg_sync e h m DS_CLIENT_SYNC_MSG_TIMEOUT w
             in if \<not> ok then ((E_DS_CLIENT_FAILURE_INTERNAL, m), w)
                else ((ds_client_convert_qmi_response req_id m, m), w))"

fun list_of_msg :: "wds_msg \<Rightarrow> wds_list_resp" where
  "list_of_msg (GetProfileList q r) = r"
| "list_of_msg (GetProfileSettings q r) = zero_list"

fun settings_of_msg :: "wds_msg \<Rightarrow> wds_settings_resp" where
  "settings_of_msg (GetProfileSettings q r) = r"
| "settings_of_msg (GetProfileList q r) = zero_settings"

text \<open>Without memory for the request the status stays that of success and the answer stays as it was.\<close>

definition ds_client_get_profile_list ::
  "'k wds_env \<Rightarrow> nat \<Rightarrow> wds_list_resp \<Rightarrow> wds_profile_type \<Rightarrow> 'k ds_world \<Rightarrow> (ds_status \<times> wds_list_resp) \<times> 'k ds_world" where
  "ds_client_get_profile_list e h r pt w =
     (let (ok, w) = calloc_block e w
      in if \<not> ok then ((E_DS_CLIENT_SUCCESS, r), w)
         else let ((st, m), w) = ds_client_send_qmi_sync_req e h QMI_WDS_GET_PROFILE_LIST_REQ_V01
                                   (GetProfileList \<lparr>profile_type_valid = True, req_profile_type = pt\<rparr> r) w
              in ((st, list_of_msg m), free_blocks 1 w))"

definition ds_client_get_profile_settings ::
  "'k wds_env \<Rightarrow> nat \<Rightarrow> wds_settings_resp \<Rightarrow> wds_profile_identifier \<Rightarrow> 'k ds_world \<Rightarrow> (ds_status \<times> wds_settings_resp) \<times> 'k ds_world" where
  "ds_client_get_profile_settings e h r pid w =
     (let ((st, m), w) = ds_client_send_qmi_sync_req e h QMI_WDS_GET_PROFILE_SETTINGS_REQ_V01 (GetProfileSettings pid r) w
      in ((st, settings_of_msg m), w))"

subsection \<open>Opening a call\<close>

definition convert_pdp_type :: "wds_settings_resp \<Rightarrow> dsi_ip_version" where
  "convert_pdp_type s =
     (if pdp_type_valid s then
        (case pdp_type s of
           WDS_PDP_TYPE_PDP_IPV4_V01 \<Rightarrow> DSI_IP_VERSION_4
         | WDS_PDP_TYPE_PDP_IPV6_V01 \<Rightarrow> DSI_IP_VERSION_6
         | WDS_PDP_TYPE_PDP_IPV4V6_V01 \<Rightarrow> DSI_IP_VERSION_4_6
         | wds_other_pdp n \<Rightarrow> DSI_IP_VERSION_4)
      else DSI_IP_VERSION_4)"

definition supports_emergency :: "wds_settings_resp \<Rightarrow> bool" where
  "supports_emergency s = (support_emergency_calls_valid s \<and> support_emergency_calls s)"

text \<open>The loop over the profiles: index and IP version of the profile it stops at, if any.\<close>

fun search_profiles ::
  "'k wds_env \<Rightarrow> nat \<Rightarrow> wds_profile_identifier list \<Rightarrow> wds_settings_resp \<Rightarrow> 'k ds_world \<Rightarrow>
     (ds_status + (int \<times> dsi_ip_version) option) \<times> 'k ds_world" where
  "search_profiles e h [] buf w = (Inr None, w)"
| "search_profiles e h (p # ps) buf w =
     (let ((st, s), w) = ds_client_get_profile_settings e h buf p w
      in if st \<noteq> E_DS_CLIENT_SUCCESS then (Inl st, w)
         else if supports_emergency s then (Inr (Some (profile_index p, convert_pdp_type s)), w)
         else search_profiles e h ps zero_settings w)"

text \<open>What the call writes through its pointers: nothing, or a value (of the handle also NULL).\<close>

record open_out =
  out_handle :: "nat option option"
  out_profile :: "int option"
  out_pdp :: "dsi_ip_version option"

definition no_out :: open_out where "no_out = \<lparr>out_handle = None, out_profile = None, out_pdp = None\<rparr>"

definition new_session :: "'k wds_env \<Rightarrow> nat \<Rightarrow> nat \<Rightarrow> 'k ds_world \<Rightarrow> nat option \<times> 'k ds_world" where
  "new_session e cb cookie w =
     (let (ok, w) = ask (mem e) w
      in if \<not> ok then (None, w)
         else (Some (next_session w),
               w\<lparr>sessions := (sessions w)(next_session w \<mapsto>
                   \<lparr>dsi_net_handle = None, event_cb = cb, caller_cookie = cookie\<rparr>),
                 next_session := Suc (next_session w)\<rparr>))"

definition get_data_handle :: "'k wds_env \<Rightarrow> nat \<Rightarrow> ds_status \<Rightarrow> 'k ds_world \<Rightarrow> ds_status \<times> 'k ds_world" where
  "get_data_handle e a st w =
     (let (h, w) = ask (dsi_get_hndl e) w
      in case h of
           None \<Rightarrow> (E_DS_CLIENT_RETRY_LATER, w)
         | Some d \<Rightarrow> (st, w\<lparr>dsi_reg := (d, a) # dsi_reg w,
                           sessions := (sessions w)(a := map_option (dsi_net_handle_update (\<lambda>_. Some d)) (sessions w a))\<rparr>))"

text \<open>From the release of the QMI client to the handle of the network layer.\<close>

definition start_session ::
  "'k wds_env \<Rightarrow> nat \<Rightarrow> nat \<Rightarrow> ds_status \<Rightarrow> (int \<times> dsi_ip_version) option \<Rightarrow> 'k ds_world \<Rightarrow> (ds_status \<times> open_out) \<times> 'k ds_world" where
  "start_session e cb cookie st found w =
     (case found of
        None \<Rightarrow> ((E_DS_CLIENT_FAILURE_GENERAL, no_out), w)
      | Some (idx, pdp) \<Rightarrow>
          let (a, w) = new_session e cb cookie w;
              out = \<lparr>out_handle = Some a, out_profile = Some idx, out_pdp = Some pdp\<rparr>
          in case a of
               None \<Rightarrow> ((E_DS_CLIENT_FAILURE_NOT_ENOUGH_MEMORY, out), w)
             | Some a \<Rightarrow> let (st, w) = get_data_handle e a st w in ((st, out), w))"

definition release_client :: "'k wds_env \<Rightarrow> nat \<Rightarrow> 'k ds_world \<Rightarrow> ds_status \<times> 'k ds_world" where
  "release_client e h w =
     (let (ok, w) = ask (qmi_release e h) w
      in if ok then (E_DS_CLIENT_SUCCESS, w\<lparr>qmi_live := remove1 h (qmi_live w)\<rparr>)
         else (E_DS_CLIENT_FAILURE_GENERAL, w))"

text \<open>
  From the allocation of the first response to the end of the loop, with the number of response
  blocks that are live then; they are freed behind the label \<^verbatim>\<open>err\<close>.
\<close>

definition query_profiles ::
  "'k wds_env \<Rightarrow> nat \<Rightarrow> 'k ds_world \<Rightarrow> ((ds_status + (int \<times> dsi_ip_version) option) \<times> nat) \<times> 'k ds_world" where
  "query_profiles e h w =
     (let (ok, w) = calloc_block e w
      in if \<not> ok then ((Inl E_DS_CLIENT_FAILURE_NOT_ENOUGH_MEMORY, 0), w)
         else let ((st, r), w) = ds_client_get_profile_list e h zero_list WDS_PROFILE_TYPE_3GPP_V01 w
              in if st \<noteq> E_DS_CLIENT_SUCCESS then ((Inl st, 1), w)
                 else let (ok, w) = calloc_block e w
                      in if \<not> ok then ((Inl E_DS_CLIENT_FAILURE_NOT_ENOUGH_MEMORY, 1), w)
                         else let (r, w) = search_profiles e h (profile_list r) zero_settings w
                              in ((r, 2), w))"

definition ds_client_open_call ::
  "'k wds_env \<Rightarrow> bool \<Rightarrow> nat option \<Rightarrow> nat \<Rightarrow> 'k ds_world \<Rightarrow> (ds_status \<times> open_out) \<times> 'k ds_world" where
  "ds_client_open_call e client_handle callback cookie w =
     (case callback of
        None \<Rightarrow> ((E_DS_CLIENT_FAILURE_GENERAL, no_out), w)
      | Some cb \<Rightarrow>
          if \<not> client_handle then ((E_DS_CLIENT_FAILURE_GENERAL, no_out), w)
          else case ds_client_qmi_ctrl_point_init e w of
                 (Inl st, w) \<Rightarrow> ((st, no_out), w)
               | (Inr h, w) \<Rightarrow>
                   (case query_profiles e h w of
                      ((Inl st, n), w) \<Rightarrow> ((st, no_out), free_blocks n w)
                    | ((Inr found, n), w) \<Rightarrow>
                        let (st, w) = release_client e h w;
                            (r, w) = start_session e cb cookie st found w
                        in (r, free_blocks n w)))"

subsection \<open>Starting, stopping and closing a call\<close>

definition ds_client_start_call ::
  "'k wds_env \<Rightarrow> nat option \<Rightarrow> int \<Rightarrow> dsi_ip_version \<Rightarrow> 'k ds_world \<Rightarrow> ds_status \<times> 'k ds_world" where
  "ds_client_start_call e client_handle idx pdp w =
     (case client_handle of
        None \<Rightarrow> (E_DS_CLIENT_FAILURE_GENERAL, w)
      | Some a \<Rightarrow>
          (case sessions w a of
             None \<Rightarrow> (E_DS_CLIENT_FAILURE_GENERAL, w\<lparr>bad_access := True\<rparr>)
           | Some d \<Rightarrow>
               let h = dsi_net_handle d;
                   w = w\<lparr>svc := dsi_set_param e h (DSI_CALL_INFO_UMTS_PROFILE_IDX idx) (svc w)\<rparr>;
                   w = w\<lparr>svc := dsi_set_param e h (DSI_CALL_INFO_IP_VERSION pdp) (svc w)\<rparr>;
                   (ok, w) = ask (dsi_start_call e h) w
               in (if ok then E_DS_CLIENT_SUCCESS else E_DS_CLIENT_FAILURE_GENERAL, w)))"

definition ds_client_stop_call :: "'k wds_env \<Rightarrow> nat option \<Rightarrow> 'k ds_world \<Rightarrow> ds_status \<times> 'k ds_world" where
  "ds_client_stop_call e client_handle w =
     (case client_handle of
        None \<Rightarrow> (E_DS_CLIENT_FAILURE_GENERAL, w)
      | Some a \<Rightarrow>
          (case sessions w a of
             None \<Rightarrow> (E_DS_CLIENT_FAILURE_GENERAL, w\<lparr>bad_access := True\<rparr>)
           | Some d \<Rightarrow>
               let (ok, w) = ask (dsi_stop_call e (dsi_net_handle d)) w
               in (if ok then E_DS_CLIENT_SUCCESS else E_DS_CLIENT_FAILURE_GENERAL, w)))"

text \<open>
  The argument is NULL (\<open>None\<close>) or points at a handle; the result is the handle behind the
  pointer afterwards. Releasing the handle of the network layer ends its registration.
\<close>

definition ds_client_close_call :: "'k wds_env \<Rightarrow> nat option option \<Rightarrow> 'k ds_world \<Rightarrow> nat option option \<times> 'k ds_world" where
  "ds_client_close_call e client_handle w =
     (case client_handle of
        Some (Some a) \<Rightarrow>
          (case sessions w a of
             None \<Rightarrow> (Some None, w\<lparr>bad_access := True\<rparr>)
           | Some d \<Rightarrow>
               (Some None,
                w\<lparr>svc := dsi_rel_hndl e (dsi_net_handle d) (svc w),
                  dsi_reg := filter (\<lambda>r. Some (fst r) \<noteq> dsi_net_handle d) (dsi_reg w),
                  sessions := (sessions w)(a := None)\<rparr>))
      | _ \<Rightarrow> (client_handle, w))"

definition ds_client_init :: "'k wds_env \<Rightarrow> 'k ds_world \<Rightarrow> ds_status \<times> 'k ds_world" where
  "ds_client_init e w =
     (let (ok, w) = ask (dsi_start e) w
      in (if ok then E_DS_CLIENT_SUCCESS else E_DS_CLIENT_FAILURE_GENERAL, w))"

text \<open>The function table and its accessor.\<close>

record 'w ds_client_iface =
  pfn_init :: "('w \<Rightarrow> ds_status \<times> 'w) option"
  pfn_open_call :: "(bool \<Rightarrow> nat option \<Rightarrow> nat \<Rightarrow> 'w \<Rightarrow> (ds_status \<times> open_out) \<times> 'w) option"
  pfn_start_call :: "(nat option \<Rightarrow> int \<Rightarrow> dsi_ip_version \<Rightarrow> 'w \<Rightarrow> ds_status \<times> 'w) option"
  pfn_stop_call :: "(nat option \<Rightarrow> 'w \<Rightarrow> ds_status \<times> 'w) option"
  pfn_close_call :: "(nat option option \<Rightarrow> 'w \<Rightarrow> nat option option \<times> 'w) option"

definition ds_client_get_interface :: "'k wds_env \<Rightarrow> 'k ds_world ds_client_iface" where
  "ds_client_get_interface e =
     \<lparr>pfn_init = Some (ds_client_init e), pfn_open_call = Some (ds_client_open_call e),
      pfn_start_call = Some (ds_client_start_call e), pfn_stop_call = Some (ds_client_stop_call e),
      pfn_close_call = Some (ds_client_close_call e)\<rparr>"

end
