(* ===== verification/Ds_Correct.thy ===== *)
theory Ds_Correct
  imports Ds_Client
begin

text \<open>
  Facts about the data service client: which parts of its world each step keeps, the blocks
  and QMI handles it still holds when it returns, the wait for an absent service, and the
  profile a call is opened with.
\<close>

subsection \<open>What the steps keep\<close>

text \<open>Everything the client of the library sees: sessions, registrations and deliveries.\<close>

definition client_view ::
  "'k ds_world \<Rightarrow> (nat \<rightharpoonup> ds_client_session_data) \<times> nat \<times> (nat \<times> nat) list \<times> (nat \<times> ds_status \<times> nat) list \<times> bool" where
  "client_view w = (sessions w, next_session w, dsi_reg w, delivered w, bad_access w)"

lemma ask_svc: "ask f w = (fst (f (svc w)), w\<lparr>svc := snd (f (svc w))\<rparr>)"
  by (simp add: ask_def split_beta)

lemma client_view_update [simp]:
  "client_view (w\<lparr>svc := k\<rparr>) = client_view w"
  "client_view (w\<lparr>blocks := n\<rparr>) = client_view w"
  "client_view (w\<lparr>qmi_live := hs\<rparr>) = client_view w"
  by (simp_all add: client_view_def)

lemma view_ask [ds_frame]: "client_view (snd (ask f w)) = client_view w"
  by (simp add: ask_svc)

lemma ask_keeps [ds_frame]:
  "blocks (snd (ask f w)) = blocks w" "qmi_live (snd (ask f w)) = qmi_live w"
  by (simp_all add: ask_svc)

lemma calloc_block_keeps [ds_frame]:
  "client_view (snd (calloc_block e w)) = client_view w"
  "qmi_live (snd (calloc_block e w)) = qmi_live w"
  "blocks (snd (calloc_block e w)) = blocks w + (if fst (calloc_block e w) then 1 else 0)"
  by (simp_all add: calloc_block_def ask_svc)

lemma free_blocks_keeps [simp]:
  "client_view (free_blocks n w) = client_view w" "qmi_live (free_blocks n w) = qmi_live w"
  "blocks (free_blocks n w) = blocks w - n" "svc (free_blocks n w) = svc w"
  by (simp_all add: free_blocks_def)

lemma wait_round_keeps:
  "client_view (snd (wait_round e n s w)) = client_view w"
  "qmi_live (snd (wait_round e n s w)) = qmi_live w"
  "blocks (snd (wait_round e n s w)) = blocks w"
  by (simp_all add: wait_round_def ask_svc split_beta Let_def)

lemma wait_service_keeps [ds_frame]:
  "client_view (snd (wait_service e t n s w)) = client_view w \<and>
   qmi_live (snd (wait_service e t n s w)) = qmi_live w \<and>
   blocks (snd (wait_service e t n s w)) = blocks w"
proof (induction e t n s w rule: wait_service.induct)
  case (1 e t n s w)
  obtain ok n' s' w' where r: "wait_round e n s w = ((ok, n', s'), w')"
    by (metis prod.collapse)
  note keep = wait_round_keeps [of e n s w, unfolded r snd_conv]
  show ?case
  proof (cases "t + DS_CLIENT_SERVICE_TIMEOUT < DS_CLIENT_SERVICE_TIMEOUT_TOTAL \<and> s' \<and> \<not> ok")
    case True
    with 1 [of "((ok, n', s'), w')" "(ok, n', s')" w' ok "(n', s')" n' s' "t + DS_CLIENT_SERVICE_TIMEOUT"] r
    show ?thesis by (subst (1 2 3) wait_service.simps) (simp add: r keep)
  next
    case False
    then show ?thesis by (subst (1 2 3) wait_service.simps) (auto simp: r keep Let_def)
  qed
qed

lemma drop_notifier_keeps [ds_frame]:
  "client_view (drop_notifier e n w) = client_view w"
  "blocks (drop_notifier e n w) = blocks w"
  "qmi_live (drop_notifier e n w) = (case n of None \<Rightarrow> qmi_live w | Some h \<Rightarrow> remove1 h (qmi_live w))"
  by (simp_all add: drop_notifier_def ask_svc split: option.split)

lemma find_service_keeps:
  "client_view (snd (find_service e w)) = client_view w"
  "blocks (snd (find_service e w)) = blocks w"
  "qmi_live (snd (find_service e w)) =
     (case fst (find_service e w) of Inr (Some n, _) \<Rightarrow> n # qmi_live w | _ \<Rightarrow> qmi_live w)"
  by (simp_all add: find_service_def ask_svc split_beta Let_def wait_service_keeps)

lemma connect_service_keeps:
  "client_view (snd (connect_service e n num w)) = client_view w"
  "blocks (snd (connect_service e n num w)) = blocks w"
  "qmi_live (snd (connect_service e n num w)) =
     (case fst (connect_service e n num w) of
        Inl st \<Rightarrow> qmi_live w
      | Inr h \<Rightarrow> (case n of None \<Rightarrow> h # qmi_live w | Some i \<Rightarrow> remove1 i (h # qmi_live w)))"
  by (simp_all add: connect_service_def ask_svc split_beta Let_def calloc_block_def drop_notifier_keeps
      split: option.split)

lemma ctrl_point_init_view [ds_frame]:
  "client_view (snd (ds_client_qmi_ctrl_point_init e w)) = client_view w"
  "blocks (snd (ds_client_qmi_ctrl_point_init e w)) = blocks w"
  by (simp_all add: ds_client_qmi_ctrl_point_init_def split_beta Let_def ask_keeps view_ask
      find_service_keeps connect_service_keeps split: sum.split prod.split
      | (metis ask_keeps view_ask find_service_keeps connect_service_keeps snd_conv))+

lemma find_service_failure: "fst (find_service e w) = Inl st \<Longrightarrow> st = E_DS_CLIENT_FAILURE_INTERNAL"
  by (auto simp: find_service_def split_beta Let_def split: if_splits)

lemma connect_service_failure: "fst (connect_service e n num w) = Inl st \<Longrightarrow> st = E_DS_CLIENT_FAILURE_INTERNAL"
  by (auto simp: connect_service_def split_beta Let_def split: if_splits)

text \<open>
  Connecting leaves the new client and nothing else among the QMI handles, because the notifier
  is released then; a failure may leave the notifier behind.
\<close>

lemma ctrl_point_init_live:
  assumes "ds_client_qmi_ctrl_point_init e w = (r, w')"
  shows "case r of
           Inr h \<Rightarrow> qmi_live w' = h # qmi_live w
         | Inl st \<Rightarrow> st \<noteq> E_DS_CLIENT_SUCCESS \<and> (qmi_live w' = qmi_live w \<or> (\<exists>n. qmi_live w' = n # qmi_live w))"
proof (cases "fst (ask (service_object e) w)")
  case False
  with assms show ?thesis
    by (auto simp: ds_client_qmi_ctrl_point_init_def split_beta Let_def ask_keeps)
next
  case True
  define w0 where "w0 = snd (ask (service_object e) w)"
  obtain f w1 where f: "find_service e w0 = (f, w1)" by force
  have live0: "qmi_live w0 = qmi_live w" by (simp add: w0_def ask_keeps)
  note live1 = find_service_keeps(3) [of e w0, unfolded f fst_conv snd_conv live0]
  show ?thesis
  proof (cases f)
    case (Inl st)
    with assms True f live1 find_service_failure [of e w0 st] show ?thesis
      by (auto simp: ds_client_qmi_ctrl_point_init_def split_beta Let_def w0_def [symmetric])
  next
    case (Inr q)
    obtain n ok num s where q: "q = (n, ok, num, s)" by (metis prod.collapse)
    show ?thesis
    proof (cases "num = 0 \<or> \<not> ok")
      case True
      with assms \<open>fst (ask (service_object e) w)\<close> f Inr q live1 show ?thesis
        by (auto simp: ds_client_qmi_ctrl_point_init_def split_beta Let_def w0_def [symmetric] split: option.splits)
    next
      case False
      with assms True f Inr q have "connect_service e n num w1 = (r, w')"
        by (auto simp: ds_client_qmi_ctrl_point_init_def split_beta Let_def w0_def [symmetric])
      with connect_service_keeps(3) [of e n num w1] connect_service_failure [of e n num w1] live1 Inr q
      show ?thesis by (auto split: sum.splits option.splits if_splits)
    qed
  qed
qed

subsection \<open>Requests\<close>

lemma send_qmi_sync_req_keeps [ds_frame]:
  "client_view (snd (ds_client_send_qmi_sync_req e h i m w)) = client_view w"
  "blocks (snd (ds_client_send_qmi_sync_req e h i m w)) = blocks w"
  "qmi_live (snd (ds_client_send_qmi_sync_req e h i m w)) = qmi_live w"
  by (cases m; cases i; simp add: ds_client_send_qmi_sync_req_def ask_svc split_beta Let_def)+

lemma get_profile_settings_keeps [ds_frame]:
  "client_view (snd (ds_client_get_profile_settings e h r p w)) = client_view w"
  "blocks (snd (ds_client_get_profile_settings e h r p w)) = blocks w"
  "qmi_live (snd (ds_client_get_profile_settings e h r p w)) = qmi_live w"
  by (simp_all add: ds_client_get_profile_settings_def split_beta Let_def ds_frame)

lemma get_profile_list_keeps [ds_frame]:
  "client_view (snd (ds_client_get_profile_list e h r t w)) = client_view w"
  "blocks (snd (ds_client_get_profile_list e h r t w)) = blocks w"
  "qmi_live (snd (ds_client_get_profile_list e h r t w)) = qmi_live w"
  by (simp_all add: ds_client_get_profile_list_def split_beta Let_def ds_frame)

lemma search_profiles_keeps [ds_frame]:
  "client_view (snd (search_profiles e h ps b w)) = client_view w \<and>
   blocks (snd (search_profiles e h ps b w)) = blocks w \<and>
   qmi_live (snd (search_profiles e h ps b w)) = qmi_live w"
  by (induction ps arbitrary: b w) (simp_all add: split_beta Let_def ds_frame)

lemma query_profiles_keeps [ds_frame]:
  "client_view (snd (query_profiles e h w)) = client_view w"
  "blocks (snd (query_profiles e h w)) = blocks w + snd (fst (query_profiles e h w))"
  "qmi_live (snd (query_profiles e h w)) = qmi_live w"
  by (simp_all add: query_profiles_def split_beta Let_def ds_frame)

lemma search_profiles_failure: "fst (search_profiles e h ps b w) = Inl st \<Longrightarrow> st \<noteq> E_DS_CLIENT_SUCCESS"
  by (induction ps arbitrary: b w) (auto simp: split_beta Let_def split: if_splits)

lemma query_profiles_failure: "fst (query_profiles e h w) = (Inl st, n) \<Longrightarrow> st \<noteq> E_DS_CLIENT_SUCCESS"
  by (auto simp: query_profiles_def split_beta Let_def dest: search_profiles_failure split: if_splits)

lemma release_client_keeps [ds_frame]:
  "client_view (snd (release_client e h w)) = client_view w"
  "blocks (snd (release_client e h w)) = blocks w"
  "qmi_live (snd (release_client e h w)) =
     (if fst (release_client e h w) = E_DS_CLIENT_SUCCESS then remove1 h (qmi_live w) else qmi_live w)"
  by (simp_all add: release_client_def ask_svc)

text \<open>A session that is handed out is new; it is registered exactly when a network handle was obtained.\<close>

definition fresh_session :: "nat \<Rightarrow> nat \<Rightarrow> nat option \<Rightarrow> 'k ds_world \<Rightarrow> 'k ds_world \<Rightarrow> bool" where
  "fresh_session cb cookie d w w' =
     (sessions w' = (sessions w)(next_session w \<mapsto> \<lparr>dsi_net_handle = d, event_cb = cb, caller_cookie = cookie\<rparr>) \<and>
      next_session w' = Suc (next_session w) \<and>
      dsi_reg w' = (case d of None \<Rightarrow> dsi_reg w | Some d \<Rightarrow> (d, next_session w) # dsi_reg w) \<and>
      delivered w' = delivered w \<and> bad_access w' = bad_access w)"

lemma start_session_cases:
  assumes "start_session e cb cookie st found w = ((st', out), w')"
  obtains "found = None" "st' = E_DS_CLIENT_FAILURE_GENERAL" "out = no_out" "w' = w"
  | i p where "found = Some (i, p)" "st' = E_DS_CLIENT_FAILURE_NOT_ENOUGH_MEMORY"
      "out = \<lparr>out_handle = Some None, out_profile = Some i, out_pdp = Some p\<rparr>"
      "client_view w' = client_view w" "blocks w' = blocks w" "qmi_live w' = qmi_live w"
  | i p d where "found = Some (i, p)" "st' = (case d of None \<Rightarrow> E_DS_CLIENT_RETRY_LATER | Some _ \<Rightarrow> st)"
      "out = \<lparr>out_handle = Some (Some (next_session w)), out_profile = Some i, out_pdp = Some p\<rparr>"
      "fresh_session cb cookie d w w'" "blocks w' = blocks w" "qmi_live w' = qmi_live w"
      "\<exists>k. fst (dsi_get_hndl e k) = d"
proof (cases found)
  case None
  with assms that(1) show ?thesis by (simp add: start_session_def)
next
  case (Some ip)
  obtain i p where ip: "ip = (i, p)" by force
  show ?thesis
  proof (cases "fst (mem e (svc w))")
    case False
    with assms Some ip show ?thesis
      by (intro that(2) [of i p]) (auto simp: start_session_def new_session_def ask_svc)
  next
    case True
    with assms Some ip show ?thesis
      by (intro that(3) [of i p "fst (dsi_get_hndl e (snd (mem e (svc w))))"])
        (auto simp: start_session_def new_session_def get_data_handle_def ask_svc fresh_session_def split: option.splits)
  qed
qed

lemma fresh_session_view:
  "client_view w1 = client_view w \<Longrightarrow> fresh_session cb cookie d w1 w' = fresh_session cb cookie d w w'"
  by (cases d) (simp_all add: fresh_session_def client_view_def)

lemma fresh_session_free [simp]: "fresh_session cb cookie d w (free_blocks n w') = fresh_session cb cookie d w w'"
  by (simp add: fresh_session_def free_blocks_def)

lemma view_next_session: "client_view w1 = client_view w \<Longrightarrow> next_session w1 = next_session w"
  by (simp add: client_view_def)

text \<open>The paths through the opening of a call.\<close>

lemma open_call_cases:
  assumes "ds_client_open_call e True (Some cb) cookie w = ((st, out), w')"
  obtains (no_client) "ds_client_qmi_ctrl_point_init e w = (Inl st, w')" "out = no_out"
  | (no_answer) h w1 n where "ds_client_qmi_ctrl_point_init e w = (Inr h, w1)" "fst (query_profiles e h w1) = (Inl st, n)"
      "out = no_out" "w' = free_blocks n (snd (query_profiles e h w1))"
  | (answer) h w1 found n st1 w3 w4 where "ds_client_qmi_ctrl_point_init e w = (Inr h, w1)"
      "fst (query_profiles e h w1) = (Inr found, n)"
      "release_client e h (snd (query_profiles e h w1)) = (st1, w3)"
      "start_session e cb cookie st1 found w3 = ((st, out), w4)" "w' = free_blocks n w4"
proof (cases "ds_client_qmi_ctrl_point_init e w")
  case (Pair r w1)
  show ?thesis
  proof (cases r)
    case (Inl st1)
    with assms Pair no_client show ?thesis by (auto simp: ds_client_open_call_def)
  next
    case (Inr h)
    obtain q n w2 where q: "query_profiles e h w1 = ((q, n), w2)" by (metis prod.collapse)
    show ?thesis
    proof (cases q)
      case (Inl st2)
      with assms Pair Inr q no_answer [of h w1 n] show ?thesis by (auto simp: ds_client_open_call_def)
    next
      case (Inr found)
      with assms Pair \<open>r = Inr h\<close> q answer [of h w1 found n] show ?thesis
        by (auto simp: ds_client_open_call_def split_beta Let_def) (metis prod.collapse)
    qed
  qed
qed

lemma open_call_outcome:
  assumes "ds_client_open_call e True (Some cb) cookie w = ((st, out), w')"
  obtains (kept) "blocks w' = blocks w" "client_view w' = client_view w" "st \<noteq> E_DS_CLIENT_SUCCESS"
      "out_handle out = None \<or> out_handle out = Some None"
  | (handed) d i p st1 where "blocks w' = blocks w" "fresh_session cb cookie d w w'"
      "out = \<lparr>out_handle = Some (Some (next_session w)), out_profile = Some i, out_pdp = Some p\<rparr>"
      "st = (case d of None \<Rightarrow> E_DS_CLIENT_RETRY_LATER | Some _ \<Rightarrow> st1)"
      "st1 = E_DS_CLIENT_FAILURE_GENERAL \<or> st1 = E_DS_CLIENT_SUCCESS \<and> qmi_live w' = qmi_live w"
      "\<exists>k. fst (dsi_get_hndl e k) = d"
  using assms
proof (cases rule: open_call_cases)
  case no_client
  with kept ctrl_point_init_view [of e w] ctrl_point_init_live [of e w "Inl st" w'] show ?thesis
    by (simp add: no_out_def)
next
  case (no_answer h w1 n)
  with kept ctrl_point_init_view [of e w] query_profiles_keeps [of e h w1] query_profiles_failure [of e h w1 st n]
  show ?thesis by (simp add: no_out_def)
next
  case (answer h w1 found n st1 w3 w4)
  have keep: "client_view w3 = client_view w" "blocks w3 = blocks w + n"
    using answer ctrl_point_init_view [of e w] query_profiles_keeps [of e h w1]
      release_client_keeps [of e h "snd (query_profiles e h w1)"] by simp_all
  have live: "qmi_live w3 = (if st1 = E_DS_CLIENT_SUCCESS then qmi_live w else h # qmi_live w)"
    using answer ctrl_point_init_live [of e w "Inr h" w1] query_profiles_keeps [of e h w1]
      release_client_keeps [of e h "snd (query_profiles e h w1)"] by simp
  have st1: "st1 = E_DS_CLIENT_SUCCESS \<or> st1 = E_DS_CLIENT_FAILURE_GENERAL"
    using answer(3) by (auto simp: release_client_def split_beta Let_def split: if_splits)
  from answer(4) show ?thesis
  proof (cases rule: start_session_cases)
    case (3 i p d)
    with handed [of d i p st1] keep live st1 answer(5) show ?thesis
      by (auto simp: fresh_session_view [OF keep(1)] view_next_session [OF keep(1)])
  qed (use kept keep answer(5) in \<open>simp_all add: no_out_def\<close>)
qed

subsection \<open>A service to evaluate on\<close>

text \<open>
  A modem with two profiles, of which the second supports emergency calls over IPv6; its state
  counts the waits, and the parameters set on a call.
\<close>

definition demo_profiles :: "wds_profile_identifier list" where
  "demo_profiles = [\<lparr>profile_type = WDS_PROFILE_TYPE_3GPP_V01, profile_index = 1\<rparr>,
                    \<lparr>profile_type = WDS_PROFILE_TYPE_3GPP_V01, profile_index = 3\<rparr>]"

definition demo_settings :: "wds_profile_identifier \<Rightarrow> wds_settings_resp" where
  "demo_settings p = zero_settings\<lparr>support_emergency_calls_valid := True, support_emergency_calls := profile_index p = 3,
     pdp_type_valid := True, pdp_type := WDS_PDP_TYPE_PDP_IPV6_V01\<rparr>"

definition demo_env :: "nat wds_env" where
  "demo_env = \<lparr>mem = Pair True, service_object = Pair True, service_count = (\<lambda>n. Pair (True, 1)),
     service_fill = (\<lambda>n. Pair (True, 5)), notifier_init = Pair (True, 7), signal_clear = id,
     signal_wait = (\<lambda>t k. (True, k + 1)), qmi_init = (\<lambda>i. Pair (True, 8)), qmi_release = (\<lambda>h. Pair True),
     send_list = (\<lambda>h q r t. Pair (True, \<lparr>list_ok = True, profile_list = demo_profiles\<rparr>)),
     send_settings = (\<lambda>h p r t. Pair (True, demo_settings p)), dsi_start = Pair True,
     dsi_get_hndl = Pair (Some 9), dsi_rel_hndl = (\<lambda>h. id), dsi_set_param = (\<lambda>h p k. k + 100),
     dsi_start_call = (\<lambda>h. Pair True), dsi_stop_call = (\<lambda>h. Pair True)\<rparr>"

definition demo_world :: "nat ds_world" where
  "demo_world = \<lparr>svc = 0, sessions = Map.empty, next_session = 0, blocks = 0, qmi_live = [], dsi_reg = [],
     delivered = [], bad_access = False\<rparr>"

lemmas demo_defs =
  ds_client_open_call_def ds_client_qmi_ctrl_point_init_def find_service_def connect_service_def drop_notifier_def
  calloc_block_def free_blocks_def query_profiles_def ds_client_get_profile_list_def ds_client_send_qmi_sync_req_def
  ds_client_convert_qmi_response_def ds_client_get_profile_settings_def convert_pdp_type_def supports_emergency_def
  release_client_def start_session_def new_session_def get_data_handle_def ask_svc zero_list_def zero_settings_def
  demo_env_def demo_world_def demo_profiles_def demo_settings_def

lemma demo_connect: "fst (ds_client_qmi_ctrl_point_init demo_env demo_world) = Inr 8"
  by (simp add: demo_defs)

lemma demo_open: "ds_client_open_call demo_env True (Some 4) 2 demo_world =
    ((E_DS_CLIENT_SUCCESS, \<lparr>out_handle = Some (Some 0), out_profile = Some 3, out_pdp = Some DSI_IP_VERSION_6\<rparr>),
     demo_world\<lparr>sessions := [0 \<mapsto> \<lparr>dsi_net_handle = Some 9, event_cb = 4, caller_cookie = 2\<rparr>],
       next_session := Suc 0, dsi_reg := [(9, 0)]\<rparr>)"
  by (simp add: demo_defs)

subsection \<open>What an opening leaves behind\<close>



lemma query_failure_leaks_client:
  assumes "ds_client_qmi_ctrl_point_init e w = (Inr h, w1)" "fst (query_profiles e h w1) = (Inl st, n)"
  shows "ds_client_open_call e True (Some cb) cookie w = ((st, no_out), free_blocks n (snd (query_profiles e h w1)))"
    and "qmi_live (snd (ds_client_open_call e True (Some cb) cookie w)) = h # qmi_live w"
  using assms ctrl_point_init_live [of e w "Inr h" w1] query_profiles_keeps(3) [of e h w1]
  by (auto simp: ds_client_open_call_def split: prod.splits)

subsection \<open>An absent service\<close>

definition service_absent :: "'k wds_env \<Rightarrow> bool" where
  "service_absent e = ((\<forall>n k. \<not> fst (fst (service_count e n k))) \<and> (\<forall>t k. fst (signal_wait e t k)))"

text \<open>The effect of a round that finds nothing on the number of services and the state of the services.\<close>

definition idle_round :: "'k wds_env \<Rightarrow> nat \<times> 'k \<Rightarrow> nat \<times> 'k" where
  "idle_round e = (\<lambda>(n, k). let ((ok, n), k) = service_count e n (signal_clear e k)
                           in (n, snd (signal_wait e DS_CLIENT_SERVICE_TIMEOUT k)))"

lemma wait_round_absent:
  "service_absent e \<Longrightarrow> wait_round e n s w =
     ((False, fst (idle_round e (n, svc w)), True), w\<lparr>svc := snd (idle_round e (n, svc w))\<rparr>)"
  by (simp add: service_absent_def wait_round_def idle_round_def ask_svc split_beta Let_def)

lemma wait_service_absent:
  assumes "service_absent e" and "j < 10"
  shows "wait_service e (4000 * j) n s w =
    ((False, fst ((idle_round e ^^ (10 - j)) (n, svc w)), True), w\<lparr>svc := snd ((idle_round e ^^ (10 - j)) (n, svc w))\<rparr>)"
  using assms(2)
proof (induction "9 - j" arbitrary: j n s w)
  case 0
  then have "j = 9" by simp
  then show ?case
    by (subst wait_service.simps) (simp add: wait_round_absent [OF assms(1)]
        DS_CLIENT_SERVICE_TIMEOUT_def DS_CLIENT_SERVICE_TIMEOUT_TOTAL_def)
next
  case (Suc i)
  then have "j < 9" by simp
  have "wait_service e (4000 * j) n s w =
      wait_service e (4000 * Suc j) (fst (idle_round e (n, svc w))) True (w\<lparr>svc := snd (idle_round e (n, svc w))\<rparr>)"
    using \<open>j < 9\<close> by (subst wait_service.simps) (simp add: wait_round_absent [OF assms(1)] add.commute
        DS_CLIENT_SERVICE_TIMEOUT_def DS_CLIENT_SERVICE_TIMEOUT_TOTAL_def)
  moreover have "10 - j = Suc (10 - Suc j)" using Suc(2,3) by simp
  ultimately show ?case using Suc(1) [of "Suc j"] Suc(2,3) by (simp add: funpow_swap1)
qed

text \<open>
  When the data service never appears, connecting ends with a timeout after exactly ten
  rounds of four seconds, and the handle of the notifier stays allocated.
\<close>

theorem absent_service_times_out:
  assumes "service_absent e" "\<forall>k. fst (service_object e k)" "\<forall>k. fst (notifier_init e k) = (True, n)"
  shows "\<exists>k0 num. fst (ds_client_qmi_ctrl_point_init e w) = Inl E_DS_CLIENT_FAILURE_TIMEOUT \<and>
     svc (snd (ds_client_qmi_ctrl_point_init e w)) = snd ((idle_round e ^^ 10) (num, k0)) \<and>
     qmi_live (snd (ds_client_qmi_ctrl_point_init e w)) = n # qmi_live w"
proof -
  define k1 where "k1 = snd (service_object e (svc w))"
  define num where "num = snd (fst (service_count e 0 k1))"
  define k0 where "k0 = snd (notifier_init e (snd (service_count e 0 k1)))"
  have "find_service e (w\<lparr>svc := k1\<rparr>) =
      (let r = (idle_round e ^^ 10) (num, k0)
       in (Inr (Some n, False, fst r, True), w\<lparr>qmi_live := n # qmi_live w, svc := snd r\<rparr>))"
    using assms wait_service_absent [OF assms(1), of 0 num False "w\<lparr>svc := k0, qmi_live := n # qmi_live w\<rparr>"]
    by (simp add: find_service_def ask_svc split_beta Let_def service_absent_def num_def k0_def)
  then show ?thesis
    using assms(2)
    by (intro exI [of _ k0] exI [of _ num])
      (simp add: ds_client_qmi_ctrl_point_init_def ask_svc Let_def k1_def [symmetric])
qed

definition demo_absent :: "nat wds_env" where
  "demo_absent = demo_env\<lparr>service_count := (\<lambda>n. Pair (False, n))\<rparr>"

theorem absent_service_times_out_witness:
  "fst (ds_client_qmi_ctrl_point_init demo_absent demo_world) = Inl E_DS_CLIENT_FAILURE_TIMEOUT \<and>
   svc (snd (ds_client_qmi_ctrl_point_init demo_absent demo_world)) \<ge> 10"
proof -
  have "service_absent demo_absent" "\<forall>k. fst (service_object demo_absent k)" "\<forall>k. fst (notifier_init demo_absent k) = (True, 7)"
    by (simp_all add: service_absent_def demo_absent_def demo_env_def)
  note times_out = absent_service_times_out [OF this, of demo_world]
  have "(idle_round demo_absent ^^ i) (n, k) = (n, k + i)" for i n k
    by (induction i) (simp_all add: idle_round_def demo_absent_def demo_env_def)
  with times_out show ?thesis by auto
qed

subsection \<open>The profile of an emergency call\<close>

definition modem_ready :: "'k wds_env \<Rightarrow> nat \<Rightarrow> wds_profile_identifier list \<Rightarrow> (wds_profile_identifier \<Rightarrow> wds_settings_resp) \<Rightarrow> bool" where
  "modem_ready e h ps m =
     ((\<forall>k. fst (mem e k)) \<and> (\<forall>k. fst (qmi_release e h k)) \<and>
      (\<forall>r k. fst (send_list e h \<lparr>profile_type_valid = True, req_profile_type = WDS_PROFILE_TYPE_3GPP_V01\<rparr> r
                   DS_CLIENT_SYNC_MSG_TIMEOUT k) = (True, \<lparr>list_ok = True, profile_list = ps\<rparr>)) \<and>
      (\<forall>p k. fst (send_settings e h p zero_settings DS_CLIENT_SYNC_MSG_TIMEOUT k) = (True, m p)) \<and>
      (\<forall>p. settings_ok (m p)))"

definition emergency_profile ::
  "wds_profile_identifier list \<Rightarrow> (wds_profile_identifier \<Rightarrow> wds_settings_resp) \<Rightarrow> (int \<times> dsi_ip_version) option" where
  "emergency_profile ps m =
     map_option (\<lambda>p. (profile_index p, convert_pdp_type (m p))) (List.find (\<lambda>p. supports_emergency (m p)) ps)"

lemma get_profile_settings_ready:
  "modem_ready e h ps m \<Longrightarrow> fst (ds_client_get_profile_settings e h zero_settings p w) = (E_DS_CLIENT_SUCCESS, m p)"
  by (simp add: modem_ready_def ds_client_get_profile_settings_def ds_client_send_qmi_sync_req_def
      ds_client_convert_qmi_response_def ask_svc split_beta Let_def)

lemma search_profiles_ready:
  "modem_ready e h ps m \<Longrightarrow> fst (search_profiles e h qs zero_settings w) = Inr (emergency_profile qs m)"
  by (induction qs arbitrary: w) (simp_all add: emergency_profile_def split_beta Let_def get_profile_settings_ready)

lemma query_profiles_ready:
  assumes "modem_ready e h ps m"
  shows "fst (query_profiles e h w) = (Inr (emergency_profile ps m), 2)"
proof -
  have "fst (calloc_block e w)" for w using assms by (simp add: modem_ready_def calloc_block_def ask_svc)
  moreover have "fst (ds_client_get_profile_list e h r WDS_PROFILE_TYPE_3GPP_V01 w) =
      (E_DS_CLIENT_SUCCESS, \<lparr>list_ok = True, profile_list = ps\<rparr>)" for r w
    using assms \<open>\<And>w. fst (calloc_block e w)\<close>
    by (simp add: modem_ready_def ds_client_get_profile_list_def ds_client_send_qmi_sync_req_def
        ds_client_convert_qmi_response_def ask_svc split_beta Let_def)
  ultimately show ?thesis
    by (simp add: query_profiles_def split_beta Let_def search_profiles_ready [OF assms])
qed

lemma release_client_ready: "modem_ready e h ps m \<Longrightarrow> fst (release_client e h w) = E_DS_CLIENT_SUCCESS"
  by (simp add: modem_ready_def release_client_def ask_svc)

lemma open_call_ready:
  assumes "modem_ready e h ps m" and "ds_client_qmi_ctrl_point_init e w = (Inr h, w1)"
    and "ds_client_open_call e True (Some cb) cookie w = ((st, out), w')"
  shows "case emergency_profile ps m of
      None \<Rightarrow> st = E_DS_CLIENT_FAILURE_GENERAL \<and> out = no_out \<and> client_view w' = client_view w
    | Some (i, p) \<Rightarrow> (\<exists>d. st = (case d of None \<Rightarrow> E_DS_CLIENT_RETRY_LATER | Some _ \<Rightarrow> E_DS_CLIENT_SUCCESS) \<and>
        fresh_session cb cookie d w w' \<and> (\<exists>k. fst (dsi_get_hndl e k) = d)) \<and>
        out = \<lparr>out_handle = Some (Some (next_session w)), out_profile = Some i, out_pdp = Some p\<rparr>"
  using assms(3)
proof (cases rule: open_call_cases)
  case (answer h' w1' found n st1 w3 w4)
  have *: "h' = h" "w1' = w1" "found = emergency_profile ps m" "n = 2"
    using assms(2) answer query_profiles_ready [OF assms(1), of w1] by auto
  have st1: "st1 = E_DS_CLIENT_SUCCESS"
    using answer(3) * release_client_ready [OF assms(1)] by (metis fst_conv)
  have keep: "client_view w3 = client_view w"
    using answer * ctrl_point_init_view [of e w] query_profiles_keeps [of e h w1]
      release_client_keeps [of e h "snd (query_profiles e h w1)"] by simp
  have mem: "fst (mem e k)" for k using assms(1) by (simp add: modem_ready_def)
  show ?thesis
  proof (cases "emergency_profile ps m")
    case None
    with answer * keep show ?thesis by (simp add: start_session_def)
  next
    case (Some ip)
    obtain i p where ip: "ip = (i, p)" by force
    have "st \<noteq> E_DS_CLIENT_FAILURE_NOT_ENOUGH_MEMORY"
      using answer(4) * Some ip mem st1
      by (auto simp: start_session_def new_session_def get_data_handle_def ask_svc split: option.splits)
    from answer(4) show ?thesis
      by (cases rule: start_session_cases)
        (use \<open>st \<noteq> _\<close> Some ip * st1 answer(5) in \<open>auto simp: fresh_session_view [OF keep] view_next_session [OF keep]\<close>)
  qed
qed (use assms query_profiles_ready [OF assms(1), of w1] in auto)
end
