(* ===== verification/Ds_Call.thy ===== *)
theory Ds_Call
  imports Ds_Correct
begin

text \<open>
  The emergency data call of the location adapter, \<^verbatim>\<open>LocApiV02.cpp\<close>: the functions that load
  the data service client (\<^verbatim>\<open>initDataServiceClient\<close>), open and start, stop and close the call,
  and the callback that reports its state. The adapter reaches the client only through its
  function table, whose contract is the locale \<open>ds_interface\<close>.
\<close>

subsection \<open>The adapter\<close>

datatype loc_api_adapter_err =
    LOC_API_ADAPTER_ERR_SUCCESS
  | LOC_API_ADAPTER_ERR_GENERAL_FAILURE
  | LOC_API_ADAPTER_ERR_UNSUPPORTED
  | LOC_API_ADAPTER_ERR_INVALID_HANDLE
  | LOC_API_ADAPTER_ERR_INVALID_PARAMETER
  | LOC_API_ADAPTER_ERR_ENGINE_BUSY
  | LOC_API_ADAPTER_ERR_PHONE_OFFLINE
  | LOC_API_ADAPTER_ERR_TIMEOUT
  | LOC_API_ADAPTER_ERR_SERVICE_NOT_PRESENT
  | LOC_API_ADAPTER_ERR_INTERNAL
  | LOC_API_ADAPTER_ERR_FAILURE

datatype call_report = DataCallOpened | DataCallClosed

record 'w data_call =
  dsLibraryHandle :: bool
  dsClientIface :: "'w ds_client_iface option"
  dsClientHandle :: "nat option"
  reports :: "call_report list"

text \<open>The constructor leaves every pointer NULL.\<close>

definition data_call_new :: "'w data_call" where
  "data_call_new = \<lparr>dsLibraryHandle = False, dsClientIface = None, dsClientHandle = None, reports = []\<rparr>"

text \<open>The address of the callback and the cookie, the adapter itself.\<close>

definition ds_client_global_event_cb :: nat where "ds_client_global_event_cb = 4"
definition this_adapter :: nat where "this_adapter = 2"

definition ds_client_event_cb :: "ds_status \<Rightarrow> 'w data_call \<Rightarrow> 'w data_call" where
  "ds_client_event_cb result s =
     (if result = E_DS_CLIENT_DATA_CALL_CONNECTED then s\<lparr>reports := reports s @ [DataCallOpened]\<rparr>
      else if result = E_DS_CLIENT_DATA_CALL_DISCONNECTED then s\<lparr>reports := reports s @ [DataCallClosed]\<rparr>
      else s)"

text \<open>
  \<open>dlopen_ok\<close> is whether the library loads, \<open>symbol\<close> the value of the accessor it exports
  (\<open>None\<close> when the symbol is missing).
\<close>

definition load_ds_library :: "bool \<Rightarrow> 'w ds_client_iface option \<Rightarrow> 'w data_call \<Rightarrow> 'w data_call" where
  "load_ds_library dlopen_ok symbol s =
     (if dsLibraryHandle s then s
      else if \<not> dlopen_ok then s
      else case symbol of
             None \<Rightarrow> s\<lparr>dsLibraryHandle := True\<rparr>
           | Some i \<Rightarrow> s\<lparr>dsLibraryHandle := True, dsClientIface := Some i\<rparr>)"

definition initDataServiceClient ::
  "bool \<Rightarrow> 'w ds_client_iface option \<Rightarrow> 'w data_call \<Rightarrow> 'w \<Rightarrow> int \<times> 'w data_call \<times> 'w" where
  "initDataServiceClient dlopen_ok symbol s w =
     (let ret = (if \<not> dsLibraryHandle s \<and> \<not> dlopen_ok then 1 else 0);
          s = load_ds_library dlopen_ok symbol s
      in case dsClientIface s of
           None \<Rightarrow> (2, s, w)
         | Some i \<Rightarrow>
             (case pfn_init i of
                None \<Rightarrow> (2, s, w)
              | Some f \<Rightarrow> let (dsret, w) = f w in (if dsret \<noteq> E_DS_CLIENT_SUCCESS then 3 else ret, s, w)))"

definition openAndStartDataCall :: "'w data_call \<Rightarrow> 'w \<Rightarrow> loc_api_adapter_err \<times> 'w data_call \<times> 'w" where
  "openAndStartDataCall s w =
     (case dsClientIface s of
        None \<Rightarrow> (LOC_API_ADAPTER_ERR_UNSUPPORTED, s, w)
      | Some i \<Rightarrow>
          (case (pfn_open_call i, pfn_start_call i) of
             (Some open_call, Some start_call) \<Rightarrow>
               let ((result, out), w) = open_call True (Some ds_client_global_event_cb) this_adapter w;
                   s = (case out_handle out of None \<Rightarrow> s | Some h \<Rightarrow> s\<lparr>dsClientHandle := h\<rparr>);
                   profile_index = (case out_profile out of None \<Rightarrow> -1 | Some n \<Rightarrow> n);
                   pdp_type = (case out_pdp out of None \<Rightarrow> dsi_other_ip (-1) | Some p \<Rightarrow> p)
               in if result = E_DS_CLIENT_SUCCESS then
                    let (result, w) = start_call (dsClientHandle s) profile_index pdp_type w
                    in (if result = E_DS_CLIENT_SUCCESS then LOC_API_ADAPTER_ERR_SUCCESS
                        else LOC_API_ADAPTER_ERR_UNSUPPORTED, s, w)
                  else if result = E_DS_CLIENT_RETRY_LATER then (LOC_API_ADAPTER_ERR_ENGINE_BUSY, s, w)
                  else (LOC_API_ADAPTER_ERR_UNSUPPORTED, s, w)
           | _ \<Rightarrow> (LOC_API_ADAPTER_ERR_UNSUPPORTED, s, w)))"

definition stopDataCall :: "'w data_call \<Rightarrow> 'w \<Rightarrow> 'w data_call \<times> 'w" where
  "stopDataCall s w =
     (case dsClientIface s of
        None \<Rightarrow> (s, w)
      | Some i \<Rightarrow>
          (case pfn_stop_call i of
             None \<Rightarrow> (s, w)
           | Some f \<Rightarrow> (s, snd (f (dsClientHandle s) w))))"

definition closeDataCall :: "'w data_call \<Rightarrow> 'w \<Rightarrow> 'w data_call \<times> 'w" where
  "closeDataCall s w =
     (case dsClientIface s of
        None \<Rightarrow> (s, w)
      | Some i \<Rightarrow>
          (case pfn_close_call i of
             None \<Rightarrow> (s, w)
           | Some f \<Rightarrow>
               let (h, w) = f (Some (dsClientHandle s)) w
               in (case h of None \<Rightarrow> s | Some h \<Rightarrow> s\<lparr>dsClientHandle := h\<rparr>, w)))"

text \<open>An event of the network: the callback of the client, and what it delivers to the adapter.\<close>

definition network_event :: "nat \<Rightarrow> dsi_net_evt \<Rightarrow> 'k ds_world data_call \<Rightarrow> 'k ds_world \<Rightarrow> 'k ds_world data_call \<times> 'k ds_world" where
  "network_event user_data evt s w =
     (let w' = net_ev_cb user_data evt w
      in (fold (\<lambda>(cb, st, cookie). ds_client_event_cb st) (drop (length (delivered w)) (delivered w')) s, w'))"

subsection \<open>What the adapter relies on\<close>

locale ds_interface =
  fixes ifc :: "'w ds_client_iface"
    and good :: "'w \<Rightarrow> bool"
    and live :: "'w \<Rightarrow> nat set"
  assumes init_good: "\<lbrakk>pfn_init ifc = Some f; good w\<rbrakk> \<Longrightarrow> good (snd (f w)) \<and> live (snd (f w)) = live w"
    and open_good: "\<lbrakk>pfn_open_call ifc = Some g; good w; g True (Some cb) c w = ((st, out), w')\<rbrakk>
      \<Longrightarrow> good w' \<and> live w \<subseteq> live w' \<and> (\<forall>a. out_handle out = Some (Some a) \<longrightarrow> a \<in> live w')"
    and start_good: "\<lbrakk>pfn_start_call ifc = Some h; good w; \<forall>a. d = Some a \<longrightarrow> a \<in> live w\<rbrakk>
      \<Longrightarrow> good (snd (h d i p w)) \<and> live (snd (h d i p w)) = live w"
    and stop_good: "\<lbrakk>pfn_stop_call ifc = Some j; good w; \<forall>a. d = Some a \<longrightarrow> a \<in> live w\<rbrakk>
      \<Longrightarrow> good (snd (j d w)) \<and> live (snd (j d w)) = live w"
    and close_good: "\<lbrakk>pfn_close_call ifc = Some q; good w; \<forall>a. d = Some a \<longrightarrow> a \<in> live w\<rbrakk>
      \<Longrightarrow> good (snd (q (Some d) w)) \<and> live (snd (q (Some d) w)) = live w - set_option d \<and>
          fst (q (Some d) w) = Some None"
begin

definition adapter_good :: "'w data_call \<Rightarrow> 'w \<Rightarrow> bool" where
  "adapter_good s w = (good w \<and> (\<forall>a. dsClientHandle s = Some a \<longrightarrow> a \<in> live w) \<and>
     (\<forall>i. dsClientIface s = Some i \<longrightarrow> i = ifc))"

lemma init_keeps:
  assumes "adapter_good s w" "initDataServiceClient ok acc s w = (r, s', w')" "acc = None \<or> acc = Some ifc"
  shows "adapter_good s' w'"
  using assms
  by (auto simp: adapter_good_def initDataServiceClient_def load_ds_library_def Let_def init_good split_beta
      split: option.splits if_splits)

lemma open_call_keeps:
  assumes good: "adapter_good s w" and run: "openAndStartDataCall s w = (r, s', w')"
  shows "adapter_good s' w'"
proof (cases "\<exists>g h. dsClientIface s = Some ifc \<and> pfn_open_call ifc = Some g \<and> pfn_start_call ifc = Some h")
  case False
  have "openAndStartDataCall s w = (LOC_API_ADAPTER_ERR_UNSUPPORTED, s, w)"
  proof (cases "dsClientIface s")
    case (Some i)
    with good False show ?thesis
      by (cases "pfn_open_call ifc"; cases "pfn_start_call ifc") (simp_all add: adapter_good_def openAndStartDataCall_def)
  qed (simp add: openAndStartDataCall_def)
  with assms show ?thesis by simp
next
  case True
  then obtain g h where i: "dsClientIface s = Some ifc" and g: "pfn_open_call ifc = Some g" and h: "pfn_start_call ifc = Some h"
    by auto
  obtain st out w1 where o: "g True (Some ds_client_global_event_cb) this_adapter w = ((st, out), w1)"
    by (metis prod.collapse)
  have o': "good w1 \<and> live w \<subseteq> live w1 \<and> (\<forall>a. out_handle out = Some (Some a) \<longrightarrow> a \<in> live w1)"
    using open_good [OF g _ o] good by (simp add: adapter_good_def)
  define s1 where "s1 = (case out_handle out of None \<Rightarrow> s | Some d \<Rightarrow> s\<lparr>dsClientHandle := d\<rparr>)"
  have s1: "adapter_good s1 w1"
    using o' good by (auto simp: adapter_good_def s1_def split: option.splits)
  have s': "s' = s1" "w' = w1 \<or> (\<exists>i p. w' = snd (h (dsClientHandle s1) i p w1))"
    using run i g h o by (auto simp: openAndStartDataCall_def s1_def [symmetric] Let_def split_beta split: if_splits)
  then show ?thesis
    using s1 start_good [OF h, of w1 "dsClientHandle s1"] by (auto simp: adapter_good_def)
qed

lemma stop_keeps:
  assumes "adapter_good s w" "stopDataCall s w = (s', w')"
  shows "adapter_good s' w'"
  using assms stop_good [of _ w "dsClientHandle s"]
  by (auto simp: adapter_good_def stopDataCall_def split: option.splits)

lemma close_call_keeps:
  assumes "adapter_good s w" "closeDataCall s w = (s', w')"
  shows "adapter_good s' w'"
proof (cases "dsClientIface s")
  case None
  with assms show ?thesis by (simp add: closeDataCall_def)
next
  case (Some i)
  with assms(1) have i: "i = ifc" by (simp add: adapter_good_def)
  show ?thesis
  proof (cases "pfn_close_call ifc")
    case None
    with assms Some i show ?thesis by (simp add: closeDataCall_def)
  next
    case q: (Some q)
    with assms Some i close_good [OF q, of w "dsClientHandle s"] show ?thesis
      by (auto simp: adapter_good_def closeDataCall_def split_beta Let_def)
  qed
qed

end

subsection \<open>The client keeps the contract\<close>

definition ds_good :: "'k ds_world \<Rightarrow> bool" where
  "ds_good w =
     (\<not> bad_access w \<and> (\<forall>a \<ge> next_session w. sessions w a = None) \<and>
      (\<forall>(d, a) \<in> set (dsi_reg w). \<exists>s. sessions w a = Some s \<and> dsi_net_handle s = Some d))"

definition ds_live :: "'k ds_world \<Rightarrow> nat set" where
  "ds_live w = dom (sessions w)"

lemma ds_good_view: "client_view w' = client_view w \<Longrightarrow> ds_good w' = ds_good w \<and> ds_live w' = ds_live w"
  by (simp add: client_view_def ds_good_def ds_live_def)

lemma ds_good_fresh:
  assumes "ds_good w" "fresh_session cb c d w w'"
  shows "ds_good w' \<and> ds_live w' = insert (next_session w) (ds_live w)"
proof -
  have other: "a \<noteq> next_session w" if "(x, a) \<in> set (dsi_reg w)" for x a
    using assms(1) that by (auto simp: ds_good_def)
  have "\<exists>s. sessions w' a = Some s \<and> dsi_net_handle s = Some x" if "(x, a) \<in> set (dsi_reg w')" for x a
  proof (cases "(x, a) \<in> set (dsi_reg w)")
    case True
    with assms other [OF True] show ?thesis by (auto simp: ds_good_def fresh_session_def)
  next
    case False
    with assms(2) that show ?thesis by (cases d) (auto simp: fresh_session_def)
  qed
  then have "\<forall>(x, a) \<in> set (dsi_reg w'). \<exists>s. sessions w' a = Some s \<and> dsi_net_handle s = Some x"
    by blast
  moreover have "\<not> bad_access w' \<and> (\<forall>a \<ge> next_session w'. sessions w' a = None)"
    using assms by (simp add: ds_good_def fresh_session_def)
  moreover have "ds_live w' = insert (next_session w) (ds_live w)"
    using assms(2) by (simp add: ds_live_def fresh_session_def)
  ultimately show ?thesis unfolding ds_good_def by blast
qed

lemma open_call_good:
  assumes "ds_good w" "ds_client_open_call e True (Some cb) c w = ((st, out), w')"
  shows "ds_good w' \<and> ds_live w \<subseteq> ds_live w' \<and> (\<forall>a. out_handle out = Some (Some a) \<longrightarrow> a \<in> ds_live w')"
  using assms(2)
proof (cases rule: open_call_outcome)
  case kept
  then show ?thesis using assms(1) ds_good_view [OF kept(2)] by fastforce
next
  case (handed d i p st1)
  then show ?thesis using ds_good_fresh [OF assms(1) handed(2)] by simp blast
qed

lemma close_call_good:
  assumes "ds_good w" "\<forall>a. d = Some a \<longrightarrow> a \<in> ds_live w"
  shows "ds_good (snd (ds_client_close_call e (Some d) w)) \<and>
    ds_live (snd (ds_client_close_call e (Some d) w)) = ds_live w - set_option d \<and>
    fst (ds_client_close_call e (Some d) w) = Some None"
proof (cases d)
  case None
  with assms show ?thesis by (simp add: ds_client_close_call_def)
next
  case (Some a)
  with assms(2) obtain s where s: "sessions w a = Some s" by (auto simp: ds_live_def)
  have reg: "b \<noteq> a \<and> (\<exists>t. sessions w b = Some t \<and> dsi_net_handle t = Some x)"
    if "(x, b) \<in> set (dsi_reg w)" "Some x \<noteq> dsi_net_handle s" for x b
    using assms(1) that s by (auto simp: ds_good_def)
  have "ds_client_close_call e (Some d) w = (Some None,
      w\<lparr>svc := dsi_rel_hndl e (dsi_net_handle s) (svc w),
        dsi_reg := filter (\<lambda>r. Some (fst r) \<noteq> dsi_net_handle s) (dsi_reg w),
        sessions := (sessions w)(a := None)\<rparr>)"
    using Some s by (simp add: ds_client_close_call_def)
  then show ?thesis
    using assms(1) Some reg by (auto simp: ds_good_def ds_live_def)
qed

lemma start_stop_view:
  assumes "\<forall>a. d = Some a \<longrightarrow> a \<in> ds_live w"
  shows "client_view (snd (ds_client_start_call e d i p w)) = client_view w"
    and "client_view (snd (ds_client_stop_call e d w)) = client_view w"
  using assms
  by (auto simp: ds_client_start_call_def ds_client_stop_call_def ds_live_def ask_svc Let_def split: option.splits)

lemma init_view: "client_view (snd (ds_client_init e w)) = client_view w"
  by (simp add: ds_client_init_def ask_svc)

interpretation dsc: ds_interface "ds_client_get_interface e" ds_good ds_live for e :: "'k wds_env"
proof (unfold_locales, goal_cases)
  case (1 f w)
  then show ?case using ds_good_view [OF init_view [of e w]] by (auto simp: ds_client_get_interface_def)
next
  case (2 g w cb c st out w')
  then show ?case using open_call_good [of w e cb c st out w'] by (auto simp: ds_client_get_interface_def)
next
  case (3 h w d i p)
  then show ?case using ds_good_view [OF start_stop_view(1) [of d w e i p]] by (auto simp: ds_client_get_interface_def)
next
  case (4 j w d)
  then show ?case using ds_good_view [OF start_stop_view(2) [of d w e]] by (auto simp: ds_client_get_interface_def)
next
  case (5 q w d)
  then show ?case using close_call_good [of w d e] by (auto simp: ds_client_get_interface_def)
qed

subsection \<open>Runs of the adapter\<close>

inductive call_step ::
  "'k wds_env \<Rightarrow> 'k ds_world data_call \<times> 'k ds_world \<Rightarrow> 'k ds_world data_call \<times> 'k ds_world \<Rightarrow> bool" for e where
  init: "\<lbrakk>initDataServiceClient ok acc s w = (r, s', w'); acc = None \<or> acc = Some (ds_client_get_interface e)\<rbrakk>
    \<Longrightarrow> call_step e (s, w) (s', w')"
| opened: "openAndStartDataCall s w = (r, s', w') \<Longrightarrow> call_step e (s, w) (s', w')"
| stop: "stopDataCall s w = (s', w') \<Longrightarrow> call_step e (s, w) (s', w')"
| close: "closeDataCall s w = (s', w') \<Longrightarrow> call_step e (s, w) (s', w')"
| event: "\<lbrakk>(d, u) \<in> set (dsi_reg w); network_event u evt s w = (s', w')\<rbrakk> \<Longrightarrow> call_step e (s, w) (s', w')"

fun report_of :: "nat \<times> ds_status \<times> nat \<Rightarrow> call_report" where
  "report_of (cb, st, cookie) = (if st = E_DS_CLIENT_DATA_CALL_CONNECTED then DataCallOpened else DataCallClosed)"

definition call_event :: "nat \<times> ds_status \<times> nat \<Rightarrow> bool" where
  "call_event x = (fst (snd x) = E_DS_CLIENT_DATA_CALL_CONNECTED \<or> fst (snd x) = E_DS_CLIENT_DATA_CALL_DISCONNECTED)"

text \<open>The reports are those of the delivered events, in their order.\<close>

definition reported :: "'w data_call \<Rightarrow> 'k ds_world \<Rightarrow> bool" where
  "reported s w = (reports s = map report_of (delivered w) \<and> list_all call_event (delivered w))"

lemma net_ev_cb_live:
  assumes "sessions w u = Some d"
  obtains "net_ev_cb u evt w = w"
  | "net_ev_cb u evt w = deliver E_DS_CLIENT_DATA_CALL_CONNECTED d w"
  | "net_ev_cb u evt w = deliver E_DS_CLIENT_DATA_CALL_DISCONNECTED d w"
  using assms by (cases evt) (auto simp: net_ev_cb_def)

lemma network_event_reported:
  assumes "reported s w" "sessions w u = Some d" "network_event u evt s w = (s', w')"
  shows "reported s' w' \<and> dsClientHandle s' = dsClientHandle s \<and> dsClientIface s' = dsClientIface s"
proof -
  have s': "s' = fold (\<lambda>(cb, st, cookie). ds_client_event_cb st) (drop (length (delivered w)) (delivered w')) s"
    and w': "w' = net_ev_cb u evt w"
    using assms(3) by (auto simp: network_event_def Let_def)
  show ?thesis
    by (rule net_ev_cb_live [OF assms(2), of evt])
      (use assms(1) in \<open>simp_all add: s' w' reported_def deliver_def ds_client_event_cb_def call_event_def\<close>)
qed

lemma network_event_good:
  assumes "ds_good w" "sessions w u = Some d"
  shows "ds_good (net_ev_cb u evt w) \<and> ds_live (net_ev_cb u evt w) = ds_live w"
  using net_ev_cb_live [OF assms(2), of evt] assms(1) by cases (auto simp: deliver_def ds_good_def ds_live_def)

lemma delivered_view: "client_view w' = client_view w \<Longrightarrow> delivered w' = delivered w"
  by (simp add: client_view_def)

lemma open_delivered: "delivered (snd (ds_client_open_call e True (Some cb) c w)) = delivered w"
proof (cases "ds_client_open_call e True (Some cb) c w")
  case (Pair so w')
  then obtain st out where "ds_client_open_call e True (Some cb) c w = ((st, out), w')" by (cases so) simp
  then show ?thesis by (cases rule: open_call_outcome) (auto simp: Pair client_view_def fresh_session_def)
qed

lemma client_delivered [simp]:
  "delivered (snd (ds_client_start_call e d i p w)) = delivered w"
  "delivered (snd (ds_client_stop_call e d w)) = delivered w"
  "delivered (snd (ds_client_close_call e x w)) = delivered w"
  "delivered (snd (ds_client_init e w)) = delivered w"
  by (auto simp: ds_client_start_call_def ds_client_stop_call_def ds_client_close_call_def ds_client_init_def
      ask_svc Let_def split: option.splits)

lemma interface_table [simp]:
  "pfn_init (ds_client_get_interface e) = Some (ds_client_init e)"
  "pfn_open_call (ds_client_get_interface e) = Some (ds_client_open_call e)"
  "pfn_start_call (ds_client_get_interface e) = Some (ds_client_start_call e)"
  "pfn_stop_call (ds_client_get_interface e) = Some (ds_client_stop_call e)"
  "pfn_close_call (ds_client_get_interface e) = Some (ds_client_close_call e)"
  by (simp_all add: ds_client_get_interface_def)

text \<open>Only events change what is delivered and reported.\<close>

lemma call_step_reported:
  assumes "call_step e (s, w) (s', w')" "dsc.adapter_good e s w" "reported s w"
  shows "reported s' w'"
proof -
  have ifc: "dsClientIface s = None \<or> dsClientIface s = Some (ds_client_get_interface e)"
    using assms(2) by (cases "dsClientIface s") (simp_all add: dsc.adapter_good_def)
  show ?thesis
    using assms(1)
  proof cases
    case (init ok acc r)
    with ifc assms(3) show ?thesis
      by (auto simp: initDataServiceClient_def load_ds_library_def reported_def split_beta Let_def split: option.splits if_splits)
  next
    case (opened r)
    with ifc assms(3) show ?thesis
      by (auto simp: openAndStartDataCall_def reported_def split_beta Let_def open_delivered split: option.splits if_splits)
  next
    case stop
    with ifc assms(3) show ?thesis by (auto simp: stopDataCall_def reported_def)
  next
    case close
    with ifc assms(3) show ?thesis
      by (auto simp: closeDataCall_def reported_def split_beta Let_def split: option.splits)
  next
    case (event d u evt)
    then obtain x where "sessions w u = Some x" using assms(2) by (auto simp: dsc.adapter_good_def ds_good_def)
    with event network_event_reported assms(3) show ?thesis by blast
  qed
qed

lemma call_step_good:
  assumes "call_step e (s, w) (s', w')" "dsc.adapter_good e s w" "reported s w"
  shows "dsc.adapter_good e s' w'"
  using assms(1)
proof cases
  case (event d u evt)
  then obtain x where x: "sessions w u = Some x" using assms(2) by (auto simp: dsc.adapter_good_def ds_good_def)
  have "w' = net_ev_cb u evt w" using event by (auto simp: network_event_def Let_def)
  with event network_event_reported [OF assms(3) x] network_event_good [of w u x evt] assms(2) x show ?thesis
    by (auto simp: dsc.adapter_good_def)
next
  case (init ok acc r)
  then show ?thesis using dsc.init_keeps [OF assms(2)] by blast
next
  case (opened r)
  then show ?thesis using dsc.open_call_keeps [OF assms(2)] by blast
next
  case stop
  then show ?thesis using dsc.stop_keeps [OF assms(2)] by blast
next
  case close
  then show ?thesis using dsc.close_call_keeps [OF assms(2)] by blast
qed

lemma call_steps_keep:
  assumes "(call_step e)\<^sup>*\<^sup>* c c'" "dsc.adapter_good e (fst c) (snd c) \<and> reported (fst c) (snd c)"
  shows "dsc.adapter_good e (fst c') (snd c') \<and> reported (fst c') (snd c')"
  using assms
  by (induction rule: rtranclp_induct) (metis call_step_good call_step_reported prod.collapse)+


text \<open>Loading the client, opening and starting a call, and the event that it is connected.\<close>

definition demo_loaded :: "nat ds_world data_call" where
  "demo_loaded = data_call_new\<lparr>dsLibraryHandle := True, dsClientIface := Some (ds_client_get_interface demo_env)\<rparr>"

definition demo_opened :: "nat ds_world data_call \<times> nat ds_world" where
  "demo_opened = snd (openAndStartDataCall demo_loaded demo_world)"

definition demo_connected :: "nat ds_world data_call \<times> nat ds_world" where
  "demo_connected = network_event 0 DSI_EVT_NET_IS_CONN (fst demo_opened) (snd demo_opened)"

lemma demo_params:
  "dsi_set_param demo_env h p k = k + 100" "dsi_start_call demo_env h k = (True, k)"
  by (simp_all add: demo_env_def)

lemma demo_opened_eval:
  "demo_opened = (demo_loaded\<lparr>dsClientHandle := Some 0\<rparr>,
     demo_world\<lparr>svc := 200, sessions := [0 \<mapsto> \<lparr>dsi_net_handle = Some 9, event_cb = 4, caller_cookie = 2\<rparr>],
       next_session := Suc 0, dsi_reg := [(9, 0)]\<rparr>)"
  by (simp add: demo_opened_def openAndStartDataCall_def demo_loaded_def ds_client_global_event_cb_def this_adapter_def
      demo_open ds_client_start_call_def ask_def demo_params) (simp add: demo_world_def)


subsection \<open>Making and closing an emergency call\<close>

lemma start_call_session:
  assumes "sessions w a = Some x"
  shows "ds_client_start_call e (Some a) i p w =
    (let (ok, k) = dsi_start_call e (dsi_net_handle x)
        (dsi_set_param e (dsi_net_handle x) (DSI_CALL_INFO_IP_VERSION p)
          (dsi_set_param e (dsi_net_handle x) (DSI_CALL_INFO_UMTS_PROFILE_IDX i) (svc w)))
     in (if ok then E_DS_CLIENT_SUCCESS else E_DS_CLIENT_FAILURE_GENERAL, w\<lparr>svc := k\<rparr>))"
  using assms by (simp add: ds_client_start_call_def ask_def split_beta Let_def)

text \<open>
  C13. With a connected data service that answers every query, opening and starting a call picks the
  first profile of the list that supports emergency calls: the adapter then holds a new session
  registered under the handle of the network layer, the index of that profile and the IP
  version of its PDP type are set on that handle, the call is started on it last, and the
  result is the one of that start. Without such a profile the adapter answers that the call is
  not supported and keeps its handle.
\<close>

theorem emergency_call:
  assumes "modem_ready e h ps m" and "ds_client_qmi_ctrl_point_init e w = (Inr h, w1)"
    and "\<forall>k. fst (dsi_get_hndl e k) = Some d"
    and "dsClientIface s = Some (ds_client_get_interface e)"
    and "openAndStartDataCall s w = (r, s', w')"
  shows "case List.find (\<lambda>p. supports_emergency (m p)) ps of
      None \<Rightarrow> r = LOC_API_ADAPTER_ERR_UNSUPPORTED \<and> s' = s \<and> client_view w' = client_view w
    | Some p \<Rightarrow> dsClientHandle s' = Some (next_session w) \<and> dsi_reg w' = (d, next_session w) # dsi_reg w \<and>
        (\<exists>k. let k' = dsi_set_param e (Some d) (DSI_CALL_INFO_IP_VERSION (convert_pdp_type (m p)))
                        (dsi_set_param e (Some d) (DSI_CALL_INFO_UMTS_PROFILE_IDX (profile_index p)) k)
             in svc w' = snd (dsi_start_call e (Some d) k') \<and>
                r = (if fst (dsi_start_call e (Some d) k') then LOC_API_ADAPTER_ERR_SUCCESS
                     else LOC_API_ADAPTER_ERR_UNSUPPORTED))"
proof -
  obtain st out w2 where o: "ds_client_open_call e True (Some ds_client_global_event_cb) this_adapter w = ((st, out), w2)"
    by (metis prod.collapse)
  note ready = open_call_ready [OF assms(1,2) o]
  show ?thesis
  proof (cases "List.find (\<lambda>p. supports_emergency (m p)) ps")
    case None
    with ready o assms(4,5) show ?thesis by (simp add: emergency_profile_def openAndStartDataCall_def no_out_def)
  next
    case (Some p)
    then have "st = E_DS_CLIENT_SUCCESS" and fresh: "fresh_session ds_client_global_event_cb this_adapter (Some d) w w2"
      and out: "out = \<lparr>out_handle = Some (Some (next_session w)), out_profile = Some (profile_index p),
                     out_pdp = Some (convert_pdp_type (m p))\<rparr>"
      using ready assms(3) by (auto simp: emergency_profile_def)
    moreover obtain x where "sessions w2 (next_session w) = Some x" "dsi_net_handle x = Some d"
      using fresh by (auto simp: fresh_session_def)
    ultimately show ?thesis
      using Some assms(4,5) o fresh
      by (auto simp: openAndStartDataCall_def start_call_session split_beta Let_def fresh_session_def)
  qed
qed

lemma demo_find: "List.find (\<lambda>p. supports_emergency (demo_settings p)) demo_profiles =
    Some \<lparr>profile_type = WDS_PROFILE_TYPE_3GPP_V01, profile_index = 3\<rparr>"
  by (simp add: demo_defs)

theorem emergency_call_witness:
  "fst (openAndStartDataCall demo_loaded demo_world) = LOC_API_ADAPTER_ERR_SUCCESS \<and>
   dsi_reg (snd demo_opened) = [(9, 0)] \<and> svc (snd demo_opened) \<ge> 200"
proof -
  have "modem_ready demo_env 8 demo_profiles demo_settings"
    by (simp add: modem_ready_def demo_env_def demo_settings_def zero_settings_def)
  moreover have "ds_client_qmi_ctrl_point_init demo_env demo_world = (Inr 8, snd (ds_client_qmi_ctrl_point_init demo_env demo_world))"
    by (metis demo_connect prod.collapse)
  moreover have "\<forall>k. fst (dsi_get_hndl demo_env k) = Some 9" by (simp add: demo_env_def)
  moreover have "dsClientIface demo_loaded = Some (ds_client_get_interface demo_env)" by (simp add: demo_loaded_def)
  moreover have "openAndStartDataCall demo_loaded demo_world =
      (fst (openAndStartDataCall demo_loaded demo_world), fst demo_opened, snd demo_opened)"
    by (simp add: demo_opened_def)
  ultimately have "fst (openAndStartDataCall demo_loaded demo_world) = LOC_API_ADAPTER_ERR_SUCCESS \<and>
      dsi_reg (snd demo_opened) = (9, next_session demo_world) # dsi_reg demo_world"
    using emergency_call [of demo_env 8 demo_profiles demo_settings demo_world _ 9 demo_loaded _ "fst demo_opened" "snd demo_opened"]
    by (auto simp: demo_find demo_params)
  then show ?thesis by (simp add: demo_world_def demo_opened_eval)
qed

text \<open>
  Closing the call undoes an opening, whatever its result: when the network layer does not
  hand out a handle that is still registered, the adapter that held no session holds none
  again, and sessions, registrations and buffers are those before the opening.
\<close>

theorem open_close_roundtrip:
  assumes "openAndStartDataCall s w = (r, s1, w1)" "closeDataCall s1 w1 = (s2, w2)"
    and "dsClientIface s = Some (ds_client_get_interface e)" "dsClientHandle s = None" "ds_good w"
    and "\<forall>k d. fst (dsi_get_hndl e k) = Some d \<longrightarrow> d \<notin> fst ` set (dsi_reg w)"
  shows "dsClientHandle s2 = None \<and> sessions w2 = sessions w \<and> dsi_reg w2 = dsi_reg w \<and> blocks w2 = blocks w"
proof -
  obtain st out w' where o: "ds_client_open_call e True (Some ds_client_global_event_cb) this_adapter w = ((st, out), w')"
    by (metis prod.collapse)
  from o show ?thesis
  proof (cases rule: open_call_outcome)
    case kept
    then have "s1 = s" "w1 = w'"
      using assms(1,3,4) o by (auto simp: openAndStartDataCall_def Let_def split: if_splits)
    with kept assms(2-4) show ?thesis
      by (auto simp: closeDataCall_def ds_client_close_call_def client_view_def)
  next
    case (handed d i p st1)
    obtain x where x: "sessions w' (next_session w) = Some x" "dsi_net_handle x = d"
      using handed(2) by (auto simp: fresh_session_def)
    have "s1 = s\<lparr>dsClientHandle := Some (next_session w)\<rparr>" "\<exists>k. w1 = w'\<lparr>svc := k\<rparr>"
      using assms(1,3) o x handed
      by (auto simp: openAndStartDataCall_def start_call_session split_beta Let_def split: if_splits)
        (metis ds_world.surjective ds_world.update_convs(1))+
    moreover have "sessions w (next_session w) = None" using assms(5) by (simp add: ds_good_def)
    moreover have "filter (\<lambda>r. Some (fst r) \<noteq> d) (dsi_reg w') = dsi_reg w"
      using handed(2,6) assms(6) by (cases d) (force simp: fresh_session_def filter_id_conv)+
    ultimately show ?thesis
      using assms(2,3) x handed
      by (auto simp: closeDataCall_def ds_client_close_call_def fresh_session_def fun_upd_idem)
  qed
qed

theorem open_close_roundtrip_witness:
  "sessions (snd (closeDataCall (fst demo_opened) (snd demo_opened))) = sessions demo_world \<and>
   dsi_reg (snd (closeDataCall (fst demo_opened) (snd demo_opened))) = []"
proof -
  have "ds_good demo_world" "\<forall>k d. fst (dsi_get_hndl demo_env k) = Some d \<longrightarrow> d \<notin> fst ` set (dsi_reg demo_world)"
    by (simp_all add: ds_good_def demo_world_def)
  moreover have "openAndStartDataCall demo_loaded demo_world =
      (fst (openAndStartDataCall demo_loaded demo_world), fst demo_opened, snd demo_opened)"
    by (simp add: demo_opened_def)
  ultimately show ?thesis
    using open_close_roundtrip [of demo_loaded demo_world _ "fst demo_opened" "snd demo_opened"
        "fst (closeDataCall (fst demo_opened) (snd demo_opened))" "snd (closeDataCall (fst demo_opened) (snd demo_opened))" demo_env]
    by (simp add: demo_loaded_def data_call_new_def) (simp add: demo_world_def)
qed

end
