(* ===== verification/Loc_Port.thy ===== *)
theory Loc_Port
  imports Loc_Request Loc_Supported Ds_Call
begin

unbundle bit_operations_syntax

text \<open>
  How the location adapter \<^verbatim>\<open>LocApiV02.cpp\<close> reaches the engine. The client below it is the
  one of \<open>Loc_Client\<close>: handles, registrations of event masks and the state they live in are
  its own. What the engine answers to the requests of the adapter is an environment
  \<open>loc_engine\<close> over a state of type \<open>'k\<close>: for a synchronous request the result of
  \<^verbatim>\<open>loc_sync_send_req\<close> and the indication it stores, for the two asynchronous ones the
  result of the send. Requests are values of a datatype with the members the adapter sets;
  structures are cleared first, so the other members are zero.
\<close>

subsection \<open>Requests\<close>

datatype oper_mode =
    eQMI_LOC_OPER_MODE_MSB_V02
  | eQMI_LOC_OPER_MODE_MSA_V02
  | eQMI_LOC_OPER_MODE_STANDALONE_V02
  | eQMI_LOC_OPER_MODE_CELL_ID_V02
  | eQMI_LOC_OPER_MODE_WWAN_V02

datatype accuracy_level = eQMI_LOC_ACCURACY_LOW_V02 | eQMI_LOC_ACCURACY_MED_V02 | eQMI_LOC_ACCURACY_HIGH_V02

datatype fix_recurrence = eQMI_LOC_RECURRENCE_PERIODIC_V02 | eQMI_LOC_RECURRENCE_SINGLE_V02

datatype altitude_assumed =
    eQMI_LOC_ALTITUDE_ASSUMED_IN_GNSS_SV_INFO_ENABLED_V02
  | eQMI_LOC_ALTITUDE_ASSUMED_IN_GNSS_SV_INFO_DISABLED_V02

record start_msg =
  start_minInterval :: u32
  horizontalAccuracyLevel :: "accuracy_level option"
  fixRecurrence :: fix_recurrence
  start_sessionId :: nat
  applicationId :: "(u8 list \<times> u8 list) option"
  configAltitudeAssumed :: altitude_assumed

datatype sv_system =
    eQMI_LOC_SV_SYSTEM_GPS_V02
  | eQMI_LOC_SV_SYSTEM_GALILEO_V02
  | eQMI_LOC_SV_SYSTEM_SBAS_V02
  | eQMI_LOC_SV_SYSTEM_COMPASS_V02
  | eQMI_LOC_SV_SYSTEM_GLONASS_V02
  | eQMI_LOC_SV_SYSTEM_BDS_V02
  | eQMI_LOC_SV_SYSTEM_QZSS_V02

record sv_info =
  gnssSvId :: nat
  sv_system :: sv_system
  sv_mask :: u8

record delete_msg =
  deleteAllFlag :: bool
  deleteSvInfoList :: "sv_info list option"
  deleteGnssDataMask :: "u64 option"
  deleteCellDbDataMask :: "u32 option"

datatype server_type =
    eQMI_LOC_SERVER_TYPE_CDMA_PDE_V02
  | eQMI_LOC_SERVER_TYPE_CDMA_MPC_V02
  | eQMI_LOC_SERVER_TYPE_UMTS_SLP_V02
  | eQMI_LOC_SERVER_TYPE_CUSTOM_PDE_V02

datatype server_addr = server_url "u8 list" | server_ipv4 u32 u32

datatype orbits_format = eQMI_LOC_PREDICTED_ORBITS_XTRA_V02

record orbits_part =
  totalSize :: u32
  totalParts :: "16 word"
  partNum :: "16 word"
  partData :: "u8 list"
  formatType :: orbits_format

datatype pdn_type =
    eQMI_LOC_APN_PROFILE_PDN_TYPE_IPV4_V02
  | eQMI_LOC_APN_PROFILE_PDN_TYPE_IPV6_V02
  | eQMI_LOC_APN_PROFILE_PDN_TYPE_IPV4V6_V02

record conn_status =
  connHandle :: int
  conn_open :: bool
  conn_success :: bool
  apnProfile :: "(u8 list \<times> pdn_type) option"

datatype supl_version = eQMI_LOC_SUPL_VERSION_1_0_V02 | eQMI_LOC_SUPL_VERSION_2_0_V02

datatype protocol_param = suplVersion supl_version | lppConfig u32 | assistedGlonassProtocolMask u32

datatype xtra_check =
    eQMI_LOC_XTRA_VERSION_CHECK_DISABLE_V02
  | eQMI_LOC_XTRA_VERSION_CHECK_AUTO_V02
  | eQMI_LOC_XTRA_VERSION_CHECK_XTRA2_V02
  | eQMI_LOC_XTRA_VERSION_CHECK_XTRA3_V02

datatype ni_user_resp =
    eQMI_LOC_NI_LCS_NOTIFY_VERIFY_ACCEPT_V02
  | eQMI_LOC_NI_LCS_NOTIFY_VERIFY_DENY_V02
  | eQMI_LOC_NI_LCS_NOTIFY_VERIFY_NORESP_V02

record sensor_perf =
  performanceControlMode :: int
  accelSamplingSpec :: "int \<times> int"
  gyroSamplingSpec :: "int \<times> int"
  accelSamplingSpecHigh :: "int \<times> int"
  gyroSamplingSpecHigh :: "int \<times> int"
  algorithmConfig :: int

datatype loc_req =
    SetOperationMode oper_mode
  | Start start_msg
  | Stop nat
  | QueryAonConfig nat
  | SetGnssConstRepConfig
  | InjectUtcTime u64 u32
  | DeleteAssistData delete_msg
  | NiUserResponse ni_user_resp nat "nat option list"
  | SetServer server_type server_addr
  | InjectPredictedOrbits orbits_part
  | GetPredictedOrbitsDataSource
  | InformConnStatus conn_status
  | SetProtocolConfig protocol_param
  | SetNmeaTypes u32
  | SetSensorControl bool bool
  | SetSensorPerformance sensor_perf
  | SetExternalPower bool
  | SetEngineLock int
  | GetEngineLock
  | SetXtraVersionCheck xtra_check
  | InjectSuplCertificate nat "u8 list"
  | DeleteSuplCertificate nat

definition LOC_API_V02_DEF_SESSION_ID :: nat where "LOC_API_V02_DEF_SESSION_ID = 1"
definition LOC_ENGINE_SYNC_REQUEST_TIMEOUT :: nat where "LOC_ENGINE_SYNC_REQUEST_TIMEOUT = 1000"

text \<open>The message each request is sent as; the indication awaited has the same identifier.\<close>

fun req_msg_id :: "loc_req \<Rightarrow> u32" where
  "req_msg_id (SetOperationMode m) = QMI_LOC_SET_OPERATION_MODE_REQ_V02"
| "req_msg_id (Start m) = QMI_LOC_START_REQ_V02"
| "req_msg_id (Stop s) = QMI_LOC_STOP_REQ_V02"
| "req_msg_id (QueryAonConfig t) = QMI_LOC_QUERY_AON_CONFIG_REQ_V02"
| "req_msg_id SetGnssConstRepConfig = QMI_LOC_SET_GNSS_CONSTELL_REPORT_CONFIG_V02"
| "req_msg_id (InjectUtcTime t u) = QMI_LOC_INJECT_UTC_TIME_REQ_V02"
| "req_msg_id (DeleteAssistData d) = QMI_LOC_DELETE_ASSIST_DATA_REQ_V02"
| "req_msg_id (NiUserResponse r n ps) = QMI_LOC_NI_USER_RESPONSE_REQ_V02"
| "req_msg_id (SetServer t a) = QMI_LOC_SET_SERVER_REQ_V02"
| "req_msg_id (InjectPredictedOrbits p) = QMI_LOC_INJECT_PREDICTED_ORBITS_DATA_REQ_V02"
| "req_msg_id GetPredictedOrbitsDataSource = QMI_LOC_GET_PREDICTED_ORBITS_DATA_SOURCE_REQ_V02"
| "req_msg_id (InformConnStatus c) = QMI_LOC_INFORM_LOCATION_SERVER_CONN_STATUS_REQ_V02"
| "req_msg_id (SetProtocolConfig p) = QMI_LOC_SET_PROTOCOL_CONFIG_PARAMETERS_REQ_V02"
| "req_msg_id (SetNmeaTypes t) = QMI_LOC_SET_NMEA_TYPES_REQ_V02"
| "req_msg_id (SetSensorControl d p) = QMI_LOC_SET_SENSOR_CONTROL_CONFIG_REQ_V02"
| "req_msg_id (SetSensorPerformance p) = QMI_LOC_SET_SENSOR_PERFORMANCE_CONTROL_CONFIGURATION_REQ_V02"
| "req_msg_id (SetExternalPower b) = QMI_LOC_SET_EXTERNAL_POWER_CONFIG_REQ_V02"
| "req_msg_id (SetEngineLock l) = QMI_LOC_SET_ENGINE_LOCK_REQ_V02"
| "req_msg_id GetEngineLock = QMI_LOC_GET_ENGINE_LOCK_REQ_V02"
| "req_msg_id (SetXtraVersionCheck c) = QMI_LOC_SET_XTRA_VERSION_CHECK_REQ_V02"
| "req_msg_id (InjectSuplCertificate n d) = QMI_LOC_INJECT_SUPL_CERTIFICATE_REQ_V02"
| "req_msg_id (DeleteSuplCertificate n) = QMI_LOC_DELETE_SUPL_CERTIFICATE_REQ_V02"

subsection \<open>Answers\<close>

text \<open>
  An indication: whether its status is \<^verbatim>\<open>eQMI_LOC_SUCCESS_V02\<close> and the members the adapter reads,
  \<open>None\<close> when their validity flag is not set. Success is zero, so a cleared structure
  reads as a success.
\<close>

record loc_ind =
  ind_success :: bool
  ind_partNum :: "16 word"
  ind_aonCapability :: "u32 option"
  ind_lockType :: "int option"
  ind_servers :: "string list"

definition zero_ind :: loc_ind where
  "zero_ind = \<lparr>ind_success = True, ind_partNum = 0, ind_aonCapability = None, ind_lockType = None, ind_servers = []\<rparr>"

record 'k loc_engine =
  reg_answer :: "u64 \<Rightarrow> 'k \<Rightarrow> (qmi_rc \<times> qmi_resp) \<times> 'k"
  send_answer :: "loc_req \<Rightarrow> 'k \<Rightarrow> locClientStatusEnumType \<times> 'k"
  sync_answer :: "loc_req \<Rightarrow> loc_ind \<Rightarrow> nat \<Rightarrow> 'k \<Rightarrow> (locClientStatusEnumType \<times> loc_ind) \<times> 'k"
  open_answer :: "'k \<Rightarrow> (nat \<Rightarrow> open_env) \<times> 'k"
  close_answer :: "'k \<Rightarrow> qmi_rc \<times> 'k"
  support_answer :: "'k \<Rightarrow> (qmi_rc \<times> qmi_resp \<times> supported_msgs) \<times> 'k"
  target :: gnss_type
  msg_size :: "string \<Rightarrow> nat"

record 'k loc_world =
  cl :: client
  eng :: 'k
  requests :: "loc_req list"

text \<open>A synchronous request: an invalid handle is refused by the client before anything is sent.\<close>

definition loc_sync ::
  "'k loc_engine \<Rightarrow> nat option \<Rightarrow> loc_req \<Rightarrow> loc_ind \<Rightarrow> 'k loc_world \<Rightarrow> ((locClientStatusEnumType \<times> loc_ind) \<times> 'k loc_world) outcome" where
  "loc_sync E h req ind w =
     bind_outcome (check_handle h (cl w))
       (\<lambda>d. case d of
              None \<Rightarrow> Returns ((eLOC_CLIENT_FAILURE_INVALID_HANDLE, ind), w)
            | Some _ \<Rightarrow> let (r, k) = sync_answer E req ind LOC_ENGINE_SYNC_REQUEST_TIMEOUT (eng w)
                       in Returns (r, w\<lparr>eng := k, requests := requests w @ [req]\<rparr>))"

text \<open>The asynchronous requests to start and stop a session.\<close>

definition loc_send ::
  "'k loc_engine \<Rightarrow> nat option \<Rightarrow> loc_req \<Rightarrow> 'k loc_world \<Rightarrow> (locClientStatusEnumType \<times> 'k loc_world) outcome" where
  "loc_send E h req w =
     bind_outcome (check_handle h (cl w))
       (\<lambda>d. case d of
              None \<Rightarrow> Returns (eLOC_CLIENT_FAILURE_INVALID_HANDLE, w)
            | Some _ \<Rightarrow> let (r, k) = send_answer E req (eng w)
                       in Returns (r, w\<lparr>eng := k, requests := requests w @ [req]\<rparr>))"

definition convertErr :: "locClientStatusEnumType \<Rightarrow> loc_api_adapter_err" where
  "convertErr status =
     (case status of
        eLOC_CLIENT_SUCCESS \<Rightarrow> LOC_API_ADAPTER_ERR_SUCCESS
      | eLOC_CLIENT_FAILURE_GENERAL \<Rightarrow> LOC_API_ADAPTER_ERR_GENERAL_FAILURE
      | eLOC_CLIENT_FAILURE_UNSUPPORTED \<Rightarrow> LOC_API_ADAPTER_ERR_UNSUPPORTED
      | eLOC_CLIENT_FAILURE_INVALID_PARAMETER \<Rightarrow> LOC_API_ADAPTER_ERR_INVALID_PARAMETER
      | eLOC_CLIENT_FAILURE_ENGINE_BUSY \<Rightarrow> LOC_API_ADAPTER_ERR_ENGINE_BUSY
      | eLOC_CLIENT_FAILURE_PHONE_OFFLINE \<Rightarrow> LOC_API_ADAPTER_ERR_PHONE_OFFLINE
      | eLOC_CLIENT_FAILURE_TIMEOUT \<Rightarrow> LOC_API_ADAPTER_ERR_TIMEOUT
      | eLOC_CLIENT_FAILURE_INVALID_HANDLE \<Rightarrow> LOC_API_ADAPTER_ERR_INVALID_HANDLE
      | eLOC_CLIENT_FAILURE_SERVICE_NOT_PRESENT \<Rightarrow> LOC_API_ADAPTER_ERR_SERVICE_NOT_PRESENT
      | eLOC_CLIENT_FAILURE_INTERNAL \<Rightarrow> LOC_API_ADAPTER_ERR_INTERNAL
      | _ \<Rightarrow> LOC_API_ADAPTER_ERR_FAILURE)"

subsection \<open>The requests are known to the client\<close>

definition sync_ids :: "u32 list" where
  "sync_ids = [QMI_LOC_SET_OPERATION_MODE_REQ_V02, QMI_LOC_QUERY_AON_CONFIG_REQ_V02,
     QMI_LOC_SET_GNSS_CONSTELL_REPORT_CONFIG_V02, QMI_LOC_INJECT_UTC_TIME_REQ_V02, QMI_LOC_DELETE_ASSIST_DATA_REQ_V02,
     QMI_LOC_NI_USER_RESPONSE_REQ_V02, QMI_LOC_SET_SERVER_REQ_V02, QMI_LOC_INJECT_PREDICTED_ORBITS_DATA_REQ_V02,
     QMI_LOC_GET_PREDICTED_ORBITS_DATA_SOURCE_REQ_V02, QMI_LOC_INFORM_LOCATION_SERVER_CONN_STATUS_REQ_V02,
     QMI_LOC_SET_PROTOCOL_CONFIG_PARAMETERS_REQ_V02, QMI_LOC_SET_NMEA_TYPES_REQ_V02,
     QMI_LOC_SET_SENSOR_CONTROL_CONFIG_REQ_V02, QMI_LOC_SET_SENSOR_PERFORMANCE_CONTROL_CONFIGURATION_REQ_V02, QMI_LOC_SET_EXTERNAL_POWER_CONFIG_REQ_V02,
     QMI_LOC_SET_ENGINE_LOCK_REQ_V02, QMI_LOC_GET_ENGINE_LOCK_REQ_V02, QMI_LOC_SET_XTRA_VERSION_CHECK_REQ_V02,
     QMI_LOC_INJECT_SUPL_CERTIFICATE_REQ_V02, QMI_LOC_DELETE_SUPL_CERTIFICATE_REQ_V02]"

lemma sync_ids_known:
  "list_all (\<lambda>i. List.member (map fst req_cases) i \<and> \<not> List.member unanswered i) sync_ids"
  by code_simp

lemma async_ids_known:
  "List.member (map fst req_cases) QMI_LOC_START_REQ_V02" "List.member (map fst req_cases) QMI_LOC_STOP_REQ_V02"
  "List.member unanswered QMI_LOC_START_REQ_V02" "List.member unanswered QMI_LOC_STOP_REQ_V02"
  by code_simp+

fun asynchronous :: "loc_req \<Rightarrow> bool" where
  "asynchronous (Start m) = True"
| "asynchronous (Stop s) = True"
| "asynchronous r = False"

lemma sync_id: "\<not> asynchronous r \<Longrightarrow> req_msg_id r \<in> set sync_ids"
  by (cases r) (simp_all add: sync_ids_def)

text \<open>
  Every request the adapter makes is one the client accepts, and exactly the two requests
  that the adapter sends without waiting have no response message: a synchronous request is
  never made for a message whose answer the client would not recognize.
\<close>

theorem adapter_requests_answered:
  "validateRequest sizeof (req_msg_id r) pl \<noteq> None \<and> (req_msg_id r \<in> set unanswered \<longleftrightarrow> asynchronous r)"
  unfolding validateRequest_Some
proof (cases "asynchronous r")
  case True
  then show "req_msg_id r \<in> set (map fst req_cases) \<and> (req_msg_id r \<in> set unanswered \<longleftrightarrow> asynchronous r)"
    using async_ids_known by (cases r) (simp_all add: List.member_iff)
next
  case False
  with sync_id sync_ids_known
  show "req_msg_id r \<in> set (map fst req_cases) \<and> (req_msg_id r \<in> set unanswered \<longleftrightarrow> asynchronous r)"
    by (fastforce simp: List.member_iff list_all_iff)
qed

end
