(* ===== verification/Loc_Adapter.thy ===== *)
theory Loc_Adapter
  imports Loc_Port
begin

unbundle bit_operations_syntax

text \<open>
  The session of the location adapter, \<^verbatim>\<open>LocApiV02.cpp\<close>: opening and closing the client, the event
  masks it registers, starting and stopping fixes, and the state of the engine. The bits of
  the masks of the framework and the numbers of its messages are those of a header outside
  the tree (\<open>adapter_conf\<close>).
\<close>

subsection \<open>Event masks\<close>

datatype adapter_event =
    LOC_API_ADAPTER_BIT_PARSED_POSITION_REPORT
  | LOC_API_ADAPTER_BIT_SATELLITE_REPORT
  | LOC_API_ADAPTER_BIT_NMEA_POSITION_REPORT
  | LOC_API_ADAPTER_BIT_NMEA_1HZ_REPORT
  | LOC_API_ADAPTER_BIT_NI_NOTIFY_VERIFY_REQUEST
  | LOC_API_ADAPTER_BIT_ASSISTANCE_DATA_REQUEST
  | LOC_API_ADAPTER_BIT_STATUS_REPORT
  | LOC_API_ADAPTER_BIT_LOCATION_SERVER_REQUEST
  | LOC_API_ADAPTER_BIT_REQUEST_WIFI
  | LOC_API_ADAPTER_BIT_SENSOR_STATUS
  | LOC_API_ADAPTER_BIT_REQUEST_TIME_SYNC
  | LOC_API_ADAPTER_BIT_REPORT_SPI
  | LOC_API_ADAPTER_BIT_REPORT_NI_GEOFENCE
  | LOC_API_ADAPTER_BIT_GEOFENCE_GEN_ALERT
  | LOC_API_ADAPTER_BIT_REPORT_GENFENCE_BREACH
  | LOC_API_ADAPTER_BIT_BATCHED_GENFENCE_BREACH_REPORT
  | LOC_API_ADAPTER_BIT_REPORT_GENFENCE_DWELL
  | LOC_API_ADAPTER_BIT_PEDOMETER_CTRL
  | LOC_API_ADAPTER_BIT_MOTION_CTRL
  | LOC_API_ADAPTER_BIT_REQUEST_WIFI_AP_DATA
  | LOC_API_ADAPTER_BIT_BATCH_FULL
  | LOC_API_ADAPTER_BIT_BATCHED_POSITION_REPORT
  | LOC_API_ADAPTER_BIT_GDT_UPLOAD_BEGIN_REQ
  | LOC_API_ADAPTER_BIT_GDT_UPLOAD_END_REQ
  | LOC_API_ADAPTER_BIT_GNSS_MEASUREMENT
  | LOC_API_ADAPTER_BIT_REQUEST_TIMEZONE

datatype adapter_message =
    LOC_API_ADAPTER_MESSAGE_LOCATION_BATCHING
  | LOC_API_ADAPTER_MESSAGE_ADAPTIVE_LOCATION_BATCHING
  | LOC_API_ADAPTER_MESSAGE_DISTANCE_BASE_LOCATION_BATCHING
  | LOC_API_ADAPTER_MESSAGE_UPDATE_TBF_ON_THE_FLY

record adapter_conf =
  event_bit :: "adapter_event \<Rightarrow> u32"
  message_no :: "adapter_message \<Rightarrow> nat"

text \<open>The tests of \<^verbatim>\<open>convertMask\<close> in their order: a test succeeds when one of its bits is set.\<close>

definition mask_table :: "(adapter_event list \<times> u64) list" where
  "mask_table = [
     ([LOC_API_ADAPTER_BIT_PARSED_POSITION_REPORT], QMI_LOC_EVENT_MASK_POSITION_REPORT_V02),
     ([LOC_API_ADAPTER_BIT_SATELLITE_REPORT], QMI_LOC_EVENT_MASK_GNSS_SV_INFO_V02),
     ([LOC_API_ADAPTER_BIT_NMEA_POSITION_REPORT, LOC_API_ADAPTER_BIT_NMEA_1HZ_REPORT], QMI_LOC_EVENT_MASK_NMEA_V02),
     ([LOC_API_ADAPTER_BIT_NI_NOTIFY_VERIFY_REQUEST], QMI_LOC_EVENT_MASK_NI_NOTIFY_VERIFY_REQ_V02),
     ([LOC_API_ADAPTER_BIT_ASSISTANCE_DATA_REQUEST],
        QMI_LOC_EVENT_MASK_INJECT_PREDICTED_ORBITS_REQ_V02 OR QMI_LOC_EVENT_MASK_INJECT_TIME_REQ_V02 OR
        QMI_LOC_EVENT_MASK_INJECT_POSITION_REQ_V02),
     ([LOC_API_ADAPTER_BIT_STATUS_REPORT], QMI_LOC_EVENT_MASK_ENGINE_STATE_V02),
     ([LOC_API_ADAPTER_BIT_LOCATION_SERVER_REQUEST], QMI_LOC_EVENT_MASK_LOCATION_SERVER_CONNECTION_REQ_V02),
     ([LOC_API_ADAPTER_BIT_REQUEST_WIFI], QMI_LOC_EVENT_MASK_WIFI_REQ_V02),
     ([LOC_API_ADAPTER_BIT_SENSOR_STATUS], QMI_LOC_EVENT_MASK_SENSOR_STREAMING_READY_STATUS_V02),
     ([LOC_API_ADAPTER_BIT_REQUEST_TIME_SYNC], QMI_LOC_EVENT_MASK_TIME_SYNC_REQ_V02),
     ([LOC_API_ADAPTER_BIT_REPORT_SPI], QMI_LOC_EVENT_MASK_SET_SPI_STREAMING_REPORT_V02),
     ([LOC_API_ADAPTER_BIT_REPORT_NI_GEOFENCE], QMI_LOC_EVENT_MASK_NI_GEOFENCE_NOTIFICATION_V02),
     ([LOC_API_ADAPTER_BIT_GEOFENCE_GEN_ALERT], QMI_LOC_EVENT_MASK_GEOFENCE_GEN_ALERT_V02),
     ([LOC_API_ADAPTER_BIT_REPORT_GENFENCE_BREACH], QMI_LOC_EVENT_MASK_GEOFENCE_BREACH_NOTIFICATION_V02),
     ([LOC_API_ADAPTER_BIT_BATCHED_GENFENCE_BREACH_REPORT], QMI_LOC_EVENT_MASK_GEOFENCE_BATCH_BREACH_NOTIFICATION_V02),
     ([LOC_API_ADAPTER_BIT_REPORT_GENFENCE_DWELL], QMI_LOC_EVENT_MASK_GEOFENCE_BATCH_DWELL_NOTIFICATION_V02),
     ([LOC_API_ADAPTER_BIT_PEDOMETER_CTRL], QMI_LOC_EVENT_MASK_PEDOMETER_CONTROL_V02),
     ([LOC_API_ADAPTER_BIT_MOTION_CTRL], QMI_LOC_EVENT_MASK_MOTION_DATA_CONTROL_V02),
     ([LOC_API_ADAPTER_BIT_REQUEST_WIFI_AP_DATA], QMI_LOC_EVENT_MASK_INJECT_WIFI_AP_DATA_REQ_V02),
     ([LOC_API_ADAPTER_BIT_BATCH_FULL], QMI_LOC_EVENT_MASK_BATCH_FULL_NOTIFICATION_V02),
     ([LOC_API_ADAPTER_BIT_BATCHED_POSITION_REPORT], QMI_LOC_EVENT_MASK_LIVE_BATCHED_POSITION_REPORT_V02),
     ([LOC_API_ADAPTER_BIT_GDT_UPLOAD_BEGIN_REQ], QMI_LOC_EVENT_MASK_GDT_UPLOAD_BEGIN_REQ_V02),
     ([LOC_API_ADAPTER_BIT_GDT_UPLOAD_END_REQ], QMI_LOC_EVENT_MASK_GDT_UPLOAD_END_REQ_V02),
     ([LOC_API_ADAPTER_BIT_GNSS_MEASUREMENT], QMI_LOC_EVENT_MASK_GNSS_MEASUREMENT_REPORT_V02),
     ([LOC_API_ADAPTER_BIT_REQUEST_TIMEZONE], QMI_LOC_EVENT_MASK_GET_TIME_ZONE_REQ_V02)]"

definition mask_hit :: "adapter_conf \<Rightarrow> u32 \<Rightarrow> adapter_event list \<Rightarrow> bool" where
  "mask_hit conf events es = list_ex (\<lambda>e. events AND event_bit conf e \<noteq> 0) es"

definition convertMask :: "adapter_conf \<Rightarrow> u32 \<Rightarrow> u64" where
  "convertMask conf events = fold (\<lambda>(es, q) eventMask. if mask_hit conf events es then eventMask OR q else eventMask) mask_table 0"

definition clearMask :: u64 where
  "clearMask = QMI_LOC_EVENT_MASK_POSITION_REPORT_V02 OR QMI_LOC_EVENT_MASK_GNSS_SV_INFO_V02 OR
     QMI_LOC_EVENT_MASK_NMEA_V02 OR QMI_LOC_EVENT_MASK_ENGINE_STATE_V02 OR QMI_LOC_EVENT_MASK_GNSS_MEASUREMENT_REPORT_V02"

definition adjustMaskForNoSession :: "u64 \<Rightarrow> u64" where
  "adjustMaskForNoSession qmiMask = qmiMask AND NOT clearMask"

subsection \<open>State\<close>

datatype supported_status = sup_unknown | sup_yes | sup_no

datatype gps_status =
    GPS_STATUS_NONE | GPS_STATUS_SESSION_BEGIN | GPS_STATUS_SESSION_END | GPS_STATUS_ENGINE_ON | GPS_STATUS_ENGINE_OFF

text \<open>\<open>engine_msgs\<close> are the messages posted to the thread of the adapter that it has not processed.\<close>

record loc_api =
  clientHandle :: "nat option"
  mMask :: u32
  mExcludedMask :: u32
  mQmiMask :: u64
  mInSession :: bool
  mEngineOn :: bool
  mMeasurementsStarted :: bool
  mGnssMeasurementSupported :: supported_status
  mSupportedMsgs :: u64
  engine_msgs :: "bool list"
  status_reports :: "gps_status list"

definition LocApiV02_new :: "u32 \<Rightarrow> loc_api" where
  "LocApiV02_new exMask = \<lparr>clientHandle = None, mMask = 0, mExcludedMask = exMask, mQmiMask = 0, mInSession = False,
     mEngineOn = False, mMeasurementsStarted = False, mGnssMeasurementSupported = sup_unknown, mSupportedMsgs = 0,
     engine_msgs = [], status_reports = []\<rparr>"

definition globalCallbacks :: callbacks where
  "globalCallbacks = \<lparr>cbs_size_ok = True, eventIndCb = Some 11, respIndCb = Some 12, errorCb = Some 13\<rparr>"

definition reportStatus :: "gps_status \<Rightarrow> loc_api \<Rightarrow> loc_api" where
  "reportStatus st a = a\<lparr>status_reports := status_reports a @ [st]\<rparr>"

subsection \<open>Registering events\<close>

definition registerEventMask :: "'k loc_engine \<Rightarrow> loc_api \<Rightarrow> u64 \<Rightarrow> 'k loc_world \<Rightarrow> (bool \<times> 'k loc_world) outcome" where
  "registerEventMask E a qmiMask w =
     (let qmiMask = (if mInSession a then qmiMask else adjustMaskForNoSession qmiMask);
          ((rc, resp), k) = reg_answer E qmiMask (eng w)
      in bind_outcome (locClientRegisterEventMask (msg_size E) rc resp (clientHandle a) qmiMask (cl w))
           (\<lambda>(ok, c). Returns (ok, w\<lparr>cl := c, eng := k\<rparr>)))"

definition cacheGnssMeasurementSupport :: "'k loc_engine \<Rightarrow> loc_api \<Rightarrow> 'k loc_world \<Rightarrow> (loc_api \<times> 'k loc_world) outcome" where
  "cacheGnssMeasurementSupport E a w =
     (if mGnssMeasurementSupported a = sup_unknown \<and>
         mQmiMask a AND QMI_LOC_EVENT_MASK_POSITION_REPORT_V02 = QMI_LOC_EVENT_MASK_POSITION_REPORT_V02
      then bind_outcome (loc_sync E (clientHandle a) SetGnssConstRepConfig zero_ind w)
             (\<lambda>((status, ind), w).
                Returns (a\<lparr>mGnssMeasurementSupported :=
                   (if status \<noteq> eLOC_CLIENT_SUCCESS \<or> \<not> ind_success ind then sup_no else sup_yes)\<rparr>, w))
      else Returns (a, w))"

definition gnssConstellationConfig :: "loc_api \<Rightarrow> bool" where
  "gnssConstellationConfig a = (mGnssMeasurementSupported a = sup_yes)"

subsection \<open>Opening and closing\<close>

definition msgArray :: "u32 list" where
  "msgArray = [QMI_LOC_GET_BATCH_SIZE_REQ_V02, QMI_LOC_EVENT_GEOFENCE_BATCHED_BREACH_NOTIFICATION_IND_V02,
     QMI_LOC_START_DBT_REQ_V02]"

definition QMI_LOC_MASK_AON_AUTO_BATCHING_SUPPORTED_V02 :: u32 where
  "QMI_LOC_MASK_AON_AUTO_BATCHING_SUPPORTED_V02 = 1"
definition QMI_LOC_MASK_AON_DISTANCE_BASED_BATCHING_SUPPORTED_V02 :: u32 where
  "QMI_LOC_MASK_AON_DISTANCE_BASED_BATCHING_SUPPORTED_V02 = 2"
definition QMI_LOC_MASK_AON_UPDATE_TBF_SUPPORTED_V02 :: u32 where
  "QMI_LOC_MASK_AON_UPDATE_TBF_SUPPORTED_V02 = 0x10"

text \<open>\<^verbatim>\<open>1 << n\<close> as the 64-bit list reads it.\<close>

definition message_bit :: "adapter_conf \<Rightarrow> adapter_message \<Rightarrow> u64" where
  "message_bit conf m = scast (push_bit (message_no conf m) (1 :: 32 word))"

definition add_message :: "adapter_conf \<Rightarrow> u32 \<Rightarrow> u32 \<Rightarrow> adapter_message \<Rightarrow> u64 \<Rightarrow> u64" where
  "add_message conf aonCapability flag m supportedMsgList =
     (if aonCapability OR flag \<noteq> 0 then supportedMsgList OR message_bit conf m else supportedMsgList)"

definition add_capabilities :: "adapter_conf \<Rightarrow> u32 \<Rightarrow> u64 \<Rightarrow> u64" where
  "add_capabilities conf aon s =
     add_message conf aon QMI_LOC_MASK_AON_UPDATE_TBF_SUPPORTED_V02 LOC_API_ADAPTER_MESSAGE_UPDATE_TBF_ON_THE_FLY
      (add_message conf aon QMI_LOC_MASK_AON_DISTANCE_BASED_BATCHING_SUPPORTED_V02
          LOC_API_ADAPTER_MESSAGE_DISTANCE_BASE_LOCATION_BATCHING
        (add_message conf aon QMI_LOC_MASK_AON_AUTO_BATCHING_SUPPORTED_V02
            LOC_API_ADAPTER_MESSAGE_ADAPTIVE_LOCATION_BATCHING s))"

text \<open>What the modem supports, asked after the client was opened.\<close>

definition check_supported ::
  "'k loc_engine \<Rightarrow> adapter_conf \<Rightarrow> loc_api \<Rightarrow> 'k loc_world \<Rightarrow> (loc_api \<times> 'k loc_world) outcome" where
  "check_supported E conf a w =
     (let ((rc, resp, msgs), k) = support_answer E (eng w)
      in bind_outcome (locClientSupportMsgCheck rc resp msgs (clientHandle a) (Some msgArray) True (cl w))
        (\<lambda>(status, v, c).
           let w = w\<lparr>cl := c, eng := k\<rparr>;
               supportedMsgList = (case v of None \<Rightarrow> 0 | Some v \<Rightarrow> v);
               messageChecker = ucast (push_bit (message_no conf LOC_API_ADAPTER_MESSAGE_LOCATION_BATCHING) (1 :: u32))
           in if messageChecker AND supportedMsgList = messageChecker
              then bind_outcome (loc_sync E (clientHandle a) (QueryAonConfig LOC_API_V02_DEF_SESSION_ID) zero_ind w)
                (\<lambda>((status, ind), w).
                   Returns (a\<lparr>mSupportedMsgs :=
                     (if status = eLOC_CLIENT_FAILURE_UNSUPPORTED \<or> status \<noteq> eLOC_CLIENT_SUCCESS \<or> \<not> ind_success ind
                      then supportedMsgList
                      else case ind_aonCapability ind of
                             None \<Rightarrow> supportedMsgList
                           | Some aon \<Rightarrow> add_capabilities conf aon supportedMsgList)\<rparr>, w))
              else Returns (a\<lparr>mSupportedMsgs := supportedMsgList\<rparr>, w)))"

text \<open>What follows the attempt to open: the masks, and on success the supported messages.\<close>

definition after_open ::
  "'k loc_engine \<Rightarrow> adapter_conf \<Rightarrow> u32 \<Rightarrow> u64 \<Rightarrow> loc_api \<Rightarrow> 'k loc_world \<Rightarrow>
     locClientStatusEnumType \<Rightarrow> nat option option \<Rightarrow> client \<Rightarrow> (loc_api_adapter_err \<times> loc_api \<times> 'k loc_world) outcome" where
  "after_open E conf newMask qmiMask a w status h c =
     (let w = w\<lparr>cl := c\<rparr>;
          a = (case h of None \<Rightarrow> a | Some h \<Rightarrow> a\<lparr>clientHandle := h\<rparr>)
      in if status \<noteq> eLOC_CLIENT_SUCCESS \<or> clientHandle a = None
         then Returns (LOC_API_ADAPTER_ERR_FAILURE, a\<lparr>mMask := 0, mQmiMask := 0\<rparr>, w)
         else bind_outcome (check_supported E conf (a\<lparr>mMask := newMask, mQmiMask := qmiMask\<rparr>) w)
                (\<lambda>(a, w). Returns (LOC_API_ADAPTER_ERR_SUCCESS, a, w)))"

definition open_client ::
  "'k loc_engine \<Rightarrow> adapter_conf \<Rightarrow> u32 \<Rightarrow> u64 \<Rightarrow> loc_api \<Rightarrow> 'k loc_world \<Rightarrow>
     (loc_api_adapter_err \<times> loc_api \<times> 'k loc_world) outcome" where
  "open_client E conf newMask qmiMask a w =
     (let (es, k) = open_answer E (eng w)
      in bind_outcome (locClientOpen (msg_size E) es (target E) (adjustMaskForNoSession qmiMask)
                         (Some globalCallbacks) (Some (clientHandle a)) this_adapter (cl w))
        (\<lambda>(status, h, slept, c). after_open E conf newMask qmiMask a (w\<lparr>eng := k\<rparr>) status h c))"

definition LocApiV02_open ::
  "'k loc_engine \<Rightarrow> adapter_conf \<Rightarrow> u32 \<Rightarrow> loc_api \<Rightarrow> 'k loc_world \<Rightarrow> (loc_api_adapter_err \<times> loc_api \<times> 'k loc_world) outcome" where
  "LocApiV02_open E conf events a w =
     (let newMask = mMask a OR (events AND NOT (mExcludedMask a));
          qmiMask = convertMask conf newMask
      in bind_outcome
           (if clientHandle a = None then open_client E conf newMask qmiMask a w
            else if newMask \<noteq> mMask a
            then bind_outcome (registerEventMask E a qmiMask w)
                   (\<lambda>(ok, w). if ok then Returns (LOC_API_ADAPTER_ERR_SUCCESS, a\<lparr>mMask := newMask, mQmiMask := qmiMask\<rparr>, w)
                              else Returns (LOC_API_ADAPTER_ERR_FAILURE, a, w))
            else Returns (LOC_API_ADAPTER_ERR_SUCCESS, a, w))
           (\<lambda>(rtv, a, w).
              if rtv = LOC_API_ADAPTER_ERR_SUCCESS
              then bind_outcome (cacheGnssMeasurementSupport E a w) (\<lambda>(a, w). Returns (rtv, a, w))
              else Returns (rtv, a, w)))"

definition LocApiV02_close ::
  "'k loc_engine \<Rightarrow> loc_api \<Rightarrow> 'k loc_world \<Rightarrow> (loc_api_adapter_err \<times> loc_api \<times> 'k loc_world) outcome" where
  "LocApiV02_close E a w =
     bind_outcome
       (if clientHandle a = None then Returns (LOC_API_ADAPTER_ERR_SUCCESS, w)
        else let (rc, k) = close_answer E (eng w)
             in bind_outcome (locClientClose rc (Some (clientHandle a)) (cl w))
                  (\<lambda>(status, h, c).
                     Returns (if status = eLOC_CLIENT_SUCCESS then LOC_API_ADAPTER_ERR_SUCCESS
                              else LOC_API_ADAPTER_ERR_FAILURE, w\<lparr>cl := c, eng := k\<rparr>)))
       (\<lambda>(rtv, w). Returns (rtv, a\<lparr>mMask := 0, clientHandle := None\<rparr>, w))"

definition updateRegistrationMask ::
  "'k loc_engine \<Rightarrow> adapter_conf \<Rightarrow> u32 \<Rightarrow> bool \<Rightarrow> loc_api \<Rightarrow> 'k loc_world \<Rightarrow> (loc_api_adapter_err \<times> loc_api \<times> 'k loc_world) outcome" where
  "updateRegistrationMask E conf event isEnabled a w =
     LocApiV02_open E conf (if isEnabled then mMask a OR event else mMask a AND NOT event) a w"

subsection \<open>Fixes\<close>

datatype position_mode =
    LOC_POSITION_MODE_MS_BASED | LOC_POSITION_MODE_MS_ASSISTED | LOC_POSITION_MODE_RESERVED_4
  | LOC_POSITION_MODE_RESERVED_5 | other_position_mode int

record LocPosMode =
  fix_mode :: position_mode
  single_fix :: bool
  min_interval :: u32
  preferred_accuracy :: int
  credentials :: "u8 list"
  provider :: "u8 list"

definition QMI_LOC_MAX_APP_ID_NAME_LENGTH_V02 :: nat where "QMI_LOC_MAX_APP_ID_NAME_LENGTH_V02 = 32"
definition QMI_LOC_MAX_APP_ID_PROVIDER_LENGTH_V02 :: nat where "QMI_LOC_MAX_APP_ID_PROVIDER_LENGTH_V02 = 24"

definition operation_mode :: "position_mode \<Rightarrow> oper_mode" where
  "operation_mode m =
     (case m of
        LOC_POSITION_MODE_MS_BASED \<Rightarrow> eQMI_LOC_OPER_MODE_MSB_V02
      | LOC_POSITION_MODE_MS_ASSISTED \<Rightarrow> eQMI_LOC_OPER_MODE_MSA_V02
      | LOC_POSITION_MODE_RESERVED_4 \<Rightarrow> eQMI_LOC_OPER_MODE_CELL_ID_V02
      | LOC_POSITION_MODE_RESERVED_5 \<Rightarrow> eQMI_LOC_OPER_MODE_WWAN_V02
      | other_position_mode n \<Rightarrow> eQMI_LOC_OPER_MODE_STANDALONE_V02)"

text \<open>The bytes copied into a cleared array of \<open>n\<close> bytes, the last of which stays zero.\<close>

definition copy_name :: "nat \<Rightarrow> u8 list \<Rightarrow> u8 list" where
  "copy_name n src =
     (let len = min n (length src) - 1 in take len src @ replicate (n - len) 0)"

definition start_request :: "LocPosMode \<Rightarrow> start_msg" where
  "start_request fc =
     \<lparr>start_minInterval = min_interval fc,
      horizontalAccuracyLevel =
        (if preferred_accuracy fc \<ge> 0
         then Some (if preferred_accuracy fc \<le> 100 then eQMI_LOC_ACCURACY_HIGH_V02
                    else if preferred_accuracy fc \<le> 1000 then eQMI_LOC_ACCURACY_MED_V02
                    else eQMI_LOC_ACCURACY_LOW_V02)
         else None),
      fixRecurrence = (if single_fix fc then eQMI_LOC_RECURRENCE_SINGLE_V02 else eQMI_LOC_RECURRENCE_PERIODIC_V02),
      start_sessionId = LOC_API_V02_DEF_SESSION_ID,
      applicationId =
        (case credentials fc of
           [] \<Rightarrow> None
         | c # cs \<Rightarrow>
             if c \<noteq> 0
             then Some (copy_name (QMI_LOC_MAX_APP_ID_NAME_LENGTH_V02 + 1) (credentials fc),
                        copy_name (QMI_LOC_MAX_APP_ID_PROVIDER_LENGTH_V02 + 1) (provider fc))
             else None),
      configAltitudeAssumed = eQMI_LOC_ALTITUDE_ASSUMED_IN_GNSS_SV_INFO_DISABLED_V02\<rparr>"

definition startFix ::
  "'k loc_engine \<Rightarrow> LocPosMode \<Rightarrow> loc_api \<Rightarrow> 'k loc_world \<Rightarrow> (loc_api_adapter_err \<times> loc_api \<times> 'k loc_world) outcome" where
  "startFix E fc a w =
     (let a = a\<lparr>mInSession := True, mMeasurementsStarted := True\<rparr>
      in bind_outcome (registerEventMask E a (mQmiMask a) w)
        (\<lambda>(ok, w). bind_outcome (loc_sync E (clientHandle a) (SetOperationMode (operation_mode (fix_mode fc))) zero_ind w)
        (\<lambda>((status, ind), w).
           if (status \<noteq> eLOC_CLIENT_SUCCESS \<and> status \<noteq> eLOC_CLIENT_FAILURE_TIMEOUT) \<or> \<not> ind_success ind
           then Returns (convertErr status, a, w)
           else bind_outcome (loc_send E (clientHandle a) (Start (start_request fc)) w)
                  (\<lambda>(status, w). Returns (convertErr status, a, w)))))"

definition stopFix ::
  "'k loc_engine \<Rightarrow> loc_api \<Rightarrow> 'k loc_world \<Rightarrow> (loc_api_adapter_err \<times> loc_api \<times> 'k loc_world) outcome" where
  "stopFix E a w =
     bind_outcome (loc_send E (clientHandle a) (Stop LOC_API_V02_DEF_SESSION_ID) w)
       (\<lambda>(status, w).
          let a = a\<lparr>mInSession := False\<rparr>
          in if \<not> mEngineOn a
             then bind_outcome (registerEventMask E a (mQmiMask a) w) (\<lambda>(ok, w). Returns (convertErr status, a, w))
             else Returns (convertErr status, a, w))"

text \<open>\<open>isInSession\<close> is the answer of the base class.\<close>

definition setPositionMode ::
  "'k loc_engine \<Rightarrow> bool \<Rightarrow> LocPosMode \<Rightarrow> loc_api \<Rightarrow> 'k loc_world \<Rightarrow> (loc_api_adapter_err \<times> loc_api \<times> 'k loc_world) outcome" where
  "setPositionMode E isInSession posMode a w =
     (if isInSession then startFix E posMode a w else Returns (LOC_API_ADAPTER_ERR_SUCCESS, a, w))"

subsection \<open>The state of the engine\<close>

datatype engine_state = eQMI_LOC_ENGINE_STATE_ON_V02 | eQMI_LOC_ENGINE_STATE_OFF_V02 | other_engine_state

definition reportEngineState :: "engine_state \<Rightarrow> loc_api \<Rightarrow> loc_api" where
  "reportEngineState st a =
     (case st of
        eQMI_LOC_ENGINE_STATE_ON_V02 \<Rightarrow> a\<lparr>engine_msgs := engine_msgs a @ [True]\<rparr>
      | eQMI_LOC_ENGINE_STATE_OFF_V02 \<Rightarrow> a\<lparr>engine_msgs := engine_msgs a @ [False]\<rparr>
      | other_engine_state \<Rightarrow> reportStatus GPS_STATUS_NONE a)"

text \<open>\<^verbatim>\<open>MsgUpdateEngineState::proc\<close>, on the thread of the adapter.\<close>

definition update_engine_state :: "'k loc_engine \<Rightarrow> bool \<Rightarrow> loc_api \<Rightarrow> 'k loc_world \<Rightarrow> (loc_api \<times> 'k loc_world) outcome" where
  "update_engine_state E engineOn a w =
     bind_outcome
       (if mEngineOn a \<and> \<not> mInSession a \<and> \<not> engineOn then registerEventMask E a (mQmiMask a) w
        else Returns (True, w))
       (\<lambda>(ok, w).
          let a = a\<lparr>mEngineOn := engineOn\<rparr>
          in Returns
               (if engineOn
                then (if mInSession a then reportStatus GPS_STATUS_SESSION_BEGIN (reportStatus GPS_STATUS_ENGINE_ON a) else a)
                else reportStatus GPS_STATUS_ENGINE_OFF (reportStatus GPS_STATUS_SESSION_END a), w))"

definition process_engine_msg :: "'k loc_engine \<Rightarrow> loc_api \<Rightarrow> 'k loc_world \<Rightarrow> (loc_api \<times> 'k loc_world) outcome" where
  "process_engine_msg E a w =
     (case engine_msgs a of
        [] \<Rightarrow> Returns (a, w)
      | m # ms \<Rightarrow> update_engine_state E m (a\<lparr>engine_msgs := ms\<rparr>) w)"

datatype session_state = eQMI_LOC_FIX_SESSION_STARTED_V02 | eQMI_LOC_FIX_SESSION_FINISHED_V02 | other_session_state

definition reportFixSessionState :: "session_state \<Rightarrow> loc_api \<Rightarrow> loc_api" where
  "reportFixSessionState st a =
     reportStatus
       (case st of
          eQMI_LOC_FIX_SESSION_STARTED_V02 \<Rightarrow> GPS_STATUS_SESSION_BEGIN
        | eQMI_LOC_FIX_SESSION_FINISHED_V02 \<Rightarrow> GPS_STATUS_SESSION_END
        | other_session_state \<Rightarrow> GPS_STATUS_NONE) a"

end
