(* ===== verification/Loc_Track.thy ===== *)
theory Loc_Track
  imports Loc_Adapter
begin

unbundle bit_operations_syntax

text \<open>
  Facts about the session of the location adapter: the event masks it converts and registers,
  the invariant that no tracking event stays registered when no session runs and the engine
  is off, what the result of a started fix means, and which changes of the mask have an effect.
\<close>

named_theorems adapter_ops \<open>effect of the steps of the adapter on the client\<close>

subsection \<open>Converted masks\<close>

lemma mask_hit_or: "mask_hit conf (m OR n) es \<longleftrightarrow> mask_hit conf m es \<or> mask_hit conf n es"
proof -
  have "(m OR n) AND b \<noteq> 0 \<longleftrightarrow> m AND b \<noteq> 0 \<or> n AND b \<noteq> 0" for b :: u32
    by (simp add: bit.conj_disj_distrib2 or_eq_0_iff)
  then show ?thesis by (auto simp: mask_hit_def list_ex_iff)
qed

lemma convert_fold_bit:
  "bit (fold (\<lambda>(es, q) acc. if mask_hit conf m es then acc OR q else acc) t z) i \<longleftrightarrow>
     bit z i \<or> (\<exists>(es, q) \<in> set t. mask_hit conf m es \<and> bit q i)" for z :: u64
  by (induction t arbitrary: z) (auto simp: bit_or_iff split: if_splits)

lemma convertMask_bit: "bit (convertMask conf m) i \<longleftrightarrow> (\<exists>(es, q) \<in> set mask_table. mask_hit conf m es \<and> bit q i)"
  by (simp add: convertMask_def convert_fold_bit)

lemma convertMask_or: "convertMask conf (m OR n) = convertMask conf m OR convertMask conf n"
  by (rule bit_word_eqI) (auto simp: bit_or_iff convertMask_bit mask_hit_or)

lemma adjust_idem [simp]: "adjustMaskForNoSession (adjustMaskForNoSession q) = adjustMaskForNoSession q"
  by (simp add: adjustMaskForNoSession_def and.assoc)

subsection \<open>What the client is told\<close>

lemma loc_sync_cl [adapter_ops]: "loc_sync E h r i w = Returns (x, w') \<Longrightarrow> cl w' = cl w"
  by (auto simp: loc_sync_def bind_outcome_Returns split_beta Let_def split: option.splits)

lemma loc_send_cl [adapter_ops]: "loc_send E h r w = Returns (x, w') \<Longrightarrow> cl w' = cl w"
  by (auto simp: loc_send_def bind_outcome_Returns split_beta Let_def split: option.splits)

definition handle_live :: "loc_api \<Rightarrow> client \<Rightarrow> bool" where
  "handle_live a c = (client_ok c \<and> (\<forall>p. clientHandle a = Some p \<longrightarrow> cbs c p \<noteq> None))"

text \<open>The mask the engine was last told for the handle of the adapter.\<close>

definition registered_mask :: "loc_api \<Rightarrow> client \<Rightarrow> u64 option" where
  "registered_mask a c =
     (case clientHandle a of None \<Rightarrow> None | Some p \<Rightarrow> map_option eventRegMask (cbs c p))"

definition registers_ok :: "'k loc_engine \<Rightarrow> bool" where
  "registers_ok E = (\<forall>q k. fst (fst (reg_answer E q k)) = QMI_NO_ERR \<and> result_success (snd (fst (reg_answer E q k))))"

definition opens_ok :: "'k loc_engine \<Rightarrow> bool" where
  "opens_ok E = (\<forall>k n. fresh_handles (fst (open_answer E k) n) \<and> errcb_rc (fst (open_answer E k) n) = QMI_NO_ERR)"

lemma loc_sync_returns: "handle_live a (cl w) \<Longrightarrow> \<exists>x w'. loc_sync E (clientHandle a) r i w = Returns (x, w')"
  by (cases "clientHandle a") (auto simp: loc_sync_def handle_live_def split_beta Let_def
      dest!: client_ok_handle simp: check_handle_valid)

lemma loc_send_returns: "handle_live a (cl w) \<Longrightarrow> \<exists>x w'. loc_send E (clientHandle a) r w = Returns (x, w')"
  by (cases "clientHandle a") (auto simp: loc_send_def handle_live_def split_beta Let_def
      dest!: client_ok_handle simp: check_handle_valid)

definition session_mask :: "loc_api \<Rightarrow> u64 \<Rightarrow> u64" where
  "session_mask a q = (if mInSession a then q else adjustMaskForNoSession q)"

lemma register_live:
  assumes "handle_live a (cl w)"
  obtains ok w' where "registerEventMask E a q w = Returns (ok, w')" "handle_live a (cl w')" "requests w' = requests w"
    "registered_mask a (cl w') = (if ok then Some (session_mask a q) else registered_mask a (cl w))"
    "registers_ok E \<Longrightarrow> clientHandle a \<noteq> None \<Longrightarrow> ok" "ok \<Longrightarrow> clientHandle a \<noteq> None"
proof (cases "clientHandle a")
  case None
  then have run: "registerEventMask E a q w =
      Returns (False, w\<lparr>eng := snd (reg_answer E (session_mask a q) (eng w))\<rparr>)"
    by (simp add: registerEventMask_def locClientRegisterEventMask_def locClientSendReq_def session_mask_def split_beta Let_def)
  with assms None show thesis by (intro that [OF run]) (auto simp: registered_mask_def handle_live_def)
next
  case (Some p)
  with assms obtain d where d: "cbs (cl w) p = Some d" and ok: "client_ok (cl w)" by (auto simp: handle_live_def)
  note h = client_ok_handle [OF ok d]
  define rs where "rs = reg_answer E (session_mask a q) (eng w)"
  define good where "good = (fst (fst rs) = QMI_NO_ERR \<and> result_success (snd (fst rs)))"
  define c where "c = (cl w)\<lparr>sent := sent (cl w) @ [(userHandle d, QMI_LOC_REG_EVENTS_REQ_V02, Some (session_mask a q), msg_size E REG_SIZE)]\<rparr>"
  define c' where "c' = (if good then c\<lparr>cbs := (cbs (cl w))(p \<mapsto> d\<lparr>eventRegMask := session_mask a q\<rparr>)\<rparr> else c)"
  have run: "registerEventMask E a q w = Returns (good, w\<lparr>cl := c', eng := snd rs\<rparr>)"
    using Some register_valid [OF h, of "msg_size E" "fst (fst rs)" "snd (fst rs)" "session_mask a q"]
    by (simp add: registerEventMask_def session_mask_def [symmetric] rs_def [symmetric] good_def [symmetric]
        c_def c'_def split_beta Let_def)
  have "client_ok c'"
  proof (cases good)
    case True
    then show ?thesis
      by (intro client_ok_update [OF ok d, of "d\<lparr>eventRegMask := session_mask a q\<rparr>" c']) (simp_all add: c'_def c_def)
  next
    case False
    then show ?thesis by (intro client_ok_cong [OF ok, of c']) (simp_all add: c'_def c_def)
  qed
  with Some d show thesis
    by (intro that [OF run]) (auto simp: handle_live_def registered_mask_def c'_def c_def good_def registers_ok_def rs_def)
qed


text \<open>A failed open leaves no handle, a successful one a new record with the mask it was given.\<close>

lemma open_failed_handle:
  assumes "locClientOpenInstance sizeof e m inst pc (Some None) cookie s = Returns (st, ph', s')" "st \<noteq> eLOC_CLIENT_SUCCESS"
  shows "ph' = Some None"
  using assms
  by (auto simp: locClientOpenInstance_def open_connected_def Let_def split: option.splits if_splits outcome.splits)

lemma open_retry_live:
  assumes "client_ok s" "\<And>n. fresh_handles (es n) \<and> errcb_rc (es n) = QMI_NO_ERR"
    and "open_retry sizeof es m inst (Some cb) (Some None) cookie tries slept s = Returns (st, ph', slept', s')"
  shows "client_ok s' \<and> (if st = eLOC_CLIENT_SUCCESS
      then \<exists>p d. ph' = Some (Some p) \<and> cbs s' p = Some d \<and> eventRegMask d = m else ph' = Some None)"
  using assms
proof (induction sizeof es m inst "Some cb" "Some None :: nat option option" cookie tries slept s rule: open_retry.induct)
  case (1 sizeof es m inst cookie tries slept s)
  from 1(4) obtain st1 h1 s1 where
    one: "locClientOpenInstance sizeof (es tries) m inst (Some cb) (Some None) cookie s = Returns (st1, h1, s1)"
    by (subst (asm) open_retry.simps) (auto split: outcome.splits)
  have ok1: "client_ok s1" using 1(2) 1(3) [of tries] one by (blast intro: open_keeps)
  show ?case
  proof (cases "st1 \<noteq> eLOC_CLIENT_SUCCESS \<and> tries \<le> LOC_CLIENT_MAX_OPEN_RETRIES")
    case True
    then have h1: "h1 = Some None" using open_failed_handle [OF one] by simp
    then have "open_retry sizeof es m inst (Some cb) (Some None) cookie (tries + 1)
        (slept + LOC_CLIENT_TIME_BETWEEN_OPEN_RETRIES) s1 = Returns (st, ph', slept', s')"
      using 1(4) one True by (subst (asm) open_retry.simps) simp
    then show ?thesis using 1(1) [OF one refl _ True ok1 1(3)] h1 by (auto split: if_splits)
  next
    case False
    then have last: "st = st1" "ph' = h1" "s' = s1" using 1(4) one by (subst (asm) open_retry.simps; auto)+
    show ?thesis
    proof (cases "st1 = eLOC_CLIENT_SUCCESS")
      case True
      from 1(2) conjunct1 [OF 1(3)] conjunct2 [OF 1(3)] one show ?thesis
        by (cases rule: open_cases) (use True last ok1 in \<open>auto simp: opened_def\<close>)
    next
      case False
      with open_failed_handle [OF one] last ok1 show ?thesis by simp
    qed
  qed
qed

subsection \<open>The registered mask follows the session\<close>

definition track_inv :: "loc_api \<Rightarrow> 'k loc_world \<Rightarrow> bool" where
  "track_inv a w =
     (handle_live a (cl w) \<and>
      (clientHandle a \<noteq> None \<longrightarrow>
         (registered_mask a (cl w) = Some (mQmiMask a) \<or>
          registered_mask a (cl w) = Some (adjustMaskForNoSession (mQmiMask a))) \<and>
         (\<not> mInSession a \<and> \<not> mEngineOn a \<longrightarrow>
          registered_mask a (cl w) = Some (adjustMaskForNoSession (mQmiMask a)))))"

text \<open>The parts of the adapter the invariant is about.\<close>

lemma track_inv_cong:
  "\<lbrakk>track_inv a w; cl w' = cl w; clientHandle a' = clientHandle a; mQmiMask a' = mQmiMask a;
    mInSession a' = mInSession a; mEngineOn a' = mEngineOn a\<rbrakk> \<Longrightarrow> track_inv a' w'"
  by (simp add: track_inv_def handle_live_def registered_mask_def)

lemma register_track:
  assumes "handle_live a (cl w)" "registers_ok E" "registerEventMask E a (mQmiMask a) w = Returns (ok, w')"
  shows "track_inv a w' \<and> (clientHandle a \<noteq> None \<longrightarrow> ok \<and> registered_mask a (cl w') = Some (session_mask a (mQmiMask a)))"
proof -
  obtain ok1 w1 where r: "registerEventMask E a (mQmiMask a) w = Returns (ok1, w1)" "handle_live a (cl w1)"
    "registered_mask a (cl w1) = (if ok1 then Some (session_mask a (mQmiMask a)) else registered_mask a (cl w))"
    "clientHandle a \<noteq> None \<Longrightarrow> ok1"
    using register_live [OF assms(1), of E "mQmiMask a"] assms(2) by metis
  with assms(3) show ?thesis by (auto simp: track_inv_def session_mask_def)
qed

lemma cache_track:
  "\<lbrakk>cacheGnssMeasurementSupport E a w = Returns (a', w'); track_inv a w\<rbrakk> \<Longrightarrow> track_inv a' w'"
  by (auto simp: cacheGnssMeasurementSupport_def bind_outcome_Returns dest!: loc_sync_cl
      elim!: track_inv_cong split: if_splits)

lemma support_check_frame:
  "locClientSupportMsgCheck rc resp msgs h ids out c = Returns (st, v, c') \<Longrightarrow> cbs c' = cbs c"
  by (auto simp: locClientSupportMsgCheck_def Let_def split: outcome.splits option.splits if_splits)

lemma check_supported_track:
  assumes "check_supported E conf a w = Returns (a', w')" "track_inv a w"
  shows "track_inv a' w' \<and> clientHandle a' = clientHandle a \<and> mQmiMask a' = mQmiMask a \<and> mMask a' = mMask a"
proof -
  from assms(1) obtain st v c w1 where
    c: "locClientSupportMsgCheck (fst (fst (support_answer E (eng w)))) (fst (snd (fst (support_answer E (eng w)))))
          (snd (snd (fst (support_answer E (eng w))))) (clientHandle a) (Some msgArray) True (cl w) = Returns (st, v, c)"
    and w1: "cl w' = c" "\<exists>m. a' = a\<lparr>mSupportedMsgs := m\<rparr>"
    by (fastforce simp: check_supported_def bind_outcome_Returns split_beta Let_def dest!: loc_sync_cl split: if_splits)
  have "client_ok c" "cbs c = cbs (cl w)"
    using assms(2) check_keeps [OF _ c] support_check_frame [OF c] by (simp_all add: track_inv_def handle_live_def)
  with assms(2) w1 show ?thesis by (auto simp: track_inv_def handle_live_def registered_mask_def)
qed

lemma open_client_track:
  assumes "open_client E conf m q a w = Returns (r, a', w')" "client_ok (cl w)" "clientHandle a = None" "opens_ok E"
  shows "track_inv a' w'"
proof -
  define es k where "es = fst (open_answer E (eng w))" and "k = snd (open_answer E (eng w))"
  from assms(1,3) obtain st h sl c where
    o: "locClientOpen (msg_size E) es (target E) (adjustMaskForNoSession q) (Some globalCallbacks) (Some None) this_adapter (cl w) =
          Returns (st, h, sl, c)"
    and rest: "after_open E conf m q a (w\<lparr>eng := k\<rparr>) st h c = Returns (r, a', w')"
    by (auto simp: open_client_def bind_outcome_Returns split_beta es_def k_def Let_def)
  have live: "client_ok c \<and> (if st = eLOC_CLIENT_SUCCESS
      then \<exists>p d. h = Some (Some p) \<and> cbs c p = Some d \<and> eventRegMask d = adjustMaskForNoSession q else h = Some None)"
    using open_retry_live [OF assms(2) _ o [unfolded locClientOpen_def]] assms(4) by (auto simp: opens_ok_def es_def split: if_splits)
  show ?thesis
  proof (cases "st = eLOC_CLIENT_SUCCESS")
    case False
    with live rest assms(3) show ?thesis by (auto simp: after_open_def track_inv_def handle_live_def)
  next
    case True
    with live obtain p d where p: "h = Some (Some p)" "cbs c p = Some d" "eventRegMask d = adjustMaskForNoSession q"
      by auto
    let ?a = "a\<lparr>clientHandle := Some p, mMask := m, mQmiMask := q\<rparr>" and ?w = "w\<lparr>eng := k, cl := c\<rparr>"
    have "track_inv ?a ?w"
      using live p by (auto simp: track_inv_def handle_live_def registered_mask_def)
    moreover have "check_supported E conf ?a ?w = Returns (a', w')"
      using True rest p by (auto simp: after_open_def bind_outcome_Returns)
    ultimately show ?thesis using check_supported_track by blast
  qed
qed


lemma register_new_mask:
  assumes "handle_live a (cl w)" "registerEventMask E a q w = Returns (True, w')"
  shows "track_inv (a\<lparr>mMask := m, mQmiMask := q\<rparr>) w'"
proof -
  obtain ok w1 where r: "registerEventMask E a q w = Returns (ok, w1)" "handle_live a (cl w1)"
    "registered_mask a (cl w1) = (if ok then Some (session_mask a q) else registered_mask a (cl w))"
    using register_live [OF assms(1), of E q] by metis
  with assms(2) show ?thesis
    by (auto simp: track_inv_def session_mask_def registered_mask_def handle_live_def)
qed

lemma register_failed:
  assumes "track_inv a w" "registerEventMask E a q w = Returns (False, w')"
  shows "track_inv a w'"
proof -
  have "handle_live a (cl w)" using assms(1) by (simp add: track_inv_def)
  then obtain ok w1 where r: "registerEventMask E a q w = Returns (ok, w1)" "handle_live a (cl w1)"
    "registered_mask a (cl w1) = (if ok then Some (session_mask a q) else registered_mask a (cl w))"
    using register_live [of a w E q] by metis
  with assms show ?thesis by (auto simp: track_inv_def)
qed

lemma open_track:
  assumes "LocApiV02_open E conf m a w = Returns (r, a', w')" "track_inv a w" "opens_ok E"
  shows "track_inv a' w'"
proof -
  define n q where "n = mMask a OR (m AND NOT (mExcludedMask a))" and "q = convertMask conf n"
  have live: "handle_live a (cl w)" using assms(2) by (simp add: track_inv_def)
  from assms(1) obtain r1 a1 w1 where one:
    "(if clientHandle a = None then open_client E conf n q a w
      else if n \<noteq> mMask a
      then bind_outcome (registerEventMask E a q w)
             (\<lambda>(ok, w). if ok then Returns (LOC_API_ADAPTER_ERR_SUCCESS, a\<lparr>mMask := n, mQmiMask := q\<rparr>, w)
                        else Returns (LOC_API_ADAPTER_ERR_FAILURE, a, w))
      else Returns (LOC_API_ADAPTER_ERR_SUCCESS, a, w)) = Returns (r1, a1, w1)"
    and two: "a' = a1 \<and> w' = w1 \<or> cacheGnssMeasurementSupport E a1 w1 = Returns (a', w')"
    by (fastforce simp: LocApiV02_open_def n_def q_def Let_def bind_outcome_Returns split: if_splits)
  have "track_inv a1 w1"
  proof (cases "clientHandle a")
    case None
    with one live open_client_track assms(3) show ?thesis by (fastforce simp: handle_live_def)
  next
    case (Some p)
    show ?thesis
    proof (cases "n = mMask a")
      case True
      with one Some assms(2) show ?thesis by simp
    next
      case False
      with one Some obtain ok w2 where reg: "registerEventMask E a q w = Returns (ok, w2)"
        and fin: "w1 = w2" "a1 = (if ok then a\<lparr>mMask := n, mQmiMask := q\<rparr> else a)"
        by (auto simp: bind_outcome_Returns split: if_splits)
      with register_new_mask [OF live] register_failed [OF assms(2)] show ?thesis by (cases ok) auto
    qed
  qed
  with two cache_track show ?thesis by blast
qed

lemma close_track:
  assumes "LocApiV02_close E a w = Returns (r, a', w')" "track_inv a w"
  shows "track_inv a' w'"
proof -
  have "client_ok (cl w')"
    using assms close_keeps [of "cl w"]
    by (fastforce simp: LocApiV02_close_def bind_outcome_Returns track_inv_def handle_live_def split_beta Let_def split: if_splits)
  moreover have "clientHandle a' = None"
    using assms(1) by (auto simp: LocApiV02_close_def bind_outcome_Returns)
  ultimately show ?thesis by (simp add: track_inv_def handle_live_def)
qed

lemma start_track:
  assumes "startFix E fc a w = Returns (r, a', w')" "track_inv a w" "registers_ok E"
  shows "track_inv a' w' \<and> mInSession a' \<and> clientHandle a' = clientHandle a \<and> mQmiMask a' = mQmiMask a \<and>
    (clientHandle a \<noteq> None \<longrightarrow> registered_mask a' (cl w') = Some (mQmiMask a))"
proof -
  let ?a = "a\<lparr>mInSession := True, mMeasurementsStarted := True\<rparr>"
  from assms(1) obtain ok w1 where reg: "registerEventMask E ?a (mQmiMask ?a) w = Returns (ok, w1)"
    and fin: "a' = ?a" "cl w' = cl w1"
    by (fastforce simp: startFix_def bind_outcome_Returns Let_def dest!: loc_sync_cl loc_send_cl split: if_splits)
  have "handle_live ?a (cl w)" using assms(2) by (simp add: track_inv_def handle_live_def)
  from register_track [OF this assms(3) reg] fin show ?thesis
    by (auto simp: session_mask_def registered_mask_def elim: track_inv_cong)
qed

lemma stop_track:
  assumes "stopFix E a w = Returns (r, a', w')" "track_inv a w" "registers_ok E"
  shows "track_inv a' w'"
proof -
  let ?a = "a\<lparr>mInSession := False\<rparr>"
  from assms(1) obtain st w1 where send: "loc_send E (clientHandle a) (Stop LOC_API_V02_DEF_SESSION_ID) w = Returns (st, w1)"
    and fin: "a' = ?a" "mEngineOn a \<and> w' = w1 \<or> \<not> mEngineOn a \<and> (\<exists>ok. registerEventMask E ?a (mQmiMask ?a) w1 = Returns (ok, w'))"
    by (auto simp: stopFix_def bind_outcome_Returns Let_def split: if_splits)
  have cl: "cl w1 = cl w" using send by (rule loc_send_cl)
  have live: "handle_live ?a (cl w1)" using assms(2) cl by (simp add: track_inv_def handle_live_def)
  show ?thesis
  proof (cases "mEngineOn a")
    case True
    with fin cl assms(2) show ?thesis by (auto simp: track_inv_def handle_live_def registered_mask_def)
  next
    case False
    with fin register_track [OF live assms(3)] show ?thesis by auto
  qed
qed

lemma engine_track:
  assumes "update_engine_state E on a w = Returns (a', w')" "track_inv a w" "registers_ok E"
  shows "track_inv a' w'"
proof -
  have live: "handle_live a (cl w)" using assms(2) by (simp add: track_inv_def)
  show ?thesis
  proof (cases "mEngineOn a \<and> \<not> mInSession a \<and> \<not> on")
    case True
    with assms(1) obtain ok where reg: "registerEventMask E a (mQmiMask a) w = Returns (ok, w')"
      and a': "a' = reportStatus GPS_STATUS_ENGINE_OFF (reportStatus GPS_STATUS_SESSION_END (a\<lparr>mEngineOn := False\<rparr>))"
      by (auto simp: update_engine_state_def bind_outcome_Returns)
    from register_track [OF live assms(3) reg] True a' show ?thesis
      by (auto simp: track_inv_def session_mask_def registered_mask_def handle_live_def reportStatus_def)
  next
    case False
    with assms(1,2) show ?thesis
      by (auto simp: update_engine_state_def track_inv_def registered_mask_def handle_live_def reportStatus_def Let_def
          split: if_splits)
  qed
qed

subsection \<open>Runs of the adapter\<close>

inductive fix_step :: "'k loc_engine \<Rightarrow> adapter_conf \<Rightarrow> loc_api \<times> 'k loc_world \<Rightarrow> loc_api \<times> 'k loc_world \<Rightarrow> bool"
  for E conf where
  opened: "LocApiV02_open E conf m a w = Returns (r, a', w') \<Longrightarrow> fix_step E conf (a, w) (a', w')"
| update: "updateRegistrationMask E conf m en a w = Returns (r, a', w') \<Longrightarrow> fix_step E conf (a, w) (a', w')"
| close: "LocApiV02_close E a w = Returns (r, a', w') \<Longrightarrow> fix_step E conf (a, w) (a', w')"
| start: "startFix E fc a w = Returns (r, a', w') \<Longrightarrow> fix_step E conf (a, w) (a', w')"
| stop: "stopFix E a w = Returns (r, a', w') \<Longrightarrow> fix_step E conf (a, w) (a', w')"
| mode: "setPositionMode E s fc a w = Returns (r, a', w') \<Longrightarrow> fix_step E conf (a, w) (a', w')"
| engine: "fix_step E conf (a, w) (reportEngineState st a, w)"
| session: "fix_step E conf (a, w) (reportFixSessionState ss a, w)"
| process: "process_engine_msg E a w = Returns (a', w') \<Longrightarrow> fix_step E conf (a, w) (a', w')"

lemma fix_step_track:
  assumes "fix_step E conf (a, w) (a', w')" "track_inv a w" "opens_ok E" "registers_ok E"
  shows "track_inv a' w'"
  using assms(1)
proof cases
  case (opened m r)
  then show ?thesis using open_track assms by blast
next
  case (update m en r)
  then show ?thesis using open_track assms unfolding updateRegistrationMask_def by blast
next
  case (close r)
  then show ?thesis using close_track assms by blast
next
  case (start fc r)
  then show ?thesis using start_track assms by blast
next
  case (stop r)
  then show ?thesis using stop_track assms by blast
next
  case (mode s fc r)
  then show ?thesis
    using start_track [OF _ assms(2,4), of fc r a' w'] assms(2) by (cases s) (simp_all add: setPositionMode_def)
next
  case (engine st)
  then show ?thesis using assms(2)
    by (auto simp: reportEngineState_def reportStatus_def elim: track_inv_cong split: engine_state.split)
next
  case (session ss)
  then show ?thesis using assms(2) by (auto simp: reportFixSessionState_def reportStatus_def elim: track_inv_cong)
next
  case process
  have "track_inv (a\<lparr>engine_msgs := ms\<rparr>) w" for ms using assms(2) by (rule track_inv_cong) simp_all
  with process assms(2,4) show ?thesis
    by (cases "engine_msgs a") (auto simp: process_engine_msg_def dest: engine_track)
qed

lemma fix_steps_track:
  assumes "(fix_step E conf)\<^sup>*\<^sup>* s s'" "track_inv (fst s) (snd s)" "opens_ok E" "registers_ok E"
  shows "track_inv (fst s') (snd s')"
  using assms(1,2)
  by (induction rule: rtranclp_induct) (metis assms(3,4) fix_step_track prod.collapse)+

lemma adjust_clear: "adjustMaskForNoSession q AND clearMask = 0"
  by (simp add: adjustMaskForNoSession_def and.assoc)


definition demo_engine :: "nat loc_engine" where
  "demo_engine = \<lparr>reg_answer = (\<lambda>q. Pair (QMI_NO_ERR, \<lparr>result_success = True, resp_error = QMI_ERR_OTHER\<rparr>)),
     send_answer = (\<lambda>r. Pair eLOC_CLIENT_SUCCESS), sync_answer = (\<lambda>r i t. Pair (eLOC_CLIENT_SUCCESS, i)),
     open_answer = Pair (\<lambda>n. good_env), close_answer = Pair QMI_NO_ERR,
     support_answer = Pair (QMI_OTHER_RC, \<lparr>result_success = True, resp_error = QMI_ERR_OTHER\<rparr>,
       \<lparr>supported_msgs_valid = False, supported_msgs_len = 0, supported_msgs_arr = []\<rparr>),
     target = GNSS_OTHER, msg_size = sizeof0\<rparr>"

definition demo_conf :: adapter_conf where
  "demo_conf = \<lparr>event_bit = (\<lambda>e. if e = LOC_API_ADAPTER_BIT_PARSED_POSITION_REPORT then 1
       else if e = LOC_API_ADAPTER_BIT_LOCATION_SERVER_REQUEST then 2 else 0), message_no = (\<lambda>m. 3)\<rparr>"

definition demo_adapter_world :: "nat loc_world" where
  "demo_adapter_world = \<lparr>cl = client_init, eng = 0, requests = []\<rparr>"

definition demo_fix :: LocPosMode where
  "demo_fix = \<lparr>fix_mode = LOC_POSITION_MODE_MS_BASED, single_fix = True, min_interval = 1000, preferred_accuracy = 50,
     credentials = [0], provider = [0]\<rparr>"

text \<open>Opening with the bits of position reports and server requests, then starting and stopping a fix.\<close>

definition run_opened :: "(loc_api_adapter_err \<times> loc_api \<times> nat loc_world) outcome" where
  "run_opened = LocApiV02_open demo_engine demo_conf 3 (LocApiV02_new 0) demo_adapter_world"

definition run_started :: "nat loc_engine \<Rightarrow> (loc_api_adapter_err \<times> loc_api \<times> nat loc_world) outcome" where
  "run_started E = bind_outcome run_opened (\<lambda>(r, a, w). startFix E demo_fix a w)"

definition run_stopped :: "(loc_api_adapter_err \<times> loc_api \<times> nat loc_world) outcome" where
  "run_stopped = bind_outcome (run_started demo_engine) (\<lambda>(r, a, w). stopFix demo_engine a w)"

lemma run_stopped_eval:
  "case run_stopped of
     Returns (r, a, w) \<Rightarrow> clientHandle a = Some 1 \<and> \<not> mInSession a \<and> \<not> mEngineOn a \<and> mQmiMask a AND 1 = 1
   | _ \<Rightarrow> False"
  by code_simp

lemma demo_engine_ok: "opens_ok demo_engine" "registers_ok demo_engine"
  using good_env_fresh good_env_ok(4) by (simp_all add: opens_ok_def registers_ok_def demo_engine_def)


subsection \<open>Starting a fix\<close>


definition refusing_engine :: "nat loc_engine" where
  "refusing_engine = demo_engine\<lparr>sync_answer := (\<lambda>r i t. Pair (eLOC_CLIENT_SUCCESS, i\<lparr>ind_success := False\<rparr>))\<rparr>"

lemma run_opened_state:
  obtains r a w where "run_opened = Returns (r, a, w)" "clientHandle a = Some 1" "mMask a = 3"
    "list_all (\<lambda>q. \<not> asynchronous q) (requests w)" "handle_live a (cl w)"
proof -
  have eval: "case run_opened of
      Returns (r, a, w) \<Rightarrow> clientHandle a = Some 1 \<and> mMask a = 3 \<and> list_all (\<lambda>q. \<not> asynchronous q) (requests w) | _ \<Rightarrow> False"
    by code_simp
  then obtain r a w where opened: "run_opened = Returns (r, a, w)"
    "clientHandle a = Some 1" "mMask a = 3" "list_all (\<lambda>q. \<not> asynchronous q) (requests w)"
    by (auto split: outcome.splits)
  have "track_inv (LocApiV02_new 0) demo_adapter_world"
    using client_ok_init by (simp add: track_inv_def handle_live_def LocApiV02_new_def demo_adapter_world_def)
  from open_track [OF opened(1) [unfolded run_opened_def] this demo_engine_ok(1)] opened that show thesis
    by (simp add: track_inv_def)
qed


subsection \<open>Changing the mask\<close>

lemma cache_frame:
  "cacheGnssMeasurementSupport E a w = Returns (a', w') \<Longrightarrow>
     mMask a' = mMask a \<and> mQmiMask a' = mQmiMask a \<and> clientHandle a' = clientHandle a \<and> cl w' = cl w"
  by (auto simp: cacheGnssMeasurementSupport_def bind_outcome_Returns dest!: loc_sync_cl split: if_splits)

text \<open>
  C40. Enabling events adds those that are not excluded to the mask of an open adapter and
  registers the mask when the engine accepts it. Disabling events never removes one: the
  mask is combined with the one before, so nothing is registered, the mask stays as it was, and
  the result is a success.
\<close>

theorem update_mask_effect:
  assumes "updateRegistrationMask E conf event en a w = Returns (r, a', w')" "handle_live a (cl w)" "clientHandle a = Some p"
    and "registers_ok E"
  shows "r = LOC_API_ADAPTER_ERR_SUCCESS \<and>
    (if en then mMask a' = mMask a OR (event AND NOT (mExcludedMask a)) \<and>
       (mMask a' \<noteq> mMask a \<longrightarrow> mQmiMask a' = convertMask conf (mMask a') \<and>
          registered_mask a' (cl w') = Some (session_mask a (mQmiMask a')))
     else mMask a' = mMask a \<and> mQmiMask a' = mQmiMask a \<and> cl w' = cl w)"
proof -
  let ?n = "mMask a OR ((if en then mMask a OR event else mMask a AND NOT event) AND NOT (mExcludedMask a))"
  have n: "?n = (if en then mMask a OR (event AND NOT (mExcludedMask a)) else mMask a)"
    by (rule bit_word_eqI) (auto simp: bit_or_iff bit_and_iff bit_not_iff)
  obtain ok w1 where reg: "registerEventMask E a (convertMask conf ?n) w = Returns (ok, w1)" "ok"
    "registered_mask a (cl w1) = Some (session_mask a (convertMask conf ?n))"
    using register_live [OF assms(2), of E "convertMask conf ?n"] assms(3,4) by (metis option.distinct(1))
  show ?thesis
  proof (cases "?n = mMask a")
    case True
    with assms(1,3) obtain r1 where "cacheGnssMeasurementSupport E a w = Returns (a', w')" "r = LOC_API_ADAPTER_ERR_SUCCESS"
      by (auto simp: updateRegistrationMask_def LocApiV02_open_def Let_def bind_outcome_Returns)
    with cache_frame [of E a w a' w'] n True show ?thesis by (cases en) auto
  next
    case False
    with n have en by (cases en) simp_all
    from False assms(1,3) reg obtain r1 where
      "cacheGnssMeasurementSupport E (a\<lparr>mMask := ?n, mQmiMask := convertMask conf ?n\<rparr>) w1 = Returns (a', w')"
      "r = LOC_API_ADAPTER_ERR_SUCCESS"
      by (auto simp: updateRegistrationMask_def LocApiV02_open_def Let_def bind_outcome_Returns)
    with cache_frame [of E _ w1 a' w'] n \<open>en\<close> reg show ?thesis by (auto simp: registered_mask_def)
  qed
qed

theorem update_mask_effect_witness:
  "\<exists>r a w a' w'. run_opened = Returns (r, a, w) \<and>
     updateRegistrationMask demo_engine demo_conf 1 False a w = Returns (LOC_API_ADAPTER_ERR_SUCCESS, a', w') \<and> mMask a' = 3"
proof -
  obtain r a w where opened: "run_opened = Returns (r, a, w)" "clientHandle a = Some 1" "mMask a = 3"
    and live: "handle_live a (cl w)"
    by (rule run_opened_state)
  have "\<exists>a' w'. cacheGnssMeasurementSupport demo_engine a w = Returns (a', w')"
    using loc_sync_returns [OF live, of demo_engine SetGnssConstRepConfig zero_ind]
    by (auto simp: cacheGnssMeasurementSupport_def)
  moreover have "mMask a OR ((mMask a AND NOT 1) AND NOT (mExcludedMask a)) = mMask a"
    by (rule bit_word_eqI) (auto simp: bit_or_iff bit_and_iff)
  ultimately obtain a' w' where run: "updateRegistrationMask demo_engine demo_conf 1 False a w =
      Returns (LOC_API_ADAPTER_ERR_SUCCESS, a', w')"
    using opened(2) by (auto simp: updateRegistrationMask_def LocApiV02_open_def Let_def)
  from update_mask_effect [OF run live opened(2) demo_engine_ok(2)] opened run show ?thesis by (intro exI [of _ r] exI [of _ a] exI [of _ w] exI [of _ a'] exI [of _ w']) simp
qed

text \<open>The flags of the capabilities are joined with bitwise or, so each test succeeds for every answer.\<close>

lemma capabilities_always_added:
  "add_capabilities conf aon s =
     s OR message_bit conf LOC_API_ADAPTER_MESSAGE_ADAPTIVE_LOCATION_BATCHING
       OR message_bit conf LOC_API_ADAPTER_MESSAGE_DISTANCE_BASE_LOCATION_BATCHING
       OR message_bit conf LOC_API_ADAPTER_MESSAGE_UPDATE_TBF_ON_THE_FLY"
  by (simp add: add_capabilities_def add_message_def or_eq_0_iff or.assoc QMI_LOC_MASK_AON_AUTO_BATCHING_SUPPORTED_V02_def
      QMI_LOC_MASK_AON_DISTANCE_BASED_BATCHING_SUPPORTED_V02_def QMI_LOC_MASK_AON_UPDATE_TBF_SUPPORTED_V02_def)

end
