(* ===== verification/Loc_Inject.thy ===== *)
theory Loc_Inject
  imports Loc_Track "HOL-Library.Signed_Division"
begin

unbundle bit_operations_syntax

text \<open>
  The requests of the location adapter, \<^verbatim>\<open>LocApiV02.cpp\<close>, outside a session: assistance data
  and certificates that are split into several messages, the deletion of assistance data,
  servers, data connections and the configuration of the engine.
\<close>

subsection \<open>Single requests\<close>

text \<open>The shape most requests share: the status of the indication is only logged.\<close>

definition simple_request ::
  "'k loc_engine \<Rightarrow> nat option \<Rightarrow> loc_req \<Rightarrow> 'k loc_world \<Rightarrow> (loc_api_adapter_err \<times> 'k loc_world) outcome" where
  "simple_request E h req w =
     bind_outcome (loc_sync E h req zero_ind w) (\<lambda>((status, ind), w). Returns (convertErr status, w))"

text \<open>\<open>elapsed\<close> is the time since boot in milliseconds when the request is made.\<close>

definition setTime ::
  "'k loc_engine \<Rightarrow> u64 \<Rightarrow> u64 \<Rightarrow> u64 \<Rightarrow> u32 \<Rightarrow> nat option \<Rightarrow> 'k loc_world \<Rightarrow> (loc_api_adapter_err \<times> 'k loc_world) outcome" where
  "setTime E elapsed time timeReference uncertainty h w =
     bind_outcome (loc_sync E h (InjectUtcTime (time + (elapsed - timeReference)) uncertainty) (zero_ind\<lparr>ind_success := False\<rparr>) w)
       (\<lambda>((status, ind), w). Returns (convertErr status, w))"

definition QMI_LOC_MAX_SERVER_ADDR_LENGTH_V02 :: nat where "QMI_LOC_MAX_SERVER_ADDR_LENGTH_V02 = 255"
definition QMI_LOC_MAX_APN_NAME_LENGTH_V02 :: nat where "QMI_LOC_MAX_APN_NAME_LENGTH_V02 = 100"

definition setServer_url ::
  "'k loc_engine \<Rightarrow> u8 list \<Rightarrow> int \<Rightarrow> nat option \<Rightarrow> 'k loc_world \<Rightarrow> (loc_api_adapter_err \<times> 'k loc_world) outcome" where
  "setServer_url E url len h w =
     (if len < 0 \<or> len > int (QMI_LOC_MAX_SERVER_ADDR_LENGTH_V02 + 1) then Returns (LOC_API_ADAPTER_ERR_INVALID_PARAMETER, w)
      else simple_request E h (SetServer eQMI_LOC_SERVER_TYPE_UMTS_SLP_V02
             (server_url (take QMI_LOC_MAX_SERVER_ADDR_LENGTH_V02 url))) w)"

datatype LocServerType = LOC_AGPS_MPC_SERVER | LOC_AGPS_CUSTOM_PDE_SERVER | other_server

definition setServer_ip ::
  "'k loc_engine \<Rightarrow> u32 \<Rightarrow> u32 \<Rightarrow> LocServerType \<Rightarrow> nat option \<Rightarrow> 'k loc_world \<Rightarrow> (loc_api_adapter_err \<times> 'k loc_world) outcome" where
  "setServer_ip E ip port type h w =
     simple_request E h (SetServer
       (case type of
          LOC_AGPS_MPC_SERVER \<Rightarrow> eQMI_LOC_SERVER_TYPE_CDMA_MPC_V02
        | LOC_AGPS_CUSTOM_PDE_SERVER \<Rightarrow> eQMI_LOC_SERVER_TYPE_CUSTOM_PDE_V02
        | other_server \<Rightarrow> eQMI_LOC_SERVER_TYPE_CDMA_PDE_V02) (server_ipv4 ip port)) w"

text \<open>The servers that are reported, as many as the indication has, at most three.\<close>

definition requestXtraServer ::
  "'k loc_engine \<Rightarrow> nat option \<Rightarrow> 'k loc_world \<Rightarrow> (loc_api_adapter_err \<times> (string \<times> string \<times> string) option \<times> 'k loc_world) outcome" where
  "requestXtraServer E h w =
     bind_outcome (loc_sync E h GetPredictedOrbitsDataSource zero_ind w)
       (\<lambda>((status, ind), w).
          Returns (convertErr status,
            (if status = eLOC_CLIENT_SUCCESS \<and> ind_success ind
             then (case ind_servers ind of
                     [] \<Rightarrow> None
                   | [a] \<Rightarrow> Some (a, [], [])
                   | [a, b] \<Rightarrow> Some (a, b, [])
                   | a # b # c # _ \<Rightarrow> Some (a, b, c))
             else None), w))"

datatype AGpsBearerType =
    AGPS_APN_BEARER_IPV4 | AGPS_APN_BEARER_IPV6 | AGPS_APN_BEARER_IPV4V6 | AGPS_APN_BEARER_INVALID | other_bearer

definition bearer_type :: "AGpsBearerType \<Rightarrow> pdn_type option" where
  "bearer_type bear =
     (case bear of
        AGPS_APN_BEARER_IPV4 \<Rightarrow> Some eQMI_LOC_APN_PROFILE_PDN_TYPE_IPV4_V02
      | AGPS_APN_BEARER_IPV6 \<Rightarrow> Some eQMI_LOC_APN_PROFILE_PDN_TYPE_IPV6_V02
      | AGPS_APN_BEARER_IPV4V6 \<Rightarrow> Some eQMI_LOC_APN_PROFILE_PDN_TYPE_IPV4V6_V02
      | _ \<Rightarrow> None)"

definition atlOpenStatus ::
  "'k loc_engine \<Rightarrow> int \<Rightarrow> bool \<Rightarrow> u8 list option \<Rightarrow> AGpsBearerType \<Rightarrow> nat option \<Rightarrow> 'k loc_world \<Rightarrow>
     (loc_api_adapter_err \<times> 'k loc_world) outcome" where
  "atlOpenStatus E handle is_succ apn bear h w =
     (if is_succ \<and> bear = other_bearer then Returns (LOC_API_ADAPTER_ERR_INVALID_HANDLE, w)
      else simple_request E h (InformConnStatus
        \<lparr>connHandle = handle, conn_open = True, conn_success = is_succ,
         apnProfile =
           (if is_succ
            then map_option (Pair (case apn of None \<Rightarrow> [] | Some s \<Rightarrow> take QMI_LOC_MAX_APN_NAME_LENGTH_V02 s)) (bearer_type bear)
            else None)\<rparr>) w)"

definition atlCloseStatus ::
  "'k loc_engine \<Rightarrow> int \<Rightarrow> bool \<Rightarrow> nat option \<Rightarrow> 'k loc_world \<Rightarrow> (loc_api_adapter_err \<times> 'k loc_world) outcome" where
  "atlCloseStatus E handle is_succ h w =
     simple_request E h (InformConnStatus
       \<lparr>connHandle = handle, conn_open = False, conn_success = is_succ, apnProfile = None\<rparr>) w"

definition setSUPLVersion :: "'k loc_engine \<Rightarrow> u32 \<Rightarrow> nat option \<Rightarrow> 'k loc_world \<Rightarrow> (loc_api_adapter_err \<times> 'k loc_world) outcome" where
  "setSUPLVersion E version h w =
     simple_request E h (SetProtocolConfig (suplVersion
       (if version = 0x00020000 then eQMI_LOC_SUPL_VERSION_2_0_V02 else eQMI_LOC_SUPL_VERSION_1_0_V02))) w"

definition setNMEATypes :: "'k loc_engine \<Rightarrow> u32 \<Rightarrow> nat option \<Rightarrow> 'k loc_world \<Rightarrow> (loc_api_adapter_err \<times> 'k loc_world) outcome" where
  "setNMEATypes E typesMask h w = simple_request E h (SetNmeaTypes typesMask) w"

definition setLPPConfig :: "'k loc_engine \<Rightarrow> u32 \<Rightarrow> nat option \<Rightarrow> 'k loc_world \<Rightarrow> (loc_api_adapter_err \<times> 'k loc_world) outcome" where
  "setLPPConfig E profile h w = simple_request E h (SetProtocolConfig (lppConfig profile)) w"

definition setAGLONASSProtocol :: "'k loc_engine \<Rightarrow> u32 \<Rightarrow> nat option \<Rightarrow> 'k loc_world \<Rightarrow> (loc_api_adapter_err \<times> 'k loc_world) outcome" where
  "setAGLONASSProtocol E aGlonassProtocol h w =
     simple_request E h (SetProtocolConfig (assistedGlonassProtocolMask aGlonassProtocol)) w"

text \<open>The flags of the request: whether the sensors are disabled, and whether the sensor core provides them.\<close>

definition setSensorControlConfig ::
  "'k loc_engine \<Rightarrow> int \<Rightarrow> int \<Rightarrow> nat option \<Rightarrow> 'k loc_world \<Rightarrow> (loc_api_adapter_err \<times> 'k loc_world) outcome" where
  "setSensorControlConfig E sensorsDisabled sensorProvider h w =
     simple_request E h (SetSensorControl (sensorsDisabled = 1) (sensorProvider = 1 \<or> sensorProvider = 4)) w"

definition setSensorPerfControlConfig ::
  "'k loc_engine \<Rightarrow> int \<Rightarrow> int \<Rightarrow> int \<Rightarrow> int \<Rightarrow> int \<Rightarrow> int \<Rightarrow> int \<Rightarrow> int \<Rightarrow> int \<Rightarrow> int \<Rightarrow> nat option \<Rightarrow> 'k loc_world \<Rightarrow>
     (loc_api_adapter_err \<times> 'k loc_world) outcome" where
  "setSensorPerfControlConfig E controlMode accelSamplesPerBatch accelBatchesPerSec gyroSamplesPerBatch gyroBatchesPerSec
     accelSamplesPerBatchHigh accelBatchesPerSecHigh gyroSamplesPerBatchHigh gyroBatchesPerSecHigh algorithm h w =
     simple_request E h (SetSensorPerformance
       \<lparr>performanceControlMode = controlMode,
        accelSamplingSpec = (accelBatchesPerSec, accelSamplesPerBatch),
        gyroSamplingSpec = (gyroBatchesPerSec, gyroSamplesPerBatch),
        accelSamplingSpecHigh = (accelBatchesPerSecHigh, accelSamplesPerBatchHigh),
        gyroSamplingSpecHigh = (gyroBatchesPerSecHigh, gyroSamplesPerBatchHigh),
        algorithmConfig = algorithm\<rparr>) w"

definition setExtPowerConfig :: "'k loc_engine \<Rightarrow> int \<Rightarrow> nat option \<Rightarrow> 'k loc_world \<Rightarrow> (loc_api_adapter_err \<times> 'k loc_world) outcome" where
  "setExtPowerConfig E isBatteryCharging h w =
     (if isBatteryCharging = 1 then simple_request E h (SetExternalPower True) w
      else if isBatteryCharging = 0 then simple_request E h (SetExternalPower False) w
      else Returns (LOC_API_ADAPTER_ERR_INVALID_PARAMETER, w))"

datatype xtra_version_check = DISABLED | AUTO | XTRA2 | XTRA3 | other_check

definition setXtraVersionCheck ::
  "'k loc_engine \<Rightarrow> xtra_version_check \<Rightarrow> nat option \<Rightarrow> 'k loc_world \<Rightarrow> (loc_api_adapter_err \<times> 'k loc_world) outcome" where
  "setXtraVersionCheck E check h w =
     bind_outcome (loc_sync E h (SetXtraVersionCheck
         (case check of
            DISABLED \<Rightarrow> eQMI_LOC_XTRA_VERSION_CHECK_DISABLE_V02
          | AUTO \<Rightarrow> eQMI_LOC_XTRA_VERSION_CHECK_AUTO_V02
          | XTRA2 \<Rightarrow> eQMI_LOC_XTRA_VERSION_CHECK_XTRA2_V02
          | XTRA3 \<Rightarrow> eQMI_LOC_XTRA_VERSION_CHECK_XTRA3_V02
          | other_check \<Rightarrow> eQMI_LOC_XTRA_VERSION_CHECK_DISABLE_V02)) zero_ind w)
       (\<lambda>((status, ind), w).
          Returns (if status \<noteq> eLOC_CLIENT_SUCCESS \<or> \<not> ind_success ind
                   then LOC_API_ADAPTER_ERR_GENERAL_FAILURE else LOC_API_ADAPTER_ERR_SUCCESS, w))"

subsection \<open>Engine lock\<close>

text \<open>The tests of the lock mask are functions of a header outside the tree.\<close>

record lock_tests =
  isGpsLockAll :: "int \<Rightarrow> bool"
  isGpsLockMO :: "int \<Rightarrow> bool"
  isGpsLockMT :: "int \<Rightarrow> bool"
  isGpsLockNone :: "int \<Rightarrow> bool"

definition eQMI_LOC_LOCK_NONE_V02 :: int where "eQMI_LOC_LOCK_NONE_V02 = 1"
definition eQMI_LOC_LOCK_MI_V02 :: int where "eQMI_LOC_LOCK_MI_V02 = 2"
definition eQMI_LOC_LOCK_MT_V02 :: int where "eQMI_LOC_LOCK_MT_V02 = 3"
definition eQMI_LOC_LOCK_ALL_V02 :: int where "eQMI_LOC_LOCK_ALL_V02 = 4"

definition convertGpsLockMask :: "lock_tests \<Rightarrow> int \<Rightarrow> int" where
  "convertGpsLockMask T lockMask =
     (if lockMask = 101 \<or> lockMask = 103 then lockMask
      else if isGpsLockAll T lockMask then eQMI_LOC_LOCK_ALL_V02
      else if isGpsLockMO T lockMask then eQMI_LOC_LOCK_MI_V02
      else if isGpsLockMT T lockMask then eQMI_LOC_LOCK_MT_V02
      else if isGpsLockNone T lockMask then eQMI_LOC_LOCK_NONE_V02
      else lockMask)"

definition setGpsLock :: "'k loc_engine \<Rightarrow> lock_tests \<Rightarrow> int \<Rightarrow> nat option \<Rightarrow> 'k loc_world \<Rightarrow> (int \<times> 'k loc_world) outcome" where
  "setGpsLock E T lockMask h w =
     bind_outcome (loc_sync E h (SetEngineLock (convertGpsLockMask T lockMask)) zero_ind w)
       (\<lambda>((status, ind), w). Returns (if status \<noteq> eLOC_CLIENT_SUCCESS \<or> \<not> ind_success ind then -1 else 0, w))"

definition getGpsLock :: "'k loc_engine \<Rightarrow> nat option \<Rightarrow> 'k loc_world \<Rightarrow> (int \<times> 'k loc_world) outcome" where
  "getGpsLock E h w =
     bind_outcome (loc_sync E h GetEngineLock zero_ind w)
       (\<lambda>((status, ind), w).
          Returns (if status \<noteq> eLOC_CLIENT_SUCCESS \<or> \<not> ind_success ind then -1
                   else case ind_lockType ind of None \<Rightarrow> -1 | Some l \<Rightarrow> l, w))"

subsection \<open>Network initiated requests\<close>

text \<open>The request handed back: its type and its six optional payloads, in the order they are copied.\<close>

record ni_request =
  notificationType :: nat
  ni_payloads :: "nat option list"

datatype GpsUserResponseType = GPS_NI_RESPONSE_ACCEPT | GPS_NI_RESPONSE_DENY | GPS_NI_RESPONSE_NORESP | other_response

definition informNiResponse ::
  "'k loc_engine \<Rightarrow> GpsUserResponseType \<Rightarrow> ni_request \<Rightarrow> nat option \<Rightarrow> 'k loc_world \<Rightarrow> (loc_api_adapter_err \<times> 'k loc_world) outcome" where
  "informNiResponse E userResponse req h w =
     (case userResponse of
        GPS_NI_RESPONSE_ACCEPT \<Rightarrow>
          simple_request E h (NiUserResponse eQMI_LOC_NI_LCS_NOTIFY_VERIFY_ACCEPT_V02 (notificationType req) (ni_payloads req)) w
      | GPS_NI_RESPONSE_DENY \<Rightarrow>
          simple_request E h (NiUserResponse eQMI_LOC_NI_LCS_NOTIFY_VERIFY_DENY_V02 (notificationType req) (ni_payloads req)) w
      | GPS_NI_RESPONSE_NORESP \<Rightarrow>
          simple_request E h (NiUserResponse eQMI_LOC_NI_LCS_NOTIFY_VERIFY_NORESP_V02 (notificationType req) (ni_payloads req)) w
      | other_response \<Rightarrow> Returns (LOC_API_ADAPTER_ERR_INVALID_PARAMETER, w))"

text \<open>Requests of the engine for a data connection, as the framework is told.\<close>

datatype wwan_type =
    eQMI_LOC_WWAN_TYPE_INTERNET_V02 | eQMI_LOC_WWAN_TYPE_AGNSS_V02 | eQMI_LOC_WWAN_TYPE_AGNSS_EMERGENCY_V02 | other_wwan

datatype server_request = eQMI_LOC_SERVER_REQUEST_OPEN_V02 | eQMI_LOC_SERVER_REQUEST_CLOSE_V02 | other_server_request

datatype AGpsType = AGPS_TYPE_WWAN_ANY | AGPS_TYPE_SUPL

datatype atl_action = requestATL u32 AGpsType | requestSuplES u32 | releaseATL u32

definition reportAtlRequest :: "u32 \<Rightarrow> server_request \<Rightarrow> wwan_type \<Rightarrow> atl_action list" where
  "reportAtlRequest conn requestType wwanType =
     (case requestType of
        eQMI_LOC_SERVER_REQUEST_OPEN_V02 \<Rightarrow>
          (case wwanType of
             eQMI_LOC_WWAN_TYPE_INTERNET_V02 \<Rightarrow> [requestATL conn AGPS_TYPE_WWAN_ANY]
           | eQMI_LOC_WWAN_TYPE_AGNSS_V02 \<Rightarrow> [requestATL conn AGPS_TYPE_SUPL]
           | eQMI_LOC_WWAN_TYPE_AGNSS_EMERGENCY_V02 \<Rightarrow> [requestSuplES conn]
           | other_wwan \<Rightarrow> [requestATL conn AGPS_TYPE_WWAN_ANY])
      | eQMI_LOC_SERVER_REQUEST_CLOSE_V02 \<Rightarrow> [releaseATL conn]
      | other_server_request \<Rightarrow> [])"

subsection \<open>Deleting assistance data\<close>

text \<open>
  What the framework asks to delete: everything, or the kinds of data whose bit is set in its mask
  (the bits are those of a header outside the tree).
\<close>

datatype aiding_kind =
    GPS_DELETE_EPHEMERIS | GPS_DELETE_ALMANAC | GPS_DELETE_POSITION | GPS_DELETE_TIME | GPS_DELETE_IONO | GPS_DELETE_UTC
  | GPS_DELETE_HEALTH | GPS_DELETE_SVDIR | GPS_DELETE_SADATA | GPS_DELETE_RTI | GPS_DELETE_CELLDB_INFO

definition SV_ID_RANGE :: nat where "SV_ID_RANGE = 32"
definition GPS_SV_ID_OFFSET :: nat where "GPS_SV_ID_OFFSET = 1"
definition QMI_LOC_DELETE_MAX_SV_INFO_LENGTH_V02 :: nat where "QMI_LOC_DELETE_MAX_SV_INFO_LENGTH_V02 = 128"
definition QMI_LOC_MASK_DELETE_EPHEMERIS_V02 :: u8 where "QMI_LOC_MASK_DELETE_EPHEMERIS_V02 = 1"
definition QMI_LOC_MASK_DELETE_ALMANAC_V02 :: u8 where "QMI_LOC_MASK_DELETE_ALMANAC_V02 = 2"
definition QMI_LOC_MASK_DELETE_GPS_SVDIR_V02 :: u64 where "QMI_LOC_MASK_DELETE_GPS_SVDIR_V02 = 0x1"
definition QMI_LOC_MASK_DELETE_POSITION_V02 :: u64 where "QMI_LOC_MASK_DELETE_POSITION_V02 = 0x400"
definition QMI_LOC_MASK_DELETE_TIME_V02 :: u64 where "QMI_LOC_MASK_DELETE_TIME_V02 = 0x800"
definition QMI_LOC_MASK_DELETE_IONO_V02 :: u64 where "QMI_LOC_MASK_DELETE_IONO_V02 = 0x1000"
definition QMI_LOC_MASK_DELETE_UTC_V02 :: u64 where "QMI_LOC_MASK_DELETE_UTC_V02 = 0x2000"
definition QMI_LOC_MASK_DELETE_HEALTH_V02 :: u64 where "QMI_LOC_MASK_DELETE_HEALTH_V02 = 0x4000"
definition QMI_LOC_MASK_DELETE_SADATA_V02 :: u64 where "QMI_LOC_MASK_DELETE_SADATA_V02 = 0x8000"
definition QMI_LOC_MASK_DELETE_RTI_V02 :: u64 where "QMI_LOC_MASK_DELETE_RTI_V02 = 0x10000"

text \<open>All ten flags of the cell database, the bits 0 to 9.\<close>

definition CELLDB_ALL :: u32 where "CELLDB_ALL = 0x3FF"

definition delete_table :: "(aiding_kind \<times> u64) list" where
  "delete_table = [(GPS_DELETE_POSITION, QMI_LOC_MASK_DELETE_POSITION_V02), (GPS_DELETE_TIME, QMI_LOC_MASK_DELETE_TIME_V02),
     (GPS_DELETE_IONO, QMI_LOC_MASK_DELETE_IONO_V02), (GPS_DELETE_UTC, QMI_LOC_MASK_DELETE_UTC_V02),
     (GPS_DELETE_HEALTH, QMI_LOC_MASK_DELETE_HEALTH_V02), (GPS_DELETE_SVDIR, QMI_LOC_MASK_DELETE_GPS_SVDIR_V02),
     (GPS_DELETE_SADATA, QMI_LOC_MASK_DELETE_SADATA_V02), (GPS_DELETE_RTI, QMI_LOC_MASK_DELETE_RTI_V02)]"

definition gnss_data_mask :: "(aiding_kind \<Rightarrow> bool) \<Rightarrow> u64 option" where
  "gnss_data_mask f =
     fold (\<lambda>(kind, bit) m. if f kind then Some ((case m of None \<Rightarrow> 0 | Some x \<Rightarrow> x) OR bit) else m) delete_table None"

definition sv_list :: "(aiding_kind \<Rightarrow> bool) \<Rightarrow> sv_info list option" where
  "sv_list f =
     (if f GPS_DELETE_EPHEMERIS \<or> f GPS_DELETE_ALMANAC
      then Some (map (\<lambda>i. \<lparr>gnssSvId = GPS_SV_ID_OFFSET + i, sv_system = eQMI_LOC_SV_SYSTEM_GPS_V02,
             sv_mask = (if f GPS_DELETE_EPHEMERIS then QMI_LOC_MASK_DELETE_EPHEMERIS_V02 else 0) OR
                       (if f GPS_DELETE_ALMANAC then QMI_LOC_MASK_DELETE_ALMANAC_V02 else 0)\<rparr>) [0..<SV_ID_RANGE])
      else None)"

definition delete_request :: "bool \<Rightarrow> (aiding_kind \<Rightarrow> bool) \<Rightarrow> delete_msg" where
  "delete_request all f =
     (if all then \<lparr>deleteAllFlag = True, deleteSvInfoList = None, deleteGnssDataMask = None, deleteCellDbDataMask = None\<rparr>
      else \<lparr>deleteAllFlag = False, deleteSvInfoList = sv_list f, deleteGnssDataMask = gnss_data_mask f,
            deleteCellDbDataMask = (if f GPS_DELETE_CELLDB_INFO then Some CELLDB_ALL else None)\<rparr>)"

definition deleteAidingData ::
  "'k loc_engine \<Rightarrow> bool \<Rightarrow> (aiding_kind \<Rightarrow> bool) \<Rightarrow> nat option \<Rightarrow> 'k loc_world \<Rightarrow> (loc_api_adapter_err \<times> 'k loc_world) outcome" where
  "deleteAidingData E all f h w = simple_request E h (DeleteAssistData (delete_request all f)) w"

subsection \<open>Predicted orbits in parts\<close>

definition QMI_LOC_MAX_PREDICTED_ORBITS_PART_LEN_V02 :: u32 where "QMI_LOC_MAX_PREDICTED_ORBITS_PART_LEN_V02 = 1024"

text \<open>The number of parts as the 16-bit counter holds it; the division truncates towards zero.\<close>

definition total_parts :: "int \<Rightarrow> 16 word" where
  "total_parts len = word_of_int ((len - 1) sdiv 1024 + 1)"

definition part_len :: "int \<Rightarrow> u32 \<Rightarrow> u32" where
  "part_len len injected =
     (let rest = word_of_int len - injected
      in if QMI_LOC_MAX_PREDICTED_ORBITS_PART_LEN_V02 > rest then rest else QMI_LOC_MAX_PREDICTED_ORBITS_PART_LEN_V02)"

text \<open>
  The loop over the parts: \<open>data\<close> is the buffer of the caller, reading behind its end is a
  fault. A part that fails is not sent again; the next one carries the same bytes.
\<close>

fun inject_parts ::
  "'k loc_engine \<Rightarrow> nat option \<Rightarrow> u8 list \<Rightarrow> int \<Rightarrow> 16 word list \<Rightarrow> u32 \<Rightarrow> locClientStatusEnumType \<Rightarrow> 'k loc_world \<Rightarrow>
     (locClientStatusEnumType \<times> 'k loc_world) outcome" where
  "inject_parts E h data len [] injected status w = Returns (status, w)"
| "inject_parts E h data len (part # parts) injected status w =
     (let plen = part_len len injected
      in if length data < unat injected + unat plen then Fault
         else bind_outcome
           (loc_sync E h (InjectPredictedOrbits
              \<lparr>totalSize = word_of_int len, totalParts = total_parts len, partNum = part,
               partData = take (unat plen) (drop (unat injected) data), formatType = eQMI_LOC_PREDICTED_ORBITS_XTRA_V02\<rparr>) zero_ind w)
           (\<lambda>((status, ind), w).
              inject_parts E h data len parts
                (if status \<noteq> eLOC_CLIENT_SUCCESS \<or> \<not> ind_success ind \<or> part \<noteq> ind_partNum ind
                 then injected else injected + plen) status w))"

text \<open>With 65535 parts the 16-bit part number never exceeds the total and the loop does not end.\<close>

definition setXtraData ::
  "'k loc_engine \<Rightarrow> u8 list \<Rightarrow> int \<Rightarrow> nat option \<Rightarrow> 'k loc_world \<Rightarrow> (loc_api_adapter_err \<times> 'k loc_world) outcome" where
  "setXtraData E data len h w =
     (if total_parts len = 0xFFFF then Blocked
      else bind_outcome
        (inject_parts E h data len (map of_nat [1..<Suc (unat (total_parts len))]) 0 eLOC_CLIENT_SUCCESS w)
        (\<lambda>(status, w). Returns (convertErr status, w)))"

subsection \<open>Certificates\<close>

definition QMI_LOC_MAX_SUPL_CERT_LENGTH_V02 :: nat where "QMI_LOC_MAX_SUPL_CERT_LENGTH_V02 = 2000"

text \<open>
  A certificate is its bytes or a null pointer; copying more than the message holds is a fault.
  \<open>rest\<close> are the certificates from the current one on.
\<close>

fun install_slots ::
  "'k loc_engine \<Rightarrow> nat option \<Rightarrow> nat list \<Rightarrow> u32 \<Rightarrow> u8 list option list \<Rightarrow> 'k loc_world \<Rightarrow> 'k loc_world outcome" where
  "install_slots E h [] slotBitMask rest w = Returns w"
| "install_slots E h (slot # more_slots) slotBitMask rest w =
     (if slotBitMask AND 1 \<noteq> 0
      then (case rest of
              Some (b # bs) # certs \<Rightarrow>
                if length (b # bs) > QMI_LOC_MAX_SUPL_CERT_LENGTH_V02 then Fault
                else bind_outcome (loc_sync E h (InjectSuplCertificate slot (b # bs)) zero_ind w)
                       (\<lambda>(r, w). install_slots E h more_slots (drop_bit 1 slotBitMask) certs w)
            | _ \<Rightarrow>
                bind_outcome (loc_sync E h (InjectSuplCertificate slot [1]) zero_ind w)
                  (\<lambda>(r, w). bind_outcome (loc_sync E h (DeleteSuplCertificate slot) zero_ind w)
                     (\<lambda>(r, w). install_slots E h more_slots (drop_bit 1 slotBitMask) rest w)))
      else install_slots E h more_slots (drop_bit 1 slotBitMask) rest w)"

text \<open>\<open>max_slots\<close> is \<^verbatim>\<open>AGPS_CERTIFICATE_MAX_SLOTS\<close> of a header outside the tree.\<close>

definition installAGpsCert ::
  "'k loc_engine \<Rightarrow> nat \<Rightarrow> u8 list option list \<Rightarrow> u32 \<Rightarrow> nat option \<Rightarrow> 'k loc_world \<Rightarrow> 'k loc_world outcome" where
  "installAGpsCert E max_slots pData slotBitMask h w = install_slots E h [0..<max_slots] slotBitMask pData w"

end
