(* ===== verification/Loc_Assist.thy ===== *)
theory Loc_Assist
  imports Loc_Inject
begin

unbundle bit_operations_syntax

text \<open>
  Facts about the requests of the location adapter that take several messages: predicted orbits
  reach the engine complete and in order, and certificates go to the writable slots in order.
\<close>

subsection \<open>Predicted orbits\<close>

text \<open>The parts of a file, as they are meant: 1024 bytes each, the last one what is left.\<close>

fun file_parts :: "u8 list \<Rightarrow> u8 list list" where
  "file_parts [] = []"
| "file_parts (b # bs) = take 1024 (b # bs) # file_parts (drop 1024 (b # bs))"

lemma file_parts_step: "xs \<noteq> [] \<Longrightarrow> file_parts xs = take 1024 xs # file_parts (drop 1024 xs)"
  by (cases xs) simp_all

lemma file_parts_concat [simp]: "concat (file_parts xs) = xs"
  by (induction xs rule: file_parts.induct) (simp_all del: take_Suc_Cons drop_Suc_Cons)

lemma file_parts_length: "length (file_parts xs) = (length xs + 1023) div 1024"
proof (induction xs rule: file_parts.induct)
  case (2 b bs)
  have "length (file_parts (b # bs)) = Suc ((length (b # bs) - 1024 + 1023) div 1024)"
    using 2 by simp
  then show ?case by (cases "length (b # bs) \<le> 1024") (simp_all add: div_if)
qed simp

lemma upt_add_Suc: "[m..<m + (n + Suc 0)] = m # [Suc m..<Suc m + n]"
  by (simp add: upt_conv_Cons)

definition orbits_msg :: "u8 list \<Rightarrow> nat \<times> u8 list \<Rightarrow> loc_req" where
  "orbits_msg data = (\<lambda>(i, bytes). InjectPredictedOrbits
     \<lparr>totalSize = of_nat (length data), totalParts = of_nat (length (file_parts data)), partNum = of_nat i, partData = bytes, formatType = eQMI_LOC_PREDICTED_ORBITS_XTRA_V02\<rparr>)"

text \<open>An engine that accepts every part and reports its number.\<close>

definition accepts_parts :: "'k loc_engine \<Rightarrow> bool" where
  "accepts_parts E \<longleftrightarrow> (\<forall>p i t k. \<exists>ind k'. sync_answer E (InjectPredictedOrbits p) i t k = ((eLOC_CLIENT_SUCCESS, ind), k') \<and>
      ind_success ind \<and> ind_partNum ind = partNum p)"

definition valid_handle :: "nat option \<Rightarrow> client \<Rightarrow> bool" where
  "valid_handle h c \<longleftrightarrow> (\<exists>d. check_handle h c = Returns (Some d))"

lemma total_parts_file: "data \<noteq> [] \<Longrightarrow> total_parts (int (length data)) = of_nat (length (file_parts data))"
proof -
  assume "data \<noteq> []"
  then obtain n where n: "length data = Suc n" by (cases data) auto
  have "(Suc n + 1023) div 1024 = n div 1024 + 1"
    using div_add_self1 [of 1024 n] by simp
  then have "(int (Suc n) - 1) sdiv 1024 + 1 = int ((Suc n + 1023) div 1024)"
    by (simp add: signed_divide_int_def zdiv_int sgn_if)
  then show ?thesis
    by (simp only: total_parts_def n file_parts_length of_int_of_nat_eq)
qed

lemma part_len_file:
  assumes "i \<le> length data" "length data < 2 ^ 32"
  shows "unat (part_len (int (length data)) (of_nat i)) = min 1024 (length data - i)"
proof -
  have "word_of_int (int (length data)) - of_nat i = (of_nat (length data - i) :: u32)"
    using assms by (simp add: of_nat_diff)
  moreover have "unat (of_nat (length data - i) :: u32) = length data - i"
    using assms by (simp add: unat_of_nat take_bit_nat_eq_self del: of_nat_diff)
  ultimately show ?thesis
    by (simp add: part_len_def Let_def QMI_LOC_MAX_PREDICTED_ORBITS_PART_LEN_V02_def word_less_nat_alt min_def)
qed

lemma sync_part:
  assumes "accepts_parts E" "valid_handle h (cl w)"
  obtains ind w' where "loc_sync E h (InjectPredictedOrbits p) i w = Returns ((eLOC_CLIENT_SUCCESS, ind), w')"
    "ind_success ind" "ind_partNum ind = partNum p" "cl w' = cl w" "requests w' = requests w @ [InjectPredictedOrbits p]"
proof -
  obtain ind k where a: "sync_answer E (InjectPredictedOrbits p) i LOC_ENGINE_SYNC_REQUEST_TIMEOUT (eng w) =
      ((eLOC_CLIENT_SUCCESS, ind), k)" "ind_success ind" "ind_partNum ind = partNum p"
    using assms(1) unfolding accepts_parts_def by blast
  then show thesis
    using assms(2) that by (auto simp: valid_handle_def loc_sync_def)
qed

lemma inject_parts_all:
  assumes "accepts_parts E" and small: "length data < 2 ^ 32" and "data \<noteq> []"
  shows "i \<le> length data \<Longrightarrow> bytes = drop i data \<Longrightarrow> valid_handle h (cl w) \<Longrightarrow>
    \<exists>w'. inject_parts E h data (int (length data)) (map of_nat [m..<m + length (file_parts bytes)]) (of_nat i) eLOC_CLIENT_SUCCESS w =
           Returns (eLOC_CLIENT_SUCCESS, w') \<and>
         requests w' = requests w @ map (orbits_msg data) (enumerate m (file_parts bytes))"
proof (induction bytes arbitrary: i m w rule: file_parts.induct)
  case 1
  then show ?case by simp
next
  case (2 b bs)
  let ?bytes = "b # bs" and ?l = "part_len (int (length data)) (of_nat i)"
  let ?j = "i + min 1024 (length data - i)"
  let ?p = "\<lparr>totalSize = word_of_int (int (length data)), totalParts = total_parts (int (length data)),
      partNum = of_nat m, partData = take (unat ?l) (drop (unat (of_nat i :: u32)) data), formatType = eQMI_LOC_PREDICTED_ORBITS_XTRA_V02\<rparr>"
  have i: "unat (of_nat i :: u32) = i" using 2(2) small by (simp add: unat_of_nat take_bit_nat_eq_self)
  have l: "unat ?l = min 1024 (length data - i)" using 2(2) small by (rule part_len_file)
  obtain ind w1 where s: "loc_sync E h (InjectPredictedOrbits ?p) zero_ind w = Returns ((eLOC_CLIENT_SUCCESS, ind), w1)"
    "ind_success ind" "ind_partNum ind = partNum ?p" "cl w1 = cl w" "requests w1 = requests w @ [InjectPredictedOrbits ?p]"
    using sync_part [OF assms(1) 2(4)] by metis
  have p: "InjectPredictedOrbits ?p = orbits_msg data (m, take 1024 ?bytes)"
    using 2(3) by (simp add: orbits_msg_def i l total_parts_file [OF assms(3)] min_def)
  have j: "?j \<le> length data" "drop 1024 ?bytes = drop ?j data"
    using 2(2) by (linarith, simp add: 2(3) min_def add.commute)
  have "(of_nat ?j :: u32) = of_nat i + of_nat (unat ?l)" by (simp only: l of_nat_add)
  then have inj: "of_nat i + ?l = of_nat ?j" by simp
  obtain w2 where w2: "inject_parts E h data (int (length data)) (map of_nat [Suc m..<Suc m + length (file_parts (drop 1024 ?bytes))])
      (of_nat ?j) eLOC_CLIENT_SUCCESS w1 = Returns (eLOC_CLIENT_SUCCESS, w2)"
    "requests w2 = requests w1 @ map (orbits_msg data) (enumerate (Suc m) (file_parts (drop 1024 ?bytes)))"
    using 2(1) [OF j(1) j(2)] s(4) 2(4) by metis
  have up: "[m..<m + length (file_parts ?bytes)] = m # [Suc m..<Suc m + length (file_parts (drop 1024 ?bytes))]"
    by (simp only: file_parts.simps upt_add_Suc list.size)
  have run: "inject_parts E h data (int (length data)) (of_nat m # ms) (of_nat i) eLOC_CLIENT_SUCCESS w =
      inject_parts E h data (int (length data)) ms (of_nat ?j) eLOC_CLIENT_SUCCESS w1" for ms
    using s(1,2,3) i l inj j(1) by (simp add: Let_def)
  show ?case
    unfolding up list.map run w2(1)
    using p w2(2) s(5) by (intro exI [of _ w2]) (simp add: enumerate_simps del: drop_Suc_Cons take_Suc_Cons)
qed

text \<open>
  C15. When the engine accepts the parts of a file of predicted orbits, the whole file reaches it:
  the call succeeds, and the messages it sends are the file cut into pieces of at most 1024
  bytes that give the file when put together, numbered from one in the order they are sent, each
  with the size of the file and the number of pieces.
\<close>

theorem xtra_data_complete:
  assumes "accepts_parts E" "valid_handle h (cl w)" "data \<noteq> []" "length data < 65534 * 1024"
  shows "\<exists>w' parts. setXtraData E data (int (length data)) h w = Returns (LOC_API_ADAPTER_ERR_SUCCESS, w') \<and>
    concat parts = data \<and> (\<forall>p \<in> set parts. 0 < length p \<and> length p \<le> 1024) \<and>
    requests w' = requests w @ map (\<lambda>(i, bytes). InjectPredictedOrbits
      \<lparr>totalSize = of_nat (length data), totalParts = of_nat (length parts), partNum = of_nat i, partData = bytes, formatType = eQMI_LOC_PREDICTED_ORBITS_XTRA_V02\<rparr>)
      (enumerate 1 parts)"
proof -
  have n: "length (file_parts data) < 65535"
    using assms(4) by (simp add: file_parts_length)
  then have u: "unat (of_nat (length (file_parts data)) :: 16 word) = length (file_parts data)"
    by (simp add: unat_of_nat take_bit_nat_eq_self)
  then have "of_nat (length (file_parts data)) \<noteq> (0xFFFF :: 16 word)" using n by auto
  moreover have "length data < 2 ^ 32" using assms(4) by simp
  then obtain w' where w': "inject_parts E h data (int (length data)) (map of_nat [1..<1 + length (file_parts data)]) (of_nat 0)
      eLOC_CLIENT_SUCCESS w = Returns (eLOC_CLIENT_SUCCESS, w')"
    "requests w' = requests w @ map (orbits_msg data) (enumerate 1 (file_parts data))"
    using inject_parts_all [OF assms(1) _ assms(3), of 0 data h w 1] assms(2) by auto
  ultimately have "setXtraData E data (int (length data)) h w = Returns (LOC_API_ADAPTER_ERR_SUCCESS, w')"
    by (simp add: setXtraData_def total_parts_file [OF assms(3)] u convertErr_def del: upt_Suc)
  moreover have "\<forall>p \<in> set (file_parts xs). 0 < length p \<and> length p \<le> 1024" for xs
    by (induction xs rule: file_parts.induct) (auto simp del: take_Suc_Cons drop_Suc_Cons)
  ultimately show ?thesis
    using w'(2) unfolding orbits_msg_def by (intro exI [of _ w'] exI [of _ "file_parts data"]) simp
qed

text \<open>An adapter that was opened has a valid handle.\<close>

lemma live_valid: "handle_live a c \<Longrightarrow> clientHandle a = Some p \<Longrightarrow> valid_handle (clientHandle a) c"
  by (auto simp: handle_live_def valid_handle_def check_handle_valid dest!: client_ok_handle)

definition echo_engine :: "nat loc_engine" where
  "echo_engine = demo_engine\<lparr>sync_answer := (\<lambda>r i t. Pair (eLOC_CLIENT_SUCCESS,
     case r of InjectPredictedOrbits p \<Rightarrow> i\<lparr>ind_success := True, ind_partNum := partNum p\<rparr> | _ \<Rightarrow> i))\<rparr>"

theorem xtra_data_complete_witness:
  "\<exists>r a w w'. run_opened = Returns (r, a, w) \<and>
     setXtraData echo_engine (replicate 1025 7) 1025 (clientHandle a) w = Returns (LOC_API_ADAPTER_ERR_SUCCESS, w')"
proof -
  obtain r a w where opened: "run_opened = Returns (r, a, w)" "clientHandle a = Some 1" "handle_live a (cl w)"
    by (rule run_opened_state)
  moreover have "accepts_parts echo_engine" by (simp add: accepts_parts_def echo_engine_def)
  moreover have "replicate 1025 7 \<noteq> ([] :: u8 list)" using replicate_empty [of 1025 "7 :: u8"] by linarith
  ultimately obtain w' where
    "setXtraData echo_engine (replicate 1025 7) (int (length (replicate 1025 (7 :: u8)))) (clientHandle a) w =
       Returns (LOC_API_ADAPTER_ERR_SUCCESS, w')"
    using xtra_data_complete [of echo_engine "clientHandle a" w "replicate 1025 7"] live_valid by auto
  with opened(1) show ?thesis by (simp only: length_replicate) auto
qed

subsection \<open>Certificates\<close>

definition usable_certs :: "u8 list option list \<Rightarrow> u8 list list" where
  "usable_certs certs = map the (takeWhile (\<lambda>c. c \<noteq> None \<and> c \<noteq> Some []) certs)"

lemma usable_certs_Some [simp]: "usable_certs (Some (b # bs) # certs) = (b # bs) # usable_certs certs"
  by (simp add: usable_certs_def)

lemma install_slots_cases:
  obtains "usable_certs certs = []" "\<nexists>b bs rest. certs = Some (b # bs) # rest"
  | b bs rest where "certs = Some (b # bs) # rest" "usable_certs certs = (b # bs) # usable_certs rest"
  by (cases certs; cases "hd certs"; cases "the (hd certs)") (auto simp: usable_certs_def)

fun writable_slots :: "nat list \<Rightarrow> u32 \<Rightarrow> nat list" where
  "writable_slots [] m = []"
| "writable_slots (s # ss) m = (if m AND 1 \<noteq> 0 then [s] else []) @ writable_slots ss (drop_bit 1 m)"

lemma writable_slots_bits: "writable_slots [k..<n] (drop_bit k m) = filter (bit m) [k..<n]"
proof (induction "n - k" arbitrary: k)
  case (Suc d)
  then have "[k..<n] = k # [Suc k..<n]" by (simp add: upt_conv_Cons)
  moreover have "drop_bit k m AND 1 \<noteq> 0 \<longleftrightarrow> bit m k"
    by (simp add: and_one_eq bit_iff_odd_drop_bit mod_2_eq_odd)
  ultimately show ?case using Suc(1) [of "Suc k"] Suc(2) by simp
qed simp

definition wipe_slot :: "nat \<Rightarrow> loc_req list" where
  "wipe_slot slot = [InjectSuplCertificate slot [1], DeleteSuplCertificate slot]"

lemma loc_sync_valid:
  assumes "valid_handle h (cl w)"
  obtains r w' where "loc_sync E h req i w = Returns (r, w')" "cl w' = cl w" "requests w' = requests w @ [req]"
  using assms that
  by (cases "sync_answer E req i LOC_ENGINE_SYNC_REQUEST_TIMEOUT (eng w)") (auto simp: valid_handle_def loc_sync_def)

lemma install_slots_effect:
  "valid_handle h (cl w) \<Longrightarrow> \<forall>c \<in> set (usable_certs certs). length c \<le> 2000 \<Longrightarrow>
   \<exists>w'. install_slots E h ss m certs w = Returns w' \<and>
     requests w' = requests w @ map2 InjectSuplCertificate (writable_slots ss m) (usable_certs certs) @
       concat (map wipe_slot (drop (length (usable_certs certs)) (writable_slots ss m)))"
proof (induction ss arbitrary: m certs w)
  case (Cons slot ss)
  consider "m AND 1 = 0" | "m AND 1 \<noteq> 0" "usable_certs certs = []"
    | b bs certs' where "m AND 1 \<noteq> 0" "certs = Some (b # bs) # certs'"
    by (cases certs rule: install_slots_cases) auto
  then show ?case
  proof cases
    case 1
    with Cons show ?thesis by simp
  next
    case 2
    obtain r1 w1 where s1: "loc_sync E h (InjectSuplCertificate slot [1]) zero_ind w = Returns (r1, w1)" "cl w1 = cl w"
      "requests w1 = requests w @ [InjectSuplCertificate slot [1]]"
      using loc_sync_valid [OF Cons(2)] by metis
    then obtain r2 w2 where s2: "loc_sync E h (DeleteSuplCertificate slot) zero_ind w1 = Returns (r2, w2)" "cl w2 = cl w1"
      "requests w2 = requests w1 @ [DeleteSuplCertificate slot]"
      using loc_sync_valid [of h w1] Cons(2) by metis
    have "install_slots E h (slot # ss) m certs w = install_slots E h ss (drop_bit 1 m) certs w2"
      using 2 s1(1) s2(1) by (cases certs rule: install_slots_cases) (simp_all split: list.split option.split)
    with Cons(1) [of w2 certs "drop_bit 1 m"] Cons(2) s1 s2 2 show ?thesis by (auto simp: wipe_slot_def)
  next
    case 3
    obtain r1 w1 where s1: "loc_sync E h (InjectSuplCertificate slot (b # bs)) zero_ind w = Returns (r1, w1)" "cl w1 = cl w"
      "requests w1 = requests w @ [InjectSuplCertificate slot (b # bs)]"
      using loc_sync_valid [OF Cons(2)] by metis
    with Cons(1) [of w1 certs' "drop_bit 1 m"] Cons(2,3) 3 show ?thesis
      by (auto simp: QMI_LOC_MAX_SUPL_CERT_LENGTH_V02_def)
  qed
qed simp

text \<open>
  C20. Certificates are installed in the order they are given: the usable ones, up to the first that
  is missing or empty, go to the writable slots from the lowest on, each slot once; every writable
  slot left over is written with a one byte certificate and deleted. One empty certificate
  therefore removes those behind it from the engine.
\<close>

theorem certs_installed:
  assumes "valid_handle h (cl w)" "\<forall>c \<in> set (usable_certs pData). length c \<le> 2000"
  shows "\<exists>w'. installAGpsCert E max_slots pData slotBitMask h w = Returns w' \<and>
    (let writable = filter (bit slotBitMask) [0..<max_slots]; certs = usable_certs pData
     in requests w' = requests w @ map2 InjectSuplCertificate writable certs @
          concat (map wipe_slot (drop (length certs) writable)))"
  using install_slots_effect [OF assms, of E "[0..<max_slots]" slotBitMask] writable_slots_bits [of 0 max_slots slotBitMask]
  by (simp add: installAGpsCert_def Let_def)

theorem certs_installed_witness:
  "\<exists>r a w w'. run_opened = Returns (r, a, w) \<and>
     installAGpsCert demo_engine 3 [Some [7, 8], Some [], Some [9]] 5 (clientHandle a) w = Returns w' \<and>
     requests w' = requests w @ [InjectSuplCertificate 0 [7, 8], InjectSuplCertificate 2 [1], DeleteSuplCertificate 2]"
proof -
  obtain r a w where opened: "run_opened = Returns (r, a, w)" "clientHandle a = Some 1" "handle_live a (cl w)"
    by (rule run_opened_state)
  have "filter (bit (5 :: u32)) [0..<3] = [0, 2]" by code_simp
  moreover have "usable_certs [Some [7, 8], Some [], Some [9]] = [[7, 8]]" by code_simp
  ultimately show ?thesis
    using certs_installed [of "clientHandle a" w "[Some [7, 8], Some [], Some [9]]" demo_engine 3 5] live_valid [OF opened(3,2)] opened(1)
    by (auto simp: wipe_slot_def)
qed

end
