(* ===== verification/Rmnet_Lib.thy ===== *)
theory Rmnet_Lib
  imports C_Prelude
begin

text \<open>
  \<^verbatim>\<open>src/opensource/dataservices/rmnetctl/src/librmnetctl.c\<close>: the control library of the rmnet
  driver. A request is a message of the netlink protocol of \<^verbatim>\<open>rmnet_data.h\<close>, kept here with
  its 64 bytes of payload, through which the members of the union are written and read. The
  kernel, the allocator and the process are an environment with a state of type \<open>'k\<close>; the
  world records the live heap blocks, the open descriptors and whether a block was freed
  that was not live. Structures on the stack start with arbitrary contents (\<open>junk\<close>).
\<close>

type_synonym u16 = "16 word"

subsection \<open>Constants\<close>

definition RMNETCTL_SUCCESS :: int where "RMNETCTL_SUCCESS = 0"
definition RMNETCTL_LIB_ERR :: int where "RMNETCTL_LIB_ERR = 1"
definition RMNETCTL_KERNEL_ERR :: int where "RMNETCTL_KERNEL_ERR = 2"
definition RMNETCTL_INVALID_ARG :: int where "RMNETCTL_INVALID_ARG = 3"

definition RMNETCTL_DEVICE_ASSOCIATE :: u8 where "RMNETCTL_DEVICE_ASSOCIATE = 1"
definition RMNETCTL_DEVICE_UNASSOCIATE :: u8 where "RMNETCTL_DEVICE_UNASSOCIATE = 0"
definition RMNETCTL_NEW_VND :: u8 where "RMNETCTL_NEW_VND = 1"
definition RMNETCTL_FREE_VND :: u8 where "RMNETCTL_FREE_VND = 0"
definition RMNETCTL_ADD_FLOW :: u8 where "RMNETCTL_ADD_FLOW = 1"
definition RMNETCTL_DEL_FLOW :: u8 where "RMNETCTL_DEL_FLOW = 0"

definition RMNETCTL_API_ERR_MESSAGE_SEND :: u16 where "RMNETCTL_API_ERR_MESSAGE_SEND = 3"
definition RMNETCTL_API_ERR_MESSAGE_RECEIVE :: u16 where "RMNETCTL_API_ERR_MESSAGE_RECEIVE = 4"
definition RMNETCTL_INIT_ERR_PROCESS_ID :: u16 where "RMNETCTL_INIT_ERR_PROCESS_ID = 5"
definition RMNETCTL_INIT_ERR_NETLINK_FD :: u16 where "RMNETCTL_INIT_ERR_NETLINK_FD = 6"
definition RMNETCTL_INIT_ERR_BIND :: u16 where "RMNETCTL_INIT_ERR_BIND = 7"
definition RMNETCTL_API_ERR_HNDL_INVALID :: u16 where "RMNETCTL_API_ERR_HNDL_INVALID = 9"
definition RMNETCTL_API_ERR_REQUEST_NULL :: u16 where "RMNETCTL_API_ERR_REQUEST_NULL = 10"
definition RMNETCTL_API_ERR_RESPONSE_NULL :: u16 where "RMNETCTL_API_ERR_RESPONSE_NULL = 11"
definition RMNETCTL_API_ERR_MESSAGE_TYPE :: u16 where "RMNETCTL_API_ERR_MESSAGE_TYPE = 12"
definition RMNETCTL_API_ERR_RETURN_TYPE :: u16 where "RMNETCTL_API_ERR_RETURN_TYPE = 13"
definition RMNETCTL_API_ERR_STRING_TRUNCATION :: u16 where "RMNETCTL_API_ERR_STRING_TRUNCATION = 14"
definition RMNETCTL_KERNEL_FIRST_ERR :: u16 where "RMNETCTL_KERNEL_FIRST_ERR = 15"
definition RMNETCTL_API_ERR_ENUM_LENGTH :: nat where "RMNETCTL_API_ERR_ENUM_LENGTH = 25"

lemmas rmnet_errors =
  RMNETCTL_API_ERR_MESSAGE_SEND_def RMNETCTL_API_ERR_MESSAGE_RECEIVE_def RMNETCTL_INIT_ERR_PROCESS_ID_def
  RMNETCTL_INIT_ERR_NETLINK_FD_def RMNETCTL_INIT_ERR_BIND_def RMNETCTL_API_ERR_HNDL_INVALID_def
  RMNETCTL_API_ERR_REQUEST_NULL_def RMNETCTL_API_ERR_RESPONSE_NULL_def RMNETCTL_API_ERR_MESSAGE_TYPE_def
  RMNETCTL_API_ERR_RETURN_TYPE_def RMNETCTL_API_ERR_STRING_TRUNCATION_def RMNETCTL_KERNEL_FIRST_ERR_def

lemmas rmnet_codes = RMNETCTL_SUCCESS_def RMNETCTL_LIB_ERR_def RMNETCTL_KERNEL_ERR_def RMNETCTL_INVALID_ARG_def

definition RMNET_MAX_STR_LEN :: nat where "RMNET_MAX_STR_LEN = 16"
definition RMNET_NL_DATA_MAX_LEN :: nat where "RMNET_NL_DATA_MAX_LEN = 64"
definition RMNET_NETLINK_MSG_COMMAND :: "2 word" where "RMNET_NETLINK_MSG_COMMAND = 0"
definition RMNET_NETLINK_MSG_RETURNCODE :: "2 word" where "RMNET_NETLINK_MSG_RETURNCODE = 1"
definition RMNET_NETLINK_MSG_RETURNDATA :: "2 word" where "RMNET_NETLINK_MSG_RETURNDATA = 2"

definition RMNET_NETLINK_ASSOCIATE_NETWORK_DEVICE :: u16 where "RMNET_NETLINK_ASSOCIATE_NETWORK_DEVICE = 0"
definition RMNET_NETLINK_UNASSOCIATE_NETWORK_DEVICE :: u16 where "RMNET_NETLINK_UNASSOCIATE_NETWORK_DEVICE = 1"
definition RMNET_NETLINK_GET_NETWORK_DEVICE_ASSOCIATED :: u16 where "RMNET_NETLINK_GET_NETWORK_DEVICE_ASSOCIATED = 2"
definition RMNET_NETLINK_SET_LINK_EGRESS_DATA_FORMAT :: u16 where "RMNET_NETLINK_SET_LINK_EGRESS_DATA_FORMAT = 3"
definition RMNET_NETLINK_GET_LINK_EGRESS_DATA_FORMAT :: u16 where "RMNET_NETLINK_GET_LINK_EGRESS_DATA_FORMAT = 4"
definition RMNET_NETLINK_SET_LINK_INGRESS_DATA_FORMAT :: u16 where "RMNET_NETLINK_SET_LINK_INGRESS_DATA_FORMAT = 5"
definition RMNET_NETLINK_GET_LINK_INGRESS_DATA_FORMAT :: u16 where "RMNET_NETLINK_GET_LINK_INGRESS_DATA_FORMAT = 6"
definition RMNET_NETLINK_SET_LOGICAL_EP_CONFIG :: u16 where "RMNET_NETLINK_SET_LOGICAL_EP_CONFIG = 7"
definition RMNET_NETLINK_UNSET_LOGICAL_EP_CONFIG :: u16 where "RMNET_NETLINK_UNSET_LOGICAL_EP_CONFIG = 8"
definition RMNET_NETLINK_GET_LOGICAL_EP_CONFIG :: u16 where "RMNET_NETLINK_GET_LOGICAL_EP_CONFIG = 9"
definition RMNET_NETLINK_NEW_VND :: u16 where "RMNET_NETLINK_NEW_VND = 10"
definition RMNET_NETLINK_NEW_VND_WITH_PREFIX :: u16 where "RMNET_NETLINK_NEW_VND_WITH_PREFIX = 11"
definition RMNET_NETLINK_GET_VND_NAME :: u16 where "RMNET_NETLINK_GET_VND_NAME = 12"
definition RMNET_NETLINK_FREE_VND :: u16 where "RMNET_NETLINK_FREE_VND = 13"
definition RMNET_NETLINK_ADD_VND_TC_FLOW :: u16 where "RMNET_NETLINK_ADD_VND_TC_FLOW = 14"
definition RMNET_NETLINK_DEL_VND_TC_FLOW :: u16 where "RMNET_NETLINK_DEL_VND_TC_FLOW = 15"
definition RMNET_EPMODE_LENGTH :: u8 where "RMNET_EPMODE_LENGTH = 3"
definition RMNET_CONFIG_OK :: u16 where "RMNET_CONFIG_OK = 0"

text \<open>The union of the flag bits 0 to 6 and 0 to 5.\<close>

definition INGRESS_FLAGS_MASK :: u32 where "INGRESS_FLAGS_MASK = 0x7F"
definition EGRESS_FLAGS_MASK :: u32 where "EGRESS_FLAGS_MASK = 0x3F"

subsection \<open>Messages\<close>

text \<open>\<open>nl_ret\<close> is the union of \<^verbatim>\<open>arg_length\<close> and \<^verbatim>\<open>return_code\<close>.\<close>

record nl_msg =
  nl_reserved :: u16
  message_type :: u16
  nl_reserved2 :: "14 word"
  crd :: "2 word"
  nl_ret :: u16
  nl_data :: "u8 list"

record nl_hdr =
  nlmsg_seq :: u32
  nlmsg_pid :: u32
  nlmsg_len :: nat

definition MAX_BUF_SIZE :: nat where "MAX_BUF_SIZE = 16 + 72"

definition le16 :: "u16 \<Rightarrow> u8 list" where
  "le16 w = [ucast w, ucast (drop_bit 8 w)]"

fun le16_of :: "u8 list \<Rightarrow> u16" where
  "le16_of (b0 # b1 # _) = ucast b0 + push_bit 8 (ucast b1)"
| "le16_of _ = 0"

text \<open>\<^verbatim>\<open>strlcpy\<close> to an offset: the length of the source, and at most \<open>n - 1\<close> bytes with a zero behind them.\<close>

definition strlcpy_at :: "nat \<Rightarrow> u8 list \<Rightarrow> nat \<Rightarrow> u8 list \<Rightarrow> nat \<times> u8 list" where
  "strlcpy_at off src n d = (length src, if n = 0 then d else put_at off (take (n - 1) src @ [0]) d)"

definition c_str :: "u8 list \<Rightarrow> u8 list" where
  "c_str bs = takeWhile (\<lambda>b. b \<noteq> 0) bs"

subsection \<open>The world\<close>

record sockaddr_nl =
  nl_family :: nat
  nl_pid :: u32
  nl_groups :: u32

record rmnetctl_hndl_s =
  h_pid :: u32
  transaction_id :: u32
  netlink_fd :: int
  src_addr :: sockaddr_nl
  dest_addr :: sockaddr_nl

record 'k nl_world =
  kst :: 'k
  hmem :: "nat \<Rightarrow> rmnetctl_hndl_s"
  blocks :: "nat list"
  next_block :: nat
  bad_free :: bool
  fds :: "int list"

text \<open>\<open>e_send\<close> is \<^verbatim>\<open>sendto\<close> and \<open>e_recv\<close> \<^verbatim>\<open>recvfrom\<close>, whose failure is \<open>None\<close>.\<close>

record 'k nl_env =
  e_malloc :: "nat \<Rightarrow> bool"
  e_pid :: int
  e_socket :: int
  e_bind :: bool
  e_send :: "'k \<Rightarrow> nl_hdr \<Rightarrow> nl_msg \<Rightarrow> bool \<times> 'k"
  e_recv :: "'k \<Rightarrow> nl_msg option \<times> 'k"

definition c_malloc :: "'k nl_env \<Rightarrow> 'k nl_world \<Rightarrow> nat option \<times> 'k nl_world" where
  "c_malloc env w =
     (let b = next_block w; w' = w\<lparr>next_block := b + 1\<rparr> in
      if e_malloc env b then (Some b, w'\<lparr>blocks := b # blocks w\<rparr>) else (None, w'))"

definition c_free :: "nat option \<Rightarrow> 'k nl_world \<Rightarrow> 'k nl_world" where
  "c_free p w =
     (case p of
        None \<Rightarrow> w
      | Some b \<Rightarrow> if b \<in> set (blocks w) then w\<lparr>blocks := remove1 b (blocks w)\<rparr> else w\<lparr>bad_free := True\<rparr>)"

definition c_close :: "int \<Rightarrow> 'k nl_world \<Rightarrow> 'k nl_world" where
  "c_close fd w = w\<lparr>fds := remove1 fd (fds w)\<rparr>"

subsection \<open>A transaction\<close>

definition free_both :: "nat option \<Rightarrow> nat option \<Rightarrow> 'k nl_world \<Rightarrow> 'k nl_world" where
  "free_both request_buf response_buf w = c_free response_buf (c_free request_buf w)"

text \<open>The message as it is sent, and the handle's transaction counter.\<close>

definition nl_request :: "rmnetctl_hndl_s \<Rightarrow> nl_msg \<Rightarrow> nl_hdr \<times> nl_msg" where
  "nl_request h request =
     (\<lparr>nlmsg_seq = transaction_id h, nlmsg_pid = h_pid h, nlmsg_len = MAX_BUF_SIZE\<rparr>,
      request\<lparr>crd := RMNET_NETLINK_MSG_COMMAND\<rparr>)"

definition rmnetctl_transact ::
    "'k nl_env \<Rightarrow> nat option \<Rightarrow> nl_msg option \<Rightarrow> nl_msg option \<Rightarrow> 'k nl_world \<Rightarrow>
     u16 \<times> nl_msg option \<times> 'k nl_world" where
  "rmnetctl_transact env hndl request response w =
     (case hndl of
        None \<Rightarrow> (RMNETCTL_API_ERR_HNDL_INVALID, response, free_both None None w)
      | Some h \<Rightarrow>
     (case request of
        None \<Rightarrow> (RMNETCTL_API_ERR_REQUEST_NULL, response, free_both None None w)
      | Some req \<Rightarrow>
     if response = None then (RMNETCTL_API_ERR_RESPONSE_NULL, response, free_both None None w)
     else
     (case c_malloc env w of (request_buf, w1) \<Rightarrow>
      if request_buf = None then (RMNETCTL_API_ERR_REQUEST_NULL, response, free_both request_buf None w1)
      else
      (case c_malloc env w1 of (response_buf, w2) \<Rightarrow>
       if response_buf = None
       then (RMNETCTL_API_ERR_RESPONSE_NULL, response, free_both request_buf response_buf (c_free request_buf w2))
       else
       (let hd0 = hmem w2 h;
            (hdr, msg) = nl_request hd0 req;
            w3 = w2\<lparr>hmem := (hmem w2)(h := hd0\<lparr>transaction_id := transaction_id hd0 + 1\<rparr>)\<rparr>;
            (sent_ok, k1) = e_send env (kst w3) hdr msg;
            w4 = w3\<lparr>kst := k1\<rparr>
        in
        if \<not> sent_ok
        then (RMNETCTL_API_ERR_MESSAGE_SEND, response,
              free_both request_buf response_buf (free_both request_buf response_buf w4))
        else
        (let (reply, k2) = e_recv env (kst w4); w5 = w4\<lparr>kst := k2\<rparr> in
         case reply of
           None \<Rightarrow> (RMNETCTL_API_ERR_MESSAGE_RECEIVE, response,
              free_both request_buf response_buf (free_both request_buf response_buf w5))
         | Some resp \<Rightarrow>
             if message_type req \<noteq> message_type resp
             then (RMNETCTL_API_ERR_MESSAGE_TYPE, Some resp,
               free_both request_buf response_buf (free_both request_buf response_buf w5))
             else (0, Some resp, free_both request_buf response_buf w5)))))))"

subsection \<open>Checks\<close>

definition rmnetctl_check_dev_name :: "u8 list option \<Rightarrow> int" where
  "rmnetctl_check_dev_name dev_name =
     (case dev_name of
        None \<Rightarrow> RMNETCTL_INVALID_ARG
      | Some s \<Rightarrow> if length s \<ge> RMNET_MAX_STR_LEN then RMNETCTL_INVALID_ARG else RMNETCTL_SUCCESS)"

definition rmnetctl_check_len :: "nat \<Rightarrow> u16 \<Rightarrow> int \<times> u16" where
  "rmnetctl_check_len str_len error_code =
     (if str_len > RMNET_MAX_STR_LEN then (RMNETCTL_LIB_ERR, RMNETCTL_API_ERR_STRING_TRUNCATION)
      else (RMNETCTL_SUCCESS, error_code))"

definition rmnetctl_check_code :: "2 word \<Rightarrow> u16 \<Rightarrow> int \<times> u16" where
  "rmnetctl_check_code c error_code =
     (if c \<noteq> RMNET_NETLINK_MSG_RETURNCODE then (RMNETCTL_LIB_ERR, RMNETCTL_API_ERR_RETURN_TYPE)
      else (RMNETCTL_SUCCESS, error_code))"

definition rmnetctl_check_data :: "2 word \<Rightarrow> u16 \<Rightarrow> int \<times> u16" where
  "rmnetctl_check_data c error_code =
     (if c \<noteq> RMNET_NETLINK_MSG_RETURNDATA then (RMNETCTL_LIB_ERR, RMNETCTL_API_ERR_RETURN_TYPE)
      else (RMNETCTL_SUCCESS, error_code))"

definition rmnetctl_set_codes :: "u16 \<Rightarrow> u16 \<Rightarrow> int \<times> u16" where
  "rmnetctl_set_codes error_val error_code =
     (if error_val = RMNET_CONFIG_OK then (RMNETCTL_SUCCESS, error_code)
      else (RMNETCTL_KERNEL_ERR, error_val + RMNETCTL_KERNEL_FIRST_ERR))"

subsection \<open>Handles\<close>

definition zero_hndl :: rmnetctl_hndl_s where
  "zero_hndl = \<lparr>h_pid = 0, transaction_id = 0, netlink_fd = 0,
     src_addr = \<lparr>nl_family = 0, nl_pid = 0, nl_groups = 0\<rparr>,
     dest_addr = \<lparr>nl_family = 0, nl_pid = 0, nl_groups = 0\<rparr>\<rparr>"

definition AF_NETLINK :: nat where "AF_NETLINK = 16"

text \<open>
  \<open>out\<close> says whether the pointer to the handle is not null. The result has the return code,
  the error code, the pointer stored and the world; after a failure that pointer is stale.
\<close>

definition rmnetctl_init ::
    "'k nl_env \<Rightarrow> bool \<Rightarrow> u16 option \<Rightarrow> 'k nl_world \<Rightarrow> int \<times> u16 option \<times> nat option \<times> 'k nl_world" where
  "rmnetctl_init env out error_code w =
     (if \<not> out \<or> error_code = None then (RMNETCTL_INVALID_ARG, error_code, None, w)
      else
      (case c_malloc env w of
         (None, w1) \<Rightarrow> (RMNETCTL_LIB_ERR, Some RMNETCTL_API_ERR_HNDL_INVALID, None, w1)
       | (Some h, w1) \<Rightarrow>
         if e_pid env < 0
         then (RMNETCTL_LIB_ERR, Some RMNETCTL_INIT_ERR_PROCESS_ID, Some h,
               c_free (Some h) (w1\<lparr>hmem := (hmem w1)(h := zero_hndl)\<rparr>))
         else
         (let pid = word_of_int (e_pid env);
              h1 = zero_hndl\<lparr>h_pid := pid\<rparr>
          in
          if e_socket env < 0
          then (RMNETCTL_LIB_ERR, Some RMNETCTL_INIT_ERR_NETLINK_FD, Some h,
                c_free (Some h) (w1\<lparr>hmem := (hmem w1)(h := h1)\<rparr>))
          else
          (let fd = e_socket env;
               h2 = h1\<lparr>netlink_fd := fd, src_addr := \<lparr>nl_family = AF_NETLINK, nl_pid = pid, nl_groups = 0\<rparr>\<rparr>;
               w2 = w1\<lparr>hmem := (hmem w1)(h := h2), fds := fd # fds w1\<rparr>
           in
           if \<not> e_bind env
           then (RMNETCTL_LIB_ERR, Some RMNETCTL_INIT_ERR_BIND, Some h, c_free (Some h) (c_close fd w2))
           else (RMNETCTL_SUCCESS, error_code, Some h,
                 w2\<lparr>hmem := (hmem w2)(h := h2\<lparr>dest_addr := \<lparr>nl_family = AF_NETLINK, nl_pid = 0, nl_groups = 0\<rparr>\<rparr>)\<rparr>)))))"

definition rmnetctl_cleanup :: "nat option \<Rightarrow> 'k nl_world \<Rightarrow> 'k nl_world" where
  "rmnetctl_cleanup hndl w =
     (case hndl of None \<Rightarrow> w | Some h \<Rightarrow> c_free (Some h) (c_close (netlink_fd (hmem w h)) w))"

end
