(* ===== verification/Rmnet_Api.thy ===== *)
theory Rmnet_Api
  imports Rmnet_Lib
begin

text \<open>
  The calls of \<^verbatim>\<open>librmnetctl.c\<close> that talk to the driver. Every call takes the environment, the
  contents of its two structures on the stack, the handle, its arguments, the error code
  (\<open>None\<close> for a null pointer) and the world; output parameters are \<open>None\<close> where the call leaves
  them as they were.
\<close>

subsection \<open>The end of a call\<close>

text \<open>The transaction and the evaluation of a reply that carries a return code.\<close>

definition reply_code ::
    "'k nl_env \<Rightarrow> nat option \<Rightarrow> nl_msg \<Rightarrow> nl_msg \<Rightarrow> 'k nl_world \<Rightarrow> int \<times> u16 option \<times> 'k nl_world" where
  "reply_code env hndl request junk w =
     (case rmnetctl_transact env hndl (Some request) (Some junk) w of (err, response, w') \<Rightarrow>
      if err \<noteq> 0 then (RMNETCTL_LIB_ERR, Some err, w')
      else
      (case rmnetctl_check_code (crd (the response)) err of (rc, err1) \<Rightarrow>
       if rc \<noteq> RMNETCTL_SUCCESS then (RMNETCTL_LIB_ERR, Some err1, w')
       else (case rmnetctl_set_codes (nl_ret (the response)) err1 of (rc', err2) \<Rightarrow> (rc', Some err2, w'))))"

text \<open>The same for a reply that carries data; the reply is returned when there are data in it.\<close>

definition reply_data ::
    "'k nl_env \<Rightarrow> nat option \<Rightarrow> nl_msg \<Rightarrow> nl_msg \<Rightarrow> 'k nl_world \<Rightarrow>
     int \<times> u16 \<times> nl_msg option \<times> 'k nl_world" where
  "reply_data env hndl request junk w =
     (case rmnetctl_transact env hndl (Some request) (Some junk) w of (err, response, w') \<Rightarrow>
      if err \<noteq> 0 then (RMNETCTL_LIB_ERR, err, None, w')
      else
      (case rmnetctl_check_data (crd (the response)) err of (rc, err1) \<Rightarrow>
       if rc \<noteq> RMNETCTL_SUCCESS then
         (case rmnetctl_check_code (crd (the response)) err1 of (rc2, err2) \<Rightarrow>
          if rc2 = RMNETCTL_SUCCESS
          then (case rmnetctl_set_codes (nl_ret (the response)) err2 of (rc3, err3) \<Rightarrow> (rc3, err3, None, w'))
          else (RMNETCTL_LIB_ERR, err2, None, w'))
       else (RMNETCTL_SUCCESS, err1, response, w')))"

subsection \<open>Association of devices\<close>

definition rmnet_associate_network_device ::
    "'k nl_env \<Rightarrow> nl_msg \<Rightarrow> nl_msg \<Rightarrow> nat option \<Rightarrow> u8 list option \<Rightarrow> u16 option \<Rightarrow> u8 \<Rightarrow> 'k nl_world \<Rightarrow>
     int \<times> u16 option \<times> 'k nl_world" where
  "rmnet_associate_network_device env junk junk' hndl dev_name error_code assoc_dev w =
     (if hndl = None \<or> error_code = None \<or> rmnetctl_check_dev_name dev_name \<noteq> RMNETCTL_SUCCESS \<or>
         (assoc_dev \<noteq> RMNETCTL_DEVICE_ASSOCIATE \<and> assoc_dev \<noteq> RMNETCTL_DEVICE_UNASSOCIATE)
      then (RMNETCTL_INVALID_ARG, error_code, w)
      else
      (let ty = (if assoc_dev = RMNETCTL_DEVICE_ASSOCIATE then RMNET_NETLINK_ASSOCIATE_NETWORK_DEVICE
                 else RMNET_NETLINK_UNASSOCIATE_NETWORK_DEVICE);
           (str_len, d) = strlcpy_at 0 (the dev_name) RMNET_MAX_STR_LEN (nl_data junk);
           request = junk\<lparr>message_type := ty, nl_ret := 16, nl_data := d\<rparr>
       in case rmnetctl_check_len str_len (the error_code) of (rc, e) \<Rightarrow>
          if rc \<noteq> RMNETCTL_SUCCESS then (RMNETCTL_LIB_ERR, Some e, w)
          else reply_code env hndl request junk' w))"

definition rmnet_get_network_device_associated ::
    "'k nl_env \<Rightarrow> nl_msg \<Rightarrow> nl_msg \<Rightarrow> nat option \<Rightarrow> u8 list option \<Rightarrow> bool \<Rightarrow> u16 option \<Rightarrow> 'k nl_world \<Rightarrow>
     int \<times> u16 option \<times> int option \<times> 'k nl_world" where
  "rmnet_get_network_device_associated env junk junk' hndl dev_name register_status error_code w =
     (if hndl = None \<or> \<not> register_status \<or> error_code = None \<or>
         rmnetctl_check_dev_name dev_name \<noteq> RMNETCTL_SUCCESS
      then (RMNETCTL_INVALID_ARG, error_code, None, w)
      else
      (let (str_len, d) = strlcpy_at 0 (the dev_name) RMNET_MAX_STR_LEN (nl_data junk);
           request = junk\<lparr>message_type := RMNET_NETLINK_GET_NETWORK_DEVICE_ASSOCIATED, nl_ret := 16, nl_data := d\<rparr>
       in case rmnetctl_check_len str_len (the error_code) of (rc, e) \<Rightarrow>
          if rc \<noteq> RMNETCTL_SUCCESS then (RMNETCTL_LIB_ERR, Some e, None, w)
          else (case reply_data env hndl request junk' w of (rc', e', resp, w') \<Rightarrow>
            (rc', Some e', map_option (\<lambda>m. uint (nl_ret m)) resp, w'))))"

subsection \<open>Data formats\<close>

text \<open>The members \<^verbatim>\<open>data_format\<close> and \<^verbatim>\<open>local_ep_config\<close> of the union, by their offsets.\<close>

definition get_flags :: "u8 list \<Rightarrow> u32" where "get_flags d = le32_of (bytes_at 16 4 d)"
definition get_agg_size :: "u8 list \<Rightarrow> u16" where "get_agg_size d = le16_of (bytes_at 20 2 d)"
definition get_agg_count :: "u8 list \<Rightarrow> u16" where "get_agg_count d = le16_of (bytes_at 22 2 d)"
definition get_tail_spacing :: "u8 list \<Rightarrow> u8" where "get_tail_spacing d = d ! 24"

definition rmnet_set_link_egress_data_format ::
    "'k nl_env \<Rightarrow> nl_msg \<Rightarrow> nl_msg \<Rightarrow> nat option \<Rightarrow> u32 \<Rightarrow> u16 \<Rightarrow> u16 \<Rightarrow> u8 list option \<Rightarrow> u16 option \<Rightarrow>
     'k nl_world \<Rightarrow> int \<times> u16 option \<times> 'k nl_world" where
  "rmnet_set_link_egress_data_format env junk junk' hndl egress_flags agg_size agg_count dev_name error_code w =
     (if hndl = None \<or> error_code = None \<or> rmnetctl_check_dev_name dev_name \<noteq> RMNETCTL_SUCCESS \<or>
         and (not EGRESS_FLAGS_MASK) egress_flags \<noteq> 0
      then (RMNETCTL_INVALID_ARG, error_code, w)
      else
      (let (str_len, d) = strlcpy_at 0 (the dev_name) RMNET_MAX_STR_LEN (nl_data junk) in
       case rmnetctl_check_len str_len (the error_code) of (rc, e) \<Rightarrow>
         if rc \<noteq> RMNETCTL_SUCCESS then (RMNETCTL_LIB_ERR, Some e, w)
         else reply_code env hndl
           (junk\<lparr>message_type := RMNET_NETLINK_SET_LINK_EGRESS_DATA_FORMAT, nl_ret := 16 + 4 + 2 + 2,
              nl_data := put_at 22 (le16 agg_count) (put_at 20 (le16 agg_size) (put_at 16 (le32 egress_flags) d))\<rparr>)
           junk' w))"

definition rmnet_get_link_egress_data_format ::
    "'k nl_env \<Rightarrow> nl_msg \<Rightarrow> nl_msg \<Rightarrow> nat option \<Rightarrow> u8 list option \<Rightarrow> bool \<Rightarrow> bool \<Rightarrow> bool \<Rightarrow> u16 option \<Rightarrow>
     'k nl_world \<Rightarrow> int \<times> u16 option \<times> (u32 \<times> u16 \<times> u16) option \<times> 'k nl_world" where
  "rmnet_get_link_egress_data_format env junk junk' hndl dev_name egress_flags agg_size agg_count error_code w =
     (if hndl = None \<or> \<not> egress_flags \<or> \<not> agg_size \<or> \<not> agg_count \<or> error_code = None \<or>
         rmnetctl_check_dev_name dev_name \<noteq> RMNETCTL_SUCCESS
      then (RMNETCTL_INVALID_ARG, error_code, None, w)
      else
      (let (str_len, d) = strlcpy_at 0 (the dev_name) RMNET_MAX_STR_LEN (nl_data junk);
           request = junk\<lparr>message_type := RMNET_NETLINK_GET_LINK_EGRESS_DATA_FORMAT, nl_ret := 16, nl_data := d\<rparr>
       in case rmnetctl_check_len str_len (the error_code) of (rc, e) \<Rightarrow>
          if rc \<noteq> RMNETCTL_SUCCESS then (RMNETCTL_LIB_ERR, Some e, None, w)
          else (case reply_data env hndl request junk' w of (rc', e', resp, w') \<Rightarrow>
            (rc', Some e',
             map_option (\<lambda>m. (get_flags (nl_data m), get_agg_size (nl_data m), get_agg_count (nl_data m))) resp,
             w'))))"

definition rmnet_set_link_ingress_data_format_tailspace ::
    "'k nl_env \<Rightarrow> nl_msg \<Rightarrow> nl_msg \<Rightarrow> nat option \<Rightarrow> u32 \<Rightarrow> u8 \<Rightarrow> u8 list option \<Rightarrow> u16 option \<Rightarrow>
     'k nl_world \<Rightarrow> int \<times> u16 option \<times> 'k nl_world" where
  "rmnet_set_link_ingress_data_format_tailspace env junk junk' hndl ingress_flags tail_spacing dev_name error_code w =
     (if hndl = None \<or> error_code = None \<or> rmnetctl_check_dev_name dev_name \<noteq> RMNETCTL_SUCCESS \<or>
         and (not INGRESS_FLAGS_MASK) ingress_flags \<noteq> 0
      then (RMNETCTL_INVALID_ARG, error_code, w)
      else
      (let (str_len, d) = strlcpy_at 0 (the dev_name) RMNET_MAX_STR_LEN (nl_data junk) in
       case rmnetctl_check_len str_len (the error_code) of (rc, e) \<Rightarrow>
         if rc \<noteq> RMNETCTL_SUCCESS then (RMNETCTL_LIB_ERR, Some e, w)
         else reply_code env hndl
           (junk\<lparr>message_type := RMNET_NETLINK_SET_LINK_INGRESS_DATA_FORMAT, nl_ret := 16 + 4 + 2 + 2,
              nl_data := put_at 24 [tail_spacing] (put_at 16 (le32 ingress_flags) d)\<rparr>)
           junk' w))"

text \<open>The two output pointers may be null.\<close>

definition rmnet_get_link_ingress_data_format_tailspace ::
    "'k nl_env \<Rightarrow> nl_msg \<Rightarrow> nl_msg \<Rightarrow> nat option \<Rightarrow> u8 list option \<Rightarrow> bool \<Rightarrow> bool \<Rightarrow> u16 option \<Rightarrow>
     'k nl_world \<Rightarrow> int \<times> u16 option \<times> (u32 option \<times> u8 option) \<times> 'k nl_world" where
  "rmnet_get_link_ingress_data_format_tailspace env junk junk' hndl dev_name ingress_flags tail_spacing error_code w =
     (if hndl = None \<or> error_code = None \<or> rmnetctl_check_dev_name dev_name \<noteq> RMNETCTL_SUCCESS
      then (RMNETCTL_INVALID_ARG, error_code, (None, None), w)
      else
      (let (str_len, d) = strlcpy_at 0 (the dev_name) RMNET_MAX_STR_LEN (nl_data junk);
           request = junk\<lparr>message_type := RMNET_NETLINK_GET_LINK_INGRESS_DATA_FORMAT, nl_ret := 16, nl_data := d\<rparr>
       in case rmnetctl_check_len str_len (the error_code) of (rc, e) \<Rightarrow>
          if rc \<noteq> RMNETCTL_SUCCESS then (RMNETCTL_LIB_ERR, Some e, (None, None), w)
          else (case reply_data env hndl request junk' w of (rc', e', resp, w') \<Rightarrow>
            (rc', Some e',
             (case resp of None \<Rightarrow> (None, None)
              | Some m \<Rightarrow> (if ingress_flags then Some (get_flags (nl_data m)) else None,
                           if tail_spacing then Some (get_tail_spacing (nl_data m)) else None)),
             w'))))"

subsection \<open>Logical endpoints\<close>

definition ep_id_ok :: "int \<Rightarrow> bool" where
  "ep_id_ok ep_id \<longleftrightarrow> \<not> (ep_id < -1 \<or> ep_id > 31)"

definition rmnet_set_logical_ep_config ::
    "'k nl_env \<Rightarrow> nl_msg \<Rightarrow> nl_msg \<Rightarrow> nat option \<Rightarrow> int \<Rightarrow> u8 \<Rightarrow> u8 list option \<Rightarrow> u8 list option \<Rightarrow> u16 option \<Rightarrow>
     'k nl_world \<Rightarrow> int \<times> u16 option \<times> 'k nl_world" where
  "rmnet_set_logical_ep_config env junk junk' hndl ep_id operating_mode dev_name next_dev error_code w =
     (if hndl = None \<or> \<not> ep_id_ok ep_id \<or> error_code = None \<or>
         rmnetctl_check_dev_name dev_name \<noteq> RMNETCTL_SUCCESS \<or> rmnetctl_check_dev_name next_dev \<noteq> RMNETCTL_SUCCESS \<or>
         operating_mode \<ge> RMNET_EPMODE_LENGTH
      then (RMNETCTL_INVALID_ARG, error_code, w)
      else
      (let (str_len, d1) = strlcpy_at 0 (the dev_name) RMNET_MAX_STR_LEN (nl_data junk) in
       case rmnetctl_check_len str_len (the error_code) of (rc, e) \<Rightarrow>
         if rc \<noteq> RMNETCTL_SUCCESS then (RMNETCTL_LIB_ERR, Some e, w)
         else
         (let (str_len2, d2) = strlcpy_at 21 (the next_dev) RMNET_MAX_STR_LEN d1 in
          case rmnetctl_check_len str_len2 e of (rc2, e2) \<Rightarrow>
            if rc2 \<noteq> RMNETCTL_SUCCESS then (RMNETCTL_LIB_ERR, Some e2, w)
            else reply_code env hndl
              (junk\<lparr>message_type := RMNET_NETLINK_SET_LOGICAL_EP_CONFIG, nl_ret := 16 + 16 + 4 + 1,
                 nl_data := put_at 20 [operating_mode] (put_at 16 (le32 (word_of_int ep_id)) d2)\<rparr>)
              junk' w)))"

definition rmnet_unset_logical_ep_config ::
    "'k nl_env \<Rightarrow> nl_msg \<Rightarrow> nl_msg \<Rightarrow> nat option \<Rightarrow> int \<Rightarrow> u8 list option \<Rightarrow> u16 option \<Rightarrow>
     'k nl_world \<Rightarrow> int \<times> u16 option \<times> 'k nl_world" where
  "rmnet_unset_logical_ep_config env junk junk' hndl ep_id dev_name error_code w =
     (if hndl = None \<or> \<not> ep_id_ok ep_id \<or> error_code = None \<or>
         rmnetctl_check_dev_name dev_name \<noteq> RMNETCTL_SUCCESS
      then (RMNETCTL_INVALID_ARG, error_code, w)
      else
      (let (str_len, d) = strlcpy_at 0 (the dev_name) RMNET_MAX_STR_LEN (nl_data junk) in
       case rmnetctl_check_len str_len (the error_code) of (rc, e) \<Rightarrow>
         if rc \<noteq> RMNETCTL_SUCCESS then (RMNETCTL_LIB_ERR, Some e, w)
         else reply_code env hndl
           (junk\<lparr>message_type := RMNET_NETLINK_UNSET_LOGICAL_EP_CONFIG, nl_ret := 16 + 4,
              nl_data := put_at 16 (le32 (word_of_int ep_id)) d\<rparr>)
           junk' w))"

text \<open>\<open>buf\<close> is the caller's buffer behind \<^verbatim>\<open>*next_dev\<close>; the outputs are the mode and that buffer.\<close>

definition rmnet_get_logical_ep_config ::
    "'k nl_env \<Rightarrow> nl_msg \<Rightarrow> nl_msg \<Rightarrow> nat option \<Rightarrow> int \<Rightarrow> u8 list option \<Rightarrow> bool \<Rightarrow> u8 list option \<Rightarrow> u32 \<Rightarrow>
     u16 option \<Rightarrow> 'k nl_world \<Rightarrow> int \<times> u16 option \<times> u8 option \<times> u8 list option \<times> 'k nl_world" where
  "rmnet_get_logical_ep_config env junk junk' hndl ep_id dev_name operating_mode buf next_dev_len error_code w =
     (if hndl = None \<or> \<not> operating_mode \<or> error_code = None \<or> \<not> ep_id_ok ep_id \<or>
         rmnetctl_check_dev_name dev_name \<noteq> RMNETCTL_SUCCESS \<or> buf = None \<or> next_dev_len = 0
      then (RMNETCTL_INVALID_ARG, error_code, None, buf, w)
      else
      (let (str_len, d) = strlcpy_at 0 (the dev_name) RMNET_MAX_STR_LEN (nl_data junk) in
       case rmnetctl_check_len str_len (the error_code) of (rc, e) \<Rightarrow>
         if rc \<noteq> RMNETCTL_SUCCESS then (RMNETCTL_LIB_ERR, Some e, None, buf, w)
         else
         (case reply_data env hndl
             (junk\<lparr>message_type := RMNET_NETLINK_GET_LOGICAL_EP_CONFIG, nl_ret := 16 + 4,
                nl_data := put_at 16 (le32 (word_of_int ep_id)) d\<rparr>) junk' w of
            (rc', e', None, w') \<Rightarrow> (rc', Some e', None, buf, w')
          | (rc', e', Some m, w') \<Rightarrow>
              (let (str_len2, buf') = strlcpy_at 0 (c_str (drop 21 (nl_data m)))
                     (min RMNET_MAX_STR_LEN (unat next_dev_len)) (the buf) in
               case rmnetctl_check_len str_len2 e' of (rc2, e2) \<Rightarrow>
                 if rc2 \<noteq> RMNETCTL_SUCCESS then (RMNETCTL_LIB_ERR, Some e2, None, Some buf', w')
                 else (RMNETCTL_SUCCESS, Some e2, Some (nl_data m ! 20), Some buf', w')))))"

subsection \<open>Virtual devices\<close>

definition rmnet_new_vnd_prefix ::
    "'k nl_env \<Rightarrow> nl_msg \<Rightarrow> nl_msg \<Rightarrow> nat option \<Rightarrow> u32 \<Rightarrow> u16 option \<Rightarrow> u8 \<Rightarrow> u8 list option \<Rightarrow>
     'k nl_world \<Rightarrow> int \<times> u16 option \<times> 'k nl_world" where
  "rmnet_new_vnd_prefix env junk junk' hndl i error_code new_vnd pref w =
     (if hndl = None \<or> error_code = None \<or> (new_vnd \<noteq> RMNETCTL_NEW_VND \<and> new_vnd \<noteq> RMNETCTL_FREE_VND)
      then (RMNETCTL_INVALID_ARG, error_code, w)
      else
      (let d0 = put_at 4 (replicate RMNET_MAX_STR_LEN 0) (nl_data junk);
           send = (\<lambda>ty d. reply_code env hndl
             (junk\<lparr>message_type := ty, nl_ret := 4, nl_data := put_at 0 (le32 i) d\<rparr>) junk' w)
       in
       if new_vnd = RMNETCTL_NEW_VND then
         (case pref of
            Some pre \<Rightarrow>
              (let (str_len, d) = strlcpy_at 4 pre RMNET_MAX_STR_LEN d0 in
               case rmnetctl_check_len str_len (the error_code) of (rc, e) \<Rightarrow>
                 if rc \<noteq> RMNETCTL_SUCCESS then (RMNETCTL_LIB_ERR, Some e, w)
                 else send RMNET_NETLINK_NEW_VND_WITH_PREFIX d)
          | None \<Rightarrow> send RMNET_NETLINK_NEW_VND d0)
       else send RMNET_NETLINK_FREE_VND d0))"

definition rmnet_new_vnd ::
    "'k nl_env \<Rightarrow> nl_msg \<Rightarrow> nl_msg \<Rightarrow> nat option \<Rightarrow> u32 \<Rightarrow> u16 option \<Rightarrow> u8 \<Rightarrow>
     'k nl_world \<Rightarrow> int \<times> u16 option \<times> 'k nl_world" where
  "rmnet_new_vnd env junk junk' hndl i error_code new_vnd w =
     rmnet_new_vnd_prefix env junk junk' hndl i error_code new_vnd None w"

definition rmnet_get_vnd_name ::
    "'k nl_env \<Rightarrow> nl_msg \<Rightarrow> nl_msg \<Rightarrow> nat option \<Rightarrow> u32 \<Rightarrow> u16 option \<Rightarrow> u8 list option \<Rightarrow> u32 \<Rightarrow>
     'k nl_world \<Rightarrow> int \<times> u16 option \<times> u8 list option \<times> 'k nl_world" where
  "rmnet_get_vnd_name env junk junk' hndl i error_code buf buflen w =
     (if hndl = None \<or> error_code = None \<or> buf = None \<or> buflen = 0
      then (RMNETCTL_INVALID_ARG, error_code, buf, w)
      else
      (case reply_data env hndl
          (junk\<lparr>message_type := RMNET_NETLINK_GET_VND_NAME, nl_ret := 4,
             nl_data := put_at 0 (le32 i) (nl_data junk)\<rparr>) junk' w of
         (rc', e', None, w') \<Rightarrow> (rc', Some e', buf, w')
       | (rc', e', Some m, w') \<Rightarrow>
           (let (str_len, buf') = strlcpy_at 0 (c_str (drop 4 (nl_data m))) (unat buflen) (the buf) in
            if str_len \<ge> unat buflen
            then (RMNETCTL_LIB_ERR, Some RMNETCTL_API_ERR_STRING_TRUNCATION, Some buf', w')
            else (RMNETCTL_SUCCESS, Some e', Some buf', w'))))"

definition rmnet_add_del_vnd_tc_flow ::
    "'k nl_env \<Rightarrow> nl_msg \<Rightarrow> nl_msg \<Rightarrow> nat option \<Rightarrow> u32 \<Rightarrow> u32 \<Rightarrow> u32 \<Rightarrow> u8 \<Rightarrow> u16 option \<Rightarrow>
     'k nl_world \<Rightarrow> int \<times> u16 option \<times> 'k nl_world" where
  "rmnet_add_del_vnd_tc_flow env junk junk' hndl i map_flow_id tc_flow_id set_flow error_code w =
     (if hndl = None \<or> error_code = None \<or> (set_flow \<noteq> RMNETCTL_ADD_FLOW \<and> set_flow \<noteq> RMNETCTL_DEL_FLOW)
      then (RMNETCTL_INVALID_ARG, error_code, w)
      else reply_code env hndl
        (junk\<lparr>message_type := (if set_flow = RMNETCTL_ADD_FLOW then RMNET_NETLINK_ADD_VND_TC_FLOW
                               else RMNET_NETLINK_DEL_VND_TC_FLOW), nl_ret := 4 * 3,
           nl_data := put_at 8 (le32 tc_flow_id) (put_at 4 (le32 map_flow_id) (put_at 0 (le32 i) (nl_data junk)))\<rparr>)
        junk' w)"

end
