(* ===== verification/Rmnet_Cli.thy ===== *)
theory Rmnet_Cli
  imports Rmnet_Api
begin

text \<open>
  \<^verbatim>\<open>src/opensource/dataservices/rmnetctl/cli/rmnetcli.c\<close>: the command line tool. \<open>argv\<close> is the
  list of arguments behind the program's name; an argument that is missing is the null
  pointer. What is printed is a list of texts; \<open>Uninit\<close> is a value printed from a variable
  that was never set, \<open>BeyondTable\<close> a read behind the table of messages.
\<close>

datatype cli_out = Text string | Uninit string | Usage | BeyondTable u16

definition RMNETCTL_CFG_SUCCESS_HELP_COMMAND :: u16 where "RMNETCTL_CFG_SUCCESS_HELP_COMMAND = 100"
definition RMNETCTL_CFG_FAILURE_NO_COMMAND :: u16 where "RMNETCTL_CFG_FAILURE_NO_COMMAND = 101"
definition RMNETCTL_CFG_FAILURE_EGRESS_DEV_NAME_NULL :: u16 where "RMNETCTL_CFG_FAILURE_EGRESS_DEV_NAME_NULL = 102"
definition RMNETCFG_ERR_NUM_START :: u16 where "RMNETCFG_ERR_NUM_START = 100"
definition RMNETCFG_TOTAL_ERR_MSGS :: u16 where "RMNETCFG_TOTAL_ERR_MSGS = 3"

text \<open>The tables, without the line ends.\<close>

definition rmnetctl_error_code_text :: "string list" where
  "rmnetctl_error_code_text = [
     ''ERROR: API succeeded'',
     ''ERROR: Unable to allocate the buffer to send message'',
     ''ERROR: Unable to allocate the buffer to receive message'',
     ''ERROR: Could not send the message to kernel'',
     ''ERROR: Unable to receive message from the kernel'',
     ''ERROR: Invalid process id'',
     ''ERROR: Invalid socket descriptor id'',
     ''ERROR: Could not bind to netlink socket'',
     ''ERROR: Only root can access this API'',
     ''ERROR: RmNet handle for the transaction was NULL'',
     ''ERROR: Request buffer for the transaction was NULL'',
     ''ERROR: Response buffer for the transaction was NULL'',
     ''ERROR: Request and response type do not match'',
     ''ERROR: Return type is invalid'',
     ''ERROR: String was truncated'',
     ''ERROR: Kernel call succeeded'',
     ''ERROR: Invalid / Unsupported directive'',
     ''ERROR: Internal problem in the kernel module'',
     ''ERROR: The kernel is temporarily out of memory'',
     ''ERROR: Device already exists / Still in use'',
     ''ERROR: Invalid request / Unsupported scenario'',
     ''ERROR: Device doesn'' @ [char_of (39 :: nat)] @ ''t exist'',
     ''ERROR: One or more of the arguments is invalid'',
     ''ERROR: Egress device is invalid'',
     ''ERROR: TC handle is full'']"

definition rmnetcfg_error_code_text :: "string list" where
  "rmnetcfg_error_code_text = [
     ''Help option Specified'',
     ''ERROR: No'' @ [char_of (92 :: nat)] @ ''Invalid command was specified'',
     ''ERROR: Could not allocate buffer for Egress device'']"

definition print_rmnetctl_lib_errors :: "u16 \<Rightarrow> cli_out list" where
  "print_rmnetctl_lib_errors n =
     (if unat n > 0 \<and> unat n < RMNETCTL_API_ERR_ENUM_LENGTH then [Text (rmnetctl_error_code_text ! unat n)] else []) @
     (if n \<ge> RMNETCFG_ERR_NUM_START \<and> n < RMNETCFG_ERR_NUM_START + RMNETCFG_TOTAL_ERR_MSGS
      then Text (rmnetcfg_error_code_text ! unat (n - RMNETCFG_ERR_NUM_START)) #
        (if n = RMNETCTL_CFG_SUCCESS_HELP_COMMAND \<or> n = RMNETCTL_CFG_FAILURE_NO_COMMAND then [Usage] else [])
      else [])"

definition print_rmnet_api_status :: "int \<Rightarrow> u16 \<Rightarrow> cli_out list" where
  "print_rmnet_api_status return_code n =
     (if return_code = RMNETCTL_SUCCESS then [Text ''SUCCESS'']
      else if return_code = RMNETCTL_LIB_ERR then Text ''LIBRARY '' # print_rmnetctl_lib_errors n
      else if return_code = RMNETCTL_KERNEL_ERR
      then (if unat n < length rmnetctl_error_code_text
            then [Text (''KERNEL '' @ rmnetctl_error_code_text ! unat n)] else [BeyondTable n])
      else if return_code = RMNETCTL_INVALID_ARG then [Text ''INVALID_ARG'']
      else [])"

subsection \<open>Arguments\<close>

text \<open>\<^verbatim>\<open>strtol (s, NULL, 0)\<close> for a \<^verbatim>\<open>long\<close> of \<open>w\<close> bits.\<close>

definition strtol0 :: "nat \<Rightarrow> string \<Rightarrow> int" where
  "strtol0 w s =
     (let (neg, t) = scan_sign (dropWhile isspace s);
          (base, u) = scan_base t;
          v = (if neg then - int (scan_digits base 0 u) else int (scan_digits base 0 u))
      in max (- (2 ^ (w - 1))) (min (2 ^ (w - 1) - 1) v))"

definition argv_at :: "string list \<Rightarrow> nat \<Rightarrow> string option" where
  "argv_at argv i = (if i < length argv then Some (argv ! i) else None)"

definition arg_bytes :: "string list \<Rightarrow> nat \<Rightarrow> u8 list option" where
  "arg_bytes argv i = map_option (map of_char) (argv_at argv i)"

definition STRTOUI32 :: "nat \<Rightarrow> string list \<Rightarrow> nat \<Rightarrow> u32" where
  "STRTOUI32 lw argv i = of_nat (strtoul0 lw (the (argv_at argv i)))"

definition STRTOUI16 :: "nat \<Rightarrow> string list \<Rightarrow> nat \<Rightarrow> u16" where
  "STRTOUI16 lw argv i = of_nat (strtoul0 lw (the (argv_at argv i)))"

definition STRTOUI8 :: "nat \<Rightarrow> string list \<Rightarrow> nat \<Rightarrow> u8" where
  "STRTOUI8 lw argv i = of_nat (strtoul0 lw (the (argv_at argv i)))"

definition STRTOI32 :: "nat \<Rightarrow> string list \<Rightarrow> nat \<Rightarrow> int" where
  "STRTOI32 lw argv i = to_int32 (strtol0 lw (the (argv_at argv i)))"

text \<open>\<^verbatim>\<open>_RMNETCLI_CHECKNULL\<close> for the arguments 1 to \<open>n\<close>.\<close>

definition args_given :: "string list \<Rightarrow> nat \<Rightarrow> bool" where
  "args_given argv n \<longleftrightarrow> (\<forall>i\<in>{1..n}. argv_at argv i \<noteq> None)"

subsection \<open>Commands\<close>

text \<open>
  A command ends early, with its own output and return code, or goes on to the status
  message with a return code, an error number and output.
\<close>

datatype 'k cmd_end = Early int "cli_out list" "'k nl_world" | Status int u16 "cli_out list" "'k nl_world"

definition missing_arg :: "nat \<Rightarrow> 'k nl_world \<Rightarrow> 'k cmd_end" where
  "missing_arg h w = Early RMNETCTL_INVALID_ARG
     (print_rmnet_api_status RMNETCTL_INVALID_ARG RMNETCTL_CFG_FAILURE_NO_COMMAND) (rmnetctl_cleanup (Some h) w)"

definition show_num :: "string \<Rightarrow> int option \<Rightarrow> cli_out" where
  "show_num t v = (case v of None \<Rightarrow> Uninit t | Some n \<Rightarrow> Text (t @ fmt_d n))"

definition plain :: "int \<times> u16 option \<times> 'k nl_world \<Rightarrow> 'k cmd_end" where
  "plain r = (case r of (rc, e, w) \<Rightarrow> Status rc (the e) [] w)"

definition show_str :: "string \<Rightarrow> u8 list option \<Rightarrow> cli_out" where
  "show_str t b = (case b of None \<Rightarrow> Uninit t | Some bs \<Rightarrow> Text (t @ map (\<lambda>b. char_of (unat b)) (c_str bs)))"

text \<open>\<open>lw\<close> is the width of \<^verbatim>\<open>long\<close>; \<open>jb\<close> the contents of a fresh heap buffer.\<close>

definition cmd_getlepc ::
    "nat \<Rightarrow> 'k nl_env \<Rightarrow> nl_msg \<Rightarrow> nl_msg \<Rightarrow> u8 list \<Rightarrow> nat \<Rightarrow> string list \<Rightarrow> u16 \<Rightarrow> 'k nl_world \<Rightarrow> 'k cmd_end" where
  "cmd_getlepc lw env junk junk' jb h argv e w =
     (case c_malloc env w of
        (None, w1) \<Rightarrow> Early RMNETCTL_LIB_ERR
          (print_rmnet_api_status RMNETCTL_LIB_ERR RMNETCTL_CFG_FAILURE_EGRESS_DEV_NAME_NULL)
          (rmnetctl_cleanup (Some h) w1)
      | (Some b, w1) \<Rightarrow>
          (case rmnet_get_logical_ep_config env junk junk' (Some h) (STRTOI32 lw argv 1) (arg_bytes argv 2) True
              (Some jb) (of_nat RMNET_MAX_STR_LEN) (Some e) w1 of
             (rc, e', mode, buf, w2) \<Rightarrow>
               Status rc (the e')
                 (if rc = RMNETCTL_SUCCESS
                  then [show_num ''rmnet_mode is '' (map_option uint mode),
                        if mode = None then Uninit ''egress_dev_name is '' else show_str ''egress_dev_name is '' buf]
                  else [])
                 (c_free (Some b) w2)))"

definition rmnet_command ::
    "nat \<Rightarrow> 'k nl_env \<Rightarrow> nl_msg \<Rightarrow> nl_msg \<Rightarrow> u8 list \<Rightarrow> nat \<Rightarrow> string list \<Rightarrow> 'k nl_world \<Rightarrow> 'k cmd_end" where
  "rmnet_command lw env junk junk' jb h argv w =
     (let cmd = argv ! 0; e = RMNETCTL_CFG_FAILURE_NO_COMMAND in
      if cmd = ''assocnetdev''
      then plain (rmnet_associate_network_device env junk junk' (Some h) (arg_bytes argv 1) (Some e)
                    RMNETCTL_DEVICE_ASSOCIATE w)
      else if cmd = ''unassocnetdev''
      then plain (rmnet_associate_network_device env junk junk' (Some h) (arg_bytes argv 1) (Some e)
                    RMNETCTL_DEVICE_UNASSOCIATE w)
      else if cmd = ''getnetdevassoc''
      then (case rmnet_get_network_device_associated env junk junk' (Some h) (arg_bytes argv 1) True (Some e) w of
              (rc, e', st, w') \<Rightarrow>
                Status rc (the e') (if rc = RMNETCTL_SUCCESS then [show_num ''register_status is '' st] else []) w')
      else if cmd = ''getledf''
      then (case rmnet_get_link_egress_data_format env junk junk' (Some h) (arg_bytes argv 1) True True True (Some e) w of
              (rc, e', fmt, w') \<Rightarrow>
                Status rc (the e')
                  (if rc = RMNETCTL_SUCCESS
                   then [show_num ''egress_flags is '' (map_option (\<lambda>(f, s, c). uint f) fmt),
                         show_num ''agg_size is '' (map_option (\<lambda>(f, s, c). uint s) fmt),
                         show_num ''agg_count is '' (map_option (\<lambda>(f, s, c). uint c) fmt)]
                   else []) w')
      else if cmd = ''getlidf''
      then (case rmnet_get_link_ingress_data_format_tailspace env junk junk' (Some h) (arg_bytes argv 1) True True (Some e) w of
              (rc, e', (fl, ts), w') \<Rightarrow>
                Status rc (the e')
                  (if rc = RMNETCTL_SUCCESS
                   then [show_num ''ingress_flags is '' (map_option uint fl),
                         show_num ''tail_spacing is '' (map_option uint ts)]
                   else []) w')
      else if cmd = ''newvndprefix''
      then (if \<not> args_given argv 2 then missing_arg h w
            else plain (rmnet_new_vnd_prefix env junk junk' (Some h) (STRTOUI32 lw argv 1) (Some e) RMNETCTL_NEW_VND
                          (arg_bytes argv 2) w))
      else if cmd = ''newvnd''
      then (if \<not> args_given argv 1 then missing_arg h w
            else plain (rmnet_new_vnd env junk junk' (Some h) (STRTOUI32 lw argv 1) (Some e) RMNETCTL_NEW_VND w))
      else if cmd = ''getvndname''
      then (if \<not> args_given argv 1 then missing_arg h w
            else (case rmnet_get_vnd_name env junk junk' (Some h) (STRTOUI32 lw argv 1) (Some e)
                      (Some (replicate 32 0)) 32 w of
                    (rc, e', buf, w') \<Rightarrow>
                      Status rc (the e') (if rc = RMNETCTL_SUCCESS then [show_str ''VND name: '' buf] else []) w'))
      else if cmd = ''freevnd''
      then (if \<not> args_given argv 1 then missing_arg h w
            else plain (rmnet_new_vnd env junk junk' (Some h) (STRTOUI32 lw argv 1) (Some e) RMNETCTL_FREE_VND w))
      else if cmd = ''setlidf''
      then (if \<not> args_given argv 3 then missing_arg h w
            else plain (rmnet_set_link_ingress_data_format_tailspace env junk junk' (Some h) (STRTOUI32 lw argv 1)
                          (STRTOUI8 lw argv 2) (arg_bytes argv 3) (Some e) w))
      else if cmd = ''delvnctcflow''
      then (if \<not> args_given argv 3 then missing_arg h w
            else plain (rmnet_add_del_vnd_tc_flow env junk junk' (Some h) (STRTOUI32 lw argv 1) (STRTOUI32 lw argv 2)
                          (STRTOUI32 lw argv 3) RMNETCTL_DEL_FLOW (Some e) w))
      else if cmd = ''getlepc''
      then (if \<not> args_given argv 1 then missing_arg h w else cmd_getlepc lw env junk junk' jb h argv e w)
      else if cmd = ''addvnctcflow''
      then (if \<not> args_given argv 3 then missing_arg h w
            else plain (rmnet_add_del_vnd_tc_flow env junk junk' (Some h) (STRTOUI32 lw argv 1) (STRTOUI32 lw argv 2)
                          (STRTOUI32 lw argv 3) RMNETCTL_ADD_FLOW (Some e) w))
      else if cmd = ''setledf''
      then (if \<not> args_given argv 3 then missing_arg h w
            else plain (rmnet_set_link_egress_data_format env junk junk' (Some h) (STRTOUI32 lw argv 1)
                          (STRTOUI16 lw argv 2) (STRTOUI16 lw argv 3) (arg_bytes argv 4) (Some e) w))
      else if cmd = ''setlepc''
      then (if \<not> args_given argv 2 then missing_arg h w
            else plain (rmnet_set_logical_ep_config env junk junk' (Some h) (STRTOI32 lw argv 1) (STRTOUI8 lw argv 2)
                          (arg_bytes argv 3) (arg_bytes argv 4) (Some e) w))
      else if cmd = ''unsetlepc''
      then (if \<not> args_given argv 1 then missing_arg h w
            else plain (rmnet_unset_logical_ep_config env junk junk' (Some h) (STRTOI32 lw argv 1) (arg_bytes argv 2)
                          (Some e) w))
      else Status RMNETCTL_LIB_ERR e [] w)"

definition rmnet_api_call ::
    "nat \<Rightarrow> 'k nl_env \<Rightarrow> nl_msg \<Rightarrow> nl_msg \<Rightarrow> u8 list \<Rightarrow> string list \<Rightarrow> 'k nl_world \<Rightarrow> int \<times> cli_out list \<times> 'k nl_world" where
  "rmnet_api_call lw env junk junk' jb argv w =
     (if argv = [] then
        (RMNETCTL_LIB_ERR, print_rmnet_api_status RMNETCTL_LIB_ERR RMNETCTL_CFG_FAILURE_NO_COMMAND, w)
      else if argv ! 0 = ''help'' then
        (RMNETCTL_LIB_ERR, print_rmnet_api_status RMNETCTL_LIB_ERR RMNETCTL_CFG_SUCCESS_HELP_COMMAND, w)
      else
      (case rmnetctl_init env True (Some RMNETCTL_CFG_FAILURE_NO_COMMAND) w of (rc, e, h, w1) \<Rightarrow>
       if rc \<noteq> RMNETCTL_SUCCESS then (RMNETCTL_LIB_ERR, print_rmnet_api_status rc (the e), w1)
       else
       (case rmnet_command lw env junk junk' jb (the h) argv w1 of
          Early rc' out w2 \<Rightarrow> (rc', out, w2)
        | Status rc' e' out w2 \<Rightarrow> (rc', out @ print_rmnet_api_status rc' e', rmnetctl_cleanup h w2))))"

end
