(* ===== verification/Rmnet_Correct.thy ===== *)
theory Rmnet_Correct
  imports Rmnet_Cli
begin

text \<open>
  Resources and messages of the rmnet control library: which transactions free a buffer
  twice, that no call and no command leaks memory or a descriptor, that a format that was
  set is read back, and which error messages exist.
\<close>

named_theorems nl_frame \<open>what the calls of the library keep of the world\<close>

subsection \<open>The heap\<close>

definition world_ok :: "'k nl_world \<Rightarrow> bool" where
  "world_ok w \<longleftrightarrow> distinct (blocks w) \<and> (\<forall>b\<in>set (blocks w). b < next_block w)"

text \<open>What every call keeps: the live blocks, the open descriptors, and the descriptor of every handle.\<close>

definition frame :: "'k nl_world \<Rightarrow> 'k nl_world \<Rightarrow> bool" where
  "frame w w' \<longleftrightarrow> blocks w' = blocks w \<and> fds w' = fds w \<and> next_block w \<le> next_block w' \<and>
     (\<forall>h. netlink_fd (hmem w' h) = netlink_fd (hmem w h))"

lemma frame_refl [nl_frame]: "frame w w"
  by (simp add: frame_def)

lemma frame_ok: "world_ok w \<Longrightarrow> frame w w' \<Longrightarrow> world_ok w'"
  by (auto simp: world_ok_def frame_def)

lemma malloc_fails: "\<not> e_malloc env (next_block w) \<Longrightarrow> c_malloc env w = (None, w\<lparr>next_block := next_block w + 1\<rparr>)"
  by (simp add: c_malloc_def Let_def)

lemma malloc_works:
  "e_malloc env (next_block w) \<Longrightarrow>
   c_malloc env w = (Some (next_block w), w\<lparr>next_block := next_block w + 1, blocks := next_block w # blocks w\<rparr>)"
  by (simp add: c_malloc_def Let_def)

lemma c_free_sel [simp]:
  "fds (c_free p w) = fds w" "hmem (c_free p w) = hmem w" "next_block (c_free p w) = next_block w"
  "kst (c_free p w) = kst w"
  by (simp_all add: c_free_def split: option.splits)

lemma c_free_None [simp]: "c_free None w = w"
  by (simp add: c_free_def)

lemma free_both_None [simp]: "free_both None None w = w"
  by (simp add: free_both_def)

lemma c_free_live: "b \<in> set (blocks w) \<Longrightarrow> c_free (Some b) w = w\<lparr>blocks := remove1 b (blocks w)\<rparr>"
  by (simp add: c_free_def)

lemma c_free_dead: "b \<notin> set (blocks w) \<Longrightarrow> c_free (Some b) w = w\<lparr>bad_free := True\<rparr>"
  by (simp add: c_free_def)

text \<open>Two blocks on top of the heap, freed once and freed twice.\<close>

lemma free_both_top:
  assumes "blocks w = p # q # bs" "p \<noteq> q"
  shows "free_both (Some q) (Some p) w = w\<lparr>blocks := bs\<rparr>"
  using assms by (simp add: free_both_def c_free_live)

lemma free_both_dead:
  assumes "p \<notin> set (blocks w)" "q \<notin> set (blocks w)"
  shows "free_both (Some q) (Some p) w = w\<lparr>bad_free := True\<rparr>"
  using assms by (simp add: free_both_def c_free_dead)

subsection \<open>Transactions\<close>

definition double_freeing :: "u16 set" where
  "double_freeing = {RMNETCTL_API_ERR_MESSAGE_SEND, RMNETCTL_API_ERR_MESSAGE_RECEIVE,
     RMNETCTL_API_ERR_MESSAGE_TYPE, RMNETCTL_API_ERR_RESPONSE_NULL}"

lemma transact_world:
  assumes "world_ok w" "rmnetctl_transact env (Some h) (Some req) (Some resp) w = (err, resp', w')"
  shows "frame w w' \<and> (bad_free w' \<longleftrightarrow> bad_free w \<or> err \<in> double_freeing)"
proof -
  let ?n = "next_block w"
  have fresh: "?n \<notin> set (blocks w)" "Suc ?n \<notin> set (blocks w)" using assms(1) by (auto simp: world_ok_def)
  consider "\<not> e_malloc env ?n" | "e_malloc env ?n" "\<not> e_malloc env (Suc ?n)"
    | "e_malloc env ?n" "e_malloc env (Suc ?n)" by blast
  then show ?thesis
  proof cases
    case 1
    then show ?thesis
      using assms(2) by (auto simp: rmnetctl_transact_def malloc_fails frame_def double_freeing_def rmnet_errors)
  next
    case 2
    then show ?thesis
      using assms(2) fresh
      by (auto simp: rmnetctl_transact_def malloc_works malloc_fails free_both_def c_free_live c_free_dead
          frame_def double_freeing_def rmnet_errors)
  next
    case 3
    then show ?thesis
      using assms(2) fresh
      by (auto simp: rmnetctl_transact_def malloc_works Let_def free_both_top free_both_dead frame_def
          double_freeing_def rmnet_errors nl_request_def split: prod.splits option.splits if_splits)
  qed
qed

text \<open>
  A transaction never leaks its two buffers, but it frees them twice on every error
  after they were allocated: when sending or receiving fails and when the reply has another
  message type, and frees the first one twice when the second allocation fails. In all other
  cases the heap is used correctly.
\<close>

theorem transact_double_free:
  assumes "world_ok w" "\<not> bad_free w"
    and "rmnetctl_transact env (Some h) (Some req) (Some resp) w = (err, resp', w')"
  shows "blocks w' = blocks w \<and>
    (bad_free w' \<longleftrightarrow> err \<in> {RMNETCTL_API_ERR_MESSAGE_SEND, RMNETCTL_API_ERR_MESSAGE_RECEIVE,
       RMNETCTL_API_ERR_MESSAGE_TYPE, RMNETCTL_API_ERR_RESPONSE_NULL})"
  using transact_world [OF assms(1,3)] assms(2) by (simp add: frame_def double_freeing_def)

definition idle_world :: "unit nl_world" where
  "idle_world = \<lparr>kst = (), hmem = (\<lambda>_. zero_hndl), blocks = [0], next_block = 1, bad_free = False, fds = [3]\<rparr>"

definition deaf_env :: "unit nl_env" where
  "deaf_env = \<lparr>e_malloc = (\<lambda>_. True), e_pid = 7, e_socket = 3, e_bind = True,
     e_send = (\<lambda>k hdr m. (False, k)), e_recv = (\<lambda>k. (None, k))\<rparr>"

definition blank_msg :: nl_msg where
  "blank_msg = \<lparr>nl_reserved = 0, message_type = 0, nl_reserved2 = 0, crd = 0, nl_ret = 0, nl_data = replicate 64 0\<rparr>"

lemma idle_world_ok: "world_ok idle_world" "\<not> bad_free idle_world"
  by (simp_all add: world_ok_def idle_world_def)

theorem transact_double_free_witness:
  "\<exists>err resp w'. rmnetctl_transact deaf_env (Some 0) (Some blank_msg) (Some blank_msg) idle_world = (err, resp, w') \<and>
     err = RMNETCTL_API_ERR_MESSAGE_SEND \<and> bad_free w'"
proof -
  obtain err resp w' where t: "rmnetctl_transact deaf_env (Some 0) (Some blank_msg) (Some blank_msg) idle_world =
      (err, resp, w')"
    by (cases "rmnetctl_transact deaf_env (Some 0) (Some blank_msg) (Some blank_msg) idle_world")
  then have "err = RMNETCTL_API_ERR_MESSAGE_SEND"
    by (auto simp: rmnetctl_transact_def deaf_env_def c_malloc_def Let_def nl_request_def)
  with transact_double_free [OF idle_world_ok t] t show ?thesis by simp
qed

subsection \<open>Calls\<close>

text \<open>The contract of a call towards its callers.\<close>

locale nl_call =
  fixes opn :: "'k nl_world \<Rightarrow> 'r" and world_of :: "'r \<Rightarrow> 'k nl_world"
  assumes keeps: "world_ok w \<Longrightarrow> frame w (world_of (opn w))"
begin

lemma keeps_ok: "world_ok w \<Longrightarrow> world_ok (world_of (opn w))"
  using keeps by (blast intro: frame_ok)

lemma cleanup_after:
  assumes "world_ok w" "h \<in> set (blocks w)"
  shows "blocks (rmnetctl_cleanup (Some h) (world_of (opn w))) = remove1 h (blocks w)"
    and "fds (rmnetctl_cleanup (Some h) (world_of (opn w))) = remove1 (netlink_fd (hmem w h)) (fds w)"
  using keeps [OF assms(1)] assms(2) by (simp_all add: rmnetctl_cleanup_def c_close_def c_free_live frame_def)

end

lemma reply_code_frame [nl_frame]:
  assumes "world_ok w"
  shows "frame w (snd (snd (reply_code env (Some h) req junk w)))"
proof -
  obtain err resp w' where t: "rmnetctl_transact env (Some h) (Some req) (Some junk) w = (err, resp, w')"
    by (cases "rmnetctl_transact env (Some h) (Some req) (Some junk) w")
  with transact_world [OF assms t] show ?thesis
    by (auto simp: reply_code_def split: prod.splits if_splits)
qed

lemma reply_data_frame [nl_frame]:
  assumes "world_ok w"
  shows "frame w (snd (snd (snd (reply_data env (Some h) req junk w))))"
proof -
  obtain err resp w' where t: "rmnetctl_transact env (Some h) (Some req) (Some junk) w = (err, resp, w')"
    by (cases "rmnetctl_transact env (Some h) (Some req) (Some junk) w")
  with transact_world [OF assms t] show ?thesis
    by (auto simp: reply_data_def split: prod.splits if_splits)
qed

lemma reply_data_frameD [nl_frame]:
  "reply_data env (Some h) req junk w = (rc, e, m, w') \<Longrightarrow> world_ok w \<Longrightarrow> frame w w'"
  using reply_data_frame [of w env h req junk] by simp

interpretation associate: nl_call "rmnet_associate_network_device env junk junk' hndl dev e a" "\<lambda>r. snd (snd r)"
  by unfold_locales
    (cases hndl; auto simp: rmnet_associate_network_device_def Let_def intro: nl_frame split: prod.split)

interpretation associated: nl_call "rmnet_get_network_device_associated env junk junk' hndl dev st e" "\<lambda>r. snd (snd (snd r))"
  by unfold_locales
    (cases hndl; auto simp: rmnet_get_network_device_associated_def Let_def intro: nl_frame split: prod.split)

interpretation set_egress: nl_call "rmnet_set_link_egress_data_format env junk junk' hndl fl sz ct dev e" "\<lambda>r. snd (snd r)"
  by unfold_locales
    (cases hndl; auto simp: rmnet_set_link_egress_data_format_def Let_def intro: nl_frame split: prod.split)

interpretation get_egress: nl_call "rmnet_get_link_egress_data_format env junk junk' hndl dev b1 b2 b3 e"
  "\<lambda>r. snd (snd (snd r))"
  by unfold_locales
    (cases hndl; auto simp: rmnet_get_link_egress_data_format_def Let_def intro: nl_frame split: prod.split)

interpretation set_ingress: nl_call "rmnet_set_link_ingress_data_format_tailspace env junk junk' hndl fl ts dev e"
  "\<lambda>r. snd (snd r)"
  by unfold_locales
    (cases hndl; auto simp: rmnet_set_link_ingress_data_format_tailspace_def Let_def intro: nl_frame split: prod.split)

interpretation get_ingress: nl_call "rmnet_get_link_ingress_data_format_tailspace env junk junk' hndl dev b1 b2 e"
  "\<lambda>r. snd (snd (snd r))"
  by unfold_locales
    (cases hndl; auto simp: rmnet_get_link_ingress_data_format_tailspace_def Let_def intro: nl_frame split: prod.split)

interpretation set_ep: nl_call "rmnet_set_logical_ep_config env junk junk' hndl ep mode dev dev2 e" "\<lambda>r. snd (snd r)"
  by unfold_locales
    (cases hndl; auto simp: rmnet_set_logical_ep_config_def Let_def intro: nl_frame split: prod.split)

interpretation unset_ep: nl_call "rmnet_unset_logical_ep_config env junk junk' hndl ep dev e" "\<lambda>r. snd (snd r)"
  by unfold_locales
    (cases hndl; auto simp: rmnet_unset_logical_ep_config_def Let_def intro: nl_frame split: prod.split)

interpretation get_ep: nl_call "rmnet_get_logical_ep_config env junk junk' hndl ep dev b1 buf len e"
  "\<lambda>r. snd (snd (snd (snd r)))"
  by unfold_locales
    (cases hndl; auto simp: rmnet_get_logical_ep_config_def Let_def intro: nl_frame split: prod.split option.split)

interpretation vnd_prefix: nl_call "rmnet_new_vnd_prefix env junk junk' hndl i e new pre" "\<lambda>r. snd (snd r)"
  by unfold_locales
    (cases hndl; auto simp: rmnet_new_vnd_prefix_def Let_def intro: nl_frame split: prod.split option.split)

interpretation vnd: nl_call "rmnet_new_vnd env junk junk' hndl i e new" "\<lambda>r. snd (snd r)"
  by unfold_locales (simp add: rmnet_new_vnd_def vnd_prefix.keeps)

interpretation vnd_name: nl_call "rmnet_get_vnd_name env junk junk' hndl i e buf len" "\<lambda>r. snd (snd (snd r))"
  by unfold_locales
    (cases hndl; auto simp: rmnet_get_vnd_name_def Let_def intro: nl_frame split: prod.split option.split)

interpretation tc_flow: nl_call "rmnet_add_del_vnd_tc_flow env junk junk' hndl i mf tf sf e" "\<lambda>r. snd (snd r)"
  by unfold_locales
    (cases hndl; auto simp: rmnet_add_del_vnd_tc_flow_def intro: nl_frame)

lemmas call_keeps =
  associate.keeps associated.keeps set_egress.keeps get_egress.keeps set_ingress.keeps get_ingress.keeps
  set_ep.keeps unset_ep.keeps get_ep.keeps vnd_prefix.keeps vnd.keeps vnd_name.keeps tc_flow.keeps

subsection \<open>The command line tool\<close>

lemma init_world:
  assumes "world_ok w" "rmnetctl_init env True (Some e) w = (rc, e', h, w1)"
  shows "if rc = RMNETCTL_SUCCESS
    then \<exists>b. h = Some b \<and> world_ok w1 \<and> blocks w1 = b # blocks w \<and> fds w1 = netlink_fd (hmem w1 b) # fds w \<and>
      bad_free w1 = bad_free w
    else blocks w1 = blocks w \<and> fds w1 = fds w"
proof (cases "e_malloc env (next_block w)")
  case False
  then show ?thesis using assms(2) by (auto simp: rmnetctl_init_def malloc_fails rmnet_codes)
next
  case True
  have "next_block w \<notin> set (blocks w)" using assms(1) by (auto simp: world_ok_def)
  with True assms show ?thesis
    by (auto simp: rmnetctl_init_def malloc_works Let_def rmnet_codes c_close_def c_free_live world_ok_def
        less_Suc_eq split: if_splits)
qed

text \<open>A command that ends early has cleaned up; any other leaves that to its caller.\<close>

definition cmd_ok :: "nat \<Rightarrow> 'k nl_world \<Rightarrow> 'k cmd_end \<Rightarrow> bool" where
  "cmd_ok h w r =
     (case r of
        Early rc out w' \<Rightarrow> blocks w' = remove1 h (blocks w) \<and> fds w' = remove1 (netlink_fd (hmem w h)) (fds w)
      | Status rc e out w' \<Rightarrow> frame w w')"

lemma cleanup_frame:
  assumes "h \<in> set (blocks w)" "frame w w'"
  shows "blocks (rmnetctl_cleanup (Some h) w') = remove1 h (blocks w)"
    "fds (rmnetctl_cleanup (Some h) w') = remove1 (netlink_fd (hmem w h)) (fds w)"
  using assms by (simp_all add: rmnetctl_cleanup_def c_close_def c_free_live frame_def)

lemma plain_ok: "frame w (snd (snd r)) \<Longrightarrow> cmd_ok h w (plain r)"
  by (auto simp: cmd_ok_def plain_def split: prod.split)

lemma missing_arg_ok: "h \<in> set (blocks w) \<Longrightarrow> cmd_ok h w (missing_arg h w)"
  using cleanup_frame [OF _ frame_refl, of h w] by (simp add: cmd_ok_def missing_arg_def)

lemma getlepc_ok:
  assumes "world_ok w" "h \<in> set (blocks w)"
  shows "cmd_ok h w (cmd_getlepc lw env junk junk' jb h argv e w)"
proof (cases "e_malloc env (next_block w)")
  case False
  then have "frame w (w\<lparr>next_block := Suc (next_block w)\<rparr>)" by (simp add: frame_def)
  with cleanup_frame [OF assms(2) this] False show ?thesis
    by (simp add: cmd_getlepc_def malloc_fails cmd_ok_def)
next
  case True
  let ?w1 = "w\<lparr>next_block := Suc (next_block w), blocks := next_block w # blocks w\<rparr>"
  have fresh: "next_block w \<notin> set (blocks w)" using assms(1) by (auto simp: world_ok_def)
  then have "world_ok ?w1" using assms(1) by (auto simp: world_ok_def less_Suc_eq)
  from get_ep.keeps [OF this, of env junk junk' "Some h" "STRTOI32 lw argv 1" "arg_bytes argv 2" True "Some jb"
      "of_nat RMNET_MAX_STR_LEN" "Some e"] True
  show ?thesis
    by (auto simp: cmd_getlepc_def malloc_works cmd_ok_def frame_def c_free_live split: prod.split)
qed

lemma rmnet_command_ok:
  assumes "world_ok w" "h \<in> set (blocks w)"
  shows "cmd_ok h w (rmnet_command lw env junk junk' jb h argv w)"
proof -
  note keeps = call_keeps [OF assms(1)]
  have assoc: "cmd_ok h w (case rmnet_get_network_device_associated env junk junk' (Some h) dev True (Some e) w of
      (rc, e', st, w') \<Rightarrow> Status rc (the e') (f rc st) w')" for dev e f
    using associated.keeps [OF assms(1), of env junk junk' "Some h" dev True "Some e"]
    by (auto simp: cmd_ok_def split: prod.split)
  have egress: "cmd_ok h w (case rmnet_get_link_egress_data_format env junk junk' (Some h) dev True True True (Some e) w of
      (rc, e', fmt, w') \<Rightarrow> Status rc (the e') (f rc fmt) w')" for dev e f
    using get_egress.keeps [OF assms(1), of env junk junk' "Some h" dev True True True "Some e"]
    by (auto simp: cmd_ok_def split: prod.split)
  have ingress: "cmd_ok h w (case rmnet_get_link_ingress_data_format_tailspace env junk junk' (Some h) dev True True (Some e) w of
      (rc, e', (fl, ts), w') \<Rightarrow> Status rc (the e') (f rc fl ts) w')" for dev e f
    using get_ingress.keeps [OF assms(1), of env junk junk' "Some h" dev True True "Some e"]
    by (auto simp: cmd_ok_def split: prod.split)
  have name: "cmd_ok h w (case rmnet_get_vnd_name env junk junk' (Some h) i (Some e) buf len w of
      (rc, e', b, w') \<Rightarrow> Status rc (the e') (f rc b) w')" for i e buf len f
    using vnd_name.keeps [OF assms(1), of env junk junk' "Some h" i "Some e" buf len]
    by (auto simp: cmd_ok_def split: prod.split)
  have none: "cmd_ok h w (Status rc e out w)" for rc e out by (simp add: cmd_ok_def frame_refl)
  show ?thesis
    unfolding rmnet_command_def Let_def
    by (simp only: if_split assoc egress ingress name none plain_ok keeps
        missing_arg_ok [OF assms(2)] getlepc_ok [OF assms] simp_thms)
qed

text \<open>
  C33. Whatever the arguments of the tool, the environment and the kernel's answers, a run of
  \<^verbatim>\<open>rmnetcli\<close> leaves no memory allocated and no descriptor open that was not so before.
\<close>

theorem cli_releases_everything:
  assumes "world_ok w" "rmnet_api_call lw env junk junk' jb argv w = (rc, out, w')"
  shows "blocks w' = blocks w \<and> fds w' = fds w"
proof (cases "argv = [] \<or> argv ! 0 = ''help''")
  case True
  then show ?thesis using assms(2) by (auto simp: rmnet_api_call_def split: if_splits)
next
  case False
  obtain rc1 e1 h w1 where i: "rmnetctl_init env True (Some RMNETCTL_CFG_FAILURE_NO_COMMAND) w = (rc1, e1, h, w1)"
    by (cases "rmnetctl_init env True (Some RMNETCTL_CFG_FAILURE_NO_COMMAND) w")
  note init = init_world [OF assms(1) i]
  show ?thesis
  proof (cases "rc1 = RMNETCTL_SUCCESS")
    case fails: False
    then show ?thesis using False assms(2) i init by (auto simp: rmnet_api_call_def)
  next
    case True
    with init obtain b where b: "h = Some b" "world_ok w1" "blocks w1 = b # blocks w"
      "fds w1 = netlink_fd (hmem w1 b) # fds w" by auto
    then have live: "b \<in> set (blocks w1)" by simp
    note cmd = rmnet_command_ok [OF b(2) live, of lw env junk junk' jb argv]
    show ?thesis
      using True False assms(2) i b cmd cleanup_frame [OF live]
      by (cases "rmnet_command lw env junk junk' jb b argv w1")
        (auto simp: rmnet_api_call_def cmd_ok_def)
  qed
qed

theorem cli_releases_everything_witness:
  "\<exists>rc out w'. rmnet_api_call 64 deaf_env blank_msg blank_msg [] [''newvnd'', ''1''] idle_world = (rc, out, w') \<and>
     blocks w' = [0] \<and> fds w' = [3]"
proof -
  obtain rc out w' where c: "rmnet_api_call 64 deaf_env blank_msg blank_msg [] [''newvnd'', ''1''] idle_world =
      (rc, out, w')"
    by (cases "rmnet_api_call 64 deaf_env blank_msg blank_msg [] [''newvnd'', ''1''] idle_world")
  have "blocks idle_world = [0]" "fds idle_world = [3]" by (simp_all add: idle_world_def)
  with cli_releases_everything [OF idle_world_ok(1) c] c show ?thesis by auto
qed

subsection \<open>Fields of a message\<close>

lemma le16_roundtrip: "le16_of (le16 w @ rest) = w"
proof (rule bit_word_eqI)
  fix n assume n: "n < LENGTH(16)"
  let ?a = "ucast (ucast w :: u8) :: u16" and ?b = "push_bit 8 (ucast (ucast (drop_bit 8 w) :: u8)) :: u16"
  have "?a + ?b = or ?a ?b"
    by (rule disjunctive_add) (simp add: bit_simps)
  then show "bit (le16_of (le16 w @ rest)) n = bit w n"
    using n by (auto simp: le16_def bit_simps)
qed

lemma length_le16 [simp]: "length (le16 w) = 2" by (simp add: le16_def)

lemma c_str_name:
  assumes "length src < 16" "0 \<notin> set src" "16 \<le> length d"
  shows "c_str (bytes_at 0 16 (put_at 0 (take 15 src @ [0]) d)) = src"
proof -
  have "bytes_at 0 16 (put_at 0 (take 15 src @ [0]) d) = src @ 0 # take (15 - length src) (drop (Suc (length src)) d)"
    using assms(1,3) by (simp add: bytes_at_def put_at_def take_Cons')
  then show ?thesis using assms(2) by (auto simp: c_str_def takeWhile_append2 takeWhile_tail)
qed
subsection \<open>Reading back a format\<close>

lemma transact_ok:
  assumes "world_ok w" "\<And>b. e_malloc env b"
    and "e_send env (kst w) (fst (nl_request (hmem w h) req)) (req\<lparr>crd := RMNET_NETLINK_MSG_COMMAND\<rparr>) = (True, k1)"
    and "e_recv env k1 = (Some r, k2)" "message_type r = message_type req"
  shows "\<exists>w'. rmnetctl_transact env (Some h) (Some req) (Some resp) w = (0, Some r, w') \<and> kst w' = k2 \<and>
    world_ok w' \<and> bad_free w' = bad_free w"
proof -
  let ?n = "next_block w"
  have fresh: "?n \<notin> set (blocks w)" "Suc ?n \<notin> set (blocks w)" using assms(1) by (auto simp: world_ok_def)
  obtain err resp' w' where t: "rmnetctl_transact env (Some h) (Some req) (Some resp) w = (err, resp', w')"
    by (cases "rmnetctl_transact env (Some h) (Some req) (Some resp) w")
  then have "err = 0 \<and> resp' = Some r \<and> kst w' = k2"
    using assms(2-) fresh
    by (auto simp: rmnetctl_transact_def malloc_works Let_def nl_request_def free_both_def split: prod.splits)
  with transact_world [OF assms(1) t] t show ?thesis
    using assms(1) by (auto simp: double_freeing_def rmnet_errors dest: frame_ok)
qed

text \<open>
  What the driver documents of the egress format: setting it for a device is acknowledged
  and remembered, getting it returns what is remembered.
\<close>

definition stores_egress :: "'k nl_env \<Rightarrow> ('k \<Rightarrow> u8 list \<Rightarrow> u32 \<times> u16 \<times> u16) \<Rightarrow> bool" where
  "stores_egress env fmt \<longleftrightarrow>
     (\<forall>k hdr m. message_type m = RMNET_NETLINK_SET_LINK_EGRESS_DATA_FORMAT \<and> crd m = RMNET_NETLINK_MSG_COMMAND \<longrightarrow>
        (\<exists>k1 r k2. e_send env k hdr m = (True, k1) \<and> e_recv env k1 = (Some r, k2) \<and>
           message_type r = message_type m \<and> crd r = RMNET_NETLINK_MSG_RETURNCODE \<and> nl_ret r = RMNET_CONFIG_OK \<and>
           fmt k2 = (fmt k)(c_str (bytes_at 0 16 (nl_data m)) :=
             (get_flags (nl_data m), get_agg_size (nl_data m), get_agg_count (nl_data m))))) \<and>
     (\<forall>k hdr m. message_type m = RMNET_NETLINK_GET_LINK_EGRESS_DATA_FORMAT \<and> crd m = RMNET_NETLINK_MSG_COMMAND \<longrightarrow>
        (\<exists>k1 r k2. e_send env k hdr m = (True, k1) \<and> e_recv env k1 = (Some r, k2) \<and>
           message_type r = message_type m \<and> crd r = RMNET_NETLINK_MSG_RETURNDATA \<and>
           (get_flags (nl_data r), get_agg_size (nl_data r), get_agg_count (nl_data r)) =
             fmt k (c_str (bytes_at 0 16 (nl_data m)))))"

lemma stores_set:
  assumes "stores_egress env fmt" "message_type m = RMNET_NETLINK_SET_LINK_EGRESS_DATA_FORMAT"
    "crd m = RMNET_NETLINK_MSG_COMMAND"
  obtains k1 r k2 where "e_send env k hdr m = (True, k1)" "e_recv env k1 = (Some r, k2)"
    "message_type r = message_type m" "crd r = RMNET_NETLINK_MSG_RETURNCODE" "nl_ret r = RMNET_CONFIG_OK"
    "fmt k2 (c_str (bytes_at 0 16 (nl_data m))) =
       (get_flags (nl_data m), get_agg_size (nl_data m), get_agg_count (nl_data m))"
  using assms unfolding stores_egress_def by (metis fun_upd_same)

lemma stores_get:
  assumes "stores_egress env fmt" "message_type m = RMNET_NETLINK_GET_LINK_EGRESS_DATA_FORMAT"
    "crd m = RMNET_NETLINK_MSG_COMMAND"
  obtains k1 r k2 where "e_send env k hdr m = (True, k1)" "e_recv env k1 = (Some r, k2)"
    "message_type r = message_type m" "crd r = RMNET_NETLINK_MSG_RETURNDATA"
    "(get_flags (nl_data r), get_agg_size (nl_data r), get_agg_count (nl_data r)) =
       fmt k (c_str (bytes_at 0 16 (nl_data m)))"
  using assms unfolding stores_egress_def by metis

lemma dev_name_ok: "length dev < 16 \<Longrightarrow> rmnetctl_check_dev_name (Some dev) = RMNETCTL_SUCCESS"
  by (simp add: rmnetctl_check_dev_name_def RMNET_MAX_STR_LEN_def)

lemma check_len_ok: "n < 16 \<Longrightarrow> rmnetctl_check_len n e = (RMNETCTL_SUCCESS, e)"
  by (simp add: rmnetctl_check_len_def RMNET_MAX_STR_LEN_def)

lemma egress_fields:
  fixes fl :: u32 and sz ct :: u16
  assumes "length dev < 16" "0 \<notin> set dev" "length d = 64"
  defines "d' \<equiv> put_at 22 (le16 ct) (put_at 20 (le16 sz) (put_at 16 (le32 fl) (put_at 0 (take 15 dev @ [0]) d)))"
  shows "c_str (bytes_at 0 16 d') = dev" "get_flags d' = fl" "get_agg_size d' = sz" "get_agg_count d' = ct"
proof -
  show "c_str (bytes_at 0 16 d') = dev"
    using assms(1,3) c_str_name [OF assms(1,2), of d] by (simp add: d'_def bytes_at_put_other)
  show "get_flags d' = fl"
    using assms(1,3) le32_roundtrip [of fl "[]"]
    by (simp add: d'_def get_flags_def bytes_at_put_other bytes_at_put_same)
  show "get_agg_size d' = sz"
    using assms(1,3) le16_roundtrip [of sz "[]"]
    by (simp add: d'_def get_agg_size_def bytes_at_put_other bytes_at_put_same)
  show "get_agg_count d' = ct"
    using assms(1,3) le16_roundtrip [of ct "[]"]
    by (simp add: d'_def get_agg_count_def bytes_at_put_other bytes_at_put_same)
qed

text \<open>
  C34. With a driver that stores the egress format as documented, a format with valid flags
  that is set for a device name of at most 15 bytes is read back unchanged, whatever the
  structures on the stack contained, and the heap is used correctly.
\<close>

theorem egress_format_roundtrip:
  assumes kernel: "stores_egress env fmt" and mem: "\<And>b. e_malloc env b" and w: "world_ok w"
    and dev: "length dev < 16" "0 \<notin> set dev" and flags: "and (not EGRESS_FLAGS_MASK) fl = 0"
    and junk: "length (nl_data junk) = 64" "length (nl_data junk2) = 64"
  shows "\<exists>w1 w2. rmnet_set_link_egress_data_format env junk junk' (Some h) fl sz ct (Some dev) (Some e) w =
      (RMNETCTL_SUCCESS, Some 0, w1) \<and>
    rmnet_get_link_egress_data_format env junk2 junk3 (Some h) (Some dev) True True True (Some e2) w1 =
      (RMNETCTL_SUCCESS, Some 0, Some (fl, sz, ct), w2) \<and> bad_free w2 = bad_free w"
proof -
  let ?d = "put_at 0 (take 15 dev @ [0]) (nl_data junk)"
  let ?d' = "put_at 22 (le16 ct) (put_at 20 (le16 sz) (put_at 16 (le32 fl) ?d))"
  let ?set = "junk\<lparr>message_type := RMNET_NETLINK_SET_LINK_EGRESS_DATA_FORMAT, nl_ret := 24, nl_data := ?d'\<rparr>"
  let ?get = "junk2\<lparr>message_type := RMNET_NETLINK_GET_LINK_EGRESS_DATA_FORMAT, nl_ret := 16,
    nl_data := put_at 0 (take 15 dev @ [0]) (nl_data junk2)\<rparr>"
  note fields = egress_fields [OF dev junk(1), where fl = fl and sz = sz and ct = ct]
  have cp: "strlcpy_at 0 dev RMNET_MAX_STR_LEN d = (length dev, put_at 0 (take 15 dev @ [0]) d)" for d
    by (simp add: strlcpy_at_def RMNET_MAX_STR_LEN_def)
  obtain k1 r k2 where k: "e_send env (kst w) (fst (nl_request (hmem w h) ?set))
      (?set\<lparr>crd := RMNET_NETLINK_MSG_COMMAND\<rparr>) = (True, k1)" "e_recv env k1 = (Some r, k2)"
    "message_type r = message_type ?set" "crd r = RMNET_NETLINK_MSG_RETURNCODE" "nl_ret r = RMNET_CONFIG_OK"
    "fmt k2 dev = (fl, sz, ct)"
    using stores_set [OF kernel, of "?set\<lparr>crd := RMNET_NETLINK_MSG_COMMAND\<rparr>" "kst w"
        "fst (nl_request (hmem w h) ?set)"] fields by auto
  obtain w1 where w1: "rmnetctl_transact env (Some h) (Some ?set) (Some junk') w = (0, Some r, w1)" "kst w1 = k2"
    "world_ok w1" "bad_free w1 = bad_free w"
    using transact_ok [OF w mem k(1-3)] by blast
  have set: "rmnet_set_link_egress_data_format env junk junk' (Some h) fl sz ct (Some dev) (Some e) w =
      (RMNETCTL_SUCCESS, Some 0, w1)"
    using w1(1) k(4,5) dev(1) flags
    by (simp add: rmnet_set_link_egress_data_format_def dev_name_ok cp check_len_ok reply_code_def
        rmnetctl_check_code_def rmnetctl_set_codes_def)
  obtain k3 r' k4 where g: "e_send env (kst w1) (fst (nl_request (hmem w1 h) ?get))
      (?get\<lparr>crd := RMNET_NETLINK_MSG_COMMAND\<rparr>) = (True, k3)" "e_recv env k3 = (Some r', k4)"
    "message_type r' = message_type ?get" "crd r' = RMNET_NETLINK_MSG_RETURNDATA"
    "(get_flags (nl_data r'), get_agg_size (nl_data r'), get_agg_count (nl_data r')) = fmt (kst w1) dev"
    using stores_get [OF kernel, of "?get\<lparr>crd := RMNET_NETLINK_MSG_COMMAND\<rparr>" "kst w1"
        "fst (nl_request (hmem w1 h) ?get)"] c_str_name [OF dev, of "nl_data junk2"] junk(2) by auto
  obtain w2 where w2: "rmnetctl_transact env (Some h) (Some ?get) (Some junk3) w1 = (0, Some r', w2)"
    "bad_free w2 = bad_free w1"
    using transact_ok [OF w1(3) mem g(1-3)] by blast
  have "rmnet_get_link_egress_data_format env junk2 junk3 (Some h) (Some dev) True True True (Some e2) w1 =
      (RMNETCTL_SUCCESS, Some 0, Some (fl, sz, ct), w2)"
    using w2(1) g(4,5) dev(1) k(6) w1(2)
    by (simp add: rmnet_get_link_egress_data_format_def dev_name_ok cp check_len_ok reply_data_def
        rmnetctl_check_data_def)
  with set w1(4) w2(2) show ?thesis by auto
qed

definition format_bytes :: "u32 \<times> u16 \<times> u16 \<Rightarrow> u8 list" where
  "format_bytes f = (case f of (fl, sz, ct) \<Rightarrow>
     put_at 22 (le16 ct) (put_at 20 (le16 sz) (put_at 16 (le32 fl) (put_at 0 (take 15 [] @ [0]) (replicate 64 0)))))"

definition driver_send ::
    "(u8 list \<Rightarrow> u32 \<times> u16 \<times> u16) \<times> nl_msg \<Rightarrow> nl_hdr \<Rightarrow> nl_msg \<Rightarrow> bool \<times> (u8 list \<Rightarrow> u32 \<times> u16 \<times> u16) \<times> nl_msg" where
  "driver_send k hdr m =
     (let dev = c_str (bytes_at 0 16 (nl_data m)); d = nl_data m in
      (True,
       if message_type m = RMNET_NETLINK_SET_LINK_EGRESS_DATA_FORMAT
       then ((fst k)(dev := (get_flags d, get_agg_size d, get_agg_count d)), m\<lparr>crd := 1, nl_ret := 0\<rparr>)
       else (fst k, m\<lparr>crd := 2, nl_data := format_bytes (fst k dev)\<rparr>)))"

definition driver_env :: "((u8 list \<Rightarrow> u32 \<times> u16 \<times> u16) \<times> nl_msg) nl_env" where
  "driver_env = \<lparr>e_malloc = (\<lambda>_. True), e_pid = 7, e_socket = 3, e_bind = True,
     e_send = driver_send, e_recv = (\<lambda>k. (Some (snd k), k))\<rparr>"

lemma format_bytes_fields:
  "(get_flags (format_bytes f), get_agg_size (format_bytes f), get_agg_count (format_bytes f)) = f"
  using egress_fields [of "[]" "replicate 64 0"] by (auto simp: format_bytes_def split: prod.split)

lemma driver_stores: "stores_egress driver_env fst"
  using format_bytes_fields
  by (simp add: stores_egress_def driver_env_def driver_send_def Let_def RMNET_NETLINK_MSG_RETURNCODE_def
      RMNET_NETLINK_MSG_RETURNDATA_def RMNET_CONFIG_OK_def RMNET_NETLINK_SET_LINK_EGRESS_DATA_FORMAT_def
      RMNET_NETLINK_GET_LINK_EGRESS_DATA_FORMAT_def)

theorem egress_format_roundtrip_witness:
  "\<exists>w w1 w2. rmnet_set_link_egress_data_format driver_env blank_msg blank_msg (Some 0) 6 1500 10 (Some [114, 48])
       (Some 101) w = (RMNETCTL_SUCCESS, Some 0, w1) \<and>
     rmnet_get_link_egress_data_format driver_env blank_msg blank_msg (Some 0) (Some [114, 48]) True True True
       (Some 101) w1 = (RMNETCTL_SUCCESS, Some 0, Some (6, 1500, 10), w2) \<and> \<not> bad_free w2"
proof -
  let ?w = "\<lparr>kst = (\<lambda>_. (0, 0, 0), blank_msg), hmem = (\<lambda>_. zero_hndl), blocks = [0], next_block = 1,
    bad_free = False, fds = [3]\<rparr>"
  have "world_ok ?w" "\<And>b. e_malloc driver_env b" "and (not EGRESS_FLAGS_MASK) 6 = 0" "length (nl_data blank_msg) = 64"
    by (simp_all add: world_ok_def driver_env_def EGRESS_FLAGS_MASK_def blank_msg_def)
  from egress_format_roundtrip [OF driver_stores this(2,1) _ _ this(3,4,4), of "[114, 48]" blank_msg 0 1500 10 101
      blank_msg 101]
  show ?thesis by (simp; blast)
qed

subsection \<open>Replies without data and error messages\<close>

text \<open>
  When the driver answers a query with a mere return code of success, the query reports
  success although its output was never set; only the error code tells that the reply was of
  the wrong kind.
\<close>

theorem query_success_without_data:
  assumes "world_ok w" "\<And>b. e_malloc env b" "length dev < 16"
    and "\<And>k hdr m. e_send env k hdr m = (True, k)" "\<And>k. e_recv env k = (Some r, k)"
    and "message_type r = RMNET_NETLINK_GET_NETWORK_DEVICE_ASSOCIATED" "crd r = RMNET_NETLINK_MSG_RETURNCODE"
      "nl_ret r = RMNET_CONFIG_OK"
  shows "\<exists>w'. rmnet_get_network_device_associated env junk junk' (Some h) (Some dev) True (Some e) w =
    (RMNETCTL_SUCCESS, Some RMNETCTL_API_ERR_RETURN_TYPE, None, w')"
proof -
  let ?d = "put_at 0 (take 15 dev @ [0]) (nl_data junk)"
  let ?req = "junk\<lparr>message_type := RMNET_NETLINK_GET_NETWORK_DEVICE_ASSOCIATED, nl_ret := 16, nl_data := ?d\<rparr>"
  have cp: "strlcpy_at 0 dev RMNET_MAX_STR_LEN d = (length dev, put_at 0 (take 15 dev @ [0]) d)" for d
    by (simp add: strlcpy_at_def RMNET_MAX_STR_LEN_def)
  have ty: "message_type r = message_type ?req" using assms(6) by simp
  obtain w' where "rmnetctl_transact env (Some h) (Some ?req) (Some junk') w = (0, Some r, w')"
    using transact_ok [OF assms(1,2) assms(4) assms(5) ty] by blast
  with assms(3,7,8) show ?thesis
    by (simp add: rmnet_get_network_device_associated_def dev_name_ok cp check_len_ok reply_data_def
        rmnetctl_check_data_def rmnetctl_check_code_def rmnetctl_set_codes_def rmnet_codes
        RMNET_NETLINK_MSG_RETURNCODE_def RMNET_NETLINK_MSG_RETURNDATA_def)
qed

theorem query_success_without_data_witness:
  "\<exists>w'. rmnet_get_network_device_associated
       (deaf_env\<lparr>e_send := (\<lambda>k hdr m. (True, k)),
          e_recv := (\<lambda>k. (Some (blank_msg\<lparr>message_type := RMNET_NETLINK_GET_NETWORK_DEVICE_ASSOCIATED, crd := 1\<rparr>), k))\<rparr>)
       blank_msg blank_msg (Some 0) (Some [114, 48]) True (Some 101) idle_world =
     (RMNETCTL_SUCCESS, Some RMNETCTL_API_ERR_RETURN_TYPE, None, w')"
  by (rule query_success_without_data [where r = "blank_msg\<lparr>message_type := RMNET_NETLINK_GET_NETWORK_DEVICE_ASSOCIATED,
      crd := 1\<rparr>"])
    (simp_all add: idle_world_ok deaf_env_def blank_msg_def RMNET_NETLINK_MSG_RETURNCODE_def RMNET_CONFIG_OK_def)

text \<open>
  Of the return codes of the kernel exactly the defined ones, 1 to 9, and the fifteen
  largest, whose sum with the offset wraps around, have a message; for every other one the
  tool reads behind its table.
\<close>

theorem kernel_error_text:
  assumes "c \<noteq> RMNET_CONFIG_OK"
  shows "fst (rmnetctl_set_codes c e) = RMNETCTL_KERNEL_ERR \<and>
    (print_rmnet_api_status RMNETCTL_KERNEL_ERR (snd (rmnetctl_set_codes c e)) =
       [BeyondTable (snd (rmnetctl_set_codes c e))] \<longleftrightarrow> \<not> (unat c \<le> 9 \<or> 65521 \<le> unat c))"
proof -
  have n: "snd (rmnetctl_set_codes c e) = c + 15"
    using assms by (simp add: rmnetctl_set_codes_def RMNETCTL_KERNEL_FIRST_ERR_def)
  have u: "unat (c + 15) = (unat c + 15) mod 65536" by (simp add: unat_word_ariths(1))
  have "unat c < 65536" using unsigned_less [of c] by simp
  then have "\<not> unat (c + 15) < 25 \<longleftrightarrow> \<not> (unat c \<le> 9 \<or> 65521 \<le> unat c)"
    unfolding u by (cases "unat c + 15 < 65536") (auto simp: mod_if)
  moreover have "length rmnetctl_error_code_text = 25" by (simp add: rmnetctl_error_code_text_def)
  ultimately show ?thesis
    using assms unfolding n by (auto simp: print_rmnet_api_status_def rmnet_codes rmnetctl_set_codes_def)
qed

theorem kernel_error_text_witness:
  "print_rmnet_api_status RMNETCTL_KERNEL_ERR (snd (rmnetctl_set_codes 10 0)) =
     [BeyondTable (snd (rmnetctl_set_codes 10 0))] \<and>
   print_rmnet_api_status RMNETCTL_KERNEL_ERR (snd (rmnetctl_set_codes 9 0)) \<noteq>
     [BeyondTable (snd (rmnetctl_set_codes 9 0))]"
  using kernel_error_text [of 10 0] kernel_error_text [of 9 0] by (simp add: RMNET_CONFIG_OK_def)

end
