(* ===== verification/Sap_Config.thy ===== *)
theory Sap_Config
  imports C_Prelude
begin

text \<open>
  The configuration files of the soft access point, from
  \<^verbatim>\<open>softap/sdk/qsap_api.c\<close>: \<^verbatim>\<open>qsap_scnprintf\<close>, the tables \<^verbatim>\<open>cmd_list\<close> and \<^verbatim>\<open>qsap_str\<close>,
  \<^verbatim>\<open>qsap_read_cfg\<close>, \<^verbatim>\<open>qsap_write_cfg\<close>, \<^verbatim>\<open>qsap_change_cfg\<close> and the security mode. A file system is a map from
  paths to contents; a line is what \<^verbatim>\<open>fgets\<close> delivers, so long lines are cut as in the
  code. Whether opening a file for writing, \<^verbatim>\<open>rename\<close>, \<^verbatim>\<open>chmod\<close> and \<^verbatim>\<open>chown\<close> succeed is
  an argument, one answer per operation that needs them; the position in that stream is
  part of the state. Paths are assumed to be shorter than the buffer for the temporary name.
\<close>

subsection \<open>Messages, numbers and tables\<close>

definition SUCCESS :: string where "SUCCESS = ''success''"
definition ERR_UNKNOWN :: string where "ERR_UNKNOWN = ''failure unknown error''"
definition ERR_FEATURE_NOT_ENABLED :: string where "ERR_FEATURE_NOT_ENABLED = ''failure feature not enabled''"
definition ERR_NOT_SUPPORTED :: string where "ERR_NOT_SUPPORTED = ''failure not supported''"
definition ERR_RES_UNAVAILABLE :: string where "ERR_RES_UNAVAILABLE = ''failure resource unavailable''"

definition eERR_UNKNOWN :: int where "eERR_UNKNOWN = -1"
definition eSUCCESS :: int where "eSUCCESS = 0"
definition eERR_FILE_OPEN :: int where "eERR_FILE_OPEN = 7"
definition eERR_CONF_FILE :: int where "eERR_CONF_FILE = 8"
definition eERR_CONFIG_PARAM_MISSING :: int where "eERR_CONFIG_PARAM_MISSING = 11"
definition eERR_FEATURE_NOT_ENABLED :: int where "eERR_FEATURE_NOT_ENABLED = 13"

lemmas sap_rc_defs = eERR_UNKNOWN_def eSUCCESS_def eERR_FILE_OPEN_def eERR_CONF_FILE_def
  eERR_CONFIG_PARAM_MISSING_def eERR_FEATURE_NOT_ENABLED_def

definition MAX_CONF_LINE_LEN :: nat where "MAX_CONF_LINE_LEN = 156"
definition MAX_INT_STR :: nat where "MAX_INT_STR = 8"

record Command =
  name :: string
  default_value :: "string option"

definition cmd_list :: "Command list" where
  "cmd_list = [
     \<lparr>name = ''ssid'', default_value = Some ''QualcommSoftAP''\<rparr>,
     \<lparr>name = ''ignore_broadcast_ssid'', default_value = Some ''0''\<rparr>,
     \<lparr>name = ''channel'', default_value = Some ''1''\<rparr>,
     \<lparr>name = ''beacon_int'', default_value = Some ''100''\<rparr>,
     \<lparr>name = ''dtim_period'', default_value = Some ''2''\<rparr>,
     \<lparr>name = ''hw_mode'', default_value = Some ''n''\<rparr>,
     \<lparr>name = ''auth_algs'', default_value = Some ''3''\<rparr>,
     \<lparr>name = ''security_mode'', default_value = Some ''0''\<rparr>,
     \<lparr>name = ''wep_key0'', default_value = None\<rparr>,
     \<lparr>name = ''wep_key1'', default_value = None\<rparr>,
     \<lparr>name = ''wep_key2'', default_value = None\<rparr>,
     \<lparr>name = ''wep_key3'', default_value = None\<rparr>,
     \<lparr>name = ''wep_default_key'', default_value = None\<rparr>,
     \<lparr>name = ''wpa_passphrase'', default_value = None\<rparr>,
     \<lparr>name = ''wpa_pairwise'', default_value = None\<rparr>,
     \<lparr>name = ''rsn_pairwise'', default_value = None\<rparr>,
     \<lparr>name = ''mac_address'', default_value = Some ''00deadbeef04''\<rparr>,
     \<lparr>name = ''reset_ap'', default_value = None\<rparr>,
     \<lparr>name = ''macaddr_acl'', default_value = Some ''0''\<rparr>,
     \<lparr>name = ''add_to_allow_list'', default_value = None\<rparr>,
     \<lparr>name = ''add_to_deny_list'', default_value = None\<rparr>,
     \<lparr>name = ''remove_from_allow_list'', default_value = None\<rparr>,
     \<lparr>name = ''remove_from_deny_list'', default_value = None\<rparr>,
     \<lparr>name = ''allow_list'', default_value = Some []\<rparr>,
     \<lparr>name = ''deny_list'', default_value = Some []\<rparr>,
     \<lparr>name = ''commit'', default_value = None\<rparr>,
     \<lparr>name = ''enable_softap'', default_value = None\<rparr>,
     \<lparr>name = ''disassoc_sta'', default_value = None\<rparr>,
     \<lparr>name = ''reset_to_default'', default_value = None\<rparr>,
     \<lparr>name = ''protection_flag'', default_value = Some ''1''\<rparr>,
     \<lparr>name = ''data_rate'', default_value = Some ''0''\<rparr>,
     \<lparr>name = ''sta_mac_list'', default_value = None\<rparr>,
     \<lparr>name = ''tx_power'', default_value = Some ''27''\<rparr>,
     \<lparr>name = ''sdk_version'', default_value = Some ''0.0.1.0''\<rparr>,
     \<lparr>name = ''wmm_enabled'', default_value = Some ''0''\<rparr>,
     \<lparr>name = ''wps_state'', default_value = Some ''0''\<rparr>,
     \<lparr>name = ''config_methods'', default_value = None\<rparr>,
     \<lparr>name = ''uuid'', default_value = None\<rparr>,
     \<lparr>name = ''device_name'', default_value = None\<rparr>,
     \<lparr>name = ''manufacturer'', default_value = None\<rparr>,
     \<lparr>name = ''model_name'', default_value = None\<rparr>,
     \<lparr>name = ''model_number'', default_value = None\<rparr>,
     \<lparr>name = ''serial_number'', default_value = None\<rparr>,
     \<lparr>name = ''device_type'', default_value = None\<rparr>,
     \<lparr>name = ''os_version'', default_value = None\<rparr>,
     \<lparr>name = ''friendly_name'', default_value = None\<rparr>,
     \<lparr>name = ''manufacturer_url'', default_value = None\<rparr>,
     \<lparr>name = ''model_description'', default_value = None\<rparr>,
     \<lparr>name = ''model_url'', default_value = None\<rparr>,
     \<lparr>name = ''upc'', default_value = None\<rparr>,
     \<lparr>name = ''fragm_threshold'', default_value = None\<rparr>,
     \<lparr>name = ''rts_threshold'', default_value = None\<rparr>,
     \<lparr>name = ''wpa_group_rekey'', default_value = None\<rparr>,
     \<lparr>name = ''country_code'', default_value = None\<rparr>,
     \<lparr>name = ''ap_isolate'', default_value = None\<rparr>,
     \<lparr>name = ''ieee80211d'', default_value = None\<rparr>,
     \<lparr>name = ''apstat'', default_value = None\<rparr>,
     \<lparr>name = ''auto_shut_off_time'', default_value = None\<rparr>,
     \<lparr>name = ''energy_detect_threshold'', default_value = Some ''128''\<rparr>,
     \<lparr>name = ''basic_rates'', default_value = None\<rparr>,
     \<lparr>name = ''require_ht'', default_value = None\<rparr>,
     \<lparr>name = ''ieee80211n'', default_value = Some ''1''\<rparr>,
     \<lparr>name = ''setchannelrange'', default_value = None\<rparr>,
     \<lparr>name = ''autochannel'', default_value = None\<rparr>,
     \<lparr>name = ''ieee80211w'', default_value = None\<rparr>,
     \<lparr>name = ''wpa_key_mgmt'', default_value = None\<rparr>,
     \<lparr>name = ''max_num_sta'', default_value = Some ''8''\<rparr>,
     \<lparr>name = ''ieee80211ac'', default_value = None\<rparr>,
     \<lparr>name = ''vht_oper_chwidth'', default_value = None\<rparr>,
     \<lparr>name = ''chanlist'', default_value = None\<rparr>,
     \<lparr>name = ''ht_capab'', default_value = None\<rparr>,
     \<lparr>name = ''ieee80211h'', default_value = None\<rparr>,
     \<lparr>name = ''enable_wigig_softap'', default_value = None\<rparr>,
     \<lparr>name = ''interface'', default_value = None\<rparr>]"

definition qsap_str :: "Command list" where
  "qsap_str = [
     \<lparr>name = ''wpa'', default_value = None\<rparr>,
     \<lparr>name = ''accept_mac_file'', default_value = None\<rparr>,
     \<lparr>name = ''deny_mac_file'', default_value = None\<rparr>,
     \<lparr>name = ''gAPMacAddr'', default_value = Some ''00deadbeef04''\<rparr>,
     \<lparr>name = ''gEnableApProt'', default_value = Some ''1''\<rparr>,
     \<lparr>name = ''gFixedRate'', default_value = Some ''0''\<rparr>,
     \<lparr>name = ''gTxPowerCap'', default_value = Some ''27''\<rparr>,
     \<lparr>name = ''gFragmentationThreshold'', default_value = Some ''2346''\<rparr>,
     \<lparr>name = ''RTSThreshold'', default_value = Some ''2347''\<rparr>,
     \<lparr>name = ''gAPCntryCode'', default_value = Some ''USI''\<rparr>,
     \<lparr>name = ''gDisableIntraBssFwd'', default_value = Some ''0''\<rparr>,
     \<lparr>name = ''WmmIsEnabled'', default_value = Some ''0''\<rparr>,
     \<lparr>name = ''g11dSupportEnabled'', default_value = Some ''1''\<rparr>,
     \<lparr>name = ''ieee80211n'', default_value = None\<rparr>,
     \<lparr>name = ''ctrl_interface'', default_value = None\<rparr>,
     \<lparr>name = ''interface'', default_value = None\<rparr>,
     \<lparr>name = ''eap_server'', default_value = None\<rparr>,
     \<lparr>name = ''gAPAutoShutOff'', default_value = Some ''0''\<rparr>,
     \<lparr>name = ''gEnablePhyAgcListenMode'', default_value = Some ''128''\<rparr>]"

definition hw_mode :: "string list" where
  "hw_mode = [''b'', ''g'', ''n'', ''g-only'', ''n-only'', ''a'']"

definition eCMD_SEC_MODE :: nat where "eCMD_SEC_MODE = 7"
definition eCMD_WEP_KEY0 :: nat where "eCMD_WEP_KEY0 = 8"
definition eCMD_WEP_KEY1 :: nat where "eCMD_WEP_KEY1 = 9"
definition eCMD_WEP_KEY2 :: nat where "eCMD_WEP_KEY2 = 10"
definition eCMD_WEP_KEY3 :: nat where "eCMD_WEP_KEY3 = 11"
definition eCMD_DEFAULT_KEY :: nat where "eCMD_DEFAULT_KEY = 12"
definition eCMD_PASSPHRASE :: nat where "eCMD_PASSPHRASE = 13"
definition eCMD_WPA_PAIRWISE :: nat where "eCMD_WPA_PAIRWISE = 14"
definition eCMD_RSN_PAIRWISE :: nat where "eCMD_RSN_PAIRWISE = 15"

definition STR_WPA :: nat where "STR_WPA = 0"

subsection \<open>Responses\<close>

text \<open>The response buffer \<^verbatim>\<open>presp\<close> with \<^verbatim>\<open>*plen\<close>: its size before a call, the length of the
  response after it. Sizes are below \<open>2 ^ 31\<close>.\<close>

type_synonym resp = "string \<times> nat"

definition qsap_scnprintf :: "string \<Rightarrow> resp \<Rightarrow> resp" where
  "qsap_scnprintf text r =
     (case r of (old, sz) \<Rightarrow>
      if sz < 1 then (old, 0)
      else if length text < sz then (text, length text)
      else (take (sz - 1) text, sz - 1))"

text \<open>The contents of a local buffer after \<^verbatim>\<open>qsap_scnprintf\<close>.\<close>

definition scn :: "nat \<Rightarrow> string \<Rightarrow> string" where
  "scn sz text = fst (qsap_scnprintf text ([], sz))"

subsection \<open>Files\<close>

record sap_io =
  open_ok :: bool
  reopen_ok :: bool
  rename_ok :: bool
  chmod_ok :: bool
  chown_ok :: bool

record sap_st =
  files :: "string \<Rightarrow> string option"
  gIniUpdated :: bool
  io_pos :: nat

definition NL :: char where "NL = CHR 0x0A"
definition CR :: char where "CR = CHR 0x0D"
definition NUL :: char where "NUL = CHR 0x00"

text \<open>One \<^verbatim>\<open>fgets (buf, n, f)\<close>, and the lines a loop of them delivers.\<close>

definition fgets :: "nat \<Rightarrow> string \<Rightarrow> string" where
  "fgets n s =
     (let t = take (n - 1) s; l = takeWhile (\<lambda>c. c \<noteq> NL) t in
      if length l < length t then l @ [NL] else l)"

function fgets_lines :: "nat \<Rightarrow> string \<Rightarrow> string list" where
  "fgets_lines n s =
     (if s = [] \<or> n \<le> 1 then [] else fgets n s # fgets_lines n (drop (length (fgets n s)) s))"
  by pat_completeness auto
termination
proof (relation "measure (\<lambda>(n, s). length s)")
  fix n :: nat and s :: string
  assume a: "\<not> (s = [] \<or> n \<le> 1)"
  then have "take (n - 1) s \<noteq> []" by simp
  then have "fgets n s \<noteq> []" by (cases "take (n - 1) s") (auto simp: fgets_def Let_def)
  with a show "((n, drop (length (fgets n s)) s), n, s) \<in> measure (\<lambda>(n, s). length s)" by auto
qed simp

declare fgets_lines.simps [simp del]

text \<open>What the string functions see of a buffer.\<close>

definition cstr :: "string \<Rightarrow> string" where
  "cstr l = takeWhile (\<lambda>c. c \<noteq> NUL) l"

definition is_comment :: "string \<Rightarrow> bool" where
  "is_comment buf \<longleftrightarrow> take 1 buf = ''#''"

text \<open>\<^verbatim>\<open>!strncmp (p, name, len) && p[len] == '='\<close>.\<close>

definition names :: "string \<Rightarrow> string \<Rightarrow> bool" where
  "names nm p \<longleftrightarrow> prefix (nm @ ''='') p"

definition chop :: "string \<Rightarrow> string" where
  "chop buf = rev (dropWhile (\<lambda>c. c = CR \<or> c = NL) (rev buf))"

subsection \<open>Reading a parameter\<close>

fun find_line :: "string \<Rightarrow> bool \<Rightarrow> string list \<Rightarrow> string option" where
  "find_line nm ignore_comment [] = None"
| "find_line nm ignore_comment (l # ls) =
     (let buf = cstr l in
      if is_comment buf \<and> \<not> ignore_comment then find_line nm ignore_comment ls
      else let pline = (if is_comment buf then tl buf else buf) in
        if names nm pline then Some (chop pline) else find_line nm ignore_comment ls)"

definition read_default :: "Command \<Rightarrow> string option \<Rightarrow> resp \<Rightarrow> int \<times> resp" where
  "read_default cmd var r =
     (case default_value cmd of
        Some d \<Rightarrow> (eSUCCESS,
          qsap_scnprintf (SUCCESS @ '' '' @ (case var of None \<Rightarrow> name cmd | Some v \<Rightarrow> v) @ ''='' @ d) r)
      | None \<Rightarrow> (eERR_CONFIG_PARAM_MISSING, qsap_scnprintf ERR_FEATURE_NOT_ENABLED r))"

definition qsap_read_cfg ::
    "string \<Rightarrow> Command \<Rightarrow> string option \<Rightarrow> bool \<Rightarrow> resp \<Rightarrow> sap_st \<Rightarrow> int \<times> resp" where
  "qsap_read_cfg pfile cmd var ignore_comment r s =
     (case files s pfile of
        None \<Rightarrow> (eERR_FILE_OPEN, qsap_scnprintf ERR_RES_UNAVAILABLE r)
      | Some content \<Rightarrow>
          (case find_line (name cmd) ignore_comment (fgets_lines MAX_CONF_LINE_LEN content) of
             None \<Rightarrow> read_default cmd var r
           | Some pline \<Rightarrow>
               (case var of
                  None \<Rightarrow> (eSUCCESS, qsap_scnprintf (SUCCESS @ '' '' @ pline) r)
                | Some v \<Rightarrow>
                    (case strchr pline (CHR ''='') of
                       None \<Rightarrow> read_default cmd var r
                     | Some i \<Rightarrow> (eSUCCESS, qsap_scnprintf (SUCCESS @ '' '' @ v @ drop i pline) r)))))"

text \<open>\<^verbatim>\<open>qsap_get_config_value\<close>: the pointer behind the equals sign, as the text it points at.\<close>

definition qsap_get_config_value :: "string \<Rightarrow> Command \<Rightarrow> resp \<Rightarrow> sap_st \<Rightarrow> string option \<times> resp" where
  "qsap_get_config_value pfile cmd r s =
     (case qsap_read_cfg pfile cmd None False r s of (rc, (pbuf, n)) \<Rightarrow>
      (if rc = eSUCCESS then map_option (\<lambda>i. drop (Suc i) pbuf) (strchr pbuf (CHR ''='')) else None, (pbuf, n)))"

subsection \<open>Replacing a file\<close>

definition tmp_name :: "string \<Rightarrow> string" where
  "tmp_name pfile = scn (MAX_CONF_LINE_LEN + 1) (pfile @ ''~'')"

definition c_rename :: "bool \<Rightarrow> string \<Rightarrow> string \<Rightarrow> sap_st \<Rightarrow> sap_st" where
  "c_rename ok old new s =
     (if ok then s\<lparr>files := (files s)(old := None, new := files s old)\<rparr> else s)"

definition c_unlink :: "string \<Rightarrow> sap_st \<Rightarrow> sap_st" where
  "c_unlink p s = s\<lparr>files := (files s)(p := None)\<rparr>"

definition c_put :: "string \<Rightarrow> string \<Rightarrow> sap_st \<Rightarrow> sap_st" where
  "c_put p content s = s\<lparr>files := (files s)(p \<mapsto> content)\<rparr>"

text \<open>The end of both writers: \<^verbatim>\<open>chmod\<close> and \<^verbatim>\<open>chown\<close>, and the removal of the file if one fails.\<close>

definition set_owner :: "sap_io \<Rightarrow> string \<Rightarrow> sap_st \<Rightarrow> bool \<times> sap_st" where
  "set_owner io pfile s =
     (if \<not> chmod_ok io then (False, c_unlink pfile s)
      else if \<not> chown_ok io then (False, c_unlink pfile s)
      else (True, s))"

subsection \<open>Writing a parameter\<close>

text \<open>
  The copy loop of \<^verbatim>\<open>qsap_write_cfg\<close>: what it writes, \<^verbatim>\<open>result\<close>, and the lines left when it
  stops at the end mark of an ini file. The line buffer has one byte more than the lines read.
\<close>

definition cfg_line :: "string \<Rightarrow> string \<Rightarrow> string" where
  "cfg_line nm v = scn (MAX_CONF_LINE_LEN + 1) (nm @ ''='' @ v @ [NL])"

fun write_lines :: "string \<Rightarrow> string \<Rightarrow> bool \<Rightarrow> bool \<Rightarrow> string list \<Rightarrow> string list \<times> bool \<times> string list" where
  "write_lines nm v ini result [] = ([], result, [])"
| "write_lines nm v ini result (l # ls) =
     (let buf = cstr l; off = (if is_comment buf then 1 else 0);
          hit = (names nm (drop off buf) \<and> \<not> result);
          buf' = (if hit then cfg_line nm v else buf)
      in if ini \<and> take 3 (drop off buf') = ''END'' then ([], result \<or> hit, ls)
         else case write_lines nm v ini (result \<or> hit) ls of
           (out, res, rest) \<Rightarrow> (buf' # out, res, rest))"

text \<open>All that is printed into the temporary file, in order.\<close>

definition put_lines :: "string \<Rightarrow> string \<Rightarrow> bool \<Rightarrow> string list \<Rightarrow> string list" where
  "put_lines nm v ini ls =
     (case write_lines nm v ini False ls of (out, res, rest) \<Rightarrow>
        out @ (if res then [] else [cfg_line nm v]) @
        (if ini then (''END'' @ [NL]) # map cstr rest else []))"

definition qsap_write_cfg ::
    "(nat \<Rightarrow> sap_io) \<Rightarrow> string \<Rightarrow> Command \<Rightarrow> string \<Rightarrow> bool \<Rightarrow> resp \<Rightarrow> sap_st \<Rightarrow> int \<times> resp \<times> sap_st" where
  "qsap_write_cfg e pfile cmd pVal inifile r s0 =
     (let io = e (io_pos s0); s = s0\<lparr>io_pos := Suc (io_pos s0)\<rparr> in
      case files s pfile of
        None \<Rightarrow> (eERR_FILE_OPEN, qsap_scnprintf ERR_RES_UNAVAILABLE r, s)
      | Some _ \<Rightarrow>
          if \<not> open_ok io then (eERR_FILE_OPEN, qsap_scnprintf ERR_RES_UNAVAILABLE r, s)
          else
            (let s1 = c_put (tmp_name pfile) [] s;
                 ls = fgets_lines MAX_CONF_LINE_LEN (the (files s1 pfile));
                 s2 = c_put (tmp_name pfile) (concat (put_lines (name cmd) pVal inifile ls)) s1;
                 s3 = (if inifile then s2\<lparr>gIniUpdated := True\<rparr> else s2);
                 s4 = c_unlink (tmp_name pfile) (c_rename (rename_ok io) (tmp_name pfile) pfile s3);
                 r' = qsap_scnprintf (if rename_ok io then SUCCESS else ERR_FEATURE_NOT_ENABLED) r
             in case set_owner io pfile s4 of
                  (False, s5) \<Rightarrow> (-1, r', s5)
                | (True, s5) \<Rightarrow> (if rename_ok io then eSUCCESS else eERR_FEATURE_NOT_ENABLED, r', s5)))"

subsection \<open>Enabling and disabling a parameter\<close>

definition change_line :: "string \<Rightarrow> bool \<Rightarrow> string \<Rightarrow> string" where
  "change_line nm enable l =
     (let buf = cstr l; p = (if is_comment buf then tl buf else buf) in
      if names nm p then (if enable then p else CHR ''#'' # p) else buf)"

definition qsap_change_cfg ::
    "(nat \<Rightarrow> sap_io) \<Rightarrow> string \<Rightarrow> Command \<Rightarrow> bool \<Rightarrow> sap_st \<Rightarrow> int \<times> sap_st" where
  "qsap_change_cfg e pfile cmd status s0 =
     (let io = e (io_pos s0); s = s0\<lparr>io_pos := Suc (io_pos s0)\<rparr> in
      case files s pfile of
        None \<Rightarrow> (eERR_UNKNOWN, s)
      | Some _ \<Rightarrow>
          if \<not> open_ok io then (eERR_UNKNOWN, s)
          else
            (let s1 = c_put (tmp_name pfile) [] s;
                 ls = fgets_lines MAX_CONF_LINE_LEN (the (files s1 pfile));
                 s2 = c_put (tmp_name pfile) (concat (map (change_line (name cmd) status) ls)) s1
             in if \<not> rename_ok io then (eERR_UNKNOWN, s2)
                else case set_owner io pfile (c_unlink (tmp_name pfile) (c_rename True (tmp_name pfile) pfile s2)) of
                  (False, s5) \<Rightarrow> (-1, s5)
                | (True, s5) \<Rightarrow> (0, s5)))"

subsection \<open>The security mode\<close>

definition SEC_MODE_NONE :: nat where "SEC_MODE_NONE = 0"
definition SEC_MODE_WEP :: nat where "SEC_MODE_WEP = 1"
definition SEC_MODE_WPA_PSK :: nat where "SEC_MODE_WPA_PSK = 2"
definition SEC_MODE_WPA2_PSK :: nat where "SEC_MODE_WPA2_PSK = 3"
definition SEC_MODE_WPA_WPA2_PSK :: nat where "SEC_MODE_WPA_WPA2_PSK = 4"
definition SEC_MODE_INVALID :: nat where "SEC_MODE_INVALID = 5"

lemmas sec_mode_defs = SEC_MODE_NONE_def SEC_MODE_WEP_def SEC_MODE_WPA_PSK_def SEC_MODE_WPA2_PSK_def
  SEC_MODE_WPA_WPA2_PSK_def SEC_MODE_INVALID_def

text \<open>
  \<^verbatim>\<open>while ((*plen)-- && (*ptmp++ != '='))\<close> over the response: the text left at \<^verbatim>\<open>ptmp\<close> and
  \<^verbatim>\<open>*plen\<close>, which wraps to the largest value when the loop ends by the counter.
\<close>

fun skip_to_value :: "string \<Rightarrow> u32 \<Rightarrow> string \<times> u32" where
  "skip_to_value [] n = ([], n - 1)"
| "skip_to_value (c # t) n =
     (if n = 0 then (c # t, n - 1)
      else if c = CHR ''='' then (t, n - 1) else skip_to_value t (n - 1))"

definition wpa_mode :: "resp \<Rightarrow> nat" where
  "wpa_mode r =
     (case skip_to_value (fst r) (of_nat (snd r)) of (p, n) \<Rightarrow>
      if n \<noteq> 0 then
        (if take 1 p = ''1'' then SEC_MODE_WPA_PSK
         else if take 1 p = ''2'' then SEC_MODE_WPA2_PSK
         else if take 1 p = ''3'' then SEC_MODE_WPA_WPA2_PSK else SEC_MODE_INVALID)
      else SEC_MODE_INVALID)"

definition qsap_read_security_mode :: "string \<Rightarrow> resp \<Rightarrow> sap_st \<Rightarrow> nat \<times> resp" where
  "qsap_read_security_mode pfile r s =
     (let temp = snd r;
          r1 = snd (qsap_read_cfg pfile (cmd_list ! eCMD_DEFAULT_KEY) None False r s);
          r2 = snd (qsap_read_cfg pfile (qsap_str ! STR_WPA) None False (fst r1, temp) s);
          report = (\<lambda>mode. (mode,
            qsap_scnprintf (if mode \<noteq> SEC_MODE_INVALID
              then SUCCESS @ '' '' @ name (cmd_list ! eCMD_SEC_MODE) @ ''='' @ fmt_d (int mode)
              else ERR_NOT_SUPPORTED) (fst r2, temp)))
      in if fst r1 = ERR_FEATURE_NOT_ENABLED then
           report (if fst r2 = ERR_FEATURE_NOT_ENABLED then SEC_MODE_NONE else wpa_mode r2)
         else if fst r2 = ERR_FEATURE_NOT_ENABLED then report SEC_MODE_WEP
         else (SEC_MODE_INVALID, qsap_scnprintf ERR_UNKNOWN (fst r2, temp)))"

fun change_all :: "(nat \<Rightarrow> sap_io) \<Rightarrow> string \<Rightarrow> (Command \<times> bool) list \<Rightarrow> sap_st \<Rightarrow> int \<times> sap_st" where
  "change_all e pfile [] s = (eSUCCESS, s)"
| "change_all e pfile ((cmd, status) # cs) s =
     (case qsap_change_cfg e pfile cmd status s of (rc, s') \<Rightarrow>
      if rc = eERR_UNKNOWN then (eERR_UNKNOWN, s') else change_all e pfile cs s')"

definition security_changes :: "nat \<Rightarrow> (Command \<times> bool) list" where
  "security_changes sec_mode =
     (let wep = (sec_mode = SEC_MODE_WEP);
          wpa = (sec_mode \<noteq> SEC_MODE_NONE \<and> sec_mode \<noteq> SEC_MODE_WEP);
          rsn_status = (sec_mode = SEC_MODE_WPA2_PSK \<or> sec_mode = SEC_MODE_WPA_WPA2_PSK);
          state = (if sec_mode = SEC_MODE_WPA_WPA2_PSK then True else \<not> rsn_status)
      in [(cmd_list ! eCMD_DEFAULT_KEY, wep), (cmd_list ! eCMD_WEP_KEY0, wep), (cmd_list ! eCMD_WEP_KEY1, wep),
          (cmd_list ! eCMD_WEP_KEY2, wep), (cmd_list ! eCMD_WEP_KEY3, wep), (cmd_list ! eCMD_PASSPHRASE, wpa)] @
         (if wpa then [(cmd_list ! eCMD_WPA_PAIRWISE, state)] else []) @
         [(cmd_list ! eCMD_RSN_PAIRWISE, rsn_status), (qsap_str ! STR_WPA, wpa)])"

definition wpa_in_conf_file :: "nat \<Rightarrow> nat" where
  "wpa_in_conf_file sec_mode =
     (if sec_mode = SEC_MODE_WPA_PSK then 1 else if sec_mode = SEC_MODE_WPA2_PSK then 2 else 3)"

definition qsap_set_security_mode ::
    "(nat \<Rightarrow> sap_io) \<Rightarrow> string \<Rightarrow> nat \<Rightarrow> resp \<Rightarrow> sap_st \<Rightarrow> resp \<times> sap_st" where
  "qsap_set_security_mode e pfile sec_mode r s =
     (if sec_mode \<ge> SEC_MODE_INVALID then (qsap_scnprintf ERR_UNKNOWN r, s)
      else
        (let (r1, s1) =
           (if sec_mode = SEC_MODE_NONE \<or> sec_mode = SEC_MODE_WEP then (r, s)
            else case qsap_write_cfg e pfile (qsap_str ! STR_WPA)
                        (scn MAX_INT_STR (fmt_d (int (wpa_in_conf_file sec_mode)))) False r s of
              (rc, r', s') \<Rightarrow> ((fst r', snd r), s'))
         in case change_all e pfile (security_changes sec_mode) s1 of
           (ret, s2) \<Rightarrow> (qsap_scnprintf (if ret = eSUCCESS then SUCCESS else ERR_UNKNOWN) r1, s2)))"

end
