(* ===== verification/Sap_Mac.thy ===== *)
theory Sap_Mac
  imports Sap_Config
begin

text \<open>
  The MAC lists and keys of the soft access point, from \<^verbatim>\<open>softap/sdk/qsap_api.c\<close>: validation
  of MAC addresses, adding to and removing from the allow and deny files, reading them back,
  WEP keys, command numbers and the copy of the default configuration. The argument of the
  add operation is a piece of memory, because the code reads behind its terminator.
\<close>

definition MAC_ADDR_LEN :: nat where "MAC_ADDR_LEN = 17"
definition MAX_ALLOWED_MAC :: nat where "MAX_ALLOWED_MAC = 15"

definition isxdigit :: "char \<Rightarrow> bool" where "isxdigit c = is_digit 16 c"

definition isValid_MAC_address :: "string \<Rightarrow> bool" where
  "isValid_MAC_address pMac \<longleftrightarrow>
     \<not> length pMac < MAC_ADDR_LEN \<and>
     list_all (\<lambda>i. if i \<in> {2, 5, 8, 11, 14} then pMac ! i = CHR '':'' else isxdigit (pMac ! i)) [0..<MAC_ADDR_LEN]"

subsection \<open>Adding to a MAC list\<close>

text \<open>
  Memory at \<^verbatim>\<open>pVal\<close>: the argument, its terminator and whatever lies behind it.
\<close>

definition mem_of :: "string \<Rightarrow> (nat \<Rightarrow> char) \<Rightarrow> nat \<Rightarrow> char" where
  "mem_of v past i = (if i < length v then v ! i else if i = length v then NUL else past (i - Suc (length v)))"

text \<open>The inner loop copies at most \<^verbatim>\<open>MAC_ADDR_LEN\<close> bytes up to a space or the terminator.\<close>

fun mac_token :: "nat \<Rightarrow> (nat \<Rightarrow> char) \<Rightarrow> nat \<Rightarrow> string \<times> nat" where
  "mac_token 0 m i = ([], i)"
| "mac_token (Suc k) m i =
     (if m i \<noteq> CHR '' '' \<and> m i \<noteq> NUL
      then (case mac_token k m (Suc i) of (t, j) \<Rightarrow> (m i # t, j)) else ([], i))"

partial_function (option) add_macs :: "(nat \<Rightarrow> char) \<Rightarrow> nat \<Rightarrow> int \<Rightarrow> int \<Rightarrow> string \<Rightarrow> string option" where
  "add_macs m pVal len num_macs out =
     (if len > 0 then
        (case mac_token MAC_ADDR_LEN m pVal of (macbuf, j) \<Rightarrow>
         (let len' = len - int (length macbuf) - (if m (Suc j) \<noteq> NUL then 1 else 0) in
          if isValid_MAC_address macbuf then
            (if num_macs + 1 = int MAX_ALLOWED_MAC then Some (out @ macbuf @ [NL])
             else add_macs m (Suc j) len' (num_macs + 1) (out @ macbuf @ [NL]))
          else add_macs m (Suc j) len' num_macs out))
      else Some out)"

definition to_int16 :: "int \<Rightarrow> int" where
  "to_int16 v = (v + 2 ^ 15) mod 2 ^ 16 - 2 ^ 15"

text \<open>The file is opened for appending first, which creates it.\<close>

definition qsap_add_mac_to_file ::
    "(nat \<Rightarrow> sap_io) \<Rightarrow> string \<Rightarrow> string \<Rightarrow> (nat \<Rightarrow> char) \<Rightarrow> resp \<Rightarrow> sap_st \<Rightarrow> (resp \<times> sap_st) option" where
  "qsap_add_mac_to_file e pfile pVal past r s0 =
     (let io = e (io_pos s0); s = s0\<lparr>io_pos := Suc (io_pos s0)\<rparr> in
      if \<not> open_ok io then Some (qsap_scnprintf ERR_RES_UNAVAILABLE r, s)
      else
        (let content = (case files s pfile of None \<Rightarrow> [] | Some c \<Rightarrow> c); s1 = c_put pfile content s in
         if \<not> reopen_ok io then Some (qsap_scnprintf ERR_RES_UNAVAILABLE r, s1)
         else
           (let num_macs = to_int16 (int (length (fgets_lines 32 content))) in
            if num_macs \<ge> int MAX_ALLOWED_MAC then Some (qsap_scnprintf ERR_UNKNOWN r, s1)
            else map_option (\<lambda>out. (qsap_scnprintf SUCCESS r, c_put pfile (content @ out) s1))
                   (add_macs (mem_of pVal past) 0 (int (length pVal)) num_macs []))))"

subsection \<open>Removing from a MAC list\<close>

function mac_listed :: "string \<Rightarrow> string \<Rightarrow> bool" where
  "mac_listed buf plist =
     (if plist = [] then False
      else if take MAC_ADDR_LEN buf = take MAC_ADDR_LEN plist then True
      else mac_listed buf (dropWhile (\<lambda>c. c = CHR '' '' \<or> c = CHR 0x09) (dropWhile (\<lambda>c. c \<noteq> CHR '' '') plist)))"
  by pat_completeness auto
termination
proof (relation "measure (\<lambda>(b, p). length p)")
  fix buf plist :: string
  assume "plist \<noteq> []"
  then obtain c t where p: "plist = c # t" by (cases plist) auto
  let ?q = "dropWhile (\<lambda>c. c \<noteq> CHR '' '') plist"
  have "length (dropWhile (\<lambda>c. c = CHR '' '' \<or> c = CHR 0x09) ?q) < length plist"
  proof (cases "c = CHR '' ''")
    case True
    then show ?thesis using p length_dropWhile_le [of "\<lambda>c. c = CHR '' '' \<or> c = CHR 0x09" t] by simp
  next
    case False
    then have "length ?q < length plist" using p length_dropWhile_le [of "\<lambda>c. c \<noteq> CHR '' ''" t] by simp
    then show ?thesis using length_dropWhile_le le_less_trans by blast
  qed
  then show "((buf, dropWhile (\<lambda>c. c = CHR '' '' \<or> c = CHR 0x09) ?q), buf, plist) \<in> measure (\<lambda>(b, p). length p)" by simp
qed simp

declare mac_listed.simps [simp del]

text \<open>\<^verbatim>\<open>*plen\<close> is not updated by this operation.\<close>

definition qsap_remove_from_file ::
    "(nat \<Rightarrow> sap_io) \<Rightarrow> string \<Rightarrow> string \<Rightarrow> resp \<Rightarrow> sap_st \<Rightarrow> resp \<times> sap_st" where
  "qsap_remove_from_file e pfile pVal r s0 =
     (let io = e (io_pos s0); s = s0\<lparr>io_pos := Suc (io_pos s0)\<rparr>; tmp = scn MAX_CONF_LINE_LEN (pfile @ ''~'') in
      if files s pfile = None \<or> \<not> reopen_ok io then (qsap_scnprintf ERR_RES_UNAVAILABLE r, s)
      else if \<not> open_ok io then (qsap_scnprintf ERR_RES_UNAVAILABLE r, s)
      else
        (let s1 = c_put tmp [] s;
             ls = fgets_lines MAX_CONF_LINE_LEN (the (files s1 pfile));
             s2 = c_put tmp (concat (filter (\<lambda>buf. \<not> mac_listed buf pVal) (map cstr ls))) s1;
             s3 = c_rename (rename_ok io) tmp pfile s2
         in ((fst (qsap_scnprintf (if rename_ok io then SUCCESS else ERR_FEATURE_NOT_ENABLED) r), snd r),
             c_unlink tmp s3)))"

definition eCMD_ADD_TO_ALLOW :: int where "eCMD_ADD_TO_ALLOW = 19"
definition eCMD_ADD_TO_DENY :: int where "eCMD_ADD_TO_DENY = 20"
definition eCMD_REMOVE_FROM_ALLOW :: int where "eCMD_REMOVE_FROM_ALLOW = 21"
definition eCMD_REMOVE_FROM_DENY :: int where "eCMD_REMOVE_FROM_DENY = 22"
definition eCMD_ALLOW_LIST :: int where "eCMD_ALLOW_LIST = 23"
definition eCMD_DENY_LIST :: int where "eCMD_DENY_LIST = 24"
definition eCMD_INVALID :: int where "eCMD_INVALID = -1"

definition qsap_update_mac_list ::
    "(nat \<Rightarrow> sap_io) \<Rightarrow> string \<Rightarrow> int \<Rightarrow> string \<Rightarrow> (nat \<Rightarrow> char) \<Rightarrow> resp \<Rightarrow> sap_st \<Rightarrow> (resp \<times> sap_st) option" where
  "qsap_update_mac_list e pfile cNum pVal past r s =
     (if cNum = eCMD_ADD_TO_ALLOW \<or> cNum = eCMD_ADD_TO_DENY then qsap_add_mac_to_file e pfile pVal past r s
      else if cNum = eCMD_REMOVE_FROM_ALLOW \<or> cNum = eCMD_REMOVE_FROM_DENY
        then Some (qsap_remove_from_file e pfile pVal r s)
      else Some (qsap_scnprintf ERR_UNKNOWN r, s))"

subsection \<open>Reading a MAC list\<close>

text \<open>The buffer is larger than every response with an equals sign, so one is always found.\<close>

definition qsap_get_allow_deny_file_name :: "string \<Rightarrow> Command \<Rightarrow> nat \<Rightarrow> sap_st \<Rightarrow> string option" where
  "qsap_get_allow_deny_file_name pcfgfile cmd n s =
     (case qsap_read_cfg pcfgfile cmd None False ([], n) s of (rc, (pfile, _)) \<Rightarrow>
      if rc = eSUCCESS then map_option (\<lambda>i. drop (Suc i) pfile) (strchr pfile (CHR ''='')) else None)"

fun mac_out :: "nat \<Rightarrow> nat \<Rightarrow> string list \<Rightarrow> string" where
  "mac_out plen cnt [] = []"
| "mac_out plen cnt (l # ls) =
     (let buf = cstr l in
      if is_comment buf then mac_out plen cnt ls
      else if \<not> isValid_MAC_address buf then mac_out plen cnt ls
      else let mac = butlast buf in
        if plen < length mac then []
        else let t = scn plen (mac @ '' '') in
          if Suc cnt \<ge> MAX_ALLOWED_MAC then t else t @ mac_out (plen - length t) (Suc cnt) ls)"

definition STR_ACCEPT_MAC_FILE :: nat where "STR_ACCEPT_MAC_FILE = 1"
definition STR_DENY_MAC_FILE :: nat where "STR_DENY_MAC_FILE = 2"

definition qsap_get_mac_list :: "string \<Rightarrow> int \<Rightarrow> resp \<Rightarrow> sap_st \<Rightarrow> resp" where
  "qsap_get_mac_list fconfile cNum r s =
     (if cNum \<noteq> eCMD_ALLOW_LIST \<and> cNum \<noteq> eCMD_DENY_LIST then qsap_scnprintf ERR_UNKNOWN r
      else
        (let sNum = (if cNum = eCMD_ALLOW_LIST then STR_ACCEPT_MAC_FILE else STR_DENY_MAC_FILE) in
         case qsap_get_allow_deny_file_name fconfile (qsap_str ! sNum) MAX_CONF_LINE_LEN s of
           None \<Rightarrow> qsap_scnprintf ERR_RES_UNAVAILABLE r
         | Some pfile \<Rightarrow>
             (case files s pfile of
                None \<Rightarrow> qsap_scnprintf ERR_RES_UNAVAILABLE r
              | Some content \<Rightarrow>
                  (case qsap_scnprintf (SUCCESS @ '' '' @ name (cmd_list ! nat cNum) @ ''='') r of
                     (presp, n) \<Rightarrow>
                       (let resp = presp @ mac_out (snd r - n) 0 (fgets_lines MAX_CONF_LINE_LEN content)
                        in (resp, length resp))))))"

subsection \<open>WEP keys\<close>

definition isascii :: "char \<Rightarrow> bool" where
  "isascii c \<longleftrightarrow> (of_char c :: nat) < 128"

text \<open>
  \<^verbatim>\<open>is_valid_wep_key\<close>: the result and the contents of \<^verbatim>\<open>pkey\<close>, unless it is left alone. An ASCII
  key is checked without its last character.
\<close>

definition is_valid_wep_key :: "string \<Rightarrow> nat \<Rightarrow> bool \<times> string option" where
  "is_valid_wep_key pwep len =
     (let quoted = (pwep \<noteq> [] \<and> hd pwep = CHR 0x22 \<and> last pwep = CHR 0x22);
          key = (if quoted then butlast (tl pwep) else pwep);
          weplen = (if quoted then int (length pwep) - 2 else int (length pwep))
      in if weplen = 5 \<or> weplen = 13 \<or> weplen = 16 then
           (if list_all isascii (butlast key) then (True, Some (scn len ([CHR 0x22] @ key @ [CHR 0x22])))
            else (False, None))
         else if weplen = 10 \<or> weplen = 26 \<or> weplen = 32 then
           (if list_all isxdigit key then (True, Some (scn len key)) else (False, None))
         else (False, Some (scn len key)))"

text \<open>Reading a key removes the quotes of an ASCII key by moving it one byte to the left.\<close>

definition qsap_read_wep_key :: "string \<Rightarrow> Command \<Rightarrow> string option \<Rightarrow> resp \<Rightarrow> sap_st \<Rightarrow> resp" where
  "qsap_read_wep_key pfile cmd var r s =
     (case qsap_read_cfg pfile cmd var True r s of (rc, (presp, n)) \<Rightarrow>
      if rc \<noteq> eSUCCESS then (presp, n)
      else case strchr presp (CHR ''='') of
        None \<Rightarrow> (presp, n)
      | Some i \<Rightarrow>
          (let v = drop (Suc i) presp in
           if take 1 v = [CHR 0x22]
           then (take (i + length (tl v)) (take (Suc i) presp @ tl v), n - 2)
           else (presp, n)))"

subsection \<open>Command numbers and the default configuration\<close>

fun cmd_num_from :: "nat \<Rightarrow> Command list \<Rightarrow> string \<Rightarrow> int" where
  "cmd_num_from i [] cName = eCMD_INVALID"
| "cmd_num_from i (c # cs) cName =
     (if prefix (name c) cName \<and> take 1 (drop (length (name c)) cName) \<in> {''='', []} then int i
      else cmd_num_from (Suc i) cs cName)"

definition qsap_get_cmd_num :: "string \<Rightarrow> int" where
  "qsap_get_cmd_num cName = cmd_num_from 0 cmd_list cName"

definition wifi_qsap_reset_to_default :: "(nat \<Rightarrow> sap_io) \<Rightarrow> string \<Rightarrow> string \<Rightarrow> sap_st \<Rightarrow> int \<times> sap_st" where
  "wifi_qsap_reset_to_default e pcfgfile pdefault s0 =
     (let io = e (io_pos s0); s = s0\<lparr>io_pos := Suc (io_pos s0)\<rparr>; tmp = scn MAX_CONF_LINE_LEN (pcfgfile @ ''~'') in
      if files s pdefault = None then (eERR_FILE_OPEN, s)
      else if \<not> open_ok io then (eERR_FILE_OPEN, s)
      else
        (let s1 = c_put tmp [] s;
             s2 = c_put tmp (concat (map cstr (fgets_lines MAX_CONF_LINE_LEN (the (files s1 pdefault))))) s1
         in (if rename_ok io then eSUCCESS else eERR_CONF_FILE,
             c_unlink tmp (c_rename (rename_ok io) tmp pcfgfile s2))))"

end
