(* ===== verification/Sap_Driver.thy ===== *)
theory Sap_Driver
  imports Sap_Mac
begin

text \<open>
  Driver and hostapd control of the soft access point: \<^verbatim>\<open>softap/sdk/qsap.c\<close>, and from
  \<^verbatim>\<open>qsap_api.c\<close> the functions it calls (\<^verbatim>\<open>qsap_get_mode\<close>, \<^verbatim>\<open>check_for_configuration_files\<close>,
  \<^verbatim>\<open>qsap_set_ini_filename\<close>, \<^verbatim>\<open>qsap_del_ctrl_iface\<close>). The kernel, the module files, the property
  service and \<^verbatim>\<open>fork\<close> answer from an environment; every question has its own position in the
  stream of answers. A line of \<^verbatim>\<open>/proc/modules\<close> is the name of a module followed by a space,
  and a module file that is loaded announces the name its caller looks for. The child that
  \<^verbatim>\<open>fork\<close> starts is not modelled, and neither are delays.
\<close>

subsection \<open>Numbers, paths and build settings\<close>

definition eERR_STOP_BSS :: int where "eERR_STOP_BSS = 1"
definition eERR_BSS_NOT_STARTED :: int where "eERR_BSS_NOT_STARTED = 2"
definition eERR_START_SAP :: int where "eERR_START_SAP = 4"
definition eERR_STOP_SAP :: int where "eERR_STOP_SAP = 5"
definition eERR_UNLOAD_FAILED_SDIO :: int where "eERR_UNLOAD_FAILED_SDIO = 14"
definition eERR_UNLOAD_FAILED_SOFTAP :: int where "eERR_UNLOAD_FAILED_SOFTAP = 15"
definition eERR_LOAD_FAILED_SDIOIF :: int where "eERR_LOAD_FAILED_SDIOIF = 16"
definition eERR_LOAD_FAILED_SOFTAP :: int where "eERR_LOAD_FAILED_SOFTAP = 17"

lemmas drv_rc_defs = eERR_STOP_BSS_def eERR_BSS_NOT_STARTED_def eERR_START_SAP_def eERR_STOP_SAP_def eERR_UNLOAD_FAILED_SDIO_def
  eERR_UNLOAD_FAILED_SOFTAP_def eERR_LOAD_FAILED_SDIOIF_def eERR_LOAD_FAILED_SOFTAP_def

definition ENABLE :: int where "ENABLE = 1"
definition DISABLE :: int where "DISABLE = 0"
definition IW_MODE_MASTER :: int where "IW_MODE_MASTER = 3"

definition CONFIG_FILE :: string where "CONFIG_FILE = ''/data/misc/wifi/hostapd.conf''"
definition DEFAULT_CONFIG_FILE_PATH :: string where
  "DEFAULT_CONFIG_FILE_PATH = ''/system/etc/hostapd/hostapd_default.conf''"
definition ACCEPT_LIST_FILE :: string where "ACCEPT_LIST_FILE = ''/data/misc/wifi/hostapd.accept''"
definition DEFAULT_ACCEPT_LIST_FILE_PATH :: string where
  "DEFAULT_ACCEPT_LIST_FILE_PATH = ''/system/etc/hostapd/hostapd.accept''"
definition DENY_LIST_FILE :: string where "DENY_LIST_FILE = ''/data/misc/wifi/hostapd.deny''"
definition DEFAULT_DENY_LIST_FILE_PATH :: string where
  "DEFAULT_DENY_LIST_FILE_PATH = ''/system/etc/hostapd/hostapd.deny''"
definition WIGIG_ENTROPY_FILE :: string where "WIGIG_ENTROPY_FILE = ''/data/misc/wifi/wigig_entropy.bin''"

definition STR_CTRL_INTERFACE :: nat where "STR_CTRL_INTERFACE = 14"
definition STR_INTERFACE :: nat where "STR_INTERFACE = 15"

text \<open>The macros the build may set: names of the modules and the path of cfg80211.\<close>

record ap_build =
  drv_module :: string
  sdioif_module :: "string option"
  cfg80211_path :: string
  cfg80211_module :: string
  concurrency :: bool

subsection \<open>State and environment\<close>

datatype del_res = Deleted | TryAgain | Refused

text \<open>What the control socket of hostapd delivers to one \<^verbatim>\<open>select\<close>: nothing in time, an error of \<^verbatim>\<open>recv\<close>,
  or a message.\<close>

datatype host_msg = NoMessage | RecvError | Message string

record ap_env =
  a_io :: "nat \<Rightarrow> sap_io"
  a_ini :: "string option"
  a_proc :: "nat \<Rightarrow> bool"
  a_load :: "nat \<Rightarrow> bool"
  a_init :: "nat \<Rightarrow> int"
  a_del :: "nat \<Rightarrow> del_res"
  a_sock :: "nat \<Rightarrow> bool"
  a_ioctl :: "nat \<Rightarrow> bool"
  a_mode :: "nat \<Rightarrow> int option"
  a_start :: "nat \<Rightarrow> bool"
  a_fork :: "nat \<Rightarrow> int"
  a_chan :: "nat \<Rightarrow> int option"
  a_auto :: "nat \<Rightarrow> int option"
  a_stas :: "nat \<Rightarrow> u8 list list option"
  a_stats :: "nat \<Rightarrow> string option"
  a_hconn :: "nat \<Rightarrow> bool"
  a_hmsg :: "nat \<Rightarrow> host_msg"
  a_rand :: int

text \<open>\<open>sdio_polling\<close> is the last argument the polling script was started with; \<open>children\<close> are the
  processes the library has forked and not yet waited for, and \<open>told\<close> the interfaces whose driver has
  accepted the indication that it is about to be removed.\<close>

record ap_st =
  fs :: sap_st
  fIni :: "string option"
  modules :: "string list"
  sdio_polling :: bool
  wigigSoftApPid :: int
  children :: "int list"
  told :: "string list"
  hw_pos :: nat

definition tick :: "ap_st \<Rightarrow> ap_st" where
  "tick s = s\<lparr>hw_pos := Suc (hw_pos s)\<rparr>"

subsection \<open>Modules\<close>

definition listed :: "string \<Rightarrow> string list \<Rightarrow> bool" where
  "listed tag ms = list_ex (\<lambda>m. prefix tag (m @ '' '')) ms"

definition check_driver_loaded :: "ap_env \<Rightarrow> string \<Rightarrow> ap_st \<Rightarrow> bool \<times> ap_st" where
  "check_driver_loaded e tag s = (a_proc e (hw_pos s) \<and> listed tag (modules s), tick s)"

definition insmod :: "ap_env \<Rightarrow> string \<Rightarrow> ap_st \<Rightarrow> int \<times> ap_st" where
  "insmod e tag s =
     (case check_driver_loaded e tag s of (loaded, s1) \<Rightarrow>
      if loaded then (0, s1)
      else if \<not> a_load e (hw_pos s1) then (-1, tick s1)
      else
        (let s2 = tick s1; ret = a_init e (hw_pos s2)
         in (ret, if ret = 0 then (tick s2)\<lparr>modules := modules s2 @ [takeWhile (\<lambda>c. c \<noteq> CHR '' '') tag]\<rparr>
                  else tick s2)))"

fun rmmod_loop :: "nat \<Rightarrow> ap_env \<Rightarrow> string \<Rightarrow> int \<Rightarrow> ap_st \<Rightarrow> int \<times> ap_st" where
  "rmmod_loop 0 e modname ret s = (ret, s)"
| "rmmod_loop (Suc maxtry) e modname ret s =
     (case a_del e (hw_pos s) of
        Deleted \<Rightarrow> (0, (tick s)\<lparr>modules := removeAll modname (modules s)\<rparr>)
      | TryAgain \<Rightarrow> rmmod_loop maxtry e modname (-1) (tick s)
      | Refused \<Rightarrow> (-1, tick s))"

definition rmmod :: "ap_env \<Rightarrow> string \<Rightarrow> ap_st \<Rightarrow> int \<times> ap_st" where
  "rmmod e modname s = rmmod_loop 10 e modname 0 s"

text \<open>The clean-up of a failed load, and the two optional modules of the load.\<close>

definition unload_sdioif :: "ap_env \<Rightarrow> ap_build \<Rightarrow> ap_st \<Rightarrow> int \<times> ap_st" where
  "unload_sdioif e b s =
     (case sdioif_module b of
        None \<Rightarrow> (0, s)
      | Some nm \<Rightarrow>
          (case check_driver_loaded e (nm @ '' '') s of (loaded, s1) \<Rightarrow>
           if loaded then rmmod e nm s1 else (0, s1)))"

definition load_failed :: "ap_env \<Rightarrow> ap_build \<Rightarrow> ap_st \<Rightarrow> ap_st" where
  "load_failed e b s =
     (let s1 = snd (unload_sdioif e b s)
      in if cfg80211_module b \<noteq> [] then snd (rmmod e (cfg80211_module b) s1) else s1)"

definition wifi_qsap_load_driver :: "ap_env \<Rightarrow> ap_build \<Rightarrow> ap_st \<Rightarrow> int \<times> ap_st" where
  "wifi_qsap_load_driver e b s0 =
     (let s = s0\<lparr>sdio_polling := True\<rparr> in
      case (if cfg80211_path b \<noteq> [] then insmod e (cfg80211_module b) s else (0, s)) of (r0, s1) \<Rightarrow>
      if r0 < 0 then (-1, s1)
      else
        case (case sdioif_module b of None \<Rightarrow> (0, s1) | Some nm \<Rightarrow> insmod e (nm @ '' '') s1) of (r1, s2) \<Rightarrow>
        if r1 \<noteq> 0 then (eERR_LOAD_FAILED_SDIOIF, s2\<lparr>sdio_polling := False\<rparr>)
        else
          case insmod e (drv_module b @ '' '') s2 of (r2, s3) \<Rightarrow>
          if r2 \<noteq> 0 then (eERR_LOAD_FAILED_SOFTAP, (load_failed e b s3)\<lparr>sdio_polling := False\<rparr>)
          else (eSUCCESS, s3\<lparr>sdio_polling := False\<rparr>))"

text \<open>Private requests to the driver: the indication that it will be removed, and in concurrent mode
  the start and the stop of the access point.\<close>

definition qsap_send_module_down_indication :: "ap_env \<Rightarrow> ap_st \<Rightarrow> ap_st" where
  "qsap_send_module_down_indication e s =
     (if \<not> a_sock e (hw_pos s) then tick s
      else if a_ioctl e (hw_pos s) then (tick s)\<lparr>told := told s @ [''wlan0'']\<rparr>
      else
        (let s1 = tick s
         in if a_ioctl e (hw_pos s1) then (tick s1)\<lparr>told := told s1 @ [''softap.0'']\<rparr> else tick s1))"

definition qsap_send_init_ap :: "ap_env \<Rightarrow> ap_st \<Rightarrow> int \<times> ap_st" where
  "qsap_send_init_ap e s =
     (if a_sock e (hw_pos s) then (if a_ioctl e (hw_pos s) then eSUCCESS else eERR_START_SAP, tick s)
      else (eERR_START_SAP, tick s))"

definition qsap_send_exit_ap :: "ap_env \<Rightarrow> ap_st \<Rightarrow> int \<times> ap_st" where
  "qsap_send_exit_ap e s =
     (if a_sock e (hw_pos s) then (if a_ioctl e (hw_pos s) then eSUCCESS else eERR_STOP_SAP, tick s)
      else (eERR_STOP_SAP, tick s))"

definition wifi_qsap_start_softap_in_concurrency :: "ap_env \<Rightarrow> ap_st \<Rightarrow> int \<times> ap_st" where
  "wifi_qsap_start_softap_in_concurrency e s = qsap_send_init_ap e s"

definition wifi_qsap_stop_softap_in_concurrency :: "ap_env \<Rightarrow> ap_st \<Rightarrow> int \<times> ap_st" where
  "wifi_qsap_stop_softap_in_concurrency e s = qsap_send_exit_ap e s"

definition wifi_qsap_unload_driver :: "ap_env \<Rightarrow> ap_build \<Rightarrow> ap_st \<Rightarrow> int \<times> ap_st" where
  "wifi_qsap_unload_driver e b s0 =
     (let s = s0\<lparr>sdio_polling := True\<rparr> in
      case check_driver_loaded e (drv_module b @ '' '') s of (loaded, s1) \<Rightarrow>
      case (if loaded then rmmod e (drv_module b) (qsap_send_module_down_indication e s1) else (0, s1)) of (r1, s2) \<Rightarrow>
      if r1 \<noteq> 0 then (eERR_UNLOAD_FAILED_SOFTAP, s2\<lparr>sdio_polling := False\<rparr>)
      else
        case unload_sdioif e b s2 of (r2, s3) \<Rightarrow>
        if r2 \<noteq> 0 then (eERR_UNLOAD_FAILED_SDIO, s3\<lparr>sdio_polling := False\<rparr>)
        else (eSUCCESS, s3\<lparr>sdio_polling := False\<rparr>))"

subsection \<open>Files\<close>

definition ensure_file :: "(nat \<Rightarrow> sap_io) \<Rightarrow> string \<Rightarrow> string \<Rightarrow> sap_st \<Rightarrow> sap_st" where
  "ensure_file io pfile pdefault s =
     (case files s pfile of
        None \<Rightarrow> snd (wifi_qsap_reset_to_default io pfile pdefault s)
      | Some content \<Rightarrow>
          if length content \<le> 0 then snd (wifi_qsap_reset_to_default io pfile pdefault s) else s)"

definition check_for_configuration_files :: "(nat \<Rightarrow> sap_io) \<Rightarrow> sap_st \<Rightarrow> sap_st" where
  "check_for_configuration_files io s =
     ensure_file io DENY_LIST_FILE DEFAULT_DENY_LIST_FILE_PATH
       (ensure_file io ACCEPT_LIST_FILE DEFAULT_ACCEPT_LIST_FILE_PATH
         (ensure_file io CONFIG_FILE DEFAULT_CONFIG_FILE_PATH s))"

definition qsap_set_ini_filename :: "ap_env \<Rightarrow> ap_st \<Rightarrow> ap_st" where
  "qsap_set_ini_filename e s = (case a_ini e of None \<Rightarrow> s | Some p \<Rightarrow> s\<lparr>fIni := Some p\<rparr>)"

definition qsap_del_ctrl_iface :: "sap_st \<Rightarrow> sap_st" where
  "qsap_del_ctrl_iface s =
     (case qsap_get_config_value CONFIG_FILE (qsap_str ! STR_CTRL_INTERFACE) ([], 128) s of
        (None, _) \<Rightarrow> s
      | (Some pcif, _) \<Rightarrow>
          (case qsap_get_config_value CONFIG_FILE (qsap_str ! STR_INTERFACE) ([], 64) s of
             (None, _) \<Rightarrow> s
           | (Some pif, _) \<Rightarrow>
               if 192 \<le> length (pcif @ ''/'' @ pif) then s else c_unlink (pcif @ ''/'' @ pif) s))"

subsection \<open>Starting and stopping\<close>

definition qsap_get_mode :: "ap_env \<Rightarrow> ap_st \<Rightarrow> int \<times> int \<times> ap_st" where
  "qsap_get_mode e s =
     (case qsap_get_config_value CONFIG_FILE (qsap_str ! STR_INTERFACE) ([], MAX_CONF_LINE_LEN) (fs s) of
        (None, _) \<Rightarrow> (eERR_UNKNOWN, -1, s)
      | (Some pif, _) \<Rightarrow>
          if \<not> a_sock e (hw_pos s) then (eERR_UNKNOWN, -1, tick s)
          else (case a_mode e (hw_pos s) of
                  None \<Rightarrow> (eERR_UNKNOWN, -1, tick s)
                | Some mode \<Rightarrow> (eSUCCESS, mode, tick s)))"

definition is_softap_enabled :: "ap_env \<Rightarrow> ap_st \<Rightarrow> int \<times> ap_st" where
  "is_softap_enabled e s =
     (case qsap_get_mode e s of (ret, mode, s') \<Rightarrow>
      if ret \<noteq> eSUCCESS then (eERR_UNKNOWN, s')
      else if mode = IW_MODE_MASTER then (ENABLE, s') else (DISABLE, s'))"

definition wifi_qsap_stop_bss :: "ap_env \<Rightarrow> ap_st \<Rightarrow> int \<times> ap_st" where
  "wifi_qsap_stop_bss e s =
     (case is_softap_enabled e s of (en, s1) \<Rightarrow>
      if en \<noteq> ENABLE then (eERR_BSS_NOT_STARTED, s1)
      else case qsap_get_config_value CONFIG_FILE (qsap_str ! STR_INTERFACE) ([], 128) (fs s1) of
        (None, _) \<Rightarrow> (eERR_STOP_BSS, s1)
      | (Some _, _) \<Rightarrow> (if a_sock e (hw_pos s1) then eSUCCESS else eERR_STOP_BSS, tick s1))"

definition before_attempt :: "nat \<Rightarrow> ap_env \<Rightarrow> ap_st \<Rightarrow> ap_st" where
  "before_attempt retry e s =
     (if retry = 1
      then s\<lparr>fs := snd (wifi_qsap_reset_to_default (a_io e) CONFIG_FILE DEFAULT_CONFIG_FILE_PATH (fs s))\<rparr>
      else s)"

fun start_loop :: "nat \<Rightarrow> ap_env \<Rightarrow> ap_st \<Rightarrow> int \<times> ap_st" where
  "start_loop 0 e s = (eERR_START_SAP, s)"
| "start_loop (Suc retry) e s =
     (let s1 = before_attempt retry e s
      in if \<not> a_start e (hw_pos s1) then start_loop retry e (tick s1)
         else case is_softap_enabled e (tick s1) of (en, s2) \<Rightarrow>
           if en \<noteq> 0 then (eSUCCESS, s2) else start_loop retry e s2)"

definition wifi_qsap_start_softap :: "ap_env \<Rightarrow> ap_st \<Rightarrow> int \<times> ap_st" where
  "wifi_qsap_start_softap e s =
     (let s1 = s\<lparr>fs := check_for_configuration_files (a_io e) (fs s)\<rparr> in
      case is_softap_enabled e s1 of (en, s2) \<Rightarrow>
      let s3 = (if en = 0 then s2\<lparr>fs := qsap_del_ctrl_iface (fs s2)\<rparr> else s2)
      in start_loop 4 e (qsap_set_ini_filename e s3))"

definition wifi_qsap_stop_softap :: "ap_env \<Rightarrow> ap_st \<Rightarrow> int \<times> ap_st" where
  "wifi_qsap_stop_softap e s =
     (case is_softap_enabled e s of (en, s1) \<Rightarrow>
      if en \<noteq> 0 then wifi_qsap_stop_bss e s1 else (eSUCCESS, s1))"

definition commit :: "ap_env \<Rightarrow> ap_build \<Rightarrow> ap_st \<Rightarrow> int \<times> ap_st" where
  "commit e b s =
     (case is_softap_enabled e s of (en, s1) \<Rightarrow>
      case (if en \<noteq> 0 then wifi_qsap_stop_bss e s1 else (eSUCCESS, s1)) of (ret, s2) \<Rightarrow>
      if ret \<noteq> eSUCCESS then (ret, s2)
      else case wifi_qsap_start_softap e s2 of (ret', s3) \<Rightarrow>
        (ret', if ret' \<noteq> eSUCCESS then snd (wifi_qsap_unload_driver e b s3) else s3))"

definition wifi_qsap_reload_softap :: "ap_env \<Rightarrow> ap_build \<Rightarrow> ap_st \<Rightarrow> int \<times> ap_st" where
  "wifi_qsap_reload_softap e b s =
     (case wifi_qsap_stop_softap e s of (r1, s1) \<Rightarrow>
      if r1 \<noteq> eSUCCESS then (r1, s1)
      else case wifi_qsap_unload_driver e b s1 of (r2, s2) \<Rightarrow>
      if r2 \<noteq> eSUCCESS then (r2, s2)
      else case wifi_qsap_load_driver e b s2 of (r3, s3) \<Rightarrow>
      if r3 \<noteq> eSUCCESS then (r3, s3)
      else case wifi_qsap_start_softap e s3 of (r4, s4) \<Rightarrow>
      if r4 \<noteq> eSUCCESS then (r4, snd (wifi_qsap_unload_driver e b s4)) else (eSUCCESS, s4))"

subsection \<open>The WiGig access point\<close>

definition dummy_key :: string where
  "dummy_key = map char_of [0x02 :: nat, 0x11, 0xbe, 0x33, 0x43, 0x35, 0x68, 0x47, 0x84, 0x99, 0xa9, 0x2b,
     0x1c, 0xd3, 0xee, 0xff, 0xf1, 0xe2, 0xf3, 0xf4, 0xf5]"

text \<open>\<open>open_ok\<close> answers for the access test of an existing file and the creation of a missing one,
  \<open>rename_ok\<close> for the \<^verbatim>\<open>write\<close>.\<close>

definition wigig_ensure_entropy_file_exists :: "(nat \<Rightarrow> sap_io) \<Rightarrow> sap_st \<Rightarrow> int \<times> sap_st" where
  "wigig_ensure_entropy_file_exists e s0 =
     (let io = e (io_pos s0); s = s0\<lparr>io_pos := Suc (io_pos s0)\<rparr> in
      if files s WIGIG_ENTROPY_FILE \<noteq> None then (if open_ok io \<or> chmod_ok io then 0 else -1, s)
      else if \<not> open_ok io then (-1, s)
      else if \<not> rename_ok io then (-1, c_put WIGIG_ENTROPY_FILE [] s)
      else if \<not> chmod_ok io then (-1, s)
      else if \<not> chown_ok io then (-1, s)
      else (0, c_put WIGIG_ENTROPY_FILE dummy_key s))"

definition wifi_qsap_start_wigig_softap :: "ap_env \<Rightarrow> ap_st \<Rightarrow> int \<times> ap_st" where
  "wifi_qsap_start_wigig_softap e s =
     (if wigigSoftApPid s \<noteq> 0 then (eERR_START_SAP, s)
      else
        (let s1 = s\<lparr>fs := snd (wigig_ensure_entropy_file_exists (a_io e) (fs s))\<rparr>; pid = a_fork e (hw_pos s1)
         in if pid < 0 then (eERR_START_SAP, tick s1) else (eSUCCESS, (tick s1)\<lparr>wigigSoftApPid := pid, children := pid # children s1\<rparr>)))"

definition wifi_qsap_stop_wigig_softap :: "ap_st \<Rightarrow> int \<times> ap_st" where
  "wifi_qsap_stop_wigig_softap s =
     (if wigigSoftApPid s = 0 then (eSUCCESS, s) else (eSUCCESS, s\<lparr>wigigSoftApPid := 0, children := removeAll (wigigSoftApPid s) (children s)\<rparr>))"

end
