(* ===== verification/Sap_Query.thy ===== *)
theory Sap_Query
  imports Sap_Driver
begin

text \<open>
  The get requests of the soft access point, from \<^verbatim>\<open>softap/sdk/qsap_api.c\<close>: the queries of the driver
  (channel, automatic channel, stations, statistics), the parameters with their own way of reading, the
  dispatch of \<^verbatim>\<open>qsap_get_from_config\<close> and \<^verbatim>\<open>qsap_handle_get_request\<close>. The driver's answers come from the
  environment; \<^verbatim>\<open>char\<close> is unsigned and \<^verbatim>\<open>long\<close> has 32 bits, as on the target. A null \<^verbatim>\<open>fIni\<close> is the empty
  path, which no file has. Response buffers have at least two bytes.
\<close>

subsection \<open>Messages and numbers\<close>

definition ERR_INVALID_ARG :: string where "ERR_INVALID_ARG = ''failure invalid arguments''"
definition ERR_INVALID_PARAM :: string where "ERR_INVALID_PARAM = ''failure invalid parameter''"
definition ERR_INVALIDREQ :: string where "ERR_INVALIDREQ = ''failure invalid request''"
definition ERR_SOFTAP_NOT_STARTED :: string where "ERR_SOFTAP_NOT_STARTED = ''failure softap not started''"

definition eERR_INVALID_MAC_ADDR :: int where "eERR_INVALID_MAC_ADDR = 9"
definition eERR_CHAN_READ :: int where "eERR_CHAN_READ = 12"
definition eERR_GET_AUTO_CHAN :: int where "eERR_GET_AUTO_CHAN = 19"

definition eCMD_SSID :: nat where "eCMD_SSID = 0"
definition eCMD_BSSID :: nat where "eCMD_BSSID = 1"
definition eCMD_CHAN :: nat where "eCMD_CHAN = 2"
definition eCMD_BCN_INTERVAL :: nat where "eCMD_BCN_INTERVAL = 3"
definition eCMD_DTIM_PERIOD :: nat where "eCMD_DTIM_PERIOD = 4"
definition eCMD_HW_MODE :: nat where "eCMD_HW_MODE = 5"
definition eCMD_AUTH_ALGS :: nat where "eCMD_AUTH_ALGS = 6"
definition eCMD_MAC_ADDR :: nat where "eCMD_MAC_ADDR = 16"
definition eCMD_RESET_AP :: nat where "eCMD_RESET_AP = 17"
definition eCMD_MAC_ACL :: nat where "eCMD_MAC_ACL = 18"
definition eCMD_COMMIT :: nat where "eCMD_COMMIT = 25"
definition eCMD_ENABLE_SOFTAP :: nat where "eCMD_ENABLE_SOFTAP = 26"
definition eCMD_DISASSOC_STA :: nat where "eCMD_DISASSOC_STA = 27"
definition eCMD_RESET_TO_DEFAULT :: nat where "eCMD_RESET_TO_DEFAULT = 28"
definition eCMD_PROTECTION_FLAG :: nat where "eCMD_PROTECTION_FLAG = 29"
definition eCMD_DATA_RATES :: nat where "eCMD_DATA_RATES = 30"
definition eCMD_ASSOC_STA_MACS :: nat where "eCMD_ASSOC_STA_MACS = 31"
definition eCMD_TX_POWER :: nat where "eCMD_TX_POWER = 32"
definition eCMD_SDK_VERSION :: nat where "eCMD_SDK_VERSION = 33"
definition eCMD_WMM_STATE :: nat where "eCMD_WMM_STATE = 34"
definition eCMD_WPS_STATE :: nat where "eCMD_WPS_STATE = 35"
definition eCMD_WPS_CONFIG_METHOD :: nat where "eCMD_WPS_CONFIG_METHOD = 36"
definition eCMD_UUID :: nat where "eCMD_UUID = 37"
definition eCMD_DEVICE_NAME :: nat where "eCMD_DEVICE_NAME = 38"
definition eCMD_MANUFACTURER :: nat where "eCMD_MANUFACTURER = 39"
definition eCMD_MODEL_NAME :: nat where "eCMD_MODEL_NAME = 40"
definition eCMD_MODEL_NUMBER :: nat where "eCMD_MODEL_NUMBER = 41"
definition eCMD_SERIAL_NUMBER :: nat where "eCMD_SERIAL_NUMBER = 42"
definition eCMD_DEVICE_TYPE :: nat where "eCMD_DEVICE_TYPE = 43"
definition eCMD_OS_VERSION :: nat where "eCMD_OS_VERSION = 44"
definition eCMD_FRIENDLY_NAME :: nat where "eCMD_FRIENDLY_NAME = 45"
definition eCMD_MANUFACTURER_URL :: nat where "eCMD_MANUFACTURER_URL = 46"
definition eCMD_MODEL_DESC :: nat where "eCMD_MODEL_DESC = 47"
definition eCMD_MODEL_URL :: nat where "eCMD_MODEL_URL = 48"
definition eCMD_UPC :: nat where "eCMD_UPC = 49"
definition eCMD_FRAG_THRESHOLD :: nat where "eCMD_FRAG_THRESHOLD = 50"
definition eCMD_RTS_THRESHOLD :: nat where "eCMD_RTS_THRESHOLD = 51"
definition eCMD_GTK_TIMEOUT :: nat where "eCMD_GTK_TIMEOUT = 52"
definition eCMD_COUNTRY_CODE :: nat where "eCMD_COUNTRY_CODE = 53"
definition eCMD_INTRA_BSS_FORWARD :: nat where "eCMD_INTRA_BSS_FORWARD = 54"
definition eCMD_REGULATORY_DOMAIN :: nat where "eCMD_REGULATORY_DOMAIN = 55"
definition eCMD_AP_STATISTICS :: nat where "eCMD_AP_STATISTICS = 56"
definition eCMD_AP_AUTOSHUTOFF :: nat where "eCMD_AP_AUTOSHUTOFF = 57"
definition eCMD_AP_ENERGY_DETECT_TH :: nat where "eCMD_AP_ENERGY_DETECT_TH = 58"
definition eCMD_BASIC_RATES :: nat where "eCMD_BASIC_RATES = 59"
definition eCMD_REQUIRE_HT :: nat where "eCMD_REQUIRE_HT = 60"
definition eCMD_IEEE80211N :: nat where "eCMD_IEEE80211N = 61"
definition eCMD_SET_CHANNEL_RANGE :: nat where "eCMD_SET_CHANNEL_RANGE = 62"
definition eCMD_GET_AUTO_CHANNEL :: nat where "eCMD_GET_AUTO_CHANNEL = 63"
definition eCMD_SET_MAX_CLIENTS :: nat where "eCMD_SET_MAX_CLIENTS = 66"
definition eCMD_IEEE80211H :: nat where "eCMD_IEEE80211H = 71"
definition eCMD_ENABLE_WIGIG_SOFTAP :: nat where "eCMD_ENABLE_WIGIG_SOFTAP = 72"

definition STR_MAC_IN_INI :: nat where "STR_MAC_IN_INI = 3"
definition STR_PROT_FLAG_IN_INI :: nat where "STR_PROT_FLAG_IN_INI = 4"
definition STR_DATA_RATE_IN_INI :: nat where "STR_DATA_RATE_IN_INI = 5"
definition STR_TX_POWER_IN_INI :: nat where "STR_TX_POWER_IN_INI = 6"
definition STR_HT_80211N :: nat where "STR_HT_80211N = 13"
definition STR_EAP_SERVER :: nat where "STR_EAP_SERVER = 16"
definition STR_AP_AUTOSHUTOFF :: nat where "STR_AP_AUTOSHUTOFF = 17"
definition STR_AP_ENERGY_DETECT_TH :: nat where "STR_AP_ENERGY_DETECT_TH = 18"

lemmas cmd_num_defs = eCMD_SSID_def eCMD_BSSID_def eCMD_CHAN_def eCMD_BCN_INTERVAL_def eCMD_DTIM_PERIOD_def
  eCMD_HW_MODE_def eCMD_AUTH_ALGS_def eCMD_SEC_MODE_def eCMD_WEP_KEY0_def eCMD_WEP_KEY1_def eCMD_WEP_KEY2_def
  eCMD_WEP_KEY3_def eCMD_DEFAULT_KEY_def eCMD_PASSPHRASE_def eCMD_WPA_PAIRWISE_def eCMD_RSN_PAIRWISE_def
  eCMD_MAC_ADDR_def eCMD_RESET_AP_def eCMD_MAC_ACL_def eCMD_COMMIT_def eCMD_ENABLE_SOFTAP_def eCMD_DISASSOC_STA_def
  eCMD_RESET_TO_DEFAULT_def eCMD_PROTECTION_FLAG_def eCMD_DATA_RATES_def eCMD_ASSOC_STA_MACS_def eCMD_TX_POWER_def
  eCMD_SDK_VERSION_def eCMD_WMM_STATE_def eCMD_WPS_STATE_def eCMD_WPS_CONFIG_METHOD_def eCMD_UUID_def
  eCMD_DEVICE_NAME_def eCMD_MANUFACTURER_def eCMD_MODEL_NAME_def eCMD_MODEL_NUMBER_def eCMD_SERIAL_NUMBER_def
  eCMD_DEVICE_TYPE_def eCMD_OS_VERSION_def eCMD_FRIENDLY_NAME_def eCMD_MANUFACTURER_URL_def eCMD_MODEL_DESC_def
  eCMD_MODEL_URL_def eCMD_UPC_def eCMD_FRAG_THRESHOLD_def eCMD_RTS_THRESHOLD_def eCMD_GTK_TIMEOUT_def
  eCMD_COUNTRY_CODE_def eCMD_INTRA_BSS_FORWARD_def eCMD_REGULATORY_DOMAIN_def eCMD_AP_STATISTICS_def
  eCMD_AP_AUTOSHUTOFF_def eCMD_AP_ENERGY_DETECT_TH_def eCMD_BASIC_RATES_def eCMD_REQUIRE_HT_def eCMD_IEEE80211N_def
  eCMD_SET_CHANNEL_RANGE_def eCMD_GET_AUTO_CHANNEL_def eCMD_SET_MAX_CLIENTS_def eCMD_IEEE80211H_def
  eCMD_ENABLE_WIGIG_SOFTAP_def eCMD_ADD_TO_ALLOW_def eCMD_ADD_TO_DENY_def eCMD_REMOVE_FROM_ALLOW_def
  eCMD_REMOVE_FROM_DENY_def eCMD_ALLOW_LIST_def eCMD_DENY_LIST_def

definition ini_path :: "ap_st \<Rightarrow> string" where
  "ini_path s = (case fIni s of None \<Rightarrow> [] | Some p \<Rightarrow> p)"

text \<open>\<^verbatim>\<open>SKIP_BLANK_SPACE\<close>.\<close>

definition is_blank :: "char \<Rightarrow> bool" where
  "is_blank c \<longleftrightarrow> c = CHR '' '' \<or> c = CHR 0x09"

definition skip_blank :: "string \<Rightarrow> string" where
  "skip_blank s = dropWhile is_blank s"

text \<open>\<^verbatim>\<open>%lu\<close> of a 32-bit value.\<close>

definition fmt_lu :: "int \<Rightarrow> string" where
  "fmt_lu v = dec_digits (nat (v mod 2 ^ 32))"

subsection \<open>Queries of the driver\<close>

definition interface_value :: "nat \<Rightarrow> ap_st \<Rightarrow> string option" where
  "interface_value n s = fst (qsap_get_config_value CONFIG_FILE (qsap_str ! STR_INTERFACE) ([], n) (fs s))"

text \<open>The steps every query shares: the access point must be enabled, the interface configured, the
  socket opened; then the ioctl answers.\<close>

definition driver_query :: "ap_env \<Rightarrow> (nat \<Rightarrow> 'a option) \<Rightarrow> ap_st \<Rightarrow> 'a option \<times> ap_st" where
  "driver_query e answer s =
     (case is_softap_enabled e s of (en, s1) \<Rightarrow>
      if en \<noteq> ENABLE then (None, s1)
      else case interface_value MAX_CONF_LINE_LEN s1 of
        None \<Rightarrow> (None, s1)
      | Some pif \<Rightarrow>
          if \<not> a_sock e (hw_pos s1) then (None, tick s1) else (answer (hw_pos s1), tick s1))"

definition qsap_get_operating_channel :: "ap_env \<Rightarrow> ap_st \<Rightarrow> int \<times> int \<times> ap_st" where
  "qsap_get_operating_channel e s =
     (case driver_query e (a_chan e) s of
        (None, s') \<Rightarrow> (eERR_CHAN_READ, 0, s')
      | (Some chan, s') \<Rightarrow> (eSUCCESS, chan, s'))"

definition qsap_get_sap_auto_channel_selection :: "ap_env \<Rightarrow> ap_st \<Rightarrow> int \<times> int \<times> ap_st" where
  "qsap_get_sap_auto_channel_selection e s =
     (case driver_query e (a_auto e) s of
        (None, s') \<Rightarrow> (eERR_GET_AUTO_CHAN, 0, s')
      | (Some chan, s') \<Rightarrow> (eSUCCESS, chan, s'))"

definition qsap_read_channel :: "ap_env \<Rightarrow> Command \<Rightarrow> resp \<Rightarrow> ap_st \<Rightarrow> resp \<times> ap_st" where
  "qsap_read_channel e cmd r s =
     (case qsap_get_operating_channel e s of (rc, chan, s') \<Rightarrow>
      (if rc = eSUCCESS then qsap_scnprintf (SUCCESS @ '' '' @ name cmd @ ''='' @ fmt_lu chan) r
       else qsap_scnprintf ERR_UNKNOWN r, s'))"

definition qsap_read_auto_channel :: "ap_env \<Rightarrow> resp \<Rightarrow> ap_st \<Rightarrow> resp \<times> ap_st" where
  "qsap_read_auto_channel e r s =
     (case qsap_get_sap_auto_channel_selection e s of (rc, chan, s') \<Rightarrow>
      (if rc = eSUCCESS then qsap_scnprintf (SUCCESS @ '' autochannel='' @ fmt_lu chan) r
       else qsap_scnprintf ERR_UNKNOWN r, s'))"

subsection \<open>Stations\<close>

definition hex_digit :: "nat \<Rightarrow> char" where
  "hex_digit d = char_of (if d < 10 then 48 + d else 55 + d)"

text \<open>\<^verbatim>\<open>%.2X\<close> of a byte.\<close>

definition fmt_02X :: "u8 \<Rightarrow> string" where
  "fmt_02X b = [hex_digit (unat b div 16), hex_digit (unat b mod 16)]"

definition macstr_of :: "u8 list \<Rightarrow> string" where
  "macstr_of mac = concat (map (\<lambda>b. fmt_02X b @ '':'') (butlast mac)) @ fmt_02X (last mac) @ '' ''"

text \<open>The addresses are given as groups of six bytes; the loop ends when the groups or the room end.\<close>

fun mac_to_macstr_loop :: "u8 list list \<Rightarrow> nat \<Rightarrow> string" where
  "mac_to_macstr_loop [] plen = []"
| "mac_to_macstr_loop (mac # macs) plen =
     (if plen = 0 then []
      else let t = scn plen (macstr_of mac) in t @ mac_to_macstr_loop macs (plen - length t))"

definition qsap_mac_to_macstr :: "u8 list list \<Rightarrow> nat \<Rightarrow> string" where
  "qsap_mac_to_macstr macs plen = butlast (mac_to_macstr_loop macs plen)"

definition qsap_get_associated_sta_mac :: "ap_env \<Rightarrow> resp \<Rightarrow> ap_st \<Rightarrow> resp \<times> ap_st" where
  "qsap_get_associated_sta_mac e r s =
     (case driver_query e (a_stas e) s of
        (None, s') \<Rightarrow> (qsap_scnprintf ERR_UNKNOWN r, s')
      | (Some macs, s') \<Rightarrow>
          (case qsap_scnprintf (SUCCESS @ '' '' @ name (cmd_list ! eCMD_ASSOC_STA_MACS) @ ''='') r of (presp, len) \<Rightarrow>
             (let out = qsap_mac_to_macstr macs (snd r - len)
              in ((presp @ out, len + length out), s'))))"

definition qsap_read_ap_stats :: "ap_env \<Rightarrow> resp \<Rightarrow> ap_st \<Rightarrow> resp \<times> ap_st" where
  "qsap_read_ap_stats e r s =
     (case is_softap_enabled e s of (en, s1) \<Rightarrow>
      if en \<noteq> ENABLE then (qsap_scnprintf ERR_SOFTAP_NOT_STARTED r, s1)
      else case interface_value MAX_CONF_LINE_LEN s1 of
        None \<Rightarrow> (qsap_scnprintf ERR_UNKNOWN r, s1)
      | Some pif \<Rightarrow>
          if \<not> a_sock e (hw_pos s1) then (qsap_scnprintf ERR_UNKNOWN r, tick s1)
          else case a_stats e (hw_pos s1) of
            None \<Rightarrow> (qsap_scnprintf ERR_UNKNOWN r, tick s1)
          | Some pbuf \<Rightarrow>
              (qsap_scnprintf (SUCCESS @ '' '' @ name (cmd_list ! eCMD_AP_STATISTICS) @ ''='' @ pbuf) r, tick s1))"

subsection \<open>Parameters with their own reading\<close>

text \<open>The loop that separates the pairs of digits with colons, and the address of the ini file. An address of
  fewer than twelve characters ends in the middle of a pair and is rejected.\<close>

fun mac_pairs :: "nat \<Rightarrow> string \<Rightarrow> string" where
  "mac_pairs len (a # b # mac) = (let t = scn len [a, b, CHR '':''] in t @ mac_pairs (len - length t) mac)"
| "mac_pairs len mac = []"

definition qsap_read_mac_address :: "resp \<Rightarrow> ap_st \<Rightarrow> int \<times> resp" where
  "qsap_read_mac_address r s =
     (case qsap_read_cfg (ini_path s) (qsap_str ! STR_MAC_IN_INI) (Some (name (cmd_list ! eCMD_MAC_ADDR))) False r (fs s) of
        (rc, (presp, n)) \<Rightarrow>
      if rc \<noteq> eSUCCESS then (eERR_INVALID_MAC_ADDR, (presp, n))
      else case strchr presp (CHR ''='') of
        None \<Rightarrow> (eERR_INVALID_MAC_ADDR, (presp, n))
      | Some i \<Rightarrow>
          (let mac = take (MAC_ADDR_LEN - 1) (drop (Suc i) presp);
               (presp1, n1) = qsap_scnprintf (SUCCESS @ '' '' @ name (cmd_list ! eCMD_MAC_ADDR) @ ''='') (presp, snd r);
               presp2 = butlast (presp1 @ mac_pairs (snd r - length presp1) (take 12 mac))
           in case strchr presp2 (CHR ''='') of
                None \<Rightarrow> (eERR_INVALID_MAC_ADDR, (presp2, length presp2))
              | Some j \<Rightarrow>
                  (if 12 \<le> length mac \<and> isValid_MAC_address (drop (Suc j) presp2) then eSUCCESS else eERR_INVALID_MAC_ADDR,
                   (presp2, length presp2))))"

definition WPS_STATE_ENABLE :: int where "WPS_STATE_ENABLE = 2"
definition WPS_STATE_DISABLE :: int where "WPS_STATE_DISABLE = 0"

definition qsap_read_wps_state :: "resp \<Rightarrow> sap_st \<Rightarrow> resp" where
  "qsap_read_wps_state r s =
     (case qsap_get_config_value CONFIG_FILE (cmd_list ! eCMD_WPS_STATE) r s of (pstate, (presp, _)) \<Rightarrow>
      let status = (case pstate of None \<Rightarrow> DISABLE
                    | Some p \<Rightarrow> if atoi 32 p = WPS_STATE_ENABLE then ENABLE else DISABLE)
      in qsap_scnprintf (''success '' @ name (cmd_list ! eCMD_WPS_STATE) @ ''='' @ fmt_d status) (presp, snd r))"

text \<open>The time is unsigned, so a negative number of seconds becomes a large number of minutes.\<close>

definition qsap_read_autoshutoff :: "resp \<Rightarrow> ap_st \<Rightarrow> resp" where
  "qsap_read_autoshutoff r s =
     (case qsap_get_config_value (ini_path s) (qsap_str ! STR_AP_AUTOSHUTOFF) r (fs s) of (ptime, (presp, _)) \<Rightarrow>
      let time = (case ptime of None \<Rightarrow> 0 | Some p \<Rightarrow> (atoi 32 p mod 2 ^ 32) div 60)
      in qsap_scnprintf (''success '' @ name (cmd_list ! eCMD_AP_AUTOSHUTOFF) @ ''='' @ fmt_d time) (presp, snd r))"

subsection \<open>Dispatch\<close>

text \<open>The parameters read from the configuration file as they are, with and without regard to comments, and the
  ones of the ini file that are reported under another name.\<close>

definition commented_params :: "nat list" where
  "commented_params = [eCMD_WPA_PAIRWISE, eCMD_RSN_PAIRWISE, eCMD_DEFAULT_KEY, eCMD_PASSPHRASE, eCMD_GTK_TIMEOUT]"

definition enabled_params :: "nat list" where
  "enabled_params = [eCMD_SSID, eCMD_BSSID, eCMD_BCN_INTERVAL, eCMD_DTIM_PERIOD, eCMD_HW_MODE, eCMD_AUTH_ALGS,
     eCMD_MAC_ACL, eCMD_WPS_CONFIG_METHOD, eCMD_UUID, eCMD_DEVICE_NAME, eCMD_MANUFACTURER, eCMD_MODEL_NAME,
     eCMD_MODEL_NUMBER, eCMD_SERIAL_NUMBER, eCMD_DEVICE_TYPE, eCMD_OS_VERSION, eCMD_FRIENDLY_NAME,
     eCMD_MANUFACTURER_URL, eCMD_MODEL_DESC, eCMD_MODEL_URL, eCMD_UPC, eCMD_SDK_VERSION, eCMD_COUNTRY_CODE,
     eCMD_FRAG_THRESHOLD, eCMD_REGULATORY_DOMAIN, eCMD_RTS_THRESHOLD, eCMD_IEEE80211H, eCMD_WMM_STATE,
     eCMD_INTRA_BSS_FORWARD]"

definition ini_param :: "nat \<Rightarrow> nat option" where
  "ini_param cNum =
     (if cNum = eCMD_PROTECTION_FLAG then Some STR_PROT_FLAG_IN_INI
      else if cNum = eCMD_DATA_RATES then Some STR_DATA_RATE_IN_INI
      else if cNum = eCMD_TX_POWER then Some STR_TX_POWER_IN_INI
      else if cNum = eCMD_AP_ENERGY_DETECT_TH then Some STR_AP_ENERGY_DETECT_TH
      else None)"

definition get_from_config :: "ap_env \<Rightarrow> nat \<Rightarrow> resp \<Rightarrow> ap_st \<Rightarrow> resp \<times> ap_st" where
  "get_from_config e cNum r s =
     (if cNum = eCMD_ENABLE_SOFTAP then
        (case is_softap_enabled e s of (status, s') \<Rightarrow>
           (qsap_scnprintf (SUCCESS @ '' '' @ name (cmd_list ! cNum) @ ''='' @ fmt_d status) r, s'))
      else if cNum \<in> set commented_params then
        (snd (qsap_read_cfg CONFIG_FILE (cmd_list ! cNum) None True r (fs s)), s)
      else if cNum \<in> set enabled_params then
        (snd (qsap_read_cfg CONFIG_FILE (cmd_list ! cNum) None False r (fs s)), s)
      else if cNum \<in> {eCMD_WEP_KEY0, eCMD_WEP_KEY1, eCMD_WEP_KEY2, eCMD_WEP_KEY3} then
        (qsap_read_wep_key CONFIG_FILE (cmd_list ! cNum) None r (fs s), s)
      else if cNum = eCMD_CHAN then qsap_read_channel e (cmd_list ! cNum) r s
      else if int cNum = eCMD_ALLOW_LIST \<or> int cNum = eCMD_DENY_LIST then
        (qsap_get_mac_list CONFIG_FILE (int cNum) r (fs s), s)
      else if cNum = eCMD_SEC_MODE then (snd (qsap_read_security_mode CONFIG_FILE r (fs s)), s)
      else if cNum = eCMD_MAC_ADDR then
        (case qsap_read_mac_address r s of (rc, r') \<Rightarrow>
           (if rc \<noteq> eSUCCESS then qsap_scnprintf ERR_NOT_SUPPORTED r' else r', s))
      else if cNum = eCMD_WPS_STATE then (qsap_read_wps_state r (fs s), s)
      else if cNum = eCMD_ASSOC_STA_MACS then qsap_get_associated_sta_mac e r s
      else if cNum = eCMD_AP_STATISTICS then qsap_read_ap_stats e r s
      else if cNum = eCMD_AP_AUTOSHUTOFF then (qsap_read_autoshutoff r s, s)
      else if cNum = eCMD_GET_AUTO_CHANNEL then qsap_read_auto_channel e r s
      else case ini_param cNum of
        Some n \<Rightarrow> (snd (qsap_read_cfg (ini_path s) (qsap_str ! n) (Some (name (cmd_list ! cNum))) False r (fs s)), s)
      | None \<Rightarrow> (qsap_scnprintf ERR_INVALID_ARG r, s))"

text \<open>Blanks at the end of the response are removed, but for its first character.\<close>

definition trim_response :: "resp \<Rightarrow> resp" where
  "trim_response r =
     (let t = take (snd r) (fst r); u = take 1 t @ rev (dropWhile is_blank (rev (drop 1 t)))
      in (u, length u))"

definition qsap_get_from_config :: "ap_env \<Rightarrow> nat \<Rightarrow> resp \<Rightarrow> ap_st \<Rightarrow> resp \<times> ap_st" where
  "qsap_get_from_config e cNum r s = (case get_from_config e cNum r s of (r', s') \<Rightarrow> (trim_response r', s'))"

definition qsap_handle_get_request :: "ap_env \<Rightarrow> string \<Rightarrow> resp \<Rightarrow> ap_st \<Rightarrow> resp \<times> ap_st" where
  "qsap_handle_get_request e pcmd r s =
     (let cNum = qsap_get_cmd_num (skip_blank (drop 3 pcmd)) in
      if cNum = eCMD_INVALID then (qsap_scnprintf ERR_INVALID_PARAM r, s)
      else qsap_get_from_config e (nat cNum) r s)"

end
