(* ===== verification/Sap_Request.thy ===== *)
theory Sap_Request
  imports Sap_Query
begin

text \<open>
  The set requests of the soft access point, from \<^verbatim>\<open>softap/sdk/qsap_api.c\<close>: the control socket of hostapd,
  WPS, the conversion of addresses, the channel, operating mode and data rate, the dispatch of
  \<^verbatim>\<open>qsap_handle_set_request\<close>, the entry point \<^verbatim>\<open>qsap_hostd_exec_cmd\<close> and the sequence of requests of
  \<^verbatim>\<open>qsapsetSoftap\<close>. \<open>None\<close> is a request that has no defined result: it writes or reads outside of a
  buffer. Allocations succeed.
\<close>

subsection \<open>Numbers and validation\<close>

definition SDK_CTRL_IF :: string where "SDK_CTRL_IF = ''/data/misc/wifi/softap_sdk_ctrl''"
definition DEFAULT_INI_FILE :: string where "DEFAULT_INI_FILE = ''/persist/qcom/softap/qcom_cfg_default.ini''"
definition MAX_FILE_PATH_LEN :: nat where "MAX_FILE_PATH_LEN = 128"
definition CTRL_IFACE_PATH_LEN :: nat where "CTRL_IFACE_PATH_LEN = 128"
definition WPS_KEY_LEN :: nat where "WPS_KEY_LEN = 8"
definition SSD_MAX_LEN :: nat where "SSD_MAX_LEN = 32"
definition CTRY_MAX_LEN :: nat where "CTRY_MAX_LEN = 3"
definition B_MODE_MAX_DATA_RATE_IDX :: int where "B_MODE_MAX_DATA_RATE_IDX = 4"
definition G_ONLY_MODE_MAX_DATA_RATE_IDX :: int where "G_ONLY_MODE_MAX_DATA_RATE_IDX = 12"
definition eERR_SEND_TO_HOSTAPD :: int where "eERR_SEND_TO_HOSTAPD = 10"
definition eERR_SET_CHAN_RANGE :: int where "eERR_SET_CHAN_RANGE = 18"

definition HW_MODE_B :: nat where "HW_MODE_B = 0"
definition HW_MODE_G :: nat where "HW_MODE_G = 1"
definition HW_MODE_N :: nat where "HW_MODE_N = 2"
definition HW_MODE_G_ONLY :: nat where "HW_MODE_G_ONLY = 3"
definition HW_MODE_N_ONLY :: nat where "HW_MODE_N_ONLY = 4"
definition HW_MODE_A :: nat where "HW_MODE_A = 5"

definition WPS_CONFIG_PBC :: int where "WPS_CONFIG_PBC = 0"
definition WPS_CONFIG_PIN :: int where "WPS_CONFIG_PIN = 1"

definition within :: "int \<Rightarrow> int \<Rightarrow> int \<Rightarrow> bool" where
  "within lo hi v \<longleftrightarrow> lo \<le> v \<and> v \<le> hi"

definition IS_VALID_SEC_MODE :: "int \<Rightarrow> bool" where "IS_VALID_SEC_MODE x \<longleftrightarrow> x \<ge> 0 \<and> x < int SEC_MODE_INVALID"
definition IS_VALID_MAC_ACL :: "int \<Rightarrow> bool" where "IS_VALID_MAC_ACL x \<longleftrightarrow> x = 0 \<or> x = 1 \<or> x = 2"
definition IS_VALID_FLAG :: "int \<Rightarrow> bool" where "IS_VALID_FLAG x \<longleftrightarrow> x = ENABLE \<or> x = DISABLE"
definition IS_VALID_PASSPHRASE_LEN :: "int \<Rightarrow> bool" where "IS_VALID_PASSPHRASE_LEN x \<longleftrightarrow> within 8 63 x"
definition IS_VALID_BEACON :: "int \<Rightarrow> bool" where "IS_VALID_BEACON x \<longleftrightarrow> within 1 65535 x"
definition IS_VALID_DTIM_PERIOD :: "int \<Rightarrow> bool" where "IS_VALID_DTIM_PERIOD x \<longleftrightarrow> within 1 255 x"
definition IS_VALID_WEP_KEY_IDX :: "int \<Rightarrow> bool" where "IS_VALID_WEP_KEY_IDX x \<longleftrightarrow> x \<ge> 0 \<and> x < 4"
definition IS_VALID_PAIRWISE :: "string \<Rightarrow> bool" where
  "IS_VALID_PAIRWISE x \<longleftrightarrow> x = ''TKIP'' \<or> x = ''CCMP'' \<or> x = ''TKIP CCMP'' \<or> x = ''CCMP TKIP''"
definition IS_VALID_WMM_STATE :: "int \<Rightarrow> bool" where "IS_VALID_WMM_STATE x \<longleftrightarrow> within 0 2 x"
definition IS_VALID_FRAG_THRESHOLD :: "int \<Rightarrow> bool" where "IS_VALID_FRAG_THRESHOLD x \<longleftrightarrow> within 256 2346 x"
definition IS_VALID_RTS_THRESHOLD :: "int \<Rightarrow> bool" where "IS_VALID_RTS_THRESHOLD x \<longleftrightarrow> within 1 2347 x"
definition IS_VALID_GTK :: "int \<Rightarrow> bool" where "IS_VALID_GTK x \<longleftrightarrow> x \<ge> 30"
definition IS_VALID_UUID_LEN :: "int \<Rightarrow> bool" where "IS_VALID_UUID_LEN x \<longleftrightarrow> within 1 36 x"
definition IS_VALID_DEVICENAME_LEN :: "int \<Rightarrow> bool" where "IS_VALID_DEVICENAME_LEN x \<longleftrightarrow> within 1 32 x"
definition IS_VALID_MANUFACTURER_LEN :: "int \<Rightarrow> bool" where "IS_VALID_MANUFACTURER_LEN x \<longleftrightarrow> within 1 64 x"
definition IS_VALID_MODELNAME_LEN :: "int \<Rightarrow> bool" where "IS_VALID_MODELNAME_LEN x \<longleftrightarrow> within 1 32 x"
definition IS_VALID_MODELNUM_LEN :: "int \<Rightarrow> bool" where "IS_VALID_MODELNUM_LEN x \<longleftrightarrow> within 1 32 x"
definition IS_VALID_SERIALNUM_LEN :: "int \<Rightarrow> bool" where "IS_VALID_SERIALNUM_LEN x \<longleftrightarrow> within 1 32 x"
definition IS_VALID_DEV_TYPE_LEN :: "int \<Rightarrow> bool" where "IS_VALID_DEV_TYPE_LEN x \<longleftrightarrow> within 1 20 x"
definition IS_VALID_OS_VERSION_LEN :: "int \<Rightarrow> bool" where "IS_VALID_OS_VERSION_LEN x \<longleftrightarrow> within 1 12 x"
definition IS_VALID_FRIENDLY_NAME_LEN :: "int \<Rightarrow> bool" where "IS_VALID_FRIENDLY_NAME_LEN x \<longleftrightarrow> within 1 64 x"
definition IS_VALID_URL_LEN :: "int \<Rightarrow> bool" where "IS_VALID_URL_LEN x \<longleftrightarrow> x > 0 \<and> x \<le> 128"
definition IS_VALID_MODEL_DESC_LEN :: "int \<Rightarrow> bool" where "IS_VALID_MODEL_DESC_LEN x \<longleftrightarrow> x > 1 \<and> x \<le> 128"
definition IS_VALID_UPC_LEN :: "int \<Rightarrow> bool" where "IS_VALID_UPC_LEN x \<longleftrightarrow> x > 1 \<and> x \<le> 128"
definition IS_VALID_TX_POWER :: "int \<Rightarrow> bool" where "IS_VALID_TX_POWER x \<longleftrightarrow> within 2 30 x"
definition IS_VALID_DATA_RATE_IDX :: "int \<Rightarrow> bool" where "IS_VALID_DATA_RATE_IDX x \<longleftrightarrow> within 0 28 x"
definition IS_VALID_WPS_CONFIG :: "int \<Rightarrow> bool" where "IS_VALID_WPS_CONFIG x \<longleftrightarrow> x = WPS_CONFIG_PBC \<or> x = WPS_CONFIG_PIN"
definition IS_VALID_APSHUTOFFTIME :: "int \<Rightarrow> bool" where "IS_VALID_APSHUTOFFTIME x \<longleftrightarrow> within 0 120 x"
definition IS_VALID_ENERGY_DETECT_TH :: "int \<Rightarrow> bool" where
  "IS_VALID_ENERGY_DETECT_TH x \<longleftrightarrow> within 0 9 x \<or> x = 128"

subsection \<open>The control socket of hostapd\<close>

text \<open>The loop over \<^verbatim>\<open>select\<close> and \<^verbatim>\<open>recv\<close>: the value of \<^verbatim>\<open>ret\<close> at the label \<^verbatim>\<open>close_ret\<close>. When \<^verbatim>\<open>select\<close> times out \<^verbatim>\<open>ret\<close>
  is its result, zero; when \<^verbatim>\<open>recv\<close> delivers a refusal \<^verbatim>\<open>ret\<close> is the number of bytes; the third unsolicited message
  ends the loop like an answer.\<close>

fun hostapd_recv :: "nat \<Rightarrow> ap_env \<Rightarrow> nat \<Rightarrow> int \<times> nat" where
  "hostapd_recv 0 e p = (eSUCCESS, p)"
| "hostapd_recv (Suc retry_cnt) e p =
     (case a_hmsg e p of
        NoMessage \<Rightarrow> (0, Suc p)
      | RecvError \<Rightarrow> (-1, Suc p)
      | Message m \<Rightarrow>
          if m \<noteq> [] \<and> hd m = CHR ''<'' then hostapd_recv retry_cnt e (Suc p)
          else if prefix ''FAIL'' m then (int (length m), Suc p)
          else (eSUCCESS, Suc p))"

definition qsap_send_cmd_to_hostapd :: "ap_env \<Rightarrow> string \<Rightarrow> ap_st \<Rightarrow> int \<times> ap_st" where
  "qsap_send_cmd_to_hostapd e pcmd s =
     (let gone = (\<lambda>s. s\<lparr>fs := c_unlink SDK_CTRL_IF (fs s)\<rparr>) in
      case fst (qsap_get_config_value CONFIG_FILE (qsap_str ! STR_CTRL_INTERFACE) ([], CTRL_IFACE_PATH_LEN) (fs s)) of
        None \<Rightarrow> (eERR_SEND_TO_HOSTAPD, gone s)
      | Some pcif \<Rightarrow>
          (case interface_value 64 s of
             None \<Rightarrow> (eERR_SEND_TO_HOSTAPD, gone s)
           | Some pif \<Rightarrow>
               if 108 \<le> length (pcif @ ''/'' @ pif) then (eERR_SEND_TO_HOSTAPD, gone s)
               else if \<not> a_sock e (hw_pos s) then (eERR_SEND_TO_HOSTAPD, gone (tick s))
               else if \<not> a_hconn e (hw_pos s) then (-1, gone (tick s))
               else (case hostapd_recv 3 e (hw_pos s) of (ret, p) \<Rightarrow> (ret, gone (s\<lparr>hw_pos := p\<rparr>)))))"

subsection \<open>WPS\<close>

definition fs_write :: "ap_env \<Rightarrow> string \<Rightarrow> Command \<Rightarrow> string \<Rightarrow> bool \<Rightarrow> resp \<Rightarrow> ap_st \<Rightarrow> int \<times> resp \<times> ap_st" where
  "fs_write e pfile cmd v ini r s =
     (case qsap_write_cfg (a_io e) pfile cmd v ini r (fs s) of (rc, r', f) \<Rightarrow> (rc, r', s\<lparr>fs := f\<rparr>))"

definition fs_change :: "ap_env \<Rightarrow> string \<Rightarrow> Command \<Rightarrow> bool \<Rightarrow> ap_st \<Rightarrow> int \<times> ap_st" where
  "fs_change e pfile cmd status s =
     (case qsap_change_cfg (a_io e) pfile cmd status (fs s) of (rc, f) \<Rightarrow> (rc, s\<lparr>fs := f\<rparr>))"

definition qsap_update_wps_config :: "ap_env \<Rightarrow> string \<Rightarrow> resp \<Rightarrow> ap_st \<Rightarrow> resp \<times> ap_st" where
  "qsap_update_wps_config e pVal r s =
     (let status = atoi 32 pVal; on = (status \<noteq> 0);
          pwps_state = scn (MAX_INT_STR + 1) (fmt_d (if status = ENABLE then WPS_STATE_ENABLE else WPS_STATE_DISABLE))
      in case fs_write e CONFIG_FILE (cmd_list ! eCMD_WPS_STATE) pwps_state False r s of (_, r1, s1) \<Rightarrow>
         case fs_change e CONFIG_FILE (cmd_list ! eCMD_WPS_STATE) on s1 of (rc, s2) \<Rightarrow>
         if rc = eERR_UNKNOWN then (qsap_scnprintf ERR_UNKNOWN (fst r1, snd r), s2)
         else
           case fs_write e CONFIG_FILE (qsap_str ! STR_EAP_SERVER) (scn (MAX_INT_STR + 1) (fmt_d ENABLE)) False (fst r1, snd r) s2 of
             (_, r2, s3) \<Rightarrow>
           (case change_all (a_io e) CONFIG_FILE (map (\<lambda>i. (cmd_list ! i, on)) [eCMD_UUID..<Suc eCMD_UPC]) (fs s3) of
              (rc', f) \<Rightarrow>
                (if rc' = eERR_UNKNOWN then qsap_scnprintf ERR_UNKNOWN r2 else r2, s3\<lparr>fs := f\<rparr>)))"

definition qsap_config_wps_method :: "ap_env \<Rightarrow> string \<Rightarrow> resp \<Rightarrow> ap_st \<Rightarrow> (resp \<times> ap_st) option" where
  "qsap_config_wps_method e pVal r s =
     (let word = takeWhile (\<lambda>c. c \<noteq> CHR '' '') pVal; ptr = skip_blank (drop (length word) pVal); val = atoi 32 word in
      if 64 \<le> length word then None
      else if \<not> IS_VALID_WPS_CONFIG val then Some (qsap_scnprintf ERR_INVALID_PARAM r, s)
      else if val = WPS_CONFIG_PIN \<and> ptr = [] then Some (qsap_scnprintf ERR_INVALID_PARAM r, s)
      else if val \<noteq> WPS_CONFIG_PBC \<and> length ptr < WPS_KEY_LEN then Some (qsap_scnprintf ERR_INVALID_PARAM r, s)
      else
        (let buf = (if val = WPS_CONFIG_PBC then ''WPS_PBC'' else scn 64 (''WPS_PIN any '' @ ptr))
         in case qsap_send_cmd_to_hostapd e buf s of (rc, s') \<Rightarrow>
              Some (qsap_scnprintf (if rc = eSUCCESS then SUCCESS else ERR_UNKNOWN) r, s')))"

subsection \<open>Addresses\<close>

text \<open>\<^verbatim>\<open>atoh\<close> goes from the last character to the first; \<open>pos\<close> is the shift of the next digit.\<close>

definition hex_val :: "char \<Rightarrow> nat option" where
  "hex_val c = (let n = (of_char c :: nat) in
     if 48 \<le> n \<and> n \<le> 57 then Some (n - 48)
     else if 97 \<le> n \<and> n \<le> 102 then Some (n - 97 + 10)
     else if 65 \<le> n \<and> n \<le> 70 then Some (n - 65 + 10) else None)"

fun atoh_loop :: "string \<Rightarrow> nat \<Rightarrow> u32 \<Rightarrow> u32" where
  "atoh_loop [] pos val = val"
| "atoh_loop (c # rest) pos val =
     atoh_loop rest (pos + 4) (case hex_val c of None \<Rightarrow> val | Some d \<Rightarrow> val + push_bit pos (of_nat d))"

definition atoh :: "string \<Rightarrow> u32" where
  "atoh str = atoh_loop (rev str) 0 0"

fun mac_bytes :: "string \<Rightarrow> u8 list" where
  "mac_bytes [] = []"
| "mac_bytes (c # t) =
     (if c = CHR '':'' then mac_bytes t
      else ucast (atoh (c # take 1 t)) # mac_bytes (drop 2 t))"

text \<open>The bytes that are written to \<^verbatim>\<open>pbmac\<close>, with the terminator.\<close>

definition qsap_get_mac_in_bytes :: "string \<Rightarrow> u8 list option" where
  "qsap_get_mac_in_bytes psmac = (if \<not> isValid_MAC_address psmac then None else Some (mac_bytes psmac @ [0]))"

text \<open>The bytes go into the union of a wireless request, which has sixteen.\<close>

definition qsap_disassociate_sta :: "ap_env \<Rightarrow> string \<Rightarrow> resp \<Rightarrow> ap_st \<Rightarrow> (resp \<times> ap_st) option" where
  "qsap_disassociate_sta e pVal r s =
     (case is_softap_enabled e s of (en, s1) \<Rightarrow>
      if en \<noteq> ENABLE then Some (qsap_scnprintf ERR_UNKNOWN r, s1)
      else case interface_value MAX_CONF_LINE_LEN s1 of
        None \<Rightarrow> Some (qsap_scnprintf ERR_UNKNOWN r, s1)
      | Some pif \<Rightarrow>
          if \<not> a_sock e (hw_pos s1) then Some (qsap_scnprintf ERR_UNKNOWN r, tick s1)
          else case qsap_get_mac_in_bytes pVal of
            None \<Rightarrow> Some (qsap_scnprintf ERR_UNKNOWN r, tick s1)
          | Some bs \<Rightarrow>
              if 16 < length bs then None
              else Some (qsap_scnprintf (if a_ioctl e (hw_pos s1) then SUCCESS else ERR_UNKNOWN) r, tick s1))"

subsection \<open>Channel, operating mode and data rate\<close>

definition set_hw_mode :: "ap_env \<Rightarrow> nat \<Rightarrow> resp \<Rightarrow> ap_st \<Rightarrow> int \<times> ap_st" where
  "set_hw_mode e m r s =
     (case fs_write e CONFIG_FILE (cmd_list ! eCMD_HW_MODE) (hw_mode ! m) False r s of (rc, _, s') \<Rightarrow> (rc, s'))"

definition qsap_set_channel :: "ap_env \<Rightarrow> int \<Rightarrow> nat \<Rightarrow> ap_st \<Rightarrow> int \<times> ap_st" where
  "qsap_set_channel e channel tlen s =
     (case fst (qsap_get_config_value CONFIG_FILE (cmd_list ! eCMD_HW_MODE) ([], tlen) (fs s)) of
        None \<Rightarrow> (eERR_UNKNOWN, s)
      | Some pcfgval \<Rightarrow>
          (case (if pcfgval = hw_mode ! HW_MODE_A \<and> channel \<le> 14 then set_hw_mode e HW_MODE_G ([], tlen) s else (eSUCCESS, s)) of
             (rc1, s1) \<Rightarrow>
           if rc1 \<noteq> eSUCCESS then (eERR_UNKNOWN, s1)
           else case (if pcfgval \<noteq> hw_mode ! HW_MODE_B \<and> channel = 14 then set_hw_mode e HW_MODE_B ([], tlen) s1 else (eSUCCESS, s1)) of
             (rc2, s2) \<Rightarrow>
           if rc2 \<noteq> eSUCCESS then (eERR_UNKNOWN, s2)
           else case (if channel > 14 then set_hw_mode e HW_MODE_A ([], tlen) s2 else (eSUCCESS, s2)) of
             (rc3, s3) \<Rightarrow>
           if rc3 \<noteq> eSUCCESS then (eERR_UNKNOWN, s3)
           else case fs_write e CONFIG_FILE (cmd_list ! eCMD_CHAN) (scn (MAX_INT_STR + 1) (fmt_d channel)) False ([], tlen) s3 of
             (rc, _, s4) \<Rightarrow> (rc, s4)))"

definition set_11n :: "ap_env \<Rightarrow> bool \<Rightarrow> nat \<Rightarrow> ap_st \<Rightarrow> ap_st" where
  "set_11n e on tlen s =
     snd (snd (fs_write e CONFIG_FILE (cmd_list ! eCMD_IEEE80211N) (if on then ''1'' else ''0'') False ([], tlen) s))"

definition qsap_set_operating_mode :: "ap_env \<Rightarrow> nat \<Rightarrow> string \<Rightarrow> nat \<Rightarrow> ap_st \<Rightarrow> int \<times> ap_st" where
  "qsap_set_operating_mode e mode pmode tlen s =
     (let s1 = snd (fs_change e CONFIG_FILE (cmd_list ! eCMD_BASIC_RATES) False s);
          s2 = snd (fs_change e CONFIG_FILE (cmd_list ! eCMD_REQUIRE_HT) False s1);
          s3 = set_11n e False tlen s2;
          s4 = (if mode = HW_MODE_G_ONLY then snd (fs_change e CONFIG_FILE (cmd_list ! eCMD_BASIC_RATES) True s3)
                else if mode = HW_MODE_N_ONLY then
                  set_11n e True tlen (snd (fs_change e CONFIG_FILE (cmd_list ! eCMD_REQUIRE_HT) True s3))
                else if mode = HW_MODE_N \<or> mode = HW_MODE_A then set_11n e True tlen s3
                else if mode = HW_MODE_B then set_11n e False tlen s3
                else s3);
          pm = (if mode = HW_MODE_G_ONLY \<or> mode = HW_MODE_N_ONLY \<or> mode = HW_MODE_N
                then scn (Suc (length pmode)) (hw_mode ! HW_MODE_G) else pmode)
      in case fs_write e CONFIG_FILE (cmd_list ! eCMD_HW_MODE) pm False ([], tlen) s4 of (rc, _, s5) \<Rightarrow> (rc, s5))"

definition qsap_set_data_rate :: "ap_env \<Rightarrow> int \<Rightarrow> resp \<Rightarrow> ap_st \<Rightarrow> int \<times> resp \<times> ap_st" where
  "qsap_set_data_rate e drate_idx r s =
     (if \<not> IS_VALID_DATA_RATE_IDX drate_idx then (eERR_UNKNOWN, qsap_scnprintf ERR_UNKNOWN r, s)
      else case qsap_get_config_value CONFIG_FILE (cmd_list ! eCMD_HW_MODE) r (fs s) of
        (None, (presp, _)) \<Rightarrow> (eERR_UNKNOWN, qsap_scnprintf ERR_UNKNOWN (presp, snd r), s)
      | (Some pmode, (presp, _)) \<Rightarrow>
          if (pmode = hw_mode ! HW_MODE_B \<and> drate_idx > B_MODE_MAX_DATA_RATE_IDX) \<or>
             ((pmode = hw_mode ! HW_MODE_G \<or> pmode = hw_mode ! HW_MODE_G_ONLY) \<and> drate_idx > G_ONLY_MODE_MAX_DATA_RATE_IDX)
          then (eERR_UNKNOWN, qsap_scnprintf ERR_UNKNOWN (presp, snd r), s)
          else fs_write e (ini_path s) (qsap_str ! STR_DATA_RATE_IN_INI) (scn (MAX_INT_STR + 1) (fmt_d drate_idx)) True (presp, snd r) s)"

text \<open>\<^verbatim>\<open>sscanf (s, "%d %d %d", ...)\<close>: how many numbers it converts.\<close>

definition scan_int :: "string \<Rightarrow> string option" where
  "scan_int s =
     (case scan_sign (dropWhile isspace s) of (neg, t) \<Rightarrow>
      if t \<noteq> [] \<and> is_digit 10 (hd t) then Some (dropWhile (is_digit 10) t) else None)"

definition scan_three :: "string \<Rightarrow> bool" where
  "scan_three s = (Option.bind (Option.bind (scan_int s) scan_int) scan_int \<noteq> None)"

definition qsap_set_channel_range :: "ap_env \<Rightarrow> string \<Rightarrow> ap_st \<Rightarrow> int \<times> ap_st" where
  "qsap_set_channel_range e buf s =
     (case strchr buf (CHR ''='') of
        None \<Rightarrow> (eERR_SET_CHAN_RANGE, s)
      | Some i \<Rightarrow>
          (case interface_value MAX_CONF_LINE_LEN s of
             None \<Rightarrow> (eERR_SET_CHAN_RANGE, s)
           | Some pif \<Rightarrow>
               if \<not> a_sock e (hw_pos s) then (eERR_SET_CHAN_RANGE, tick s)
               else case is_softap_enabled e (tick s) of (en, s1) \<Rightarrow>
                 if \<not> scan_three (drop (Suc i) buf) then (eERR_SET_CHAN_RANGE, s1)
                 else (if a_ioctl e (hw_pos s1) then eSUCCESS else eERR_SET_CHAN_RANGE, tick s1)))"

subsection \<open>Dispatch\<close>

text \<open>
  The parameters that are checked and then written as they are or as the number they were read as. The
  result is the text that is written, the table entry and whether it goes to the ini file; \<open>None\<close> is a
  value that is refused. The number is written back into the argument, within its length.
\<close>

definition renumber :: "(int \<Rightarrow> bool) \<Rightarrow> string \<Rightarrow> string option" where
  "renumber valid pVal =
     (let val = atoi 32 pVal in if valid val then Some (scn (Suc (length pVal)) (fmt_d val)) else None)"

definition by_length :: "(int \<Rightarrow> bool) \<Rightarrow> string \<Rightarrow> string option" where
  "by_length valid pVal = (if valid (int (length pVal)) then Some pVal else None)"

definition checked_value :: "nat \<Rightarrow> string \<Rightarrow> string option" where
  "checked_value cNum pVal =
     (if cNum = eCMD_SSID then by_length (\<lambda>n. n \<le> int SSD_MAX_LEN) pVal
      else if cNum = eCMD_BSSID then renumber IS_VALID_FLAG pVal
      else if cNum = eCMD_PASSPHRASE then by_length IS_VALID_PASSPHRASE_LEN pVal
      else if cNum = eCMD_BCN_INTERVAL then renumber IS_VALID_BEACON pVal
      else if cNum = eCMD_DTIM_PERIOD then renumber IS_VALID_DTIM_PERIOD pVal
      else if cNum = eCMD_AUTH_ALGS then renumber (\<lambda>v. v = 1 \<or> v = 2 \<or> v = 3) pVal
      else if cNum = eCMD_UUID then by_length IS_VALID_UUID_LEN pVal
      else if cNum = eCMD_DEVICE_NAME then by_length IS_VALID_DEVICENAME_LEN pVal
      else if cNum = eCMD_MANUFACTURER then by_length IS_VALID_MANUFACTURER_LEN pVal
      else if cNum = eCMD_MODEL_NAME then by_length IS_VALID_MODELNAME_LEN pVal
      else if cNum = eCMD_MODEL_NUMBER then by_length IS_VALID_MODELNUM_LEN pVal
      else if cNum = eCMD_SERIAL_NUMBER then by_length IS_VALID_SERIALNUM_LEN pVal
      else if cNum = eCMD_DEVICE_TYPE then by_length IS_VALID_DEV_TYPE_LEN pVal
      else if cNum = eCMD_OS_VERSION then by_length IS_VALID_OS_VERSION_LEN pVal
      else if cNum = eCMD_FRIENDLY_NAME then by_length IS_VALID_FRIENDLY_NAME_LEN pVal
      else if cNum = eCMD_MANUFACTURER_URL \<or> cNum = eCMD_MODEL_URL then by_length IS_VALID_URL_LEN pVal
      else if cNum = eCMD_MODEL_DESC then by_length IS_VALID_MODEL_DESC_LEN pVal
      else if cNum = eCMD_UPC then by_length IS_VALID_UPC_LEN pVal
      else if cNum = eCMD_WMM_STATE then renumber IS_VALID_WMM_STATE pVal
      else if cNum = eCMD_PROTECTION_FLAG then renumber IS_VALID_FLAG pVal
      else if cNum = eCMD_FRAG_THRESHOLD then renumber IS_VALID_FRAG_THRESHOLD pVal
      else if cNum = eCMD_REGULATORY_DOMAIN then renumber IS_VALID_FLAG pVal
      else if cNum = eCMD_RTS_THRESHOLD then renumber IS_VALID_RTS_THRESHOLD pVal
      else if cNum = eCMD_GTK_TIMEOUT then (if IS_VALID_GTK (atoi 32 pVal) then Some pVal else None)
      else if cNum = eCMD_TX_POWER then renumber IS_VALID_TX_POWER pVal
      else if cNum = eCMD_COUNTRY_CODE then by_length (\<lambda>n. n \<le> int CTRY_MAX_LEN) pVal
      else if cNum = eCMD_AP_AUTOSHUTOFF then
        (let val = atoi 32 pVal in
         if IS_VALID_APSHUTOFFTIME val then Some (scn MAX_INT_STR (fmt_d (val * 60))) else None)
      else if cNum = eCMD_AP_ENERGY_DETECT_TH then renumber IS_VALID_ENERGY_DETECT_TH pVal
      else if cNum = eCMD_IEEE80211H then renumber IS_VALID_FLAG pVal
      else Some pVal)"

definition ini_target :: "nat \<Rightarrow> nat option" where
  "ini_target cNum =
     (if cNum = eCMD_PROTECTION_FLAG then Some STR_PROT_FLAG_IN_INI
      else if cNum = eCMD_TX_POWER then Some STR_TX_POWER_IN_INI
      else if cNum = eCMD_AP_AUTOSHUTOFF then Some STR_AP_AUTOSHUTOFF
      else if cNum = eCMD_AP_ENERGY_DETECT_TH then Some STR_AP_ENERGY_DETECT_TH
      else None)"

definition write_checked :: "ap_env \<Rightarrow> nat \<Rightarrow> string \<Rightarrow> resp \<Rightarrow> ap_st \<Rightarrow> resp \<times> ap_st" where
  "write_checked e cNum pVal r s =
     (case checked_value cNum pVal of
        None \<Rightarrow> (qsap_scnprintf ERR_INVALID_PARAM r, s)
      | Some v \<Rightarrow>
          (case ini_target cNum of
             Some n \<Rightarrow> snd (fs_write e (ini_path s) (qsap_str ! n) v True r s)
           | None \<Rightarrow> snd (fs_write e CONFIG_FILE (cmd_list ! cNum) v False r s)))"

definition set_macaddr_acl :: "ap_env \<Rightarrow> nat \<Rightarrow> string \<Rightarrow> resp \<Rightarrow> ap_st \<Rightarrow> resp \<times> ap_st" where
  "set_macaddr_acl e cNum pVal r s =
     (case renumber IS_VALID_MAC_ACL pVal of
        None \<Rightarrow> (qsap_scnprintf ERR_INVALID_PARAM r, s)
      | Some v \<Rightarrow>
          (let val = atoi 32 pVal in
           case fs_change e CONFIG_FILE (qsap_str ! STR_ACCEPT_MAC_FILE) (val \<noteq> 0) s of (rc1, s1) \<Rightarrow>
           if rc1 = eERR_UNKNOWN then (qsap_scnprintf ERR_INVALID_PARAM r, s1)
           else case fs_change e CONFIG_FILE (qsap_str ! STR_DENY_MAC_FILE) (val \<noteq> 1) s1 of (rc2, s2) \<Rightarrow>
             if rc2 = eERR_UNKNOWN then (qsap_scnprintf ERR_INVALID_PARAM r, s2)
             else snd (fs_write e CONFIG_FILE (cmd_list ! cNum) v False r s2)))"

text \<open>A WEP parameter is written, and commented out again unless the security mode is WEP.\<close>

definition write_wep :: "ap_env \<Rightarrow> nat \<Rightarrow> string \<Rightarrow> resp \<Rightarrow> ap_st \<Rightarrow> resp \<times> ap_st" where
  "write_wep e cNum v r s =
     (case fs_write e CONFIG_FILE (cmd_list ! cNum) v False r s of (_, r1, s1) \<Rightarrow>
      if fst (qsap_read_security_mode CONFIG_FILE ([], MAX_FILE_PATH_LEN) (fs s1)) \<noteq> SEC_MODE_WEP then
        (case fs_change e CONFIG_FILE (cmd_list ! cNum) False s1 of (rc, s2) \<Rightarrow>
         (if rc = eERR_UNKNOWN then qsap_scnprintf ERR_INVALID_PARAM r1 else r1, s2))
      else (r1, s1))"

definition set_pairwise :: "ap_env \<Rightarrow> nat \<Rightarrow> string \<Rightarrow> resp \<Rightarrow> ap_st \<Rightarrow> resp \<times> ap_st" where
  "set_pairwise e cNum pVal r s =
     (if \<not> IS_VALID_PAIRWISE pVal then (qsap_scnprintf ERR_INVALID_PARAM r, s)
      else case fs_change e CONFIG_FILE (qsap_str ! STR_HT_80211N) (pVal \<noteq> ''TKIP'') s of (rc, s1) \<Rightarrow>
        if rc = eERR_UNKNOWN then (qsap_scnprintf ERR_INVALID_PARAM r, s1)
        else snd (fs_write e CONFIG_FILE (cmd_list ! cNum) pVal False r s1))"

definition verdict :: "int \<Rightarrow> string \<Rightarrow> resp \<Rightarrow> resp" where
  "verdict rc failure r = qsap_scnprintf (if rc = eSUCCESS then SUCCESS else failure) r"

definition reset_ap :: "ap_env \<Rightarrow> ap_build \<Rightarrow> int \<Rightarrow> ap_st \<Rightarrow> int \<times> ap_st" where
  "reset_ap e b val s =
     (if val = 0 then
        (case wifi_qsap_stop_softap e s of (rc, s1) \<Rightarrow>
         if rc \<noteq> eSUCCESS then (rc, s1)
         else case wifi_qsap_start_softap e s1 of (rc', s2) \<Rightarrow>
           (rc', if rc' \<noteq> eSUCCESS then snd (wifi_qsap_unload_driver e b s2) else s2))
      else if val = 1 then wifi_qsap_reload_softap e b s
      else if val = 2 then wifi_qsap_stop_bss e s
      else if val = 3 then
        (case wifi_qsap_stop_softap e s of (rc, s1) \<Rightarrow>
         if rc \<noteq> eSUCCESS then (rc, s1) else wifi_qsap_unload_driver e b s1)
      else if concurrency b \<and> val = 4 then wifi_qsap_start_softap_in_concurrency e s
      else if concurrency b \<and> val = 5 then wifi_qsap_stop_softap_in_concurrency e s
      else (1, s))"

text \<open>The reset of the ini file cannot rename its copy to a null path.\<close>

definition reset_ini :: "ap_env \<Rightarrow> ap_st \<Rightarrow> int \<times> sap_st" where
  "reset_ini e s =
     (case fIni s of
        Some p \<Rightarrow> wifi_qsap_reset_to_default (a_io e) p DEFAULT_INI_FILE (fs s)
      | None \<Rightarrow> wifi_qsap_reset_to_default (\<lambda>n. (a_io e n)\<lparr>rename_ok := False\<rparr>) [] DEFAULT_INI_FILE (fs s))"

definition reset_to_default :: "ap_env \<Rightarrow> ap_build \<Rightarrow> ap_st \<Rightarrow> int \<times> ap_st" where
  "reset_to_default e b s =
     (case wifi_qsap_reset_to_default (a_io e) CONFIG_FILE DEFAULT_CONFIG_FILE_PATH (fs s) of (rc1, f1) \<Rightarrow>
      if rc1 \<noteq> eSUCCESS then (rc1, s\<lparr>fs := f1\<rparr>)
      else case reset_ini e (s\<lparr>fs := f1\<rparr>) of (rc2, f2) \<Rightarrow>
        if rc2 \<noteq> eSUCCESS then (rc2, s\<lparr>fs := f2\<rparr>) else wifi_qsap_reload_softap e b (s\<lparr>fs := f2\<rparr>))"

definition set_mac_list :: "ap_env \<Rightarrow> nat \<Rightarrow> string \<Rightarrow> (nat \<Rightarrow> char) \<Rightarrow> resp \<Rightarrow> ap_st \<Rightarrow> (resp \<times> ap_st) option" where
  "set_mac_list e cNum pVal past r s =
     (let sNum = (if int cNum = eCMD_ADD_TO_ALLOW \<or> int cNum = eCMD_REMOVE_FROM_ALLOW then STR_ACCEPT_MAC_FILE else STR_DENY_MAC_FILE)
      in case qsap_get_allow_deny_file_name CONFIG_FILE (qsap_str ! sNum) MAX_FILE_PATH_LEN (fs s) of
           None \<Rightarrow> Some (qsap_scnprintf ERR_RES_UNAVAILABLE r, s)
         | Some pfile \<Rightarrow>
             map_option (\<lambda>(r', f). (r', s\<lparr>fs := f\<rparr>)) (qsap_update_mac_list (a_io e) pfile (int cNum) pVal past r (fs s)))"

definition mode_index :: "string \<Rightarrow> nat option" where
  "mode_index pVal = find (\<lambda>m. hw_mode ! m = pVal) [0..<length hw_mode]"

definition set_param :: "ap_env \<Rightarrow> ap_build \<Rightarrow> nat \<Rightarrow> string \<Rightarrow> string \<Rightarrow> (nat \<Rightarrow> char) \<Rightarrow> resp \<Rightarrow> ap_st \<Rightarrow> (resp \<times> ap_st) option" where
  "set_param e b cNum pcmd pVal past r s =
     (if int cNum \<in> {eCMD_ADD_TO_ALLOW, eCMD_REMOVE_FROM_ALLOW, eCMD_ADD_TO_DENY, eCMD_REMOVE_FROM_DENY} then
        set_mac_list e cNum pVal past r s
      else if cNum = eCMD_SEC_MODE then
        (let val = atoi 32 pVal in
         if \<not> IS_VALID_SEC_MODE val then Some (qsap_scnprintf ERR_INVALID_PARAM r, s)
         else case qsap_set_security_mode (a_io e) CONFIG_FILE (nat val) r (fs s) of (r', f) \<Rightarrow> Some (r', s\<lparr>fs := f\<rparr>))
      else if cNum = eCMD_MAC_ACL then Some (set_macaddr_acl e cNum pVal r s)
      else if cNum = eCMD_COMMIT then Some (qsap_scnprintf SUCCESS r, s)
      else if cNum = eCMD_ENABLE_SOFTAP then
        (if \<not> IS_VALID_FLAG (atoi 32 pVal) then Some (qsap_scnprintf ERR_INVALID_PARAM r, s)
         else case (if take 1 pVal = ''0'' then wifi_qsap_unload_driver e b s else wifi_qsap_load_driver e b s) of
           (status, s') \<Rightarrow> Some (verdict status ''failure Could not enable softap'' r, s'))
      else if cNum = eCMD_ENABLE_WIGIG_SOFTAP then
        (if \<not> IS_VALID_FLAG (atoi 32 pVal) then Some (qsap_scnprintf ERR_INVALID_PARAM r, s)
         else case (if take 1 pVal = ''0'' then wifi_qsap_stop_wigig_softap s else wifi_qsap_start_wigig_softap e s) of
           (status, s') \<Rightarrow> Some (verdict status ''failure Could not enable Wigig softap'' r, s'))
      else if cNum = eCMD_CHAN then
        (case qsap_set_channel e (atoi 32 pVal) MAX_FILE_PATH_LEN s of (rc, s') \<Rightarrow> Some (verdict rc ERR_UNKNOWN r, s'))
      else if cNum = eCMD_HW_MODE then
        (case mode_index pVal of
           None \<Rightarrow> Some (qsap_scnprintf ERR_INVALID_PARAM r, s)
         | Some m \<Rightarrow>
             (case qsap_set_operating_mode e m pVal MAX_FILE_PATH_LEN s of (rc, s') \<Rightarrow> Some (verdict rc ERR_UNKNOWN r, s')))
      else if cNum = eCMD_DEFAULT_KEY then
        (case renumber IS_VALID_WEP_KEY_IDX pVal of
           None \<Rightarrow> Some (qsap_scnprintf ERR_INVALID_PARAM r, s)
         | Some v \<Rightarrow> Some (write_wep e cNum v r s))
      else if cNum = eCMD_WPA_PAIRWISE \<or> cNum = eCMD_RSN_PAIRWISE then Some (set_pairwise e cNum pVal r s)
      else if cNum \<in> {eCMD_WEP_KEY0, eCMD_WEP_KEY1, eCMD_WEP_KEY2, eCMD_WEP_KEY3} then
        (case is_valid_wep_key pVal MAX_FILE_PATH_LEN of
           (True, Some key) \<Rightarrow> Some (write_wep e cNum key r s)
         | _ \<Rightarrow> Some (qsap_scnprintf ERR_INVALID_PARAM r, s))
      else if cNum = eCMD_RESET_AP then
        (case reset_ap e b (atoi 32 pVal) s of (rc, s') \<Rightarrow> Some (verdict rc ERR_UNKNOWN r, s'))
      else if cNum = eCMD_DISASSOC_STA then qsap_disassociate_sta e pVal r s
      else if cNum = eCMD_RESET_TO_DEFAULT then
        (case reset_to_default e b s of (rc, s') \<Rightarrow> Some (verdict rc ERR_UNKNOWN r, s'))
      else if cNum = eCMD_DATA_RATES then
        (case qsap_set_data_rate e (atoi 32 pVal) r s of (_, r', s') \<Rightarrow> Some (r', s'))
      else if cNum = eCMD_WPS_STATE then
        (case renumber IS_VALID_FLAG pVal of
           None \<Rightarrow> Some (qsap_scnprintf ERR_INVALID_PARAM r, s)
         | Some v \<Rightarrow> Some (qsap_update_wps_config e v r s))
      else if cNum = eCMD_WPS_CONFIG_METHOD then qsap_config_wps_method e pVal r s
      else if cNum = eCMD_INTRA_BSS_FORWARD then
        (let val = atoi 32 pVal in
         if \<not> IS_VALID_FLAG val then Some (qsap_scnprintf ERR_INVALID_PARAM r, s)
         else case fs_change e CONFIG_FILE (cmd_list ! cNum) (val \<noteq> DISABLE) s of (rc, s') \<Rightarrow> Some (verdict rc ERR_UNKNOWN r, s'))
      else if cNum = eCMD_SET_CHANNEL_RANGE then
        (case qsap_set_channel_range e pcmd s of (rc, s') \<Rightarrow> Some (verdict rc ERR_UNKNOWN r, s'))
      else Some (write_checked e cNum pVal r s))"

definition qsap_handle_set_request ::
    "ap_env \<Rightarrow> ap_build \<Rightarrow> string \<Rightarrow> (nat \<Rightarrow> char) \<Rightarrow> resp \<Rightarrow> ap_st \<Rightarrow> (resp \<times> ap_st) option" where
  "qsap_handle_set_request e b cmd past r s =
     (let pcmd = skip_blank (drop 3 cmd); num = qsap_get_cmd_num pcmd in
      if num = eCMD_INVALID then Some (qsap_scnprintf ERR_INVALID_ARG r, s)
      else
        (let cNum = nat num; pVal = drop (length (name (cmd_list ! cNum))) pcmd in
         if cNum \<noteq> eCMD_COMMIT \<and> cNum \<noteq> eCMD_RESET_TO_DEFAULT \<and> (take 1 pVal \<noteq> ''='' \<or> length pVal < 2)
         then Some (qsap_scnprintf ERR_INVALID_ARG r, s)
         else set_param e b cNum pcmd (drop 1 pVal) past r s))"

definition qsap_hostd_exec_cmd ::
    "ap_env \<Rightarrow> ap_build \<Rightarrow> string \<Rightarrow> (nat \<Rightarrow> char) \<Rightarrow> resp \<Rightarrow> ap_st \<Rightarrow> (resp \<times> ap_st) option" where
  "qsap_hostd_exec_cmd e b cmd past r s =
     (let pcmd = skip_blank cmd;
          s1 = s\<lparr>fs := check_for_configuration_files (a_io e) (fs s)\<rparr>;
          s2 = (if fIni s1 = None then qsap_set_ini_filename e s1 else s1);
          blank = (length pcmd > 3 \<and> is_blank (pcmd ! 3))
      in if prefix ''get'' pcmd \<and> blank then Some (qsap_handle_get_request e pcmd r s2)
         else if prefix ''set'' pcmd \<and> blank then qsap_handle_set_request e b pcmd past r s2
         else Some (qsap_scnprintf ERR_INVALIDREQ r, s2))"

subsection \<open>The sequence of requests for a new access point\<close>

definition RECV_BUF_LEN :: nat where "RECV_BUF_LEN = 255"
definition CMD_BUF_LEN :: nat where "CMD_BUF_LEN = 255"
definition DEFAULT_INTFERACE :: string where "DEFAULT_INTFERACE = ''wlan0''"
definition DEFAULT_SSID :: string where "DEFAULT_SSID = ''SOFTAP_SSID''"
definition DEFAULT_PASSPHRASE :: string where "DEFAULT_PASSPHRASE = ''12345678''"
definition DEFAULT_AUTH_ALG :: int where "DEFAULT_AUTH_ALG = 1"

text \<open>One request, and the test of its response: \<^verbatim>\<open>strncmp ("success", respbuf, rlen) == 0\<close>.\<close>

definition resp_accepted :: "resp \<Rightarrow> bool" where
  "resp_accepted r \<longleftrightarrow> take (snd r) ''success'' = take (snd r) (fst r)"

definition sap_request ::
    "ap_env \<Rightarrow> ap_build \<Rightarrow> (nat \<Rightarrow> char) \<Rightarrow> string \<Rightarrow> bool \<Rightarrow> resp \<times> ap_st \<Rightarrow> ((resp \<times> ap_st) + ap_st) option" where
  "sap_request e b past cmdbuf must rs =
     map_option (\<lambda>(r', s'). if must \<and> \<not> resp_accepted r' then Inr s' else Inl (r', s'))
       (qsap_hostd_exec_cmd e b cmdbuf past (fst rs) (snd rs))"

text \<open>The commands of \<^verbatim>\<open>qsapsetSoftap\<close> with, for each, whether the response buffer is renewed before it and
  whether a refusal ends the sequence. A step that leaves \<^verbatim>\<open>cmdbuf\<close> alone issues the previous command again.\<close>

definition arg :: "string list \<Rightarrow> nat \<Rightarrow> string option" where
  "arg argv i = (if i < length argv then Some (argv ! i) else None)"

definition sec_of :: "string \<Rightarrow> nat" where
  "sec_of a = (if a = ''wep'' then SEC_MODE_WEP else if a = ''wpa-psk'' then SEC_MODE_WPA_PSK
     else if a = ''wpa2-psk'' then SEC_MODE_WPA2_PSK else SEC_MODE_NONE)"

definition softap_commands :: "int \<Rightarrow> string list \<Rightarrow> (string \<times> bool \<times> bool) list" where
  "softap_commands rnd argv =
     (let sec = (case arg argv 6 of None \<Rightarrow> SEC_MODE_NONE | Some a \<Rightarrow> sec_of a);
          iface = scn CMD_BUF_LEN (''set interface='' @ (case arg argv 2 of None \<Rightarrow> DEFAULT_INTFERACE | Some a \<Rightarrow> a));
          ssid = scn CMD_BUF_LEN (''set ssid='' @ (case arg argv 3 of None \<Rightarrow> DEFAULT_SSID @ ''_'' @ fmt_d rnd | Some a \<Rightarrow> a));
          mode = scn CMD_BUF_LEN (''set security_mode='' @
            fmt_d (case arg argv 6 of None \<Rightarrow> DEFAULT_AUTH_ALG | Some _ \<Rightarrow> int sec));
          pass = (if sec = SEC_MODE_WPA_PSK \<or> sec = SEC_MODE_WPA2_PSK then
                    scn CMD_BUF_LEN (''set wpa_passphrase='' @ (case arg argv 7 of None \<Rightarrow> DEFAULT_PASSPHRASE | Some a \<Rightarrow> take 63 a))
                  else mode);
          sta = (case arg argv 8 of None \<Rightarrow> pass | Some a \<Rightarrow> scn CMD_BUF_LEN (''set max_num_sta='' @ fmt_d (atoi 32 a)))
      in [(iface, True, False), (ssid, False, True)] @
         (case arg argv 4 of None \<Rightarrow> []
          | Some a \<Rightarrow> [(scn CMD_BUF_LEN (''set ignore_broadcast_ssid='' @ fmt_d (if a = ''hidden'' then 1 else 0)), True, True)]) @
         (case arg argv 5 of None \<Rightarrow> []
          | Some a \<Rightarrow> [(scn CMD_BUF_LEN (''set channel='' @ fmt_d (atoi 32 a)), True, True)]) @
         [(mode, True, True), (pass, True, True), (sta, True, True), (''set commit'', True, True)])"

fun run_commands ::
    "ap_env \<Rightarrow> ap_build \<Rightarrow> (nat \<Rightarrow> char) \<Rightarrow> (string \<times> bool \<times> bool) list \<Rightarrow> resp \<Rightarrow> ap_st \<Rightarrow> (int \<times> ap_st) option" where
  "run_commands e b past [] r s = Some (0, s)"
| "run_commands e b past ((cmdbuf, fresh, must) # cs) r s =
     (case sap_request e b past cmdbuf must ((fst r, if fresh then RECV_BUF_LEN else snd r), s) of
        None \<Rightarrow> None
      | Some (Inr s') \<Rightarrow> Some (-1, s')
      | Some (Inl (r', s')) \<Rightarrow> run_commands e b past cs r' s')"

definition qsapsetSoftap ::
    "ap_env \<Rightarrow> ap_build \<Rightarrow> (nat \<Rightarrow> char) \<Rightarrow> string list \<Rightarrow> ap_st \<Rightarrow> (int \<times> ap_st) option" where
  "qsapsetSoftap e b past argv s = run_commands e b past (softap_commands (a_rand e) argv) ([], RECV_BUF_LEN) s"

end
