(* ===== verification/Sap_File.thy ===== *)
theory Sap_File
  imports Sap_Config
begin

text \<open>
  Configuration files of the soft access point as lists of lines: which lines survive being
  read and written in pieces, the interface of a parameter file (read, read also when
  commented out, write, enable, disable) with the fact its clients need, and the proof that
  the line operations of \<^verbatim>\<open>qsap_read_cfg\<close>, \<^verbatim>\<open>qsap_write_cfg\<close> and \<^verbatim>\<open>qsap_change_cfg\<close> provide it.
\<close>

definition ok_line :: "nat \<Rightarrow> string \<Rightarrow> bool" where
  "ok_line k l \<longleftrightarrow> (\<exists>b. l = b @ [NL] \<and> NL \<notin> set b \<and> NUL \<notin> set b \<and> length l \<le> k)"

lemma fgets_ok_line:
  assumes "ok_line k l" "k < n"
  shows "fgets n (l @ s) = l"
proof -
  obtain b where b: "l = b @ [NL]" "NL \<notin> set b" "length l \<le> k" using assms(1) by (auto simp: ok_line_def)
  then have "n - 1 - length b = Suc (n - 1 - length l)" "length b \<le> n - 1" using assms(2) by simp_all
  then have t: "take (n - 1) (l @ s) = b @ NL # take (n - 1 - length l) s" using b(1) by simp
  have "takeWhile (\<lambda>c. c \<noteq> NL) (b @ NL # r) = b" for r using b(2) by (simp add: takeWhile_append)
  with b t show ?thesis by (simp add: fgets_def Let_def)
qed

lemma fgets_lines_ok:
  assumes "\<forall>l\<in>set ls. ok_line k l" "k < n" "1 < n"
  shows "fgets_lines n (concat ls) = ls"
  using assms
proof (induction ls)
  case Nil
  then show ?case by (simp add: fgets_lines.simps)
next
  case (Cons l ls)
  then have "l \<noteq> []" by (auto simp: ok_line_def)
  with Cons fgets_ok_line [of k l n "concat ls"] show ?case
    by (subst fgets_lines.simps) (simp)
qed

lemma cstr_ok: "ok_line k l \<Longrightarrow> cstr l = l"
  by (auto simp: ok_line_def cstr_def NL_def NUL_def takeWhile_eq_all_conv)

text \<open>
  A well-formed configuration line: it ends in a newline, has no NUL, and is short enough
  to be read in one piece also when it is commented out.
\<close>

definition body :: "string \<Rightarrow> string" where
  "body l = (if is_comment l then tl l else l)"

definition conf_line :: "string \<Rightarrow> bool" where
  "conf_line l \<longleftrightarrow> ok_line 155 l \<and> length (body l) \<le> 154"

definition conf_ok :: "string list \<Rightarrow> bool" where
  "conf_ok ls \<longleftrightarrow> (\<forall>l\<in>set ls. conf_line l)"

definition key_ok :: "string \<Rightarrow> bool" where
  "key_ok k \<longleftrightarrow> k \<noteq> [] \<and> hd k \<noteq> CHR ''#'' \<and> CHR ''='' \<notin> set k \<and> NL \<notin> set k \<and> NUL \<notin> set k \<and>
     \<not> prefix ''END'' k \<and> \<not> prefix ''END'' (tl k)"

definition val_ok :: "string \<Rightarrow> string \<Rightarrow> bool" where
  "val_ok k v \<longleftrightarrow> NL \<notin> set v \<and> NUL \<notin> set v \<and> (v = [] \<or> last v \<noteq> CR) \<and> length k + length v \<le> 152"

definition get_param :: "string \<Rightarrow> string list \<Rightarrow> string option" where
  "get_param k ls = map_option (drop (Suc (length k))) (find_line k False ls)"

definition top_param :: "string \<Rightarrow> string list \<Rightarrow> string option" where
  "top_param k ls = map_option (drop (Suc (length k))) (find_line k True ls)"

definition change_lines :: "string \<Rightarrow> bool \<Rightarrow> string list \<Rightarrow> string list" where
  "change_lines k b ls = map (change_line k b) ls"

subsection \<open>The interface of a parameter file\<close>

locale param_file =
  fixes ok :: "'f \<Rightarrow> bool" and key :: "'k \<Rightarrow> bool" and val :: "'k \<Rightarrow> 'v \<Rightarrow> bool"
    and get :: "'k \<Rightarrow> 'f \<Rightarrow> 'v option" and top :: "'k \<Rightarrow> 'f \<Rightarrow> 'v option"
    and put :: "'k \<Rightarrow> 'v \<Rightarrow> 'f \<Rightarrow> 'f" and change :: "'k \<Rightarrow> bool \<Rightarrow> 'f \<Rightarrow> 'f"
  assumes ok_put: "ok f \<Longrightarrow> key k \<Longrightarrow> val k v \<Longrightarrow> ok (put k v f)"
    and ok_change: "ok f \<Longrightarrow> key k \<Longrightarrow> ok (change k b f)"
    and get_put: "ok f \<Longrightarrow> key k \<Longrightarrow> val k v \<Longrightarrow> key k' \<Longrightarrow>
      get k' (put k v f) = (if k' = k then Some v else get k' f)"
    and top_put: "ok f \<Longrightarrow> key k \<Longrightarrow> val k v \<Longrightarrow> key k' \<Longrightarrow>
      top k' (put k v f) = (if k' = k then Some v else top k' f)"
    and get_change: "ok f \<Longrightarrow> key k \<Longrightarrow> key k' \<Longrightarrow>
      get k' (change k b f) = (if k' = k then if b then top k f else None else get k' f)"
    and top_change: "ok f \<Longrightarrow> key k \<Longrightarrow> key k' \<Longrightarrow> top k' (change k b f) = top k' f"
begin

definition changes :: "('k \<times> bool) list \<Rightarrow> 'f \<Rightarrow> 'f" where
  "changes cs f = fold (\<lambda>(k, b). change k b) cs f"

text \<open>After a sequence of changes the last one of a parameter counts.\<close>

lemma changes_effect:
  assumes "ok f" "\<forall>(k, b)\<in>set cs. key k" "key k'"
  shows "ok (changes cs f)" "top k' (changes cs f) = top k' f"
    "get k' (changes cs f) = (case map_of (rev cs) k' of None \<Rightarrow> get k' f | Some b \<Rightarrow> if b then top k' f else None)"
  using assms
proof (induction cs arbitrary: f)
  case Nil
  { case 1 then show ?case by (simp add: changes_def) }
  { case 2 then show ?case by (simp add: changes_def) }
  { case 3 then show ?case by (simp add: changes_def) }
next
  case (Cons c cs)
  obtain k b where c: "c = (k, b)" by (cases c)
  have step: "changes (c # cs) f = changes cs (change k b f)" for f by (simp add: changes_def c)
  { case 1 then show ?case unfolding step using Cons.IH(1) [of "change k b f"] c ok_change by auto }
  { case 2 then show ?case unfolding step using Cons.IH(2) [of "change k b f"] c ok_change top_change by auto }
  { case 3
    then have k: "key k" "\<forall>(k, b)\<in>set cs. key k" "ok (change k b f)" using c ok_change by auto
    from Cons.IH(3) [OF k(3,2) 3(3)] get_change [OF 3(1) k(1) 3(3), of b] top_change [OF 3(1) k(1) 3(3), of b]
    show ?case unfolding step by (auto simp: c map_add_def split: option.splits) }
qed

end


subsection \<open>Lines as parameter files\<close>

lemma names_inj: "key_ok a \<Longrightarrow> key_ok b \<Longrightarrow> names a p \<Longrightarrow> names b p \<Longrightarrow> a = b"
proof -
  assume k: "key_ok a" "key_ok b" and n: "names a p" "names b p"
  have *: "takeWhile (\<lambda>c. c \<noteq> CHR ''='') p = k" if "key_ok k" "names k p" for k
    using that by (auto simp: names_def key_ok_def prefix_def takeWhile_append)
  show "a = b" using *[OF k(1) n(1)] *[OF k(2) n(2)] by simp
qed

lemma names_body: "key_ok k \<Longrightarrow> names k p \<Longrightarrow> \<not> is_comment p"
  by (cases k) (auto simp: names_def key_ok_def is_comment_def prefix_def)

lemma conf_line_cstr: "conf_line l \<Longrightarrow> cstr l = l"
  by (auto simp: conf_line_def cstr_ok)

lemma find_line_conf:
  assumes "conf_line l"
  shows "find_line k b (l # ls) =
    (if names k (body l) \<and> (b \<or> \<not> is_comment l) then Some (chop (body l)) else find_line k b ls)"
  using assms by (simp add: conf_line_cstr body_def Let_def)

lemma change_line_conf:
  assumes "conf_line l"
  shows "change_line k b l = (if names k (body l) then if b then body l else CHR ''#'' # body l else l)"
  using assms by (simp add: change_line_def conf_line_cstr body_def Let_def)

lemma cfg_line_conf:
  assumes "key_ok k" "val_ok k v"
  shows "cfg_line k v = k @ ''='' @ v @ [NL]" "conf_line (cfg_line k v)" "\<not> is_comment (cfg_line k v)"
    "names k' (cfg_line k v) \<longleftrightarrow> names k' (k @ ''='' @ v @ [NL])" "chop (cfg_line k v) = k @ ''='' @ v"
proof -
  show eq: "cfg_line k v = k @ ''='' @ v @ [NL]"
    using assms by (simp add: cfg_line_def scn_def qsap_scnprintf_def val_ok_def MAX_CONF_LINE_LEN_def)
  show nc: "\<not> is_comment (cfg_line k v)" using assms(1) unfolding eq by (cases k) (auto simp: key_ok_def is_comment_def)
  have "ok_line 155 (cfg_line k v)"
    unfolding ok_line_def using assms
    by (intro exI [of _ "k @ ''='' @ v"]) (auto simp: eq key_ok_def val_ok_def NL_def NUL_def)
  then show "conf_line (cfg_line k v)" using assms nc by (simp add: conf_line_def body_def eq val_ok_def)
  show "names k' (cfg_line k v) \<longleftrightarrow> names k' (k @ ''='' @ v @ [NL])" by (simp add: eq)
  have "dropWhile (\<lambda>c. c = CR \<or> c = NL) (rev v @ CHR ''='' # rev k) = rev v @ CHR ''='' # rev k"
    using assms(2) by (cases v rule: rev_cases) (auto simp: val_ok_def CR_def NL_def)
  then show "chop (cfg_line k v) = k @ ''='' @ v" by (simp add: eq chop_def)
qed

lemma body_comment: "body (CHR ''#'' # p) = p" "is_comment (CHR ''#'' # p)"
  by (simp_all add: body_def is_comment_def)

lemma body_plain: "\<not> is_comment p \<Longrightarrow> body p = p"
  by (simp add: body_def)

lemma conf_line_body:
  assumes "conf_line l" "key_ok k" "names k (body l)"
  shows "conf_line (body l)" "conf_line (CHR ''#'' # body l)"
proof -
  obtain b where b: "l = b @ [NL]" "NL \<notin> set b" "NUL \<notin> set b" "length (body l) \<le> 154"
    using assms(1) by (auto simp: conf_line_def ok_line_def)
  have nc: "\<not> is_comment (body l)" using names_body assms by blast
  have "names k (body l) \<Longrightarrow> body l \<noteq> []" by (auto simp: names_def)
  with assms(3) b(1) obtain b' where b': "body l = b' @ [NL]" "set b' \<subseteq> set b"
    by (cases b) (auto simp: body_def is_comment_def split: if_splits)
  have "ok_line 155 (body l)" unfolding ok_line_def using b b' by (intro exI [of _ b']) auto
  then show "conf_line (body l)" using nc b by (simp add: conf_line_def body_plain)
  have "ok_line 155 (CHR ''#'' # body l)" unfolding ok_line_def using b b'
    by (intro exI [of _ "CHR ''#'' # b'"]) (auto simp: NL_def NUL_def)
  then show "conf_line (CHR ''#'' # body l)" using b by (simp add: conf_line_def body_comment)
qed

lemma conf_ok_change: "conf_ok ls \<Longrightarrow> key_ok k \<Longrightarrow> conf_ok (change_lines k b ls)"
  by (auto simp: conf_ok_def change_lines_def change_line_conf conf_line_body)

lemma find_change:
  assumes "conf_ok ls" "key_ok k" "key_ok k'"
  shows "find_line k' c (change_lines k b ls) =
    (if k' = k then if b \<or> c then find_line k True ls else None else find_line k' c ls)"
  using assms
proof (induction ls)
  case Nil
  then show ?case by (simp add: change_lines_def)
next
  case (Cons l ls)
  have l: "conf_line l" and ls: "conf_ok ls" using Cons.prems(1) by (auto simp: conf_ok_def)
  note IH = Cons.IH [OF ls assms(2,3)]
  show ?case
  proof (cases "names k (body l)")
    case True
    have nc: "\<not> is_comment (body l)" using names_body assms(2) True by blast
    note cl = conf_line_body [OF l assms(2) True]
    have other: "\<not> names k' (body l)" if "k' \<noteq> k" using names_inj [OF assms(3,2) _ True] that by blast
    note eqs = change_lines_def change_line_conf [OF l] find_line_conf [OF cl(1)] find_line_conf [OF cl(2)]
      find_line_conf [OF l] body_comment body_plain [OF nc]
    show ?thesis using IH True nc other by (cases "k' = k"; cases b; cases c) (simp_all add: eqs del: find_line.simps)
  next
    case False
    with IH show ?thesis by (auto simp: change_lines_def change_line_conf [OF l] find_line_conf [OF l] simp del: find_line.simps)
  qed
qed


lemma end_prefix:
  assumes "take 3 (k @ CHR ''='' # q) = ''END''"
  shows "prefix ''END'' k"
proof (cases "length k < 3")
  case True
  then have "take 3 (k @ CHR ''='' # q) ! length k = CHR ''=''" by (simp add: nth_append)
  moreover have "length k < length (take 3 (k @ CHR ''='' # q))" using True by simp
  ultimately have "CHR ''='' \<in> set (take 3 (k @ CHR ''='' # q))" by (metis nth_mem)
  with assms show ?thesis by simp
next
  case False
  then have "take 3 k = ''END''" using assms by simp
  then show ?thesis by (metis take_is_prefix)
qed

lemma end_mark: "key_ok k \<Longrightarrow> take 3 p = ''END'' \<Longrightarrow> \<not> names k p"
  by (auto simp: names_def prefix_def key_ok_def dest!: end_prefix)

lemma cfg_line_no_end:
  assumes "key_ok k" "val_ok k v"
  shows "take 3 (drop 0 (cfg_line k v)) \<noteq> ''END''" "take 3 (drop 1 (cfg_line k v)) \<noteq> ''END''"
proof -
  obtain c k1 where k: "k = c # k1" using assms(1) by (cases k) (auto simp: key_ok_def)
  have "\<not> prefix ''END'' k" "\<not> prefix ''END'' k1" using assms(1) k by (auto simp: key_ok_def)
  then show "take 3 (drop 0 (cfg_line k v)) \<noteq> ''END''" "take 3 (drop 1 (cfg_line k v)) \<noteq> ''END''"
    unfolding cfg_line_conf(1) [OF assms]
    using end_prefix [of k "v @ [NL]"] end_prefix [of k1 "v @ [NL]"] k by auto
qed

text \<open>Lines that do not concern a parameter.\<close>

lemma find_line_skip:
  assumes "\<forall>l\<in>set ms. conf_line l \<and> \<not> names k (body l)"
  shows "find_line k c (ms @ ls) = find_line k c ls"
  using assms by (induction ms) (simp_all add: find_line_conf del: find_line.simps)

lemma write_lines_conf:
  assumes "conf_line l" "key_ok k" "val_ok k v"
  shows "write_lines k v ini res (l # ls) =
    (if ini \<and> \<not> (names k (body l) \<and> \<not> res) \<and> take 3 (body l) = ''END'' then ([], res, ls)
     else case write_lines k v ini (res \<or> names k (body l)) ls of
       (out, r, rest) \<Rightarrow> ((if names k (body l) \<and> \<not> res then cfg_line k v else l) # out, r, rest))"
proof -
  have o: "drop (if is_comment l then 1 else 0) l = body l" by (simp add: body_def drop_Suc)
  have "take 3 (drop (if is_comment l then 1 else 0) (cfg_line k v)) \<noteq> ''END''"
    using cfg_line_no_end [OF assms(2,3)] by simp
  then show ?thesis
    by (cases "names k (body l)"; cases res) (simp_all add: Let_def conf_line_cstr [OF assms(1)] o)
qed

lemma write_lines_ok:
  assumes "conf_ok ls" "key_ok k" "val_ok k v" "write_lines k v ini res ls = (out, res', rest)"
  shows "conf_ok out \<and> conf_ok rest \<and> (\<not> ini \<longrightarrow> rest = [])"
  using assms
proof (induction ls arbitrary: res out res' rest)
  case Nil
  then show ?case by (simp add: conf_ok_def)
next
  case (Cons l ls)
  have l: "conf_line l" and ls: "conf_ok ls" using Cons.prems(1) by (auto simp: conf_ok_def)
  show ?case
    using Cons.prems(4) Cons.IH [OF ls assms(2,3)] ls l cfg_line_conf(2) [OF assms(2,3)]
    unfolding write_lines_conf [OF l assms(2,3)]
    by (fastforce simp: conf_ok_def split: if_splits prod.splits)
qed

lemma write_lines_find_same:
  assumes "conf_ok ls" "key_ok k" "val_ok k v" "write_lines k v ini False ls = (out, res', rest)"
  shows "find_line k c (out @ x) = (if res' then Some (k @ ''='' @ v) else find_line k c x)"
  using assms
proof (induction ls arbitrary: out res' rest)
  case Nil
  then show ?case by simp
next
  case (Cons l ls)
  have l: "conf_line l" and ls: "conf_ok ls" using Cons.prems(1) by (auto simp: conf_ok_def)
  note cf = cfg_line_conf [OF assms(2,3)]
  have n: "names k (cfg_line k v)" by (simp add: cf(1) names_def)
  have "fst (snd (write_lines k v ini True ys))" for ys by (induction ys) (auto simp: Let_def split: prod.splits)
  then have hits: "write_lines k v ini True ys \<noteq> (o1, False, r1)" for o1 r1 ys by (metis fst_conv snd_conv)
  show ?case
    using Cons.prems(4) Cons.IH [OF ls assms(2,3)] hits n cf(3,5)
    unfolding write_lines_conf [OF l assms(2,3)]
    by (auto simp: find_line_conf [OF cf(2)] find_line_conf [OF l] body_plain [OF cf(3)] simp del: find_line.simps
        split: if_splits prod.splits)
qed

lemma write_lines_find_other:
  assumes "conf_ok ls" "key_ok k" "val_ok k v" "write_lines k v ini res ls = (out, res', rest)"
    "key_ok k'" "k' \<noteq> k" "\<forall>l\<in>set ms. conf_line l \<and> \<not> names k' (body l)"
  shows "find_line k' c (out @ ms @ rest) = find_line k' c ls"
  using assms
proof (induction ls arbitrary: res out res' rest)
  case Nil
  then show ?case using find_line_skip [of ms k' c "[]"] by simp
next
  case (Cons l ls)
  have l: "conf_line l" and ls: "conf_ok ls" using Cons.prems(1) by (auto simp: conf_ok_def)
  note cf = cfg_line_conf [OF assms(2,3)]
  have "names k (cfg_line k v)" by (simp add: cf(1) names_def)
  then have n: "\<not> names k' (cfg_line k v)" using names_inj [OF assms(2,5)] assms(6) by blast
  have n': "\<not> names k' (body l)" if "names k (body l)" using names_inj [OF assms(2,5) that] assms(6) by blast
  have e: "\<not> names k' (body l)" if "take 3 (body l) = ''END''" using end_mark [OF assms(5) that] .
  show ?case
  proof (cases "ini \<and> \<not> (names k (body l) \<and> \<not> res) \<and> take 3 (body l) = ''END''")
    case True
    then have "out = []" "rest = ls" using Cons.prems(4) by (simp_all add: write_lines_conf [OF l assms(2,3)] del: write_lines.simps)
    with True e find_line_skip [OF assms(7)] show ?thesis by (simp add: find_line_conf [OF l] del: find_line.simps)
  next
    case False
    with Cons.prems(4) obtain out1 where o: "out = (if names k (body l) \<and> \<not> res then cfg_line k v else l) # out1"
      "write_lines k v ini (res \<or> names k (body l)) ls = (out1, res', rest)"
      by (auto simp: write_lines_conf [OF l assms(2,3)] simp del: write_lines.simps split: prod.splits)
    from Cons.IH [OF ls assms(2,3) o(2) assms(5-7)] n n' show ?thesis
      by (auto simp: o(1) find_line_conf [OF cf(2)] find_line_conf [OF l] body_plain [OF cf(3)] simp del: find_line.simps)
  qed
qed

lemma end_line_conf: "conf_line (''END'' @ [NL])" "body (''END'' @ [NL]) = ''END'' @ [NL]"
  by (auto simp: conf_line_def ok_line_def body_def is_comment_def NL_def NUL_def
      intro: exI [of _ "''END''"])

lemma map_cstr_conf: "conf_ok ls \<Longrightarrow> map cstr ls = ls"
  by (simp add: conf_ok_def conf_line_cstr map_idI)

lemma put_lines_ok:
  assumes "conf_ok ls" "key_ok k" "val_ok k v"
  shows "conf_ok (put_lines k v ini ls)"
proof -
  obtain out res rest where w: "write_lines k v ini False ls = (out, res, rest)" by (cases "write_lines k v ini False ls")
  show ?thesis
    using write_lines_ok [OF assms w] cfg_line_conf(2) [OF assms(2,3)] end_line_conf(1)
    by (auto simp: put_lines_def w conf_ok_def conf_line_cstr)
qed

lemma find_put:
  assumes "conf_ok ls" "key_ok k" "val_ok k v" "key_ok k'"
  shows "find_line k' c (put_lines k v ini ls) = (if k' = k then Some (k @ ''='' @ v) else find_line k' c ls)"
proof -
  obtain out res rest where w: "write_lines k v ini False ls = (out, res, rest)" by (cases "write_lines k v ini False ls")
  note cf = cfg_line_conf [OF assms(2,3)]
  have n: "names k (cfg_line k v)" by (simp add: cf(1) names_def)
  have rest: "conf_ok rest" "\<not> ini \<Longrightarrow> rest = []" using write_lines_ok [OF assms(1-3) w] by auto
  let ?ms = "(if res then [] else [cfg_line k v]) @ (if ini then [''END'' @ [NL]] else [])"
  have p: "put_lines k v ini ls = out @ ?ms @ rest" using rest by (auto simp: put_lines_def w map_cstr_conf)
  show ?thesis
  proof (cases "k' = k")
    case True
    then show ?thesis
      using write_lines_find_same [OF assms(1-3) w, of c "?ms @ rest"] n cf(3,5)
      by (auto simp: p find_line_conf [OF cf(2)] body_plain [OF cf(3)] simp del: find_line.simps)
  next
    case False
    have "\<not> names k' (cfg_line k v)" using names_inj [OF assms(2,4) n] False by blast
    then have "\<forall>l\<in>set ?ms. conf_line l \<and> \<not> names k' (body l)"
      using cf(2) end_line_conf end_mark [OF assms(4), of "''END'' @ [NL]"] by (auto simp: body_plain [OF cf(3)])
    from write_lines_find_other [OF assms(1-3) w assms(4) False this] False show ?thesis by (simp add: p)
  qed
qed

interpretation conf: param_file conf_ok key_ok val_ok get_param top_param "\<lambda>k v. put_lines k v ini" change_lines for ini
proof
  fix f k v b k'
  show "conf_ok f \<Longrightarrow> key_ok k \<Longrightarrow> val_ok k v \<Longrightarrow> conf_ok (put_lines k v ini f)" by (rule put_lines_ok)
  show "conf_ok f \<Longrightarrow> key_ok k \<Longrightarrow> conf_ok (change_lines k b f)" by (rule conf_ok_change)
  show "conf_ok f \<Longrightarrow> key_ok k \<Longrightarrow> val_ok k v \<Longrightarrow> key_ok k' \<Longrightarrow>
      get_param k' (put_lines k v ini f) = (if k' = k then Some v else get_param k' f)"
    by (simp add: get_param_def find_put)
  show "conf_ok f \<Longrightarrow> key_ok k \<Longrightarrow> val_ok k v \<Longrightarrow> key_ok k' \<Longrightarrow>
      top_param k' (put_lines k v ini f) = (if k' = k then Some v else top_param k' f)"
    by (simp add: top_param_def find_put)
  show "conf_ok f \<Longrightarrow> key_ok k \<Longrightarrow> key_ok k' \<Longrightarrow>
      get_param k' (change_lines k b f) = (if k' = k then if b then top_param k f else None else get_param k' f)"
    by (simp add: get_param_def top_param_def find_change)
  show "conf_ok f \<Longrightarrow> key_ok k \<Longrightarrow> key_ok k' \<Longrightarrow> top_param k' (change_lines k b f) = top_param k' f"
    by (simp add: top_param_def find_change)
qed

end
