(* ===== verification/Sap_Correct.thy ===== *)
theory Sap_Correct
  imports Sap_File
begin

text \<open>
  The parameter operations of \<^verbatim>\<open>qsap_api.c\<close> on well-formed files: reading what was written,
  and the security mode, both through the interface of a parameter file.
\<close>

definition io_ok :: "sap_io \<Rightarrow> bool" where
  "io_ok io \<longleftrightarrow> open_ok io \<and> rename_ok io \<and> chmod_ok io \<and> chown_ok io"

definition holds :: "sap_st \<Rightarrow> string \<Rightarrow> string list \<Rightarrow> bool" where
  "holds s p ls \<longleftrightarrow> files s p = Some (concat ls) \<and> conf_ok ls"

definition all_commands :: "Command set" where
  "all_commands = set cmd_list \<union> set qsap_str"

lemma command_key: "cmd \<in> all_commands \<Longrightarrow> key_ok (name cmd)"
proof -
  have "list_all (\<lambda>c. key_ok (name c)) cmd_list" "list_all (\<lambda>c. key_ok (name c)) qsap_str"
    by (simp_all add: cmd_list_def qsap_str_def key_ok_def NL_def NUL_def)
  then show "cmd \<in> all_commands \<Longrightarrow> key_ok (name cmd)" by (auto simp: all_commands_def list_all_iff)
qed

lemma fgets_conf: "conf_ok ls \<Longrightarrow> fgets_lines MAX_CONF_LINE_LEN (concat ls) = ls"
  by (rule fgets_lines_ok [where k = 155]) (auto simp: conf_ok_def conf_line_def MAX_CONF_LINE_LEN_def)

lemma tmp_name_short: "length p < 156 \<Longrightarrow> tmp_name p = p @ ''~''"
  by (simp add: tmp_name_def scn_def qsap_scnprintf_def MAX_CONF_LINE_LEN_def)

lemma write_cfg_ok:
  assumes "holds s p ls" "io_ok (e (io_pos s))" "length p < 156" "key_ok (name cmd)" "val_ok (name cmd) v"
  obtains s' where "qsap_write_cfg e p cmd v ini r s = (eSUCCESS, qsap_scnprintf SUCCESS r, s')"
    "holds s' p (put_lines (name cmd) v ini ls)" "\<And>q. q \<noteq> p \<Longrightarrow> q \<noteq> p @ ''~'' \<Longrightarrow> files s' q = files s q"
    "gIniUpdated s' = (ini \<or> gIniUpdated s)" "io_pos s' = Suc (io_pos s)"
proof -
  have "qsap_write_cfg e p cmd v ini r s = (eSUCCESS, qsap_scnprintf SUCCESS r, snd (snd (qsap_write_cfg e p cmd v ini r s)))"
    and "holds (snd (snd (qsap_write_cfg e p cmd v ini r s))) p (put_lines (name cmd) v ini ls)"
    using assms put_lines_ok [of ls "name cmd" v ini]
    by (simp_all add: qsap_write_cfg_def holds_def io_ok_def Let_def tmp_name_short c_put_def set_owner_def
        c_unlink_def c_rename_def fgets_conf)
  moreover have "q \<noteq> p \<Longrightarrow> q \<noteq> p @ ''~'' \<Longrightarrow> files (snd (snd (qsap_write_cfg e p cmd v ini r s))) q = files s q" for q
    using assms by (simp add: qsap_write_cfg_def holds_def io_ok_def Let_def tmp_name_short c_put_def set_owner_def
        c_unlink_def c_rename_def)
  moreover have "gIniUpdated (snd (snd (qsap_write_cfg e p cmd v ini r s))) = (ini \<or> gIniUpdated s)"
    "io_pos (snd (snd (qsap_write_cfg e p cmd v ini r s))) = Suc (io_pos s)"
    using assms by (simp_all add: qsap_write_cfg_def holds_def io_ok_def Let_def tmp_name_short c_put_def set_owner_def
        c_unlink_def c_rename_def)
  ultimately show thesis by (rule that)
qed

lemma change_cfg_ok:
  assumes "holds s p ls" "io_ok (e (io_pos s))" "length p < 156" "key_ok (name cmd)"
  obtains s' where "qsap_change_cfg e p cmd b s = (0, s')"
    "holds s' p (change_lines (name cmd) b ls)" "\<And>q. q \<noteq> p \<Longrightarrow> q \<noteq> p @ ''~'' \<Longrightarrow> files s' q = files s q"
proof -
  have "qsap_change_cfg e p cmd b s = (0, snd (qsap_change_cfg e p cmd b s))"
    "holds (snd (qsap_change_cfg e p cmd b s)) p (change_lines (name cmd) b ls)"
    using assms conf_ok_change [of ls "name cmd" b]
    by (simp_all add: qsap_change_cfg_def holds_def io_ok_def Let_def tmp_name_short c_put_def set_owner_def
        c_unlink_def c_rename_def fgets_conf change_lines_def)
  moreover have "q \<noteq> p \<Longrightarrow> q \<noteq> p @ ''~'' \<Longrightarrow> files (snd (qsap_change_cfg e p cmd b s)) q = files s q" for q
    using assms by (simp add: qsap_change_cfg_def holds_def io_ok_def Let_def tmp_name_short c_put_def set_owner_def
        c_unlink_def c_rename_def)
  ultimately show thesis by (rule that)
qed

lemma read_cfg_cong:
  assumes "holds s p ls" "holds s' p ls'" "\<And>c. find_line (name cmd) c ls' = find_line (name cmd) c ls"
  shows "qsap_read_cfg p cmd var ign r s' = qsap_read_cfg p cmd var ign r s"
  using assms by (simp add: qsap_read_cfg_def holds_def fgets_conf)

text \<open>What a read reports, in terms of the interface.\<close>

lemma find_line_names: "find_line k c ls = Some t \<Longrightarrow> \<exists>v. t = k @ ''='' @ v"
proof (induction ls)
  case (Cons l ls)
  have "\<exists>v. chop p = k @ ''='' @ v" if n: "names k p" for p
  proof -
    obtain q where q: "p = k @ CHR ''='' # q" using n by (auto simp: names_def elim: prefixE)
    let ?P = "\<lambda>c. c = CR \<or> c = NL"
    have "dropWhile ?P (rev q @ CHR ''='' # rev k) = dropWhile ?P (rev q) @ CHR ''='' # rev k"
      by (rule dropWhile_append3) (simp add: CR_def NL_def)
    then show ?thesis by (simp add: chop_def q)
  qed
  with Cons show ?case by (auto simp: Let_def split: if_splits)
qed simp

lemma find_get: "find_line k False ls = map_option (\<lambda>v. k @ ''='' @ v) (get_param k ls)"
  using find_line_names [of k False ls] by (cases "find_line k False ls") (auto simp: get_param_def)

lemma read_none:
  assumes "holds s p ls" "default_value cmd = None"
  shows "qsap_read_cfg p cmd None False r s =
    (case get_param (name cmd) ls of
       None \<Rightarrow> (eERR_CONFIG_PARAM_MISSING, qsap_scnprintf ERR_FEATURE_NOT_ENABLED r)
     | Some v \<Rightarrow> (eSUCCESS, qsap_scnprintf (SUCCESS @ '' '' @ name cmd @ ''='' @ v) r))"
  using assms
  by (simp add: qsap_read_cfg_def holds_def fgets_conf find_get read_default_def split: option.splits)

text \<open>
  C31. A parameter of either table that is written to a well-formed file, when all file
  operations succeed, is read back exactly as it was written, also when the file held it
  commented out or not at all; every other parameter of the tables is read as before, with
  every way of reading, and no other file but the temporary one changes.
\<close>

theorem cfg_write_read:
  assumes "cmd \<in> all_commands" "val_ok (name cmd) v" "holds s p ls" "io_ok (e (io_pos s))" "length p < 156"
  shows "\<exists>s'. qsap_write_cfg e p cmd v ini (b, 8) s = (eSUCCESS, (''success'', 7), s') \<and>
    (\<forall>b' n ign. 164 \<le> n \<longrightarrow> qsap_read_cfg p cmd None ign (b', n) s' =
      (eSUCCESS, ''success '' @ name cmd @ ''='' @ v, 9 + length (name cmd) + length v)) \<and>
    (\<forall>cmd' var ign r. cmd' \<in> all_commands \<longrightarrow> name cmd' \<noteq> name cmd \<longrightarrow>
      qsap_read_cfg p cmd' var ign r s' = qsap_read_cfg p cmd' var ign r s) \<and>
    (\<forall>q. q \<noteq> p \<longrightarrow> q \<noteq> p @ ''~'' \<longrightarrow> files s' q = files s q)"
proof -
  note key = command_key [OF assms(1)]
  have ok: "conf_ok ls" using assms(3) by (simp add: holds_def)
  obtain s' where s': "qsap_write_cfg e p cmd v ini (b, 8) s = (eSUCCESS, qsap_scnprintf SUCCESS (b, 8), s')"
    "holds s' p (put_lines (name cmd) v ini ls)" "\<And>q. q \<noteq> p \<Longrightarrow> q \<noteq> p @ ''~'' \<Longrightarrow> files s' q = files s q"
    using write_cfg_ok [where e = e, OF assms(3,4,5) key assms(2)] by blast
  note find = find_put [OF ok key assms(2)]
  have "qsap_read_cfg p cmd None ign (b', n) s' =
      (eSUCCESS, ''success '' @ name cmd @ ''='' @ v, 9 + length (name cmd) + length v)" if "164 \<le> n" for b' n ign
    using s'(2) that assms(2)
    by (simp add: qsap_read_cfg_def holds_def fgets_conf find [OF key] qsap_scnprintf_def SUCCESS_def val_ok_def)
  moreover have "qsap_read_cfg p cmd' var ign r s' = qsap_read_cfg p cmd' var ign r s"
    if "cmd' \<in> all_commands" "name cmd' \<noteq> name cmd" for cmd' var ign r
    using read_cfg_cong [OF assms(3) s'(2)] find [OF command_key [OF that(1)]] that(2) by simp
  ultimately show ?thesis using s'(1,3) by (auto simp: qsap_scnprintf_def SUCCESS_def)
qed


definition demo_conf :: "string list" where
  "demo_conf = [''interface=wlan0'' @ [NL], ''#wep_default_key=0'' @ [NL], ''wpa=2'' @ [NL], ''#channel=6'' @ [NL]]"

definition demo_sap :: sap_st where
  "demo_sap = \<lparr>files = [''c'' \<mapsto> concat demo_conf], gIniUpdated = False, io_pos = 0\<rparr>"

definition good_io :: sap_io where
  "good_io = \<lparr>open_ok = True, reopen_ok = True, rename_ok = True, chmod_ok = True, chown_ok = True\<rparr>"

lemma demo_holds: "holds demo_sap ''c'' demo_conf"
proof -
  have line: "conf_line (b @ [NL])" if "NL \<notin> set b" "NUL \<notin> set b" "length b \<le> 100" for b
    using that by (auto simp: conf_line_def ok_line_def body_def)
  have "\<forall>l\<in>set demo_conf. conf_line l"
    unfolding demo_conf_def list.set ball_simps by (intro conjI line) (simp_all add: NL_def NUL_def)
  then show ?thesis by (simp add: holds_def demo_sap_def conf_ok_def)
qed

theorem cfg_write_read_witness:
  "\<exists>s'. qsap_write_cfg (\<lambda>_. good_io) ''c'' (cmd_list ! 2) ''11'' False ([], 8) demo_sap = (eSUCCESS, (''success'', 7), s') \<and>
    qsap_read_cfg ''c'' (cmd_list ! 2) None False ([], 200) s' = (eSUCCESS, ''success channel=11'', 18)"
proof -
  have c: "cmd_list ! 2 \<in> all_commands" "name (cmd_list ! 2) = ''channel''" by (simp_all add: all_commands_def cmd_list_def)
  have "val_ok (name (cmd_list ! 2)) ''11''" by (simp add: c val_ok_def NL_def NUL_def CR_def)
  from cfg_write_read [OF c(1) this demo_holds, of "\<lambda>_. good_io" False "[]"] show ?thesis
    by (auto simp: io_ok_def good_io_def c(2) dest!: spec [of _ "[]"] spec [of _ "200 :: nat"])
qed

subsection \<open>The security mode\<close>

lemma change_all_ok:
  assumes "holds s p ls" "\<And>n. io_ok (e n)" "length p < 156" "\<forall>(c, b)\<in>set cs. key_ok (name c)"
  shows "\<exists>s'. change_all e p cs s = (eSUCCESS, s') \<and>
    holds s' p (conf.changes (map (\<lambda>(c, b). (name c, b)) cs) ls) \<and>
    (\<forall>q. q \<noteq> p \<longrightarrow> q \<noteq> p @ ''~'' \<longrightarrow> files s' q = files s q)"
  using assms(1,4)
proof (induction cs arbitrary: s ls)
  case Nil
  then show ?case by (simp add: conf.changes_def)
next
  case (Cons c cs)
  obtain cmd b where c: "c = (cmd, b)" by (cases c)
  obtain s1 where s1: "qsap_change_cfg e p cmd b s = (0, s1)" "holds s1 p (change_lines (name cmd) b ls)"
    "\<And>q. q \<noteq> p \<Longrightarrow> q \<noteq> p @ ''~'' \<Longrightarrow> files s1 q = files s q"
    using change_cfg_ok [where e = e and b = b and cmd = cmd, OF Cons.prems(1) assms(2,3)] Cons.prems(2) c by auto
  from Cons.IH [OF s1(2)] Cons.prems(2) c s1(1,3) show ?case
    by (auto simp: conf.changes_def sap_rc_defs)
qed

lemma security_changes_keys: "\<forall>(c, b)\<in>set (security_changes m). c \<in> all_commands"
  by (simp add: security_changes_def Let_def all_commands_def cmd_list_def qsap_str_def eCMD_DEFAULT_KEY_def
      eCMD_WEP_KEY0_def eCMD_WEP_KEY1_def eCMD_WEP_KEY2_def eCMD_WEP_KEY3_def eCMD_PASSPHRASE_def
      eCMD_WPA_PAIRWISE_def eCMD_RSN_PAIRWISE_def STR_WPA_def)

lemma sec_commands: "name (cmd_list ! eCMD_DEFAULT_KEY) = ''wep_default_key''"
  "default_value (cmd_list ! eCMD_DEFAULT_KEY) = None" "name (qsap_str ! STR_WPA) = ''wpa''"
  "default_value (qsap_str ! STR_WPA) = None" "name (cmd_list ! eCMD_SEC_MODE) = ''security_mode''"
  "cmd_list ! eCMD_DEFAULT_KEY \<in> all_commands" "qsap_str ! STR_WPA \<in> all_commands"
  by (simp_all add: cmd_list_def qsap_str_def eCMD_DEFAULT_KEY_def eCMD_SEC_MODE_def STR_WPA_def all_commands_def)


definition security_lines :: "nat \<Rightarrow> string list \<Rightarrow> string list" where
  "security_lines m ls =
     conf.changes (map (\<lambda>(c, b). (name c, b)) (security_changes m))
       (if m = SEC_MODE_NONE \<or> m = SEC_MODE_WEP then ls
        else put_lines ''wpa'' (fmt_d (int (wpa_in_conf_file m))) False ls)"

lemma mode_cases:
  assumes "m < SEC_MODE_INVALID"
  obtains "m = SEC_MODE_NONE" | "m = SEC_MODE_WEP" | "m = SEC_MODE_WPA_PSK" | "m = SEC_MODE_WPA2_PSK" | "m = SEC_MODE_WPA_WPA2_PSK"
  using assms by (fastforce simp: sec_mode_defs less_Suc_eq numeral_eq_Suc)

lemmas command_indices = eCMD_DEFAULT_KEY_def
      eCMD_WEP_KEY0_def eCMD_WEP_KEY1_def eCMD_WEP_KEY2_def eCMD_WEP_KEY3_def eCMD_PASSPHRASE_def
      eCMD_WPA_PAIRWISE_def eCMD_RSN_PAIRWISE_def STR_WPA_def

lemma security_changes_names:
  assumes "m < SEC_MODE_INVALID"
  shows "map_of (rev (map (\<lambda>(c, b). (name c, b)) (security_changes m))) ''wep_default_key'' = Some (m = SEC_MODE_WEP)"
    "map_of (rev (map (\<lambda>(c, b). (name c, b)) (security_changes m))) ''wpa'' = Some (m \<noteq> SEC_MODE_NONE \<and> m \<noteq> SEC_MODE_WEP)"
  using assms
  by (cases rule: mode_cases; simp add: security_changes_def Let_def cmd_list_def qsap_str_def command_indices sec_mode_defs)+

lemma mode_digits: "fmt_d 0 = ''0''" "fmt_d 1 = ''1''" "fmt_d 2 = ''2''" "fmt_d 3 = ''3''" "fmt_d 4 = ''4''"
  by code_simp+

lemma wpa_conf_digits: "fmt_d (int (wpa_in_conf_file m)) =
    (if m = SEC_MODE_WPA_PSK then ''1'' else if m = SEC_MODE_WPA2_PSK then ''2'' else ''3'')"
  by (simp add: wpa_in_conf_file_def mode_digits)

lemma wpa_digits: "fmt_d (int (wpa_in_conf_file m)) \<in> {''1'', ''2'', ''3''}"
  by (simp add: wpa_conf_digits)

lemma wpa_val_ok: "val_ok ''wpa'' (fmt_d (int (wpa_in_conf_file m)))"
  using wpa_digits [of m] by (auto simp: val_ok_def NL_def NUL_def CR_def)

lemma wpa_keys: "key_ok ''wpa''" "key_ok ''wep_default_key''"
  by (simp_all add: key_ok_def NL_def NUL_def)

lemma security_lines_get:
  assumes "conf_ok ls" "m < SEC_MODE_INVALID"
  shows "conf_ok (security_lines m ls)"
    "get_param ''wep_default_key'' (security_lines m ls) = (if m = SEC_MODE_WEP then top_param ''wep_default_key'' ls else None)"
    "get_param ''wpa'' (security_lines m ls) =
      (if m = SEC_MODE_NONE \<or> m = SEC_MODE_WEP then None else Some (fmt_d (int (wpa_in_conf_file m))))"
proof -
  let ?f = "if m = SEC_MODE_NONE \<or> m = SEC_MODE_WEP then ls
        else put_lines ''wpa'' (fmt_d (int (wpa_in_conf_file m))) False ls"
  have f: "conf_ok ?f" using assms(1) put_lines_ok [OF assms(1) wpa_keys(1) wpa_val_ok] by simp
  have ks: "\<forall>(k, b)\<in>set (map (\<lambda>(c, b). (name c, b)) (security_changes m)). key_ok k"
    using security_changes_keys [of m] command_key by auto
  note ch = conf.changes_effect [OF f ks]
  have top: "top_param ''wep_default_key'' ?f = top_param ''wep_default_key'' ls"
    "top_param ''wpa'' ?f = (if m = SEC_MODE_NONE \<or> m = SEC_MODE_WEP then top_param ''wpa'' ls
       else Some (fmt_d (int (wpa_in_conf_file m))))"
    using conf.top_put [OF assms(1) wpa_keys(1) wpa_val_ok] wpa_keys by simp_all
  show "conf_ok (security_lines m ls)" unfolding security_lines_def using ch(1) wpa_keys(1) .
  show "get_param ''wep_default_key'' (security_lines m ls) = (if m = SEC_MODE_WEP then top_param ''wep_default_key'' ls else None)"
    unfolding security_lines_def ch(3) [OF wpa_keys(2)] top security_changes_names [OF assms(2)] by simp
  show "get_param ''wpa'' (security_lines m ls) =
      (if m = SEC_MODE_NONE \<or> m = SEC_MODE_WEP then None else Some (fmt_d (int (wpa_in_conf_file m))))"
    unfolding security_lines_def ch(3) [OF wpa_keys(1)] top security_changes_names [OF assms(2)] by simp
qed

lemma set_mode_ok:
  assumes "holds s p ls" "\<And>n. io_ok (e n)" "length p < 156" "m < SEC_MODE_INVALID" "8 \<le> n"
  shows "\<exists>s'. qsap_set_security_mode e p m (b, n) s = ((''success'', 7), s') \<and> holds s' p (security_lines m ls) \<and>
    (\<forall>q. q \<noteq> p \<longrightarrow> q \<noteq> p @ ''~'' \<longrightarrow> files s' q = files s q)"
proof -
  have ks: "\<forall>(c, b)\<in>set (security_changes m). key_ok (name c)" using security_changes_keys [of m] command_key by auto
  have scn: "qsap_scnprintf SUCCESS (x, n) = (''success'', 7)" for x
    using assms(5) by (simp add: qsap_scnprintf_def SUCCESS_def)
  show ?thesis
  proof (cases "m = SEC_MODE_NONE \<or> m = SEC_MODE_WEP")
    case True
    obtain s1 where "change_all e p (security_changes m) s = (eSUCCESS, s1)" "holds s1 p (security_lines m ls)"
      "\<forall>q. q \<noteq> p \<longrightarrow> q \<noteq> p @ ''~'' \<longrightarrow> files s1 q = files s q"
      using change_all_ok [where e = e, OF assms(1-3) ks] True by (auto simp: security_lines_def)
    with True assms(4) scn show ?thesis by (auto simp: qsap_set_security_mode_def)
  next
    case False
    have d: "scn MAX_INT_STR (fmt_d (int (wpa_in_conf_file m))) = fmt_d (int (wpa_in_conf_file m))"
      using wpa_digits [of m] by (auto simp: scn_def qsap_scnprintf_def MAX_INT_STR_def)
    obtain s1 where s1: "qsap_write_cfg e p (qsap_str ! STR_WPA) (fmt_d (int (wpa_in_conf_file m))) False (b, n) s =
        (eSUCCESS, qsap_scnprintf SUCCESS (b, n), s1)"
      "holds s1 p (put_lines ''wpa'' (fmt_d (int (wpa_in_conf_file m))) False ls)"
      "\<And>q. q \<noteq> p \<Longrightarrow> q \<noteq> p @ ''~'' \<Longrightarrow> files s1 q = files s q"
      using write_cfg_ok [where e = e and cmd = "qsap_str ! STR_WPA" and ini = False, OF assms(1-3)] wpa_keys wpa_val_ok sec_commands
      by metis
    obtain s2 where "change_all e p (security_changes m) s1 = (eSUCCESS, s2)" "holds s2 p (security_lines m ls)"
      "\<forall>q. q \<noteq> p \<longrightarrow> q \<noteq> p @ ''~'' \<longrightarrow> files s2 q = files s1 q"
      using change_all_ok [where e = e, OF s1(2) assms(2,3) ks] False by (auto simp: security_lines_def)
    with False assms(4) d s1 scn show ?thesis
      by (auto simp: qsap_set_security_mode_def)
  qed
qed

lemma skip_to_value_eq:
  assumes "CHR ''='' \<notin> set pre" "length pre + length v < 2 ^ 31"
  shows "skip_to_value (pre @ CHR ''='' # v) (of_nat (Suc (length pre + length v))) = (v, of_nat (length v))"
  using assms
proof (induction pre)
  case Nil
  have "(of_nat (Suc (length v)) :: u32) \<noteq> 0" using Nil.prems(2) by (auto simp: word_of_nat_eq_0_iff simp del: of_nat_Suc dest!: dvd_imp_le)
  then show ?case by simp
next
  case (Cons c pre)
  have "(of_nat (Suc (Suc (length pre + length v))) :: u32) \<noteq> 0"
    using Cons.prems(2) by (auto simp: word_of_nat_eq_0_iff simp del: of_nat_Suc dest!: dvd_imp_le)
  with Cons show ?case by auto
qed

lemma read_mode:
  assumes "holds s p ls" "164 \<le> n"
    "get_param ''wpa'' ls = None \<or> get_param ''wpa'' ls = Some ''1'' \<or> get_param ''wpa'' ls = Some ''2'' \<or> get_param ''wpa'' ls = Some ''3''"
  shows "fst (qsap_read_security_mode p (b, n) s) =
    (case (get_param ''wep_default_key'' ls, get_param ''wpa'' ls) of
       (None, None) \<Rightarrow> SEC_MODE_NONE | (Some _, None) \<Rightarrow> SEC_MODE_WEP | (Some _, Some _) \<Rightarrow> SEC_MODE_INVALID
     | (None, Some v) \<Rightarrow> if v = ''1'' then SEC_MODE_WPA_PSK else if v = ''2'' then SEC_MODE_WPA2_PSK else SEC_MODE_WPA_WPA2_PSK)"
proof -
  let ?r1 = "snd (qsap_read_cfg p (cmd_list ! eCMD_DEFAULT_KEY) None False (b, n) s)"
  let ?r2 = "snd (qsap_read_cfg p (qsap_str ! STR_WPA) None False (fst ?r1, n) s)"
  have r1: "fst ?r1 = ERR_FEATURE_NOT_ENABLED \<longleftrightarrow> get_param ''wep_default_key'' ls = None"
    using assms(2) by (auto simp: read_none [OF assms(1)] sec_commands qsap_scnprintf_def ERR_FEATURE_NOT_ENABLED_def
        SUCCESS_def take_Cons' split: option.splits)
  have r2: "?r2 = (case get_param ''wpa'' ls of None \<Rightarrow> (ERR_FEATURE_NOT_ENABLED, 27) | Some v \<Rightarrow> (''success wpa='' @ v, 13))"
    using assms(2,3) by (auto simp: read_none [OF assms(1)] sec_commands qsap_scnprintf_def ERR_FEATURE_NOT_ENABLED_def
        SUCCESS_def)
  have ne: "(''success wpa='' @ v) \<noteq> ERR_FEATURE_NOT_ENABLED" for v by (simp add: ERR_FEATURE_NOT_ENABLED_def)
  have w: "wpa_mode (''success wpa='' @ [c], 13) = (if c = CHR ''1'' then SEC_MODE_WPA_PSK
      else if c = CHR ''2'' then SEC_MODE_WPA2_PSK else if c = CHR ''3'' then SEC_MODE_WPA_WPA2_PSK else SEC_MODE_INVALID)" for c
    using skip_to_value_eq [of "''success wpa''" "[c]"] by (simp add: wpa_mode_def del: skip_to_value.simps)
  have w1: "wpa_mode (''success wpa='' @ ''1'', 13) = SEC_MODE_WPA_PSK" "wpa_mode (''success wpa='' @ ''2'', 13) = SEC_MODE_WPA2_PSK"
    "wpa_mode (''success wpa='' @ ''3'', 13) = SEC_MODE_WPA_WPA2_PSK"
    by (simp_all only: w char.inject if_True if_False HOL.simp_thms)
  show ?thesis
    using assms(3) by (cases "get_param ''wep_default_key'' ls"; elim disjE)
      (simp_all add: qsap_read_security_mode_def Let_def r1 r2 ne w1 del: append.simps)
qed


lemma read_mode_response:
  assumes "fst (qsap_read_security_mode p (b, n) s) = m" "m < SEC_MODE_INVALID" "24 \<le> n"
  shows "qsap_read_security_mode p (b, n) s = (m, ''success security_mode='' @ fmt_d (int m), 23)"
proof -
  have "m = 0 \<or> m = 1 \<or> m = 2 \<or> m = 3 \<or> m = 4" using assms(2) by (auto simp: sec_mode_defs)
  then have "length (fmt_d (int m)) = 1" by (auto simp: mode_digits)
  with assms(3) have "qsap_scnprintf (SUCCESS @ '' '' @ ''security_mode'' @ ''='' @ fmt_d (int m)) (x, n) =
      (''success security_mode='' @ fmt_d (int m), 23)" for x
    by (simp add: qsap_scnprintf_def SUCCESS_def)
  with assms(1,2) show ?thesis
    by (auto simp: qsap_read_security_mode_def Let_def sec_commands split: if_splits)
qed

lemma read_commented:
  assumes "holds s p ls" "default_value cmd = None"
  shows "fst (qsap_read_cfg p cmd None True r s) = eSUCCESS \<longleftrightarrow> top_param (name cmd) ls \<noteq> None"
  using assms by (simp add: qsap_read_cfg_def holds_def fgets_conf top_param_def read_default_def sap_rc_defs split: option.splits)

text \<open>
  C32. Setting any of the five security modes on a well-formed file, when all file operations
  succeed, reports success, and the mode read afterwards is the one that was set, with one
  exception: WEP on a file without a default key line, not even a commented one, reports
  success and leaves the access point without security.
\<close>

theorem security_mode_set_read:
  assumes "holds s p ls" "\<And>n. io_ok (e n)" "length p < 156" "m < SEC_MODE_INVALID" "8 \<le> n" "164 \<le> n'"
  shows "\<exists>s'. qsap_set_security_mode e p m (b, n) s = ((''success'', 7), s') \<and>
    (let m' = (if m = SEC_MODE_WEP \<and> fst (qsap_read_cfg p (cmd_list ! eCMD_DEFAULT_KEY) None True r s) \<noteq> eSUCCESS
               then SEC_MODE_NONE else m)
     in qsap_read_security_mode p (b', n') s' = (m', ''success security_mode='' @ fmt_d (int m'), 23))"
proof -
  have ok: "conf_ok ls" using assms(1) by (simp add: holds_def)
  obtain s' where s': "qsap_set_security_mode e p m (b, n) s = ((''success'', 7), s')" "holds s' p (security_lines m ls)"
    using set_mode_ok [where e = e, OF assms(1-5)] by blast
  let ?m = "if m = SEC_MODE_WEP \<and> top_param ''wep_default_key'' ls = None then SEC_MODE_NONE else m"
  have top: "fst (qsap_read_cfg p (cmd_list ! eCMD_DEFAULT_KEY) None True r s) \<noteq> eSUCCESS \<longleftrightarrow>
      top_param ''wep_default_key'' ls = None"
    using read_commented [OF assms(1) sec_commands(2)] by (simp add: sec_commands)
  note get = security_lines_get [OF ok assms(4)]
  have digits: "get_param ''wpa'' (security_lines m ls) = None \<or> get_param ''wpa'' (security_lines m ls) = Some ''1'' \<or>
      get_param ''wpa'' (security_lines m ls) = Some ''2'' \<or> get_param ''wpa'' (security_lines m ls) = Some ''3''"
    by (simp add: get wpa_conf_digits)
  have "fst (qsap_read_security_mode p (b', n') s') = ?m"
    unfolding read_mode [OF s'(2) assms(6) digits] get wpa_conf_digits
    using assms(4) by (cases rule: mode_cases) (auto simp: sec_mode_defs split: option.splits)
  moreover have "?m < SEC_MODE_INVALID" using assms(4) by (auto simp: sec_mode_defs)
  ultimately have "qsap_read_security_mode p (b', n') s' = (?m, ''success security_mode='' @ fmt_d (int ?m), 23)"
    using assms(6) by (intro read_mode_response) auto
  then show ?thesis using s'(1) unfolding Let_def top by blast
qed

theorem security_mode_set_read_witness:
  "\<exists>s'. qsap_set_security_mode (\<lambda>_. good_io) ''c'' SEC_MODE_WEP ([], 255) demo_sap = ((''success'', 7), s') \<and>
    qsap_read_security_mode ''c'' ([], 255) s' = (SEC_MODE_WEP, ''success security_mode=1'', 23)"
proof -
  have "fst (qsap_read_cfg ''c'' (cmd_list ! eCMD_DEFAULT_KEY) None True ([], 9) demo_sap) = eSUCCESS"
    unfolding read_commented [OF demo_holds sec_commands(2)] sec_commands(1) top_param_def
    by (simp add: demo_conf_def cstr_def NL_def NUL_def Let_def is_comment_def names_def)
  with security_mode_set_read [OF demo_holds, of "\<lambda>_. good_io" SEC_MODE_WEP 255 255 "[]" "([], 9)" "[]"]
  show ?thesis by (auto simp: io_ok_def good_io_def sec_mode_defs mode_digits)
qed

end
