(* ===== verification/Sap_Lists.thy ===== *)
theory Sap_Lists
  imports Sap_Mac Sap_Correct
begin

text \<open>
  The MAC lists, WEP keys and command numbers of the soft access point: what the add and
  remove operations do to a list file, where the add operation leaves its argument, and that
  keys and command names are recognised.
\<close>

subsection \<open>Adding MAC addresses\<close>

lemma mac_token_word:
  assumes "\<forall>c\<in>set t. c \<noteq> CHR '' '' \<and> c \<noteq> NUL" "\<And>j. j < length t \<Longrightarrow> m (i + j) = t ! j" "length t = k"
  shows "mac_token k m i = (t, i + k)"
  using assms
proof (induction t arbitrary: i k)
  case (Cons c t)
  have "m i = c" using Cons.prems(2) [of 0] by simp
  moreover have "m (Suc i + j) = t ! j" if "j < length t" for j using Cons.prems(2) [of "Suc j"] that by simp
  ultimately show ?case using Cons by auto
qed simp

lemma mac_token_stop: "m i = CHR '' '' \<or> m i = NUL \<Longrightarrow> 0 < k \<Longrightarrow> mac_token k m i = ([], i)"
  by (cases k) auto

lemma valid_mac_chars:
  assumes "isValid_MAC_address t" "length t = MAC_ADDR_LEN"
  shows "\<forall>c\<in>set t. c \<noteq> CHR '' '' \<and> c \<noteq> NUL \<and> c \<noteq> NL \<and> c \<noteq> CHR ''#'' \<and> c \<noteq> CHR 0x09"
proof
  fix c assume "c \<in> set t"
  then obtain i where i: "i < MAC_ADDR_LEN" "t ! i = c" using assms(2) by (auto simp: in_set_conv_nth)
  have "\<forall>i\<in>set [0..<MAC_ADDR_LEN]. if i \<in> {2, 5, 8, 11, 14} then t ! i = CHR '':'' else isxdigit (t ! i)"
    using assms(1) unfolding isValid_MAC_address_def list_all_iff by blast
  moreover have "i \<in> set [0..<MAC_ADDR_LEN]" using i(1) by simp
  ultimately have "c = CHR '':'' \<or> isxdigit c" using i(2) by meson
  moreover have "\<not> isxdigit (CHR '' '')" "\<not> isxdigit NUL" "\<not> isxdigit NL" "\<not> isxdigit (CHR ''#'')" "\<not> isxdigit (CHR 0x09)"
    by code_simp+
  ultimately show "c \<noteq> CHR '' '' \<and> c \<noteq> NUL \<and> c \<noteq> NL \<and> c \<noteq> CHR ''#'' \<and> c \<noteq> CHR 0x09"
    by (auto simp: NUL_def NL_def)
qed

text \<open>The argument of the set request: addresses with single spaces between them.\<close>

fun join_macs :: "string list \<Rightarrow> string" where
  "join_macs [] = []"
| "join_macs [m] = m"
| "join_macs (m # ms) = m @ CHR '' '' # join_macs ms"

definition macs_ok :: "string list \<Rightarrow> bool" where
  "macs_ok ms \<longleftrightarrow> (\<forall>m\<in>set ms. isValid_MAC_address m \<and> length m = MAC_ADDR_LEN)"

lemma length_join: "macs_ok ms \<Longrightarrow> ms \<noteq> [] \<Longrightarrow> length (join_macs ms) = 18 * length ms - 1"
  by (induction ms rule: join_macs.induct) (auto simp: macs_ok_def MAC_ADDR_LEN_def)

lemma add_macs_join:
  assumes "macs_ok ms" "\<And>j. j < length (join_macs ms) \<Longrightarrow> m (i + j) = join_macs ms ! j"
    "m (i + length (join_macs ms)) = NUL" "0 \<le> n" "n < 15"
  shows "add_macs m i (int (length (join_macs ms))) n out =
    Some (out @ concat (map (\<lambda>t. t @ [NL]) (take (nat (15 - n)) ms)))"
  using assms
proof (induction ms arbitrary: i n out rule: join_macs.induct)
  case 1
  then show ?case by (subst add_macs.simps) simp
next
  case (2 t)
  then have t: "isValid_MAC_address t" "length t = MAC_ADDR_LEN" by (auto simp: macs_ok_def)
  have tok: "mac_token MAC_ADDR_LEN m i = (t, i + MAC_ADDR_LEN)"
    using valid_mac_chars [OF t] 2 t(2) by (intro mac_token_word) auto
  have stop: "add_macs m j l n' o' = Some o'" if "l \<le> 0" for j l n' o' using that by (subst add_macs.simps) simp
  have "take (nat (15 - n)) [t] = [t]" using 2 by (cases "nat (15 - n)") auto
  moreover have "0 < MAC_ADDR_LEN" by (simp add: MAC_ADDR_LEN_def)
  ultimately show ?case
    using t by (subst add_macs.simps) (simp add: tok stop Let_def)
next
  case (3 t u ms)
  let ?r = "join_macs (u # ms)"
  have t: "isValid_MAC_address t" "length t = MAC_ADDR_LEN" and ok: "macs_ok (u # ms)" using 3(2) by (auto simp: macs_ok_def)
  have tok: "mac_token MAC_ADDR_LEN m i = (t, i + MAC_ADDR_LEN)"
    using valid_mac_chars [OF t] 3(3) t(2) by (intro mac_token_word) (auto simp: nth_append)
  let ?i = "Suc (i + MAC_ADDR_LEN)"
  have m: "m (?i + j) = ?r ! j" if "j < length ?r" for j
    using 3(3) [of "Suc (MAC_ADDR_LEN + j)"] that t(2) by (simp add: nth_append add.assoc)
  have ne: "length ?r = 18 * length (u # ms) - 1" by (rule length_join [OF ok]) simp
  then have "?r ! 0 \<noteq> NUL"
    using valid_mac_chars [of u] ok by (cases ms; cases u) (auto simp: macs_ok_def MAC_ADDR_LEN_def)
  then have m0: "m ?i \<noteq> NUL" using m [of 0] ne by simp
  have e: "m (?i + length ?r) = NUL" using 3(4) t(2) by (simp add: add.assoc)
  show ?case
  proof (cases "n + 1 = 15")
    case True
    then have "nat (15 - n) = 1" by simp
    with True tok t show ?thesis by (subst add_macs.simps) (simp add: MAX_ALLOWED_MAC_def)
  next
    case False
    with 3(1) [OF ok m e, of "n + 1" "out @ t @ [NL]"] 3(5,6)
    have IH: "add_macs m ?i (int (length ?r)) (n + 1) (out @ t @ [NL]) =
        Some ((out @ t @ [NL]) @ concat (map (\<lambda>t. t @ [NL]) (take (nat (15 - (n + 1))) (u # ms))))" by simp
    have "nat (15 - n) = Suc (nat (15 - (n + 1)))" using False 3(6) by simp
    then have "take (nat (15 - n)) (t # u # ms) = t # take (nat (15 - (n + 1))) (u # ms)" by simp
    moreover have "int (length (join_macs (t # u # ms))) = int MAC_ADDR_LEN + 1 + int (length ?r)" using t(2) by simp
    ultimately show ?thesis using False tok t m0 IH
      by (subst add_macs.simps) (simp add: MAX_ALLOWED_MAC_def Let_def del: join_macs.simps(3))
  qed
qed


lemma add_file_eq:
  assumes "open_ok (e (io_pos s))" "reopen_ok (e (io_pos s))"
    "length (fgets_lines 32 (case files s p of None \<Rightarrow> [] | Some c \<Rightarrow> c)) < 15" "8 \<le> n"
  shows "qsap_add_mac_to_file e p v past (b, n) s =
    map_option (\<lambda>out. ((''success'', 7), s\<lparr>io_pos := Suc (io_pos s),
        files := (files s)(p \<mapsto> (case files s p of None \<Rightarrow> [] | Some c \<Rightarrow> c) @ out)\<rparr>))
      (add_macs (mem_of v past) 0 (int (length v)) (int (length (fgets_lines 32 (case files s p of None \<Rightarrow> [] | Some c \<Rightarrow> c)))) [])"
proof -
  have "to_int16 (int k) = int k" if "k < 15" for k using that by (simp add: to_int16_def)
  moreover have "qsap_scnprintf SUCCESS (b, n) = (''success'', 7)" using assms(4) by (simp add: qsap_scnprintf_def SUCCESS_def)
  ultimately show ?thesis
    using assms(1-3) by (simp add: qsap_add_mac_to_file_def Let_def MAX_ALLOWED_MAC_def c_put_def)
qed

lemma mac_add_eq:
  assumes "macs_ok ms" "open_ok (e (io_pos s))" "reopen_ok (e (io_pos s))" "8 \<le> n"
    "content = (case files s p of None \<Rightarrow> [] | Some c \<Rightarrow> c)" "k = length (fgets_lines 32 content)" "k < 15"
  shows "qsap_add_mac_to_file e p (join_macs ms) past (b, n) s =
    Some ((''success'', 7), s\<lparr>io_pos := Suc (io_pos s),
      files := (files s)(p \<mapsto> content @ concat (map (\<lambda>m. m @ [NL]) (take (15 - k) ms)))\<rparr>)"
proof -
  have "add_macs (mem_of (join_macs ms) past) 0 (int (length (join_macs ms))) (int k) [] =
      Some ([] @ concat (map (\<lambda>m. m @ [NL]) (take (nat (15 - int k)) ms)))"
    using assms(1,7) by (intro add_macs_join) (auto simp: mem_of_def)
  moreover have "nat (15 - int k) = 15 - k" by simp
  ultimately show ?thesis using add_file_eq [of e s p n "join_macs ms" past b] assms by simp
qed

text \<open>
  Adding a list of valid addresses with single spaces between them to a list file with
  fewer than fifteen lines appends exactly these addresses in order, one per line, up to the
  fifteenth line, creates the file when it does not exist, reports success and does not
  depend on the memory behind the argument.
\<close>

theorem mac_add_correct:
  assumes "macs_ok ms" "open_ok (e (io_pos s))" "reopen_ok (e (io_pos s))" "8 \<le> n"
    "content = (case files s p of None \<Rightarrow> [] | Some c \<Rightarrow> c)" "k = length (fgets_lines 32 content)" "k < 15"
  shows "qsap_add_mac_to_file e p (join_macs ms) past (b, n) s =
    Some ((''success'', 7), s\<lparr>io_pos := Suc (io_pos s),
      files := (files s)(p \<mapsto> content @ concat (map (\<lambda>m. m @ [NL]) (take (15 - k) ms)))\<rparr>)"
  using assms by (rule mac_add_eq)

definition mac1 :: string where "mac1 = ''00:0a:F5:89:89:89''"
definition mac2 :: string where "mac2 = ''11:22:33:44:55:66''"

lemma demo_macs: "macs_ok [mac1, mac2]"
  by (simp add: macs_ok_def) (code_simp)

theorem mac_add_correct_witness:
  "qsap_add_mac_to_file (\<lambda>_. good_io) ''acl'' (mac1 @ '' '' @ mac2) (\<lambda>_. NUL) ([], 255) demo_sap =
    Some ((''success'', 7), demo_sap\<lparr>io_pos := 1, files := (files demo_sap)(''acl'' \<mapsto> mac1 @ [NL] @ mac2 @ [NL])\<rparr>)"
proof -
  have f: "files demo_sap ''acl'' = None" "io_pos demo_sap = 0" by (simp_all add: demo_sap_def)
  show ?thesis
    using mac_add_correct [OF demo_macs, of "\<lambda>_. good_io" demo_sap 255 "[]" "''acl''" 0 "\<lambda>_. NUL" "[]"]
    by (simp add: f good_io_def fgets_lines.simps)
qed

text \<open>One step of the loop over a terminator: nothing is taken, and only a byte other than NUL counts.\<close>

lemma add_macs_nul:
  assumes "m i = NUL \<or> m i = CHR '' ''"
  shows "add_macs m i 1 n out = (if m (Suc i) \<noteq> NUL then Some out else add_macs m (Suc i) 1 n out)"
proof -
  have "add_macs m (Suc i) 0 n out = Some out" by (subst add_macs.simps) simp
  moreover have "mac_token MAC_ADDR_LEN m i = ([], i)" using assms by (intro mac_token_stop) (auto simp: MAC_ADDR_LEN_def)
  moreover have "\<not> isValid_MAC_address []" by (simp add: isValid_MAC_address_def MAC_ADDR_LEN_def)
  ultimately show ?thesis by (subst add_macs.simps) (simp add: Let_def)
qed

lemma add_macs_zeros: "add_macs m i len n out = Some y \<Longrightarrow> \<not> (len = 1 \<and> (\<forall>j\<ge>i. m j = NUL))"
proof (rule add_macs.raw_induct [where P = "\<lambda>m i len n out y. \<not> (len = 1 \<and> (\<forall>j\<ge>i. m j = NUL))"], goal_cases)
  case (1 f m i len n out y)
  show ?case
  proof
    assume a: "len = 1 \<and> (\<forall>j\<ge>i. m j = NUL)"
    then have "mac_token MAC_ADDR_LEN m i = ([], i)" by (intro mac_token_stop) (auto simp: MAC_ADDR_LEN_def)
    moreover have "\<not> isValid_MAC_address []" by (simp add: isValid_MAC_address_def MAC_ADDR_LEN_def)
    ultimately have "f m (Suc i) 1 n out = Some y" using 1(3) a by (simp add: Let_def)
    from 1(2) [OF this] a show False by simp
  qed
qed

lemma add_macs_seek: "m i = NUL \<Longrightarrow> \<exists>j>i. m j \<noteq> NUL \<Longrightarrow> add_macs m i 1 n out = Some out"
proof -
  assume "m i = NUL" "\<exists>j>i. m j \<noteq> NUL"
  then obtain k where "m i = NUL" "m (Suc (i + k)) \<noteq> NUL" by (metis less_imp_Suc_add)
  then show ?thesis by (induction k arbitrary: i) (auto simp: add_macs_nul)
qed

text \<open>
  An address followed by a space, as the last thing in the argument, is added, but the
  loop runs past the terminator of the argument: it returns only if some byte behind the
  terminator is not NUL.
\<close>

theorem mac_add_reads_behind:
  assumes "isValid_MAC_address t" "length t = MAC_ADDR_LEN" "open_ok (e (io_pos s))" "reopen_ok (e (io_pos s))" "8 \<le> n"
    "files s p = Some content" "length (fgets_lines 32 content) < 14"
  shows "qsap_add_mac_to_file e p (t @ '' '') past (b, n) s =
    (if \<exists>i. past i \<noteq> NUL
     then Some ((''success'', 7), s\<lparr>io_pos := Suc (io_pos s), files := (files s)(p \<mapsto> content @ t @ [NL])\<rparr>)
     else None)"
proof -
  let ?m = "mem_of (t @ '' '') past" and ?k = "int (length (fgets_lines 32 content))" and ?i = "Suc MAC_ADDR_LEN"
  have tok: "mac_token MAC_ADDR_LEN ?m 0 = (t, 0 + MAC_ADDR_LEN)"
    using valid_mac_chars [OF assms(1,2)] assms(2) by (intro mac_token_word) (auto simp: mem_of_def nth_append)
  have m: "?m ?i = NUL" "?m (?i + Suc j) = past j" for j using assms(2) by (simp_all add: mem_of_def)
  have step: "add_macs ?m 0 (int (length (t @ '' ''))) ?k [] = add_macs ?m ?i 1 (?k + 1) (t @ [NL])"
    using assms(1,2,7) tok m(1) by (subst add_macs.simps) (simp add: Let_def MAX_ALLOWED_MAC_def)
  have "add_macs ?m ?i 1 (?k + 1) (t @ [NL]) = (if \<exists>i. past i \<noteq> NUL then Some (t @ [NL]) else None)"
  proof (cases "\<exists>i. past i \<noteq> NUL")
    case True
    then obtain j where "?m (?i + Suc j) \<noteq> NUL" using m(2) by auto
    then have "\<exists>j>?i. ?m j \<noteq> NUL" by (intro exI [of _ "?i + Suc j"]) simp
    with True m(1) show ?thesis by (simp add: add_macs_seek)
  next
    case False
    have "?m j = NUL" if "j \<ge> ?i" for j using that m False by (cases "j = ?i") (auto dest!: less_imp_Suc_add simp: le_less)
    then have "add_macs ?m ?i 1 (?k + 1) (t @ [NL]) \<noteq> Some y" for y using add_macs_zeros by blast
    with False show ?thesis by auto
  qed
  with step assms add_file_eq [of e s p n "t @ '' ''" past b] show ?thesis by simp
qed

theorem mac_add_reads_behind_witness:
  "qsap_add_mac_to_file (\<lambda>_. good_io) ''c'' (mac1 @ '' '') (\<lambda>_. NUL) ([], 255)
     \<lparr>files = [''c'' \<mapsto> []], gIniUpdated = False, io_pos = 0\<rparr> = None"
proof -
  have "isValid_MAC_address mac1" "length mac1 = MAC_ADDR_LEN" using demo_macs by (simp_all add: macs_ok_def)
  from mac_add_reads_behind [OF this, of "\<lambda>_. good_io" "\<lparr>files = [''c'' \<mapsto> []], gIniUpdated = False, io_pos = 0\<rparr>" 255 "''c''" "[]"
      "\<lambda>_. NUL" "[]"]
  show ?thesis by (simp add: good_io_def fgets_lines.simps)
qed


subsection \<open>Removing MAC addresses\<close>

lemma macs_ok_Cons:
  assumes "macs_ok (t # ms)"
  shows "length t = MAC_ADDR_LEN" "t \<noteq> []" "\<forall>c\<in>set t. c \<noteq> CHR '' ''" "hd t \<noteq> CHR 0x09" "macs_ok ms"
proof -
  have t: "isValid_MAC_address t" "length t = MAC_ADDR_LEN" and ms: "macs_ok ms" using assms by (simp_all add: macs_ok_def)
  show "length t = MAC_ADDR_LEN" "macs_ok ms" using t ms by simp_all
  show ne: "t \<noteq> []" using t(2) by (auto simp: MAC_ADDR_LEN_def)
  show "\<forall>c\<in>set t. c \<noteq> CHR '' ''" "hd t \<noteq> CHR 0x09" using valid_mac_chars [OF t] hd_in_set [OF ne] by blast+
qed

lemma mac_listed_Nil: "\<not> mac_listed buf []"
  by (subst mac_listed.simps) simp

lemma mac_listed_join:
  assumes "macs_ok ms"
  shows "mac_listed buf (join_macs ms) \<longleftrightarrow> take MAC_ADDR_LEN buf \<in> set ms"
  using assms
proof (induction ms rule: join_macs.induct)
  case 1
  then show ?case by (simp add: mac_listed_Nil)
next
  case (2 t)
  note t = macs_ok_Cons [OF 2]
  have d: "dropWhile (\<lambda>c. c = CHR '' '' \<or> c = CHR 0x09) (dropWhile (\<lambda>c. c \<noteq> CHR '' '') t) = []"
    using t(3) by (simp add: dropWhile_eq_Nil_conv [THEN iffD2])
  have "mac_listed buf t \<longleftrightarrow> take MAC_ADDR_LEN buf = t"
    using t(1,2) mac_listed_Nil [of buf] by (subst mac_listed.simps) (simp add: d)
  then show ?case by simp
next
  case (3 t u ms)
  let ?r = "join_macs (u # ms)"
  note t = macs_ok_Cons [OF 3(2)] and ok = macs_ok_Cons(5) [OF 3(2)]
  obtain c r where r: "?r = c # r" "c \<noteq> CHR '' ''" "c \<noteq> CHR 0x09"
    using macs_ok_Cons(2-4) [OF ok] by (cases ms; cases u) auto
  have "dropWhile (\<lambda>c. c \<noteq> CHR '' '') (t @ CHR '' '' # ?r) = CHR '' '' # ?r" using t(3) by (simp add: dropWhile_append2)
  then have d: "dropWhile (\<lambda>c. c = CHR '' '' \<or> c = CHR 0x09) (dropWhile (\<lambda>c. c \<noteq> CHR '' '') (t @ CHR '' '' # ?r)) = ?r"
    using r by simp
  have "mac_listed buf (t @ CHR '' '' # ?r) \<longleftrightarrow> take MAC_ADDR_LEN buf = t \<or> mac_listed buf ?r"
    using t(1,2) by (subst mac_listed.simps) (simp add: d)
  with 3(1) [OF ok] show ?case by simp
qed

lemma remove_ok:
  assumes "files s p = Some (concat ls)" "\<forall>l\<in>set ls. ok_line 155 l" "open_ok (e (io_pos s))" "reopen_ok (e (io_pos s))"
    "rename_ok (e (io_pos s))" "length p < 155" "macs_ok ms" "8 \<le> n"
  shows "\<exists>s'. qsap_remove_from_file e p (join_macs ms) (b, n) s = ((''success'', n), s') \<and>
    files s' p = Some (concat (filter (\<lambda>l. take MAC_ADDR_LEN l \<notin> set ms) ls))"
proof -
  have f: "fgets_lines MAX_CONF_LINE_LEN (concat ls) = ls"
    using assms(2) by (intro fgets_lines_ok [where k = 155]) (auto simp: MAX_CONF_LINE_LEN_def)
  have c: "map cstr ls = ls" using assms(2) cstr_ok by (intro map_idI) blast
  have t: "scn MAX_CONF_LINE_LEN (p @ ''~'') = p @ ''~''"
    using assms(6) by (simp add: scn_def qsap_scnprintf_def MAX_CONF_LINE_LEN_def)
  show ?thesis
    using assms by (simp add: qsap_remove_from_file_def Let_def t c_put_def c_rename_def c_unlink_def f c
        mac_listed_join qsap_scnprintf_def SUCCESS_def)
qed

text \<open>
  Removing a list of addresses that was just added to a list file in which none of them
  was, with room for all of them, restores the file.
\<close>

theorem mac_add_remove:
  assumes "macs_ok ms" "files s p = Some (concat ls)" "\<forall>l\<in>set ls. ok_line 31 l" "length ls + length ms < 16" "length ls < 15"
    "\<forall>l\<in>set ls. take MAC_ADDR_LEN l \<notin> set ms" "\<And>i. io_ok (e i) \<and> reopen_ok (e i)" "length p < 155" "8 \<le> n"
  shows "\<exists>s1 s2. qsap_add_mac_to_file e p (join_macs ms) past (b, n) s = Some ((''success'', 7), s1) \<and>
    files s1 p = Some (concat ls @ concat (map (\<lambda>m. m @ [NL]) ms)) \<and>
    qsap_remove_from_file e p (join_macs ms) (b, n) s1 = ((''success'', n), s2) \<and> files s2 p = files s p"
proof -
  let ?ms = "map (\<lambda>m. m @ [NL]) ms"
  have io: "open_ok (e i)" "reopen_ok (e i)" "rename_ok (e i)" for i using assms(7) [of i] by (auto simp: io_ok_def)
  have k: "length ls = length (fgets_lines 32 (concat ls))" using fgets_lines_ok [OF assms(3), of 32] by simp
  define s1 where "s1 = s\<lparr>io_pos := Suc (io_pos s), files := (files s)(p \<mapsto> concat (ls @ ?ms))\<rparr>"
  have add: "qsap_add_mac_to_file e p (join_macs ms) past (b, n) s = Some ((''success'', 7), s1)"
    using mac_add_eq [where s = s and p = p, OF assms(1) io(1,2) assms(9) _ k assms(5)] assms(2,4) by (simp add: s1_def)
  have new: "\<forall>l\<in>set ?ms. ok_line 31 l \<and> take MAC_ADDR_LEN l \<in> set ms"
    using assms(1) valid_mac_chars by (auto simp: macs_ok_def ok_line_def MAC_ADDR_LEN_def)
  have "filter (\<lambda>l. take MAC_ADDR_LEN l \<notin> set ms) (ls @ ?ms) = ls"
    using assms(6) new by (simp add: filter_empty_conv filter_id_conv)
  moreover have "\<forall>l\<in>set (ls @ ?ms). ok_line 155 l" using assms(3) new by (fastforce simp: ok_line_def)
  moreover have "files s1 p = Some (concat (ls @ ?ms))" by (simp add: s1_def)
  ultimately obtain s2 where "qsap_remove_from_file e p (join_macs ms) (b, n) s1 = ((''success'', n), s2)"
    "files s2 p = Some (concat ls)"
    using remove_ok [of s1 p "ls @ ?ms" e ms n b] io assms(1,8,9) by auto
  with add show ?thesis using assms(2) by (auto simp: s1_def)
qed


theorem mac_add_remove_witness:
  "\<exists>s1 s2. qsap_add_mac_to_file (\<lambda>_. good_io) ''a'' (mac1 @ '' '' @ mac2) (\<lambda>_. NUL) ([], 255)
       \<lparr>files = [''a'' \<mapsto> ''#list'' @ [NL]], gIniUpdated = False, io_pos = 0\<rparr> = Some ((''success'', 7), s1) \<and>
    qsap_remove_from_file (\<lambda>_. good_io) ''a'' (mac1 @ '' '' @ mac2) ([], 255) s1 = ((''success'', 255), s2) \<and>
    files s2 ''a'' = Some (''#list'' @ [NL])"
proof -
  let ?s = "\<lparr>files = [''a'' \<mapsto> ''#list'' @ [NL]], gIniUpdated = False, io_pos = 0\<rparr>"
  have "ok_line 31 (''#list'' @ [NL])" by (auto simp: ok_line_def NL_def NUL_def intro: exI [of _ "''#list''"])
  moreover have "take MAC_ADDR_LEN (''#list'' @ [NL]) \<notin> set [mac1, mac2]"
    by (simp add: mac1_def mac2_def MAC_ADDR_LEN_def)
  ultimately show ?thesis
    using mac_add_remove [OF demo_macs, of ?s "''a''" "[''#list'' @ [NL]]" "\<lambda>_. good_io" 255 "\<lambda>_. NUL" "[]"]
    by (auto simp: io_ok_def good_io_def)
qed

subsection \<open>WEP keys\<close>

definition unquote :: "string \<Rightarrow> string" where
  "unquote k = (if k \<noteq> [] \<and> hd k = CHR 0x22 \<and> last k = CHR 0x22 then butlast (tl k) else k)"

lemma wep_key_stored:
  assumes "is_valid_wep_key k 128 = (True, Some v)"
  shows "length (unquote k) \<le> 32"
    "v = CHR 0x22 # unquote k @ [CHR 0x22] \<or> v = unquote k \<and> v \<noteq> [] \<and> (\<forall>c\<in>set v. isxdigit c)"
proof -
  let ?n = "if k \<noteq> [] \<and> hd k = CHR 0x22 \<and> last k = CHR 0x22 then int (length k) - 2 else int (length k)"
  have u: "?n \<ge> 0 \<Longrightarrow> int (length (unquote k)) = ?n" by (auto simp: unquote_def)
  have s: "scn 128 x = x" if "length x \<le> 34" for x using that by (simp add: scn_def qsap_scnprintf_def)
  have n: "?n \<in> {5, 13, 16, 10, 26, 32}" using assms by (auto simp: is_valid_wep_key_def Let_def split: if_splits)
  then show len: "length (unquote k) \<le> 32" using u by auto
  have "v = scn 128 (CHR 0x22 # unquote k @ [CHR 0x22]) \<or> v = scn 128 (unquote k) \<and> (\<forall>c\<in>set (unquote k). isxdigit c)"
    using assms unfolding unquote_def by (auto simp: is_valid_wep_key_def Let_def list_all_iff split: if_splits)
  moreover have "unquote k \<noteq> []" using u n by auto
  ultimately show "v = CHR 0x22 # unquote k @ [CHR 0x22] \<or> v = unquote k \<and> v \<noteq> [] \<and> (\<forall>c\<in>set v. isxdigit c)"
    using len s by auto
qed

lemma strchr_first: "x \<notin> set p \<Longrightarrow> strchr (p @ x # q) x = Some (length p)"
  by (induction p) auto

text \<open>
  A WEP key that is accepted, with or without quotes, and written to a well-formed file
  is read back without its quotes, for each of the four keys.
\<close>

theorem wep_key_roundtrip:
  assumes "is_valid_wep_key k 128 = (True, Some v)" "NL \<notin> set k" "NUL \<notin> set k" "i \<in> {eCMD_WEP_KEY0..eCMD_WEP_KEY3}"
    "holds s p ls" "io_ok (e (io_pos s))" "length p < 156" "164 \<le> n"
  shows "\<exists>s'. qsap_write_cfg e p (cmd_list ! i) v False (b, 8) s = (eSUCCESS, (''success'', 7), s') \<and>
    qsap_read_wep_key p (cmd_list ! i) None (b', n) s' =
      (''success '' @ name (cmd_list ! i) @ ''='' @ unquote k, 17 + length (unquote k))"
proof -
  have "i = 8 \<or> i = 9 \<or> i = 10 \<or> i = 11" using assms(4) by (auto simp: eCMD_WEP_KEY0_def eCMD_WEP_KEY3_def)
  then have c: "cmd_list ! i \<in> all_commands" "length (name (cmd_list ! i)) = 8"
    by (elim disjE; simp add: all_commands_def cmd_list_def)+
  have sub: "set (unquote k) \<subseteq> set k"
    unfolding unquote_def by (cases k) (auto dest: in_set_butlastD)
  note w = wep_key_stored [OF assms(1)]
  have x: "\<not> isxdigit CR" "\<not> isxdigit (CHR 0x22)" by code_simp+
  have l: "last v \<noteq> CR" using w(2)
  proof
    assume "v = CHR 0x22 # unquote k @ [CHR 0x22]" then show ?thesis by (simp add: CR_def)
  qed (metis last_in_set x(1))
  have "val_ok (name (cmd_list ! i)) v"
    using w sub assms(2,3) c(2) l by (auto simp: val_ok_def NL_def NUL_def)
  note wr = write_cfg_ok [where e = e and ini = False and r = "(b, 8)", OF assms(5-7) command_key [OF c(1)] this]
  obtain s' where s': "qsap_write_cfg e p (cmd_list ! i) v False (b, 8) s = (eSUCCESS, qsap_scnprintf SUCCESS (b, 8), s')"
    "holds s' p (put_lines (name (cmd_list ! i)) v False ls)"
    using wr by blast
  have r: "qsap_read_cfg p (cmd_list ! i) None True (b', n) s' =
      (eSUCCESS, ''success '' @ name (cmd_list ! i) @ ''='' @ v, 17 + length v)"
    using s'(2) assms(5,8) w c find_put [OF _ command_key [OF c(1)] \<open>val_ok _ v\<close> command_key [OF c(1)]]
    by (auto simp: qsap_read_cfg_def holds_def fgets_conf qsap_scnprintf_def SUCCESS_def)
  define pre where "pre = ''success '' @ name (cmd_list ! i)"
  have pre: "length pre = 16" "CHR ''='' \<notin> set pre"
    using command_key [OF c(1)] c(2) by (simp_all add: pre_def key_ok_def)
  have r': "qsap_read_cfg p (cmd_list ! i) None True (b', n) s' = (eSUCCESS, pre @ CHR ''='' # v, 17 + length v)"
    using r by (simp add: pre_def)
  have "qsap_read_wep_key p (cmd_list ! i) None (b', n) s' = (pre @ CHR ''='' # unquote k, 17 + length (unquote k))"
    using w(2)
  proof
    assume "v = CHR 0x22 # unquote k @ [CHR 0x22]"
    then show ?thesis using pre(1) by (simp add: qsap_read_wep_key_def r' strchr_first [OF pre(2)] Let_def)
  next
    assume u: "v = unquote k \<and> v \<noteq> [] \<and> (\<forall>c\<in>set v. isxdigit c)"
    then have "hd v \<noteq> CHR 0x22" "v \<noteq> []" using x(2) hd_in_set by metis+
    then have "take 1 v \<noteq> [CHR 0x22]" by (metis hd_take list.sel(1) zero_less_one)
    then show ?thesis using u by (simp add: qsap_read_wep_key_def r' strchr_first [OF pre(2)] Let_def)
  qed
  then have "qsap_read_wep_key p (cmd_list ! i) None (b', n) s' =
      (''success '' @ name (cmd_list ! i) @ ''='' @ unquote k, 17 + length (unquote k))"
    by (simp add: pre_def)
  then show ?thesis using s'(1) by (simp add: qsap_scnprintf_def SUCCESS_def)
qed


theorem wep_key_roundtrip_witness:
  "\<exists>s'. qsap_write_cfg (\<lambda>_. good_io) ''c'' (cmd_list ! eCMD_WEP_KEY0) ([CHR 0x22] @ ''abcde'' @ [CHR 0x22]) False ([], 8) demo_sap =
      (eSUCCESS, (''success'', 7), s') \<and>
    qsap_read_wep_key ''c'' (cmd_list ! eCMD_WEP_KEY0) None ([], 255) s' = (''success wep_key0=abcde'', 22)"
proof -
  have v: "is_valid_wep_key ''abcde'' 128 = (True, Some ([CHR 0x22] @ ''abcde'' @ [CHR 0x22]))" by code_simp
  have n: "name (cmd_list ! eCMD_WEP_KEY0) = ''wep_key0''" by (simp add: cmd_list_def eCMD_WEP_KEY0_def)
  have i: "eCMD_WEP_KEY0 \<in> {eCMD_WEP_KEY0..eCMD_WEP_KEY3}" by (simp add: eCMD_WEP_KEY0_def eCMD_WEP_KEY3_def)
  from wep_key_roundtrip [OF v _ _ i demo_holds, of "\<lambda>_. good_io" 255 "[]" "[]"] show ?thesis
    by (auto simp: n io_ok_def good_io_def unquote_def NL_def NUL_def)
qed

subsection \<open>Command numbers\<close>

lemma cmd_num_skip:
  assumes "\<forall>c\<in>set cs. CHR ''='' \<notin> set (name c) \<and> name c \<noteq> nm" "CHR ''='' \<notin> set nm" "r = [] \<or> hd r = CHR ''=''"
  shows "cmd_num_from i (cs @ ds) (nm @ r) = cmd_num_from (i + length cs) ds (nm @ r)"
  using assms(1)
proof (induction cs arbitrary: i)
  case (Cons c cs)
  have "\<not> (prefix (name c) (nm @ r) \<and> take 1 (drop (length (name c)) (nm @ r)) \<in> {''='', []})"
  proof
    assume a: "prefix (name c) (nm @ r) \<and> take 1 (drop (length (name c)) (nm @ r)) \<in> {''='', []}"
    then obtain q where q: "nm @ r = name c @ q" by (auto elim: prefixE)
    then have "take 1 q \<in> {''='', []}" using a unfolding q by simp
    then have q': "q = [] \<or> hd q = CHR ''=''" by (cases q) auto
    have tw: "takeWhile (\<lambda>x. x \<noteq> CHR ''='') (u @ y) = u" if "CHR ''='' \<notin> set u" "y = [] \<or> hd y = CHR ''=''" for u y
      using that by (cases y) (auto simp: takeWhile_append)
    have "nm = name c" using tw [of nm r] tw [of "name c" q] assms(2,3) q(1) q' Cons.prems by simp
    then show False using Cons.prems by simp
  qed
  then have "cmd_num_from i ((c # cs) @ ds) (nm @ r) = cmd_num_from (Suc i) (cs @ ds) (nm @ r)"
    by (simp only: append_Cons cmd_num_from.simps if_False)
  then show ?case using Cons by simp
qed simp

lemma cmd_num_at:
  assumes "l = cs @ c # ds" "\<forall>c'\<in>set cs. CHR ''='' \<notin> set (name c') \<and> name c' \<noteq> name c"
    "CHR ''='' \<notin> set (name c)" "r = [] \<or> hd r = CHR ''=''"
  shows "cmd_num_from 0 l (name c @ r) = int (length cs)"
  unfolding assms(1) cmd_num_skip [OF assms(2-4)] using assms(4) by (cases r) simp_all

lemma command_names: "distinct (map name cmd_list)" "\<forall>c\<in>set cmd_list. CHR ''='' \<notin> set (name c)" "length cmd_list = 74"
  by (simp_all add: cmd_list_def)

text \<open>
  Every command of the table is recognised under its own number, alone and with an
  argument, although names are compared by prefix and some are prefixes of others.
\<close>

lemma cmd_num_correct:
  "i < 74 \<Longrightarrow> qsap_get_cmd_num (name (cmd_list ! i)) = int i \<and>
     qsap_get_cmd_num (name (cmd_list ! i) @ ''='' @ arg) = int i"
proof -
  assume i: "i < 74"
  have sp: "cmd_list = take i cmd_list @ cmd_list ! i # drop (Suc i) cmd_list"
    using i command_names(3) by (simp add: id_take_nth_drop)
  let ?nm = "name (cmd_list ! i)"
  have ne: "\<forall>c\<in>set (take i cmd_list). CHR ''='' \<notin> set (name c) \<and> name c \<noteq> ?nm"
  proof
    fix c assume "c \<in> set (take i cmd_list)"
    then obtain j where j: "j < i" "c = cmd_list ! j" using i command_names(3) by (auto simp: in_set_conv_nth)
    then have "map name cmd_list ! j \<noteq> map name cmd_list ! i"
      using nth_eq_iff_index_eq [OF command_names(1), of j i] command_names(3) i by simp
    then show "CHR ''='' \<notin> set (name c) \<and> name c \<noteq> ?nm" using j i command_names by simp
  qed
  have eq: "CHR ''='' \<notin> set ?nm" using command_names(2,3) i by simp
  have "qsap_get_cmd_num (?nm @ r) = int i" if "r = [] \<or> hd r = CHR ''=''" for r
    unfolding qsap_get_cmd_num_def cmd_num_at [OF sp ne eq that] using i command_names(3) by simp
  from this [of "[]"] this [of "CHR ''='' # arg"]
  show "qsap_get_cmd_num ?nm = int i \<and> qsap_get_cmd_num (?nm @ ''='' @ arg) = int i" by simp
qed

end
