(* ===== verification/Sap_Start.thy ===== *)
theory Sap_Start
  imports Sap_Driver Sap_Correct
begin

text \<open>
  What loading, starting, stopping and reloading the access point guarantee: which modules are loaded
  for which return code, that a start succeeds once hostapd comes up within its attempts, that it also
  succeeds when the mode of the interface cannot be read, and that the WiGig access point has at most
  one process.
\<close>

subsection \<open>Modules\<close>

definition name_ok :: "string \<Rightarrow> bool" where
  "name_ok nm \<longleftrightarrow> nm \<noteq> [] \<and> CHR '' '' \<notin> set nm"

definition mods_ok :: "ap_st \<Rightarrow> bool" where
  "mods_ok s \<longleftrightarrow> (\<forall>m\<in>set (modules s). CHR '' '' \<notin> set m)"

definition build_ok :: "ap_build \<Rightarrow> bool" where
  "build_ok b \<longleftrightarrow> name_ok (drv_module b) \<and> CHR '' '' \<notin> set (cfg80211_module b) \<and>
     (\<forall>nm\<in>set_option (sdioif_module b). name_ok nm \<and> nm \<noteq> drv_module b) \<and> cfg80211_module b \<noteq> drv_module b"

lemma space_prefix: "c \<notin> set nm \<Longrightarrow> c \<notin> set m \<Longrightarrow> prefix (nm @ [c]) (m @ [c]) \<longleftrightarrow> nm = m"
  by (auto simp: prefix_def append_eq_append_conv2 append_eq_Cons_conv Cons_eq_append_conv)

lemma listed_name: "mods_ok s \<Longrightarrow> CHR '' '' \<notin> set nm \<Longrightarrow> listed (nm @ '' '') (modules s) \<longleftrightarrow> nm \<in> set (modules s)"
  unfolding listed_def mods_ok_def by (auto simp: list_ex_iff dest: set_mono_prefix)

lemma tick_simps [simp]:
  "fs (tick s) = fs s" "modules (tick s) = modules s" "sdio_polling (tick s) = sdio_polling s"
  "wigigSoftApPid (tick s) = wigigSoftApPid s" "children (tick s) = children s" "told (tick s) = told s"
  "hw_pos (tick s) = Suc (hw_pos s)" "mods_ok (tick s) = mods_ok s"
  by (simp_all add: tick_def mods_ok_def)

lemma take_name: "CHR '' '' \<notin> set nm \<Longrightarrow> takeWhile (\<lambda>c. c \<noteq> CHR '' '') (nm @ '' '') = nm"
  by (subst takeWhile_append2) auto

lemma take_all_name: "CHR '' '' \<notin> set nm \<Longrightarrow> takeWhile (\<lambda>c. c \<noteq> CHR '' '') nm = nm"
  by (simp add: takeWhile_eq_all_conv) blast

text \<open>An effect on the modules: nothing but \<open>gone\<close> is removed and nothing but \<open>extra\<close> is added.\<close>

definition mod_effect :: "string set \<Rightarrow> string set \<Rightarrow> ap_st \<Rightarrow> ap_st \<Rightarrow> bool" where
  "mod_effect gone extra s s' \<longleftrightarrow> sdio_polling s' = sdio_polling s \<and> (mods_ok s \<longrightarrow> mods_ok s') \<and>
     set (modules s) - gone \<subseteq> set (modules s') \<and> set (modules s') \<subseteq> set (modules s) \<union> extra"

lemma mod_effect_refl [simp]: "mod_effect g x s s" "mod_effect g x s (tick s)"
  by (auto simp: mod_effect_def)

lemma mod_effect_trans: "mod_effect g x s s1 \<Longrightarrow> mod_effect h y s1 s2 \<Longrightarrow> mod_effect (g \<union> h) (x \<union> y) s s2"
  by (auto simp: mod_effect_def)

lemma mod_effect_mono: "mod_effect g x s s' \<Longrightarrow> g \<subseteq> h \<Longrightarrow> x \<subseteq> y \<Longrightarrow> mod_effect h y s s'"
  by (auto simp: mod_effect_def)

lemma insmod_effect:
  assumes "insmod e tag s = (r, s')"
    and "tag = nm @ '' '' \<or> tag = nm" and "CHR '' '' \<notin> set nm"
  shows "mod_effect {} {nm} s s'"
proof -
  have t: "takeWhile (\<lambda>c. c \<noteq> CHR '' '') tag = nm"
    using assms(2) take_name [OF assms(3)] take_all_name [OF assms(3)] by blast
  show ?thesis using assms(1) unfolding insmod_def check_driver_loaded_def Let_def t
    by (simp split: if_splits) (use assms(3) in \<open>auto simp: mod_effect_def mods_ok_def\<close>)
qed

lemma insmod_loaded:
  assumes "insmod e (nm @ '' '') s = (0, s')" and "CHR '' '' \<notin> set nm" and "mods_ok s"
  shows "nm \<in> set (modules s')"
  using assms take_name [of nm] listed_name [of s nm]
  by (auto simp: insmod_def check_driver_loaded_def Let_def split: if_splits)

lemma rmmod_loop_effect: "rmmod_loop k e nm r0 s = (r, s') \<Longrightarrow> mod_effect {nm} {} s s'"
proof (induction k arbitrary: r0 s)
  case (Suc k)
  show ?case
  proof (cases "a_del e (hw_pos s)")
    case TryAgain
    then have "mod_effect {nm} {} (tick s) s'" using Suc by simp
    then show ?thesis by (simp add: mod_effect_def)
  qed (use Suc.prems in \<open>auto simp: mod_effect_def mods_ok_def\<close>)
qed auto

lemma rmmod_loop_gone: "rmmod_loop k e nm r0 s = (0, s') \<Longrightarrow> r0 \<noteq> 0 \<or> 0 < k \<Longrightarrow> nm \<notin> set (modules s')"
  by (induction k arbitrary: r0 s) (auto split: del_res.splits)

lemma rmmod_effect: "rmmod e nm s = (r, s') \<Longrightarrow> mod_effect {nm} {} s s'"
  unfolding rmmod_def by (rule rmmod_loop_effect)

lemma rmmod_gone: "rmmod e nm s = (0, s') \<Longrightarrow> nm \<notin> set (modules s')"
  unfolding rmmod_def by (erule rmmod_loop_gone) simp

lemma unload_sdioif_effect: "unload_sdioif e b s = (r, s') \<Longrightarrow> mod_effect (set_option (sdioif_module b)) {} s s'"
  by (auto simp: unload_sdioif_def check_driver_loaded_def split: option.splits if_splits dest!: rmmod_effect)
    (simp add: mod_effect_def)

lemma unload_sdioif_gone:
  assumes "unload_sdioif e b s = (0, s')" and "build_ok b" and "mods_ok s" and "\<forall>n. a_proc e n"
  shows "set_option (sdioif_module b) \<inter> set (modules s') = {}"
  using assms listed_name [of s]
  by (auto simp: unload_sdioif_def check_driver_loaded_def build_ok_def name_ok_def split: option.splits if_splits
      dest!: rmmod_gone)

lemma load_failed_effect:
  "mod_effect (set_option (sdioif_module b) \<union> {cfg80211_module b}) {} s (load_failed e b s)"
proof -
  obtain r s1 where u: "unload_sdioif e b s = (r, s1)" by fastforce
  obtain r2 s2 where d: "rmmod e (cfg80211_module b) s1 = (r2, s2)" by fastforce
  show ?thesis using mod_effect_trans [OF unload_sdioif_effect [OF u] rmmod_effect [OF d]]
      unload_sdioif_effect [OF u]
    by (auto simp: load_failed_def u d Let_def elim: mod_effect_mono)
qed

text \<open>The three modules a load may insert and the two a failed load may remove again.\<close>

definition side_modules :: "ap_build \<Rightarrow> string set" where
  "side_modules b = insert (cfg80211_module b) (set_option (sdioif_module b))"

lemma polling_effect: "mod_effect g x (s\<lparr>sdio_polling := p\<rparr>) s' \<Longrightarrow>
  mods_ok s \<Longrightarrow> mods_ok s' \<and> sdio_polling s' = p \<and> set (modules s) - g \<subseteq> set (modules s') \<and>
    set (modules s') \<subseteq> set (modules s) \<union> x"
  by (auto simp: mod_effect_def mods_ok_def)

lemma load_prefix:
  assumes "build_ok b"
    and "(if cfg80211_path b \<noteq> [] then insmod e (cfg80211_module b) s else (0, s)) = (r0, s1)"
    and "(case sdioif_module b of None \<Rightarrow> (0, s1) | Some nm \<Rightarrow> insmod e (nm @ '' '') s1) = (r1, s2)"
  shows "mod_effect {} (side_modules b) s s1" and "mod_effect {} (side_modules b) s s2"
proof -
  show 1: "mod_effect {} (side_modules b) s s1"
    using assms(1,2) insmod_effect [of e "cfg80211_module b" s r0 s1 "cfg80211_module b"]
    by (auto simp: build_ok_def side_modules_def elim: mod_effect_mono split: if_splits)
  have "mod_effect {} (side_modules b) s1 s2"
  proof (cases "sdioif_module b")
    case (Some nm)
    then have i: "insmod e (nm @ '' '') s1 = (r1, s2)" and n: "CHR '' '' \<notin> set nm"
      using assms(1,3) by (simp_all add: build_ok_def name_ok_def)
    show ?thesis by (rule mod_effect_mono [OF insmod_effect [OF i disjI1 [OF refl] n]]) (simp_all add: side_modules_def Some)
  qed (use assms(3) in simp)
  then show "mod_effect {} (side_modules b) s s2" using mod_effect_trans [OF 1, of "{}" "side_modules b" s2] by simp
qed

lemma load_driver_effect:
  assumes b: "build_ok b" and m: "mods_ok s" and l: "wifi_qsap_load_driver e b s = (r, s')"
  shows "r \<in> {eSUCCESS, -1, eERR_LOAD_FAILED_SDIOIF, eERR_LOAD_FAILED_SOFTAP}"
    and "sdio_polling s' \<longleftrightarrow> r = -1"
    and "r = eSUCCESS \<Longrightarrow> drv_module b \<in> set (modules s')"
    and "r = eSUCCESS \<Longrightarrow> set (modules s) \<subseteq> set (modules s')"
    and "set (modules s) - side_modules b \<subseteq> set (modules s')"
    and "set (modules s') \<subseteq> set (modules s) \<union> insert (drv_module b) (side_modules b)"
    and "mods_ok s'"
proof -
  define s0 where "s0 = s\<lparr>sdio_polling := True\<rparr>"
  obtain r0 s1 where 0: "(if cfg80211_path b \<noteq> [] then insmod e (cfg80211_module b) s0 else (0, s0)) = (r0, s1)" by fastforce
  obtain r1 s2 where 1: "(case sdioif_module b of None \<Rightarrow> (0, s1) | Some nm \<Rightarrow> insmod e (nm @ '' '') s1) = (r1, s2)" by fastforce
  obtain r2 s3 where 2: "insmod e (drv_module b @ '' '') s2 = (r2, s3)" by fastforce
  have nm: "CHR '' '' \<notin> set (drv_module b)" using b by (simp add: build_ok_def name_ok_def)
  note e1 = load_prefix(1) [OF b 0 1] and e2 = load_prefix(2) [OF b 0 1]
  have e3: "mod_effect {} (insert (drv_module b) (side_modules b)) s0 s3"
    using mod_effect_trans [OF e2 insmod_effect [OF 2 disjI1 [OF refl] nm]] by simp
  have e4: "mod_effect (side_modules b) (insert (drv_module b) (side_modules b)) s0 (load_failed e b s3)"
    using mod_effect_trans [OF e3 load_failed_effect [of b s3 e]] by (simp add: side_modules_def)
  have m2: "mods_ok s2" using polling_effect [OF e2 [unfolded s0_def] m] by blast
  have f: "r2 = 0 \<Longrightarrow> drv_module b \<in> set (modules s3)" using insmod_loaded [OF _ nm m2] 2 by simp
  note p1 = polling_effect [OF e1 [unfolded s0_def] m] and p2 = polling_effect [OF e2 [unfolded s0_def] m]
    and p3 = polling_effect [OF e3 [unfolded s0_def] m] and p4 = polling_effect [OF e4 [unfolded s0_def] m]
  have eq: "wifi_qsap_load_driver e b s =
     (if r0 < 0 then (-1, s1)
      else if r1 \<noteq> 0 then (eERR_LOAD_FAILED_SDIOIF, s2\<lparr>sdio_polling := False\<rparr>)
      else if r2 \<noteq> 0 then (eERR_LOAD_FAILED_SOFTAP, (load_failed e b s3)\<lparr>sdio_polling := False\<rparr>)
      else (eSUCCESS, s3\<lparr>sdio_polling := False\<rparr>))"
    unfolding wifi_qsap_load_driver_def Let_def s0_def [symmetric] 0 prod.case 1 2 ..
  consider "r = -1" "s' = s1" | "r = eERR_LOAD_FAILED_SDIOIF" "s' = s2\<lparr>sdio_polling := False\<rparr>"
    | "r = eERR_LOAD_FAILED_SOFTAP" "s' = (load_failed e b s3)\<lparr>sdio_polling := False\<rparr>"
    | "r = eSUCCESS" "s' = s3\<lparr>sdio_polling := False\<rparr>" "r2 = 0"
    using l unfolding eq by (auto split: if_splits)
  note cs = this
  note num = eSUCCESS_def eERR_LOAD_FAILED_SDIOIF_def eERR_LOAD_FAILED_SOFTAP_def
  show "r \<in> {eSUCCESS, -1, eERR_LOAD_FAILED_SDIOIF, eERR_LOAD_FAILED_SOFTAP}" by (rule cs) simp_all
  show "sdio_polling s' \<longleftrightarrow> r = -1" by (rule cs) (use p1 in \<open>simp_all add: num\<close>)
  show "r = eSUCCESS \<Longrightarrow> drv_module b \<in> set (modules s')" by (rule cs) (use f in \<open>simp_all add: num\<close>)
  show "r = eSUCCESS \<Longrightarrow> set (modules s) \<subseteq> set (modules s')" by (rule cs) (use p3 in \<open>simp_all add: num\<close>)
  show "set (modules s) - side_modules b \<subseteq> set (modules s')" by (rule cs) (use p1 p2 p3 p4 in auto)
  show "set (modules s') \<subseteq> set (modules s) \<union> insert (drv_module b) (side_modules b)"
    by (rule cs) (use p1 p2 p3 p4 in auto)
  show "mods_ok s'" by (rule cs) (use p1 p2 p3 p4 in \<open>simp_all add: mods_ok_def\<close>)
qed

lemma down_effect: "mod_effect {} {} s (qsap_send_module_down_indication e s)"
  by (auto simp: qsap_send_module_down_indication_def Let_def mod_effect_def mods_ok_def)

lemma unload_driver_effect:
  assumes b: "build_ok b" and m: "mods_ok s" and u: "wifi_qsap_unload_driver e b s = (r, s')"
  shows "r \<in> {eSUCCESS, eERR_UNLOAD_FAILED_SOFTAP, eERR_UNLOAD_FAILED_SDIO}"
    and "\<not> sdio_polling s'"
    and "\<forall>n. a_proc e n \<Longrightarrow> r = eSUCCESS \<Longrightarrow>
           insert (drv_module b) (set_option (sdioif_module b)) \<inter> set (modules s') = {}"
    and "set (modules s) - insert (drv_module b) (set_option (sdioif_module b)) \<subseteq> set (modules s')"
    and "set (modules s') \<subseteq> set (modules s)"
    and "mods_ok s'"
proof -
  define s0 where "s0 = s\<lparr>sdio_polling := True\<rparr>"
  obtain ld s1 where 0: "check_driver_loaded e (drv_module b @ '' '') s0 = (ld, s1)" by fastforce
  obtain r1 s2 where 1: "(if ld then rmmod e (drv_module b) (qsap_send_module_down_indication e s1) else (0, s1)) = (r1, s2)" by fastforce
  obtain r2 s3 where 2: "unload_sdioif e b s2 = (r2, s3)" by fastforce
  have e1: "mod_effect {} {} s0 s1" using 0 by (auto simp: check_driver_loaded_def)
  have e2: "mod_effect {drv_module b} {} s0 s2"
  proof (cases ld)
    case True
    then show ?thesis using mod_effect_trans [OF e1 mod_effect_trans [OF down_effect [of s1 e] rmmod_effect]] 1 by auto
  next
    case False
    then show ?thesis using 1 e1 by (auto elim: mod_effect_mono)
  qed
  have e3: "mod_effect (insert (drv_module b) (set_option (sdioif_module b))) {} s0 s3"
    using mod_effect_trans [OF e2 unload_sdioif_effect [OF 2]] by simp
  note p2 = polling_effect [OF e2 [unfolded s0_def] m] and p3 = polling_effect [OF e3 [unfolded s0_def] m]
  have g: "insert (drv_module b) (set_option (sdioif_module b)) \<inter> set (modules s3) = {}"
    if a: "\<forall>n. a_proc e n" and z: "r1 = 0" "r2 = 0"
  proof -
    have "mods_ok s0" using m by (simp add: s0_def mods_ok_def)
    then have "ld \<longleftrightarrow> drv_module b \<in> set (modules s0)"
      using 0 a listed_name [of s0 "drv_module b"] b by (auto simp: check_driver_loaded_def build_ok_def name_ok_def)
    then have "drv_module b \<notin> set (modules s2)"
      using 1 z(1) rmmod_gone 0 by (auto simp: check_driver_loaded_def split: if_splits)
    moreover have "set (modules s3) \<subseteq> set (modules s2)" using unload_sdioif_effect [OF 2] by (simp add: mod_effect_def)
    moreover have "set_option (sdioif_module b) \<inter> set (modules s3) = {}"
      using unload_sdioif_gone [OF _ b _ a, of s2 s3] 2 z(2) p2 by simp
    ultimately show ?thesis by auto
  qed
  have eq: "wifi_qsap_unload_driver e b s =
     (if r1 \<noteq> 0 then (eERR_UNLOAD_FAILED_SOFTAP, s2\<lparr>sdio_polling := False\<rparr>)
      else if r2 \<noteq> 0 then (eERR_UNLOAD_FAILED_SDIO, s3\<lparr>sdio_polling := False\<rparr>)
      else (eSUCCESS, s3\<lparr>sdio_polling := False\<rparr>))"
    unfolding wifi_qsap_unload_driver_def Let_def s0_def [symmetric] 0 prod.case 1 2 ..
  consider "r = eERR_UNLOAD_FAILED_SOFTAP" "s' = s2\<lparr>sdio_polling := False\<rparr>"
    | "r = eERR_UNLOAD_FAILED_SDIO" "s' = s3\<lparr>sdio_polling := False\<rparr>"
    | "r = eSUCCESS" "s' = s3\<lparr>sdio_polling := False\<rparr>" "r1 = 0" "r2 = 0"
    using u unfolding eq by (auto split: if_splits)
  note cs = this
  note num = eSUCCESS_def eERR_UNLOAD_FAILED_SDIO_def eERR_UNLOAD_FAILED_SOFTAP_def
  show "r \<in> {eSUCCESS, eERR_UNLOAD_FAILED_SOFTAP, eERR_UNLOAD_FAILED_SDIO}" by (rule cs) simp_all
  show "\<not> sdio_polling s'" by (rule cs) simp_all
  show "\<forall>n. a_proc e n \<Longrightarrow> r = eSUCCESS \<Longrightarrow>
      insert (drv_module b) (set_option (sdioif_module b)) \<inter> set (modules s') = {}"
    by (rule cs) (use g in \<open>simp_all add: num\<close>)
  show "set (modules s) - insert (drv_module b) (set_option (sdioif_module b)) \<subseteq> set (modules s')"
    by (rule cs) (use p2 p3 in auto)
  show "set (modules s') \<subseteq> set (modules s)" by (rule cs) (use p2 p3 in auto)
  show "mods_ok s'" by (rule cs) (use p2 p3 in \<open>simp_all add: mods_ok_def\<close>)
qed

subsection \<open>The mode and the start\<close>

lemma get_mode_frame: "qsap_get_mode e s = (r, m, s') \<Longrightarrow> s' = s \<or> s' = tick s"
  by (auto simp: qsap_get_mode_def split: option.splits if_splits prod.splits)

lemma is_enabled_frame: "is_softap_enabled e s = (en, s') \<Longrightarrow> s' = s \<or> s' = tick s"
  by (auto simp: is_softap_enabled_def split: prod.splits if_splits dest: get_mode_frame)

lemma is_enabled_values: "is_softap_enabled e s = (en, s') \<Longrightarrow> en \<in> {ENABLE, DISABLE, eERR_UNKNOWN}"
  by (auto simp: is_softap_enabled_def split: prod.splits if_splits)

text \<open>\<open>rest\<close>: every part of the state the start and the stop do not touch.\<close>

definition rest :: "ap_st \<Rightarrow> string list \<times> bool \<times> int \<times> int list \<times> string list" where
  "rest s = (modules s, sdio_polling s, wigigSoftApPid s, children s, told s)"

lemma rest_simps [simp]: "rest (tick s) = rest s" "rest (s\<lparr>fs := f\<rparr>) = rest s" "rest (s\<lparr>fIni := i\<rparr>) = rest s"
  by (simp_all add: rest_def)

lemma rest_enabled: "is_softap_enabled e s = (en, s') \<Longrightarrow> rest s' = rest s"
  by (auto dest: is_enabled_frame)

lemma before_simps [simp]: "rest (before_attempt k e s) = rest s" "hw_pos (before_attempt k e s) = hw_pos s"
  by (simp_all add: before_attempt_def)

lemma rest_start_loop: "rest (snd (start_loop k e s)) = rest s"
proof (induction k arbitrary: s)
  case (Suc k)
  show ?case by (auto simp: Let_def Suc.IH split: prod.splits dest: rest_enabled)
qed simp

lemma rest_set_ini: "rest (qsap_set_ini_filename e s) = rest s"
  by (simp add: qsap_set_ini_filename_def split: option.splits)

lemma rest_start: "rest (snd (wifi_qsap_start_softap e s)) = rest s"
  by (auto simp: wifi_qsap_start_softap_def Let_def rest_start_loop rest_set_ini split: prod.splits dest: rest_enabled)

lemma rest_stop_bss: "rest (snd (wifi_qsap_stop_bss e s)) = rest s"
  by (auto simp: wifi_qsap_stop_bss_def split: prod.splits option.splits dest: rest_enabled)

lemma rest_stop: "rest (snd (wifi_qsap_stop_softap e s)) = rest s"
  by (auto simp: wifi_qsap_stop_softap_def rest_stop_bss split: prod.splits dest: rest_enabled)

lemma rest_modules: "rest s' = rest s \<Longrightarrow> modules s' = modules s \<and> sdio_polling s' = sdio_polling s"
  by (simp add: rest_def)

lemma stop_codes: "fst (wifi_qsap_stop_softap e s) \<in> {eSUCCESS, eERR_BSS_NOT_STARTED, eERR_STOP_BSS}"
  by (auto simp: wifi_qsap_stop_softap_def wifi_qsap_stop_bss_def split: prod.splits option.splits)

lemma start_loop_codes: "fst (start_loop k e s) \<in> {eSUCCESS, eERR_START_SAP}"
  by (induction k arbitrary: s) (auto simp: Let_def split: prod.splits)

lemma start_codes: "fst (wifi_qsap_start_softap e s) \<in> {eSUCCESS, eERR_START_SAP}"
  using start_loop_codes by (fastforce simp: wifi_qsap_start_softap_def Let_def split: prod.splits)

text \<open>\<open>up_from e T\<close>: from position \<open>T\<close> on the property service accepts the start and the driver reports the
  mode of an access point. \<open>mute_from\<close>: from \<open>T\<close> on the mode cannot be read.\<close>

definition up_from :: "ap_env \<Rightarrow> nat \<Rightarrow> bool" where
  "up_from e T \<longleftrightarrow> (\<forall>n\<ge>T. a_start e n \<and> a_sock e n \<and> a_mode e n = Some IW_MODE_MASTER)"

definition mute_from :: "ap_env \<Rightarrow> nat \<Rightarrow> bool" where
  "mute_from e T \<longleftrightarrow> (\<forall>n\<ge>T. a_sock e n \<longrightarrow> a_mode e n = None)"

lemmas mode_defs = is_softap_enabled_def qsap_get_mode_def ENABLE_def DISABLE_def IW_MODE_MASTER_def eERR_UNKNOWN_def eSUCCESS_def

lemma enabled_up: "up_from e T \<Longrightarrow> T \<le> hw_pos s \<Longrightarrow> fst (is_softap_enabled e s) \<noteq> 0"
  by (auto simp: mode_defs up_from_def split: option.splits prod.splits)

lemma enabled_mute: "mute_from e T \<Longrightarrow> T \<le> hw_pos s \<Longrightarrow> fst (is_softap_enabled e s) = -1"
  by (auto simp: mode_defs mute_from_def split: option.splits prod.splits)

lemma enabled_pos: "is_softap_enabled e s = (en, s') \<Longrightarrow> hw_pos s \<le> hw_pos s'"
  using is_enabled_frame by fastforce

lemma start_loop_live:
  assumes "up_from e T"
  shows "T \<le> hw_pos s + k \<Longrightarrow> fst (start_loop (Suc k) e s) = eSUCCESS"
proof (induction k arbitrary: s)
  case 0
  then show ?case using assms enabled_up [OF assms, of "tick (before_attempt 0 e s)"]
    by (auto simp: Let_def up_from_def split: prod.splits)
next
  case (Suc k)
  have n: "fst (start_loop (Suc k) e s') = eSUCCESS" if "Suc (hw_pos s) \<le> hw_pos s'" for s'
    using Suc.IH [of s'] Suc.prems that by simp
  obtain en s2 where i: "is_softap_enabled e (tick (before_attempt (Suc k) e s)) = (en, s2)" by fastforce
  show ?case using n enabled_pos [OF i] by (subst start_loop.simps(2)) (simp add: Let_def i del: start_loop.simps)
qed

text \<open>The prologue of the start: its state before the first attempt.\<close>

definition start_prologue :: "ap_env \<Rightarrow> ap_st \<Rightarrow> ap_st" where
  "start_prologue e s =
     (let s1 = s\<lparr>fs := check_for_configuration_files (a_io e) (fs s)\<rparr>; (en, s2) = is_softap_enabled e s1
      in qsap_set_ini_filename e (if en = 0 then s2\<lparr>fs := qsap_del_ctrl_iface (fs s2)\<rparr> else s2))"

lemma start_eq: "wifi_qsap_start_softap e s = start_loop 4 e (start_prologue e s)"
  by (simp add: wifi_qsap_start_softap_def start_prologue_def Let_def split: prod.splits del: start_loop.simps)

lemma prologue_pos: "hw_pos s \<le> hw_pos (start_prologue e s)"
  using enabled_pos by (fastforce simp: start_prologue_def qsap_set_ini_filename_def Let_def split: prod.splits option.splits)

lemma start_loop_sound:
  "start_loop k e s = (eSUCCESS, s') \<Longrightarrow>
     \<exists>s1. hw_pos s \<le> hw_pos s1 \<and> a_start e (hw_pos s1) \<and> snd (is_softap_enabled e (tick s1)) = s' \<and>
       fst (is_softap_enabled e (tick s1)) \<in> {ENABLE, eERR_UNKNOWN}"
proof (induction k arbitrary: s)
  case (Suc k)
  let ?s1 = "before_attempt k e s"
  obtain en s2 where i: "is_softap_enabled e (tick ?s1) = (en, s2)" by fastforce
  have p: "Suc (hw_pos s) \<le> hw_pos s2" using enabled_pos [OF i] by simp
  consider "a_start e (hw_pos s)" "en \<noteq> 0" "s2 = s'" | "start_loop k e (tick ?s1) = (eSUCCESS, s')"
    | "start_loop k e s2 = (eSUCCESS, s')"
    using Suc.prems by (auto simp: Let_def i split: if_splits)
  then show ?case
  proof cases
    case 1
    then show ?thesis using is_enabled_values [OF i] i by (intro exI [of _ ?s1]) (auto simp: DISABLE_def)
  next
    case 2
    from Suc.IH [OF this] p show ?thesis by (elim exE conjE) (intro exI conjI, simp_all)
  next
    case 3
    from Suc.IH [OF this] p show ?thesis by (elim exE conjE) (intro exI conjI, simp_all)
  qed
qed (simp add: eSUCCESS_def eERR_START_SAP_def)

lemma mute_later: "mute_from e T \<Longrightarrow> T \<le> U \<Longrightarrow> mute_from e U"
  by (simp add: mute_from_def)

lemma stop_mute: "mute_from e (hw_pos s) \<Longrightarrow> fst (wifi_qsap_stop_softap e s) = eERR_BSS_NOT_STARTED"
proof -
  assume m: "mute_from e (hw_pos s)"
  obtain en s1 where i: "is_softap_enabled e s = (en, s1)" by fastforce
  obtain en1 s2 where j: "is_softap_enabled e s1 = (en1, s2)" by fastforce
  have "en = -1" "en1 = -1"
    using enabled_mute [OF m, of s] enabled_mute [OF m enabled_pos [OF i]] i j by simp_all
  then show ?thesis by (simp add: wifi_qsap_stop_softap_def wifi_qsap_stop_bss_def i j ENABLE_def)
qed

lemma start_loop_mute:
  "mute_from e (hw_pos s) \<Longrightarrow> \<forall>n\<ge>hw_pos s. a_start e n \<Longrightarrow> fst (start_loop (Suc k) e s) = eSUCCESS"
  using enabled_mute [of e "hw_pos s" "tick (before_attempt k e s)"] by (auto simp: Let_def split: prod.splits)

lemma start_mute: "mute_from e (hw_pos s) \<Longrightarrow> \<forall>n\<ge>hw_pos s. a_start e n \<Longrightarrow> fst (wifi_qsap_start_softap e s) = eSUCCESS"
  using start_loop_mute [of e "start_prologue e s" 3] prologue_pos [of s e] mute_later
  by (simp add: start_eq numeral_eq_Suc del: start_loop.simps)

lemma start_loop_pos: "hw_pos s \<le> hw_pos (snd (start_loop k e s))"
proof (induction k arbitrary: s)
  case (Suc k)
  let ?s1 = "before_attempt k e s"
  obtain en s2 where i: "is_softap_enabled e (tick ?s1) = (en, s2)" by fastforce
  show ?case using Suc.IH [of "tick ?s1"] Suc.IH [of s2] enabled_pos [OF i] by (simp add: Let_def i)
qed simp

lemma start_pos: "hw_pos s \<le> hw_pos (snd (wifi_qsap_start_softap e s))"
  using start_loop_pos [of "start_prologue e s" 4 e] prologue_pos [of s e] by (simp add: start_eq del: start_loop.simps)

text \<open>
  C26. Starting the access point is live: when hostapd can be started and the driver reports the access
  point mode from a position of the environment on that is at most three queries away, the start
  returns success within its four attempts, and it leaves the modules, the polling and the processes as
  they were.
\<close>

theorem start_softap_live:
  assumes "up_from e T" and "T \<le> hw_pos s + 3"
  shows "\<exists>s'. wifi_qsap_start_softap e s = (eSUCCESS, s') \<and> rest s' = rest s"
proof -
  have "fst (wifi_qsap_start_softap e s) = eSUCCESS"
    using start_loop_live [OF assms(1), of "start_prologue e s" 3] prologue_pos [of s e] assms(2)
    by (simp add: start_eq numeral_eq_Suc)
  then show ?thesis using rest_start [of e s] by (cases "wifi_qsap_start_softap e s") simp
qed

definition slow_env :: ap_env where
  "slow_env = \<lparr>a_io = (\<lambda>_. good_io), a_ini = None, a_proc = (\<lambda>_. True), a_load = (\<lambda>_. True), a_init = (\<lambda>_. 0),
     a_del = (\<lambda>_. Deleted), a_sock = (\<lambda>_. True), a_ioctl = (\<lambda>_. True),
     a_mode = (\<lambda>n. Some (if n < 3 then 2 else IW_MODE_MASTER)), a_start = (\<lambda>n. n \<noteq> 1), a_fork = (\<lambda>n. int n + 100),
     a_chan = (\<lambda>_. Some 6), a_auto = (\<lambda>_. Some 1), a_stas = (\<lambda>_. Some []), a_stats = (\<lambda>_. None), a_hconn = (\<lambda>_. True),
     a_hmsg = (\<lambda>_. NoMessage), a_rand = 0\<rparr>"

definition mute_env :: ap_env where
  "mute_env = slow_env\<lparr>a_mode := \<lambda>_. None, a_start := \<lambda>_. True\<rparr>"

definition demo_ap :: ap_st where
  "demo_ap = \<lparr>fs = demo_sap, fIni = None, modules = [''ext4'', ''wlan''], sdio_polling = False, wigigSoftApPid = 0,
     children = [], told = [], hw_pos = 0\<rparr>"

lemma slow_up: "up_from slow_env 3"
  by (simp add: up_from_def slow_env_def)

theorem start_softap_live_witness:
  "up_from slow_env 3 \<and> (3 :: nat) \<le> hw_pos demo_ap + 3 \<and>
   (\<exists>s'. wifi_qsap_start_softap slow_env demo_ap = (eSUCCESS, s') \<and> rest s' = rest demo_ap)"
  using start_softap_live [OF slow_up, of demo_ap] by (simp add: slow_up)

text \<open>
  What a reported success of the start is worth: the start was accepted by the property service and
  the query of the mode that followed it found the access point enabled, or failed. The test of the code
  takes the error code for a confirmation, so that while the mode cannot be read every accepted start is
  a success, and then the stop and the reload refuse with eERR_BSS_NOT_STARTED.
\<close>

theorem start_success_meaning:
  assumes s: "wifi_qsap_start_softap e s = (r, s')"
  shows "r \<in> {eSUCCESS, eERR_START_SAP} \<and>
    (r = eSUCCESS \<longrightarrow> (\<exists>s1. hw_pos s \<le> hw_pos s1 \<and> a_start e (hw_pos s1) \<and>
       snd (is_softap_enabled e (tick s1)) = s' \<and> fst (is_softap_enabled e (tick s1)) \<in> {ENABLE, eERR_UNKNOWN})) \<and>
    (mute_from e (hw_pos s) \<and> (\<forall>n\<ge>hw_pos s. a_start e n) \<longrightarrow>
       r = eSUCCESS \<and> fst (wifi_qsap_stop_softap e s') = eERR_BSS_NOT_STARTED \<and>
       fst (wifi_qsap_reload_softap e b s') = eERR_BSS_NOT_STARTED)"
proof (intro conjI impI; (elim conjE)?)
  show "r \<in> {eSUCCESS, eERR_START_SAP}" using start_codes [of e s] s by simp
next
  assume "r = eSUCCESS"
  then show "\<exists>s1. hw_pos s \<le> hw_pos s1 \<and> a_start e (hw_pos s1) \<and>
       snd (is_softap_enabled e (tick s1)) = s' \<and> fst (is_softap_enabled e (tick s1)) \<in> {ENABLE, eERR_UNKNOWN}"
    using start_loop_sound [of 4 e "start_prologue e s" s'] s order_trans [OF prologue_pos [of s e]]
    unfolding start_eq by blast
next
  assume m: "mute_from e (hw_pos s)" "\<forall>n\<ge>hw_pos s. a_start e n"
  show r: "r = eSUCCESS" using start_mute [OF m] s by simp
  have "mute_from e (hw_pos s')" using mute_later [OF m(1)] start_pos [of s e] s by simp
  then have "fst (wifi_qsap_stop_softap e s') = eERR_BSS_NOT_STARTED" by (rule stop_mute)
  then show "fst (wifi_qsap_stop_softap e s') = eERR_BSS_NOT_STARTED"
    "fst (wifi_qsap_reload_softap e b s') = eERR_BSS_NOT_STARTED"
    by (auto simp: wifi_qsap_reload_softap_def eERR_BSS_NOT_STARTED_def eSUCCESS_def split: prod.splits)
qed

theorem start_success_meaning_witness:
  "mute_from mute_env 0 \<and> (\<exists>s'. wifi_qsap_start_softap mute_env demo_ap = (eSUCCESS, s') \<and>
     fst (wifi_qsap_stop_softap mute_env s') = eERR_BSS_NOT_STARTED)"
proof -
  obtain r s' where s: "wifi_qsap_start_softap mute_env demo_ap = (r, s')" by fastforce
  have "mute_from mute_env 0" "\<forall>n\<ge>0. a_start mute_env n" "hw_pos demo_ap = 0"
    by (simp_all add: mute_from_def mute_env_def demo_ap_def)
  then show ?thesis using start_success_meaning [OF s] s by simp
qed

subsection \<open>Loading and reloading\<close>

text \<open>
  Loading the driver: the result is success, -1 or one of the two load errors. On success the driver
  module is loaded and every module that was loaded still is; on failure at most cfg80211 and the SDIO
  module are removed. The polling of the SDIO bus that the load switches on is switched off again on
  every path but one, the failure of cfg80211, which returns -1 with the polling left on.
\<close>

theorem load_driver_outcome:
  assumes "build_ok b" and "mods_ok s" and "wifi_qsap_load_driver e b s = (r, s')"
  shows "r \<in> {eSUCCESS, -1, eERR_LOAD_FAILED_SDIOIF, eERR_LOAD_FAILED_SOFTAP} \<and>
    (sdio_polling s' \<longleftrightarrow> r = -1) \<and>
    (r = eSUCCESS \<longrightarrow> drv_module b \<in> set (modules s') \<and> set (modules s) \<subseteq> set (modules s')) \<and>
    set (modules s) - side_modules b \<subseteq> set (modules s') \<and>
    set (modules s') \<subseteq> set (modules s) \<union> insert (drv_module b) (side_modules b)"
  using load_driver_effect [OF assms] by simp

definition demo_build :: ap_build where
  "demo_build = \<lparr>drv_module = ''wlan'', sdioif_module = Some ''librasdioif'', cfg80211_path = ''/system/lib/modules/cfg80211.ko'',
     cfg80211_module = ''cfg80211'', concurrency = False\<rparr>"

lemma demo_build_ok: "build_ok demo_build" "mods_ok demo_ap"
  by (simp_all add: build_ok_def name_ok_def demo_build_def mods_ok_def demo_ap_def)

text \<open>An environment in which the file of cfg80211 cannot be loaded.\<close>

definition broken_env :: ap_env where
  "broken_env = slow_env\<lparr>a_load := \<lambda>_. False\<rparr>"

lemma broken_load: "fst (wifi_qsap_load_driver broken_env demo_build demo_ap) = -1"
  by (simp add: wifi_qsap_load_driver_def insmod_def check_driver_loaded_def listed_def broken_env_def slow_env_def
      demo_build_def demo_ap_def tick_def)

theorem load_driver_outcome_witness:
  "build_ok demo_build \<and> mods_ok demo_ap \<and> sdio_polling (snd (wifi_qsap_load_driver broken_env demo_build demo_ap))"
proof -
  obtain s' where "wifi_qsap_load_driver broken_env demo_build demo_ap = (-1, s')"
    using broken_load by (metis prod.collapse)
  then show ?thesis using load_driver_outcome [OF demo_build_ok] demo_build_ok by fastforce
qed

lemma reload_eq:
  "wifi_qsap_reload_softap e b s =
     (let a = wifi_qsap_stop_softap e s; u = wifi_qsap_unload_driver e b (snd a);
          l = wifi_qsap_load_driver e b (snd u); t = wifi_qsap_start_softap e (snd l)
      in if fst a \<noteq> eSUCCESS then a else if fst u \<noteq> eSUCCESS then u else if fst l \<noteq> eSUCCESS then l
         else if fst t \<noteq> eSUCCESS then (fst t, snd (wifi_qsap_unload_driver e b (snd t))) else t)"
  by (auto simp: wifi_qsap_reload_softap_def Let_def split: prod.splits)

definition modules_within :: "ap_build \<Rightarrow> ap_st \<Rightarrow> ap_st \<Rightarrow> bool" where
  "modules_within b s s' \<longleftrightarrow> set (modules s) - insert (drv_module b) (side_modules b) \<subseteq> set (modules s') \<and>
     set (modules s') \<subseteq> set (modules s) \<union> insert (drv_module b) (side_modules b)"

lemma modules_within_trans: "modules_within b s s1 \<Longrightarrow> modules_within b s1 s2 \<Longrightarrow> modules_within b s s2"
  by (auto simp: modules_within_def)

text \<open>
  C27. Reloading the access point composes stop, unload, load and start, and success means what the caller
  relies on: the driver module is loaded, the polling is off, and no module other than the driver's own
  ones was touched; the polling is left on only by a reload that returns -1.
\<close>

theorem reload_outcome:
  assumes b: "build_ok b" and m: "mods_ok s" and p: "\<not> sdio_polling s" and r: "wifi_qsap_reload_softap e b s = (r, s')"
  shows "(r = eSUCCESS \<longrightarrow> drv_module b \<in> set (modules s')) \<and> (sdio_polling s' \<longleftrightarrow> r = -1) \<and> mods_ok s' \<and>
    modules_within b s s'"
proof -
  obtain ra s1 where a: "wifi_qsap_stop_softap e s = (ra, s1)" by fastforce
  obtain ru s2 where u: "wifi_qsap_unload_driver e b s1 = (ru, s2)" by fastforce
  obtain rl s3 where l: "wifi_qsap_load_driver e b s2 = (rl, s3)" by fastforce
  obtain rt s4 where t: "wifi_qsap_start_softap e s3 = (rt, s4)" by fastforce
  obtain rv s5 where v: "wifi_qsap_unload_driver e b s4 = (rv, s5)" by fastforce
  have 1: "modules s1 = modules s" "sdio_polling s1 = sdio_polling s" "mods_ok s1"
    using rest_modules [OF rest_stop, of e s] a m by (simp_all add: mods_ok_def)
  note 2 = unload_driver_effect [OF b 1(3) u]
  note 3 = load_driver_effect [OF b 2(6) l]
  have 4: "modules s4 = modules s3" "sdio_polling s4 = sdio_polling s3" "mods_ok s4"
    using rest_modules [OF rest_start, of e s3] t 3(7) by (simp_all add: mods_ok_def)
  note 5 = unload_driver_effect [OF b 4(3) v]
  have c: "ra \<noteq> -1" "ru \<noteq> -1" "rt \<noteq> -1" using stop_codes [of e s] start_codes [of e s3] 2(1)
    by (auto simp: a t drv_rc_defs eSUCCESS_def)
  have f2: "modules_within b s s2" using 1(1) 2(4,5) by (auto simp: modules_within_def side_modules_def)
  have f3: "modules_within b s s3"
    by (rule modules_within_trans [OF f2]) (use 3(5,6) in \<open>auto simp: modules_within_def\<close>)
  have f5: "modules_within b s s5"
    by (rule modules_within_trans [OF f3]) (use 4(1) 5(4,5) in \<open>auto simp: modules_within_def side_modules_def\<close>)
  have f: "modules_within b s s1" "modules_within b s s4" using 1(1) 4(1) f3 by (auto simp: modules_within_def)
  consider "r = ra" "s' = s1" "ra \<noteq> eSUCCESS" | "r = ru" "s' = s2" "ru \<noteq> eSUCCESS" | "r = rl" "s' = s3" "rl \<noteq> eSUCCESS"
    | "r = rt" "s' = s5" "rl = eSUCCESS" "rt \<noteq> eSUCCESS" | "r = rt" "s' = s4" "rl = eSUCCESS" "rt = eSUCCESS"
    using r unfolding reload_eq by (auto simp: a u l t v Let_def split: if_splits)
  note cs = this
  show ?thesis 
    by (rule cs) (use f f2 f3 f5 c p 1 2(2,6) 3(2,3,7) 4 5(2,6) in \<open>simp_all add: eSUCCESS_def\<close>)
qed

text \<open>An access point whose configuration names the interface, and whose driver comes up late.\<close>

definition conf_ap :: ap_st where
  "conf_ap = demo_ap\<lparr>fs := demo_sap\<lparr>files := (files demo_sap)
     (CONFIG_FILE \<mapsto> ''interface=wlan0'' @ [NL], ACCEPT_LIST_FILE \<mapsto> ''#'', DENY_LIST_FILE \<mapsto> ''#'')\<rparr>\<rparr>"

definition late_env :: ap_env where
  "late_env = slow_env\<lparr>a_mode := \<lambda>n. Some (if n < 16 then 2 else IW_MODE_MASTER)\<rparr>"

lemma late_reload: "fst (wifi_qsap_reload_softap late_env demo_build conf_ap) = eSUCCESS"
  by code_simp

theorem reload_outcome_witness:
  "\<not> sdio_polling conf_ap \<and> fst (wifi_qsap_reload_softap late_env demo_build conf_ap) = eSUCCESS \<and>
   ''wlan'' \<in> set (modules (snd (wifi_qsap_reload_softap late_env demo_build conf_ap)))"
proof -
  have c: "mods_ok conf_ap" "\<not> sdio_polling conf_ap" using demo_build_ok(2) by (simp_all add: conf_ap_def mods_ok_def demo_ap_def)
  have d: "drv_module demo_build = ''wlan''" by (simp add: demo_build_def)
  show ?thesis
    using reload_outcome [OF demo_build_ok(1) c prod.collapse [symmetric], of late_env] late_reload c(2) d by simp
qed

subsection \<open>The WiGig process\<close>

datatype wigig_op = Start | Stop

fun wigig_step :: "ap_env \<Rightarrow> wigig_op \<Rightarrow> ap_st \<Rightarrow> ap_st" where
  "wigig_step e Start s = snd (wifi_qsap_start_wigig_softap e s)"
| "wigig_step e Stop s = snd (wifi_qsap_stop_wigig_softap s)"

definition wigig_inv :: "ap_st \<Rightarrow> bool" where
  "wigig_inv s \<longleftrightarrow> children s = (if wigigSoftApPid s = 0 then [] else [wigigSoftApPid s])"

lemma wigig_step_inv: "wigig_inv s \<Longrightarrow> \<forall>n. a_fork e n \<noteq> 0 \<Longrightarrow> wigig_inv (wigig_step e p s)"
  by (cases p) (auto simp: wigig_inv_def wifi_qsap_start_wigig_softap_def wifi_qsap_stop_wigig_softap_def Let_def)

text \<open>
  Whatever sequence of starts and stops of the WiGig access point is issued, the library has at most
  one child process, and it is the one whose identifier is stored; a further start is refused without
  forking while one runs, and a stop ends and reaps it, so that the next start may fork again.
\<close>

theorem wigig_single_process:
  assumes "wigig_inv s" and "\<forall>n. a_fork e n \<noteq> 0"
  shows "let s' = fold (wigig_step e) ops s in
     wigig_inv s' \<and>
     (children s' \<noteq> [] \<longrightarrow> wifi_qsap_start_wigig_softap e s' = (eERR_START_SAP, s')) \<and>
     children (wigig_step e Stop s') = [] \<and>
     (a_fork e (hw_pos s') > 0 \<longrightarrow>
        children (wigig_step e Start (wigig_step e Stop s')) = [a_fork e (hw_pos s')])"
proof -
  have i: "wigig_inv (fold (wigig_step e) ops s)" using assms
    by (induction ops arbitrary: s) (simp_all add: wigig_step_inv)
  show ?thesis unfolding Let_def
    using i by (auto simp: wigig_inv_def wifi_qsap_start_wigig_softap_def wifi_qsap_stop_wigig_softap_def Let_def)
qed

theorem wigig_single_process_witness:
  "wigig_inv demo_ap \<and> children (wigig_step slow_env Stop (fold (wigig_step slow_env) [Start, Start, Stop, Start] demo_ap)) = []"
proof -
  have i: "wigig_inv demo_ap" by (simp add: wigig_inv_def demo_ap_def)
  have f: "\<forall>n. a_fork slow_env n \<noteq> 0" by (simp add: slow_env_def)
  show ?thesis using wigig_single_process [OF i f, of "[Start, Start, Stop, Start]"] i by (simp only: Let_def simp_thms)
qed

end
