(* ===== verification/Sap_Station.thy ===== *)
theory Sap_Station
  imports Sap_Request Sap_Lists Sap_Start
begin

text \<open>
  Addresses of stations: \<^verbatim>\<open>atoh\<close> agrees with the base 16 conversion of the C library, and the list that
  \<^verbatim>\<open>get sta_mac_list\<close> prints consists of addresses that every other request accepts and that
  \<^verbatim>\<open>disassoc_sta\<close> converts back to the bytes the driver reported.
\<close>

subsection \<open>Hexadecimal numbers\<close>

lemma hex_val_digit: "is_digit 16 c \<Longrightarrow> hex_val c = digit_val c"
  by (auto simp: is_digit_def digit_val_def hex_val_def Let_def split: if_splits)

lemma atoh_loop_eq:
  "\<forall>c\<in>set ds. is_digit 16 c \<Longrightarrow>
     atoh_loop (rev ds) pos val = val + push_bit pos (of_nat (scan_digits 16 0 ds))"
proof (induction ds arbitrary: pos val rule: rev_induct)
  case (snoc c ds)
  then obtain d where d: "digit_val c = Some d" "d < 16" "hex_val c = Some d"
    by (auto simp: is_digit_def hex_val_digit split: option.splits)
  have n: "scan_digits 16 0 (ds @ [c]) = 16 * scan_digits 16 0 ds + d"
    using snoc.prems d by (simp add: scan_digits_append)
  show ?case using snoc d unfolding n
    by (simp add: push_bit_eq_mult power_add algebra_simps)
qed simp



subsection \<open>The list of stations\<close>

definition mac_text :: "u8 list \<Rightarrow> string" where
  "mac_text mac = butlast (macstr_of mac)"

lemma hex_digit_props: "d < 16 \<Longrightarrow> is_digit 16 (hex_digit d) \<and> hex_val (hex_digit d) = Some d \<and> hex_digit d \<noteq> CHR '':''"
proof -
  assume "d < 16"
  then show ?thesis
    by (auto simp: hex_digit_def is_digit_def digit_val_def hex_val_def Let_def dest!: arg_cong [where f = "of_char :: char \<Rightarrow> nat"])
qed

lemma byte_digits:
  "unat b div 16 < 16" "unat (b :: u8) mod 16 < 16"
  using unsigned_less [of b] by (auto simp: div_less_iff_less_mult)

lemma atoh_byte: "ucast (atoh (fmt_02X b)) = b"
proof -
  have "atoh (fmt_02X b) = of_nat (unat b mod 16) + push_bit 4 (of_nat (unat b div 16))"
    using hex_digit_props [OF byte_digits(1), of b] hex_digit_props [OF byte_digits(2), of b]
    by (simp add: atoh_def fmt_02X_def)
  also have "\<dots> = of_nat (unat b)"
  proof -
    have "unat b = unat b mod 16 + unat b div 16 * 16" by simp
    then have "(of_nat (unat b) :: u32) = of_nat (unat b mod 16) + of_nat (unat b div 16) * 16"
      by (metis of_nat_add of_nat_mult of_nat_numeral)
    then show ?thesis by (simp add: push_bit_eq_mult)
  qed
  finally show ?thesis by (simp add: bit_eq_iff bit_simps)
qed

lemma length_fmt_02X [simp]: "length (fmt_02X b) = 2"
  by (simp add: fmt_02X_def)

lemma mac_text_eq:
  assumes "length mac = 6"
  obtains a b c d e f where "mac = [a, b, c, d, e, f]"
    "mac_text mac = fmt_02X a @ '':'' @ fmt_02X b @ '':'' @ fmt_02X c @ '':'' @ fmt_02X d @ '':'' @ fmt_02X e @ '':'' @ fmt_02X f"
proof -
  from assms obtain a b c d e f where m: "mac = [a, b, c, d, e, f]"
    by (auto simp: numeral_eq_Suc length_Suc_conv)
  show thesis by (rule that [OF m]) (simp add: mac_text_def macstr_of_def m butlast_append fmt_02X_def)
qed

lemma mac_text_valid: "length mac = 6 \<Longrightarrow> isValid_MAC_address (mac_text mac) \<and> length (mac_text mac) = 17"
proof -
  assume "length mac = 6"
  then obtain a b c d e f where m: "mac = [a, b, c, d, e, f]"
    "mac_text mac = fmt_02X a @ '':'' @ fmt_02X b @ '':'' @ fmt_02X c @ '':'' @ fmt_02X d @ '':'' @ fmt_02X e @ '':'' @ fmt_02X f"
    by (rule mac_text_eq)
  have x: "isxdigit (hex_digit (unat v div 16))" "isxdigit (hex_digit (unat v mod 16))" for v :: u8
    using hex_digit_props [OF byte_digits(1)] hex_digit_props [OF byte_digits(2)] by (simp_all add: isxdigit_def)
  show ?thesis by (simp add: m(2) fmt_02X_def isValid_MAC_address_def MAC_ADDR_LEN_def upt_conv_Cons x)
qed

lemma mac_bytes_byte: "mac_bytes (fmt_02X b @ '':'' @ t) = b # mac_bytes t" "mac_bytes (fmt_02X b) = [b]"
  using hex_digit_props [OF byte_digits(1), of b] atoh_byte [of b] by (simp_all add: fmt_02X_def)

lemma mac_in_bytes: "length mac = 6 \<Longrightarrow> qsap_get_mac_in_bytes (mac_text mac) = Some (mac @ [0])"
proof -
  assume l: "length mac = 6"
  then obtain a b c d e f where m: "mac = [a, b, c, d, e, f]"
    "mac_text mac = fmt_02X a @ '':'' @ fmt_02X b @ '':'' @ fmt_02X c @ '':'' @ fmt_02X d @ '':'' @ fmt_02X e @ '':'' @ fmt_02X f"
    by (rule mac_text_eq)
  show ?thesis using mac_text_valid [OF l] by (simp add: qsap_get_mac_in_bytes_def m(2) mac_bytes_byte [simplified]) (simp add: m(1))
qed

lemma macstr_split: "length mac = 6 \<Longrightarrow> macstr_of mac = mac_text mac @ '' ''"
  by (simp add: mac_text_def macstr_of_def butlast_append)

lemma macs_text_ok: "\<forall>m\<in>set macs. length m = 6 \<Longrightarrow> macs_ok (map mac_text macs)"
  by (auto simp: macs_ok_def MAC_ADDR_LEN_def mac_text_valid)

lemma macstr_loop:
  "\<forall>m\<in>set macs. length m = 6 \<Longrightarrow> 18 * length macs < n \<Longrightarrow>
     mac_to_macstr_loop macs n = concat (map (\<lambda>m. mac_text m @ '' '') macs)"
proof (induction macs arbitrary: n)
  case (Cons m macs)
  have t: "scn n (macstr_of m) = mac_text m @ '' ''" "length (mac_text m) = 17"
    using Cons.prems mac_text_valid [of m] by (simp_all add: scn_def qsap_scnprintf_def macstr_split)
  show ?case using Cons t by simp
qed simp

lemma butlast_concat_join: "ms \<noteq> [] \<Longrightarrow> butlast (concat (map (\<lambda>m. m @ '' '') ms)) = join_macs ms"
  by (induction ms rule: join_macs.induct) (auto simp: butlast_append)

lemma macstr_join:
  assumes "\<forall>m\<in>set macs. length m = 6" and "18 * length macs < n"
  shows "qsap_mac_to_macstr macs n = join_macs (map mac_text macs)"
proof -
  have "map (\<lambda>m. mac_text m @ '' '') macs = map (\<lambda>m. m @ '' '') (map mac_text macs)" by simp
  then show ?thesis using assms butlast_concat_join [of "map mac_text macs"]
    by (cases "macs = []") (simp_all add: qsap_mac_to_macstr_def macstr_loop comp_def)
qed

text \<open>
  C29. When the driver reports its stations, the request \<^verbatim>\<open>get sta_mac_list\<close> answers in a buffer that has room for
  them with the addresses in the order of the driver, one space between two of them; each of them is a
  valid address of seventeen characters for the list requests, and the conversion of \<^verbatim>\<open>disassoc_sta\<close> gives
  back exactly the six bytes of the station and the terminator, which fit into the request to the driver.
\<close>

theorem stations_roundtrip:
  assumes "driver_query e (a_stas e) s = (Some macs, s')" and "\<forall>m\<in>set macs. length m = 6"
    and "21 + 18 * length macs < n"
  shows "qsap_get_associated_sta_mac e (buf, n) s =
      ((''success sta_mac_list='' @ join_macs (map mac_text macs), 21 + length (join_macs (map mac_text macs))), s') \<and>
    macs_ok (map mac_text macs) \<and>
    map qsap_get_mac_in_bytes (map mac_text macs) = map (\<lambda>m. Some (m @ [0])) macs"
proof -
  have h: "SUCCESS @ '' '' @ name (cmd_list ! eCMD_ASSOC_STA_MACS) @ ''='' = ''success sta_mac_list=''"
    by (simp add: SUCCESS_def cmd_list_def eCMD_ASSOC_STA_MACS_def)
  have p: "qsap_scnprintf ''success sta_mac_list='' (buf, n) = (''success sta_mac_list='', 21)"
    using assms(3) by (simp add: qsap_scnprintf_def)
  have j: "qsap_mac_to_macstr macs (n - 21) = join_macs (map mac_text macs)"
    using assms(3) by (intro macstr_join [OF assms(2)]) simp
  have "qsap_get_associated_sta_mac e (buf, n) s =
      ((''success sta_mac_list='' @ join_macs (map mac_text macs), 21 + length (join_macs (map mac_text macs))), s')"
    unfolding qsap_get_associated_sta_mac_def assms(1) prod.case option.case h p snd_conv Let_def j ..
  then show ?thesis using macs_text_ok [OF assms(2)] assms(2) by (simp add: mac_in_bytes)
qed

definition two_stations :: "u8 list list" where
  "two_stations = [[0, 0x0A, 0xF5, 0x89, 0x89, 0xFF], [0x12, 0x34, 0x56, 0x78, 0x9A, 0xBC]]"

definition busy_env :: ap_env where
  "busy_env = slow_env\<lparr>a_mode := \<lambda>_. Some IW_MODE_MASTER, a_stas := \<lambda>_. Some two_stations\<rparr>"

lemma busy_query: "fst (driver_query busy_env (a_stas busy_env) conf_ap) = Some two_stations"
  by code_simp

theorem stations_roundtrip_witness:
  "fst (fst (qsap_get_associated_sta_mac busy_env ([], 255) conf_ap)) = ''success sta_mac_list=00:0A:F5:89:89:FF 12:34:56:78:9A:BC'' \<and>
   map qsap_get_mac_in_bytes [''00:0A:F5:89:89:FF'', ''12:34:56:78:9A:BC''] = map (\<lambda>m. Some (m @ [0])) two_stations"
proof -
  obtain s' where q: "driver_query busy_env (a_stas busy_env) conf_ap = (Some two_stations, s')"
    using busy_query by (cases "driver_query busy_env (a_stas busy_env) conf_ap") simp
  have l: "\<forall>m\<in>set two_stations. length m = 6" by (simp add: two_stations_def)
  have t: "map mac_text two_stations = [''00:0A:F5:89:89:FF'', ''12:34:56:78:9A:BC'']" by code_simp
  show ?thesis using stations_roundtrip [OF q l, of 255 "[]"] unfolding t by (simp add: two_stations_def)
qed

text \<open>The address test looks at seventeen characters only: an argument that goes on fills more bytes than the
  request to the driver has room for.\<close>

lemma disassoc_overrun:
  "qsap_disassociate_sta busy_env (''00:0A:F5:89:89:FF'' @ replicate 29 (CHR ''0'')) ([], 255) conf_ap = None"
  by code_simp

end
