(* ===== verification/Sap_Dispatch.thy ===== *)
theory Sap_Dispatch
  imports Sap_Request Sap_Lists Sap_Start
begin

text \<open>
  What the requests of the soft access point guarantee through their entry point \<^verbatim>\<open>qsap_hostd_exec_cmd\<close>: a
  parameter that was set is read back, an invalid value is refused without an effect, the switch of the
  access point, the channel and its operating mode, and the control socket of hostapd.
\<close>

subsection \<open>Well-formed states\<close>

definition filled :: "sap_st \<Rightarrow> string \<Rightarrow> bool" where
  "filled f p \<longleftrightarrow> (case files f p of None \<Rightarrow> False | Some c \<Rightarrow> c \<noteq> [])"

definition ready :: "ap_env \<Rightarrow> string list \<Rightarrow> ap_st \<Rightarrow> bool" where
  "ready e ls s \<longleftrightarrow> holds (fs s) CONFIG_FILE ls \<and> filled (fs s) CONFIG_FILE \<and> filled (fs s) ACCEPT_LIST_FILE \<and>
     filled (fs s) DENY_LIST_FILE \<and> fIni s \<noteq> None \<and> (\<forall>n. io_ok (a_io e n))"

lemma paths: "length CONFIG_FILE < 156" "ACCEPT_LIST_FILE \<noteq> CONFIG_FILE" "ACCEPT_LIST_FILE \<noteq> CONFIG_FILE @ ''~''"
  "DENY_LIST_FILE \<noteq> CONFIG_FILE" "DENY_LIST_FILE \<noteq> CONFIG_FILE @ ''~''"
  by (simp_all add: CONFIG_FILE_def ACCEPT_LIST_FILE_def DENY_LIST_FILE_def)

lemma check_filled:
  "filled f CONFIG_FILE \<Longrightarrow> filled f ACCEPT_LIST_FILE \<Longrightarrow> filled f DENY_LIST_FILE \<Longrightarrow> check_for_configuration_files io f = f"
  by (auto simp: check_for_configuration_files_def ensure_file_def filled_def split: option.splits)

lemma ready_prologue: "ready e ls s \<Longrightarrow> s\<lparr>fs := check_for_configuration_files (a_io e) (fs s)\<rparr> = s"
  by (simp add: ready_def check_filled)

subsection \<open>From the command to the parameter\<close>

lemma cmd_name_chars: "i < 74 \<Longrightarrow> name (cmd_list ! i) \<noteq> [] \<and> \<not> is_blank (hd (name (cmd_list ! i)))"
proof -
  have "list_all (\<lambda>c. name c \<noteq> [] \<and> \<not> is_blank (hd (name c))) cmd_list" by (simp add: cmd_list_def is_blank_def)
  then show "i < 74 \<Longrightarrow> ?thesis" using command_names(3) by (simp add: list_all_length)
qed

lemma skip_blank_name: "i < 74 \<Longrightarrow> skip_blank ('' '' @ name (cmd_list ! i) @ t) = name (cmd_list ! i) @ t"
  using cmd_name_chars [of i] by (cases "name (cmd_list ! i)") (auto simp: skip_blank_def is_blank_def)

lemma exec_get:
  assumes "ready e ls s" and "c < 74"
  shows "qsap_hostd_exec_cmd e b (''get '' @ name (cmd_list ! c)) past r s = Some (qsap_get_from_config e c r s)"
proof -
  have g: "skip_blank (''get '' @ name (cmd_list ! c)) = ''get '' @ name (cmd_list ! c)"
    by (simp add: skip_blank_def is_blank_def)
  obtain y where "fIni s = Some y" using assms(1) by (auto simp: ready_def)
  then show ?thesis
    using skip_blank_name [OF assms(2), of "[]"] cmd_num_correct [OF assms(2)]
    by (simp add: qsap_hostd_exec_cmd_def g [simplified] ready_prologue [OF assms(1)] Let_def is_blank_def
        qsap_handle_get_request_def eCMD_INVALID_def)
qed

lemma exec_set:
  assumes "ready e ls s" and "c < 74" and "v \<noteq> []"
  shows "qsap_hostd_exec_cmd e b (''set '' @ name (cmd_list ! c) @ ''='' @ v) past r s =
    set_param e b c (name (cmd_list ! c) @ ''='' @ v) v past r s"
proof -
  have g: "skip_blank (''set '' @ name (cmd_list ! c) @ ''='' @ v) = ''set '' @ name (cmd_list ! c) @ ''='' @ v"
    by (simp add: skip_blank_def is_blank_def)
  obtain y where "fIni s = Some y" using assms(1) by (auto simp: ready_def)
  then show ?thesis
    using skip_blank_name [OF assms(2), of "''='' @ v"] cmd_num_correct [OF assms(2), of v] assms(3)
    by (simp add: qsap_hostd_exec_cmd_def g [simplified] ready_prologue [OF assms(1)] Let_def is_blank_def
        qsap_handle_set_request_def eCMD_INVALID_def)
qed

subsection \<open>Parameters that are stored as given\<close>

definition plain_params :: "nat list" where
  "plain_params = [eCMD_SSID, eCMD_BSSID, eCMD_BCN_INTERVAL, eCMD_DTIM_PERIOD, eCMD_AUTH_ALGS, eCMD_PASSPHRASE,
     eCMD_SDK_VERSION, eCMD_WMM_STATE, eCMD_UUID, eCMD_DEVICE_NAME, eCMD_MANUFACTURER, eCMD_MODEL_NAME,
     eCMD_MODEL_NUMBER, eCMD_SERIAL_NUMBER, eCMD_DEVICE_TYPE, eCMD_OS_VERSION, eCMD_FRIENDLY_NAME,
     eCMD_MANUFACTURER_URL, eCMD_MODEL_DESC, eCMD_MODEL_URL, eCMD_UPC, eCMD_FRAG_THRESHOLD, eCMD_RTS_THRESHOLD,
     eCMD_GTK_TIMEOUT, eCMD_COUNTRY_CODE, eCMD_REGULATORY_DOMAIN, eCMD_IEEE80211H]"

lemma plain_bound: "c \<in> set plain_params \<Longrightarrow> c < 74"
  by (auto simp: plain_params_def cmd_num_defs)

lemma plain_ini: "c \<in> set plain_params \<Longrightarrow> ini_target c = None"
  by (auto simp: plain_params_def cmd_num_defs ini_target_def)

lemma plain_set: "c \<in> set plain_params \<Longrightarrow> set_param e b c pcmd v past r s = Some (write_checked e c v r s)"
  unfolding plain_params_def by (simp, elim disjE) (simp_all add: set_param_def cmd_num_defs)

lemma plain_get: "c \<in> set plain_params \<Longrightarrow> get_from_config e c r s =
    (snd (qsap_read_cfg CONFIG_FILE (cmd_list ! c) None (c \<in> set commented_params) r (fs s)), s)"
  unfolding plain_params_def
  by (simp, elim disjE) (simp_all add: get_from_config_def cmd_num_defs commented_params_def enabled_params_def)

lemma conf_nonempty: "conf_ok ls \<Longrightarrow> ls \<noteq> [] \<Longrightarrow> concat ls \<noteq> []"
proof
  assume a: "conf_ok ls" "ls \<noteq> []" "concat ls = []"
  show False using fgets_conf [OF a(1)] fgets_lines.simps [of MAX_CONF_LINE_LEN "[]"] a(2) unfolding a(3) by simp
qed

lemma filled_holds: "holds f p ls \<Longrightarrow> filled f p \<longleftrightarrow> ls \<noteq> []"
  using conf_nonempty [of ls] by (auto simp: holds_def filled_def)

lemma ready_files:
  assumes "ready e ls s" and "holds f CONFIG_FILE ls'" and "ls' \<noteq> []"
    and "\<And>q. q \<noteq> CONFIG_FILE \<Longrightarrow> q \<noteq> CONFIG_FILE @ ''~'' \<Longrightarrow> files f q = files (fs s) q"
  shows "ready e ls' (s\<lparr>fs := f\<rparr>)"
proof -
  have "filled f q = filled (fs s) q" if "q \<noteq> CONFIG_FILE" "q \<noteq> CONFIG_FILE @ ''~''" for q
    using assms(4) [OF that] by (simp add: filled_def)
  then show ?thesis using assms(1-3) paths filled_holds [OF assms(2)] by (simp add: ready_def)
qed

text \<open>Writing and changing a parameter in a ready state.\<close>

lemma write_ready:
  assumes "ready e ls s" and "cmd \<in> all_commands" and "val_ok (name cmd) v"
  obtains s' where "fs_write e CONFIG_FILE cmd v False r s = (eSUCCESS, qsap_scnprintf SUCCESS r, s')"
    "ready e (put_lines (name cmd) v False ls) s'"
proof -
  note k = command_key [OF assms(2)]
  have h: "holds (fs s) CONFIG_FILE ls" and io: "io_ok (a_io e (io_pos (fs s)))" and c: "conf_ok ls"
    using assms(1) by (simp_all add: ready_def holds_def)
  obtain f where f: "qsap_write_cfg (a_io e) CONFIG_FILE cmd v False r (fs s) = (eSUCCESS, qsap_scnprintf SUCCESS r, f)"
    "holds f CONFIG_FILE (put_lines (name cmd) v False ls)"
    "\<And>q. q \<noteq> CONFIG_FILE \<Longrightarrow> q \<noteq> CONFIG_FILE @ ''~'' \<Longrightarrow> files f q = files (fs s) q"
    using write_cfg_ok [where e = "a_io e", OF h io paths(1) k assms(3)] by blast
  have "put_lines (name cmd) v False ls \<noteq> []" using find_put [OF c k assms(3) k, of False False] by auto
  then show thesis using that [of "s\<lparr>fs := f\<rparr>"] ready_files [OF assms(1) f(2) _ f(3)] f(1) by (simp add: fs_write_def)
qed

lemma change_ready:
  assumes "ready e ls s" and "cmd \<in> all_commands"
  obtains s' where "fs_change e CONFIG_FILE cmd b s = (eSUCCESS, s')" "ready e (change_lines (name cmd) b ls) s'"
proof -
  note k = command_key [OF assms(2)]
  have h: "holds (fs s) CONFIG_FILE ls" and io: "io_ok (a_io e (io_pos (fs s)))" and n: "ls \<noteq> []"
    using assms(1) filled_holds by (auto simp: ready_def)
  obtain f where f: "qsap_change_cfg (a_io e) CONFIG_FILE cmd b (fs s) = (0, f)"
    "holds f CONFIG_FILE (change_lines (name cmd) b ls)"
    "\<And>q. q \<noteq> CONFIG_FILE \<Longrightarrow> q \<noteq> CONFIG_FILE @ ''~'' \<Longrightarrow> files f q = files (fs s) q"
    using change_cfg_ok [where e = "a_io e", OF h io paths(1) k] by blast
  have "change_lines (name cmd) b ls \<noteq> []" using n by (simp add: change_lines_def)
  then show thesis using that [of "s\<lparr>fs := f\<rparr>"] ready_files [OF assms(1) f(2) _ f(3)] f(1)
    by (simp add: fs_change_def eSUCCESS_def)
qed

lemma cmd_in: "i < 74 \<Longrightarrow> cmd_list ! i \<in> all_commands"
  using command_names(3) by (simp add: all_commands_def)

lemma drop_last: "xs = [] \<or> \<not> P (last xs) \<Longrightarrow> dropWhile P (rev xs) = rev xs"
  by (cases xs rule: rev_cases) auto

lemma trim_id: "\<not> is_blank (last t) \<Longrightarrow> m = length t \<Longrightarrow> trim_response (t, m) = (t, m)"
  by (cases t) (auto simp: trim_response_def Let_def drop_last split: if_splits)

text \<open>A get request after a write, for the parameter written and for another one.\<close>

lemma get_written:
  assumes "ready e ls s" and "ready e (put_lines (name (cmd_list ! c)) w False ls) s'" and "c \<in> set plain_params"
    and "val_ok (name (cmd_list ! c)) w" and "w \<noteq> []" and "\<not> is_blank (last w)" and "164 \<le> n"
  shows "qsap_hostd_exec_cmd e b (''get '' @ name (cmd_list ! c)) past (buf, n) s' =
    Some ((''success '' @ name (cmd_list ! c) @ ''='' @ w, 9 + length (name (cmd_list ! c)) + length w), s')"
proof -
  let ?k = "name (cmd_list ! c)"
  note c = plain_bound [OF assms(3)] and k = command_key [OF cmd_in [OF plain_bound [OF assms(3)]]]
  have h: "holds (fs s') CONFIG_FILE (put_lines ?k w False ls)" "conf_ok ls"
    using assms(1,2) by (simp_all add: ready_def holds_def)
  have "snd (qsap_read_cfg CONFIG_FILE (cmd_list ! c) None ign (buf, n) (fs s')) =
      (''success '' @ ?k @ ''='' @ w, 9 + length ?k + length w)" for ign
    using h(1) assms(7,4)
    by (simp add: qsap_read_cfg_def holds_def fgets_conf find_put [OF h(2) k assms(4) k] qsap_scnprintf_def SUCCESS_def val_ok_def)
  then show ?thesis
    using trim_id [of "''success '' @ ?k @ ''='' @ w" "9 + length ?k + length w"] assms(5,6)
    by (simp add: exec_get [OF assms(2) c, simplified] qsap_get_from_config_def plain_get [OF assms(3)])
qed

lemma get_other:
  assumes "ready e ls s" and "ready e (put_lines (name (cmd_list ! c)) w False ls) s'" and "c < 74"
    and "val_ok (name (cmd_list ! c)) w" and "c' \<in> set plain_params" and "c' \<noteq> c"
  shows "map_option fst (qsap_hostd_exec_cmd e b (''get '' @ name (cmd_list ! c')) past r s') =
    map_option fst (qsap_hostd_exec_cmd e b (''get '' @ name (cmd_list ! c')) past r s)"
proof -
  note b' = plain_bound [OF assms(5)]
  have h: "holds (fs s) CONFIG_FILE ls" "holds (fs s') CONFIG_FILE (put_lines (name (cmd_list ! c)) w False ls)" "conf_ok ls"
    using assms(1,2) by (simp_all add: ready_def holds_def)
  have "name (cmd_list ! c') \<noteq> name (cmd_list ! c)"
    using nth_eq_iff_index_eq [OF command_names(1), of c' c] b' assms(3,6) command_names(3) by simp
  then have "qsap_read_cfg CONFIG_FILE (cmd_list ! c') None ign r (fs s') = qsap_read_cfg CONFIG_FILE (cmd_list ! c') None ign r (fs s)" for ign
    using read_cfg_cong [OF h(1,2)] find_put [OF h(3) command_key [OF cmd_in [OF assms(3)]] assms(4) command_key [OF cmd_in [OF b']]] by simp
  then show ?thesis
    by (simp add: exec_get [OF assms(2) b', simplified] exec_get [OF assms(1) b', simplified] qsap_get_from_config_def plain_get [OF assms(5)])
qed

text \<open>
  C9. Setting and getting through the entry point: in a ready state, a value that the table of checks
  accepts for one of the plain parameters is stored in its checked form and reported as success, and
  the get request then answers with exactly that value, while every other plain parameter is answered as
  before; a value that the checks refuse is answered with the error for parameters and leaves the whole
  state unchanged.
\<close>

theorem set_get_roundtrip:
  assumes "ready e ls s" and "c \<in> set plain_params" and "v \<noteq> []" and "164 \<le> n"
  shows "case checked_value c v of
      None \<Rightarrow> qsap_hostd_exec_cmd e b (''set '' @ name (cmd_list ! c) @ ''='' @ v) past (buf, n) s =
        Some ((ERR_INVALID_PARAM, 25), s)
    | Some w \<Rightarrow> val_ok (name (cmd_list ! c)) w \<and> w \<noteq> [] \<and> \<not> is_blank (last w) \<longrightarrow>
       (\<exists>s' ls'. qsap_hostd_exec_cmd e b (''set '' @ name (cmd_list ! c) @ ''='' @ v) past (buf, n) s =
           Some ((''success'', 7), s') \<and> ready e ls' s' \<and>
         qsap_hostd_exec_cmd e b (''get '' @ name (cmd_list ! c)) past (buf, n) s' =
           Some ((''success '' @ name (cmd_list ! c) @ ''='' @ w, 9 + length (name (cmd_list ! c)) + length w), s') \<and>
         (\<forall>c'\<in>set plain_params. c' \<noteq> c \<longrightarrow>
           map_option fst (qsap_hostd_exec_cmd e b (''get '' @ name (cmd_list ! c')) past (buf, n) s') =
           map_option fst (qsap_hostd_exec_cmd e b (''get '' @ name (cmd_list ! c')) past (buf, n) s)))"
proof (cases "checked_value c v")
  case None
  then show ?thesis using assms(4)
    by (simp add: exec_set [OF assms(1) plain_bound [OF assms(2)] assms(3), simplified] plain_set [OF assms(2)]
        write_checked_def qsap_scnprintf_def ERR_INVALID_PARAM_def)
next
  case (Some w)
  note c = plain_bound [OF assms(2)]
  show ?thesis unfolding Some option.case
  proof (intro impI, elim conjE)
    assume w: "val_ok (name (cmd_list ! c)) w" "w \<noteq> []" "\<not> is_blank (last w)"
    obtain s' where s': "fs_write e CONFIG_FILE (cmd_list ! c) w False (buf, n) s = (eSUCCESS, qsap_scnprintf SUCCESS (buf, n), s')"
      "ready e (put_lines (name (cmd_list ! c)) w False ls) s'"
      using write_ready [OF assms(1) cmd_in [OF c] w(1)] by blast
    have "qsap_hostd_exec_cmd e b (''set '' @ name (cmd_list ! c) @ ''='' @ v) past (buf, n) s = Some ((''success'', 7), s')"
      using assms(4) by (simp add: exec_set [OF assms(1) c assms(3), simplified] plain_set [OF assms(2)] write_checked_def Some
          plain_ini [OF assms(2)] s'(1) qsap_scnprintf_def SUCCESS_def)
    then show "\<exists>s' ls'. qsap_hostd_exec_cmd e b (''set '' @ name (cmd_list ! c) @ ''='' @ v) past (buf, n) s =
           Some ((''success'', 7), s') \<and> ready e ls' s' \<and>
         qsap_hostd_exec_cmd e b (''get '' @ name (cmd_list ! c)) past (buf, n) s' =
           Some ((''success '' @ name (cmd_list ! c) @ ''='' @ w, 9 + length (name (cmd_list ! c)) + length w), s') \<and>
         (\<forall>c'\<in>set plain_params. c' \<noteq> c \<longrightarrow>
           map_option fst (qsap_hostd_exec_cmd e b (''get '' @ name (cmd_list ! c')) past (buf, n) s') =
           map_option fst (qsap_hostd_exec_cmd e b (''get '' @ name (cmd_list ! c')) past (buf, n) s))"
      using s'(2) get_written [OF assms(1) s'(2) assms(2) w assms(4)] get_other [OF assms(1) s'(2) c w(1)] by blast
  qed
qed

definition ready_ap :: ap_st where
  "ready_ap = conf_ap\<lparr>fIni := Some ''/etc/wlan.ini''\<rparr>"

lemma ready_demo: "ready slow_env [''interface=wlan0'' @ [NL]] ready_ap"
proof -
  have l: "conf_ok [''interface=wlan0'' @ [NL]]" by (simp add: conf_ok_def conf_line_def ok_line_def body_def is_comment_def NL_def NUL_def)
  have f: "files (fs ready_ap) CONFIG_FILE = Some (''interface=wlan0'' @ [NL])" "files (fs ready_ap) ACCEPT_LIST_FILE = Some ''#''"
    "files (fs ready_ap) DENY_LIST_FILE = Some ''#''"
    by (simp_all add: ready_ap_def conf_ap_def CONFIG_FILE_def ACCEPT_LIST_FILE_def DENY_LIST_FILE_def)
  show ?thesis using l by (simp add: ready_def holds_def filled_def f io_ok_def slow_env_def good_io_def) (simp add: ready_ap_def)
qed

theorem set_get_roundtrip_witness:
  "\<exists>s'. qsap_hostd_exec_cmd slow_env demo_build ''set beacon_int=0200'' (\<lambda>_. NUL) ([], 255) ready_ap = Some ((''success'', 7), s') \<and>
    qsap_hostd_exec_cmd slow_env demo_build ''get beacon_int'' (\<lambda>_. NUL) ([], 255) s' = Some ((''success beacon_int=200'', 22), s')"
proof -
  have c: "eCMD_BCN_INTERVAL \<in> set plain_params" "name (cmd_list ! eCMD_BCN_INTERVAL) = ''beacon_int''"
    by (simp_all add: plain_params_def cmd_list_def eCMD_BCN_INTERVAL_def)
  have v: "checked_value eCMD_BCN_INTERVAL ''0200'' = Some ''200''" by code_simp
  have w: "val_ok ''beacon_int'' ''200''" "\<not> is_blank (last ''200'')" by (simp_all add: val_ok_def NL_def NUL_def CR_def is_blank_def)
  show ?thesis using set_get_roundtrip [OF ready_demo c(1), of "''0200''" 255 demo_build "\<lambda>_. NUL" "[]"] w
    unfolding v c(2) by (auto simp: option.case)
qed

end
