(* ===== verification/Sap_Control.thy ===== *)
theory Sap_Control
  imports Sap_Dispatch
begin

text \<open>
  The requests of the soft access point that reach beyond one parameter: the switch of the driver, the channel
  with its operating mode, and the exchange with hostapd.
\<close>

subsection \<open>The switch\<close>

lemma verdict_success: "8 \<le> n \<Longrightarrow> failure \<noteq> [] \<Longrightarrow> hd failure = CHR ''f'' \<Longrightarrow> fst (verdict rc failure (buf, n)) = ''success'' \<longleftrightarrow> rc = eSUCCESS"
  by (cases failure; cases n; cases "n - 1") (auto simp: verdict_def qsap_scnprintf_def SUCCESS_def)

lemma switch_cmd: "name (cmd_list ! eCMD_ENABLE_SOFTAP) = ''enable_softap''" "eCMD_ENABLE_SOFTAP < 74"
  by (simp_all add: cmd_list_def eCMD_ENABLE_SOFTAP_def)

text \<open>
  The switch of the access point: a value that the conversion reads as neither 0 nor 1 is refused; for any
  other value the direction is taken from the first character alone. Success means that the driver module is
  loaded when that character is not the digit 0, so also for a word like \<^verbatim>\<open>off\<close>, and that it is not
  loaded when it is, so also for \<^verbatim>\<open>01\<close>.
\<close>

theorem enable_switch:
  assumes "ready e ls s" and "build_ok b" and "mods_ok s" and "v \<noteq> []" and "32 \<le> n"
  shows "\<exists>r s'. qsap_hostd_exec_cmd e b (''set enable_softap='' @ v) past (buf, n) s = Some (r, s') \<and>
    (atoi 32 v \<notin> {0, 1} \<longrightarrow> fst r = ERR_INVALID_PARAM \<and> s' = s) \<and>
    (atoi 32 v \<in> {0, 1} \<and> fst r = ''success'' \<and> hd v \<noteq> CHR ''0'' \<longrightarrow> drv_module b \<in> set (modules s')) \<and>
    (atoi 32 v \<in> {0, 1} \<and> fst r = ''success'' \<and> hd v = CHR ''0'' \<and> (\<forall>n. a_proc e n) \<longrightarrow> drv_module b \<notin> set (modules s'))"
proof -
  let ?go = "if take 1 v = ''0'' then wifi_qsap_unload_driver e b s else wifi_qsap_load_driver e b s"
  obtain rc s' where g: "?go = (rc, s')" by fastforce
  have x: "qsap_hostd_exec_cmd e b (''set enable_softap='' @ v) past (buf, n) s =
      (if atoi 32 v \<notin> {0, 1} then Some (qsap_scnprintf ERR_INVALID_PARAM (buf, n), s)
       else Some (verdict rc ''failure Could not enable softap'' (buf, n), s'))"
    using exec_set [OF assms(1) switch_cmd(2) assms(4), of b past "(buf, n)"] g unfolding switch_cmd(1)
    by (auto simp: set_param_def cmd_num_defs IS_VALID_FLAG_def ENABLE_def DISABLE_def)
  have h: "take 1 v = ''0'' \<longleftrightarrow> hd v = CHR ''0''" using assms(4) by (cases v) auto
  have f: "fst (verdict rc ''failure Could not enable softap'' (buf, n)) = ''success'' \<longleftrightarrow> rc = eSUCCESS"
    by (rule verdict_success) (use assms(5) in auto)
  have on: "drv_module b \<in> set (modules s')" if "hd v \<noteq> CHR ''0''" "rc = eSUCCESS"
    using load_driver_effect(3) [OF assms(2,3), of e rc s'] g h that by simp
  have off: "drv_module b \<notin> set (modules s')" if "hd v = CHR ''0''" "rc = eSUCCESS" "\<forall>n. a_proc e n"
    using unload_driver_effect(3) [OF assms(2,3), of e rc s'] g h that by auto
  have i: "fst (qsap_scnprintf ERR_INVALID_PARAM (buf, n)) = ERR_INVALID_PARAM"
    using assms(5) by (simp add: qsap_scnprintf_def ERR_INVALID_PARAM_def)
  show ?thesis
  proof (cases "atoi 32 v \<in> {0, 1}")
    case True
    show ?thesis unfolding x using True f on off
      by (intro exI [of _ "verdict rc ''failure Could not enable softap'' (buf, n)"] exI [of _ s'] conjI) simp_all
  next
    case False
    show ?thesis unfolding x using False i
      by (intro exI [of _ "qsap_scnprintf ERR_INVALID_PARAM (buf, n)"] exI [of _ s] conjI) simp_all
  qed
qed

lemma ready_mods: "mods_ok ready_ap"
  by (simp add: ready_ap_def conf_ap_def mods_ok_def demo_ap_def)

lemma off_success: "map_option (fst \<circ> fst) (qsap_hostd_exec_cmd slow_env demo_build ''set enable_softap=off'' (\<lambda>_. NUL) ([], 255) ready_ap) = Some ''success''"
  by code_simp

theorem enable_switch_witness:
  "\<exists>r s'. qsap_hostd_exec_cmd slow_env demo_build ''set enable_softap=off'' (\<lambda>_. NUL) ([], 255) ready_ap = Some (r, s') \<and>
     fst r = ''success'' \<and> ''wlan'' \<in> set (modules s')"
proof -
  have v: "atoi 32 ''off'' = 0" by code_simp
  have d: "drv_module demo_build = ''wlan''" by (simp add: demo_build_def)
  show ?thesis using enable_switch [OF ready_demo demo_build_ok(1) ready_mods, of "''off''" 255 "\<lambda>_. NUL" "[]"] v d off_success
    by auto
qed

subsection \<open>The channel\<close>

definition cur_mode :: "string list \<Rightarrow> string" where
  "cur_mode ls = (case get_param ''hw_mode'' ls of None \<Rightarrow> ''n'' | Some m \<Rightarrow> m)"

definition mode_for :: "int \<Rightarrow> string \<Rightarrow> string" where
  "mode_for channel m = (if channel > 14 then ''a'' else if channel = 14 then ''b'' else if m = ''a'' then ''g'' else m)"

lemma chan_cmds: "name (cmd_list ! eCMD_HW_MODE) = ''hw_mode''" "default_value (cmd_list ! eCMD_HW_MODE) = Some ''n''"
  "name (cmd_list ! eCMD_CHAN) = ''channel''" "eCMD_HW_MODE < 74" "eCMD_CHAN < 74"
  by (simp_all add: cmd_list_def eCMD_HW_MODE_def eCMD_CHAN_def)

lemma chan_keys: "key_ok ''hw_mode''" "key_ok ''channel''"
  using command_key [OF cmd_in [OF chan_cmds(4)]] command_key [OF cmd_in [OF chan_cmds(5)]] by (simp_all add: chan_cmds)

lemma mode_vals: "m < 6 \<Longrightarrow> val_ok ''hw_mode'' (hw_mode ! m)"
proof -
  have "list_all (val_ok ''hw_mode'') hw_mode" by (simp add: hw_mode_def val_ok_def NL_def NUL_def CR_def)
  then show "m < 6 \<Longrightarrow> ?thesis" by (simp add: list_all_length hw_mode_def)
qed

lemma cur_mode_read:
  assumes "ready e ls s" and "length (cur_mode ls) < 112"
  shows "fst (qsap_get_config_value CONFIG_FILE (cmd_list ! eCMD_HW_MODE) ([], 128) (fs s)) = Some (cur_mode ls)"
proof -
  have h: "files (fs s) CONFIG_FILE = Some (concat ls)" "conf_ok ls" using assms(1) by (simp_all add: ready_def holds_def)
  show ?thesis using assms(2)
    by (cases "get_param ''hw_mode'' ls")
      (auto simp: qsap_get_config_value_def qsap_read_cfg_def h fgets_conf find_get chan_cmds read_default_def cur_mode_def
        qsap_scnprintf_def SUCCESS_def eSUCCESS_def)
qed

lemma cond_mode:
  assumes "ready e ls s" and "m < 6"
  obtains s' where "(if P then set_hw_mode e m r s else (eSUCCESS, s)) = (eSUCCESS, s')"
    "ready e (if P then put_lines ''hw_mode'' (hw_mode ! m) False ls else ls) s'"
proof (cases P)
  case True
  obtain s' where "fs_write e CONFIG_FILE (cmd_list ! eCMD_HW_MODE) (hw_mode ! m) False r s = (eSUCCESS, qsap_scnprintf SUCCESS r, s')"
    "ready e (put_lines ''hw_mode'' (hw_mode ! m) False ls) s'"
    using write_ready [OF assms(1) cmd_in [OF chan_cmds(4)], unfolded chan_cmds(1), OF mode_vals [OF assms(2)]] by blast
  then show thesis using that [of s'] True by (simp add: set_hw_mode_def)
qed (use that assms(1) in auto)

lemma put_mode: "conf_ok ls \<Longrightarrow> m < 6 \<Longrightarrow> conf_ok (put_lines ''hw_mode'' (hw_mode ! m) False ls)"
  "conf_ok ls \<Longrightarrow> m < 6 \<Longrightarrow> key_ok k \<Longrightarrow>
     get_param k (put_lines ''hw_mode'' (hw_mode ! m) False ls) = (if k = ''hw_mode'' then Some (hw_mode ! m) else get_param k ls)"
  using put_lines_ok [OF _ chan_keys(1) mode_vals] find_put [OF _ chan_keys(1) mode_vals] by (simp_all add: get_param_def)

text \<open>The lines after the three conditional writes of the operating mode.\<close>

definition mode_lines :: "int \<Rightarrow> string list \<Rightarrow> string list" where
  "mode_lines channel ls =
     (let m = cur_mode ls;
          ls1 = (if m = hw_mode ! HW_MODE_A \<and> channel \<le> 14 then put_lines ''hw_mode'' (hw_mode ! HW_MODE_G) False ls else ls);
          ls2 = (if m \<noteq> hw_mode ! HW_MODE_B \<and> channel = 14 then put_lines ''hw_mode'' (hw_mode ! HW_MODE_B) False ls1 else ls1)
      in if channel > 14 then put_lines ''hw_mode'' (hw_mode ! HW_MODE_A) False ls2 else ls2)"

lemmas mode_nums = HW_MODE_A_def HW_MODE_B_def HW_MODE_G_def

lemma mode_lines_ok:
  assumes "conf_ok ls"
  shows "conf_ok (mode_lines channel ls)" and "cur_mode (mode_lines channel ls) = mode_for channel (cur_mode ls)"
    and "key_ok k \<Longrightarrow> k \<noteq> ''hw_mode'' \<Longrightarrow> get_param k (mode_lines channel ls) = get_param k ls"
proof -
  note put = put_mode(1) put_mode(2) [OF _ _ chan_keys(1)]
  show "conf_ok (mode_lines channel ls)" using assms by (simp add: mode_lines_def Let_def mode_nums put_mode(1))
  show "cur_mode (mode_lines channel ls) = mode_for channel (cur_mode ls)" using assms
    by (simp add: mode_lines_def Let_def mode_nums cur_mode_def mode_for_def put) (simp add: hw_mode_def)
  show "key_ok k \<Longrightarrow> k \<noteq> ''hw_mode'' \<Longrightarrow> get_param k (mode_lines channel ls) = get_param k ls" using assms
    by (simp add: mode_lines_def Let_def mode_nums put_mode)
qed

lemma fmt_d_val_ok: "length k + length (fmt_d v) \<le> 152 \<Longrightarrow> val_ok k (fmt_d v)"
proof -
  assume "length k + length (fmt_d v) \<le> 152"
  moreover have "c \<noteq> NL \<and> c \<noteq> NUL \<and> c \<noteq> CR" if "c \<in> set (fmt_d v)" for c
    using fmt_d_chars [OF that] by (auto simp: NL_def NUL_def CR_def is_digit_def digit_val_def)
  ultimately show ?thesis using last_in_set [OF fmt_d_ne, of v] by (auto simp: val_ok_def)
qed

lemma set_channel_ok:
  assumes r: "ready e ls s" and m: "length (cur_mode ls) < 112" and c: "length (fmt_d channel) \<le> 8"
  obtains s' where "qsap_set_channel e channel 128 s = (eSUCCESS, s')"
    "ready e (put_lines ''channel'' (fmt_d channel) False (mode_lines channel ls)) s'"
proof -
  let ?m = "cur_mode ls"
  let ?P = "?m = hw_mode ! HW_MODE_A \<and> channel \<le> 14" and ?Q = "?m \<noteq> hw_mode ! HW_MODE_B \<and> channel = 14"
  have idx: "HW_MODE_G < 6" "HW_MODE_B < 6" "HW_MODE_A < 6" by (simp_all add: mode_nums)
  obtain s1 where 1: "(if ?P then set_hw_mode e HW_MODE_G ([], 128) s else (eSUCCESS, s)) = (eSUCCESS, s1)"
    "ready e (if ?P then put_lines ''hw_mode'' (hw_mode ! HW_MODE_G) False ls else ls) s1"
    by (rule cond_mode [OF r idx(1)])
  obtain s2 where 2: "(if ?Q then set_hw_mode e HW_MODE_B ([], 128) s1 else (eSUCCESS, s1)) = (eSUCCESS, s2)"
    "ready e (if ?Q then put_lines ''hw_mode'' (hw_mode ! HW_MODE_B) False
       (if ?P then put_lines ''hw_mode'' (hw_mode ! HW_MODE_G) False ls else ls)
       else (if ?P then put_lines ''hw_mode'' (hw_mode ! HW_MODE_G) False ls else ls)) s2"
    by (rule cond_mode [OF 1(2) idx(2)])
  obtain s3 where 3: "(if channel > 14 then set_hw_mode e HW_MODE_A ([], 128) s2 else (eSUCCESS, s2)) = (eSUCCESS, s3)"
    "ready e (mode_lines channel ls) s3"
    unfolding mode_lines_def Let_def by (rule cond_mode [OF 2(2) idx(3)])
  have v: "val_ok (name (cmd_list ! eCMD_CHAN)) (fmt_d channel)" using c by (intro fmt_d_val_ok) (simp add: chan_cmds)
  obtain s4 where 4: "fs_write e CONFIG_FILE (cmd_list ! eCMD_CHAN) (fmt_d channel) False ([], 128) s3 =
      (eSUCCESS, qsap_scnprintf SUCCESS ([], 128), s4)"
    "ready e (put_lines ''channel'' (fmt_d channel) False (mode_lines channel ls)) s4"
    using write_ready [OF 3(2) cmd_in [OF chan_cmds(5)] v] unfolding chan_cmds(3) by blast
  have sc: "scn (MAX_INT_STR + 1) (fmt_d channel) = fmt_d channel" using c by (simp add: scn_def qsap_scnprintf_def MAX_INT_STR_def)
  show thesis
    by (rule that [OF _ 4(2)])
      (simp only: qsap_set_channel_def cur_mode_read [OF r m] option.case 1(1) 2(1) 3(1) prod.case sc 4(1) refl simp_thms if_False)
qed

text \<open>
  C28. Setting the channel keeps the operating mode and the channel consistent: in a ready state the request
  stores the number it read, and the operating mode of the file becomes the 5 GHz mode above channel 14, the
  802.11b mode on channel 14, and leaves the 5 GHz mode for the 802.11g mode below it; every other mode and every
  other parameter stays. Numbers of up to eight characters are stored whole; their range is not checked.
\<close>

theorem channel_mode_consistent:
  assumes "ready e ls s" and "v \<noteq> []" and "length (cur_mode ls) < 112" and "length (fmt_d (atoi 32 v)) \<le> 8" and "8 \<le> n"
  shows "\<exists>s' ls'. qsap_hostd_exec_cmd e b (''set channel='' @ v) past (buf, n) s = Some ((''success'', 7), s') \<and>
    ready e ls' s' \<and> get_param ''channel'' ls' = Some (fmt_d (atoi 32 v)) \<and>
    cur_mode ls' = mode_for (atoi 32 v) (cur_mode ls) \<and>
    (\<forall>k. key_ok k \<and> k \<notin> {''channel'', ''hw_mode''} \<longrightarrow> get_param k ls' = get_param k ls)"
proof -
  let ?c = "atoi 32 v" and ?L = "mode_lines (atoi 32 v) ls"
  obtain s' where s': "qsap_set_channel e ?c 128 s = (eSUCCESS, s')" "ready e (put_lines ''channel'' (fmt_d ?c) False ?L) s'"
    by (rule set_channel_ok [OF assms(1,3,4)])
  have "qsap_hostd_exec_cmd e b (''set channel='' @ v) past (buf, n) s = Some ((''success'', 7), s')"
    using exec_set [OF assms(1) chan_cmds(5) assms(2), of b past "(buf, n)"] assms(5) unfolding chan_cmds(3)
    by (simp add: set_param_def cmd_num_defs s'(1) MAX_FILE_PATH_LEN_def verdict_def qsap_scnprintf_def SUCCESS_def)
  moreover have "conf_ok ls" using assms(1) by (simp add: ready_def holds_def)
  note m = mode_lines_ok [OF this, where channel = ?c]
  have v: "val_ok ''channel'' (fmt_d ?c)" using assms(4) by (intro fmt_d_val_ok) simp
  have g: "get_param k (put_lines ''channel'' (fmt_d ?c) False ?L) = (if k = ''channel'' then Some (fmt_d ?c) else get_param k ?L)"
    if "key_ok k" for k
    using find_put [OF m(1) chan_keys(2) v that] by (simp add: get_param_def)
  have "get_param ''channel'' (put_lines ''channel'' (fmt_d ?c) False ?L) = Some (fmt_d ?c)"
    "cur_mode (put_lines ''channel'' (fmt_d ?c) False ?L) = mode_for ?c (cur_mode ls)"
    "\<forall>k. key_ok k \<and> k \<notin> {''channel'', ''hw_mode''} \<longrightarrow> get_param k (put_lines ''channel'' (fmt_d ?c) False ?L) = get_param k ls"
    using g [OF chan_keys(2)] g [OF chan_keys(1)] m(2) g m(3) by (simp_all add: cur_mode_def)
  ultimately show ?thesis using s'(2) by blast
qed

theorem channel_mode_consistent_witness:
  "\<exists>s' ls'. qsap_hostd_exec_cmd slow_env demo_build ''set channel=36'' (\<lambda>_. NUL) ([], 255) ready_ap = Some ((''success'', 7), s') \<and>
    get_param ''channel'' ls' = Some ''36'' \<and> cur_mode ls' = ''a'' \<and> get_param ''interface'' ls' = Some ''wlan0''"
proof -
  have m: "length (cur_mode [''interface=wlan0'' @ [NL]]) < 112" and i: "get_param ''interface'' [''interface=wlan0'' @ [NL]] = Some ''wlan0''"
    by code_simp+
  have c: "atoi 32 ''36'' = 36" "fmt_d 36 = ''36''" by code_simp+
  have k: "key_ok ''interface''" by (simp add: key_ok_def NL_def NUL_def)
  show ?thesis using channel_mode_consistent [OF ready_demo, of "''36''" 255 demo_build "\<lambda>_. NUL" "[]"] m i k
    unfolding c by (fastforce simp: mode_for_def)
qed

subsection \<open>The exchange with hostapd\<close>

lemma wps_cmds: "name (cmd_list ! eCMD_WPS_CONFIG_METHOD) = ''config_methods''" "eCMD_WPS_CONFIG_METHOD < 74"
  "name (qsap_str ! STR_CTRL_INTERFACE) = ''ctrl_interface''" "default_value (qsap_str ! STR_CTRL_INTERFACE) = None"
  "name (qsap_str ! STR_INTERFACE) = ''interface''" "default_value (qsap_str ! STR_INTERFACE) = None"
  by (simp_all add: cmd_list_def qsap_str_def eCMD_WPS_CONFIG_METHOD_def STR_CTRL_INTERFACE_def STR_INTERFACE_def)

lemma strchr_skip: "x \<notin> set p \<Longrightarrow> strchr (p @ x # q) x = Some (length p)"
  by (induction p) auto

lemma config_value:
  assumes "ready e ls s" and "default_value cmd = None" and "get_param (name cmd) ls = Some v" and "cmd \<in> all_commands"
    and "9 + length (name cmd) + length v < n"
  shows "fst (qsap_get_config_value CONFIG_FILE cmd ([], n) (fs s)) = Some v"
proof -
  have h: "holds (fs s) CONFIG_FILE ls" using assms(1) by (simp add: ready_def)
  have k: "CHR ''='' \<notin> set (''success '' @ name cmd)" using command_key [OF assms(4)] by (simp add: key_ok_def)
  have r: "qsap_read_cfg CONFIG_FILE cmd None False ([], n) (fs s) =
      (eSUCCESS, (''success '' @ name cmd) @ CHR ''='' # v, 9 + length (name cmd) + length v)"
    using read_none [OF h assms(2)] assms(3,5) by (simp add: qsap_scnprintf_def SUCCESS_def)
  show ?thesis unfolding qsap_get_config_value_def r prod.case strchr_skip [OF k] by simp
qed

text \<open>A ready state whose file names the control directory and the interface of hostapd.\<close>

definition linked :: "ap_env \<Rightarrow> string list \<Rightarrow> ap_st \<Rightarrow> bool" where
  "linked e ls s \<longleftrightarrow> ready e ls s \<and> a_sock e (hw_pos s) \<and> a_hconn e (hw_pos s) \<and>
     (\<exists>d i. get_param ''ctrl_interface'' ls = Some d \<and> get_param ''interface'' ls = Some i \<and> length d < 60 \<and> length i < 40)"

lemma linked_send:
  assumes "linked e ls s"
  shows "fst (qsap_send_cmd_to_hostapd e cmd s) = fst (hostapd_recv 3 e (hw_pos s))"
proof -
  obtain d i where l: "get_param ''ctrl_interface'' ls = Some d" "get_param ''interface'' ls = Some i" "length d < 60" "length i < 40"
    and r: "ready e ls s" using assms by (auto simp: linked_def)
  have m: "qsap_str ! STR_CTRL_INTERFACE \<in> all_commands" "qsap_str ! STR_INTERFACE \<in> all_commands"
    by (simp_all add: all_commands_def qsap_str_def STR_CTRL_INTERFACE_def STR_INTERFACE_def)
  have "fst (qsap_get_config_value CONFIG_FILE (qsap_str ! STR_CTRL_INTERFACE) ([], CTRL_IFACE_PATH_LEN) (fs s)) = Some d"
    "interface_value 64 s = Some i"
    using config_value [OF r wps_cmds(4) _ m(1)] config_value [OF r wps_cmds(6) _ m(2)] l
    by (simp_all add: wps_cmds interface_value_def CTRL_IFACE_PATH_LEN_def)
  then show ?thesis using assms l(3,4)
    by (simp add: qsap_send_cmd_to_hostapd_def linked_def Let_def split: prod.splits)
qed

lemma exec_wps_pbc:
  assumes "ready e ls s"
  shows "\<exists>s'. qsap_hostd_exec_cmd e b ''set config_methods=0'' past r s =
    Some (qsap_scnprintf (if fst (qsap_send_cmd_to_hostapd e ''WPS_PBC'' s) = eSUCCESS then SUCCESS else ERR_UNKNOWN) r, s')"
proof -
  have v: "atoi 32 ''0'' = 0" "takeWhile (\<lambda>c. c \<noteq> CHR '' '') ''0'' = ''0''" by code_simp+
  show ?thesis
    using exec_set [OF assms wps_cmds(2), of "''0''" b past r] unfolding wps_cmds(1)
    by (simp add: set_param_def cmd_num_defs qsap_config_wps_method_def v(1) IS_VALID_WPS_CONFIG_def WPS_CONFIG_PBC_def WPS_CONFIG_PIN_def
        skip_blank_def split: prod.splits)
qed

text \<open>
  What the answer to a WPS request says about hostapd: with the control socket connected, a refusal and a
  failed reception are reported as an error and an acceptance as success; but success is also reported when
  hostapd does not answer within the timeout, because the result of \<^verbatim>\<open>select\<close> is taken for the result of the
  exchange, and when only three unsolicited messages arrive.
\<close>

theorem wps_answer:
  assumes "linked e ls s" and "32 \<le> n"
  shows "\<exists>r s'. qsap_hostd_exec_cmd e b ''set config_methods=0'' past (buf, n) s = Some (r, s') \<and>
    (a_hmsg e (hw_pos s) = NoMessage \<longrightarrow> fst r = ''success'') \<and>
    (a_hmsg e (hw_pos s) = RecvError \<longrightarrow> fst r = ERR_UNKNOWN) \<and>
    (\<forall>m. a_hmsg e (hw_pos s) = Message m \<and> \<not> prefix ''<'' m \<longrightarrow> fst r = (if prefix ''FAIL'' m then ERR_UNKNOWN else ''success'')) \<and>
    ((\<forall>j<3. \<exists>m. a_hmsg e (hw_pos s + j) = Message (CHR ''<'' # m)) \<longrightarrow> fst r = ''success'')"
proof -
  let ?p = "hw_pos s" and ?rc = "fst (hostapd_recv 3 e (hw_pos s))"
  have r: "ready e ls s" using assms(1) by (simp add: linked_def)
  obtain s' where x: "qsap_hostd_exec_cmd e b ''set config_methods=0'' past (buf, n) s =
      Some (qsap_scnprintf (if ?rc = eSUCCESS then SUCCESS else ERR_UNKNOWN) (buf, n), s')"
    using exec_wps_pbc [OF r, of b past "(buf, n)"] linked_send [OF assms(1)] by auto
  have f: "fst (qsap_scnprintf SUCCESS (buf, n)) = ''success''" "fst (qsap_scnprintf ERR_UNKNOWN (buf, n)) = ERR_UNKNOWN"
    using assms(2) by (simp_all add: qsap_scnprintf_def SUCCESS_def ERR_UNKNOWN_def)
  have "a_hmsg e ?p = NoMessage \<Longrightarrow> ?rc = eSUCCESS" "a_hmsg e ?p = RecvError \<Longrightarrow> ?rc \<noteq> eSUCCESS"
    by (simp_all add: numeral_3_eq_3 eSUCCESS_def)
  moreover have "?rc = eSUCCESS \<longleftrightarrow> \<not> prefix ''FAIL'' m" if "a_hmsg e ?p = Message m" "\<not> prefix ''<'' m" for m
    using that by (cases m) (auto simp: numeral_3_eq_3 eSUCCESS_def)
  moreover have "?rc = eSUCCESS" if a: "\<forall>j<3. \<exists>m. a_hmsg e (?p + j) = Message (CHR ''<'' # m)"
    using a [rule_format, of 0] a [rule_format, of 1] a [rule_format, of 2] by (auto simp: numeral_3_eq_3 numeral_2_eq_2)
  ultimately show ?thesis unfolding x using f
    by (intro exI [of _ "qsap_scnprintf (if ?rc = eSUCCESS then SUCCESS else ERR_UNKNOWN) (buf, n)"] exI [of _ s'] conjI allI impI)
      auto
qed

definition linked_lines :: "string list" where
  "linked_lines = [''interface=wlan0'' @ [NL], ''ctrl_interface=/data/hostapd'' @ [NL]]"

definition linked_ap :: ap_st where
  "linked_ap = ready_ap\<lparr>fs := (fs ready_ap)\<lparr>files := (files (fs ready_ap))(CONFIG_FILE \<mapsto> concat linked_lines)\<rparr>\<rparr>"

lemma linked_demo: "linked slow_env linked_lines linked_ap"
proof -
  have g: "get_param ''ctrl_interface'' linked_lines = Some ''/data/hostapd''" "get_param ''interface'' linked_lines = Some ''wlan0''"
    by code_simp+
  have c: "conf_ok linked_lines"
    by (simp add: linked_lines_def conf_ok_def conf_line_def ok_line_def body_def is_comment_def NL_def NUL_def)
  have "ready slow_env linked_lines (ready_ap\<lparr>fs := fs linked_ap\<rparr>)"
    by (rule ready_files [OF ready_demo]) (use c in \<open>simp_all add: holds_def linked_ap_def linked_lines_def\<close>)
  then have "ready slow_env linked_lines linked_ap" by (simp add: linked_ap_def)
  then show ?thesis using g by (simp add: linked_def) (simp add: slow_env_def)
qed

theorem wps_answer_witness:
  "\<exists>r s'. qsap_hostd_exec_cmd slow_env demo_build ''set config_methods=0'' (\<lambda>_. NUL) ([], 255) linked_ap = Some (r, s') \<and>
     a_hmsg slow_env (hw_pos linked_ap) = NoMessage \<and> fst r = ''success''"
proof -
  have "a_hmsg slow_env (hw_pos linked_ap) = NoMessage" by (simp add: slow_env_def)
  then show ?thesis using wps_answer [OF linked_demo, of 255 demo_build "\<lambda>_. NUL" "[]"] by auto
qed

end
