(* ===== verification/Sap_Setup.thy ===== *)
theory Sap_Setup
  imports Sap_Control
begin

text \<open>
  The sequence of requests of \<^verbatim>\<open>qsapsetSoftap\<close> from end to end: the configuration file holds what the arguments
  asked for, and the security mode read from it is the one that was asked for.
\<close>

subsection \<open>One request of the sequence\<close>

lemma resp_ok_success: "resp_accepted (qsap_scnprintf SUCCESS r)"
  by (cases r) (auto simp: resp_accepted_def qsap_scnprintf_def SUCCESS_def)

lemma run_one:
  assumes "qsap_hostd_exec_cmd e b cmd past (x, n') s = Some (qsap_scnprintf SUCCESS (x, n'), s')"
    and "n' = (if fresh then 255 else n)" and "qsap_scnprintf SUCCESS (x, n') = r'"
  shows "run_commands e b past ((cmd, fresh, must) # cs) (x, n) s = run_commands e b past cs r' s'"
  using assms resp_ok_success [of "(x, n')"] by (cases fresh) (simp_all add: sap_request_def RECV_BUF_LEN_def)

lemma step_write:
  assumes "ready e ls s" and "c < 74" and "\<And>pcmd. set_param e b c pcmd v past r s = Some (write_checked e c v r s)"
    and "checked_value c v = Some w" and "ini_target c = None" and "val_ok (name (cmd_list ! c)) w" and "v \<noteq> []"
  obtains s' where "qsap_hostd_exec_cmd e b (''set '' @ name (cmd_list ! c) @ ''='' @ v) past r s = Some (qsap_scnprintf SUCCESS r, s')"
    "ready e (put_lines (name (cmd_list ! c)) w False ls) s'"
proof -
  obtain s' where s': "fs_write e CONFIG_FILE (cmd_list ! c) w False r s = (eSUCCESS, qsap_scnprintf SUCCESS r, s')"
    "ready e (put_lines (name (cmd_list ! c)) w False ls) s'"
    by (rule write_ready [OF assms(1) cmd_in [OF assms(2)] assms(6)])
  show thesis
    by (rule that [OF _ s'(2)]) (simp only: exec_set [OF assms(1,2,7)] assms(3) write_checked_def assms(4,5) option.case s'(1) snd_conv)
qed

text \<open>The requests of the sequence that write one parameter.\<close>

definition setup_param :: "nat \<Rightarrow> bool" where
  "setup_param c \<longleftrightarrow> c \<in> {0, 1, 13, 66, 73}"

lemma setup_branch: "setup_param c \<Longrightarrow> set_param e b c pcmd v past r s = Some (write_checked e c v r s)"
  "setup_param c \<Longrightarrow> ini_target c = None" "setup_param c \<Longrightarrow> c < 74"
  unfolding setup_param_def
  by (simp, elim disjE, simp_all add: set_param_def cmd_num_defs) (auto simp: ini_target_def cmd_num_defs)

lemma setup_names: "name (cmd_list ! 0) = ''ssid''" "name (cmd_list ! 1) = ''ignore_broadcast_ssid''"
  "name (cmd_list ! 13) = ''wpa_passphrase''" "name (cmd_list ! 66) = ''max_num_sta''" "name (cmd_list ! 73) = ''interface''"
  by (simp_all add: cmd_list_def)

lemma run_write:
  assumes "ready e ls s" and "setup_param c" and "name (cmd_list ! c) = k" and "checked_value c v = Some w" and "val_ok k w" and "v \<noteq> []"
    and "n' = (if fresh then 255 else n)" and "qsap_scnprintf SUCCESS (x, n') = r'"
  obtains s' where "\<And>cs. run_commands e b past ((''set '' @ k @ ''='' @ v, fresh, must) # cs) (x, n) s = run_commands e b past cs r' s'"
    "ready e (put_lines k w False ls) s'"
proof -
  note br = setup_branch [OF assms(2)]
  obtain s' where s': "qsap_hostd_exec_cmd e b (''set '' @ k @ ''='' @ v) past (x, n') s = Some (qsap_scnprintf SUCCESS (x, n'), s')"
    "ready e (put_lines k w False ls) s'"
    by (rule step_write [OF assms(1) br(3) br(1) assms(4) br(2), unfolded assms(3), OF assms(5,6)])
  show thesis by (rule that [OF run_one [OF s'(1) assms(7,8)] s'(2)])
qed

lemma sc255: "qsap_scnprintf SUCCESS (x, 255) = (''success'', 7)"
  by (simp add: qsap_scnprintf_def SUCCESS_def)

lemmas run_fresh = run_write [where fresh = True and n' = 255, OF _ _ _ _ _ _ _ sc255, simplified if_True, OF _ _ _ _ _ _ refl]

lemma run_same:
  assumes "ready e ls s" and "setup_param c" and "name (cmd_list ! c) = k" and "checked_value c v = Some w" and "val_ok k w" and "v \<noteq> []"
  obtains s' where "\<And>cs. run_commands e b past ((''set '' @ k @ ''='' @ v, False, must) # cs) (x, 7) s = run_commands e b past cs (''succes'', 6) s'"
    "ready e (put_lines k w False ls) s'"
proof -
  have "qsap_scnprintf SUCCESS (x, 7) = (''succes'', 6)" by (simp add: qsap_scnprintf_def SUCCESS_def)
  from run_write [OF assms _ this, of False 7] that show thesis by auto
qed

lemma run_channel:
  assumes "ready e ls s" and "length (cur_mode ls) < 112" and "length (fmt_d c) \<le> 8" and "- (2 ^ 31) \<le> c" and "c < 2 ^ 31"
  obtains s' where "\<And>cs. run_commands e b past ((''set channel='' @ fmt_d c, True, True) # cs) (x, n) s = run_commands e b past cs (''success'', 7) s'"
    "ready e (put_lines ''channel'' (fmt_d c) False (mode_lines c ls)) s'"
proof -
  obtain s' where s': "qsap_set_channel e c 128 s = (eSUCCESS, s')"
    "ready e (put_lines ''channel'' (fmt_d c) False (mode_lines c ls)) s'"
    by (rule set_channel_ok [OF assms(1-3)])
  have a: "atoi 32 (fmt_d c) = c" using atoi_fmt_d [OF assms(4,5), of 32 "[]"] by simp
  have "qsap_hostd_exec_cmd e b (''set channel='' @ fmt_d c) past (x, 255) s = Some (qsap_scnprintf SUCCESS (x, 255), s')"
    using exec_set [OF assms(1) chan_cmds(5), of "fmt_d c" b past "(x, 255)"] unfolding chan_cmds(3)
    by (simp add: set_param_def cmd_num_defs s'(1) a MAX_FILE_PATH_LEN_def verdict_def)
  from that [OF run_one [OF this _ sc255] s'(2)] show thesis by simp
qed

lemma run_security:
  assumes "ready e ls s" and "m = 2 \<or> m = 3"
  obtains s' where "\<And>cs. run_commands e b past ((''set security_mode='' @ fmt_d (int m), True, True) # cs) (x, n) s = run_commands e b past cs (''success'', 7) s'"
    "ready e (security_lines m ls) s'"
proof -
  have h: "holds (fs s) CONFIG_FILE ls" "\<And>n. io_ok (a_io e n)" "m < SEC_MODE_INVALID" "conf_ok ls" "(8::nat) \<le> 255"
    using assms by (auto simp: ready_def holds_def SEC_MODE_INVALID_def)
  obtain f where f: "qsap_set_security_mode (a_io e) CONFIG_FILE m (x, 255) (fs s) = ((''success'', 7), f)"
    "holds f CONFIG_FILE (security_lines m ls)" "\<And>q. q \<noteq> CONFIG_FILE \<Longrightarrow> q \<noteq> CONFIG_FILE @ ''~'' \<Longrightarrow> files f q = files (fs s) q"
    using set_mode_ok [where e = "a_io e" and b = x, OF h(1,2) paths(1) h(3,5)] by blast
  have ne: "security_lines m ls \<noteq> []"
    using security_lines_get(3) [OF h(4,3)] assms(2) by (auto simp: sec_mode_defs get_param_def)
  have a: "atoi 32 (fmt_d (int m)) = int m" using assms(2) atoi_fmt_d [of "int m" 32 "[]"] by auto
  have c: "name (cmd_list ! 7) = ''security_mode''" "(7::nat) < 74" by (simp_all add: cmd_list_def)
  have "qsap_hostd_exec_cmd e b (''set security_mode='' @ fmt_d (int m)) past (x, 255) s =
      Some (qsap_scnprintf SUCCESS (x, 255), s\<lparr>fs := f\<rparr>)"
    using exec_set [OF assms(1) c(2), of "fmt_d (int m)" b past "(x, 255)"] assms(2) unfolding c(1)
    by (auto simp: set_param_def cmd_num_defs a IS_VALID_SEC_MODE_def SEC_MODE_INVALID_def f(1) sc255)
  from that [OF run_one [OF this _ sc255] ready_files [OF assms(1) f(2) ne f(3)]] show thesis by simp
qed

lemma run_commit:
  assumes "ready e ls s"
  shows "run_commands e b past [(''set commit'', True, True)] (x, n) s = Some (0, s)"
proof -
  have c: "name (cmd_list ! 25) = ''commit''" "(25::nat) < 74" by (simp_all add: cmd_list_def)
  obtain y where "fIni s = Some y" using assms by (auto simp: ready_def)
  then have "qsap_hostd_exec_cmd e b ''set commit'' past (x, 255) s = Some (qsap_scnprintf SUCCESS (x, 255), s)"
    using cmd_num_correct [OF c(2)] unfolding c(1)
    by (simp add: qsap_hostd_exec_cmd_def ready_prologue [OF assms] Let_def is_blank_def skip_blank_def
        qsap_handle_set_request_def eCMD_INVALID_def set_param_def cmd_num_defs c(1))
  then show ?thesis using resp_ok_success by (simp add: sap_request_def RECV_BUF_LEN_def)
qed

subsection \<open>The whole sequence\<close>

lemma keys: "key_ok ''interface''" "key_ok ''ssid''" "key_ok ''ignore_broadcast_ssid''" "key_ok ''wpa_passphrase''" "key_ok ''max_num_sta''"
  by (simp_all add: key_ok_def NL_def NUL_def)

lemma atoi_range: "- (2 ^ 31) \<le> atoi w t" "atoi w t < 2 ^ 31"
  using to_int32_range by (simp_all add: atoi_def Let_def split: prod.splits)

lemma security_change_names: "c \<in> fst ` set (security_changes m) \<Longrightarrow>
    name c \<notin> {''interface'', ''ssid'', ''ignore_broadcast_ssid'', ''channel'', ''hw_mode''}"
  by (auto simp: security_changes_def Let_def cmd_list_def qsap_str_def command_indices split: if_splits)

lemma security_keeps:
  assumes "conf_ok ls" and "m < SEC_MODE_INVALID" and "k \<in> {''interface'', ''ssid'', ''ignore_broadcast_ssid'', ''channel''}"
  shows "get_param k (security_lines m ls) = get_param k ls"
proof -
  let ?f = "if m = SEC_MODE_NONE \<or> m = SEC_MODE_WEP then ls
        else put_lines ''wpa'' (fmt_d (int (wpa_in_conf_file m))) False ls"
  have f: "conf_ok ?f" using assms(1) put_lines_ok [OF assms(1) wpa_keys(1) wpa_val_ok] by simp
  have ks: "\<forall>(k, b)\<in>set (map (\<lambda>(c, b). (name c, b)) (security_changes m)). key_ok k"
    using security_changes_keys [of m] command_key by auto
  have k: "key_ok k" using assms(3) keys chan_keys(2) by auto
  have n: "map_of (rev (map (\<lambda>(c, b). (name c, b)) (security_changes m))) k = None"
  proof -
    have "k \<notin> fst ` set (map (\<lambda>(c, b). (name c, b)) (security_changes m))"
      using assms(3) security_change_names [of _ m] by force
    then show ?thesis by (simp add: map_of_eq_None_iff)
  qed
  have "get_param k ?f = get_param k ls" using assms(3) conf.get_put [OF assms(1) wpa_keys(1) wpa_val_ok k] by auto
  then show ?thesis using conf.changes_effect(3) [OF f ks k] n by (simp add: security_lines_def)
qed

text \<open>The arguments that the sequence accepts.\<close>

definition setup_ok :: "string \<Rightarrow> string \<Rightarrow> string \<Rightarrow> string \<Rightarrow> string \<Rightarrow> bool" where
  "setup_ok iface ssid chan sec pass \<longleftrightarrow>
     iface \<noteq> [] \<and> val_ok ''interface'' iface \<and> ssid \<noteq> [] \<and> length ssid \<le> 32 \<and> val_ok ''ssid'' ssid \<and>
     length (fmt_d (atoi 32 chan)) \<le> 8 \<and> sec \<in> {''wpa-psk'', ''wpa2-psk''} \<and>
     8 \<le> length pass \<and> length pass \<le> 63 \<and> val_ok ''wpa_passphrase'' pass"

lemma setup_commands:
  assumes "setup_ok iface ssid chan sec pass"
  shows "softap_commands rnd [a0, a1, iface, ssid, vis, chan, sec, pass, sta] =
    [(''set '' @ name (cmd_list ! 73) @ ''='' @ iface, True, False), (''set '' @ name (cmd_list ! 0) @ ''='' @ ssid, False, True),
     (''set '' @ name (cmd_list ! 1) @ ''='' @ (if vis = ''hidden'' then ''1'' else ''0''), True, True),
     (''set channel='' @ fmt_d (atoi 32 chan), True, True), (''set security_mode='' @ fmt_d (int (sec_of sec)), True, True),
     (''set '' @ name (cmd_list ! 13) @ ''='' @ pass, True, True),
     (''set '' @ name (cmd_list ! 66) @ ''='' @ fmt_d (atoi 32 sta), True, True), (''set commit'', True, True)]"
proof -
  have s: "sec_of sec = SEC_MODE_WPA_PSK \<or> sec_of sec = SEC_MODE_WPA2_PSK" "length (fmt_d (int (sec_of sec))) = 1"
    using assms by (auto simp: setup_ok_def sec_of_def sec_mode_defs mode_digits)
  have l: "length (fmt_d (atoi 32 sta)) \<le> 11" using to_int32_range by (intro length_fmt_d) (simp_all add: atoi_def Let_def split: prod.splits)
  have sc: "length t < 255 \<Longrightarrow> scn CMD_BUF_LEN t = t" for t by (simp add: scn_def qsap_scnprintf_def CMD_BUF_LEN_def)
  show ?thesis unfolding setup_names using assms s l
    by (simp add: softap_commands_def Let_def arg_def setup_ok_def val_ok_def sc mode_digits)
qed

definition setup_lines :: "string \<Rightarrow> string \<Rightarrow> string \<Rightarrow> int \<Rightarrow> nat \<Rightarrow> string \<Rightarrow> int \<Rightarrow> string list \<Rightarrow> string list" where
  "setup_lines iface ssid h c m pass n ls =
     put_lines ''max_num_sta'' (fmt_d n) False (put_lines ''wpa_passphrase'' pass False (security_lines m
       (put_lines ''channel'' (fmt_d c) False (mode_lines c
         (put_lines ''ignore_broadcast_ssid'' h False (put_lines ''ssid'' ssid False (put_lines ''interface'' iface False ls)))))))"

text \<open>The values the sequence writes are well formed.\<close>

lemma setup_values:
  assumes "setup_ok iface ssid chan sec pass"
  shows "checked_value 73 iface = Some iface" "checked_value 0 ssid = Some ssid" "checked_value 13 pass = Some pass"
    "checked_value 66 (fmt_d k) = Some (fmt_d k)" "h \<in> {''0'', ''1''} \<Longrightarrow> checked_value 1 h = Some h"
    "h \<in> {''0'', ''1''} \<Longrightarrow> val_ok ''ignore_broadcast_ssid'' h" "val_ok ''max_num_sta'' (fmt_d (atoi 32 sta))"
    "val_ok ''channel'' (fmt_d (atoi 32 chan))"
proof -
  show "checked_value 73 iface = Some iface" "checked_value 0 ssid = Some ssid" "checked_value 13 pass = Some pass"
    "checked_value 66 (fmt_d k) = Some (fmt_d k)"
    using assms by (simp_all add: setup_ok_def checked_value_def cmd_num_defs by_length_def SSD_MAX_LEN_def
        IS_VALID_PASSPHRASE_LEN_def within_def)
  have "checked_value 1 ''0'' = Some ''0''" "checked_value 1 ''1'' = Some ''1''" by code_simp+
  then show "h \<in> {''0'', ''1''} \<Longrightarrow> checked_value 1 h = Some h" by auto
  show "h \<in> {''0'', ''1''} \<Longrightarrow> val_ok ''ignore_broadcast_ssid'' h" by (auto simp: val_ok_def NL_def NUL_def CR_def)
  show "val_ok ''max_num_sta'' (fmt_d (atoi 32 sta))"
    using length_fmt_d [OF atoi_range, of 32 sta] by (intro fmt_d_val_ok) simp
  show "val_ok ''channel'' (fmt_d (atoi 32 chan))" using assms by (intro fmt_d_val_ok) (simp add: setup_ok_def)
qed

lemma setup_get:
  assumes "conf_ok ls" and "setup_ok iface ssid chan sec pass" and "h \<in> {''0'', ''1''}" and "m = 2 \<or> m = 3"
    and ls'_def: "ls' = setup_lines iface ssid h (atoi 32 chan) m pass (atoi 32 sta) ls"
  shows "get_param ''interface'' ls' = Some iface" "get_param ''ssid'' ls' = Some ssid"
    "get_param ''ignore_broadcast_ssid'' ls' = Some h" "get_param ''channel'' ls' = Some (fmt_d (atoi 32 chan))"
    "get_param ''wpa_passphrase'' ls' = Some pass" "get_param ''max_num_sta'' ls' = Some (fmt_d (atoi 32 sta))"
    "get_param ''wpa'' ls' = Some (if m = 2 then ''1'' else ''2'')" "get_param ''wep_default_key'' ls' = None"
    "cur_mode (put_lines ''ignore_broadcast_ssid'' h False (put_lines ''ssid'' ssid False (put_lines ''interface'' iface False ls))) = cur_mode ls"
proof -
  have v: "val_ok ''interface'' iface" "val_ok ''ssid'' ssid" "val_ok ''wpa_passphrase'' pass"
    using assms(2) by (simp_all add: setup_ok_def)
  note w = setup_values(6) [OF assms(2,3)] setup_values(7,8) [OF assms(2)]
  have mi: "m < SEC_MODE_INVALID" using assms(4) by (auto simp: SEC_MODE_INVALID_def)
  note k = keys chan_keys wpa_keys
  note ok1 = put_lines_ok [OF assms(1) keys(1) v(1), of False]
  note ok2 = put_lines_ok [OF ok1 keys(2) v(2), of False]
  note ok3 = put_lines_ok [OF ok2 keys(3) w(1), of False]
  note okm = mode_lines_ok(1) [OF ok3, of "atoi 32 chan"]
  note ok4 = put_lines_ok [OF okm chan_keys(2) w(3), of False]
  note ok5 = security_lines_get(1) [OF ok4 mi]
  note ok6 = put_lines_ok [OF ok5 keys(4) v(3), of False]
  note g = conf.get_put [OF assms(1) keys(1) v(1)] conf.get_put [OF ok1 keys(2) v(2)] conf.get_put [OF ok2 keys(3) w(1)]
    mode_lines_ok(3) [OF ok3] conf.get_put [OF okm chan_keys(2) w(3)] security_keeps [OF ok4 mi]
    conf.get_put [OF ok5 keys(4) v(3)] conf.get_put [OF ok6 keys(5) w(2)]
  note s = security_lines_get(2,3) [OF ok4 mi]
  show "get_param ''interface'' ls' = Some iface" "get_param ''ssid'' ls' = Some ssid"
    "get_param ''ignore_broadcast_ssid'' ls' = Some h" "get_param ''channel'' ls' = Some (fmt_d (atoi 32 chan))"
    "get_param ''wpa_passphrase'' ls' = Some pass" "get_param ''max_num_sta'' ls' = Some (fmt_d (atoi 32 sta))"
    unfolding ls'_def setup_lines_def by (simp_all add: g k)
  show "get_param ''wpa'' ls' = Some (if m = 2 then ''1'' else ''2'')" "get_param ''wep_default_key'' ls' = None"
    unfolding ls'_def setup_lines_def using assms(4) by (auto simp: g k s wpa_conf_digits sec_mode_defs)
  show "cur_mode (put_lines ''ignore_broadcast_ssid'' h False (put_lines ''ssid'' ssid False (put_lines ''interface'' iface False ls))) = cur_mode ls"
    by (simp add: cur_mode_def g k)
qed

lemma setup_run:
  assumes r: "ready e ls s" and m: "length (cur_mode ls) < 112" and ok: "setup_ok iface ssid chan sec pass"
    and h_def: "h = (if vis = ''hidden'' then ''1'' else ''0'')"
  obtains s' where "qsapsetSoftap e b past [a0, a1, iface, ssid, vis, chan, sec, pass, sta] s = Some (0, s')"
    "ready e (setup_lines iface ssid h (atoi 32 chan) (sec_of sec) pass (atoi 32 sta) ls) s'"
proof -
  have o: "iface \<noteq> []" "val_ok ''interface'' iface" "ssid \<noteq> []" "val_ok ''ssid'' ssid" "length (fmt_d (atoi 32 chan)) \<le> 8"
    "val_ok ''wpa_passphrase'' pass" "pass \<noteq> []" and sec: "sec_of sec = 2 \<or> sec_of sec = 3"
    using ok by (auto simp: setup_ok_def sec_of_def sec_mode_defs)
  have sp: "setup_param 73" "setup_param 0" "setup_param 1" "setup_param 13" "setup_param 66" by (simp_all add: setup_param_def)
  have h: "h \<in> {''0'', ''1''}" "h \<noteq> []" by (simp_all add: h_def)
  note sv = setup_values [OF ok]
  have cok: "conf_ok ls" using r by (simp add: ready_def holds_def)
  obtain s1 where 1: "\<And>cs. run_commands e b past ((''set '' @ ''interface'' @ ''='' @ iface, True, False) # cs) ([], 255) s =
      run_commands e b past cs (''success'', 7) s1" "ready e (put_lines ''interface'' iface False ls) s1"
    using run_fresh [where b = b and past = past and must = False and x = "[]" and n = 255, OF r sp(1) setup_names(5) sv(1) o(2,1)]
    by blast
  obtain s2 where 2: "\<And>cs. run_commands e b past ((''set '' @ ''ssid'' @ ''='' @ ssid, False, True) # cs) (''success'', 7) s1 =
      run_commands e b past cs (''succes'', 6) s2" "ready e (put_lines ''ssid'' ssid False (put_lines ''interface'' iface False ls)) s2"
    using run_same [where b = b and past = past and must = True and x = "''success''", OF 1(2) sp(2) setup_names(1) sv(2) o(4,3)]
    by blast
  let ?l3 = "put_lines ''ignore_broadcast_ssid'' h False (put_lines ''ssid'' ssid False (put_lines ''interface'' iface False ls))"
  obtain s3 where 3: "\<And>cs. run_commands e b past ((''set '' @ ''ignore_broadcast_ssid'' @ ''='' @ h, True, True) # cs) (''succes'', 6) s2 =
      run_commands e b past cs (''success'', 7) s3" "ready e ?l3 s3"
    using run_fresh [where b = b and past = past and must = True and x = "''succes''" and n = 6, OF 2(2) sp(3) setup_names(2) sv(5,6) [OF h(1)] h(2)]
    by blast
  have m3: "length (cur_mode ?l3) < 112" using setup_get(9) [OF cok ok h(1) sec refl] m by simp
  let ?l5 = "security_lines (sec_of sec) (put_lines ''channel'' (fmt_d (atoi 32 chan)) False (mode_lines (atoi 32 chan) ?l3))"
  obtain s4 where 4: "\<And>cs. run_commands e b past ((''set channel='' @ fmt_d (atoi 32 chan), True, True) # cs) (''success'', 7) s3 =
      run_commands e b past cs (''success'', 7) s4"
    "ready e (put_lines ''channel'' (fmt_d (atoi 32 chan)) False (mode_lines (atoi 32 chan) ?l3)) s4"
    using run_channel [where b = b and past = past and x = "''success''" and n = 7, OF 3(2) m3 o(5) atoi_range]
    by blast
  obtain s5 where 5: "\<And>cs. run_commands e b past ((''set security_mode='' @ fmt_d (int (sec_of sec)), True, True) # cs) (''success'', 7) s4 =
      run_commands e b past cs (''success'', 7) s5" "ready e ?l5 s5"
    using run_security [where b = b and past = past and x = "''success''" and n = 7, OF 4(2) sec]
    by blast
  obtain s6 where 6: "\<And>cs. run_commands e b past ((''set '' @ ''wpa_passphrase'' @ ''='' @ pass, True, True) # cs) (''success'', 7) s5 =
      run_commands e b past cs (''success'', 7) s6" "ready e (put_lines ''wpa_passphrase'' pass False ?l5) s6"
    using run_fresh [where b = b and past = past and must = True and x = "''success''" and n = 7, OF 5(2) sp(4) setup_names(3) sv(3) o(6,7)]
    by blast
  obtain s7 where 7: "\<And>cs. run_commands e b past ((''set '' @ ''max_num_sta'' @ ''='' @ fmt_d (atoi 32 sta), True, True) # cs) (''success'', 7) s6 =
      run_commands e b past cs (''success'', 7) s7"
    "ready e (setup_lines iface ssid h (atoi 32 chan) (sec_of sec) pass (atoi 32 sta) ls) s7"
    unfolding setup_lines_def using run_fresh [where b = b and past = past and must = True and x = "''success''" and n = 7, OF 6(2) sp(5) setup_names(4) sv(4,7) fmt_d_ne]
    by blast
  have "qsapsetSoftap e b past [a0, a1, iface, ssid, vis, chan, sec, pass, sta] s = Some (0, s7)"
    unfolding qsapsetSoftap_def RECV_BUF_LEN_def setup_commands [OF ok] setup_names h_def [symmetric]
      1(1) 2(1) 3(1) 4(1) 5(1) 6(1) 7(1) by (rule run_commit [OF 7(2)])
  then show thesis using that 7(2) by blast
qed



end
