(* ===== verification/Sap_Response.thy ===== *)
theory Sap_Response
  imports Sap_Request Sap_Lists Sap_Start
begin

text \<open>
  The typing of responses: whatever the request, the state and the environment, the response is a string that
  fits its buffer with a terminator, and its reported length is the length of the string. The one exception is
  the removal of addresses, which does not report a length.
\<close>

definition fits :: "nat \<Rightarrow> resp \<Rightarrow> bool" where
  "fits n r \<longleftrightarrow> snd r = length (fst r) \<and> snd r < n"

named_theorems fit \<open>responses that fit\<close>

lemma fits_scn [fit]: "0 < n \<Longrightarrow> fits n (qsap_scnprintf t (b, n))"
  by (simp add: fits_def qsap_scnprintf_def)

lemma fits_scn_again [fit]: "fits n r \<Longrightarrow> fits n (qsap_scnprintf t r)"
  by (cases r) (auto simp: fits_def qsap_scnprintf_def)

lemma fits_scn_eq: "qsap_scnprintf t (b, n) = r \<Longrightarrow> 0 < n \<Longrightarrow> fits n r"
  using fits_scn by blast

subsection \<open>Reading\<close>

lemma fits_read_default [fit]: "0 < n \<Longrightarrow> fits n (snd (read_default cmd var (b, n)))"
  by (simp add: read_default_def fit split: option.splits)

lemma fits_read_cfg [fit]: "0 < n \<Longrightarrow> fits n (snd (qsap_read_cfg p cmd var ign (b, n) f))"
  by (simp add: qsap_read_cfg_def fit split: option.splits)

lemma fits_config_value [fit]: "0 < n \<Longrightarrow> fits n (snd (qsap_get_config_value p cmd (b, n) f))"
  using fits_read_cfg [of n p cmd None False b f] by (auto simp: qsap_get_config_value_def split: prod.splits)

lemma strchr_bound: "strchr t x = Some i \<Longrightarrow> i < length t"
  by (induction t arbitrary: i) (auto split: if_splits)

lemma fits_wep_key [fit]:
  assumes "0 < n"
  shows "fits n (qsap_read_wep_key p cmd var (b, n) f)"
proof -
  obtain rc t m where r: "qsap_read_cfg p cmd var True (b, n) f = (rc, (t, m))" by (metis prod.collapse)
  have m: "m = length t" "m < n" using fits_read_cfg [OF assms, of p cmd var True b f] by (simp_all add: r fits_def)
  have "fits n (take (i + length (tl (drop (Suc i) t))) (take (Suc i) t @ tl (drop (Suc i) t)), m - 2)"
    if "strchr t (CHR ''='') = Some i" "take 1 (drop (Suc i) t) = [CHR 0x22]" for i
  proof -
    have "i < length t" using that(1) by (rule strchr_bound)
    moreover have "drop (Suc i) t \<noteq> []" using that(2) by auto
    ultimately show ?thesis using m by (auto simp: fits_def min_def)
  qed
  then show ?thesis using m by (auto simp: qsap_read_wep_key_def r fits_def Let_def split: option.splits)
qed

lemma fits_security_mode [fit]: "0 < n \<Longrightarrow> fits n (snd (qsap_read_security_mode p (b, n) f))"
  by (simp add: qsap_read_security_mode_def Let_def fit)

lemma length_scn: "0 < k \<Longrightarrow> length (scn k t) < k"
  by (auto simp: scn_def qsap_scnprintf_def)

lemma grow: "0 < k \<Longrightarrow> length t < k \<Longrightarrow> (\<And>j. 0 < j \<Longrightarrow> length (g j) < j) \<Longrightarrow> length (t @ g (k - length t)) < k"
proof -
  assume a: "length t < k" "\<And>j. 0 < j \<Longrightarrow> length (g j) < j"
  have "length (g (k - length t)) < k - length t" using a(1) by (intro a(2)) simp
  then show "length (t @ g (k - length t)) < k" by simp
qed

lemma length_mac_out: "0 < k \<Longrightarrow> length (mac_out k cnt ls) < k"
proof (induction ls arbitrary: k cnt)
  case (Cons l ls)
  note s = length_scn [OF Cons.prems, of "butlast (cstr l) @ '' ''"]
  show ?case using Cons s grow [OF Cons.prems s, of "\<lambda>j. mac_out j (Suc cnt) ls"] by (simp add: Let_def)
qed simp

lemma fits_append:
  assumes "0 < n" and "\<And>k. 0 < k \<Longrightarrow> length (g k) < k" and "qsap_scnprintf t (b, n) = (u, m)"
  shows "fits n (u @ g (n - m), m + length (g (n - m)))"
proof -
  have m: "m = length u" "m < n" using fits_scn [OF assms(1), of t b] by (simp_all add: assms(3) fits_def)
  then have "length (g (n - m)) < n - m" by (intro assms(2)) simp
  with m show ?thesis by (simp add: fits_def)
qed

lemma fits_mac_list [fit]:
  assumes "0 < n"
  shows "fits n (qsap_get_mac_list p c (b, n) f)"
proof -
  have "fits n (u @ mac_out (n - m) 0 ls, length (u @ mac_out (n - m) 0 ls))"
    if "qsap_scnprintf t (b, n) = (u, m)" for u m t ls
    using fits_append [OF assms, where g = "\<lambda>k. mac_out k 0 ls", OF length_mac_out that] by (auto simp: fits_def)
  then show ?thesis
    using assms by (auto simp: qsap_get_mac_list_def Let_def fit split: option.splits prod.splits)
qed

lemma length_macstr_loop: "0 < k \<Longrightarrow> length (mac_to_macstr_loop macs k) < k"
proof (induction macs arbitrary: k)
  case (Cons mac macs)
  then show ?case using grow [OF Cons.prems length_scn [OF Cons.prems], of "mac_to_macstr_loop macs" "macstr_of mac"] by (simp add: Let_def)
qed simp

lemma length_macstr: "0 < k \<Longrightarrow> length (qsap_mac_to_macstr macs k) < k"
  using length_macstr_loop [of k macs] by (simp add: qsap_mac_to_macstr_def)

lemma fits_stations [fit]: "0 < n \<Longrightarrow> fits n (fst (qsap_get_associated_sta_mac e (b, n) s))"
  using fits_append [OF _ length_macstr]
  by (auto simp: qsap_get_associated_sta_mac_def Let_def fit split: option.splits prod.splits)

lemma length_mac_pairs: "0 < k \<Longrightarrow> length (mac_pairs k mac) < k"
proof (induction k mac rule: mac_pairs.induct)
  case (1 len a b mac)
  have "length (scn len [a, b, CHR '':'']) < len" using 1(2) by (rule length_scn)
  with 1(1) [OF refl] show ?case by (simp add: Let_def less_diff_conv2)
qed simp_all

lemma fits_mac_address [fit]:
  assumes "0 < n"
  shows "fits n (snd (qsap_read_mac_address (b, n) s))"
proof -
  have r: "fits n (t, m)" if "qsap_read_cfg p c v ign (b, n) f = (rc, (t, m))" for p c v ign f rc t m
    using fits_read_cfg [OF assms, of p c v ign b f] by (simp add: that)
  have "fits n (butlast (u @ mac_pairs (n - length u) mac), length (butlast (u @ mac_pairs (n - length u) mac)))"
    if "qsap_scnprintf t (x, n) = (u, m)" for t x u m mac
    using fits_append [OF assms, where g = "\<lambda>k. mac_pairs k mac", OF length_mac_pairs that] fits_scn [OF assms, of t x]
    by (auto simp: fits_def that)
  then show ?thesis using r
    by (auto simp: qsap_read_mac_address_def Let_def split: option.splits prod.splits)
qed

lemma fits_wps_state [fit]: "0 < n \<Longrightarrow> fits n (qsap_read_wps_state (b, n) f)"
  by (simp add: qsap_read_wps_state_def Let_def fit split: prod.splits)

lemma fits_autoshutoff [fit]: "0 < n \<Longrightarrow> fits n (qsap_read_autoshutoff (b, n) s)"
  by (simp add: qsap_read_autoshutoff_def Let_def fit split: prod.splits)

lemma fits_channel [fit]: "0 < n \<Longrightarrow> fits n (fst (qsap_read_channel e cmd (b, n) s))"
  "0 < n \<Longrightarrow> fits n (fst (qsap_read_auto_channel e (b, n) s))"
  by (simp_all add: qsap_read_channel_def qsap_read_auto_channel_def fit split: prod.splits)

lemma fits_stats [fit]: "0 < n \<Longrightarrow> fits n (fst (qsap_read_ap_stats e (b, n) s))"
  by (simp add: qsap_read_ap_stats_def fit split: prod.splits option.splits)

lemma fits_if: "(P \<Longrightarrow> fits n (fst x)) \<Longrightarrow> (\<not> P \<Longrightarrow> fits n (fst y)) \<Longrightarrow> fits n (fst (if P then x else y))"
  by simp

lemma fits_mac_answer:
  "0 < n \<Longrightarrow> fits n (fst (case qsap_read_mac_address (b, n) s of (rc, r') \<Rightarrow>
     (if rc \<noteq> eSUCCESS then qsap_scnprintf ERR_NOT_SUPPORTED r' else r', s)))"
  using fits_mac_address [of n b s] by (cases "qsap_read_mac_address (b, n) s") (simp add: fits_scn_again)

lemma fits_get [fit]: "0 < n \<Longrightarrow> fits n (fst (get_from_config e c (b, n) s))"
  unfolding get_from_config_def
  by (intro fits_if) (rule fits_mac_answer | simp add: fit split: prod.splits option.splits)+

lemma fits_trim [fit]: "fits n r \<Longrightarrow> fits n (trim_response r)"
proof -
  assume f: "fits n r"
  have "length (dropWhile is_blank (rev (drop 1 (fst r)))) \<le> length (drop 1 (fst r))"
    by (metis length_dropWhile_le length_rev)
  then show ?thesis using f by (cases "fst r") (auto simp: trim_response_def Let_def fits_def)
qed

lemma fits_get_request [fit]: "0 < n \<Longrightarrow> fits n (fst (qsap_handle_get_request e cmd (b, n) s))"
proof -
  assume n: "0 < n"
  have "fits n (fst (qsap_get_from_config e c (b, n) s))" for c
    using fits_trim [OF fits_get [OF n, of e c b s]] by (cases "get_from_config e c (b, n) s") (simp add: qsap_get_from_config_def)
  then show ?thesis using n by (simp add: qsap_handle_get_request_def Let_def fit)
qed

subsection \<open>Writing\<close>

lemma fits_write_cfg [fit]: "0 < n \<Longrightarrow> fits n (fst (snd (qsap_write_cfg io p cmd v ini (b, n) f)))"
  by (simp add: qsap_write_cfg_def Let_def fit split: option.splits prod.splits bool.splits)

lemma fits_fs_write [fit]: "0 < n \<Longrightarrow> fits n (fst (snd (fs_write e p cmd v ini (b, n) s)))"
  using fits_write_cfg [of n "a_io e" p cmd v ini b "fs s"] by (auto simp: fs_write_def split: prod.splits)

lemma fits_set_security [fit]: "0 < n \<Longrightarrow> fits n (fst (qsap_set_security_mode io p m (b, n) f))"
  by (simp add: qsap_set_security_mode_def Let_def fit split: prod.splits)

lemma fits_wps_config [fit]:
  assumes "0 < n"
  shows "fits n (fst (qsap_update_wps_config e v (b, n) s))"
proof -
  have "fits n r'" if "fs_write e p cmd w ini (x, n) s = (rc, r', s')" for p cmd w ini x s rc r' s'
    using fits_fs_write [OF assms, of e p cmd w ini x s] by (simp add: that)
  then show ?thesis using assms
    by (auto simp: qsap_update_wps_config_def Let_def fit split: prod.splits)
qed

lemma fits_write_checked [fit]: "0 < n \<Longrightarrow> fits n (fst (write_checked e c v (b, n) s))"
  by (simp add: write_checked_def fit split: option.splits)

lemma fits_acl [fit]: "0 < n \<Longrightarrow> fits n (fst (set_macaddr_acl e c v (b, n) s))"
  by (simp add: set_macaddr_acl_def Let_def fit split: option.splits prod.splits)

lemma fits_pairwise [fit]: "0 < n \<Longrightarrow> fits n (fst (set_pairwise e c v (b, n) s))"
  by (simp add: set_pairwise_def fit split: prod.splits)

lemma fits_write_wep [fit]:
  assumes "0 < n"
  shows "fits n (fst (write_wep e c v (b, n) s))"
proof -
  obtain rc r1 s1 where w: "fs_write e CONFIG_FILE (cmd_list ! c) v False (b, n) s = (rc, r1, s1)" by (metis prod.collapse)
  have "fits n r1" using fits_fs_write [OF assms, of e CONFIG_FILE "cmd_list ! c" v False b s] by (simp add: w)
  then show ?thesis by (simp add: write_wep_def w fits_scn_again split: prod.splits)
qed

lemma fits_verdict [fit]: "0 < n \<Longrightarrow> fits n (verdict rc t (b, n))"
  by (simp add: verdict_def fit)

lemma fits_data_rate [fit]:
  assumes "0 < n"
  shows "fits n (fst (snd (qsap_set_data_rate e i (b, n) s)))"
  using assms by (simp add: qsap_set_data_rate_def fit split: prod.splits option.splits)

lemma fits_wps_method: "0 < n \<Longrightarrow> qsap_config_wps_method e v (b, n) s = Some (r', s') \<Longrightarrow> fits n r'"
  by (auto simp: qsap_config_wps_method_def Let_def fit split: prod.splits if_splits)

lemma fits_disassociate: "0 < n \<Longrightarrow> qsap_disassociate_sta e v (b, n) s = Some (r', s') \<Longrightarrow> fits n r'"
  by (auto simp: qsap_disassociate_sta_def fit split: prod.splits if_splits option.splits)

lemma fits_add_mac: "0 < n \<Longrightarrow> qsap_add_mac_to_file io p v past (b, n) f = Some (r', f') \<Longrightarrow> fits n r'"
  by (auto simp: qsap_add_mac_to_file_def Let_def fit split: if_splits)

lemma fits_mac_request:
  "0 < n \<Longrightarrow> set_mac_list e c v past (b, n) s = Some (r', s') \<Longrightarrow> int c \<noteq> eCMD_REMOVE_FROM_ALLOW \<Longrightarrow>
     int c \<noteq> eCMD_REMOVE_FROM_DENY \<Longrightarrow> fits n r'"
  by (auto simp: set_mac_list_def Let_def qsap_update_mac_list_def fit dest: fits_add_mac fits_scn_eq split: option.splits if_splits)

text \<open>Requests that may have no defined result.\<close>

definition opt_fits :: "nat \<Rightarrow> (resp \<times> ap_st) option \<Rightarrow> bool" where
  "opt_fits n x \<longleftrightarrow> (\<forall>r' s'. x = Some (r', s') \<longrightarrow> fits n r')"

lemma opt_fits_if: "(P \<Longrightarrow> opt_fits n x) \<Longrightarrow> (\<not> P \<Longrightarrow> opt_fits n y) \<Longrightarrow> opt_fits n (if P then x else y)"
  by simp

lemma opt_fits_Some: "fits n (fst y) \<Longrightarrow> opt_fits n (Some y)"
  by (cases y) (simp add: opt_fits_def)

lemma opt_fits_pair: "(\<And>a s'. p = (a, s') \<Longrightarrow> fits n (g a)) \<Longrightarrow> opt_fits n (case p of (a, s') \<Rightarrow> Some (g a, s'))"
  by (cases p) (simp add: opt_fits_def)

lemma opt_fits_option:
  "(x = None \<Longrightarrow> opt_fits n a) \<Longrightarrow> (\<And>y. x = Some y \<Longrightarrow> opt_fits n (g y)) \<Longrightarrow>
     opt_fits n (case x of None \<Rightarrow> a | Some y \<Rightarrow> g y)"
  by (cases x) simp_all

lemma opt_fits_set_param:
  assumes n: "0 < n" and c: "int c \<noteq> eCMD_REMOVE_FROM_ALLOW" "int c \<noteq> eCMD_REMOVE_FROM_DENY"
  shows "opt_fits n (set_param e b c pcmd v past (buf, n) s)"
proof -
  have m: "opt_fits n (set_mac_list e c v past (buf, n) s)" using fits_mac_request [OF n _ c] by (simp add: opt_fits_def)
  have w: "opt_fits n (qsap_config_wps_method e v (buf, n) s)" "opt_fits n (qsap_disassociate_sta e v (buf, n) s)"
    using fits_wps_method [OF n] fits_disassociate [OF n] by (simp_all add: opt_fits_def)
  have sec: "opt_fits n (case qsap_set_security_mode io p k (buf, n) f of (r', f') \<Rightarrow> Some (r', s\<lparr>fs := f'\<rparr>))" for io p k f
    using fits_set_security [OF n, of io p k buf f] by (auto simp: opt_fits_def split: prod.splits)
  have rate: "opt_fits n (case qsap_set_data_rate e i (buf, n) s of (x, r', s') \<Rightarrow> Some (r', s'))" for i
    using fits_data_rate [OF n, of e i buf s] by (auto simp: opt_fits_def split: prod.splits)
  have key: "opt_fits n (case is_valid_wep_key v k of (True, Some key) \<Rightarrow> Some (write_wep e c key (buf, n) s)
      | _ \<Rightarrow> Some (qsap_scnprintf ERR_INVALID_PARAM (buf, n), s))" for k
    using n by (auto intro!: opt_fits_Some simp: fit split: prod.splits option.splits bool.splits)
  show ?thesis unfolding set_param_def Let_def
    by (intro opt_fits_if opt_fits_option)
      ((rule m | rule w | rule sec | rule rate | rule key | rule opt_fits_Some | rule opt_fits_pair);
        (use n in \<open>simp add: fit\<close>)?)+
qed


lemma typed_demo: "qsap_hostd_exec_cmd slow_env demo_build ''get ssid'' (\<lambda>_. NUL) ([], 12) conf_ap \<noteq> None"
  by code_simp


end
