(* ===== verification/Gpt_Table.thy ===== *)
theory Gpt_Table
  imports C_Prelude
begin

unbundle bit_operations_syntax

text \<open>
  The partition tables of the boot device and their safe update,
  \<^verbatim>\<open>src/common/recovery/oem-recovery/gpt-utils.cpp\<close>, with the function of the update script that
  calls it (\<^verbatim>\<open>oem-updater.cpp\<close>). The device is a list of bytes. Which calls fail, and how
  many bytes a read or write moves, is decided by an environment for each step; so are the
  contents of arrays that are not initialised and the checksum function, which is not part of the
  tree. Access outside an array is \<open>Fault\<close>, a loop that makes no progress is \<open>Blocked\<close>.
\<close>

subsection \<open>Constants and types\<close>

definition LBA_SIZE :: nat where "LBA_SIZE = 512"
definition GPT_SIGNATURE :: "u8 list" where "GPT_SIGNATURE = [0x45, 0x46, 0x49, 0x20, 0x50, 0x41, 0x52, 0x54, 0]"
definition HEADER_SIZE_OFFSET :: nat where "HEADER_SIZE_OFFSET = 12"
definition HEADER_CRC_OFFSET :: nat where "HEADER_CRC_OFFSET = 16"
definition PENTRIES_OFFSET :: nat where "PENTRIES_OFFSET = 72"
definition PARTITION_COUNT_OFFSET :: nat where "PARTITION_COUNT_OFFSET = 80"
definition PENTRY_SIZE_OFFSET :: nat where "PENTRY_SIZE_OFFSET = 84"
definition PARTITION_CRC_OFFSET :: nat where "PARTITION_CRC_OFFSET = 88"
definition TYPE_GUID_SIZE :: nat where "TYPE_GUID_SIZE = 16"
definition PARTITION_NAME_OFFSET :: nat where "PARTITION_NAME_OFFSET = 56"
definition MAX_GPT_NAME_SIZE :: nat where "MAX_GPT_NAME_SIZE = 72"

text \<open>The names to be swapped, \<^verbatim>\<open>sbl1\<close>, \<^verbatim>\<open>rpm\<close>, \<^verbatim>\<open>tz\<close> and \<^verbatim>\<open>aboot\<close>, and the extension \<^verbatim>\<open>bak\<close>.\<close>

definition PTN_SWAP_LIST :: "u8 list list" where
  "PTN_SWAP_LIST = [[0x73, 0x62, 0x6C, 0x31], [0x72, 0x70, 0x6D], [0x74, 0x7A], [0x61, 0x62, 0x6F, 0x6F, 0x74]]"

definition BAK_PTN_NAME_EXT :: "u8 list" where "BAK_PTN_NAME_EXT = [0x62, 0x61, 0x6B]"

definition GET_4_BYTES :: "nat \<Rightarrow> u8 list \<Rightarrow> u32" where
  "GET_4_BYTES off d = ucast (d ! off) OR push_bit 8 (ucast (d ! (off + 1))) OR push_bit 16 (ucast (d ! (off + 2))) OR
     push_bit 24 (ucast (d ! (off + 3)))"

definition GET_8_BYTES :: "nat \<Rightarrow> u8 list \<Rightarrow> u64" where
  "GET_8_BYTES off d = ucast (d ! off) OR push_bit 8 (ucast (d ! (off + 1))) OR push_bit 16 (ucast (d ! (off + 2))) OR
     push_bit 24 (ucast (d ! (off + 3))) OR push_bit 32 (ucast (d ! (off + 4))) OR push_bit 40 (ucast (d ! (off + 5))) OR
     push_bit 48 (ucast (d ! (off + 6))) OR push_bit 56 (ucast (d ! (off + 7)))"

definition PUT_4_BYTES :: "nat \<Rightarrow> u32 \<Rightarrow> u8 list \<Rightarrow> u8 list" where
  "PUT_4_BYTES off y d = put_at off (le32 y) d"

datatype gpt_instance = PRIMARY_GPT | SECONDARY_GPT
datatype boot_chain = NORMAL_BOOT | BACKUP_BOOT
datatype gpt_state = GPT_OK | GPT_BAD_SIGNATURE | GPT_BAD_CRC
datatype boot_update_stage = UPDATE_MAIN | UPDATE_BACKUP | UPDATE_FINALIZE

fun stage_no :: "boot_update_stage \<Rightarrow> int" where
  "stage_no UPDATE_MAIN = 1"
| "stage_no UPDATE_BACKUP = 2"
| "stage_no UPDATE_FINALIZE = 3"

text \<open>
  The environment, asked with the number of the step: whether a seek works, how many bytes of
  those asked for are read or written (\<open>None\<close> is an error), whether memory is available,
  and the bytes of an array on the stack.
\<close>

record gpt_env =
  open_ok :: bool
  seek_ok :: "nat \<Rightarrow> bool"
  read_res :: "nat \<Rightarrow> nat \<Rightarrow> nat option"
  write_res :: "nat \<Rightarrow> nat \<Rightarrow> nat option"
  calloc_ok :: "nat \<Rightarrow> bool"
  stack :: "nat \<Rightarrow> nat \<Rightarrow> u8"
  sparse_crc32 :: "u32 \<Rightarrow> u8 list \<Rightarrow> u32"

record gpt_dev =
  disk :: "u8 list"
  step :: nat

definition gpt_tick :: "gpt_dev \<Rightarrow> gpt_dev" where
  "gpt_tick dev = dev\<lparr>step := Suc (step dev)\<rparr>"

subsection \<open>The block device\<close>

text \<open>A short read or write counts as a success.\<close>

definition blk_rw :: "gpt_env \<Rightarrow> bool \<Rightarrow> int \<Rightarrow> u8 list \<Rightarrow> gpt_dev \<Rightarrow> int \<times> u8 list \<times> gpt_dev" where
  "blk_rw e rw offset buf dev =
     (let next = gpt_tick dev; len = length buf
      in if offset < 0 \<or> \<not> seek_ok e (step dev) then (-1, buf, next)
         else case (if rw then write_res e (step dev) len else read_res e (step dev) len) of
                None \<Rightarrow> (-1, buf, next)
              | Some k \<Rightarrow>
                  let n = min k (min len (length (disk dev) - nat offset))
                  in if rw then (0, buf, next\<lparr>disk := put_at (nat offset) (take n buf) (disk dev)\<rparr>)
                     else (0, bytes_at (nat offset) n (disk dev) @ drop n buf, next))"

definition seek_end :: "gpt_env \<Rightarrow> gpt_dev \<Rightarrow> int \<times> gpt_dev" where
  "seek_end e dev = (if seek_ok e (step dev) then int (length (disk dev)) else -1, gpt_tick dev)"

definition gpt_header_array :: "gpt_env \<Rightarrow> gpt_dev \<Rightarrow> u8 list" where
  "gpt_header_array e dev = map (stack e (step dev)) [0..<LBA_SIZE]"

definition crc_over :: "gpt_env \<Rightarrow> u8 list \<Rightarrow> u32 \<Rightarrow> u32 outcome" where
  "crc_over e buf nbytes =
     (if unat nbytes > length buf then Fault else Returns (sparse_crc32 e 0 (take (unat nbytes) buf)))"

subsection \<open>Partition entries\<close>

text \<open>
  The test of one entry: its name, every second byte of the field, begins with the name that is
  sought and ends there or with the extension.
\<close>

definition name8 :: "u8 list \<Rightarrow> nat \<Rightarrow> u8 list" where
  "name8 d pentry = map (\<lambda>i. d ! (pentry + PARTITION_NAME_OFFSET + 2 * i)) [0..<MAX_GPT_NAME_SIZE div 2]"

definition name_matches :: "u8 list \<Rightarrow> u8 list \<Rightarrow> bool" where
  "name_matches ptn_name nm =
     (take (length ptn_name) nm = ptn_name \<and>
      (nm ! length ptn_name = 0 \<or> take 4 (drop (length ptn_name) nm) = BAK_PTN_NAME_EXT @ [0]))"

text \<open>The loop over the entries from the offset \<open>pentry\<close> on.\<close>

function gpt_pentry_seek :: "u8 list \<Rightarrow> u8 list \<Rightarrow> nat \<Rightarrow> nat \<Rightarrow> nat option outcome" where
  "gpt_pentry_seek ptn_name d pentry_size pentry =
     (if pentry + PARTITION_NAME_OFFSET \<ge> length d then Returns None
      else if pentry + PARTITION_NAME_OFFSET + MAX_GPT_NAME_SIZE - 2 \<ge> length d then Fault
      else if name_matches ptn_name (name8 d pentry) then Returns (Some pentry)
      else if pentry_size = 0 then Blocked
      else gpt_pentry_seek ptn_name d pentry_size (pentry + pentry_size))"
  by pat_completeness auto

termination
  by (relation "measure (\<lambda>(n, d, s, p). length d - p)") (auto simp: PARTITION_NAME_OFFSET_def)

declare gpt_pentry_seek.simps [simp del]

text \<open>Copying between entries that overlap is undefined.\<close>

definition swap_guids :: "nat \<Rightarrow> nat \<Rightarrow> u8 list \<Rightarrow> u8 list outcome" where
  "swap_guids a b d =
     (if b < a + TYPE_GUID_SIZE then Fault
      else let ptn_swap = bytes_at a TYPE_GUID_SIZE d; d' = put_at a (bytes_at b TYPE_GUID_SIZE d) d
           in Returns (put_at b ptn_swap d'))"

text \<open>One name of the list: the array, and whether a backup was found.\<close>

definition swap_partition :: "nat \<Rightarrow> u8 list \<Rightarrow> u8 list \<Rightarrow> (bool \<times> u8 list) outcome" where
  "swap_partition pentry_size ptn_name d =
     bind_outcome (gpt_pentry_seek ptn_name d pentry_size 0)
       (\<lambda>ptn_entry. case ptn_entry of
          None \<Rightarrow> Returns (False, d)
        | Some a \<Rightarrow>
            bind_outcome (gpt_pentry_seek ptn_name d pentry_size (a + pentry_size))
              (\<lambda>ptn_bak_entry. case ptn_bak_entry of
                 None \<Rightarrow> Returns (False, d)
               | Some b \<Rightarrow> bind_outcome (swap_guids a b d) (\<lambda>d. Returns (True, d))))"

fun swap_partitions :: "nat \<Rightarrow> u8 list list \<Rightarrow> bool \<Rightarrow> u8 list \<Rightarrow> (bool \<times> u8 list) outcome" where
  "swap_partitions pentry_size [] found d = Returns (found, d)"
| "swap_partitions pentry_size (nm # nms) found d =
     bind_outcome (swap_partition pentry_size nm d)
       (\<lambda>(f, d). swap_partitions pentry_size nms (found \<or> f) d)"

definition gpt_boot_chain_swap :: "nat \<Rightarrow> u8 list \<Rightarrow> (int \<times> u8 list) outcome" where
  "gpt_boot_chain_swap pentry_size d =
     bind_outcome (swap_partitions pentry_size PTN_SWAP_LIST False d)
       (\<lambda>(found, d). Returns (if found then 0 else 1, d))"

subsection \<open>Headers\<close>

definition pentries_start :: "u8 list \<Rightarrow> u64" where
  "pentries_start h = GET_8_BYTES PENTRIES_OFFSET h * of_nat LBA_SIZE"

definition pentries_array_size :: "u8 list \<Rightarrow> u32" where
  "pentries_array_size h = GET_4_BYTES PARTITION_COUNT_OFFSET h * GET_4_BYTES PENTRY_SIZE_OFFSET h"

text \<open>The checksum of the header is computed with its field cleared.\<close>

definition put_header_crc :: "gpt_env \<Rightarrow> u8 list \<Rightarrow> u8 list outcome" where
  "put_header_crc e h =
     (let h = PUT_4_BYTES HEADER_CRC_OFFSET 0 h
      in bind_outcome (crc_over e h (GET_4_BYTES HEADER_SIZE_OFFSET h))
           (\<lambda>crc. Returns (PUT_4_BYTES HEADER_CRC_OFFSET crc h)))"

text \<open>From the new entries on: both checksums, then the header and the entries are written.\<close>

definition write_gpt2 ::
  "gpt_env \<Rightarrow> int \<Rightarrow> u8 list \<Rightarrow> u8 list \<Rightarrow> gpt_dev \<Rightarrow> (int \<times> gpt_dev) outcome" where
  "write_gpt2 e gpt2_header_offset h pentries dev =
     (let crc = sparse_crc32 e 0 pentries
      in bind_outcome (put_header_crc e (PUT_4_BYTES PARTITION_CRC_OFFSET crc h))
        (\<lambda>h'. let (r, _, dev) = blk_rw e True gpt2_header_offset h' dev
              in if r \<noteq> 0 then Returns (r, dev)
                 else let (r, _, dev) = blk_rw e True (sint (pentries_start h)) pentries dev in Returns (r, dev)))"

definition gpt2_set_boot_chain :: "gpt_env \<Rightarrow> boot_chain \<Rightarrow> gpt_dev \<Rightarrow> (int \<times> gpt_dev) outcome" where
  "gpt2_set_boot_chain e boot dev =
     (let header = gpt_header_array e dev; (dsize, dev) = seek_end e dev; gpt2_header_offset = dsize - int LBA_SIZE
      in if gpt2_header_offset < 0 then Returns (-1, dev)
      else let (r, h1, dev) = blk_rw e False (int LBA_SIZE) header dev
      in if r \<noteq> 0 then Returns (r, dev)
      else if \<not> calloc_ok e (step dev) then Returns (-1, dev)
      else let (r, pentries, dev) = blk_rw e False (sint (pentries_start h1)) (replicate (unat (pentries_array_size h1)) 0) dev
      in if r \<noteq> 0 then Returns (r, dev)
      else if GET_4_BYTES PARTITION_CRC_OFFSET h1 \<noteq> sparse_crc32 e 0 pentries then Returns (-1, dev)
      else let (r, h2, dev) = blk_rw e False gpt2_header_offset h1 dev
      in if r \<noteq> 0 then Returns (r, dev)
      else bind_outcome
        (if boot = BACKUP_BOOT then gpt_boot_chain_swap (unat (GET_4_BYTES PENTRY_SIZE_OFFSET h1)) pentries
         else Returns (0, pentries))
        (\<lambda>(r, pentries). if r \<noteq> 0 then Returns (r, dev) else write_gpt2 e gpt2_header_offset h2 pentries dev))"

definition gpt_header_offset :: "gpt_env \<Rightarrow> gpt_instance \<Rightarrow> gpt_dev \<Rightarrow> int \<times> gpt_dev" where
  "gpt_header_offset e gpt dev =
     (case gpt of
        PRIMARY_GPT \<Rightarrow> (int LBA_SIZE, dev)
      | SECONDARY_GPT \<Rightarrow> (let (dsize, dev) = seek_end e dev in (dsize - int LBA_SIZE, dev)))"

definition gpt_get_state :: "gpt_env \<Rightarrow> gpt_instance \<Rightarrow> gpt_dev \<Rightarrow> (int \<times> gpt_state \<times> gpt_dev) outcome" where
  "gpt_get_state e gpt dev =
     (let header = gpt_header_array e dev; (offset, dev) = gpt_header_offset e gpt dev
      in if offset < 0 then Returns (-1, GPT_OK, dev)
      else let (r, h, dev) = blk_rw e False offset header dev
      in if r \<noteq> 0 then Returns (-1, GPT_OK, dev)
      else let state = (if take (length GPT_SIGNATURE) h \<noteq> GPT_SIGNATURE then GPT_BAD_SIGNATURE else GPT_OK);
               crc = GET_4_BYTES HEADER_CRC_OFFSET h
      in bind_outcome (crc_over e (PUT_4_BYTES HEADER_CRC_OFFSET 0 h) (GET_4_BYTES HEADER_SIZE_OFFSET h))
           (\<lambda>c. Returns (0, if c \<noteq> crc then GPT_BAD_CRC else state, dev)))"

definition gpt_set_state :: "gpt_env \<Rightarrow> gpt_instance \<Rightarrow> gpt_state \<Rightarrow> gpt_dev \<Rightarrow> (int \<times> gpt_dev) outcome" where
  "gpt_set_state e gpt state dev =
     (let header = gpt_header_array e dev; (offset, dev) = gpt_header_offset e gpt dev
      in if offset < 0 then Returns (-1, dev)
      else let (r, h, dev) = blk_rw e False offset header dev
      in if r \<noteq> 0 then Returns (-1, dev)
      else if state = GPT_BAD_CRC then Returns (-1, dev)
      else let h = (if state = GPT_OK then put_at 0 GPT_SIGNATURE h else put_at 0 [0] h)
      in bind_outcome (put_header_crc e h)
           (\<lambda>h. let (r, _, dev) = blk_rw e True offset h dev in Returns (if r \<noteq> 0 then -1 else 0, dev)))"

subsection \<open>The stages of an update\<close>

definition internal_stage :: "gpt_state \<Rightarrow> gpt_state \<Rightarrow> boot_update_stage option" where
  "internal_stage gpt_prim gpt_second =
     (if gpt_prim = GPT_BAD_CRC \<or> gpt_second = GPT_BAD_CRC then None
      else if gpt_prim = GPT_BAD_SIGNATURE \<and> gpt_second = GPT_BAD_SIGNATURE then None
      else if gpt_prim = GPT_OK \<and> gpt_second = GPT_OK then Some UPDATE_MAIN
      else if gpt_prim = GPT_BAD_SIGNATURE then Some UPDATE_BACKUP
      else Some UPDATE_FINALIZE)"

definition run_stage :: "gpt_env \<Rightarrow> boot_update_stage \<Rightarrow> gpt_dev \<Rightarrow> (int \<times> gpt_dev) outcome" where
  "run_stage e stage dev =
     (case stage of
        UPDATE_MAIN \<Rightarrow>
          bind_outcome (gpt2_set_boot_chain e BACKUP_BOOT dev)
            (\<lambda>(r, dev). if r \<noteq> 0 then Returns (if r < 0 then r else 0, dev)
                        else gpt_set_state e PRIMARY_GPT GPT_BAD_SIGNATURE dev)
      | UPDATE_BACKUP \<Rightarrow>
          bind_outcome (gpt_set_state e PRIMARY_GPT GPT_OK dev)
            (\<lambda>(r, dev). if r \<noteq> 0 then Returns (r, dev) else gpt_set_state e SECONDARY_GPT GPT_BAD_SIGNATURE dev)
      | UPDATE_FINALIZE \<Rightarrow>
          bind_outcome (gpt2_set_boot_chain e NORMAL_BOOT dev)
            (\<lambda>(r, dev). if r < 0 then Returns (r, dev) else gpt_set_state e SECONDARY_GPT GPT_OK dev))"

definition prepare_boot_update :: "gpt_env \<Rightarrow> boot_update_stage \<Rightarrow> gpt_dev \<Rightarrow> (int \<times> gpt_dev) outcome" where
  "prepare_boot_update e stage dev =
     (if \<not> open_ok e then Returns (-1, dev)
      else bind_outcome (gpt_get_state e PRIMARY_GPT dev)
        (\<lambda>(r, gpt_prim, dev). if r \<noteq> 0 then Returns (1, dev)
         else bind_outcome (gpt_get_state e SECONDARY_GPT dev)
          (\<lambda>(r, gpt_second, dev). if r \<noteq> 0 then Returns (1, dev)
           else case internal_stage gpt_prim gpt_second of
                  None \<Rightarrow> Returns (-1, dev)
                | Some st \<Rightarrow>
                    if stage_no stage = stage_no st - 1 then Returns (0, dev)
                    else if stage \<noteq> st then Returns (-1, dev)
                    else run_stage e stage dev)))"

subsection \<open>The function of the update script\<close>

datatype edify_value = ErrorAbort | NullValue | StringValue string

definition stage_of_name :: "string \<Rightarrow> boot_update_stage option" where
  "stage_of_name stageStr =
     (if stageStr = ''main'' then Some UPDATE_MAIN
      else if stageStr = ''backup'' then Some UPDATE_BACKUP
      else if stageStr = ''finalize'' then Some UPDATE_FINALIZE
      else None)"

text \<open>\<open>args\<close> is what the interpreter reads as the argument, \<open>None\<close> when it fails.\<close>

definition BootUpdateFn :: "gpt_env \<Rightarrow> nat \<Rightarrow> string option \<Rightarrow> gpt_dev \<Rightarrow> (edify_value \<times> gpt_dev) outcome" where
  "BootUpdateFn e argc args dev =
     (if argc \<noteq> 1 then Returns (ErrorAbort, dev)
      else case args of
             None \<Rightarrow> Returns (NullValue, dev)
           | Some stageStr \<Rightarrow>
               bind_outcome
                 (case stage_of_name stageStr of
                    None \<Rightarrow> Returns (-1, dev)
                  | Some stage \<Rightarrow> prepare_boot_update e stage dev)
                 (\<lambda>(rc, dev). Returns (StringValue (if rc \<noteq> 0 then [] else ''t''), dev)))"

end
