(* ===== verification/Gpt_Update.thy ===== *)
theory Gpt_Update
  imports Gpt_Table
begin

unbundle bit_operations_syntax

text \<open>
  Facts about the update of the partition tables: the fields of a header are read back and kept
  by changes of other fields, every call returns, and whatever calls and whatever
  operations of the device fail, one of the two copies of the table stays valid.
\<close>

named_theorems gpt_field \<open>fields of a header after a change of another one\<close>

lemmas gpt_consts = LBA_SIZE_def HEADER_SIZE_OFFSET_def HEADER_CRC_OFFSET_def PENTRIES_OFFSET_def PARTITION_COUNT_OFFSET_def
  PENTRY_SIZE_OFFSET_def PARTITION_CRC_OFFSET_def TYPE_GUID_SIZE_def PARTITION_NAME_OFFSET_def MAX_GPT_NAME_SIZE_def

subsection \<open>Fields of a header\<close>

lemma sint_small: "unat w < 2 ^ 63 \<Longrightarrow> sint w = int (unat w)" for w :: u64
proof -
  assume "unat w < 2 ^ 63"
  then have "int (unat w) < 2 ^ 63" by (metis of_nat_less_numeral_power_cancel_iff)
  then have "uint w < 2 ^ 63" by (simp only: uint_nat)
  moreover have "- (2 ^ 63) \<le> uint w" by (rule order_trans [OF _ uint_ge_0]) simp
  ultimately have "signed_take_bit 63 (uint w) = uint w" by (intro signed_take_bit_int_eq_self)
  moreover have "sint w = signed_take_bit 63 (uint w)" using sint_uint [of w] by simp
  ultimately show ?thesis by (simp only: uint_nat)
qed

lemma le32_bytes_or:
  "ucast (ucast w :: u8) OR push_bit 8 (ucast (ucast (drop_bit 8 w) :: u8)) OR push_bit 16 (ucast (ucast (drop_bit 16 w) :: u8)) OR
     push_bit 24 (ucast (ucast (drop_bit 24 w) :: u8)) = (w :: u32)"
proof (rule bit_word_eqI, goal_cases)
  case (1 n)
  then show ?case
    by (cases "n < 16"; cases "n < 24") (auto simp: bit_or_iff bit_push_bit_iff bit_ucast_iff bit_drop_bit_eq)
qed

lemma length_PUT_4_BYTES [simp]: "off + 4 \<le> length d \<Longrightarrow> length (PUT_4_BYTES off y d) = length d"
  by (simp add: PUT_4_BYTES_def)

lemma GET_PUT_4_BYTES [simp]: "off + 4 \<le> length d \<Longrightarrow> GET_4_BYTES off (PUT_4_BYTES off y d) = y"
  by (simp add: GET_4_BYTES_def PUT_4_BYTES_def nth_put_at le32_def le32_bytes_or)

lemma GET_4_BYTES_put_at [gpt_field]:
  "off + length bs \<le> length d \<Longrightarrow> o' + 4 \<le> length d \<Longrightarrow> o' + 4 \<le> off \<or> off + length bs \<le> o' \<Longrightarrow>
     GET_4_BYTES o' (put_at off bs d) = GET_4_BYTES o' d"
  by (auto simp: GET_4_BYTES_def nth_put_at)

lemma GET_8_BYTES_put_at [gpt_field]:
  "off + length bs \<le> length d \<Longrightarrow> o' + 8 \<le> length d \<Longrightarrow> o' + 8 \<le> off \<or> off + length bs \<le> o' \<Longrightarrow>
     GET_8_BYTES o' (put_at off bs d) = GET_8_BYTES o' d"
  by (auto simp: GET_8_BYTES_def nth_put_at)

lemma PUT_PUT_4_BYTES [simp]: "off + 4 \<le> length d \<Longrightarrow> PUT_4_BYTES off y (PUT_4_BYTES off z d) = PUT_4_BYTES off y d"
  by (simp add: PUT_4_BYTES_def put_at_def min_def)

text \<open>What a header says: the size it covers, the place of its entries, their number and their size.\<close>

definition header_fields :: "u8 list \<Rightarrow> u32 \<times> u64 \<times> u32 \<times> u32" where
  "header_fields h = (GET_4_BYTES HEADER_SIZE_OFFSET h, GET_8_BYTES PENTRIES_OFFSET h,
     GET_4_BYTES PARTITION_COUNT_OFFSET h, GET_4_BYTES PENTRY_SIZE_OFFSET h)"

definition header_crc :: "(u32 \<Rightarrow> u8 list \<Rightarrow> u32) \<Rightarrow> u8 list \<Rightarrow> u32" where
  "header_crc C h = C 0 (take (unat (GET_4_BYTES HEADER_SIZE_OFFSET h)) (PUT_4_BYTES HEADER_CRC_OFFSET 0 h))"

definition crc_ok :: "(u32 \<Rightarrow> u8 list \<Rightarrow> u32) \<Rightarrow> u8 list \<Rightarrow> bool" where
  "crc_ok C h = (GET_4_BYTES HEADER_CRC_OFFSET h = header_crc C h)"

definition has_signature :: "u8 list \<Rightarrow> bool" where
  "has_signature h = (take (length GPT_SIGNATURE) h = GPT_SIGNATURE)"

definition seal :: "(u32 \<Rightarrow> u8 list \<Rightarrow> u32) \<Rightarrow> u8 list \<Rightarrow> u8 list" where
  "seal C h = PUT_4_BYTES HEADER_CRC_OFFSET (header_crc C h) h"

lemma take_put_at: "n \<le> off \<Longrightarrow> off + length bs \<le> length d \<Longrightarrow> take n (put_at off bs d) = take n d"
  by (simp add: put_at_def min_def)

lemma PUT_fields [gpt_field]:
  assumes "length h = 512"
  shows "header_fields (PUT_4_BYTES HEADER_CRC_OFFSET y h) = header_fields h"
    "header_fields (PUT_4_BYTES PARTITION_CRC_OFFSET y h) = header_fields h"
    "GET_4_BYTES PARTITION_CRC_OFFSET (PUT_4_BYTES HEADER_CRC_OFFSET y h) = GET_4_BYTES PARTITION_CRC_OFFSET h"
    "has_signature (PUT_4_BYTES HEADER_CRC_OFFSET y h) = has_signature h"
    "has_signature (PUT_4_BYTES PARTITION_CRC_OFFSET y h) = has_signature h"
  using assms
  by (simp_all add: header_fields_def PUT_4_BYTES_def gpt_consts GET_4_BYTES_put_at GET_8_BYTES_put_at has_signature_def GPT_SIGNATURE_def take_put_at)

lemma length_put_crcs [simp]:
  assumes "length h = 512"
  shows "length (PUT_4_BYTES HEADER_CRC_OFFSET y h) = 512" "length (PUT_4_BYTES PARTITION_CRC_OFFSET y h) = 512"
    "GET_4_BYTES HEADER_CRC_OFFSET (PUT_4_BYTES HEADER_CRC_OFFSET y h) = y"
    "GET_4_BYTES PARTITION_CRC_OFFSET (PUT_4_BYTES PARTITION_CRC_OFFSET y h) = y"
  using assms by (simp_all add: gpt_consts)

lemma header_crc_PUT: "length h = 512 \<Longrightarrow> header_crc C (PUT_4_BYTES HEADER_CRC_OFFSET y h) = header_crc C h"
  using PUT_fields(1) [of h y] by (simp add: header_crc_def header_fields_def gpt_consts)

lemma seal_props [simp]:
  assumes "length h = 512"
  shows "length (seal C h) = 512" "header_fields (seal C h) = header_fields h" "has_signature (seal C h) = has_signature h" "crc_ok C (seal C h)"
    "GET_4_BYTES PARTITION_CRC_OFFSET (seal C h) = GET_4_BYTES PARTITION_CRC_OFFSET h"
  using assms by (simp_all add: seal_def gpt_field crc_ok_def header_crc_PUT)

lemma put_header_crc_seal:
  assumes "length h = 512" "unat (GET_4_BYTES HEADER_SIZE_OFFSET h) \<le> 512"
  shows "put_header_crc e h = Returns (seal (sparse_crc32 e) h)"
  using assms PUT_fields(1) [of h 0]
  by (simp add: put_header_crc_def crc_over_def header_crc_def seal_def header_fields_def) (simp add: gpt_consts)

text \<open>The header with its signature written or destroyed.\<close>

definition restate :: "gpt_state \<Rightarrow> u8 list \<Rightarrow> u8 list" where
  "restate st h = (if st = GPT_OK then put_at 0 GPT_SIGNATURE h else put_at 0 [0] h)"

lemma restate_props [simp]:
  assumes "length h = 512"
  shows "length (restate st h) = 512" "header_fields (restate st h) = header_fields h"
    "GET_4_BYTES PARTITION_CRC_OFFSET (restate st h) = GET_4_BYTES PARTITION_CRC_OFFSET h"
    "has_signature (restate st h) = (st = GPT_OK)"
proof -
  have len: "length GPT_SIGNATURE = 9" by (simp add: GPT_SIGNATURE_def)
  show "length (restate st h) = 512" "header_fields (restate st h) = header_fields h"
    "GET_4_BYTES PARTITION_CRC_OFFSET (restate st h) = GET_4_BYTES PARTITION_CRC_OFFSET h"
    using assms len by (simp_all add: restate_def header_fields_def gpt_consts GET_4_BYTES_put_at GET_8_BYTES_put_at)
  show "has_signature (restate st h) = (st = GPT_OK)"
    using assms by (simp add: restate_def has_signature_def GPT_SIGNATURE_def put_at_def)
qed

subsection \<open>Single operations\<close>

text \<open>A device on which every transfer fails or is complete.\<close>

definition full_io :: "gpt_env \<Rightarrow> bool" where
  "full_io e \<longleftrightarrow> (\<forall>n len k. read_res e n len = Some k \<or> write_res e n len = Some k \<longrightarrow> k = len)"

text \<open>A device without failures.\<close>

definition reliable :: "gpt_env \<Rightarrow> bool" where
  "reliable e \<longleftrightarrow> open_ok e \<and> (\<forall>n. seek_ok e n \<and> calloc_ok e n \<and> (\<forall>len. read_res e n len = Some len \<and> write_res e n len = Some len))"

lemma reliableD:
  assumes "reliable e"
  shows "open_ok e" "seek_ok e n" "calloc_ok e n" "read_res e n len = Some len" "write_res e n len = Some len"
  using assms by (auto simp: reliable_def)

lemma full_io_count:
  "full_io e \<Longrightarrow> read_res e n len = None \<or> read_res e n len = Some len"
  "full_io e \<Longrightarrow> write_res e n len = None \<or> write_res e n len = Some len"
  unfolding full_io_def by (metis option.exhaust)+

lemma blk_read_cases:
  assumes "full_io e" "0 \<le> offset" "nat offset + length buf \<le> length (disk dev)"
  obtains "blk_rw e False offset buf dev = (-1, buf, gpt_tick dev)" "\<not> reliable e"
  | "blk_rw e False offset buf dev = (0, bytes_at (nat offset) (length buf) (disk dev), gpt_tick dev)"
proof -
  have "blk_rw e False offset buf dev = (-1, buf, gpt_tick dev) \<and> \<not> reliable e \<or>
      blk_rw e False offset buf dev = (0, bytes_at (nat offset) (length buf) (disk dev), gpt_tick dev)"
    using full_io_count(1) [OF assms(1), of "step dev" "length buf"] assms(2,3)
    by (auto simp: blk_rw_def Let_def reliableD)
  with that show thesis by blast
qed

lemma blk_write_cases:
  assumes "full_io e" "0 \<le> offset" "nat offset + length buf \<le> length (disk dev)"
  obtains "blk_rw e True offset buf dev = (-1, buf, gpt_tick dev)" "\<not> reliable e"
  | "blk_rw e True offset buf dev = (0, buf, (gpt_tick dev)\<lparr>disk := put_at (nat offset) buf (disk dev)\<rparr>)"
proof -
  have "blk_rw e True offset buf dev = (-1, buf, gpt_tick dev) \<and> \<not> reliable e \<or>
      blk_rw e True offset buf dev = (0, buf, (gpt_tick dev)\<lparr>disk := put_at (nat offset) buf (disk dev)\<rparr>)"
    using full_io_count(2) [OF assms(1), of "step dev" "length buf"] assms(2,3)
    by (auto simp: blk_rw_def Let_def reliableD)
  with that show thesis by blast
qed

lemma gpt_tick_disk [simp]: "disk (gpt_tick dev) = disk dev"
  by (simp add: gpt_tick_def)

definition header_place :: "gpt_instance \<Rightarrow> u8 list \<Rightarrow> nat" where
  "header_place gpt d = (case gpt of PRIMARY_GPT \<Rightarrow> 512 | SECONDARY_GPT \<Rightarrow> length d - 512)"

definition header :: "gpt_instance \<Rightarrow> u8 list \<Rightarrow> u8 list" where
  "header gpt d = bytes_at (header_place gpt d) 512 d"

lemma length_header [simp]: "1536 \<le> length d \<Longrightarrow> length (header gpt d) = 512"
  by (cases gpt) (simp_all add: header_def header_place_def bytes_at_def)

lemma header_place_bound: "1536 \<le> length d \<Longrightarrow> header_place gpt d + 512 \<le> length d"
  by (cases gpt) (simp_all add: header_place_def)

text \<open>Reading a header: both functions on headers begin with it.\<close>

lemma read_header_cases:
  assumes "full_io e" "1536 \<le> length (disk dev)"
  obtains dev' where "fst (gpt_header_offset e gpt dev) < 0" "snd (gpt_header_offset e gpt dev) = dev'" "disk dev' = disk dev"
      "\<not> reliable e"
  | dev' dev'' where "gpt_header_offset e gpt dev = (int (header_place gpt (disk dev)), dev')" "disk dev' = disk dev"
      "blk_rw e False (int (header_place gpt (disk dev))) (gpt_header_array e dev) dev' = (-1, gpt_header_array e dev, dev'')"
      "disk dev'' = disk dev" "\<not> reliable e"
  | dev' dev'' where "gpt_header_offset e gpt dev = (int (header_place gpt (disk dev)), dev')" "disk dev' = disk dev"
      "blk_rw e False (int (header_place gpt (disk dev))) (gpt_header_array e dev) dev' = (0, header gpt (disk dev), dev'')"
      "disk dev'' = disk dev"
proof (cases "fst (gpt_header_offset e gpt dev) < 0")
  case True
  then have "\<not> reliable e" using assms(2)
    by (cases gpt) (auto simp: gpt_header_offset_def seek_end_def LBA_SIZE_def reliableD split: if_splits)
  with True show ?thesis using that(1) by (cases gpt) (auto simp: gpt_header_offset_def seek_end_def)
next
  case False
  then obtain dev' where o: "gpt_header_offset e gpt dev = (int (header_place gpt (disk dev)), dev')" "disk dev' = disk dev"
    using assms(2) by (cases gpt) (auto simp: gpt_header_offset_def seek_end_def header_place_def LBA_SIZE_def split: if_splits)
  have "length (gpt_header_array e dev) = 512" by (simp add: gpt_header_array_def LBA_SIZE_def)
  with header_place_bound [OF assms(2), of gpt] o(2)
  show ?thesis
    by (cases rule: blk_read_cases [OF assms(1), of "int (header_place gpt (disk dev))" "gpt_header_array e dev" dev'])
      (use that(2,3) [OF o] o in \<open>auto simp: header_def\<close>)
qed

definition state_of :: "(u32 \<Rightarrow> u8 list \<Rightarrow> u32) \<Rightarrow> u8 list \<Rightarrow> gpt_state" where
  "state_of C h = (if \<not> crc_ok C h then GPT_BAD_CRC else if has_signature h then GPT_OK else GPT_BAD_SIGNATURE)"

abbreviation header_size_ok :: "u8 list \<Rightarrow> bool" where
  "header_size_ok h \<equiv> unat (GET_4_BYTES HEADER_SIZE_OFFSET h) \<le> 512"

lemma get_state_cases:
  assumes "full_io e" "1536 \<le> length (disk dev)" "header_size_ok (header gpt (disk dev))"
  obtains r st dev' where "gpt_get_state e gpt dev = Returns (r, st, dev')" "disk dev' = disk dev"
    "r = 0 \<Longrightarrow> st = state_of (sparse_crc32 e) (header gpt (disk dev))" "reliable e \<Longrightarrow> r = 0"
proof -
  let ?h = "header gpt (disk dev)"
  have "length (PUT_4_BYTES HEADER_CRC_OFFSET 0 ?h) = 512" using assms(2) by (simp add: gpt_consts)
  then have crc: "crc_over e (PUT_4_BYTES HEADER_CRC_OFFSET 0 ?h) (GET_4_BYTES HEADER_SIZE_OFFSET ?h) =
      Returns (header_crc (sparse_crc32 e) ?h)"
    using assms(3) by (simp add: crc_over_def header_crc_def)
  show thesis
    using assms(1,2)
  proof (cases rule: read_header_cases [of e dev gpt])
    case 1
    then show thesis using that by (auto simp: gpt_get_state_def Let_def split_beta)
  next
    case 2
    then show thesis using that by (auto simp: gpt_get_state_def Let_def split_beta)
  next
    case 3
    then show thesis using that
      by (simp add: gpt_get_state_def Let_def crc state_of_def crc_ok_def has_signature_def)
  qed
qed

lemma set_state_cases:
  assumes "full_io e" "1536 \<le> length (disk dev)" "header_size_ok (header gpt (disk dev))" "st \<noteq> GPT_BAD_CRC"
  obtains r dev' where "gpt_set_state e gpt st dev = Returns (r, dev')" "r \<noteq> 0" "disk dev' = disk dev" "\<not> reliable e"
  | dev' where "gpt_set_state e gpt st dev = Returns (0, dev')"
      "disk dev' = put_at (header_place gpt (disk dev)) (seal (sparse_crc32 e) (restate st (header gpt (disk dev)))) (disk dev)"
proof -
  let ?h = "restate st (header gpt (disk dev))" and ?off = "int (header_place gpt (disk dev))"
  have len: "length ?h = 512" and "header_size_ok ?h"
    using restate_props(1,2) [of "header gpt (disk dev)" st] assms(2,3) by (simp_all add: header_fields_def)
  then have crc: "put_header_crc e ?h = Returns (seal (sparse_crc32 e) ?h)" by (rule put_header_crc_seal)
  show thesis
    using assms(1,2)
  proof (cases rule: read_header_cases [of e dev gpt])
    case 1
    then show thesis using that(1) by (auto simp: gpt_set_state_def Let_def split_beta)
  next
    case 2
    then show thesis using that(1) by (auto simp: gpt_set_state_def Let_def split_beta)
  next
    case (3 dev1 dev2)
    have set: "gpt_set_state e gpt st dev =
        (let (r, b, dev) = blk_rw e True ?off (seal (sparse_crc32 e) ?h) dev2 in Returns (if r \<noteq> 0 then -1 else 0, dev))"
      using 3 assms(4) by (simp add: gpt_set_state_def Let_def crc flip: restate_def cong: if_cong)
    have "nat ?off + length (seal (sparse_crc32 e) ?h) \<le> length (disk dev2)"
      using len header_place_bound [OF assms(2), of gpt] 3(4) by simp
    then show thesis
      by (cases rule: blk_write_cases [OF assms(1), of ?off "seal (sparse_crc32 e) ?h" dev2])
        (use that set 3(4) in auto)
  qed
qed

subsection \<open>Swapping partition entries\<close>

lemma seek_returns:
  assumes "128 \<le> s" "s dvd length d" "s dvd p"
  shows "\<exists>r. gpt_pentry_seek nm d s p = Returns r \<and> (\<forall>a. r = Some a \<longrightarrow> s dvd a \<and> p \<le> a \<and> a + s \<le> length d)"
  using assms
proof (induction nm d s p rule: gpt_pentry_seek.induct)
  case (1 nm d s p)
  show ?case
  proof (cases "p + 56 \<ge> length d")
    case True
    then show ?thesis by (subst gpt_pentry_seek.simps) (simp add: gpt_consts)
  next
    case False
    have "s dvd length d - p" using 1(3,4) by (rule dvd_diff_nat)
    then have "p + s \<le> length d" using False by (auto dest!: dvd_imp_le)
    with 1 False show ?thesis
      by (subst gpt_pentry_seek.simps) (fastforce simp: gpt_consts)
  qed
qed

lemma swap_guids_length:
  "a + 16 \<le> b \<Longrightarrow> b + 16 \<le> length d \<Longrightarrow> \<exists>d'. swap_guids a b d = Returns d' \<and> length d' = length d"
  by (simp add: swap_guids_def Let_def gpt_consts bytes_at_def)

lemma swap_partition_returns:
  assumes "128 \<le> s" "s dvd length d"
  shows "\<exists>f d'. swap_partition s nm d = Returns (f, d') \<and> length d' = length d"
proof -
  obtain r where r: "gpt_pentry_seek nm d s 0 = Returns r" "\<forall>a. r = Some a \<longrightarrow> s dvd a \<and> a + s \<le> length d"
    using seek_returns [OF assms, of 0 nm] by auto
  show ?thesis
  proof (cases r)
    case (Some a)
    then have "s dvd a + s" using r(2) by simp
    from seek_returns [OF assms this, of nm] obtain r2 where
      "gpt_pentry_seek nm d s (a + s) = Returns r2" "\<forall>b. r2 = Some b \<longrightarrow> a + s \<le> b \<and> b + s \<le> length d"
      by auto
    moreover have "\<exists>d'. swap_guids a b d = Returns d' \<and> length d' = length d" if "r2 = Some b" for b
      using swap_guids_length [of a b d] calculation(2) assms(1) that by auto
    ultimately show ?thesis
      using r(1) Some by (cases r2) (auto simp: swap_partition_def)
  qed (use r(1) in \<open>auto simp: swap_partition_def\<close>)
qed

lemma swap_partitions_returns:
  "128 \<le> s \<Longrightarrow> s dvd length d \<Longrightarrow> \<exists>f d'. swap_partitions s nms found d = Returns (f, d') \<and> length d' = length d"
proof (induction nms arbitrary: found d)
  case (Cons nm nms)
  from swap_partition_returns [OF Cons(2,3), of nm] obtain f d' where
    "swap_partition s nm d = Returns (f, d')" "length d' = length d" by auto
  with Cons(1) [of d' "found \<or> f"] Cons(2,3) show ?case by simp
qed simp

lemma boot_chain_swap_returns:
  "128 \<le> s \<Longrightarrow> s dvd length d \<Longrightarrow>
     \<exists>r d'. gpt_boot_chain_swap s d = Returns (r, d') \<and> 0 \<le> r \<and> length d' = length d"
  using swap_partitions_returns [of s d PTN_SWAP_LIST False] by (auto simp: gpt_boot_chain_swap_def)

subsection \<open>Layout of the device\<close>

text \<open>
  The headers cover at most a block; the two arrays of entries lie between the headers and
  do not overlap; entries have the size of their fields at least, and the number of bytes of an array
  does not overflow.
\<close>

definition gpt_layout :: "nat \<Rightarrow> u8 list \<Rightarrow> u8 list \<Rightarrow> bool" where
  "gpt_layout D h1 h2 \<longleftrightarrow>
     (let n = unat (pentries_array_size h1); s = unat (GET_4_BYTES PENTRY_SIZE_OFFSET h1);
          p = unat (pentries_start h1); q = unat (pentries_start h2)
      in 1536 \<le> D \<and> D < 2 ^ 63 \<and> header_size_ok h1 \<and> header_size_ok h2 \<and>
         1024 \<le> p \<and> p + n \<le> D - 512 \<and> 1024 \<le> q \<and> q + n \<le> D - 512 \<and> (p + n \<le> q \<or> q + n \<le> p) \<and>
         128 \<le> s \<and> n = unat (GET_4_BYTES PARTITION_COUNT_OFFSET h1) * s)"

lemma gpt_layout_fields:
  "header_fields h1' = header_fields h1 \<Longrightarrow> header_fields h2' = header_fields h2 \<Longrightarrow> gpt_layout D h1' h2' = gpt_layout D h1 h2"
  by (simp add: gpt_layout_def header_fields_def pentries_array_size_def pentries_start_def)

definition array_len :: "u8 list \<Rightarrow> nat" where
  "array_len d = unat (pentries_array_size (header PRIMARY_GPT d))"

definition array_place :: "gpt_instance \<Rightarrow> u8 list \<Rightarrow> nat" where
  "array_place gpt d = unat (pentries_start (header gpt d))"

definition entries :: "gpt_instance \<Rightarrow> u8 list \<Rightarrow> u8 list" where
  "entries gpt d = bytes_at (array_place gpt d) (array_len d) d"

abbreviation laid_out :: "u8 list \<Rightarrow> bool" where
  "laid_out d \<equiv> gpt_layout (length d) (header PRIMARY_GPT d) (header SECONDARY_GPT d)"

lemma laid_outD:
  assumes "laid_out d"
  shows "1536 \<le> length d" "header_size_ok (header gpt d)" "1024 \<le> array_place gpt d"
    "array_place gpt d + array_len d \<le> length d - 512"
    "array_place PRIMARY_GPT d + array_len d \<le> array_place SECONDARY_GPT d \<or>
     array_place SECONDARY_GPT d + array_len d \<le> array_place PRIMARY_GPT d"
    "128 \<le> unat (GET_4_BYTES PENTRY_SIZE_OFFSET (header PRIMARY_GPT d))"
    "unat (GET_4_BYTES PENTRY_SIZE_OFFSET (header PRIMARY_GPT d)) dvd array_len d"
    "sint (pentries_start (header gpt d)) = int (array_place gpt d)"
proof -
  note base = assms [unfolded gpt_layout_def Let_def, folded array_place_def array_len_def]
  show "1536 \<le> length d" using base by blast
  show "header_size_ok (header gpt d)" using base by (cases gpt) blast+
  show "1024 \<le> array_place gpt d" using base by (cases gpt) blast+
  show bound: "array_place gpt d + array_len d \<le> length d - 512" using base by (cases gpt) blast+
  show "array_place PRIMARY_GPT d + array_len d \<le> array_place SECONDARY_GPT d \<or>
     array_place SECONDARY_GPT d + array_len d \<le> array_place PRIMARY_GPT d" using base by blast
  show "128 \<le> unat (GET_4_BYTES PENTRY_SIZE_OFFSET (header PRIMARY_GPT d))" using base by blast
  show "unat (GET_4_BYTES PENTRY_SIZE_OFFSET (header PRIMARY_GPT d)) dvd array_len d" using base by (metis dvd_triv_right)
  have "length d < 2 ^ 63" using base by blast
  with bound have "array_place gpt d < 2 ^ 63" by linarith
  then show "sint (pentries_start (header gpt d)) = int (array_place gpt d)" unfolding array_place_def by (rule sint_small)
qed

subsection \<open>Setting the boot chain\<close>

definition chain_entries :: "boot_chain \<Rightarrow> u8 list \<Rightarrow> int \<Rightarrow> u8 list \<Rightarrow> bool" where
  "chain_entries boot d r pe \<longleftrightarrow>
     (case boot of
        NORMAL_BOOT \<Rightarrow> r = 0 \<and> pe = entries PRIMARY_GPT d
      | BACKUP_BOOT \<Rightarrow>
          gpt_boot_chain_swap (unat (GET_4_BYTES PENTRY_SIZE_OFFSET (header PRIMARY_GPT d))) (entries PRIMARY_GPT d) = Returns (r, pe))"

lemma length_entries: "laid_out d \<Longrightarrow> length (entries gpt d) = array_len d"
  using laid_outD(4) [of d gpt] laid_outD(1) [of d] by (simp add: entries_def bytes_at_def)

lemma chain_entries_exist:
  assumes "laid_out d"
  obtains r pe where "chain_entries boot d r pe" "0 \<le> r" "length pe = array_len d"
proof (cases boot)
  case NORMAL_BOOT
  then show thesis using that [of 0 "entries PRIMARY_GPT d"] length_entries [OF assms] by (simp add: chain_entries_def)
next
  case BACKUP_BOOT
  then show thesis
    using boot_chain_swap_returns [OF laid_outD(6) [OF assms], of "entries PRIMARY_GPT d"] laid_outD(7) [OF assms] that
    by (auto simp: chain_entries_def length_entries [OF assms])
qed

text \<open>The secondary header for new entries, and the device after it is written.\<close>

definition new_header2 :: "(u32 \<Rightarrow> u8 list \<Rightarrow> u32) \<Rightarrow> u8 list \<Rightarrow> u8 list \<Rightarrow> u8 list" where
  "new_header2 C d pe = seal C (PUT_4_BYTES PARTITION_CRC_OFFSET (C 0 pe) (header SECONDARY_GPT d))"

definition put_header :: "gpt_instance \<Rightarrow> u8 list \<Rightarrow> u8 list \<Rightarrow> u8 list" where
  "put_header gpt h d = put_at (header_place gpt d) h d"

lemma new_header2_props:
  assumes "1536 \<le> length d"
  shows "length (new_header2 C d pe) = 512" "header_fields (new_header2 C d pe) = header_fields (header SECONDARY_GPT d)"
    "has_signature (new_header2 C d pe) = has_signature (header SECONDARY_GPT d)" "crc_ok C (new_header2 C d pe)"
    "GET_4_BYTES PARTITION_CRC_OFFSET (new_header2 C d pe) = C 0 pe"
  using length_header [OF assms, of SECONDARY_GPT]
  by (simp_all add: new_header2_def gpt_field)

lemma write_gpt2_cases:
  assumes "full_io e" "laid_out (disk dev)" "length pe = array_len (disk dev)"
  obtains dev' where
    "write_gpt2 e (int (length (disk dev) - 512)) (header SECONDARY_GPT (disk dev)) pe dev = Returns (-1, dev')" "disk dev' = disk dev"
    "\<not> reliable e"
  | r dev' where
    "write_gpt2 e (int (length (disk dev) - 512)) (header SECONDARY_GPT (disk dev)) pe dev = Returns (r, dev')" "r = -1" "\<not> reliable e"
    "disk dev' = put_header SECONDARY_GPT (new_header2 (sparse_crc32 e) (disk dev) pe) (disk dev)"
  | dev' where
    "write_gpt2 e (int (length (disk dev) - 512)) (header SECONDARY_GPT (disk dev)) pe dev = Returns (0, dev')"
    "disk dev' = put_at (array_place SECONDARY_GPT (disk dev)) pe
       (put_header SECONDARY_GPT (new_header2 (sparse_crc32 e) (disk dev) pe) (disk dev))"
proof -
  let ?d = "disk dev" and ?C = "sparse_crc32 e"
  let ?h = "header SECONDARY_GPT ?d" and ?off = "int (length ?d - 512)"
  note lay = laid_outD [OF assms(2)]
  have h: "length ?h = 512" using lay(1) by simp
  then have "length (PUT_4_BYTES PARTITION_CRC_OFFSET (?C 0 pe) ?h) = 512"
    "header_size_ok (PUT_4_BYTES PARTITION_CRC_OFFSET (?C 0 pe) ?h)"
    using lay(2) [of SECONDARY_GPT] PUT_fields(2) [OF h, of "?C 0 pe"] by (simp_all add: header_fields_def)
  from put_header_crc_seal [OF this, of e]
  have run: "write_gpt2 e ?off ?h pe dev = (let (r, _, dev) = blk_rw e True ?off (new_header2 ?C ?d pe) dev
      in if r \<noteq> 0 then Returns (r, dev)
         else let (r, _, dev) = blk_rw e True (int (array_place SECONDARY_GPT ?d)) pe dev in Returns (r, dev))"
    by (simp add: write_gpt2_def Let_def new_header2_def lay(8) split_beta)
  have len: "length (new_header2 ?C ?d pe) = 512" using new_header2_props(1) lay(1) by simp
  then have "0 \<le> ?off" "nat ?off + length (new_header2 ?C ?d pe) \<le> length ?d" using lay(1) by simp_all
  with assms(1) show thesis
  proof (cases rule: blk_write_cases)
    case 1
    then show thesis using that(1) run by simp
  next
    case 2
    let ?dev1 = "(gpt_tick dev)\<lparr>disk := put_at (length ?d - 512) (new_header2 ?C ?d pe) ?d\<rparr>"
    have "nat (int (array_place SECONDARY_GPT ?d)) + length pe \<le> length (disk ?dev1)"
      using lay(1) lay(4) [of SECONDARY_GPT] assms(3) len by simp
    then show thesis
      by (cases rule: blk_write_cases [OF assms(1), of "int (array_place SECONDARY_GPT ?d)" pe ?dev1])
        (use that(2,3) run 2 in \<open>auto simp: put_header_def header_place_def\<close>)
  qed
qed

lemma set_boot_chain_run:
  assumes "full_io e" "laid_out (disk dev)"
  obtains r dev' where "gpt2_set_boot_chain e boot dev = Returns (r, dev')" "r = -1" "disk dev' = disk dev"
      "reliable e \<Longrightarrow> GET_4_BYTES PARTITION_CRC_OFFSET (header PRIMARY_GPT (disk dev)) \<noteq> sparse_crc32 e 0 (entries PRIMARY_GPT (disk dev))"
  | dev' where "disk dev' = disk dev" "gpt2_set_boot_chain e boot dev =
      bind_outcome
        (if boot = BACKUP_BOOT then gpt_boot_chain_swap (unat (GET_4_BYTES PENTRY_SIZE_OFFSET (header PRIMARY_GPT (disk dev))))
            (entries PRIMARY_GPT (disk dev))
         else Returns (0, entries PRIMARY_GPT (disk dev)))
        (\<lambda>(r, pentries). if r \<noteq> 0 then Returns (r, dev')
           else write_gpt2 e (int (length (disk dev)) - 512) (header SECONDARY_GPT (disk dev)) pentries dev')"
proof -
  let ?d = "disk dev" and ?arr = "gpt_header_array e dev"
  note lay = laid_outD [OF assms(2)]
  have arr: "length ?arr = 512" by (simp add: gpt_header_array_def LBA_SIZE_def)
  show thesis
  proof (cases "seek_ok e (step dev)")
    case False
    then show thesis using that(1) by (auto simp: gpt2_set_boot_chain_def seek_end_def Let_def LBA_SIZE_def dest: reliableD(2))
  next
    case True
    then have seek: "seek_end e dev = (int (length ?d), gpt_tick dev)" "1536 \<le> length ?d"
      using lay(1) by (simp_all add: seek_end_def)
    have "0 \<le> (512 :: int)" "nat 512 + length ?arr \<le> length (disk (gpt_tick dev))" using lay(1) arr by simp_all
    with assms(1) show thesis
    proof (cases rule: blk_read_cases)
      case 1
      then show thesis using that(1) seek by (simp add: gpt2_set_boot_chain_def Let_def LBA_SIZE_def)
    next
      case r1: 2
      let ?dev2 = "gpt_tick (gpt_tick dev)" and ?h1 = "header PRIMARY_GPT ?d" and ?z = "replicate (array_len ?d) (0 :: u8)"
      have h1: "blk_rw e False 512 ?arr (gpt_tick dev) = (0, ?h1, ?dev2)" using r1 arr by (simp add: header_def header_place_def)
      have array: "sint (pentries_start ?h1) = int (array_place PRIMARY_GPT ?d)" "unat (pentries_array_size ?h1) = array_len ?d"
        using lay(8) by (simp_all add: array_len_def)
      note eqs = gpt2_set_boot_chain_def Let_def LBA_SIZE_def seek(1) h1 array
      have "0 \<le> int (array_place PRIMARY_GPT ?d)" "nat (int (array_place PRIMARY_GPT ?d)) + length ?z \<le> length (disk ?dev2)"
        using lay(4) [of PRIMARY_GPT] by simp_all
      with assms(1) show thesis
      proof (cases rule: blk_read_cases)
        case 1
        then show thesis using that(1) seek(2) by (cases "calloc_ok e (step ?dev2)") (simp_all add: eqs reliableD)
      next
        case 2
        then have r2: "blk_rw e False (int (array_place PRIMARY_GPT ?d)) ?z ?dev2 = (0, entries PRIMARY_GPT ?d, gpt_tick ?dev2)"
          by (simp add: entries_def)
        have "0 \<le> int (length ?d - 512)" "nat (int (length ?d - 512)) + length ?h1 \<le> length (disk (gpt_tick ?dev2))"
          using lay(1) by simp_all
        with assms(1) show thesis
        proof (cases rule: blk_read_cases)
          case 1
          then show thesis using that(1) seek(2)
            by (cases "calloc_ok e (step ?dev2)"; cases "GET_4_BYTES PARTITION_CRC_OFFSET ?h1 = sparse_crc32 e 0 (entries PRIMARY_GPT ?d)")
              (simp_all add: eqs r2 reliableD)
        next
          case 2
          then have "blk_rw e False (int (length ?d) - 512) ?h1 (gpt_tick ?dev2) = (0, header SECONDARY_GPT ?d, gpt_tick (gpt_tick ?dev2))"
            using seek(2) length_header [OF seek(2), of PRIMARY_GPT]
            by (simp add: header_def [of SECONDARY_GPT] header_place_def nat_diff_distrib')
          moreover have "\<not> calloc_ok e (step ?dev2) \<Longrightarrow> \<not> reliable e" using reliableD(3) by blast
          ultimately show thesis using that(1) that(2) [of "gpt_tick (gpt_tick ?dev2)"] seek(2)
            by (cases "calloc_ok e (step ?dev2)"; cases "GET_4_BYTES PARTITION_CRC_OFFSET ?h1 = sparse_crc32 e 0 (entries PRIMARY_GPT ?d)")
              (simp_all add: eqs r2 reliableD)
        qed
      qed
    qed
  qed
qed

lemma set_boot_chain_cases:
  assumes "full_io e" "laid_out (disk dev)"
  obtains r dev' where "gpt2_set_boot_chain e boot dev = Returns (r, dev')" "r \<noteq> 0" "disk dev' = disk dev"
      "\<lbrakk>reliable e; GET_4_BYTES PARTITION_CRC_OFFSET (header PRIMARY_GPT (disk dev)) = sparse_crc32 e 0 (entries PRIMARY_GPT (disk dev))\<rbrakk>
         \<Longrightarrow> \<exists>pe. chain_entries boot (disk dev) r pe"
  | r pe dev' where "gpt2_set_boot_chain e boot dev = Returns (r, dev')" "r = -1" "length pe = array_len (disk dev)" "\<not> reliable e"
      "disk dev' = put_header SECONDARY_GPT (new_header2 (sparse_crc32 e) (disk dev) pe) (disk dev)"
  | pe dev' where "gpt2_set_boot_chain e boot dev = Returns (0, dev')" "length pe = array_len (disk dev)" "chain_entries boot (disk dev) 0 pe"
      "disk dev' = put_at (array_place SECONDARY_GPT (disk dev)) pe
         (put_header SECONDARY_GPT (new_header2 (sparse_crc32 e) (disk dev) pe) (disk dev))"
  using assms
proof (cases rule: set_boot_chain_run [where boot = boot])
  case 1
  then show thesis using that(1) by simp
next
  case (2 dev1)
  note same = 2(1)
  obtain r pe where pe: "chain_entries boot (disk dev) r pe" "0 \<le> r" "length pe = array_len (disk dev)"
    using chain_entries_exist [OF assms(2)] by blast
  have "int (length (disk dev)) - 512 = int (length (disk dev1) - 512)" using laid_outD(1) [OF assms(2)] 2(1) by simp
  moreover have "(if boot = BACKUP_BOOT then gpt_boot_chain_swap (unat (GET_4_BYTES PENTRY_SIZE_OFFSET (header PRIMARY_GPT (disk dev))))
        (entries PRIMARY_GPT (disk dev)) else Returns (0, entries PRIMARY_GPT (disk dev))) = Returns (r, pe)"
    using pe(1) by (cases boot) (simp_all add: chain_entries_def)
  ultimately have run: "gpt2_set_boot_chain e boot dev = (if r \<noteq> 0 then Returns (r, dev1)
      else write_gpt2 e (int (length (disk dev1) - 512)) (header SECONDARY_GPT (disk dev1)) pe dev1)"
    unfolding 2 by (simp only: 2(1) bind_outcome_simps prod.case)
  show thesis
  proof (cases "r = 0")
    case True
    have "laid_out (disk dev1)" "length pe = array_len (disk dev1)" using 2(1) assms(2) pe(3) by simp_all
    with assms(1) show thesis
    proof (cases rule: write_gpt2_cases)
      case 1
      then show thesis using that(1) [of "-1"] run True same by simp
    next
      case 2
      then show thesis using that(2) [of "-1" _ pe] run True same pe(3) by simp
    next
      case 3
      then show thesis using that(3) [of _ pe] run True same pe by simp
    qed
  next
    case False
    then show thesis using that(1) [of r dev1] run same pe(1) by auto
  qed
qed

subsection \<open>Validity of the copies\<close>

text \<open>A copy of the table the boot loader accepts: signature, checksum of the header and of the entries.\<close>

definition valid_copy :: "(u32 \<Rightarrow> u8 list \<Rightarrow> u32) \<Rightarrow> gpt_instance \<Rightarrow> u8 list \<Rightarrow> bool" where
  "valid_copy C gpt d \<longleftrightarrow> has_signature (header gpt d) \<and> crc_ok C (header gpt d) \<and>
     GET_4_BYTES PARTITION_CRC_OFFSET (header gpt d) = C 0 (entries gpt d)"

text \<open>
  What every call keeps: the layout, the checksums of both headers and of the primary entries, and
  that a primary header without signature has a valid secondary copy.
\<close>

definition gpt_inv :: "(u32 \<Rightarrow> u8 list \<Rightarrow> u32) \<Rightarrow> u8 list \<Rightarrow> bool" where
  "gpt_inv C d \<longleftrightarrow> laid_out d \<and> crc_ok C (header PRIMARY_GPT d) \<and> crc_ok C (header SECONDARY_GPT d) \<and>
     GET_4_BYTES PARTITION_CRC_OFFSET (header PRIMARY_GPT d) = C 0 (entries PRIMARY_GPT d) \<and>
     (has_signature (header PRIMARY_GPT d) \<or> valid_copy C SECONDARY_GPT d)"

lemma header_put_header:
  assumes "1536 \<le> length d" "length h = 512"
  shows "header gpt (put_header gpt' h d) = (if gpt = gpt' then h else header gpt d)" "length (put_header gpt' h d) = length d"
proof -
  show len: "length (put_header gpt' h d) = length d"
    using header_place_bound [OF assms(1), of gpt'] assms(2) by (simp add: put_header_def)
  then have place: "header_place g (put_header gpt' h d) = header_place g d" for g by (cases g) (simp_all add: header_place_def)
  show "header gpt (put_header gpt' h d) = (if gpt = gpt' then h else header gpt d)"
    unfolding header_def place unfolding put_header_def using header_place_bound [OF assms(1)] assms
    by (cases gpt; cases gpt') (simp_all add: bytes_at_put_same bytes_at_put_other header_place_def)
qed

lemma put_header_frame:
  assumes "laid_out d" "length h = 512" "header_fields h = header_fields (header gpt' d)"
  shows "laid_out (put_header gpt' h d)" "entries gpt (put_header gpt' h d) = entries gpt d"
    "array_place gpt (put_header gpt' h d) = array_place gpt d" "array_len (put_header gpt' h d) = array_len d"
proof -
  note hd = header_put_header [OF laid_outD(1) [OF assms(1)] assms(2)]
  have fields: "header_fields (header g (put_header gpt' h d)) = header_fields (header g d)" for g
    by (simp add: hd assms(3))
  show "laid_out (put_header gpt' h d)"
    using assms(1) by (simp only: hd(2) gpt_layout_fields [OF fields fields])
  show place: "array_place gpt (put_header gpt' h d) = array_place gpt d"
    using fields [of gpt] by (simp only: array_place_def header_fields_def pentries_start_def prod.inject)
  show len: "array_len (put_header gpt' h d) = array_len d"
    using fields [of PRIMARY_GPT] by (simp only: array_len_def header_fields_def pentries_array_size_def prod.inject)
  show "entries gpt (put_header gpt' h d) = entries gpt d"
    unfolding entries_def place len
    using laid_outD(1) [OF assms(1)] laid_outD(3,4) [OF assms(1), of gpt] assms(2)
      header_place_bound [OF laid_outD(1) [OF assms(1)], of gpt']
    unfolding put_header_def by (intro bytes_at_put_other; cases gpt') (simp_all add: header_place_def)
qed

lemma put_entries_frame:
  assumes "laid_out d" "length pe = array_len d" "d' = put_at (array_place SECONDARY_GPT d) pe d"
  shows "laid_out d'" "header gpt d' = header gpt d" "entries SECONDARY_GPT d' = pe" "entries PRIMARY_GPT d' = entries PRIMARY_GPT d"
proof -
  note lay = laid_outD [OF assms(1)]
  have fits: "array_place SECONDARY_GPT d + length pe \<le> length d" using lay(1) lay(4) [of SECONDARY_GPT] assms(2) by simp
  then have len: "length d' = length d" by (simp add: assms(3))
  have hd: "header g d' = header g d" for g
    unfolding header_def header_place_def len using lay(1) lay(3,4) [of SECONDARY_GPT] assms(2) fits
    by (cases g) (simp_all add: assms(3) bytes_at_put_other)
  then show "header gpt d' = header gpt d" .
  show "laid_out d'" using assms(1) by (simp add: hd len)
  have same: "array_place g d' = array_place g d" "array_len d' = array_len d" for g by (simp_all add: array_place_def array_len_def hd)
  show "entries SECONDARY_GPT d' = pe"
    unfolding entries_def same using fits assms(2) by (simp add: assms(3) bytes_at_put_same)
  show "entries PRIMARY_GPT d' = entries PRIMARY_GPT d"
    unfolding entries_def same using lay(5) lay(1) lay(4) [of PRIMARY_GPT] assms(2) fits
    by (subst assms(3), intro bytes_at_put_other) auto
qed

subsection \<open>Every call keeps the invariant\<close>

lemma gpt_invD:
  assumes "gpt_inv C d"
  shows "laid_out d" "crc_ok C (header gpt d)" "1536 \<le> length d" "header_size_ok (header gpt d)"
    "GET_4_BYTES PARTITION_CRC_OFFSET (header PRIMARY_GPT d) = C 0 (entries PRIMARY_GPT d)"
proof -
  show lay: "laid_out d" using assms unfolding gpt_inv_def by blast
  show "crc_ok C (header gpt d)" using assms unfolding gpt_inv_def by (cases gpt) blast+
  show "1536 \<le> length d" "header_size_ok (header gpt d)" using laid_outD(1,2) [OF lay] by blast+
  show "GET_4_BYTES PARTITION_CRC_OFFSET (header PRIMARY_GPT d) = C 0 (entries PRIMARY_GPT d)"
    using assms unfolding gpt_inv_def by blast
qed

lemma restated:
  assumes "gpt_inv C d" "d' = put_header gpt (seal C (restate st (header gpt d))) d"
  shows "laid_out d'" "entries g d' = entries g d" "crc_ok C (header g d')"
    "GET_4_BYTES PARTITION_CRC_OFFSET (header g d') = GET_4_BYTES PARTITION_CRC_OFFSET (header g d)"
    "has_signature (header g d') = (if g = gpt then st = GPT_OK else has_signature (header g d))"
    "header g d' = (if g = gpt then seal C (restate st (header gpt d)) else header g d)"
proof -
  let ?h = "restate st (header gpt d)"
  have len: "length (header gpt d) = 512" using gpt_invD(3) [OF assms(1)] by simp
  then have h: "length ?h = 512" "length (seal C ?h) = 512" "header_fields (seal C ?h) = header_fields (header gpt d)" by simp_all
  note hd = header_put_header(1) [OF gpt_invD(3) [OF assms(1)] h(2)] and frame = put_header_frame [OF gpt_invD(1) [OF assms(1)] h(2,3)]
  show "laid_out d'" "entries g d' = entries g d" using frame(1,2) by (simp_all only: assms(2))
  show "header g d' = (if g = gpt then seal C ?h else header g d)" by (simp add: assms(2) hd)
  show "crc_ok C (header g d')" "has_signature (header g d') = (if g = gpt then st = GPT_OK else has_signature (header g d))"
    "GET_4_BYTES PARTITION_CRC_OFFSET (header g d') = GET_4_BYTES PARTITION_CRC_OFFSET (header g d)"
    using h(1) len gpt_invD(2) [OF assms(1), of g] by (simp_all add: assms(2) hd)
qed

lemma restated_inv:
  assumes "gpt_inv C d" "d' = put_header gpt (seal C (restate st (header gpt d))) d"
    and "st = GPT_OK \<or> (case gpt of PRIMARY_GPT \<Rightarrow> valid_copy C SECONDARY_GPT d | SECONDARY_GPT \<Rightarrow> has_signature (header PRIMARY_GPT d))"
  shows "gpt_inv C d'"
  using assms(1,3) restated(1) [OF assms(1,2)]
  by (cases gpt) (auto simp: gpt_inv_def valid_copy_def restated(2-5) [OF assms(1,2)])

lemma chain_header_inv:
  assumes "gpt_inv C d" "d' = put_header SECONDARY_GPT (new_header2 C d pe) d" "has_signature (header PRIMARY_GPT d)"
  shows "gpt_inv C d'" "header PRIMARY_GPT d' = header PRIMARY_GPT d" "header SECONDARY_GPT d' = new_header2 C d pe"
    "entries g d' = entries g d" "array_place g d' = array_place g d" "array_len d' = array_len d"
proof -
  note lay = gpt_invD [OF assms(1)] and new = new_header2_props [OF gpt_invD(3) [OF assms(1)], of C pe]
  note hd = header_put_header(1) [OF lay(3) new(1)] and frame = put_header_frame [OF lay(1) new(1,2)]
  show *: "header PRIMARY_GPT d' = header PRIMARY_GPT d" "header SECONDARY_GPT d' = new_header2 C d pe"
    "entries g d' = entries g d" "array_place g d' = array_place g d" "array_len d' = array_len d" for g
    by (simp_all add: assms(2) hd frame)
  show "gpt_inv C d'"
    using frame(1) [folded assms(2)] assms(3) lay(2) [of PRIMARY_GPT] lay(5) new(4) by (simp add: gpt_inv_def *)
qed

lemma chain_written_inv:
  assumes "gpt_inv C d" "has_signature (header PRIMARY_GPT d)" "length pe = array_len d"
    and "d' = put_at (array_place SECONDARY_GPT d) pe (put_header SECONDARY_GPT (new_header2 C d pe) d)"
  shows "gpt_inv C d'" "header PRIMARY_GPT d' = header PRIMARY_GPT d" "entries PRIMARY_GPT d' = entries PRIMARY_GPT d"
    "entries SECONDARY_GPT d' = pe" "has_signature (header SECONDARY_GPT d') = has_signature (header SECONDARY_GPT d)"
    "GET_4_BYTES PARTITION_CRC_OFFSET (header SECONDARY_GPT d') = C 0 pe"
proof -
  let ?d = "put_header SECONDARY_GPT (new_header2 C d pe) d"
  note one = chain_header_inv [OF assms(1) refl assms(2), where pe = pe]
  note new = new_header2_props [OF gpt_invD(3) [OF assms(1)], of C pe]
  have "length pe = array_len ?d" "d' = put_at (array_place SECONDARY_GPT ?d) pe ?d" using assms(3,4) one(5,6) by simp_all
  note two = put_entries_frame [OF gpt_invD(1) [OF one(1)] this]
  show *: "header PRIMARY_GPT d' = header PRIMARY_GPT d" "entries PRIMARY_GPT d' = entries PRIMARY_GPT d" "entries SECONDARY_GPT d' = pe"
    "has_signature (header SECONDARY_GPT d') = has_signature (header SECONDARY_GPT d)"
    "GET_4_BYTES PARTITION_CRC_OFFSET (header SECONDARY_GPT d') = C 0 pe"
    using two(2-4) one(2-4) new(3,5) by simp_all
  show "gpt_inv C d'"
    using two(1) assms(2) gpt_invD(2) [OF assms(1), of PRIMARY_GPT] gpt_invD(5) [OF assms(1)] new(4) two(2) [of SECONDARY_GPT] one(3)
    by (simp add: gpt_inv_def *)
qed

lemma set_state_inv:
  assumes "full_io e" "gpt_inv (sparse_crc32 e) (disk dev)" "st \<noteq> GPT_BAD_CRC"
    and "st = GPT_OK \<or> (case gpt of PRIMARY_GPT \<Rightarrow> valid_copy (sparse_crc32 e) SECONDARY_GPT (disk dev)
                                 | SECONDARY_GPT \<Rightarrow> has_signature (header PRIMARY_GPT (disk dev)))"
  obtains r dev' where "gpt_set_state e gpt st dev = Returns (r, dev')" "gpt_inv (sparse_crc32 e) (disk dev')" "reliable e \<Longrightarrow> r = 0"
    "r = 0 \<Longrightarrow> disk dev' = put_header gpt (seal (sparse_crc32 e) (restate st (header gpt (disk dev)))) (disk dev)"
  using assms(1) gpt_invD(3) [OF assms(2)] gpt_invD(4) [OF assms(2), of gpt] assms(3)
proof (cases rule: set_state_cases)
  case 1
  then show thesis using that assms(2) by simp
next
  case (2 dev')
  then have "disk dev' = put_header gpt (seal (sparse_crc32 e) (restate st (header gpt (disk dev)))) (disk dev)"
    by (simp add: put_header_def)
  from that [OF 2(1) restated_inv [OF assms(2) this assms(4)]] this show thesis by blast
qed

lemma set_boot_chain_inv:
  assumes "full_io e" "gpt_inv (sparse_crc32 e) (disk dev)" "has_signature (header PRIMARY_GPT (disk dev))"
  obtains r dev' where "gpt2_set_boot_chain e boot dev = Returns (r, dev')" "gpt_inv (sparse_crc32 e) (disk dev')"
    "header PRIMARY_GPT (disk dev') = header PRIMARY_GPT (disk dev)" "entries PRIMARY_GPT (disk dev') = entries PRIMARY_GPT (disk dev)"
    "has_signature (header SECONDARY_GPT (disk dev')) = has_signature (header SECONDARY_GPT (disk dev))"
    "r = 0 \<Longrightarrow> chain_entries boot (disk dev) 0 (entries SECONDARY_GPT (disk dev'))"
    "r = 0 \<Longrightarrow> GET_4_BYTES PARTITION_CRC_OFFSET (header SECONDARY_GPT (disk dev')) = sparse_crc32 e 0 (entries SECONDARY_GPT (disk dev'))"
    "reliable e \<Longrightarrow> \<exists>pe. chain_entries boot (disk dev) r pe"
  using assms(1) gpt_invD(1) [OF assms(2)]
proof (cases rule: set_boot_chain_cases [where boot = boot])
  case 1
  then show thesis using that assms(2) gpt_invD(5) [OF assms(2)] by simp
next
  case (2 r pe dev')
  note hdr = chain_header_inv [OF assms(2) 2(5) assms(3)] and new = new_header2_props [OF gpt_invD(3) [OF assms(2)]]
  show thesis
    by (rule that [OF 2(1) hdr(1,2) hdr(4) [of PRIMARY_GPT]]) (use 2(2,4) hdr(3) new(3) in simp_all)
next
  case (3 pe dev')
  note all = chain_written_inv [OF assms(2,3) 3(2,4)]
  show thesis
    by (rule that [OF 3(1) all(1,2,3,5)]) (use 3(3) all(4,6) in auto)
qed

text \<open>What the states that were read say about the headers when a stage runs.\<close>

definition stage_ready :: "boot_update_stage \<Rightarrow> u8 list \<Rightarrow> bool" where
  "stage_ready stage d \<longleftrightarrow>
     (case stage of
        UPDATE_MAIN \<Rightarrow> has_signature (header PRIMARY_GPT d) \<and> has_signature (header SECONDARY_GPT d)
      | UPDATE_BACKUP \<Rightarrow> \<not> has_signature (header PRIMARY_GPT d) \<and> has_signature (header SECONDARY_GPT d)
      | UPDATE_FINALIZE \<Rightarrow> has_signature (header PRIMARY_GPT d) \<and> \<not> has_signature (header SECONDARY_GPT d))"

lemma run_stage_inv:
  assumes "full_io e" "gpt_inv (sparse_crc32 e) (disk dev)" "stage_ready stage (disk dev)"
  shows "\<exists>r dev'. run_stage e stage dev = Returns (r, dev') \<and> gpt_inv (sparse_crc32 e) (disk dev')"
proof (cases stage)
  case UPDATE_MAIN
  then have sig: "has_signature (header PRIMARY_GPT (disk dev))" "has_signature (header SECONDARY_GPT (disk dev))"
    using assms(3) by (simp_all add: stage_ready_def)
  obtain r dev1 where 1: "gpt2_set_boot_chain e BACKUP_BOOT dev = Returns (r, dev1)" "gpt_inv (sparse_crc32 e) (disk dev1)"
    "has_signature (header SECONDARY_GPT (disk dev1)) = has_signature (header SECONDARY_GPT (disk dev))"
    "r = 0 \<Longrightarrow> GET_4_BYTES PARTITION_CRC_OFFSET (header SECONDARY_GPT (disk dev1)) = sparse_crc32 e 0 (entries SECONDARY_GPT (disk dev1))"
    using set_boot_chain_inv [OF assms(1,2) sig(1), of BACKUP_BOOT] by metis
  then have "r = 0 \<Longrightarrow> valid_copy (sparse_crc32 e) SECONDARY_GPT (disk dev1)"
    using sig(2) gpt_invD(2) [OF 1(2)] by (simp add: valid_copy_def)
  with 1(1,2) set_state_inv [OF assms(1) 1(2), of GPT_BAD_SIGNATURE PRIMARY_GPT] UPDATE_MAIN show ?thesis
    by (cases "r = 0") (fastforce simp: run_stage_def)+
next
  case UPDATE_BACKUP
  obtain r dev1 where 1: "gpt_set_state e PRIMARY_GPT GPT_OK dev = Returns (r, dev1)" "gpt_inv (sparse_crc32 e) (disk dev1)"
    "r = 0 \<Longrightarrow> disk dev1 = put_header PRIMARY_GPT (seal (sparse_crc32 e) (restate GPT_OK (header PRIMARY_GPT (disk dev)))) (disk dev)"
    using set_state_inv [OF assms(1,2), of GPT_OK PRIMARY_GPT] by (metis gpt_state.distinct(3))
  then have "r = 0 \<Longrightarrow> has_signature (header PRIMARY_GPT (disk dev1))"
    using restated(5) [OF assms(2) 1(3), of PRIMARY_GPT] by simp
  with 1(1,2) set_state_inv [OF assms(1) 1(2), of GPT_BAD_SIGNATURE SECONDARY_GPT] UPDATE_BACKUP show ?thesis
    by (cases "r = 0") (fastforce simp: run_stage_def)+
next
  case UPDATE_FINALIZE
  then have sig: "has_signature (header PRIMARY_GPT (disk dev))" using assms(3) by (simp add: stage_ready_def)
  obtain r dev1 where 1: "gpt2_set_boot_chain e NORMAL_BOOT dev = Returns (r, dev1)" "gpt_inv (sparse_crc32 e) (disk dev1)"
    using set_boot_chain_inv [OF assms(1,2) sig, of NORMAL_BOOT] by metis
  moreover obtain r2 dev2 where "gpt_set_state e SECONDARY_GPT GPT_OK dev1 = Returns (r2, dev2)" "gpt_inv (sparse_crc32 e) (disk dev2)"
    using set_state_inv [OF assms(1) 1(2), of GPT_OK SECONDARY_GPT] by (metis gpt_state.distinct(3))
  ultimately show ?thesis using UPDATE_FINALIZE by (cases "r < 0") (simp_all add: run_stage_def)
qed

lemma internal_stage_ready:
  assumes "gpt_inv C d" "internal_stage (state_of C (header PRIMARY_GPT d)) (state_of C (header SECONDARY_GPT d)) = Some stage"
  shows "stage_ready stage d"
  using assms gpt_invD(2) [OF assms(1)]
  by (auto simp: internal_stage_def state_of_def stage_ready_def split: if_splits)

lemma prepare_inv:
  assumes "full_io e" "gpt_inv (sparse_crc32 e) (disk dev)"
  shows "\<exists>r dev'. prepare_boot_update e stage dev = Returns (r, dev') \<and> gpt_inv (sparse_crc32 e) (disk dev')"
proof -
  obtain r1 p dev1 where 1: "gpt_get_state e PRIMARY_GPT dev = Returns (r1, p, dev1)" "disk dev1 = disk dev"
    "r1 = 0 \<Longrightarrow> p = state_of (sparse_crc32 e) (header PRIMARY_GPT (disk dev))"
    using get_state_cases [OF assms(1) gpt_invD(3,4) [OF assms(2)]] by metis
  have inv1: "gpt_inv (sparse_crc32 e) (disk dev1)" using assms(2) 1(2) by simp
  obtain r2 q dev2 where 2: "gpt_get_state e SECONDARY_GPT dev1 = Returns (r2, q, dev2)" "disk dev2 = disk dev1"
    "r2 = 0 \<Longrightarrow> q = state_of (sparse_crc32 e) (header SECONDARY_GPT (disk dev1))"
    using get_state_cases [OF assms(1) gpt_invD(3,4) [OF inv1]] by metis
  have inv2: "gpt_inv (sparse_crc32 e) (disk dev2)" using inv1 2(2) by simp
  have "\<exists>r dev'. run_stage e st dev2 = Returns (r, dev') \<and> gpt_inv (sparse_crc32 e) (disk dev')"
    if "internal_stage p q = Some st" "r1 = 0" "r2 = 0" for st
    using run_stage_inv [OF assms(1) inv2] internal_stage_ready [OF inv2] that 1(2,3) 2(2,3) by simp
  then show ?thesis
    using 1(1) 2(1) inv1 inv2 assms(2) unfolding prepare_boot_update_def by (simp split: option.split)
qed

lemma boot_update_fn_inv:
  assumes "full_io e" "gpt_inv (sparse_crc32 e) (disk dev)"
  shows "\<exists>v dev'. BootUpdateFn e argc args dev = Returns (v, dev') \<and> gpt_inv (sparse_crc32 e) (disk dev')"
proof (cases "stage_of_name (the args)")
  case (Some stage)
  with prepare_inv [OF assms, of stage] assms(2) show ?thesis by (cases args) (auto simp: BootUpdateFn_def)
qed (use assms(2) in \<open>cases args; auto simp: BootUpdateFn_def\<close>)

text \<open>Calls of the update script, each with its own failures of the device.\<close>

inductive gpt_reach :: "(u32 \<Rightarrow> u8 list \<Rightarrow> u32) \<Rightarrow> u8 list \<Rightarrow> u8 list \<Rightarrow> bool" for C d0 where
  start: "gpt_reach C d0 d0"
| call: "\<lbrakk>gpt_reach C d0 d; full_io e; sparse_crc32 e = C; BootUpdateFn e argc args \<lparr>disk = d, step = n\<rparr> = Returns (v, dev)\<rbrakk>
    \<Longrightarrow> gpt_reach C d0 (disk dev)"

lemma gpt_reach_inv: "gpt_reach C d0 d \<Longrightarrow> gpt_inv C d0 \<Longrightarrow> gpt_inv C d"
proof (induction rule: gpt_reach.induct)
  case (call d e argc args n v dev)
  with boot_update_fn_inv [of e "\<lparr>disk = d, step = n\<rparr>" argc args] show ?case by auto
qed

lemma valid_inv: "laid_out d \<Longrightarrow> valid_copy C PRIMARY_GPT d \<Longrightarrow> valid_copy C SECONDARY_GPT d \<Longrightarrow> gpt_inv C d"
  by (simp add: gpt_inv_def valid_copy_def)


subsection \<open>A complete update\<close>

lemma le32_GET: "off + 4 \<le> length d \<Longrightarrow> le32 (GET_4_BYTES off d) = bytes_at off 4 d"
proof -
  assume *: "off + 4 \<le> length d"
  have "bytes_at off 4 d = [d ! off, d ! (off + 1), d ! (off + 2), d ! (off + 3)]"
    using * by (intro nth_equalityI) (auto simp: bytes_at_def nth_Cons' less_Suc_eq numeral_eq_Suc)
  moreover have "ucast (GET_4_BYTES off d) = d ! off" "ucast (drop_bit 8 (GET_4_BYTES off d)) = d ! (off + 1)"
    "ucast (drop_bit 16 (GET_4_BYTES off d)) = d ! (off + 2)" "ucast (drop_bit 24 (GET_4_BYTES off d)) = d ! (off + 3)"
    by (rule bit_word_eqI, auto simp: GET_4_BYTES_def bit_or_iff bit_push_bit_iff bit_ucast_iff bit_drop_bit_eq dest: bit_imp_le_length)+
  ultimately show ?thesis by (simp add: le32_def)
qed

lemma PUT_GET_4_BYTES: "off + 4 \<le> length d \<Longrightarrow> PUT_4_BYTES off (GET_4_BYTES off d) d = d"
  by (simp add: PUT_4_BYTES_def le32_GET)
    (simp add: put_at_def bytes_at_def append_take_drop_id [of off d] flip: append_assoc take_add)

lemma restate_restores:
  assumes "length h = 512" "has_signature h" "crc_ok C h"
  shows "seal C (restate GPT_OK (seal C (restate GPT_BAD_SIGNATURE h))) = h"
proof -
  have len: "length GPT_SIGNATURE = 9" by (simp add: GPT_SIGNATURE_def)
  obtain t where t: "h = GPT_SIGNATURE @ t" using assms(2) by (metis append_take_drop_id has_signature_def)
  have "restate GPT_OK (PUT_4_BYTES HEADER_CRC_OFFSET y (restate GPT_BAD_SIGNATURE h)) = PUT_4_BYTES HEADER_CRC_OFFSET y h" for y
    using assms(1) unfolding t by (simp add: restate_def PUT_4_BYTES_def put_at_def gpt_consts GPT_SIGNATURE_def)
  then have "seal C (restate GPT_OK (seal C (restate GPT_BAD_SIGNATURE h))) =
      PUT_4_BYTES HEADER_CRC_OFFSET (header_crc C h) h"
    using assms(1) by (simp add: seal_def header_crc_PUT) (simp add: gpt_consts)
  also have "\<dots> = h" using PUT_GET_4_BYTES [of 16 h] assms(1,3) by (simp add: crc_ok_def gpt_consts)
  finally show ?thesis .
qed

lemma reliable_full: "reliable e \<Longrightarrow> full_io e"
  by (auto simp: full_io_def reliableD)

lemma prepare_ready:
  assumes "reliable e" "gpt_inv (sparse_crc32 e) (disk dev)" "stage_ready stage (disk dev)"
  obtains dev' where "prepare_boot_update e stage dev = run_stage e stage dev'" "disk dev' = disk dev"
proof -
  let ?C = "sparse_crc32 e" and ?d = "disk dev"
  obtain p dev1 where 1: "gpt_get_state e PRIMARY_GPT dev = Returns (0, p, dev1)" "disk dev1 = ?d" "p = state_of ?C (header PRIMARY_GPT ?d)"
    using get_state_cases [OF reliable_full [OF assms(1)] gpt_invD(3,4) [OF assms(2)], of PRIMARY_GPT] assms(1) by metis
  have inv1: "gpt_inv ?C (disk dev1)" using assms(2) 1(2) by simp
  obtain q dev2 where 2: "gpt_get_state e SECONDARY_GPT dev1 = Returns (0, q, dev2)" "disk dev2 = disk dev1"
    "q = state_of ?C (header SECONDARY_GPT (disk dev1))"
    using get_state_cases [OF reliable_full [OF assms(1)] gpt_invD(3,4) [OF inv1], of SECONDARY_GPT] assms(1) by metis
  have "internal_stage p q = Some stage"
    using assms(3) gpt_invD(2) [OF assms(2)] 1 2
    by (cases stage) (auto simp: internal_stage_def state_of_def stage_ready_def)
  then have "prepare_boot_update e stage dev = run_stage e stage dev2"
    using 1(1) 2(1) reliableD(1) [OF assms(1)] by (simp add: prepare_boot_update_def)
  with that 1(2) 2(2) show thesis by simp
qed

lemma set_state_reliable:
  assumes "reliable e" "gpt_inv (sparse_crc32 e) (disk dev)" "st \<noteq> GPT_BAD_CRC"
    and "st = GPT_OK \<or> (case gpt of PRIMARY_GPT \<Rightarrow> valid_copy (sparse_crc32 e) SECONDARY_GPT (disk dev)
                                 | SECONDARY_GPT \<Rightarrow> has_signature (header PRIMARY_GPT (disk dev)))"
  obtains dev' where "gpt_set_state e gpt st dev = Returns (0, dev')" "gpt_inv (sparse_crc32 e) (disk dev')"
    "disk dev' = put_header gpt (seal (sparse_crc32 e) (restate st (header gpt (disk dev)))) (disk dev)"
  using set_state_inv [OF reliable_full [OF assms(1)] assms(2-4)] assms(1) by metis

lemma set_boot_chain_reliable:
  assumes "reliable e" "gpt_inv (sparse_crc32 e) (disk dev)" "has_signature (header PRIMARY_GPT (disk dev))" "chain_entries boot (disk dev) 0 pe"
  obtains dev' where "gpt2_set_boot_chain e boot dev = Returns (0, dev')" "gpt_inv (sparse_crc32 e) (disk dev')"
    "header PRIMARY_GPT (disk dev') = header PRIMARY_GPT (disk dev)" "entries PRIMARY_GPT (disk dev') = entries PRIMARY_GPT (disk dev)"
    "has_signature (header SECONDARY_GPT (disk dev')) = has_signature (header SECONDARY_GPT (disk dev))" "entries SECONDARY_GPT (disk dev') = pe"
    "GET_4_BYTES PARTITION_CRC_OFFSET (header SECONDARY_GPT (disk dev')) = sparse_crc32 e 0 pe"
proof -
  have unique: "chain_entries boot (disk dev) r pe' \<Longrightarrow> r = 0 \<and> pe' = pe" for r pe'
    using assms(4) by (cases boot) (auto simp: chain_entries_def)
  obtain r dev' where 1: "gpt2_set_boot_chain e boot dev = Returns (r, dev')" "gpt_inv (sparse_crc32 e) (disk dev')"
    "header PRIMARY_GPT (disk dev') = header PRIMARY_GPT (disk dev)" "entries PRIMARY_GPT (disk dev') = entries PRIMARY_GPT (disk dev)"
    "has_signature (header SECONDARY_GPT (disk dev')) = has_signature (header SECONDARY_GPT (disk dev))"
    "r = 0 \<Longrightarrow> chain_entries boot (disk dev) 0 (entries SECONDARY_GPT (disk dev'))"
    "r = 0 \<Longrightarrow> GET_4_BYTES PARTITION_CRC_OFFSET (header SECONDARY_GPT (disk dev')) = sparse_crc32 e 0 (entries SECONDARY_GPT (disk dev'))"
    "reliable e \<Longrightarrow> \<exists>pe. chain_entries boot (disk dev) r pe"
    by (rule set_boot_chain_inv [OF reliable_full [OF assms(1)] assms(2,3)]) (use that in blast)
  then have "r = 0" using unique assms(1) by blast
  with 1 unique that show thesis by simp
qed

lemma main_stage:
  assumes "reliable e" "gpt_inv (sparse_crc32 e) (disk dev)" "stage_ready UPDATE_MAIN (disk dev)" "chain_entries BACKUP_BOOT (disk dev) 0 pe"
  obtains dev' where "prepare_boot_update e UPDATE_MAIN dev = Returns (0, dev')" "gpt_inv (sparse_crc32 e) (disk dev')"
    "\<not> has_signature (header PRIMARY_GPT (disk dev'))"
    "header PRIMARY_GPT (disk dev') = seal (sparse_crc32 e) (restate GPT_BAD_SIGNATURE (header PRIMARY_GPT (disk dev)))"
    "entries PRIMARY_GPT (disk dev') = entries PRIMARY_GPT (disk dev)" "valid_copy (sparse_crc32 e) SECONDARY_GPT (disk dev')"
    "entries SECONDARY_GPT (disk dev') = pe"
proof -
  obtain dev0 where 0: "prepare_boot_update e UPDATE_MAIN dev = run_stage e UPDATE_MAIN dev0" "disk dev0 = disk dev"
    using prepare_ready [OF assms(1-3)] .
  have sig: "gpt_inv (sparse_crc32 e) (disk dev0)" "has_signature (header PRIMARY_GPT (disk dev0))" "chain_entries BACKUP_BOOT (disk dev0) 0 pe"
    "has_signature (header SECONDARY_GPT (disk dev))"
    using assms(2-4) by (simp_all add: 0 stage_ready_def)
  from assms(1) sig(1-3) obtain dev1 where 1: "gpt2_set_boot_chain e BACKUP_BOOT dev0 = Returns (0, dev1)" "gpt_inv (sparse_crc32 e) (disk dev1)"
    "header PRIMARY_GPT (disk dev1) = header PRIMARY_GPT (disk dev0)" "entries PRIMARY_GPT (disk dev1) = entries PRIMARY_GPT (disk dev0)"
    "has_signature (header SECONDARY_GPT (disk dev1)) = has_signature (header SECONDARY_GPT (disk dev0))" "entries SECONDARY_GPT (disk dev1) = pe"
    "GET_4_BYTES PARTITION_CRC_OFFSET (header SECONDARY_GPT (disk dev1)) = sparse_crc32 e 0 pe"
    by (rule set_boot_chain_reliable)
  have valid: "valid_copy (sparse_crc32 e) SECONDARY_GPT (disk dev1)"
    using 1 sig(4) gpt_invD(2) [OF 1(2)] by (simp add: valid_copy_def 0(2))
  obtain dev2 where 2: "gpt_set_state e PRIMARY_GPT GPT_BAD_SIGNATURE dev1 = Returns (0, dev2)" "gpt_inv (sparse_crc32 e) (disk dev2)"
    "disk dev2 = put_header PRIMARY_GPT (seal (sparse_crc32 e) (restate GPT_BAD_SIGNATURE (header PRIMARY_GPT (disk dev1)))) (disk dev1)"
    by (rule set_state_reliable [OF assms(1) 1(2), of GPT_BAD_SIGNATURE PRIMARY_GPT]) (use valid in auto)
  note re = restated [OF 1(2) 2(3)]
  have "prepare_boot_update e UPDATE_MAIN dev = Returns (0, dev2)" by (simp add: 0 run_stage_def 1(1) 2(1))
  with valid gpt_invD(3) [OF assms(2)] show thesis
    by (intro that [OF _ 2(2)]) (simp_all add: valid_copy_def re(2-5) re(6) [of PRIMARY_GPT] 1(3,4,6) 0(2))
qed

lemma backup_stage:
  assumes "reliable e" "gpt_inv (sparse_crc32 e) (disk dev)" "stage_ready UPDATE_BACKUP (disk dev)"
  obtains dev' where "prepare_boot_update e UPDATE_BACKUP dev = Returns (0, dev')" "gpt_inv (sparse_crc32 e) (disk dev')"
    "header PRIMARY_GPT (disk dev') = seal (sparse_crc32 e) (restate GPT_OK (header PRIMARY_GPT (disk dev)))"
    "has_signature (header PRIMARY_GPT (disk dev'))" "entries PRIMARY_GPT (disk dev') = entries PRIMARY_GPT (disk dev)"
    "\<not> has_signature (header SECONDARY_GPT (disk dev'))"
proof -
  obtain dev0 where 0: "prepare_boot_update e UPDATE_BACKUP dev = run_stage e UPDATE_BACKUP dev0" "disk dev0 = disk dev"
    using prepare_ready [OF assms(1-3)] .
  have inv: "gpt_inv (sparse_crc32 e) (disk dev0)" using assms(2) by (simp add: 0)
  obtain dev1 where 1: "gpt_set_state e PRIMARY_GPT GPT_OK dev0 = Returns (0, dev1)" "gpt_inv (sparse_crc32 e) (disk dev1)"
    "disk dev1 = put_header PRIMARY_GPT (seal (sparse_crc32 e) (restate GPT_OK (header PRIMARY_GPT (disk dev0)))) (disk dev0)"
    by (rule set_state_reliable [OF assms(1) inv, of GPT_OK PRIMARY_GPT]) auto
  note re1 = restated [OF inv 1(3)]
  obtain dev2 where 2: "gpt_set_state e SECONDARY_GPT GPT_BAD_SIGNATURE dev1 = Returns (0, dev2)" "gpt_inv (sparse_crc32 e) (disk dev2)"
    "disk dev2 = put_header SECONDARY_GPT (seal (sparse_crc32 e) (restate GPT_BAD_SIGNATURE (header SECONDARY_GPT (disk dev1)))) (disk dev1)"
    by (rule set_state_reliable [OF assms(1) 1(2), of GPT_BAD_SIGNATURE SECONDARY_GPT]) (auto simp: re1(5))
  note re2 = restated [OF 1(2) 2(3)]
  have "prepare_boot_update e UPDATE_BACKUP dev = Returns (0, dev2)" by (simp add: 0 run_stage_def 1(1) 2(1))
  with gpt_invD(3) [OF assms(2)] show thesis
    by (intro that [OF _ 2(2)]) (simp_all add: re2(2,5) re2(6) [of PRIMARY_GPT] re1(2,5) re1(6) [of PRIMARY_GPT] 0(2))
qed

lemma finalize_stage:
  assumes "reliable e" "gpt_inv (sparse_crc32 e) (disk dev)" "stage_ready UPDATE_FINALIZE (disk dev)"
  obtains dev' where "prepare_boot_update e UPDATE_FINALIZE dev = Returns (0, dev')" "gpt_inv (sparse_crc32 e) (disk dev')"
    "header PRIMARY_GPT (disk dev') = header PRIMARY_GPT (disk dev)" "entries PRIMARY_GPT (disk dev') = entries PRIMARY_GPT (disk dev)"
    "valid_copy (sparse_crc32 e) SECONDARY_GPT (disk dev')" "entries SECONDARY_GPT (disk dev') = entries PRIMARY_GPT (disk dev)"
proof -
  obtain dev0 where 0: "prepare_boot_update e UPDATE_FINALIZE dev = run_stage e UPDATE_FINALIZE dev0" "disk dev0 = disk dev"
    using prepare_ready [OF assms(1-3)] .
  have pre: "gpt_inv (sparse_crc32 e) (disk dev0)" "has_signature (header PRIMARY_GPT (disk dev0))"
    "chain_entries NORMAL_BOOT (disk dev0) 0 (entries PRIMARY_GPT (disk dev))"
    using assms(2,3) by (simp_all add: 0 stage_ready_def chain_entries_def)
  from assms(1) pre obtain dev1 where 1: "gpt2_set_boot_chain e NORMAL_BOOT dev0 = Returns (0, dev1)" "gpt_inv (sparse_crc32 e) (disk dev1)"
    "header PRIMARY_GPT (disk dev1) = header PRIMARY_GPT (disk dev0)" "entries PRIMARY_GPT (disk dev1) = entries PRIMARY_GPT (disk dev0)"
    "has_signature (header SECONDARY_GPT (disk dev1)) = has_signature (header SECONDARY_GPT (disk dev0))"
    "entries SECONDARY_GPT (disk dev1) = entries PRIMARY_GPT (disk dev)"
    "GET_4_BYTES PARTITION_CRC_OFFSET (header SECONDARY_GPT (disk dev1)) = sparse_crc32 e 0 (entries PRIMARY_GPT (disk dev))"
    by (rule set_boot_chain_reliable)
  obtain dev2 where 2: "gpt_set_state e SECONDARY_GPT GPT_OK dev1 = Returns (0, dev2)" "gpt_inv (sparse_crc32 e) (disk dev2)"
    "disk dev2 = put_header SECONDARY_GPT (seal (sparse_crc32 e) (restate GPT_OK (header SECONDARY_GPT (disk dev1)))) (disk dev1)"
    by (rule set_state_reliable [OF assms(1) 1(2), of GPT_OK SECONDARY_GPT]) auto
  note re = restated [OF 1(2) 2(3)]
  have "prepare_boot_update e UPDATE_FINALIZE dev = Returns (0, dev2)" by (simp add: 0 run_stage_def 1(1) 2(1))
  then show thesis
    by (intro that [OF _ 2(2)]) (simp_all add: valid_copy_def re(2-5) re(6) [of PRIMARY_GPT] 1(3,4,6,7) 0(2))
qed

text \<open>
  C10. A complete update on a device that works: the main stage leaves the device booting from the
  secondary copy, whose entries have the identities of the boot partitions and their backups
  exchanged; the backup stage leaves it booting from the primary copy with the original
  entries; and the final stage restores the primary header byte for byte and makes both copies valid with the
  original entries. Each stage succeeds.
\<close>

theorem boot_update_cycle:
  assumes "reliable e" "C = sparse_crc32 e" "laid_out (disk dev)"
    and "valid_copy C PRIMARY_GPT (disk dev)" "valid_copy C SECONDARY_GPT (disk dev)"
    and "gpt_boot_chain_swap (unat (GET_4_BYTES PENTRY_SIZE_OFFSET (header PRIMARY_GPT (disk dev)))) (entries PRIMARY_GPT (disk dev)) = Returns (0, pe)"
  shows "\<exists>dev1 dev2 dev3.
    prepare_boot_update e UPDATE_MAIN dev = Returns (0, dev1) \<and>
      \<not> has_signature (header PRIMARY_GPT (disk dev1)) \<and> valid_copy C SECONDARY_GPT (disk dev1) \<and> entries SECONDARY_GPT (disk dev1) = pe \<and>
    prepare_boot_update e UPDATE_BACKUP dev1 = Returns (0, dev2) \<and>
      valid_copy C PRIMARY_GPT (disk dev2) \<and> entries PRIMARY_GPT (disk dev2) = entries PRIMARY_GPT (disk dev) \<and>
      \<not> has_signature (header SECONDARY_GPT (disk dev2)) \<and>
    prepare_boot_update e UPDATE_FINALIZE dev2 = Returns (0, dev3) \<and>
      header PRIMARY_GPT (disk dev3) = header PRIMARY_GPT (disk dev) \<and> valid_copy C PRIMARY_GPT (disk dev3) \<and>
      valid_copy C SECONDARY_GPT (disk dev3) \<and> entries PRIMARY_GPT (disk dev3) = entries PRIMARY_GPT (disk dev) \<and>
      entries SECONDARY_GPT (disk dev3) = entries PRIMARY_GPT (disk dev)"
proof -
  have inv: "gpt_inv (sparse_crc32 e) (disk dev)" "stage_ready UPDATE_MAIN (disk dev)" "chain_entries BACKUP_BOOT (disk dev) 0 pe"
    using valid_inv [OF assms(3-5)] assms(2-6) by (simp_all add: stage_ready_def valid_copy_def chain_entries_def)
  obtain dev1 where 1: "prepare_boot_update e UPDATE_MAIN dev = Returns (0, dev1)" "gpt_inv (sparse_crc32 e) (disk dev1)"
    "\<not> has_signature (header PRIMARY_GPT (disk dev1))"
    "header PRIMARY_GPT (disk dev1) = seal (sparse_crc32 e) (restate GPT_BAD_SIGNATURE (header PRIMARY_GPT (disk dev)))"
    "entries PRIMARY_GPT (disk dev1) = entries PRIMARY_GPT (disk dev)" "valid_copy (sparse_crc32 e) SECONDARY_GPT (disk dev1)"
    "entries SECONDARY_GPT (disk dev1) = pe"
    using main_stage [OF assms(1) inv] .
  then have "stage_ready UPDATE_BACKUP (disk dev1)" by (simp add: stage_ready_def valid_copy_def)
  from assms(1) 1(2) this obtain dev2 where 2: "prepare_boot_update e UPDATE_BACKUP dev1 = Returns (0, dev2)"
    "gpt_inv (sparse_crc32 e) (disk dev2)"
    "header PRIMARY_GPT (disk dev2) = seal (sparse_crc32 e) (restate GPT_OK (header PRIMARY_GPT (disk dev1)))"
    "has_signature (header PRIMARY_GPT (disk dev2))" "entries PRIMARY_GPT (disk dev2) = entries PRIMARY_GPT (disk dev1)"
    "\<not> has_signature (header SECONDARY_GPT (disk dev2))"
    by (rule backup_stage)
  then have "stage_ready UPDATE_FINALIZE (disk dev2)" by (simp add: stage_ready_def)
  from assms(1) 2(2) this obtain dev3 where 3: "prepare_boot_update e UPDATE_FINALIZE dev2 = Returns (0, dev3)"
    "gpt_inv (sparse_crc32 e) (disk dev3)"
    "header PRIMARY_GPT (disk dev3) = header PRIMARY_GPT (disk dev2)" "entries PRIMARY_GPT (disk dev3) = entries PRIMARY_GPT (disk dev2)"
    "valid_copy (sparse_crc32 e) SECONDARY_GPT (disk dev3)" "entries SECONDARY_GPT (disk dev3) = entries PRIMARY_GPT (disk dev2)"
    by (rule finalize_stage)
  have hd: "header PRIMARY_GPT (disk dev3) = header PRIMARY_GPT (disk dev)"
    using restate_restores [of "header PRIMARY_GPT (disk dev)" C] gpt_invD(3) [OF inv(1)] assms(2,4)
    by (simp add: 3(3) 2(3) 1(4) valid_copy_def)
  have "valid_copy (sparse_crc32 e) PRIMARY_GPT (disk dev2)" "valid_copy (sparse_crc32 e) PRIMARY_GPT (disk dev3)"
    using 2(4) gpt_invD(2) [OF 2(2), of PRIMARY_GPT] gpt_invD(5) [OF 2(2)] by (simp_all add: valid_copy_def 3(3,4))
  with 1 2 3 hd show ?thesis unfolding assms(2) by auto
qed

text \<open>A small device: five blocks, two entries named \<^verbatim>\<open>tz\<close> and \<^verbatim>\<open>tzbak\<close>, and a simple checksum.\<close>

definition demo_crc :: "u32 \<Rightarrow> u8 list \<Rightarrow> u32" where
  "demo_crc s bs = s + of_nat (length bs) + ucast (hd (bs @ [0]))"

definition demo_entry :: "u8 \<Rightarrow> u8 list \<Rightarrow> u8 list" where
  "demo_entry g nm = replicate 56 g @ concat (map (\<lambda>c. [c, 0]) nm) @ replicate (72 - 2 * length nm) 0"

definition demo_entries :: "u8 list" where
  "demo_entries = demo_entry 1 [0x74, 0x7A] @ demo_entry 2 [0x74, 0x7A, 0x62, 0x61, 0x6B]"

definition demo_fields :: "u8 \<Rightarrow> u8 list" where
  "demo_fields lba = GPT_SIGNATURE @ replicate 3 0 @ [92, 0, 0, 0] @ replicate 56 0 @ [lba] @ replicate 7 0 @ [2, 0, 0, 0] @ [128, 0, 0, 0]"

definition demo_raw :: "u8 \<Rightarrow> u8 list" where
  "demo_raw lba = demo_fields lba @ le32 (demo_crc 0 demo_entries) @ replicate 420 0"

definition demo_disk :: "u8 list" where
  "demo_disk = replicate 512 0 @ seal demo_crc (demo_raw 2) @ (demo_entries @ replicate 256 0) @ (demo_entries @ replicate 256 0) @
     seal demo_crc (demo_raw 3)"

lemma demo_raw_fields:
  "length (demo_raw lba) = 512" "has_signature (demo_raw lba)" "GET_4_BYTES PARTITION_CRC_OFFSET (demo_raw lba) = demo_crc 0 demo_entries"
  "header_fields (demo_raw lba) = (92, ucast lba, 2, 128)" "length demo_entries = 256"
proof -
  have len: "length (demo_fields lba) = 88" by (simp add: demo_fields_def GPT_SIGNATURE_def)
  show "length (demo_raw lba) = 512" using len by (simp add: demo_raw_def)
  show "has_signature (demo_raw lba)" by (simp add: has_signature_def demo_raw_def demo_fields_def GPT_SIGNATURE_def)
  show "GET_4_BYTES PARTITION_CRC_OFFSET (demo_raw lba) = demo_crc 0 demo_entries"
    using len by (simp add: GET_4_BYTES_def demo_raw_def nth_append gpt_consts le32_def le32_bytes_or)
  show "length demo_entries = 256" by (simp add: demo_entries_def demo_entry_def)
  have "demo_raw lba ! k = demo_fields lba ! k" if "k < 88" for k using that len by (simp add: demo_raw_def nth_append)
  then show "header_fields (demo_raw lba) = (92, ucast lba, 2, 128)"
    by (simp add: header_fields_def GET_4_BYTES_def GET_8_BYTES_def gpt_consts) (simp add: demo_fields_def GPT_SIGNATURE_def nth_append)
qed

lemma demo_parts:
  "length demo_disk = 2560" "header PRIMARY_GPT demo_disk = seal demo_crc (demo_raw 2)" "header SECONDARY_GPT demo_disk = seal demo_crc (demo_raw 3)"
  "bytes_at 1024 256 demo_disk = demo_entries" "bytes_at 1536 256 demo_disk = demo_entries"
  by (simp_all add: demo_disk_def header_def header_place_def bytes_at_def demo_raw_fields)

lemma demo_sealed:
  "GET_4_BYTES HEADER_SIZE_OFFSET (seal demo_crc (demo_raw lba)) = 92" "GET_8_BYTES PENTRIES_OFFSET (seal demo_crc (demo_raw lba)) = ucast lba"
  "GET_4_BYTES PARTITION_COUNT_OFFSET (seal demo_crc (demo_raw lba)) = 2" "GET_4_BYTES PENTRY_SIZE_OFFSET (seal demo_crc (demo_raw lba)) = 128"
  using seal_props(2) [OF demo_raw_fields(1), of demo_crc lba] demo_raw_fields(4) [of lba] by (simp_all add: header_fields_def)

lemma demo_disk_entries: "entries gpt demo_disk = demo_entries"
  by (cases gpt) (simp_all add: entries_def array_len_def array_place_def demo_parts pentries_array_size_def pentries_start_def demo_sealed LBA_SIZE_def)

lemma demo_disk_ok: "laid_out demo_disk" "valid_copy demo_crc PRIMARY_GPT demo_disk" "valid_copy demo_crc SECONDARY_GPT demo_disk"
proof -
  show "laid_out demo_disk"
    by (simp add: demo_parts gpt_layout_def pentries_array_size_def pentries_start_def demo_sealed LBA_SIZE_def Let_def)
  show "valid_copy demo_crc PRIMARY_GPT demo_disk" "valid_copy demo_crc SECONDARY_GPT demo_disk"
    by (simp_all add: valid_copy_def demo_disk_entries demo_parts demo_raw_fields)
qed

lemma demo_swap: "case gpt_boot_chain_swap 128 demo_entries of Returns (r, pe) \<Rightarrow> r = 0 \<and> pe \<noteq> demo_entries | _ \<Rightarrow> False"
  by code_simp

definition demo_gpt_env :: gpt_env where
  "demo_gpt_env = \<lparr>open_ok = True, seek_ok = (\<lambda>n. True), read_res = (\<lambda>n. Some), write_res = (\<lambda>n. Some), calloc_ok = (\<lambda>n. True),
     stack = (\<lambda>n i. 0), sparse_crc32 = demo_crc\<rparr>"

lemma demo_reliable: "reliable demo_gpt_env" "sparse_crc32 demo_gpt_env = demo_crc"
  by (simp_all add: reliable_def demo_gpt_env_def)


theorem boot_update_cycle_witness:
  "\<exists>dev1 dev2 dev3. prepare_boot_update demo_gpt_env UPDATE_MAIN \<lparr>disk = demo_disk, step = 0\<rparr> = Returns (0, dev1) \<and>
     entries SECONDARY_GPT (disk dev1) \<noteq> demo_entries \<and> prepare_boot_update demo_gpt_env UPDATE_BACKUP dev1 = Returns (0, dev2) \<and>
     prepare_boot_update demo_gpt_env UPDATE_FINALIZE dev2 = Returns (0, dev3) \<and> entries SECONDARY_GPT (disk dev3) = demo_entries"
proof -
  let ?dev = "\<lparr>disk = demo_disk, step = 0\<rparr>"
  have "header_fields (header PRIMARY_GPT demo_disk) = (92, 2, 2, 128)" by (simp add: demo_parts demo_raw_fields)
  then have size: "unat (GET_4_BYTES PENTRY_SIZE_OFFSET (header PRIMARY_GPT (disk ?dev))) = 128" by (simp add: header_fields_def)
  obtain pe where pe: "gpt_boot_chain_swap 128 demo_entries = Returns (0, pe)" "pe \<noteq> demo_entries"
    using demo_swap by (auto split: outcome.splits)
  have "entries PRIMARY_GPT (disk ?dev) = demo_entries" by (simp add: demo_disk_entries)
  then show ?thesis
    using boot_update_cycle [OF demo_reliable(1) refl, unfolded demo_reliable(2), of ?dev pe] demo_disk_ok pe size by auto
qed

end
