(* ===== verification/Ota_Decrypt.thy ===== *)
theory Ota_Decrypt
  imports Gpt_Table
begin


unbundle bit_operations_syntax

text \<open>
  Decryption of update images, \<^verbatim>\<open>src/common/recovery/oem-recovery/dec.cpp\<close>, and the function of the
  update script that calls it (\<^verbatim>\<open>oem-updater.cpp\<close>). The world keeps what is open: descriptors,
  buffers of the ION allocator, mappings and files. The answers of the kernel and of the
  trusted zone are an environment asked with the number of the step. Access outside the mapped
  buffer is \<open>Fault\<close>; the query that is repeated with a longer header may go on forever.
\<close>

subsection \<open>World\<close>

definition SSD_PMD_ENCRYPTED :: u32 where "SSD_PMD_ENCRYPTED = 0"
definition SSD_PMD_NOT_ENCRYPTED :: u32 where "SSD_PMD_NOT_ENCRYPTED = 1"
definition SSD_PMD_PARSING_INCOMPLETE :: u32 where "SSD_PMD_PARSING_INCOMPLETE = 6"
definition SSD_HEADER_MIN_SIZE :: u32 where "SSD_HEADER_MIN_SIZE = 128"
definition MULTIPLICATION_FACTOR :: u32 where "MULTIPLICATION_FACTOR = 2"

text \<open>What is open: the devices, the source file, the ION buffer, its descriptor and its mapping.\<close>

datatype ota_res = qseecom_dev | smcmod_dev | src_stream | ion_dev | ion_buffer | ion_data_fd | ion_mapping | perf_vote

record ota_env =
  opens :: "ota_res \<Rightarrow> nat \<Rightarrow> bool"
  errno :: "nat \<Rightarrow> int"
  src_bytes :: "u8 list"
  ion_alloc_res :: "nat \<Rightarrow> int \<times> bool"
  ion_map_res :: "nat \<Rightarrow> int"
  mmap_ok :: "nat \<Rightarrow> bool"
  ion_free_res :: "nat \<Rightarrow> int"
  fread_ok :: "nat \<Rightarrow> bool"
  clean_res :: "nat \<Rightarrow> int"
  perf_res :: "nat \<Rightarrow> int"
  metadata_res :: "nat \<Rightarrow> u32 \<Rightarrow> int \<times> u32 \<times> u32 \<times> u32"
  frag_res :: "nat \<Rightarrow> u32 \<Rightarrow> u32 \<Rightarrow> u32 \<Rightarrow> u8 list \<Rightarrow> int \<times> u8 list"
  dst_open :: "nat \<Rightarrow> bool"
  fwrite_ok :: "nat \<Rightarrow> bool"

record ota_world =
  res :: "ota_res list"
  dst :: "u8 list option"
  ostep :: nat

definition ota_tick :: "ota_world \<Rightarrow> ota_world" where
  "ota_tick w = w\<lparr>ostep := Suc (ostep w)\<rparr>"

definition acquire :: "ota_res \<Rightarrow> ota_world \<Rightarrow> ota_world" where
  "acquire r w = w\<lparr>res := r # res w\<rparr>"

definition release :: "ota_res \<Rightarrow> ota_world \<Rightarrow> ota_world" where
  "release r w = w\<lparr>res := remove1 r (res w)\<rparr>"

definition try_open :: "ota_env \<Rightarrow> ota_res \<Rightarrow> ota_world \<Rightarrow> bool \<times> ota_world" where
  "try_open e r w = (if opens e r (ostep w) then (True, acquire r (ota_tick w)) else (False, ota_tick w))"

subsection \<open>Buffers of the ION allocator\<close>

text \<open>The buffer handle, cleared by its user: \<open>ion_fd\<close> is whether the descriptor is not \<^verbatim>\<open>-1\<close>.\<close>

record ion_buf_handle =
  ion_fd :: bool
  ifd_data_fd :: bool
  ion_buf :: "u8 list option"

definition ion_init :: ion_buf_handle where
  "ion_init = \<lparr>ion_fd = False, ifd_data_fd = False, ion_buf = None\<rparr>"

definition ion_pages :: "u32 \<Rightarrow> u32" where
  "ion_pages nbytes = (nbytes + 4095) AND NOT 4095"

text \<open>
  The labels behind the failures: \<^verbatim>\<open>ioctl_fail\<close> frees the buffer, and its result becomes the
  result of the call; the descriptor of the mapping is closed only if it was stored before.
\<close>

definition ion_alloc_fail :: "int \<Rightarrow> ion_buf_handle \<Rightarrow> ota_world \<Rightarrow> int \<times> ion_buf_handle \<times> ota_world" where
  "ion_alloc_fail rc buf w = (rc, buf\<lparr>ion_fd := False\<rparr>, release ion_dev w)"

definition ion_ioctl_fail :: "ota_env \<Rightarrow> ion_buf_handle \<Rightarrow> ota_world \<Rightarrow> int \<times> ion_buf_handle \<times> ota_world" where
  "ion_ioctl_fail e buf w =
     (let w = (if ifd_data_fd buf then release ion_data_fd w else w)
      in ion_alloc_fail (ion_free_res e (ostep w)) buf (release ion_buffer (ota_tick w)))"

definition ion_memalloc :: "ota_env \<Rightarrow> ion_buf_handle \<Rightarrow> u32 \<Rightarrow> ota_world \<Rightarrow> int \<times> ion_buf_handle \<times> ota_world" where
  "ion_memalloc e buf nbytes w =
     (let (ok, w) = try_open e ion_dev w
      in if \<not> ok then (-1, buf, w)
      else let (rc, handle) = ion_alloc_res e (ostep w); w = ota_tick w
      in if rc \<noteq> 0 then ion_alloc_fail rc buf w
      else if \<not> handle then ion_alloc_fail (-1) buf w
      else let w = acquire ion_buffer w; rc = ion_map_res e (ostep w); w = ota_tick w
      in if rc \<noteq> 0 then ion_ioctl_fail e buf w
      else let w = acquire ion_data_fd w
      in if \<not> mmap_ok e (ostep w) then ion_ioctl_fail e buf (ota_tick w)
      else (0, \<lparr>ion_fd = True, ifd_data_fd = True, ion_buf = Some (replicate (unat (ion_pages nbytes)) 0)\<rparr>,
            acquire ion_mapping (ota_tick w)))"

definition ion_memfree :: "ota_env \<Rightarrow> ota_world \<Rightarrow> int \<times> ota_world" where
  "ion_memfree e w =
     (let w = release ion_data_fd (release ion_mapping w); ret = ion_free_res e (ostep w)
      in (ret, release ion_dev (release ion_buffer (ota_tick w))))"

subsection \<open>Calls to the trusted zone\<close>

text \<open>The query with the length \<open>len\<close> of the header, repeated with the double length while it is incomplete.\<close>

partial_function (option) query_metadata ::
  "ota_env \<Rightarrow> u32 \<Rightarrow> ota_world \<Rightarrow> ((int \<times> u32 \<times> u32 \<times> u32) \<times> ota_world) option" where
  "query_metadata e len w =
     (let (ret, status, ctx, off) = metadata_res e (ostep w) len; w = ota_tick w
      in if ret = 0 \<and> status = SSD_PMD_PARSING_INCOMPLETE then query_metadata e (len * MULTIPLICATION_FACTOR) w
         else Some ((ret, status, ctx, off), w))"

text \<open>The result, and the context and offset, which keep the value of the caller unless the image is encrypted.\<close>

definition is_encrypted :: "ota_env \<Rightarrow> u32 \<Rightarrow> u32 \<times> u32 \<Rightarrow> ota_world \<Rightarrow> (int \<times> (u32 \<times> u32) \<times> ota_world) option" where
  "is_encrypted e len out w =
     map_option (\<lambda>((ret, status, ctx, off), w).
        if ret = 0 \<and> status = SSD_PMD_ENCRYPTED then (1, (ctx, off), w) else (ret, out, w))
       (query_metadata e (if len \<ge> SSD_HEADER_MIN_SIZE then SSD_HEADER_MIN_SIZE else len) w)"

definition decrypt :: "ota_env \<Rightarrow> u8 list \<Rightarrow> u32 \<Rightarrow> u32 \<Rightarrow> u32 \<Rightarrow> ota_world \<Rightarrow> int \<times> u8 list \<times> ota_world" where
  "decrypt e buf len md_ctx offset w =
     (let (ret, buf) = frag_res e (ostep w) md_ctx (len - offset) offset buf
      in (if ret < 0 then ret else 0, buf, ota_tick w))"

text \<open>Writing \<open>len\<close> bytes from \<open>offset\<close> of the buffer; the file is truncated when it is opened.\<close>

definition save_file :: "ota_env \<Rightarrow> u8 list \<Rightarrow> u32 \<Rightarrow> u32 \<Rightarrow> ota_world \<Rightarrow> (int \<times> ota_world) outcome" where
  "save_file e buf offset len w =
     (if \<not> dst_open e (ostep w) then Returns (- errno e (ostep w), ota_tick w)
      else let w = (ota_tick w)\<lparr>dst := Some []\<rparr>
      in if length buf < unat offset + unat len then Fault
      else if \<not> fwrite_ok e (ostep w) then Returns (- errno e (ostep w), ota_tick w)
      else Returns (0, (ota_tick w)\<lparr>dst := Some (bytes_at (unat offset) (unat len) buf)\<rparr>))"

subsection \<open>The whole image\<close>

text \<open>The label \<^verbatim>\<open>exit\<close>.\<close>

definition dec_exit :: "ota_env \<Rightarrow> int \<Rightarrow> ion_buf_handle \<Rightarrow> bool \<Rightarrow> bool \<Rightarrow> bool \<Rightarrow> ota_world \<Rightarrow> int \<times> ota_world" where
  "dec_exit e ret buf qseecom smcmod src w =
     (let w = (if ion_fd buf then snd (ion_memfree e w) else w);
          w = (if qseecom then release qseecom_dev (release perf_vote (ota_tick w)) else w);
          w = (if smcmod then release smcmod_dev w else w);
          w = (if src then release src_stream w else w)
      in (ret, w))"

text \<open>With the image in the buffer: its metadata, its decryption and the new file.\<close>

definition dec_buffer :: "ota_env \<Rightarrow> u32 \<Rightarrow> u8 list \<Rightarrow> ota_world \<Rightarrow> (int \<times> ota_world) outcome" where
  "dec_buffer e fsize buf w =
     (let ret = clean_res e (ostep w); w = ota_tick w
      in if ret < 0 then Returns (ret, w)
      else let ret = perf_res e (ostep w); w = ota_tick w
      in if ret < 0 then Returns (ret, w)
      else case is_encrypted e fsize (0, 0) (acquire perf_vote w) of
        None \<Rightarrow> Blocked
      | Some (ret, (md_ctx, offset), w) \<Rightarrow>
          if ret \<noteq> 1 then Returns (ret, w)
          else let (ret, buf, w) = decrypt e buf fsize md_ctx offset w
               in if ret < 0 then Returns (ret, w)
                  else save_file e buf offset (fsize - offset) (ota_tick w))"

text \<open>With the devices and the source file open.\<close>

definition dec_opened :: "ota_env \<Rightarrow> ota_world \<Rightarrow> (int \<times> ota_world) outcome" where
  "dec_opened e w =
     (let fsize = of_nat (length (src_bytes e)); (ret, ionbuf, w) = ion_memalloc e ion_init fsize w
      in if ret \<noteq> 0 then Returns (dec_exit e ret ionbuf True True True w)
      else if \<not> fread_ok e (ostep w) \<or> fsize = 0
      then Returns (dec_exit e (- errno e (ostep w)) ionbuf True True True (ota_tick w))
      else case ion_buf ionbuf of
        None \<Rightarrow> Fault
      | Some buf \<Rightarrow>
          if length buf < unat fsize then Fault
          else bind_outcome (dec_buffer e fsize (put_at 0 (take (unat fsize) (src_bytes e)) buf) (ota_tick w))
                 (\<lambda>(ret, w). Returns (dec_exit e ret ionbuf True True True w)))"

definition decrypt_image :: "ota_env \<Rightarrow> ota_world \<Rightarrow> (int \<times> ota_world) outcome" where
  "decrypt_image e w =
     (let (qs, w) = try_open e qseecom_dev w
      in if \<not> qs then Returns (dec_exit e (-1) ion_init False False False w)
      else let (sm, w) = try_open e smcmod_dev w
      in if \<not> sm then Returns (dec_exit e (-1) ion_init True False False w)
      else let (src, w) = try_open e src_stream w
      in if \<not> src then Returns (dec_exit e (-1) ion_init True True False w)
      else dec_opened e w)"

text \<open>\<open>args\<close> is whether the interpreter could read both file names.\<close>

definition DecryptFn :: "ota_env \<Rightarrow> nat \<Rightarrow> bool \<Rightarrow> ota_world \<Rightarrow> (edify_value \<times> ota_world) outcome" where
  "DecryptFn e argc args w =
     (if argc \<noteq> 2 then Returns (ErrorAbort, w)
      else if \<not> args then Returns (NullValue, w)
      else bind_outcome (decrypt_image e w) (\<lambda>(rc, w). Returns (StringValue (if rc \<ge> 0 then ''t'' else []), w)))"

subsection \<open>The repeated query\<close>

lemmas query_unfold = query_metadata.simps [unfolded Let_def split_beta]

text \<open>The query ends when the trusted zone answers one of the lengths that the loop tries.\<close>

lemma query_metadata_answers:
  assumes "\<forall>n. fst (metadata_res e n (len * 2 ^ k)) \<noteq> 0 \<or> fst (snd (metadata_res e n (len * 2 ^ k))) \<noteq> SSD_PMD_PARSING_INCOMPLETE"
  shows "query_metadata e len w \<noteq> None"
  using assms
proof (induction k arbitrary: len w)
  case 0
  from spec [OF this, of "ostep w"] show ?case
    by (subst query_unfold, cases "metadata_res e (ostep w) len") auto
next
  case (Suc k)
  have "query_metadata e (len * 2) v \<noteq> None" for v
    using Suc(1) [of "len * 2" v] Suc(2) by (simp add: mult.assoc)
  then show ?case
    by (subst query_unfold, cases "metadata_res e (ostep w) len") (auto simp: MULTIPLICATION_FACTOR_def)
qed

text \<open>A trusted zone that always asks for more is asked forever: the length wraps around to zero.\<close>

lemma query_metadata_forever:
  assumes "\<forall>n len. fst (metadata_res e n len) = 0 \<and> fst (snd (metadata_res e n len)) = SSD_PMD_PARSING_INCOMPLETE"
  shows "query_metadata e len w = None"
proof -
  have "e' = e \<longrightarrow> False" if "query_metadata e' len w = Some y" for e' len w y
    using that
  proof (rule query_metadata.raw_induct [rotated])
    fix query e' len w y
    assume "\<And>e' len w y. query e' len w = Some y \<Longrightarrow> e' = e \<longrightarrow> False"
      and "(let (ret, status, ctx, off) = metadata_res e' (ostep w) len; w = ota_tick w
        in if ret = 0 \<and> status = SSD_PMD_PARSING_INCOMPLETE then query e' (len * MULTIPLICATION_FACTOR) w
           else Some ((ret, status, ctx, off), w)) = Some y"
    with assms show "e' = e \<longrightarrow> False" by (auto simp: split_beta Let_def split: if_splits)
  qed
  then show ?thesis by (metis option.exhaust)
qed

subsection \<open>What is left open\<close>

named_theorems ota_ops \<open>effect of the steps on what is open\<close>

lemma ota_res_simps [simp]:
  "res (ota_tick w) = res w" "res (acquire r w) = r # res w" "res (release r w) = remove1 r (res w)"
  by (simp_all add: ota_tick_def acquire_def release_def)

lemma query_metadata_res [ota_ops]: "query_metadata e len w = Some (x, w') \<Longrightarrow> res w' = res w"
proof -
  have "res (snd y) = res w" if "query_metadata e len w = Some y" for e len w y
    using that
  proof (rule query_metadata.raw_induct [rotated])
    fix query e len w y
    assume "\<And>e len w y. query e len w = Some y \<Longrightarrow> res (snd y) = res w"
      and "(let (ret, status, ctx, off) = metadata_res e (ostep w) len; w = ota_tick w
        in if ret = 0 \<and> status = SSD_PMD_PARSING_INCOMPLETE then query e (len * MULTIPLICATION_FACTOR) w
           else Some ((ret, status, ctx, off), w)) = Some y"
    then show "res (snd y) = res w" by (fastforce simp: split_beta Let_def split: if_splits)
  qed
  then show "query_metadata e len w = Some (x, w') \<Longrightarrow> res w' = res w" by fastforce
qed

lemma is_encrypted_res [ota_ops]: "is_encrypted e len out w = Some (r, x, w') \<Longrightarrow> res w' = res w"
  by (auto simp: is_encrypted_def dest!: query_metadata_res split: if_splits)

lemma save_file_res [ota_ops]: "save_file e buf off len w = Returns (r, w') \<Longrightarrow> res w' = res w"
  by (auto simp: save_file_def Let_def ota_tick_def split: if_splits)

lemma dec_buffer_res [ota_ops]:
  "dec_buffer e fsize buf w = Returns (r, w') \<Longrightarrow> res w' = res w \<or> res w' = perf_vote # res w"
  by (auto simp: dec_buffer_def decrypt_def Let_def split_beta dest!: is_encrypted_res save_file_res split: if_splits option.splits)

lemma ion_memalloc_res:
  assumes "ion_memalloc e ion_init n w = (rc, buf, w')" "\<forall>k. mmap_ok e k"
  shows "(res w' = res w \<and> \<not> ion_fd buf) \<or>
    (rc = 0 \<and> ion_fd buf \<and> res w' = ion_mapping # ion_data_fd # ion_buffer # ion_dev # res w)"
  using assms
  by (auto simp: ion_memalloc_def ion_alloc_fail_def ion_ioctl_fail_def ion_init_def try_open_def Let_def split_beta split: if_splits)

lemma dec_exit_res:
  assumes "perf_vote \<notin> set rs" "src_stream # smcmod_dev # qseecom_dev # rs = bs"
    and "res w = (if v then [perf_vote] else []) @ (if ion_fd buf then [ion_mapping, ion_data_fd, ion_buffer, ion_dev] else []) @ bs"
  shows "res (snd (dec_exit e r buf True True True w)) = rs"
  using assms by (auto simp: dec_exit_def ion_memfree_def Let_def remove1_idem)

lemma dec_opened_res:
  assumes "dec_opened e w = Returns (rc, w')" "\<forall>k. mmap_ok e k" "res w = src_stream # smcmod_dev # qseecom_dev # rs" "perf_vote \<notin> set rs"
  shows "res w' = rs"
proof -
  define n where "n = (of_nat (length (src_bytes e)) :: u32)"
  obtain ret buf w4 where alloc: "ion_memalloc e ion_init n w = (ret, buf, w4)" by (metis prod.exhaust)
  have mem: "res w4 = (if ion_fd buf then [ion_mapping, ion_data_fd, ion_buffer, ion_dev] else []) @ res w"
    using ion_memalloc_res [OF alloc assms(2)] by auto
  have close: "res (snd (dec_exit e r buf True True True v)) = rs" if "res v = res w4 \<or> res v = perf_vote # res w4" for r v
    using dec_exit_res [OF assms(4) refl, of v "res v \<noteq> res w4" buf e r] that mem assms(3) by auto
  have "\<exists>r v. (rc, w') = dec_exit e r buf True True True v \<and> (res v = res w4 \<or> res v = perf_vote # res w4)"
  proof (cases "ret \<noteq> 0 \<or> \<not> fread_ok e (ostep w4) \<or> n = 0")
    case True
    then have "(rc, w') = dec_exit e ret buf True True True w4 \<or>
        (rc, w') = dec_exit e (- errno e (ostep w4)) buf True True True (ota_tick w4)"
      using assms(1) alloc by (auto simp: dec_opened_def Let_def simp flip: n_def split: if_splits)
    then show ?thesis by (metis ota_res_simps(1))
  next
    case False
    then obtain bytes r v where "dec_buffer e n bytes (ota_tick w4) = Returns (r, v)" "(rc, w') = dec_exit e r buf True True True v"
      using assms(1) alloc by (cases "ion_buf buf") (auto simp: dec_opened_def Let_def bind_outcome_Returns simp flip: n_def split: if_splits)
    then show ?thesis by (metis dec_buffer_res ota_res_simps(1))
  qed
  then show ?thesis using close by (metis snd_conv)
qed


text \<open>An environment in which everything works; the trusted zone clears the bytes of the image behind a header of two bytes.\<close>

definition demo_ota :: ota_env where
  "demo_ota = \<lparr>opens = (\<lambda>r n. True), errno = (\<lambda>n. 5), src_bytes = [1, 2, 3, 4], ion_alloc_res = (\<lambda>n. (0, True)), ion_map_res = (\<lambda>n. 0),
     mmap_ok = (\<lambda>n. True), ion_free_res = (\<lambda>n. 0), fread_ok = (\<lambda>n. True), clean_res = (\<lambda>n. 0), perf_res = (\<lambda>n. 0),
     metadata_res = (\<lambda>n len. (0, SSD_PMD_ENCRYPTED, 7, 2)), frag_res = (\<lambda>n ctx len off buf. (0, put_at 2 [0, 0] buf)),
     dst_open = (\<lambda>n. True), fwrite_ok = (\<lambda>n. True)\<rparr>"

definition demo_ota_world :: ota_world where
  "demo_ota_world = \<lparr>res = [], dst = None, ostep = 0\<rparr>"

lemma demo_query: "query_metadata demo_ota len w = Some ((0, SSD_PMD_ENCRYPTED, 7, 2), ota_tick w)"
  by (subst query_metadata.simps) (simp add: demo_ota_def SSD_PMD_ENCRYPTED_def SSD_PMD_PARSING_INCOMPLETE_def)

lemma demo_buffer: "\<exists>w'. dec_buffer demo_ota 4 (a # b # c # d # rest) w = Returns (0, w') \<and> dst w' = Some [0, 0]"
  by (simp add: dec_buffer_def is_encrypted_def demo_query decrypt_def save_file_def Let_def)
    (simp add: demo_ota_def put_at_def bytes_at_def ota_tick_def save_file_def Let_def)

lemma dec_exit_dst: "dst (snd (dec_exit e r buf qs sm src w)) = dst w" "fst (dec_exit e r buf qs sm src w) = r"
  by (simp_all add: dec_exit_def ion_memfree_def Let_def ota_tick_def release_def)

lemma demo_decrypt: "\<exists>w'. decrypt_image demo_ota demo_ota_world = Returns (0, w') \<and> dst w' = Some [0, 0]"
proof -
  have "ion_pages 4 = 4096" by code_simp
  then obtain rest where buf: "put_at 0 [1, 2, 3, 4] (replicate (unat (ion_pages 4)) 0) = 1 # 2 # 3 # 4 # rest" "unat (ion_pages 4) = 4096"
    by (simp add: put_at_def)
  define w where "w = snd (try_open demo_ota src_stream (snd (try_open demo_ota smcmod_dev (snd (try_open demo_ota qseecom_dev demo_ota_world)))))"
  have opened: "decrypt_image demo_ota demo_ota_world = dec_opened demo_ota w"
    by (simp add: decrypt_image_def w_def try_open_def demo_ota_def)
  obtain v where alloc: "ion_memalloc demo_ota ion_init 4 w =
      (0, \<lparr>ion_fd = True, ifd_data_fd = True, ion_buf = Some (replicate (unat (ion_pages 4)) 0)\<rparr>, v)"
    by (simp add: ion_memalloc_def try_open_def Let_def demo_ota_def)
  obtain w' where "dec_buffer demo_ota 4 (1 # 2 # 3 # 4 # rest) (ota_tick v) = Returns (0, w')" "dst w' = Some [0, 0]"
    using demo_buffer by blast
  then show ?thesis
    unfolding opened dec_opened_def Let_def using alloc buf dec_exit_dst [of demo_ota 0 _ True True True w']
    by (simp add: demo_ota_def) (metis prod.collapse)
qed


text \<open>
  C24. A mapping of the buffer that fails goes unnoticed when the buffer can be freed: the result of
  freeing it becomes the result of the allocation, which reports success without a buffer and
  leaves the descriptor of the mapping open; the image is then read to a null pointer.
\<close>

theorem map_failure_unnoticed:
  assumes "\<forall>r n. opens e r n" "\<forall>n. ion_alloc_res e n = (0, True) \<and> ion_map_res e n = 0 \<and> \<not> mmap_ok e n \<and> ion_free_res e n = 0"
    and "\<forall>n. fread_ok e n" "0 < length (src_bytes e)" "length (src_bytes e) < 2 ^ 32"
  shows "decrypt_image e w = Fault \<and>
    (\<exists>buf w'. ion_memalloc e ion_init n w = (0, buf, w') \<and> ion_buf buf = None \<and> res w' = ion_data_fd # res w)"
proof -
  have alloc: "\<exists>buf w'. ion_memalloc e ion_init n w = (0, buf, w') \<and> ion_buf buf = None \<and> res w' = ion_data_fd # res w" for n w
    using assms(1,2) by (simp add: ion_memalloc_def ion_ioctl_fail_def ion_alloc_fail_def ion_init_def try_open_def Let_def)
  have "unat (of_nat (length (src_bytes e)) :: u32) = length (src_bytes e)"
    using assms(5) by (simp add: unat_of_nat take_bit_nat_eq_self)
  then have "(of_nat (length (src_bytes e)) :: u32) \<noteq> 0" using assms(4) by auto
  moreover have "decrypt_image e w = dec_opened e (snd (try_open e src_stream (snd (try_open e smcmod_dev (snd (try_open e qseecom_dev w))))))"
    using assms(1) by (simp add: decrypt_image_def try_open_def)
  ultimately have "decrypt_image e w = Fault"
    using alloc [of "of_nat (length (src_bytes e))" "snd (try_open e src_stream (snd (try_open e smcmod_dev (snd (try_open e qseecom_dev w)))))"] assms(3)
    by (auto simp: dec_opened_def Let_def)
  with alloc show ?thesis by blast
qed

theorem map_failure_unnoticed_witness:
  "decrypt_image (demo_ota\<lparr>mmap_ok := (\<lambda>n. False)\<rparr>) demo_ota_world = Fault"
  using map_failure_unnoticed [of "demo_ota\<lparr>mmap_ok := (\<lambda>n. False)\<rparr>"] by (simp add: demo_ota_def)

text \<open>An image that is not encrypted counts as decrypted, although no file is written.\<close>

lemma not_encrypted_result:
  assumes "\<forall>n len. metadata_res e n len = (0, SSD_PMD_NOT_ENCRYPTED, c, off)" "\<forall>n. 0 \<le> clean_res e n \<and> 0 \<le> perf_res e n"
  shows "\<exists>w'. dec_buffer e fsize buf w = Returns (0, w') \<and> dst w' = dst w"
proof -
  have "query_metadata e len v = Some ((0, SSD_PMD_NOT_ENCRYPTED, c, off), ota_tick v)" for len v
    using assms(1) by (subst query_metadata.simps) (simp add: SSD_PMD_NOT_ENCRYPTED_def SSD_PMD_PARSING_INCOMPLETE_def)
  then show ?thesis
    using assms(2) by (simp add: dec_buffer_def is_encrypted_def Let_def not_less SSD_PMD_NOT_ENCRYPTED_def SSD_PMD_ENCRYPTED_def ota_tick_def acquire_def)
qed

end
