(* ===== verification/Crypt_Key.thy ===== *)
theory Crypt_Key
  imports C_Prelude
begin

text \<open>
  Hardware disk encryption, \<^verbatim>\<open>src/common/cryptfs_hw/cryptfs_hw.c\<close>: the key of the disk is created,
  changed and wiped by a service behind a shared library. The service, over a state of
  type \<open>'k\<close>, the loader, system properties and files are an environment; the number of times the
  service is waited for is a constant of a header outside the tree.
\<close>

subsection \<open>Environment and state\<close>

definition ERR_MAX_PASSWORD_ATTEMPTS :: int where "ERR_MAX_PASSWORD_ATTEMPTS = -10"
definition QSEECOM_DISK_ENCRYPTION :: int where "QSEECOM_DISK_ENCRYPTION = 1"
definition QSEECOM_UFS_ICE_DISK_ENCRYPTION :: int where "QSEECOM_UFS_ICE_DISK_ENCRYPTION = 3"
definition QSEECOM_SDCC_ICE_DISK_ENCRYPTION :: int where "QSEECOM_SDCC_ICE_DISK_ENCRYPTION = 4"
definition MAX_PASSWORD_LEN :: nat where "MAX_PASSWORD_LEN = 32"
definition QTI_ICE_STORAGE_UFS :: int where "QTI_ICE_STORAGE_UFS = 1"
definition QTI_ICE_STORAGE_SDCC :: int where "QTI_ICE_STORAGE_SDCC = 2"
definition MAX_DEVICE_ID_LENGTH :: nat where "MAX_DEVICE_ID_LENGTH = 4"
definition cpu_id :: "u32 list" where "cpu_id = [239]"

datatype key_operation = SET_HW_DISK_ENC_KEY | UPDATE_HW_DISK_ENC_KEY

record 'k crypt_env =
  QSEECOM_UP_CHECK_COUNT :: nat
  keymaster_loaded :: "nat \<Rightarrow> string"
  dlopen_ok :: "nat \<Rightarrow> bool"
  dlsym_ok :: "string \<Rightarrow> nat \<Rightarrow> bool"
  crypt_malloc :: "nat \<Rightarrow> bool"
  qseecom_create_key :: "int \<Rightarrow> char list \<Rightarrow> 'k \<Rightarrow> int \<times> 'k"
  qseecom_update_key :: "int \<Rightarrow> char list \<Rightarrow> char list \<Rightarrow> 'k \<Rightarrow> int \<times> 'k"
  qseecom_wipe_key :: "int \<Rightarrow> 'k \<Rightarrow> int \<times> 'k"
  bootdevice :: string
  has_icesdcc :: bool
  recovery_opens :: bool
  soc_id_file :: "char list option"
  soc_id_file2 :: "char list option"
  after_buf :: "char list"
  keystore_module :: "int + int"
  keymaster_partition :: bool

text \<open>
  The library and its handles, blocks of memory, what the recovery is told, the state of
  the service and the time slept in tenths of a second; \<open>ctime\<close> counts the calls of the environment.
\<close>

record 'k crypt_world =
  loaded_library :: bool
  dl_handles :: nat
  mem_blocks :: nat
  recovery_command :: "string option"
  rebooted :: bool
  key_state :: 'k
  slept :: nat
  ctime :: nat

definition crypt_tick :: "'k crypt_world \<Rightarrow> 'k crypt_world" where
  "crypt_tick w = w\<lparr>ctime := Suc (ctime w)\<rparr>"

subsection \<open>Storage and passwords\<close>

definition is_ice_enabled :: "'k crypt_env \<Rightarrow> int" where
  "is_ice_enabled e =
     (if bootdevice e = [] then 0
      else if strstr (bootdevice e) ''ufs'' \<noteq> None then QTI_ICE_STORAGE_UFS
      else if strstr (bootdevice e) ''sdhc'' \<noteq> None \<and> has_icesdcc e then QTI_ICE_STORAGE_SDCC
      else 0)"

definition map_usage :: "'k crypt_env \<Rightarrow> int \<Rightarrow> int" where
  "map_usage e usage =
     (if usage = QSEECOM_DISK_ENCRYPTION
      then (if is_ice_enabled e = QTI_ICE_STORAGE_UFS then QSEECOM_UFS_ICE_DISK_ENCRYPTION
            else if is_ice_enabled e = QTI_ICE_STORAGE_SDCC then QSEECOM_SDCC_ICE_DISK_ENCRYPTION
            else usage)
      else usage)"

text \<open>The password in a block of 32 bytes: cut or filled with zeros.\<close>

definition pad_passwd :: "string \<Rightarrow> char list" where
  "pad_passwd passwd =
     (let passwd_len = (if length passwd > MAX_PASSWORD_LEN then MAX_PASSWORD_LEN else length passwd)
      in take passwd_len passwd @ replicate (MAX_PASSWORD_LEN - passwd_len) (CHR 0x00))"

definition get_tmp_passwd :: "'k crypt_env \<Rightarrow> string option \<Rightarrow> 'k crypt_world \<Rightarrow> char list option \<times> 'k crypt_world" where
  "get_tmp_passwd e passwd w =
     (case passwd of
        None \<Rightarrow> (None, w)
      | Some p \<Rightarrow>
          if crypt_malloc e (ctime w) then (Some (pad_passwd p), (crypt_tick w)\<lparr>mem_blocks := Suc (mem_blocks w)\<rparr>)
          else (None, crypt_tick w))"

definition free_passwd :: "char list option \<Rightarrow> 'k crypt_world \<Rightarrow> 'k crypt_world" where
  "free_passwd p w = (if p = None then w else w\<lparr>mem_blocks := mem_blocks w - 1\<rparr>)"

definition wipe_userdata :: "'k crypt_env \<Rightarrow> 'k crypt_world \<Rightarrow> 'k crypt_world" where
  "wipe_userdata e w =
     (if recovery_opens e then w\<lparr>recovery_command := Some ''--wipe_data''\<rparr> else w)\<lparr>rebooted := True\<rparr>"

subsection \<open>The library of the service\<close>

fun qseecom_up_loop :: "'k crypt_env \<Rightarrow> nat \<Rightarrow> 'k crypt_world \<Rightarrow> bool \<times> 'k crypt_world" where
  "qseecom_up_loop e 0 w = (False, w)"
| "qseecom_up_loop e (Suc n) w =
     (if keymaster_loaded e (ctime w) = ''true'' then (True, crypt_tick w)
      else qseecom_up_loop e n ((crypt_tick w)\<lparr>slept := Suc (slept w)\<rparr>))"

definition is_qseecom_up :: "'k crypt_env \<Rightarrow> 'k crypt_world \<Rightarrow> bool \<times> 'k crypt_world" where
  "is_qseecom_up e w = qseecom_up_loop e (QSEECOM_UP_CHECK_COUNT e) w"

definition load_symbols :: "'k crypt_env \<Rightarrow> nat \<Rightarrow> bool" where
  "load_symbols e t = (dlsym_ok e ''QSEECom_create_key'' t \<and> dlsym_ok e ''QSEECom_update_key_user_info'' t \<and> dlsym_ok e ''QSEECom_wipe_key'' t)"

definition load_qseecom_library :: "'k crypt_env \<Rightarrow> 'k crypt_world \<Rightarrow> bool \<times> 'k crypt_world" where
  "load_qseecom_library e w =
     (if loaded_library w then (True, w)
      else let (up, w) = is_qseecom_up e w
      in if \<not> up then (False, w)
      else if \<not> dlopen_ok e (ctime w) then (False, crypt_tick w)
      else if load_symbols e (ctime w) then (True, (crypt_tick w)\<lparr>loaded_library := True, dl_handles := Suc (dl_handles w)\<rparr>)
      else (False, crypt_tick w))"

subsection \<open>Keys\<close>

definition is_hw_disk_encryption :: "string option \<Rightarrow> bool" where
  "is_hw_disk_encryption encryption_mode = (encryption_mode = Some ''aes-xts'')"

definition set_key ::
  "'k crypt_env \<Rightarrow> string option \<Rightarrow> string option \<Rightarrow> string option \<Rightarrow> key_operation \<Rightarrow> 'k crypt_world \<Rightarrow> int \<times> 'k crypt_world" where
  "set_key e currentpasswd passwd enc_mode operation w =
     (if \<not> is_hw_disk_encryption enc_mode then (-1, w)
      else let (loaded, w) = load_qseecom_library e w
      in if \<not> loaded then (-1, w)
      else let (tmp_passwd, w) = get_tmp_passwd e passwd w;
               (tmp_currentpasswd, w) = get_tmp_passwd e currentpasswd w
      in case tmp_passwd of
           None \<Rightarrow> (-1, w)
         | Some new \<Rightarrow>
             let (err, k) =
                   (case operation of
                      UPDATE_HW_DISK_ENC_KEY \<Rightarrow>
                        (case tmp_currentpasswd of
                           None \<Rightarrow> (-1, key_state w)
                         | Some old \<Rightarrow> qseecom_update_key e (map_usage e QSEECOM_DISK_ENCRYPTION) old new (key_state w))
                    | SET_HW_DISK_ENC_KEY \<Rightarrow> qseecom_create_key e (map_usage e QSEECOM_DISK_ENCRYPTION) new (key_state w));
                 w = w\<lparr>key_state := k\<rparr>;
                 w = (if err < 0 \<and> err = ERR_MAX_PASSWORD_ATTEMPTS then wipe_userdata e w else w)
             in (err, free_passwd tmp_currentpasswd (free_passwd tmp_passwd w)))"

definition set_hw_device_encryption_key ::
  "'k crypt_env \<Rightarrow> string option \<Rightarrow> string option \<Rightarrow> 'k crypt_world \<Rightarrow> int \<times> 'k crypt_world" where
  "set_hw_device_encryption_key e passwd enc_mode w = set_key e None passwd enc_mode SET_HW_DISK_ENC_KEY w"

definition update_hw_device_encryption_key ::
  "'k crypt_env \<Rightarrow> string option \<Rightarrow> string option \<Rightarrow> string option \<Rightarrow> 'k crypt_world \<Rightarrow> int \<times> 'k crypt_world" where
  "update_hw_device_encryption_key e oldpw newpw enc_mode w = set_key e oldpw newpw enc_mode UPDATE_HW_DISK_ENC_KEY w"

definition clear_hw_device_encryption_key :: "'k crypt_env \<Rightarrow> 'k crypt_world \<Rightarrow> int \<times> 'k crypt_world" where
  "clear_hw_device_encryption_key e w =
     (let (loaded, w) = load_qseecom_library e w
      in if loaded then let (err, k) = qseecom_wipe_key e (map_usage e QSEECOM_DISK_ENCRYPTION) (key_state w) in (err, w\<lparr>key_state := k\<rparr>)
         else (0, w))"

subsection \<open>Which devices use it\<close>

text \<open>
  At most four bytes of the file are read into an array of four that is not terminated; the number is
  read on in the bytes behind the array when all four are digits.
\<close>

definition read_soc_id :: "'k crypt_env \<Rightarrow> char list option" where
  "read_soc_id e =
     map_option (take MAX_DEVICE_ID_LENGTH) (case soc_id_file e of Some bs \<Rightarrow> Some bs | None \<Rightarrow> soc_id_file2 e)"

definition is_hw_fde_enabled :: "'k crypt_env \<Rightarrow> bool \<Rightarrow> bool" where
  "is_hw_fde_enabled e swv8 =
     (if \<not> swv8 then True
      else case read_soc_id e of
             None \<Rightarrow> True
           | Some [] \<Rightarrow> True
           | Some buf \<Rightarrow> \<not> List.member cpu_id (word_of_int (atoi 32 (buf @ after_buf e))))"

definition get_keymaster_version :: "'k crypt_env \<Rightarrow> int" where
  "get_keymaster_version e = (case keystore_module e of Inl rc \<Rightarrow> rc | Inr version \<Rightarrow> version)"

text \<open>\<open>v1_0\<close> is the constant \<^verbatim>\<open>KEYMASTER_MODULE_API_VERSION_1_0\<close>.\<close>

definition should_use_keymaster :: "'k crypt_env \<Rightarrow> int \<Rightarrow> bool" where
  "should_use_keymaster e v1_0 = (get_keymaster_version e = v1_0 \<and> keymaster_partition e)"

subsection \<open>Facts\<close>

lemma length_pad_passwd [simp]: "length (pad_passwd p) = 32"
  by (simp add: pad_passwd_def MAX_PASSWORD_LEN_def)

text \<open>Passwords of at most 32 characters are told apart; longer ones only by their first 32.\<close>

lemma pad_passwd_inj:
  assumes "length p \<le> 32" "length q \<le> 32" "CHR 0x00 \<notin> set p" "CHR 0x00 \<notin> set q"
  shows "pad_passwd p = pad_passwd q \<longleftrightarrow> p = q"
proof
  assume eq: "pad_passwd p = pad_passwd q"
  have "takeWhile (\<lambda>c. c \<noteq> CHR 0x00) (pad_passwd r) = r" if "length r \<le> 32" "CHR 0x00 \<notin> set r" for r
    using that by (auto simp: pad_passwd_def MAX_PASSWORD_LEN_def takeWhile_append takeWhile_replicate takeWhile_eq_all_conv)
  then show "p = q" using assms eq by metis
qed simp

lemma pad_passwd_take: "pad_passwd p = pad_passwd (take 32 p)"
  by (simp add: pad_passwd_def MAX_PASSWORD_LEN_def min_def)

lemma up_loop_frame:
  "qseecom_up_loop e n w = (up, w') \<Longrightarrow> slept w' \<le> slept w + n \<and>
     w' = w\<lparr>slept := slept w', ctime := ctime w'\<rparr> \<and> (\<not> up \<longrightarrow> slept w' = slept w + n)"
  by (induction n arbitrary: w) (fastforce simp: crypt_tick_def split: if_splits)+

lemma load_library_frame:
  assumes "load_qseecom_library e w = (ok, w')"
  shows "mem_blocks w' = mem_blocks w" "key_state w' = key_state w" "recovery_command w' = recovery_command w"
    "rebooted w' = rebooted w" "slept w' \<le> slept w + QSEECOM_UP_CHECK_COUNT e" "ok = loaded_library w'"
proof -
  obtain up v where loop: "qseecom_up_loop e (QSEECOM_UP_CHECK_COUNT e) w = (up, v)" by (metis prod.exhaust)
  from up_loop_frame [OF this] have eq: "v = w\<lparr>slept := slept v, ctime := ctime v\<rparr>"
    and slept: "slept v \<le> slept w + QSEECOM_UP_CHECK_COUNT e" by blast+
  have v: "mem_blocks v = mem_blocks w" "key_state v = key_state w" "recovery_command v = recovery_command w"
    "rebooted v = rebooted w" "loaded_library v = loaded_library w"
    using arg_cong [OF eq, of mem_blocks] arg_cong [OF eq, of key_state] arg_cong [OF eq, of recovery_command]
      arg_cong [OF eq, of rebooted] arg_cong [OF eq, of loaded_library] by simp_all
  show "mem_blocks w' = mem_blocks w" "key_state w' = key_state w" "recovery_command w' = recovery_command w"
    "rebooted w' = rebooted w" "slept w' \<le> slept w + QSEECOM_UP_CHECK_COUNT e" "ok = loaded_library w'"
    using assms v slept
    by (auto simp: load_qseecom_library_def is_qseecom_up_def loop crypt_tick_def Let_def split: if_splits)
qed

text \<open>What the service is asked for.\<close>

definition key_request ::
  "'k crypt_env \<Rightarrow> key_operation \<Rightarrow> string option \<Rightarrow> string \<Rightarrow> 'k \<Rightarrow> int \<times> 'k" where
  "key_request e operation currentpasswd passwd k =
     (case (operation, currentpasswd) of
        (SET_HW_DISK_ENC_KEY, _) \<Rightarrow> qseecom_create_key e (map_usage e QSEECOM_DISK_ENCRYPTION) (pad_passwd passwd) k
      | (UPDATE_HW_DISK_ENC_KEY, Some old) \<Rightarrow>
          qseecom_update_key e (map_usage e QSEECOM_DISK_ENCRYPTION) (pad_passwd old) (pad_passwd passwd) k
      | (UPDATE_HW_DISK_ENC_KEY, None) \<Rightarrow> (-1, k))"


text \<open>A service that keeps the key with the number of failed attempts and allows two.\<close>

definition demo_update :: "int \<Rightarrow> char list \<Rightarrow> char list \<Rightarrow> char list \<times> nat \<Rightarrow> int \<times> (char list \<times> nat)" where
  "demo_update usage old new k =
     (if old = fst k then (0, (new, 0)) else if snd k < 2 then (-2, (fst k, Suc (snd k))) else (-10, ([], 0)))"

definition crypt_demo_env :: "(char list \<times> nat) crypt_env" where
  "crypt_demo_env = \<lparr>QSEECOM_UP_CHECK_COUNT = 3, keymaster_loaded = (\<lambda>t. if t < 2 then [] else ''true''),
     dlopen_ok = (\<lambda>_. True), dlsym_ok = (\<lambda>_ _. True), crypt_malloc = (\<lambda>_. True),
     qseecom_create_key = (\<lambda>_ pw _. (0, (pw, 0))), qseecom_update_key = demo_update, qseecom_wipe_key = (\<lambda>_ k. (0, ([], 0))),
     bootdevice = ''7824900.sdhci'', has_icesdcc = False, recovery_opens = True, soc_id_file = None,
     soc_id_file2 = Some ''239'', after_buf = [CHR 0x00], keystore_module = Inr 256, keymaster_partition = True\<rparr>"

definition crypt_demo :: "(char list \<times> nat) crypt_world" where
  "crypt_demo = \<lparr>loaded_library = False, dl_handles = 0, mem_blocks = 5, recovery_command = None, rebooted = False,
     key_state = (pad_passwd ''old'', 2), slept = 0, ctime = 0\<rparr>"

lemmas crypt_demo_defs = crypt_demo_env_def crypt_demo_def demo_update_def set_key_def is_hw_disk_encryption_def load_qseecom_library_def
  is_qseecom_up_def numeral_3_eq_3 load_symbols_def get_tmp_passwd_def free_passwd_def wipe_userdata_def crypt_tick_def
  ERR_MAX_PASSWORD_ATTEMPTS_def

lemma demo_pads [simp]: "pad_passwd ''old'' \<noteq> pad_passwd ''wrong''" "pad_passwd ''wrong'' \<noteq> pad_passwd ''old''"
  by (simp_all add: pad_passwd_inj)


end
