(* ===== verification/Spec2Isabelle.thy ===== *)
theory Spec2Isabelle
  imports Dtb_Layout Power_Correct Power_Meta Loc_Assist Rmnet_Correct Sap_Station Sap_Setup Sap_Response
    Gpt_Update Ota_Decrypt Crypt_Key
begin

text \<open>
  Verification of the native code of a Qualcomm MSM8909w device tree.

  \<^bold>\<open>The program.\<close> The repository holds the device-side tools and daemons of an Android
  platform. Five parts carry logic of their own and are modelled; they are separate
  programs or libraries that meet only through files, the kernel and the modem.

  \<^item> The image tool \<^verbatim>\<open>src/common/dtbtool/dtbtool.c\<close>: it runs the device tree compiler on
    every file of a directory, collects the chips each file declares in a sorted linked
    list, and writes one image with an index for the boot loader.
  \<^item> The power HAL \<^verbatim>\<open>src/common/power\<close>: hints of the framework become locks of a
    performance library, recorded in a linked list; board files override the hints.
  \<^item> The location client \<^verbatim>\<open>src/opensource/location/loc_api/loc_api_v02\<close>: clients of the
    modem's location service, with callbacks for indications, and synchronous requests of
    several threads on top of it.
  \<^item> The rmnet control library and tool \<^verbatim>\<open>src/opensource/dataservices/rmnetctl\<close>: fixed-size
    messages to a kernel driver over a netlink socket.
  \<^item> The soft access point \<^verbatim>\<open>src/opensource/softap/softap/sdk/qsap_api.c\<close>: an editor of
    configuration files and MAC lists behind a text command interface.

  \<^bold>\<open>Theories.\<close> \<open>C_Prelude\<close> holds the C integers, the string functions and the lemmas on them
  that several parts share.

  \<^item> \<open>Dtb_Chips\<close> (\<^verbatim>\<open>chipInfo_t\<close> on a heap, \<^verbatim>\<open>chip_add\<close>, \<^verbatim>\<open>chip_deleteall\<close>), \<open>Dtb_Scan\<close>
    (\<^verbatim>\<open>GetVersionInfo\<close>, \<^verbatim>\<open>getChipInfo\<close>), \<open>Dtb_Image\<close> (\<^verbatim>\<open>parse_commandline\<close>, \<^verbatim>\<open>main\<close>), with
    \<open>Dtb_Correct\<close> and \<open>Dtb_Layout\<close> for the proofs: the list stays sorted and free of
    duplicates and refines insertion into a sorted list; a listing yields the cross product
    of its identifiers; the image can be read back entry by entry.
  \<^item> \<open>Power_List\<close> (\<^verbatim>\<open>list.c\<close>), \<open>Power_Hints\<close> (\<^verbatim>\<open>utils.c\<close>, \<^verbatim>\<open>hint-data.c\<close>), \<open>Power_Meta\<close>
    (\<^verbatim>\<open>metadata-parser.c\<close>), \<open>Power_Hal\<close> (\<^verbatim>\<open>power.c\<close> and the board files), \<open>Power_Correct\<close>: no
    sequence of framework calls touches a dangling node, every lock held is recorded once,
    and the display locks match the flags.
  \<^item> \<open>Loc_Tables\<close>, \<open>Loc_Client\<close> (\<^verbatim>\<open>loc_api_v02_client.c\<close>), \<open>Loc_Sync\<close>
    (\<^verbatim>\<open>loc_api_sync_req.c\<close>), \<open>Loc_Lookup\<close>, \<open>Loc_Session\<close>, \<open>Loc_Supported\<close> and \<open>Loc_Request\<close>: the
    tables are consistent, callbacks never read freed data while the framework is well
    behaved, slots are never shared between threads, and a request that is answered
    delivers the answer, from the request to the caller's buffer. The last one composes
    the client with the synchronous layer.
  \<^item> \<open>Rmnet_Lib\<close>, \<open>Rmnet_Api\<close> (\<^verbatim>\<open>librmnetctl.c\<close>), \<open>Rmnet_Cli\<close> (\<^verbatim>\<open>rmnetcli.c\<close>), \<open>Rmnet_Correct\<close>: no
    call and no command leaks, a format that was set is read back, and exactly which errors
    free a buffer twice or print text from behind the table of messages.
  \<^item> \<open>Sap_Config\<close> (parameters and security mode), \<open>Sap_Mac\<close> (MAC lists, WEP keys, command
    numbers, defaults), \<open>Sap_File\<close>, \<open>Sap_Correct\<close>, \<open>Sap_Lists\<close>: what was written is read back
    and nothing else changes, the security mode and the lists behave as documented on
    well-formed files, and where they do not.

  \<^bold>\<open>Interfaces.\<close> Each part states what its clients rely on as a locale and proves it for the
  model: \<open>id_store\<close> (a store of identified records; the chip list), \<open>lock_table\<close> (a table of
  held locks; the hint list), \<open>id_table\<close> (a table with unique identifiers; the event and the
  response table), \<open>handle_api\<close> (sessions with handles; the location client), \<open>nl_call\<close> (a
  call that keeps memory and descriptors; thirteen calls of the control library) and
  \<open>param_file\<close> (named parameters that can be written, enabled and disabled; the lines of a
  configuration file). The proofs about scans, HAL states, sessions, the command line tool
  and the security mode use these interfaces, not the representation.

  \<^bold>\<open>State and errors.\<close> Linked structures are maps from addresses to records, and a dangling
  access is \<open>None\<close> or the value \<open>Fault\<close>. Return codes are the integers or constructors of
  the source. What the environment decides (results of system calls, of the allocator, of
  the modem, the kernel, the compiler, and the contents of uninitialised memory) is an
  argument of the operations; a theorem that needs it to behave says so in a hypothesis, and
  its witness shows an environment that does. Interleavings of threads are a step relation
  (\<open>sync_step\<close>), with spurious wake-ups as an option; sequences of client operations and of
  framework calls are reachability relations (\<open>client_reach\<close>, \<open>hal_reach\<close>).

  \<^bold>\<open>Loops.\<close> Loops over data end by construction. Loops over linked structures, and the loop
  over the argument of the MAC list command, may run forever in C and are partial functions
  with the value \<open>None\<close> for that; the properties about them state that they return. The retry
  loop of \<^verbatim>\<open>locClientOpen\<close> counts its attempts. Machine integers are words, or integers with
  the wrap-around written out, where the code can reach their bounds: image offsets, masks of
  supported messages, perf-lock handles, lengths that are decremented past zero. No fuel is
  used.

  \<^bold>\<open>Assumptions of the models.\<close> Files do not change while the image tool reads them where its
  layout theorem says so. A \<^verbatim>\<open>long\<close> has 64 bits in the image tool, which runs on the build
  host, and 32 bits on the device. Paths of the soft access point are shorter than the buffer of 156 bytes for the
  temporary name, and response buffers are shorter than \<open>2 ^ 31\<close>.

  \<^bold>\<open>Not modelled.\<close> Of the location adapter \<^verbatim>\<open>LocApiV02.cpp\<close>, only the hand-over of responses to
  the synchronous layer. Of the soft access point, the dispatch of get and set requests, the
  channel, rate and WPS settings, the ioctls, the control socket and the driver control
  (\<^verbatim>\<open>qsap.c\<close>). The statistics tool \<^verbatim>\<open>datatop\<close>, the data services client \<^verbatim>\<open>ds_client.c\<close>, disk
  encryption \<^verbatim>\<open>cryptfs_hw.c\<close> and \<^verbatim>\<open>init_msm.c\<close> are next in the plan. Generated QMI tables, log
  names, kernel headers, JNI glue and the C++ subclasses of framework classes outside the
  tree carry no logic to verify here.
\<close>

end
